(* ===== verification/LD_Prelude.thy ===== *)
theory LD_Prelude
  imports Main "HOL-Library.Word"
begin

unbundle bit_operations_syntax

text \<open>
  Shared vocabulary of the development: the widths of the C integer types, the
  little-endian layout of integers in memory and on the wire, results of fallible
  code as sums, and the few generic facts on lists and words that several components
  use.  The collections \<open>drv_simps\<close>, \<open>wire_simps\<close> and \<open>sql_simps\<close> gather the
  rewrite rules of the driver, the message layer and the SQL layer.
\<close>

named_theorems drv_simps "equations of the kernel driver's memory operations"
named_theorems wire_simps "equations of the message framing layer"
named_theorems sql_simps "equations of the SQL text layer"

subsection \<open>C integer types\<close>

type_synonym byte = "8 word"
type_synonym u16 = "16 word"
type_synonym u32 = "32 word"
type_synonym u64 = "64 word"
type_synonym i64 = "64 word"

text \<open>A C \<open>int\<close> of the x86-64 ABI; its value is \<open>sint\<close>.\<close>
type_synonym c_int = "32 word"

subsection \<open>Results of code that can fail\<close>

text \<open>\<open>Inl\<close> is the failure, \<open>Inr\<close> the value; \<open>res_bind\<close> stops at the first failure.\<close>

definition res_bind :: "'e + 'a \<Rightarrow> ('a \<Rightarrow> 'e + 'b) \<Rightarrow> 'e + 'b" where
  "res_bind r f = (case r of Inl e \<Rightarrow> Inl e | Inr a \<Rightarrow> f a)"

lemma res_bind_simps [simp]:
  "res_bind (Inl e) f = Inl e"
  "res_bind (Inr a) f = f a"
  by (simp_all add: res_bind_def)

lemma res_bind_Inr_iff: "res_bind r f = Inr b \<longleftrightarrow> (\<exists>a. r = Inr a \<and> f a = Inr b)"
  by (cases r) auto

lemma res_bind_InlE:
  assumes "res_bind r f = Inl e"
  obtains "r = Inl e" | a where "r = Inr a" "f a = Inl e"
  using assms by (cases r) auto

subsection \<open>Little-endian integers\<close>

text \<open>\<open>le_bytes n w\<close> is what \<open>memcpy\<close> of \<open>n\<close> bytes from an integer yields on x86.\<close>

fun le_bytes :: "nat \<Rightarrow> 'a::len word \<Rightarrow> byte list" where
  "le_bytes 0 w = []"
| "le_bytes (Suc n) w = ucast w # le_bytes n (drop_bit 8 w)"

fun le_word :: "byte list \<Rightarrow> 'a::len word" where
  "le_word [] = 0"
| "le_word (b # bs) = ucast b OR push_bit 8 (le_word bs)"

lemma length_le_bytes [simp]: "length (le_bytes n w) = n"
  by (induction n arbitrary: w) auto

lemma le_word_le_bytes_take:
  "le_word (le_bytes n (w :: 'a::len word)) = take_bit (8 * n) w"
proof (induction n arbitrary: w)
  case 0
  then show ?case by simp
next
  case (Suc n)
  show ?case
    by (rule bit_word_eqI)
       (auto simp: Suc.IH bit_simps not_less le_add_diff_inverse2)
qed

lemma le_word_le_bytes [simp]:
  "LENGTH('a) \<le> 8 * n \<Longrightarrow> le_word (le_bytes n (w :: 'a::len word)) = w"
  by (simp add: le_word_le_bytes_take take_bit_word_eq_self)

subsection \<open>C integers as numbers\<close>

lemma sint_of_nat32 [simp]: "i < 2 ^ 31 \<Longrightarrow> sint (of_nat i :: c_int) = int i"
  by (simp add: sint_uint unsigned_of_nat take_bit_nat_eq_self)
     (rule signed_take_bit_int_eq_self, simp_all)

lemma of_nat32_inj: "i < 2 ^ 31 \<Longrightarrow> j < 2 ^ 31 \<Longrightarrow> (of_nat i :: c_int) = of_nat j \<longleftrightarrow> i = j"
  by (metis of_nat_eq_iff sint_of_nat32)

lemma of_nat32_unsigned_inj:
  "i < 2 ^ 32 \<Longrightarrow> j < 2 ^ 32 \<Longrightarrow> (of_nat i :: c_int) = of_nat j \<longleftrightarrow> i = j"
  by (simp add: word_of_nat_eq_iff take_bit_nat_eq_self)

text \<open>A word that is not negative is the word of its value.\<close>

lemma sint_nonneg_of_nat:
  assumes "0 \<le> sint (w :: c_int)"
  obtains n where "w = of_nat n" "n < 2 ^ 31" "sint w = int n"
proof
  show "w = of_nat (nat (sint w))"
    using assms by (metis of_int_of_nat_eq of_int_sint of_nat_nat scast_id)
  show "nat (sint w) < 2 ^ 31" using sint_lt [of w] assms by simp
  show "sint w = int (nat (sint w))" using assms by simp
qed

lemma of_nat32_neq_minus_one:
  assumes i: "i < 2 ^ 31"
  shows "(of_nat i :: c_int) \<noteq> - 1"
proof
  assume "(of_nat i :: c_int) = - 1"
  with sint_of_nat32 [OF i] show False by simp
qed

subsection \<open>Arrays\<close>

text \<open>A read at an index, \<open>None\<close> past the end.\<close>

definition at :: "'a list \<Rightarrow> nat \<Rightarrow> 'a option" where
  "at xs i = (if i < length xs then Some (xs ! i) else None)"

lemma at_Some [simp]: "i < length xs \<Longrightarrow> at xs i = Some (xs ! i)"
  by (simp add: at_def)

lemma at_None [simp]: "length xs \<le> i \<Longrightarrow> at xs i = None"
  by (simp add: at_def)

text \<open>The first index in a range with a property, as a scanning loop finds it.\<close>

fun first_index :: "(nat \<Rightarrow> bool) \<Rightarrow> nat \<Rightarrow> nat \<Rightarrow> nat option" where
  "first_index P i 0 = None"
| "first_index P i (Suc n) = (if P i then Some i else first_index P (Suc i) n)"

lemma first_index_None_iff: "first_index P i n = None \<longleftrightarrow> (\<forall>k<n. \<not> P (i + k))"
proof (induction n arbitrary: i)
  case 0
  then show ?case by simp
next
  case (Suc n)
  then show ?case
    by (auto simp: less_Suc_eq_0_disj)
qed

lemma first_index_Some_iff:
  "first_index P i n = Some j \<longleftrightarrow>
     i \<le> j \<and> j < i + n \<and> P j \<and> (\<forall>k. i \<le> k \<and> k < j \<longrightarrow> \<not> P k)"
proof (induction n arbitrary: i)
  case 0
  then show ?case by auto
next
  case (Suc n)
  show ?case
  proof (cases "P i")
    case True
    then show ?thesis by (auto simp: not_less_iff_gr_or_eq intro: le_antisym)
  next
    case False
    then show ?thesis
      by (auto simp: Suc.IH Suc_le_eq) (metis le_neq_implies_less)+
  qed
qed

end
