(* ===== verification/Driver_State.thy ===== *)
theory Driver_State
  imports LD_Prelude
begin

text \<open>
  The kernel module \<open>Driver/spybot.c\<close>: its constants, the variables it owns and the
  kernel memory it reads and writes.

  Kernel memory is a map from addresses to 64-bit words (\<open>kmem\<close>), page-table entries a
  map from entry addresses to entries (\<open>ptes\<close>), the descriptor table a map from
  addresses to gates (\<open>idt_mem\<close>), and the objects obtained from \<open>kmalloc\<close> a map from
  addresses to structures (\<open>hooks\<close>); an address outside a map is not mapped and an access
  to it is a fault.  Faults are values of \<open>fault\<close>: a dereferenced null pointer, an access
  to memory that is not mapped, an index outside a static array, a write to a page
  without write permission.

  Kernel services that are not part of this repository are parameters: the record
  \<open>kenv\<close> holds the constants of the kernel build and \<open>lookup_address\<close>, and \<open>uaccess\<close> the
  outcomes of \<open>copy_from_user\<close>, \<open>copy_to_user\<close> and \<open>pid_task\<close> during one call.  What the
  driver hands to such a service (bytes for user space, signals) is recorded in the
  state, in order.  Log lines (\<open>printk\<close>) are not modelled.
\<close>

subsection \<open>Constants\<close>

definition KILL :: c_int where "KILL = 0"
definition SUSPEND :: c_int where "SUSPEND = 1"
definition CONT :: c_int where "CONT = 2"
definition SCT_SCAN :: c_int where "SCT_SCAN = 3"
definition SCT_FIX :: c_int where "SCT_FIX = 4"
definition IDT_SCAN :: c_int where "IDT_SCAN = 5"
definition GET_HOOK :: c_int where "GET_HOOK = 6"

definition MIN_HOOK_ID :: u32 where "MIN_HOOK_ID = 1000"
definition MAX_HOOK_ID :: u32 where "MAX_HOOK_ID = 9999"
definition MAX_IDT_SIZE :: nat where "MAX_IDT_SIZE = 32"

lemmas option_codes [drv_simps] =
  KILL_def SUSPEND_def CONT_def SCT_SCAN_def SCT_FIX_def IDT_SCAN_def GET_HOOK_def

lemmas driver_limits = MIN_HOOK_ID_def MAX_HOOK_ID_def MAX_IDT_SIZE_def

text \<open>Numbers of the Linux x86-64 interface the driver names.\<close>

definition SIGKILL :: int where "SIGKILL = 9"
definition SIGSTOP :: int where "SIGSTOP = 19"
definition SIGCONT :: int where "SIGCONT = 18"
definition EFAULT :: int where "EFAULT = 14"
definition EINVAL :: int where "EINVAL = 22"
definition ENOTTY :: int where "ENOTTY = 25"
definition PAGE_RW :: u64 where "PAGE_RW = 2"

lemmas linux_numbers = SIGKILL_def SIGSTOP_def SIGCONT_def EFAULT_def EINVAL_def ENOTTY_def

subsection \<open>Data\<close>

datatype fault = NullDeref | BadPointer | ArrayBounds | PageFault

text \<open>\<open>struct gate_struct\<close> of the interrupt descriptor table.\<close>

record gate_struct =
  offset_low :: u16
  segment :: u16
  gate_bits :: u16
  offset_middle :: u16
  offset_high :: u32

text \<open>\<open>struct syscall_hook\<close>; a pointer is an address, 0 is \<open>NULL\<close>.\<close>

record syscall_hook =
  sh_hook_id :: c_int
  sh_pid :: c_int
  sh_parent_pid :: c_int
  sh_next :: u64

record kenv =
  NR_syscalls :: nat
  NR_execve :: nat
  CONFIG_X86_64 :: bool
  IOWR :: "char \<Rightarrow> nat \<Rightarrow> nat \<Rightarrow> u32"
  lookup_address :: "u64 \<Rightarrow> u64 option"
  new_execve_addr :: u64

record uaccess =
  from_user :: "u64 \<Rightarrow> nat \<Rightarrow> byte list option"
  to_user_ok :: "u64 \<Rightarrow> nat \<Rightarrow> bool"
  task_exists :: "c_int \<Rightarrow> bool"

record spybot =
  kmem :: "u64 \<Rightarrow> u64 option"
  ptes :: "u64 \<Rightarrow> u64 option"
  idt_mem :: "u64 \<Rightarrow> gate_struct option"
  hooks :: "u64 \<Rightarrow> syscall_hook option"
  sys_call_table :: u64
  temp_sct :: "u64 list"
  idtr :: u64
  temp_idt :: "gate_struct list"
  execve_scf :: u64
  hook_id :: u32
  hooks_list :: u64
  drv_result :: c_int
  major_number :: c_int
  chrdev_registered :: bool
  cdev_added :: bool
  signals :: "(c_int \<times> int) list"
  user_writes :: "(u64 \<times> byte list) list"

text \<open>The two request codes, \<open>_IOWR('k', 1, int[2])\<close> and \<open>_IOWR('k', 1, int)\<close>.\<close>

definition SPYBOT_IOC_SEND :: "kenv \<Rightarrow> u32" where
  "SPYBOT_IOC_SEND k = IOWR k (CHR ''k'') 1 8"

definition SPYBOT_IOC_RECV :: "kenv \<Rightarrow> u32" where
  "SPYBOT_IOC_RECV k = IOWR k (CHR ''k'') 1 4"

subsection \<open>Memory accesses\<close>

definition rd64 :: "u64 \<Rightarrow> spybot \<Rightarrow> fault + u64" where
  "rd64 a s = (case kmem s a of None \<Rightarrow> Inl PageFault | Some v \<Rightarrow> Inr v)"

text \<open>A store needs the write bit of the page that holds the address.\<close>

definition page_writable :: "kenv \<Rightarrow> spybot \<Rightarrow> u64 \<Rightarrow> bool" where
  "page_writable k s a =
     (case lookup_address k a of
        None \<Rightarrow> False
      | Some p \<Rightarrow> (case ptes s p of None \<Rightarrow> False | Some v \<Rightarrow> v AND PAGE_RW \<noteq> 0))"

definition wr64 :: "kenv \<Rightarrow> u64 \<Rightarrow> u64 \<Rightarrow> spybot \<Rightarrow> fault + spybot" where
  "wr64 k a v s =
     (if kmem s a \<noteq> None \<and> page_writable k s a
      then Inr (s\<lparr>kmem := (kmem s)(a := Some v)\<rparr>) else Inl PageFault)"

text \<open>The address of \<open>sys_call_table[i]\<close> and of entry \<open>i\<close> of the descriptor table.\<close>

definition sct_addr :: "spybot \<Rightarrow> nat \<Rightarrow> u64" where
  "sct_addr s i = sys_call_table s + 8 * of_nat i"

definition gate_addr :: "spybot \<Rightarrow> nat \<Rightarrow> u64" where
  "gate_addr s i = idtr s + 16 * of_nat i"

lemma sct_addr_frame [simp]:
  "sct_addr (s\<lparr>kmem := m\<rparr>) = sct_addr s"
  "sct_addr (s\<lparr>ptes := q\<rparr>) = sct_addr s"
  "sct_addr (s\<lparr>hooks := h\<rparr>) = sct_addr s"
  "sct_addr (s\<lparr>hooks_list := a\<rparr>) = sct_addr s"
  "sct_addr (s\<lparr>temp_sct := t\<rparr>) = sct_addr s"
  "sct_addr (s\<lparr>temp_idt := ti\<rparr>) = sct_addr s"
  "sct_addr (s\<lparr>execve_scf := e\<rparr>) = sct_addr s"
  "sct_addr (s\<lparr>drv_result := c\<rparr>) = sct_addr s"
  "sct_addr (s\<lparr>user_writes := u\<rparr>) = sct_addr s"
  "sct_addr (s\<lparr>signals := g\<rparr>) = sct_addr s"
  "sct_addr (s\<lparr>hook_id := w\<rparr>) = sct_addr s"
  by (simp_all add: sct_addr_def fun_eq_iff)

definition rd_gate :: "spybot \<Rightarrow> nat \<Rightarrow> fault + gate_struct" where
  "rd_gate s i = (case idt_mem s (gate_addr s i) of None \<Rightarrow> Inl PageFault | Some g \<Rightarrow> Inr g)"

text \<open>Reads and writes of a structure through a pointer to it.\<close>

definition rd_hook :: "u64 \<Rightarrow> spybot \<Rightarrow> fault + syscall_hook" where
  "rd_hook p s =
     (if p = 0 then Inl NullDeref
      else case hooks s p of None \<Rightarrow> Inl BadPointer | Some h \<Rightarrow> Inr h)"

definition wr_hook :: "u64 \<Rightarrow> (syscall_hook \<Rightarrow> syscall_hook) \<Rightarrow> spybot \<Rightarrow> fault + spybot" where
  "wr_hook p f s =
     res_bind (rd_hook p s) (\<lambda>h. Inr (s\<lparr>hooks := (hooks s)(p \<mapsto> f h)\<rparr>))"

text \<open>\<open>kfree\<close>, which accepts a null pointer.\<close>

definition kfree :: "u64 \<Rightarrow> spybot \<Rightarrow> spybot" where
  "kfree p s = (if p = 0 then s else s\<lparr>hooks := (hooks s)(p := None)\<rparr>)"

subsection \<open>Page permissions\<close>

definition setPage_ro :: "kenv \<Rightarrow> u64 \<Rightarrow> spybot \<Rightarrow> fault + spybot" where
  "setPage_ro k addr s =
     (case lookup_address k addr of
        None \<Rightarrow> Inl NullDeref
      | Some pte \<Rightarrow>
          (case ptes s pte of
             None \<Rightarrow> Inl BadPointer
           | Some v \<Rightarrow> Inr (s\<lparr>ptes := (ptes s)(pte \<mapsto> v AND NOT PAGE_RW)\<rparr>)))"

definition setPage_rw :: "kenv \<Rightarrow> u64 \<Rightarrow> spybot \<Rightarrow> fault + spybot" where
  "setPage_rw k addr s =
     (case lookup_address k addr of
        None \<Rightarrow> Inl NullDeref
      | Some pte \<Rightarrow>
          (case ptes s pte of
             None \<Rightarrow> Inl BadPointer
           | Some v \<Rightarrow>
               Inr (if v AND NOT PAGE_RW \<noteq> 0
                    then s\<lparr>ptes := (ptes s)(pte \<mapsto> v OR PAGE_RW)\<rparr> else s)))"

text \<open>The sequence every table update of the driver follows: open the page of the table,
  store one entry, close the page.\<close>

definition sct_store :: "kenv \<Rightarrow> nat \<Rightarrow> u64 \<Rightarrow> spybot \<Rightarrow> fault + spybot" where
  "sct_store k i v s =
     res_bind (setPage_rw k (sys_call_table s) s) (\<lambda>s.
     res_bind (wr64 k (sct_addr s i) v s) (\<lambda>s.
     setPage_ro k (sys_call_table s) s))"

subsection \<open>The table seen as a list\<close>

definition sct_list :: "kenv \<Rightarrow> spybot \<Rightarrow> u64 option list" where
  "sct_list k s = map (\<lambda>i. kmem s (sct_addr s i)) [0..<NR_syscalls k]"

text \<open>
  What the driver needs of the running kernel: the table has fewer than \<open>2 ^ 28\<close> entries,
  all mapped, and one page-table entry governs all of them; that entry has a bit other
  than the write bit set (the present bit of a mapped page).
\<close>

definition sct_ok :: "kenv \<Rightarrow> spybot \<Rightarrow> bool" where
  "sct_ok k s \<longleftrightarrow>
     NR_syscalls k < 2 ^ 28 \<and>
     (\<forall>i < NR_syscalls k. kmem s (sct_addr s i) \<noteq> None) \<and>
     (\<exists>p v. ptes s p = Some v \<and> v AND NOT PAGE_RW \<noteq> 0 \<and>
        lookup_address k (sys_call_table s) = Some p \<and>
        (\<forall>i < NR_syscalls k. lookup_address k (sct_addr s i) = Some p))"

lemma sct_addr_inj:
  assumes "sct_addr s i = sct_addr s j" "i < 2 ^ 28" "j < 2 ^ 28"
  shows "i = j"
proof -
  have *: "unat (8 * of_nat n :: u64) = 8 * n" if "n < 2 ^ 28" for n
    using that by (simp add: unat_word_ariths unat_of_nat take_bit_eq_mod)
  from assms(1) have "(8 * of_nat i :: u64) = 8 * of_nat j" by (simp add: sct_addr_def)
  then have "8 * i = 8 * j" using * assms(2,3) by metis
  then show ?thesis by simp
qed

lemma PAGE_RW_nonzero [simp]: "PAGE_RW \<noteq> 0"
  by (simp add: PAGE_RW_def)

lemma rw_ro_word [simp]:
  "(v OR PAGE_RW) AND PAGE_RW = PAGE_RW"
  "(v OR PAGE_RW) AND NOT PAGE_RW = v AND NOT PAGE_RW"
  "(v AND NOT PAGE_RW) AND PAGE_RW = 0"
  "(v AND NOT PAGE_RW) AND NOT PAGE_RW = v AND NOT PAGE_RW"
  by (auto intro!: bit_word_eqI simp: PAGE_RW_def bit_simps)

text \<open>The effect of a table update, as one equation.\<close>

lemma sct_store_eq:
  assumes "sct_ok k s" "i < NR_syscalls k"
  obtains p v where
    "lookup_address k (sys_call_table s) = Some p" "ptes s p = Some v"
    "v AND NOT PAGE_RW \<noteq> 0"
    "sct_store k i x s =
       Inr (s\<lparr>kmem := (kmem s)(sct_addr s i \<mapsto> x),
              ptes := (ptes s)(p \<mapsto> v AND NOT PAGE_RW)\<rparr>)"
proof -
  from assms obtain p v where pv: "ptes s p = Some v" "v AND NOT PAGE_RW \<noteq> 0"
    "lookup_address k (sys_call_table s) = Some p"
    "lookup_address k (sct_addr s i) = Some p" "kmem s (sct_addr s i) \<noteq> None"
    unfolding sct_ok_def by blast
  have "sct_store k i x s =
       Inr (s\<lparr>kmem := (kmem s)(sct_addr s i \<mapsto> x),
              ptes := (ptes s)(p \<mapsto> v AND NOT PAGE_RW)\<rparr>)"
    using pv by (simp add: sct_store_def setPage_rw_def setPage_ro_def wr64_def
        page_writable_def sct_addr_def)
  with pv show thesis by (intro that)
qed

lemma sct_store_ok:
  assumes "sct_ok k s" "i < NR_syscalls k" "sct_store k i x s = Inr s'"
  shows "sct_ok k s'"
proof -
  from assms(1,2) obtain p v where
    pv: "lookup_address k (sys_call_table s) = Some p" "ptes s p = Some v"
      "v AND NOT PAGE_RW \<noteq> 0"
    and eq: "sct_store k i x s =
       Inr (s\<lparr>kmem := (kmem s)(sct_addr s i \<mapsto> x),
              ptes := (ptes s)(p \<mapsto> v AND NOT PAGE_RW)\<rparr>)"
    by (rule sct_store_eq)
  from eq assms(3) have s': "s' = s\<lparr>kmem := (kmem s)(sct_addr s i \<mapsto> x),
              ptes := (ptes s)(p \<mapsto> v AND NOT PAGE_RW)\<rparr>" by simp
  from assms(1) pv(1) have
    nr: "NR_syscalls k < 2 ^ 28" "\<forall>i < NR_syscalls k. kmem s (sct_addr s i) \<noteq> None"
      "\<forall>i < NR_syscalls k. lookup_address k (sct_addr s i) = Some p"
    unfolding sct_ok_def by auto
  with pv show ?thesis
    unfolding sct_ok_def by (auto simp: s')
qed

lemma sct_store_list:
  assumes "sct_ok k s" "i < NR_syscalls k" "sct_store k i x s = Inr s'"
  shows "sct_list k s' = (sct_list k s)[i := Some x]"
proof -
  from assms(1,2) obtain p v where
    "sct_store k i x s =
       Inr (s\<lparr>kmem := (kmem s)(sct_addr s i \<mapsto> x),
              ptes := (ptes s)(p \<mapsto> v AND NOT PAGE_RW)\<rparr>)"
    by (rule sct_store_eq)
  with assms(3) have s': "s' = s\<lparr>kmem := (kmem s)(sct_addr s i \<mapsto> x),
              ptes := (ptes s)(p \<mapsto> v AND NOT PAGE_RW)\<rparr>" by simp
  from assms(1) have nr: "NR_syscalls k < 2 ^ 28" by (simp add: sct_ok_def)
  show ?thesis
  proof (rule nth_equalityI)
    show "length (sct_list k s') = length ((sct_list k s)[i := Some x])"
      by (simp add: sct_list_def)
  next
    fix j
    assume "j < length (sct_list k s')"
    then have j: "j < NR_syscalls k" by (simp add: sct_list_def)
    have "sct_addr s j = sct_addr s i \<longleftrightarrow> j = i"
      using sct_addr_inj [of s j i] j assms(2) nr by auto
    then show "sct_list k s' ! j = (sct_list k s)[i := Some x] ! j"
      using j assms(2) by (auto simp: sct_list_def s' nth_list_update)
  qed
qed

end
