(* ===== verification/Cpp_Runtime.thy ===== *)
theory Cpp_Runtime
  imports Driver_State
begin

text \<open>
  What the user space programs take from the C++ language and its standard library: exceptions
  as values, strings as lists of characters and buffers as lists of bytes, the numeric
  conversions \<open>std::to_string\<close>, \<open>std::stoi\<close> and \<open>atoi\<close>, and input streams with
  \<open>std::getline\<close>.
\<close>

text \<open>Why a function did not return.  The first group are C++ exceptions (with
  \<open>std::exception\<close> as a base class, so the handlers of the program catch them).  The others no
  handler sees: the process is ended by the signal of a broken pipe, it has undefined
  behaviour, or a system call of it faults inside the kernel.\<close>

datatype stop =
    RuntimeError string | LengthError | BadArrayNewLength | JsonError | InvalidArgument
  | OutOfRange | LogicError
  | Sigpipe | Undefined | KernelFault fault

definition catchable :: "stop \<Rightarrow> bool" where
  "catchable e \<longleftrightarrow> (case e of Sigpipe \<Rightarrow> False | Undefined \<Rightarrow> False | KernelFault _ \<Rightarrow> False | _ \<Rightarrow> True)"

text \<open>A statement of the program: it changes the state and returns or stops; what it changed
  before it stopped stays changed.\<close>

type_synonym ('s, 'a) prog = "'s \<Rightarrow> (stop + 'a) \<times> 's"

definition ret :: "'a \<Rightarrow> ('s, 'a) prog" where
  "ret a s = (Inr a, s)"

definition lift :: "stop + 'a \<Rightarrow> ('s, 'a) prog" where
  "lift r s = (r, s)"

definition bnd :: "('s, 'a) prog \<Rightarrow> ('a \<Rightarrow> ('s, 'b) prog) \<Rightarrow> ('s, 'b) prog" where
  "bnd m f s = (case m s of (Inl e, s) \<Rightarrow> (Inl e, s) | (Inr a, s) \<Rightarrow> f a s)"

lemma ret_run [simp]: "ret a s = (Inr a, s)"
  by (simp add: ret_def)

lemma lift_run [simp]: "lift r s = (r, s)"
  by (simp add: lift_def)

lemma bnd_Inr [simp]: "m s = (Inr a, s') \<Longrightarrow> bnd m f s = f a s'"
  by (simp add: bnd_def)

lemma bnd_Inl [simp]: "m s = (Inl e, s') \<Longrightarrow> bnd m f s = (Inl e, s')"
  by (simp add: bnd_def)

lemma bnd_InrE:
  assumes "bnd m f s = (Inr b, s'')"
  obtains a s' where "m s = (Inr a, s')" "f a s' = (Inr b, s'')"
  using assms by (auto simp: bnd_def split: prod.splits sum.splits)

subsection \<open>Strings and buffers\<close>

definition byte_of_char :: "char \<Rightarrow> byte" where
  "byte_of_char c = of_nat (of_char c)"

definition char_of_byte :: "byte \<Rightarrow> char" where
  "char_of_byte b = char_of (unat b)"

definition string_bytes :: "string \<Rightarrow> byte list" where
  "string_bytes = map byte_of_char"

definition bytes_string :: "byte list \<Rightarrow> string" where
  "bytes_string = map char_of_byte"

lemma char_of_byte_of_char [simp]: "char_of_byte (byte_of_char c) = c"
proof -
  have "unat (of_nat (of_char c) :: byte) = of_char c"
    by (simp add: unat_of_nat)
  then show ?thesis by (simp add: char_of_byte_def byte_of_char_def)
qed

lemma bytes_string_bytes [simp]: "bytes_string (string_bytes s) = s"
  by (simp add: bytes_string_def string_bytes_def comp_def)

lemma length_string_bytes [simp]: "length (string_bytes s) = length s"
  by (simp add: string_bytes_def)

lemma length_bytes_string [simp]: "length (bytes_string s) = length s"
  by (simp add: bytes_string_def)

text \<open>The part of a string that a C function sees through \<open>c_str\<close>.\<close>

definition c_str :: "string \<Rightarrow> string" where
  "c_str s = takeWhile (\<lambda>c. c \<noteq> CHR 0x00) s"

subsection \<open>Numbers in strings\<close>

definition digit_char :: "nat \<Rightarrow> char" where
  "digit_char d = char_of (48 + d)"

definition is_digit :: "char \<Rightarrow> bool" where
  "is_digit c \<longleftrightarrow> 48 \<le> (of_char c :: nat) \<and> (of_char c :: nat) \<le> 57"

definition is_space :: "char \<Rightarrow> bool" where
  "is_space c \<longleftrightarrow> c = CHR '' '' \<or> (9 \<le> (of_char c :: nat) \<and> (of_char c :: nat) \<le> 13)"

fun dec_digits :: "nat \<Rightarrow> string" where
  "dec_digits n =
     (if n < 10 then [digit_char n] else dec_digits (n div 10) @ [digit_char (n mod 10)])"

declare dec_digits.simps [simp del]

definition int_text :: "int \<Rightarrow> string" where
  "int_text i = (if i < 0 then ''-'' @ dec_digits (nat (- i)) else dec_digits (nat i))"

text \<open>\<open>std::to_string\<close> of an \<open>int\<close>.\<close>

definition to_string :: "c_int \<Rightarrow> string" where
  "to_string w = int_text (sint w)"

definition digits_value :: "string \<Rightarrow> nat" where
  "digits_value ds = foldl (\<lambda>n c. 10 * n + (of_char c - 48)) 0 ds"

text \<open>\<open>strtol\<close> with base 10 before any clamping: white space, a sign, digits; \<open>None\<close> when
  there is no digit.\<close>

definition strtol :: "string \<Rightarrow> int option" where
  "strtol s =
     (let s = dropWhile is_space s;
          neg = (s \<noteq> [] \<and> hd s = CHR ''-'');
          s = (if s \<noteq> [] \<and> (hd s = CHR ''-'' \<or> hd s = CHR ''+'') then tl s else s);
          ds = takeWhile is_digit s
      in if ds = [] then None
         else Some (if neg then - int (digits_value ds) else int (digits_value ds)))"

definition stoi :: "string \<Rightarrow> stop + c_int" where
  "stoi s =
     (case strtol s of
        None \<Rightarrow> Inl InvalidArgument
      | Some i \<Rightarrow> if - (2 ^ 31) \<le> i \<and> i < 2 ^ 31 then Inr (word_of_int i) else Inl OutOfRange)"

definition atoi :: "string \<Rightarrow> c_int" where
  "atoi s =
     (case strtol s of
        None \<Rightarrow> 0
      | Some i \<Rightarrow> word_of_int (min (2 ^ 63 - 1) (max (- (2 ^ 63)) i)))"

lemma of_char_digit_char [simp]: "d < 10 \<Longrightarrow> of_char (digit_char d) = 48 + d"
  by (simp add: digit_char_def)

lemma is_digit_digit_char [simp]: "d < 10 \<Longrightarrow> is_digit (digit_char d)"
  by (simp add: is_digit_def)

lemma digit_not_space: "is_digit c \<Longrightarrow> \<not> is_space c"
  by (auto simp: is_digit_def is_space_def)

lemma digit_not_sign: "is_digit c \<Longrightarrow> c \<noteq> CHR ''-'' \<and> c \<noteq> CHR ''+''"
  by (auto simp: is_digit_def)

lemma dec_digits_all: "list_all is_digit (dec_digits n)"
proof (induction n rule: dec_digits.induct)
  case (1 n)
  then show ?case by (subst dec_digits.simps) simp
qed

lemma dec_digits_nonempty [simp]: "dec_digits n \<noteq> []"
  by (subst dec_digits.simps) simp

lemma digits_value_dec_digits [simp]: "digits_value (dec_digits n) = n"
proof (induction n rule: dec_digits.induct)
  case (1 n)
  show ?case
  proof (cases "n < 10")
    case True
    then show ?thesis by (subst dec_digits.simps) (simp add: digits_value_def)
  next
    case False
    with 1 show ?thesis by (subst dec_digits.simps) (simp add: digits_value_def)
  qed
qed

lemma takeWhile_digits [simp]:
  "list_all is_digit ds \<Longrightarrow> r = [] \<or> \<not> is_digit (hd r) \<Longrightarrow> takeWhile is_digit (ds @ r) = ds"
  by (induction ds) (auto simp: takeWhile_eq_Nil_iff)

lemma strtol_int_text:
  assumes "r = [] \<or> \<not> is_digit (hd r)"
  shows "strtol (int_text i @ r) = Some i"
proof -
  let ?n = "nat \<bar>i\<bar>"
  obtain c ds where c: "dec_digits ?n = c # ds" by (cases "dec_digits ?n") simp_all
  with dec_digits_all [of ?n] have d: "is_digit c" by simp
  have t: "takeWhile is_digit (c # ds @ r) = c # ds"
    using takeWhile_digits [OF dec_digits_all [of ?n] assms] c by simp
  have v: "digits_value (c # ds) = ?n"
    using digits_value_dec_digits [of ?n] c by simp
  show ?thesis
  proof (cases "i < 0")
    case True
    then have "int_text i = CHR ''-'' # c # ds" using c by (simp add: int_text_def abs_if)
    moreover have "\<not> is_space (CHR ''-'')" by (simp add: is_space_def)
    ultimately show ?thesis using True t v by (simp add: strtol_def)
  next
    case False
    then have "int_text i = c # ds" using c by (simp add: int_text_def)
    then show ?thesis
      using False t v digit_not_space [OF d] digit_not_sign [OF d] by (simp add: strtol_def)
  qed
qed

lemma stoi_to_string [simp]: "stoi (to_string w) = Inr w"
  using sint_greater_eq [of w] sint_lt [of w] strtol_int_text [of "[]" "sint w"]
  by (simp add: stoi_def to_string_def)

subsection \<open>Input streams\<close>

text \<open>An \<open>ifstream\<close> or \<open>stringstream\<close>: the unread characters, and whether it is in a good
  state.  Opening a file that cannot be opened gives a stream that is not good.\<close>

record istream =
  unread :: string
  good :: bool

definition open_istream :: "string option \<Rightarrow> istream" where
  "open_istream f =
     (case f of
        None \<Rightarrow> \<lparr>unread = [], good = False\<rparr>
      | Some cs \<Rightarrow> \<lparr>unread = cs, good = True\<rparr>)"

text \<open>\<open>std::getline\<close>: the characters up to the delimiter, which is taken off the stream.
  Reaching the end of the stream ends the good state; the call still succeeds when it has
  read something.  \<open>None\<close> is a failed call.\<close>

definition getline :: "char \<Rightarrow> istream \<Rightarrow> string option \<times> istream" where
  "getline d s =
     (if \<not> good s then (None, s)
      else let pre = takeWhile (\<lambda>c. c \<noteq> d) (unread s);
               post = dropWhile (\<lambda>c. c \<noteq> d) (unread s)
           in if post \<noteq> [] then (Some pre, s\<lparr>unread := tl post\<rparr>)
              else (if pre = [] then None else Some pre, \<lparr>unread = [], good = False\<rparr>))"

lemma getline_field:
  "d \<notin> set a \<Longrightarrow>
     getline d \<lparr>unread = a @ d # r, good = True\<rparr> = (Some a, \<lparr>unread = r, good = True\<rparr>)"
  by (auto simp: getline_def takeWhile_append dropWhile_append)

lemma getline_not_good [simp]: "\<not> good s \<Longrightarrow> getline d s = (None, s)"
  by (simp add: getline_def)

lemma getline_end [simp]:
  "getline d \<lparr>unread = [], good = True\<rparr> = (None, \<lparr>unread = [], good = False\<rparr>)"
  by (simp add: getline_def)

lemma getline_shrinks:
  assumes "getline d s = (Some a, s')"
  shows "length (unread s') < length (unread s)"
proof -
  let ?pre = "takeWhile (\<lambda>c. c \<noteq> d) (unread s)" and ?post = "dropWhile (\<lambda>c. c \<noteq> d) (unread s)"
  have l: "length ?pre + length ?post = length (unread s)"
    by (metis length_append takeWhile_dropWhile_id)
  show ?thesis
  proof (cases "?post = []")
    case True
    with assms l show ?thesis
      by (auto simp: getline_def Let_def simp flip: length_greater_0_conv split: if_splits)
  next
    case False
    then have "length (tl ?post) < length (unread s)"
      using l by (cases ?post) simp_all
    with assms False show ?thesis
      by (auto simp: getline_def Let_def split: if_splits)
  qed
qed

lemma getline_shrinks_twice:
  "(Some a, s1) = getline d s \<Longrightarrow> (Some b, s2) = getline e s1 \<Longrightarrow>
     length (unread s2) < length (unread s)"
  by (metis getline_shrinks less_trans)

lemma getline_failed: "getline d s = (None, s') \<Longrightarrow> \<not> good s'"
  by (auto simp: getline_def Let_def split: if_splits)

text \<open>The loop \<open>while (getline(in, a, d), getline(in, b, newline))\<close> of the log readers: the
  comma drops the first result, but a failed first call leaves a stream on which the second
  fails as well.\<close>

function read_pairs :: "char \<Rightarrow> istream \<Rightarrow> (string \<times> string) list" where
  "read_pairs d s =
     (case getline d s of (a, s1) \<Rightarrow>
      case getline (CHR 0x0A) s1 of (b, s2) \<Rightarrow>
      (case (a, b) of
         (Some a, Some b) \<Rightarrow> (a, b) # read_pairs d s2
       | _ \<Rightarrow> []))"
  by pat_completeness auto
termination
  by (relation "measure (\<lambda>(d, s). length (unread s))")
     (auto dest: getline_shrinks_twice)

declare read_pairs.simps [simp del]

text \<open>The loop over a string split at a delimiter, \<open>while (getline(ss, r, d))\<close>.\<close>

function read_fields :: "char \<Rightarrow> istream \<Rightarrow> string list" where
  "read_fields d s =
     (case getline d s of
        (Some a, s') \<Rightarrow> a # read_fields d s'
      | (None, _) \<Rightarrow> [])"
  by pat_completeness auto
termination
  by (relation "measure (\<lambda>(d, s). length (unread s))") (auto dest: getline_shrinks [OF sym])

declare read_fields.simps [simp del]

definition pair_line :: "char \<Rightarrow> string \<times> string \<Rightarrow> string" where
  "pair_line d p = fst p @ d # snd p @ [CHR 0x0A]"

lemma read_pairs_not_good [simp]: "\<not> good s \<Longrightarrow> read_pairs d s = []"
  by (subst read_pairs.simps) simp

lemma read_pairs_lines:
  assumes "\<forall>p \<in> set ps. d \<notin> set (fst p) \<and> CHR 0x0A \<notin> set (snd p)"
  shows "read_pairs d \<lparr>unread = concat (map (pair_line d) ps), good = True\<rparr> = ps"
  using assms
proof (induction ps)
  case Nil
  then show ?case by (subst read_pairs.simps) simp
next
  case (Cons p ps)
  obtain a b where "p = (a, b)" by (cases p)
  with Cons show ?case
    by (subst read_pairs.simps) (simp add: pair_line_def [of _ "(a, b)"] getline_field)
qed

lemma read_fields_line:
  assumes "\<forall>a \<in> set as. d \<notin> set a" "d \<notin> set z" "z \<noteq> []"
  shows "read_fields d \<lparr>unread = concat (map (\<lambda>a. a @ [d]) as) @ z, good = True\<rparr> = as @ [z]"
  using assms(1)
proof (induction as)
  case Nil
  have w: "takeWhile (\<lambda>c. c \<noteq> d) z = z" "dropWhile (\<lambda>c. c \<noteq> d) z = []"
    using assms(2) by (auto simp: takeWhile_eq_all_conv dropWhile_eq_Nil_conv)
  have "getline d \<lparr>unread = z, good = True\<rparr> = (Some z, \<lparr>unread = [], good = False\<rparr>)"
    using assms(3) by (simp only: getline_def istream.simps w Let_def) simp
  moreover have "read_fields d \<lparr>unread = [], good = False\<rparr> = []"
    by (subst read_fields.simps) simp
  ultimately show ?case by (subst read_fields.simps) simp
next
  case (Cons a as)
  then show ?case by (subst read_fields.simps) (simp add: getline_field)
qed

end
