(* ===== verification/Wire.thy ===== *)
theory Wire
  imports Cpp_Runtime
begin

text \<open>
  The messages between client, backend and server (\<open>Helper.h\<close> and \<open>Helper.cpp\<close> of both
  programs, and the framing function of both \<open>JsonResponsePacketSerializer.cpp\<close>): a byte with
  the code, four bytes with the length of the data in little-endian order, the data.  A
  connection is what has arrived on it, one list per arrival, and what was sent.
\<close>

subsection \<open>Connections\<close>

definition CODE_SIZE :: nat where "CODE_SIZE = 1"
definition LEN_SIZE :: nat where "LEN_SIZE = 4"

lemmas wire_sizes [simp] = CODE_SIZE_def LEN_SIZE_def

text \<open>What a \<open>send\<close> meets: a connection that takes all the bytes, an error result, or the
  signal for a pipe whose reader has gone.\<close>

datatype peer = PeerOpen | PeerError | PeerGone

record sock =
  sock_fd :: c_int
  rx :: "byte list list"
  rx_error :: bool
  tx :: "byte list"
  tx_peer :: peer
  allocs :: nat

text \<open>\<open>recv\<close> of at most \<open>n > 0\<close> bytes: it takes from what has arrived first; past the end it
  fails (\<open>None\<close>) or reports that the peer has closed the connection (no bytes).\<close>

definition recv :: "nat \<Rightarrow> sock \<Rightarrow> byte list option \<times> sock" where
  "recv n s =
     (case rx s of
        [] \<Rightarrow> (if rx_error s then None else Some [], s)
      | seg # segs \<Rightarrow>
          (Some (take n seg), s\<lparr>rx := (if n < length seg then drop n seg # segs else segs)\<rparr>))"

definition send :: "byte list \<Rightarrow> sock \<Rightarrow> stop + sock" where
  "send bs s =
     (case tx_peer s of
        PeerOpen \<Rightarrow> Inr (s\<lparr>tx := tx s @ bs\<rparr>)
      | PeerError \<Rightarrow> Inl (RuntimeError ''Error while sending message to client'')
      | PeerGone \<Rightarrow> Inl Sigpipe)"

subsection \<open>Messages\<close>

record message =
  msg_code :: c_int
  msg_length :: c_int
  msg_data :: "byte list"
  msg_msg :: "byte list"

text \<open>\<open>heap k i\<close> is the byte at offset \<open>i\<close> of the \<open>k\<close>-th block that \<open>new\<close> returned: a new block
  is not cleared.\<close>

definition getPartFromSocket ::
  "(nat \<Rightarrow> nat \<Rightarrow> byte) \<Rightarrow> c_int \<Rightarrow> sock \<Rightarrow> stop + byte list \<times> sock" where
  "getPartFromSocket heap bytesNum s =
     (if bytesNum = 0 then Inr ([], s)
      else if sint bytesNum < 0 then Inl BadArrayNewLength
      else
        let data = heap (allocs s);
            n = nat (sint bytesNum)
        in (case recv n (s\<lparr>allocs := allocs s + 1\<rparr>) of
              (None, _) \<Rightarrow>
                Inl (RuntimeError (''Error while receiving from socket: '' @ to_string (sock_fd s)))
            | (Some bs, s) \<Rightarrow> Inr (bs @ map data [length bs..<n], s)))"

definition getAllTheSocket :: "(nat \<Rightarrow> nat \<Rightarrow> byte) \<Rightarrow> sock \<Rightarrow> stop + message \<times> sock" where
  "getAllTheSocket heap s =
     res_bind (getPartFromSocket heap (of_nat CODE_SIZE) s) (\<lambda>(c, s).
     res_bind (getPartFromSocket heap (of_nat LEN_SIZE) s) (\<lambda>(l, s).
     let code = le_word c :: c_int;
         len = le_word l :: c_int
     in if sint len < 0 then Inl LengthError
        else res_bind (getPartFromSocket heap len s) (\<lambda>(data, s).
          if sint (len + of_nat (LEN_SIZE + CODE_SIZE)) < 0 then Inl BadArrayNewLength
          else Inr (\<lparr>msg_code = code, msg_length = len, msg_data = data,
            msg_msg = le_bytes CODE_SIZE code @ le_bytes LEN_SIZE len @ data\<rparr>, s))))"

text \<open>\<open>sendData\<close> hands \<open>send\<close> a pointer and a count computed from the length field; reading past
  the buffer is undefined, and a negative count is refused by \<open>send\<close>.\<close>

definition sendData :: "message \<Rightarrow> sock \<Rightarrow> stop + sock" where
  "sendData m s =
     (let n = sint (msg_length m + of_nat (CODE_SIZE + LEN_SIZE))
      in if n < 0 then Inl (RuntimeError ''Error while sending message to client'')
         else if length (msg_msg m) < nat n then Inl Undefined
         else send (take (nat n) (msg_msg m)) s)"

definition sendData_string :: "string \<Rightarrow> sock \<Rightarrow> stop + sock" where
  "sendData_string m s = send (string_bytes m) s"

text \<open>The private \<open>serializeResponse\<close>: \<open>dump\<close> is the text of the response.  The length goes
  through an \<open>int\<close>; a buffer that is smaller than what is copied into it is undefined.\<close>

definition serialize_message :: "byte list \<Rightarrow> c_int \<Rightarrow> stop + message" where
  "serialize_message dump code =
     (let len = of_nat (length dump) :: c_int;
          size = sint (len + of_nat (LEN_SIZE + CODE_SIZE))
      in if size < 0 then Inl BadArrayNewLength
         else if nat size < LEN_SIZE + CODE_SIZE + length dump then Inl Undefined
         else Inr \<lparr>msg_code = code, msg_length = len, msg_data = dump,
           msg_msg = le_bytes CODE_SIZE code @ le_bytes LEN_SIZE len @ dump\<rparr>)"

record RequestInfo =
  req_id :: byte
  req_buffer :: "byte list"

definition request_info :: "message \<Rightarrow> RequestInfo" where
  "request_info m = \<lparr>req_id = ucast (msg_code m), req_buffer = msg_data m\<rparr>"

subsection \<open>Frames\<close>

text \<open>The data lengths for which the integer arithmetic of both programs is exact.\<close>

definition fits :: "nat \<Rightarrow> bool" where
  "fits n \<longleftrightarrow> n + 5 < 2 ^ 31"

definition frame :: "c_int \<Rightarrow> byte list \<Rightarrow> byte list" where
  "frame code data = le_bytes CODE_SIZE code @ le_bytes LEN_SIZE (of_nat (length data) :: c_int) @ data"

definition framed :: "c_int \<Rightarrow> byte list \<Rightarrow> message" where
  "framed code data = \<lparr>msg_code = code, msg_length = of_nat (length data), msg_data = data,
     msg_msg = frame code data\<rparr>"

text \<open>The arrivals that begin with the rest of a partly read one.\<close>

definition push :: "byte list \<Rightarrow> byte list list \<Rightarrow> byte list list" where
  "push seg segs = (if seg = [] then segs else seg # segs)"

lemma length_frame [simp]: "length (frame code data) = 5 + length data"
  by (simp add: frame_def)

lemma sint_len:
  assumes "fits n"
  shows "sint (of_nat n :: c_int) = int n" "sint (of_nat n + 5 :: c_int) = int n + 5"
proof -
  show "sint (of_nat n :: c_int) = int n" using assms by (simp add: fits_def sint_of_nat32)
  have "of_nat n + 5 = (of_nat (n + 5) :: c_int)" by simp
  then show "sint (of_nat n + 5 :: c_int) = int n + 5"
    using assms sint_of_nat32 [of "n + 5"] by (simp only: fits_def)
qed

lemma serialize_message_fits [wire_simps]:
  "fits (length d) \<Longrightarrow> serialize_message d code = Inr (framed code d)"
  by (simp add: serialize_message_def Let_def sint_len nat_add_distrib framed_def frame_def)

lemma sendData_framed [wire_simps]:
  "fits (length d) \<Longrightarrow> sendData (framed code d) s = send (frame code d) s"
  by (simp add: sendData_def framed_def sint_len nat_add_distrib)

lemma recv_push:
  assumes "rx s = push (a @ b) segs" "length a = n" "0 < n"
  shows "recv n s = (Some a, s\<lparr>rx := push b segs\<rparr>)"
  using assms by (auto simp: recv_def push_def)

lemma getPart_push:
  assumes "rx s = push (a @ b) segs" "length a = n" "0 < n" "fits n"
  shows "getPartFromSocket heap (of_nat n) s =
    Inr (a, s\<lparr>rx := push b segs, allocs := allocs s + 1\<rparr>)"
proof -
  have "(of_nat n :: c_int) \<noteq> 0"
    using sint_len(1) [OF assms(4)] assms(3) by (metis of_nat_0_less_iff less_irrefl sint_0)
  moreover have "recv n (s\<lparr>allocs := allocs s + 1\<rparr>) =
      (Some a, s\<lparr>rx := push b segs, allocs := allocs s + 1\<rparr>)"
    using recv_push [of "s\<lparr>allocs := allocs s + 1\<rparr>" a b segs n] assms by simp
  ultimately show ?thesis
    using assms by (simp add: getPartFromSocket_def sint_len)
qed

lemma getPart_0 [simp]: "getPartFromSocket heap 0 s = Inr ([], s)"
  by (simp add: getPartFromSocket_def)

text \<open>The header of a frame, read from an arrival that holds all of it.\<close>

lemma getAll_header:
  assumes "rx s = push (le_bytes 1 code @ le_bytes 4 len @ b) segs" "0 \<le> sint len"
    and "0 \<le> sint (len + 5)"
  shows "getAllTheSocket heap s =
    res_bind (getPartFromSocket heap len (s\<lparr>rx := push b segs, allocs := allocs s + 2\<rparr>)) (\<lambda>(data, s).
      Inr (\<lparr>msg_code = le_word (le_bytes 1 code), msg_length = len, msg_data = data,
        msg_msg = le_bytes 1 code @ le_bytes 4 len @ data\<rparr>, s))"
proof -
  let ?s1 = "s\<lparr>rx := push (le_bytes 4 len @ b) segs, allocs := allocs s + 1\<rparr>"
  let ?s2 = "s\<lparr>rx := push b segs, allocs := allocs s + 2\<rparr>"
  have "getPartFromSocket heap (of_nat 1) s = Inr (le_bytes 1 code, ?s1)"
    using assms(1) by (intro getPart_push) (simp_all add: fits_def)
  moreover have "getPartFromSocket heap (of_nat 4) ?s1 = Inr (le_bytes 4 len, ?s2)"
    using getPart_push [of ?s1 "le_bytes 4 len" b segs 4 heap] by (simp add: fits_def)
  moreover have "le_word (le_bytes 4 len) = len" by (simp add: le_word_le_bytes)
  moreover have "le_bytes 1 (le_word (le_bytes 1 code) :: c_int) = le_bytes 1 code"
    by (simp only: le_word_le_bytes_take One_nat_def le_bytes.simps)
       (auto intro!: bit_word_eqI simp: bit_simps)
  ultimately show ?thesis
    using assms(2,3) by (simp add: getAllTheSocket_def Let_def split_def not_le)
qed

definition is_code :: "c_int \<Rightarrow> bool" where
  "is_code code \<longleftrightarrow> code = ucast (ucast code :: byte)"

lemma is_code_ucast: "is_code code \<Longrightarrow> ucast (ucast code :: byte) = code"
  by (simp add: is_code_def)

lemma getAll_frame [wire_simps]:
  assumes "rx s = push (frame code data @ b) segs" "fits (length data)" "is_code code"
  shows "getAllTheSocket heap s = Inr (framed code data,
    s\<lparr>rx := push b segs, allocs := allocs s + (if data = [] then 2 else 3)\<rparr>)"
proof -
  let ?s2 = "s\<lparr>rx := push (data @ b) segs, allocs := allocs s + 2\<rparr>"
  have *: "getAllTheSocket heap s =
    res_bind (getPartFromSocket heap (of_nat (length data)) ?s2) (\<lambda>(d, s).
      Inr (\<lparr>msg_code = le_word (le_bytes 1 code), msg_length = of_nat (length data), msg_data = d,
        msg_msg = le_bytes 1 code @ le_bytes 4 (of_nat (length data) :: c_int) @ d\<rparr>, s))"
    using assms(1,2) by (intro getAll_header) (simp_all add: frame_def sint_len)
  show ?thesis
  proof (cases "data = []")
    case True
    then show ?thesis using * assms(3) by (simp add: framed_def frame_def is_code_ucast)
  next
    case False
    then have "getPartFromSocket heap (of_nat (length data)) ?s2 =
        Inr (data, s\<lparr>rx := push b segs, allocs := allocs s + 3\<rparr>)"
      using getPart_push [of ?s2 data b segs "length data" heap] assms(2) by simp
    with * False assms(3) show ?thesis by (simp add: framed_def frame_def is_code_ucast)
  qed
qed

lemma serialize_message_Inr:
  assumes "serialize_message d code = Inr m"
  shows "fits (length d) \<and> m = framed code d"
proof -
  let ?size = "sint (of_nat (length d) + 5 :: c_int)"
  from assms have "0 \<le> ?size" "5 + length d \<le> nat ?size"
    by (simp_all add: serialize_message_def Let_def split: if_splits)
  moreover have "?size < 2 ^ 31" using sint_lt [of "of_nat (length d) + 5 :: c_int"] by simp
  ultimately have "fits (length d)" by (simp add: fits_def)
  with assms serialize_message_fits [OF this] show ?thesis by simp
qed

lemma send_open: "send bs s = Inr s' \<Longrightarrow> tx s' = tx s @ bs"
  by (auto simp: send_def split: peer.splits)

text \<open>A response that is serialized, sent and received is the same message for the reader,
  whatever follows it on the connection and whatever memory the reader is given, as long as
  the arrival the reader sees holds the whole message.\<close>

theorem wire_roundtrip:
  assumes "serialize_message d code = Inr m" "is_code code" "sendData m s = Inr s'"
    and "rx t = push (drop (length (tx s)) (tx s') @ b) segs"
  shows "\<exists>t'. getAllTheSocket heap t = Inr (m, t') \<and> rx t' = push b segs \<and>
    request_info m = \<lparr>req_id = ucast code, req_buffer = d\<rparr>"
proof -
  from serialize_message_Inr [OF assms(1)] have m: "m = framed code d" and f: "fits (length d)"
    by simp_all
  with assms(3) have "tx s' = tx s @ frame code d"
    by (simp add: sendData_framed send_open)
  with assms(4) have "rx t = push (frame code d @ b) segs" by simp
  from getAll_frame [OF this f assms(2), of heap] m show ?thesis
    by (simp add: request_info_def framed_def)
qed

text \<open>C38: when the data of a message arrives in two parts, the reader takes the first part, fills
  the rest of the data with what its memory happened to hold, and reads the second part as the
  next message: one \<open>recv\<close> is not repeated until the length is reached.\<close>

theorem short_read_desynchronises:
  assumes "rx s = (le_bytes 1 code @ le_bytes 4 (of_nat (length d1 + length d2) :: c_int) @ d1) #
      (d2 @ b) # segs"
    and "d1 \<noteq> []" "d2 \<noteq> []" "fits (length d1 + length d2)"
  shows "\<exists>m s'. getAllTheSocket heap s = Inr (m, s') \<and> rx s' = (d2 @ b) # segs \<and>
    msg_data m = d1 @ map (heap (allocs s + 2)) [length d1..<length d1 + length d2] \<and>
    (\<forall>m' s''. getAllTheSocket heap s' = Inr (m', s'') \<longrightarrow> ucast (msg_code m') = hd d2)"
proof -
  let ?n = "length d1 + length d2"
  let ?s2 = "s\<lparr>rx := d1 # (d2 @ b) # segs, allocs := allocs s + 2\<rparr>"
  let ?s3 = "s\<lparr>rx := (d2 @ b) # segs, allocs := allocs s + 3\<rparr>"
  let ?data = "d1 @ map (heap (allocs s + 2)) [length d1..<?n]"
  have "rx s = push (le_bytes 1 code @ le_bytes 4 (of_nat ?n :: c_int) @ d1) ((d2 @ b) # segs)"
    using assms(1) by (simp add: push_def)
  moreover have "0 \<le> sint (of_nat ?n :: c_int)" "0 \<le> sint (of_nat ?n + 5 :: c_int)"
    by (simp_all only: sint_len [OF assms(4)])
  moreover have "s\<lparr>rx := push d1 ((d2 @ b) # segs), allocs := allocs s + 2\<rparr> = ?s2"
    using assms(2) by (simp add: push_def)
  ultimately have *: "getAllTheSocket heap s =
    res_bind (getPartFromSocket heap (of_nat ?n) ?s2) (\<lambda>(d, s).
      Inr (\<lparr>msg_code = le_word (le_bytes 1 code), msg_length = of_nat ?n, msg_data = d,
        msg_msg = le_bytes 1 code @ le_bytes 4 (of_nat ?n :: c_int) @ d\<rparr>, s))"
    using getAll_header [of s code "of_nat ?n" d1 "(d2 @ b) # segs" heap] by simp
  have n: "0 < ?n" "sint (of_nat ?n :: c_int) = int ?n"
    using assms(2) sint_len [OF assms(4)] by simp_all
  then have "(of_nat ?n :: c_int) \<noteq> 0" by (metis of_nat_0_less_iff less_irrefl sint_0)
  with n assms(3) have p: "getPartFromSocket heap (of_nat ?n) ?s2 = Inr (?data, ?s3)"
    by (simp add: getPartFromSocket_def recv_def Let_def nat_add_distrib)
  have "rx ?s3 = push ([hd d2] @ tl d2 @ b) segs"
    using assms(3) by (simp add: push_def)
  then have q: "getPartFromSocket heap (of_nat 1) ?s3 =
      Inr ([hd d2], ?s3\<lparr>rx := push (tl d2 @ b) segs, allocs := allocs ?s3 + 1\<rparr>)"
    by (intro getPart_push) (simp_all add: fits_def)
  have "ucast (msg_code m') = hd d2" if "getAllTheSocket heap ?s3 = Inr (m', s'')" for m' s''
    using that q
    by (auto simp: getAllTheSocket_def res_bind_Inr_iff Let_def split: if_splits
        intro!: bit_word_eqI simp: bit_simps)
  with * p show ?thesis by (auto simp: split_def)
qed

subsection \<open>Streams of messages\<close>

text \<open>A reader of a byte stream that inverts a writer, one message at a time.\<close>

locale message_stream =
  fixes enc :: "'m \<Rightarrow> 'b list"
    and dec :: "'s \<Rightarrow> ('m \<times> 's) option"
    and input :: "'s \<Rightarrow> 'b list \<Rightarrow> bool"
    and ok :: "'m \<Rightarrow> bool"
  assumes dec_enc: "ok m \<Longrightarrow> input s (enc m @ r) \<Longrightarrow> \<exists>s'. dec s = Some (m, s') \<and> input s' r"
begin

primrec dec_many :: "nat \<Rightarrow> 's \<Rightarrow> ('m list \<times> 's) option" where
  "dec_many 0 s = Some ([], s)"
| "dec_many (Suc n) s =
     (case dec s of
        None \<Rightarrow> None
      | Some (m, s) \<Rightarrow> map_option (\<lambda>(ms, s). (m # ms, s)) (dec_many n s))"

lemma dec_many_enc:
  "list_all ok ms \<Longrightarrow> input s (concat (map enc ms) @ r) \<Longrightarrow>
     \<exists>s'. dec_many (length ms) s = Some (ms, s') \<and> input s' r"
proof (induction ms arbitrary: s)
  case Nil
  then show ?case by simp
next
  case (Cons m ms)
  then have "ok m" "input s (enc m @ concat (map enc ms) @ r)" by simp_all
  then obtain s1 where s1: "dec s = Some (m, s1)" "input s1 (concat (map enc ms) @ r)"
    using dec_enc by blast
  with Cons obtain s2 where "dec_many (length ms) s1 = Some (ms, s2)" "input s2 r"
    by (auto dest: Cons.IH)
  with s1 show ?case by simp
qed

lemma enc_inj:
  assumes "list_all ok ms" "list_all ok ns" "length ms = length ns"
    and "concat (map enc ms) = concat (map enc ns)" "\<exists>s. input s (concat (map enc ms) @ [])"
  shows "ms = ns"
proof -
  from assms(5) obtain s where s: "input s (concat (map enc ms) @ [])" ..
  from dec_many_enc [OF assms(1) this] obtain s1
    where 1: "dec_many (length ms) s = Some (ms, s1)" by blast
  have "input s (concat (map enc ns) @ [])" using s by (simp only: assms(4))
  from dec_many_enc [OF assms(2) this] obtain s2
    where "dec_many (length ns) s = Some (ns, s2)" by blast
  with 1 [unfolded assms(3)] show ?thesis by simp
qed

end

definition enc_msg :: "c_int \<times> byte list \<Rightarrow> byte list" where
  "enc_msg m = frame (fst m) (snd m)"

definition dec_msg :: "(nat \<Rightarrow> nat \<Rightarrow> byte) \<Rightarrow> sock \<Rightarrow> ((c_int \<times> byte list) \<times> sock) option" where
  "dec_msg heap s =
     (case getAllTheSocket heap s of
        Inl _ \<Rightarrow> None
      | Inr (m, s) \<Rightarrow> Some ((msg_code m, msg_data m), s))"

definition arrived :: "sock \<Rightarrow> byte list \<Rightarrow> bool" where
  "arrived s bs \<longleftrightarrow> rx s = push bs []"

definition ok_msg :: "c_int \<times> byte list \<Rightarrow> bool" where
  "ok_msg m \<longleftrightarrow> is_code (fst m) \<and> fits (length (snd m))"

interpretation wire: message_stream enc_msg "dec_msg heap" arrived ok_msg for heap
proof
  fix m s r
  assume "ok_msg m" "arrived s (enc_msg m @ r)"
  then show "\<exists>s'. dec_msg heap s = Some (m, s') \<and> arrived s' r"
    by (cases m)
       (simp add: ok_msg_def arrived_def enc_msg_def dec_msg_def getAll_frame, simp add: framed_def)
qed


text \<open>The two ends of a connection need no agreement on lengths: different sequences of as
  many messages are different streams of bytes.\<close>

lemma streams_differ:
  assumes "list_all ok_msg ms" "list_all ok_msg ns" "length ms = length ns"
    and "concat (map enc_msg ms) = concat (map enc_msg ns)"
  shows "ms = ns"
proof (rule wire.enc_inj [OF assms])
  show "\<exists>s. arrived s (concat (map enc_msg ms) @ [])"
    by (rule exI [of _ "\<lparr>sock_fd = 0, rx = push (concat (map enc_msg ms)) [], rx_error = False,
      tx = [], tx_peer = PeerOpen, allocs = 0\<rparr>"]) (simp add: arrived_def)
qed

subsection \<open>A closed connection\<close>

text \<open>At the end of the stream \<open>recv\<close> takes nothing and does not fail, so the reader makes a
  message of the memory it was given.\<close>

lemma getPart_closed:
  assumes "rx s = []" "\<not> rx_error s" "0 < n" "fits n"
  shows "getPartFromSocket heap (of_nat n) s =
    Inr (map (heap (allocs s)) [0..<n], s\<lparr>allocs := allocs s + 1\<rparr>)"
proof -
  have n: "0 < n" "sint (of_nat n :: c_int) = int n"
    using assms(3) sint_len [OF assms(4)] by simp_all
  then have "(of_nat n :: c_int) \<noteq> 0" by (metis of_nat_0_less_iff less_irrefl sint_0)
  with n assms show ?thesis by (simp add: getPartFromSocket_def recv_def Let_def)
qed

lemma getAll_closed [wire_simps]:
  assumes "rx s = []" "\<not> rx_error s" "\<And>k i. heap k i = 0"
  shows "getAllTheSocket heap s = Inr (framed 0 [], s\<lparr>allocs := allocs s + 2\<rparr>)"
proof -
  let ?s1 = "s\<lparr>allocs := allocs s + 1\<rparr>"
  have "getPartFromSocket heap (of_nat 1) s = Inr ([0], ?s1)"
    using assms by (subst getPart_closed) (simp_all add: fits_def)
  moreover have "getPartFromSocket heap (of_nat 4) ?s1 = Inr ([0, 0, 0, 0], s\<lparr>allocs := allocs s + 2\<rparr>)"
    using assms getPart_closed [of ?s1 4 heap] by (simp add: fits_def upt_rec)
  ultimately show ?thesis
    by (simp add: getAllTheSocket_def framed_def frame_def numeral_eq_Suc)
qed

end
