(* ===== verification/Json_Packets.thy ===== *)
theory Json_Packets
  imports Wire
begin

text \<open>
  The requests and responses of the backend and their JSON codecs
  (\<open>Backend/JsonRequestPacketDeserializer\<close>, \<open>Backend/JsonResponsePacketSerializer\<close>), and the
  message codes of \<open>pch.h\<close>.  The JSON library is not part of the repository: it is the
  parameter \<open>json_lib\<close>.
\<close>

subsection \<open>Message codes\<close>

definition SCAN_REQUEST :: byte where "SCAN_REQUEST = 100"
definition SUSPICIOUS_PROCESSES_LIST_REQUEST :: byte where "SUSPICIOUS_PROCESSES_LIST_REQUEST = 101"
definition SUSPENDED_PROCESSES_LIST_REQUEST :: byte where "SUSPENDED_PROCESSES_LIST_REQUEST = 102"
definition UPDATE_BLOCKED_TABLE_REQUEST :: byte where "UPDATE_BLOCKED_TABLE_REQUEST = 103"
definition UPDATE_VIRUS_LIST_REQUEST :: byte where "UPDATE_VIRUS_LIST_REQUEST = 104"
definition FREE_PROCESS_REQUEST :: byte where "FREE_PROCESS_REQUEST = 105"
definition BLOCK_PROCESS_REQUEST :: byte where "BLOCK_PROCESS_REQUEST = 106"
definition KILL_PROCESS_REQUEST :: byte where "KILL_PROCESS_REQUEST = 107"
definition PERIODIC_SCAN_TIME_REQUEST :: byte where "PERIODIC_SCAN_TIME_REQUEST = 108"
definition GET_CURRENT_SCAN_FREQUENCY_REQUEST :: byte where "GET_CURRENT_SCAN_FREQUENCY_REQUEST = 110"
definition IP_SCAN_REQUEST :: byte where "IP_SCAN_REQUEST = 112"
definition HASH_SCAN_REQUEST :: byte where "HASH_SCAN_REQUEST = 113"
definition SAVING_IP_REQUEST :: byte where "SAVING_IP_REQUEST = 114"
definition SAVING_HASH_REQUEST :: byte where "SAVING_HASH_REQUEST = 115"

lemmas request_codes =
  SCAN_REQUEST_def SUSPICIOUS_PROCESSES_LIST_REQUEST_def SUSPENDED_PROCESSES_LIST_REQUEST_def
  UPDATE_BLOCKED_TABLE_REQUEST_def UPDATE_VIRUS_LIST_REQUEST_def FREE_PROCESS_REQUEST_def
  BLOCK_PROCESS_REQUEST_def KILL_PROCESS_REQUEST_def PERIODIC_SCAN_TIME_REQUEST_def
  GET_CURRENT_SCAN_FREQUENCY_REQUEST_def IP_SCAN_REQUEST_def HASH_SCAN_REQUEST_def
  SAVING_IP_REQUEST_def SAVING_HASH_REQUEST_def

definition SCAN_RESPONSE :: u32 where "SCAN_RESPONSE = 200"
definition SUSPICIOUS_PROCESSES_LIST_RESPONSE :: u32 where "SUSPICIOUS_PROCESSES_LIST_RESPONSE = 201"
definition SUSPENDED_PROCESSES_LIST_REESPONSE :: u32 where "SUSPENDED_PROCESSES_LIST_REESPONSE = 202"
definition FREE_PROCESS_RESPONSE :: u32 where "FREE_PROCESS_RESPONSE = 205"
definition BLOCK_PROCESS_RESPONSE :: u32 where "BLOCK_PROCESS_RESPONSE = 206"
definition KILL_PROCESS_RESPONSE :: u32 where "KILL_PROCESS_RESPONSE = 207"
definition PERIODIC_SCAN_TIME_RESPONSE :: u32 where "PERIODIC_SCAN_TIME_RESPONSE = 208"
definition UPDATE_BLOCKED_TABLE_RESPONSE :: u32 where "UPDATE_BLOCKED_TABLE_RESPONSE = 203"
definition UPDATE_VIRUS_TABLE_RESPONSE :: u32 where "UPDATE_VIRUS_TABLE_RESPONSE = 204"
definition GET_CURRENT_SCAN_FREQUENCY_RESPONSE :: u32 where "GET_CURRENT_SCAN_FREQUENCY_RESPONSE = 210"
definition IP_SCAN_RESPONSE :: u32 where "IP_SCAN_RESPONSE = 212"
definition HASH_SCAN_RESPONSE :: u32 where "HASH_SCAN_RESPONSE = 213"
definition SAVING_IP_RESPONSE :: u32 where "SAVING_IP_RESPONSE = 214"
definition SAVING_HASH_RESPONSE :: u32 where "SAVING_HASH_RESPONSE = 215"
definition ERROR_CODE :: c_int where "ERROR_CODE = 1"

lemmas response_codes =
  SCAN_RESPONSE_def SUSPICIOUS_PROCESSES_LIST_RESPONSE_def SUSPENDED_PROCESSES_LIST_REESPONSE_def
  FREE_PROCESS_RESPONSE_def BLOCK_PROCESS_RESPONSE_def KILL_PROCESS_RESPONSE_def
  PERIODIC_SCAN_TIME_RESPONSE_def UPDATE_BLOCKED_TABLE_RESPONSE_def UPDATE_VIRUS_TABLE_RESPONSE_def
  GET_CURRENT_SCAN_FREQUENCY_RESPONSE_def IP_SCAN_RESPONSE_def HASH_SCAN_RESPONSE_def
  SAVING_IP_RESPONSE_def SAVING_HASH_RESPONSE_def ERROR_CODE_def

subsection \<open>The JSON library\<close>

text \<open>The values the programs put into a response object.\<close>

datatype jfield =
    JUnsigned u32 | JInt c_int | JString string | JStrings "string list" | JInts "c_int list"
  | JBoolMap "string \<Rightarrow> bool option" | JStringMap "string \<Rightarrow> string option"
  | JStringsMap "string \<Rightarrow> string list option"

text \<open>What the programs call: \<open>json::parse\<close> of a buffer, \<open>operator>>\<close> from a stream, \<open>operator[]\<close> followed by \<open>get\<close> at the types \<open>int\<close>,
  \<open>string\<close> and sequence of strings, and \<open>dump\<close> of an object.  \<open>None\<close> is an exception of the
  library, all of which derive from \<open>std::exception\<close>.\<close>

record 'j json_lib =
  jparse :: "byte list \<Rightarrow> 'j option"
  jread :: "string \<Rightarrow> 'j option"
  jint :: "'j \<Rightarrow> string \<Rightarrow> c_int option"
  jstring :: "'j \<Rightarrow> string \<Rightarrow> string option"
  jstrings :: "'j \<Rightarrow> string \<Rightarrow> string list option"
  jdump :: "(string \<times> jfield) list \<Rightarrow> byte list option"

definition or_throw :: "stop \<Rightarrow> 'a option \<Rightarrow> stop + 'a" where
  "or_throw e r = (case r of None \<Rightarrow> Inl e | Some a \<Rightarrow> Inr a)"

lemma or_throw_simps [simp]: "or_throw e None = Inl e" "or_throw e (Some a) = Inr a"
  by (simp_all add: or_throw_def)

lemma or_throw_Inr [simp]: "or_throw e r = Inr a \<longleftrightarrow> r = Some a"
  by (cases r) simp_all

lemma or_throw_Inl [simp]: "or_throw e r = Inl e' \<longleftrightarrow> r = None \<and> e' = e"
  by (cases r) auto

subsection \<open>Requests\<close>

record ScanRequest =
  scanType :: c_int
  scan_path :: string

record FreeRequest =
  free_pid :: c_int

record BlockRequest =
  block_pid :: c_int

record KillRequest =
  kill_pid :: c_int

record ChangeScanTimeRequest =
  change_time :: c_int

record UpdateBlockedTableRequest =
  ubt_pid :: c_int
  ubt_dateTime :: string
  ubt_action :: string

record UpdateVirusTableRequest =
  uvt_name :: string
  uvt_dateTime :: string

definition deserializeScanRequest :: "'j json_lib \<Rightarrow> byte list \<Rightarrow> stop + ScanRequest" where
  "deserializeScanRequest J buffer =
     res_bind (or_throw JsonError (jparse J buffer)) (\<lambda>jsn.
     res_bind (or_throw JsonError (jint J jsn ''scanType'')) (\<lambda>ty.
     res_bind (or_throw JsonError (jstring J jsn ''path'')) (\<lambda>p.
     Inr \<lparr>scanType = ty, scan_path = p\<rparr>)))"

definition desrializeFreeRequest :: "'j json_lib \<Rightarrow> byte list \<Rightarrow> stop + FreeRequest" where
  "desrializeFreeRequest J buffer =
     res_bind (or_throw JsonError (jparse J buffer)) (\<lambda>jsn.
     res_bind (or_throw JsonError (jint J jsn ''pid'')) (\<lambda>p.
     Inr \<lparr>free_pid = p\<rparr>))"

definition desirializeBlockRequest :: "'j json_lib \<Rightarrow> byte list \<Rightarrow> stop + BlockRequest" where
  "desirializeBlockRequest J buffer =
     res_bind (or_throw JsonError (jparse J buffer)) (\<lambda>jsn.
     res_bind (or_throw JsonError (jint J jsn ''pid'')) (\<lambda>p.
     Inr \<lparr>block_pid = p\<rparr>))"

definition desirializeKillRequest :: "'j json_lib \<Rightarrow> byte list \<Rightarrow> stop + KillRequest" where
  "desirializeKillRequest J buffer =
     res_bind (or_throw JsonError (jparse J buffer)) (\<lambda>jsn.
     res_bind (or_throw JsonError (jint J jsn ''pid'')) (\<lambda>p.
     Inr \<lparr>kill_pid = p\<rparr>))"

definition desirializeChangeScanTimeRequest ::
  "'j json_lib \<Rightarrow> byte list \<Rightarrow> stop + ChangeScanTimeRequest" where
  "desirializeChangeScanTimeRequest J buffer =
     res_bind (or_throw JsonError (jparse J buffer)) (\<lambda>jsn.
     res_bind (or_throw JsonError (jint J jsn ''time'')) (\<lambda>t.
     Inr \<lparr>change_time = t\<rparr>))"

definition deserializeUpdateBlockedTbaleRequest ::
  "'j json_lib \<Rightarrow> byte list \<Rightarrow> stop + UpdateBlockedTableRequest" where
  "deserializeUpdateBlockedTbaleRequest J buffer =
     res_bind (or_throw JsonError (jparse J buffer)) (\<lambda>jsn.
     res_bind (or_throw JsonError (jint J jsn ''pid'')) (\<lambda>p.
     res_bind (or_throw JsonError (jstring J jsn ''dateTime'')) (\<lambda>d.
     res_bind (or_throw JsonError (jstring J jsn ''action'')) (\<lambda>a.
     Inr \<lparr>ubt_pid = p, ubt_dateTime = d, ubt_action = a\<rparr>))))"

definition deserializeUpdateVirusTableRequest ::
  "'j json_lib \<Rightarrow> byte list \<Rightarrow> stop + UpdateVirusTableRequest" where
  "deserializeUpdateVirusTableRequest J buffer =
     res_bind (or_throw JsonError (jparse J buffer)) (\<lambda>jsn.
     res_bind (or_throw JsonError (jstring J jsn ''name'')) (\<lambda>n.
     res_bind (or_throw JsonError (jstring J jsn ''dateTime'')) (\<lambda>d.
     Inr \<lparr>uvt_name = n, uvt_dateTime = d\<rparr>)))"

subsection \<open>Responses\<close>

record ScanResponse =
  sr_status :: u32
  sctResults :: c_int
  idtResults :: c_int
  packetsResults :: "string list"
  openPortsResults :: "string \<Rightarrow> bool option"
  spofingResults :: "string \<Rightarrow> string option"
  yaraResults :: "string \<Rightarrow> string list option"
  hashesResults :: "string \<Rightarrow> bool option"

record SuspiciousListResponse =
  sus_status :: u32
  procNames :: "string list"

record SuspendedListResponse =
  spd_status :: u32
  procPids :: "string list"

record FreeResponse =
  free_status :: u32
  free_isWorked :: c_int

record BlockResponse =
  block_status :: u32
  block_isWorked :: c_int

record KillResponse =
  kill_status :: u32
  kill_isWorked :: c_int

record ChangeScanTimeResponse =
  cst_status :: u32
  cst_isWorked :: c_int

record UpdateBlockedTableResponse =
  ubr_status :: u32
  ubr_isWorked :: c_int

record UpdateVirusTableResponse =
  uvr_status :: u32
  uvr_isWorked :: c_int

record GetTimeResponse =
  gt_status :: u32
  gt_time :: c_int

record ErrorResponse =
  err_message :: string

definition serializeResponse :: "'j json_lib \<Rightarrow> (string \<times> jfield) list \<Rightarrow> c_int \<Rightarrow> stop + message" where
  "serializeResponse J j code =
     res_bind (or_throw JsonError (jdump J j)) (\<lambda>d. serialize_message d code)"

definition serialize_ScanResponse :: "'j json_lib \<Rightarrow> ScanResponse \<Rightarrow> stop + message" where
  "serialize_ScanResponse J r = serializeResponse J
     [(''status'', JUnsigned (sr_status r)),
      (''hashesResults'', JBoolMap (hashesResults r)),
      (''idtResults'', JInt (idtResults r)),
      (''openPortsResults'', JBoolMap (openPortsResults r)),
      (''packetsResults'', JStrings (packetsResults r)),
      (''sctResults'', JInt (sctResults r)),
      (''spofingResults'', JStringMap (spofingResults r)),
      (''yaraResults'', JStringsMap (yaraResults r))] (sr_status r)"

definition serialize_SuspendedListResponse ::
  "'j json_lib \<Rightarrow> SuspendedListResponse \<Rightarrow> stop + message" where
  "serialize_SuspendedListResponse J r = serializeResponse J
     [(''status'', JUnsigned (spd_status r)), (''procPids'', JStrings (procPids r))] (spd_status r)"

definition serialize_SuspiciousListResponse ::
  "'j json_lib \<Rightarrow> SuspiciousListResponse \<Rightarrow> stop + message" where
  "serialize_SuspiciousListResponse J r = serializeResponse J
     [(''status'', JUnsigned (sus_status r)), (''procNames'', JStrings (procNames r))] (sus_status r)"

definition serialize_FreeResponse :: "'j json_lib \<Rightarrow> FreeResponse \<Rightarrow> stop + message" where
  "serialize_FreeResponse J r = serializeResponse J
     [(''status'', JUnsigned (free_status r)), (''isWorked'', JInt (free_isWorked r))] (free_status r)"

definition serialize_BlockResponse :: "'j json_lib \<Rightarrow> BlockResponse \<Rightarrow> stop + message" where
  "serialize_BlockResponse J r = serializeResponse J
     [(''status'', JUnsigned (block_status r)), (''isWorked'', JInt (block_isWorked r))] (block_status r)"

definition serialize_KillResponse :: "'j json_lib \<Rightarrow> KillResponse \<Rightarrow> stop + message" where
  "serialize_KillResponse J r = serializeResponse J
     [(''status'', JUnsigned (kill_status r)), (''isWorked'', JInt (kill_isWorked r))] (kill_status r)"

definition serialize_ChangeScanTimeResponse :: "'j json_lib \<Rightarrow> ChangeScanTimeResponse \<Rightarrow> stop + message" where
  "serialize_ChangeScanTimeResponse J r = serializeResponse J
     [(''status'', JUnsigned (cst_status r)), (''isWorked'', JInt (cst_isWorked r))] (cst_status r)"

definition serialize_UpdateBlockedTableResponse :: "'j json_lib \<Rightarrow> UpdateBlockedTableResponse \<Rightarrow> stop + message" where
  "serialize_UpdateBlockedTableResponse J r = serializeResponse J
     [(''status'', JUnsigned (ubr_status r)), (''isWorked'', JInt (ubr_isWorked r))] (ubr_status r)"

definition serialize_UpdateVirusTableResponse :: "'j json_lib \<Rightarrow> UpdateVirusTableResponse \<Rightarrow> stop + message" where
  "serialize_UpdateVirusTableResponse J r = serializeResponse J
     [(''status'', JUnsigned (uvr_status r)), (''isWorked'', JInt (uvr_isWorked r))] (uvr_status r)"

definition serialize_GetTimeResponse :: "'j json_lib \<Rightarrow> GetTimeResponse \<Rightarrow> stop + message" where
  "serialize_GetTimeResponse J r = serializeResponse J
     [(''status'', JUnsigned (gt_status r)), (''time'', JInt (gt_time r))] (gt_status r)"

definition serialize_ErrorResponse :: "'j json_lib \<Rightarrow> ErrorResponse \<Rightarrow> stop + message" where
  "serialize_ErrorResponse J r = serializeResponse J
     [(''message'', JString (err_message r))] ERROR_CODE"

lemmas backend_serializers =
  serialize_ScanResponse_def serialize_SuspendedListResponse_def
  serialize_SuspiciousListResponse_def serialize_FreeResponse_def serialize_BlockResponse_def
  serialize_KillResponse_def serialize_ChangeScanTimeResponse_def
  serialize_UpdateBlockedTableResponse_def serialize_UpdateVirusTableResponse_def
  serialize_GetTimeResponse_def serialize_ErrorResponse_def

lemma serializeResponse_Inr:
  assumes "serializeResponse J j code = Inr m"
  obtains d where "jdump J j = Some d" "fits (length d)" "m = framed code d"
  using assms serialize_message_Inr
  by (auto simp: serializeResponse_def res_bind_Inr_iff)

lemma serializeResponse_fits:
  "jdump J j = Some d \<Longrightarrow> fits (length d) \<Longrightarrow> serializeResponse J j code = Inr (framed code d)"
  by (simp add: serializeResponse_def serialize_message_fits)

end
