(* ===== verification/Driver_Tables.thy ===== *)
theory Driver_Tables
  imports Driver_State
begin

text \<open>
  The table scanners of \<open>Driver/spybot.c\<close>: the copies of the system call table and of the
  interrupt descriptor table taken when the module loads, the loops that compare the live
  tables with the copies, and the repair of one system call entry.  The loops carry the
  index and the number of entries left, which is the source's loop bound minus the index.
\<close>

subsection \<open>The system call table\<close>

definition rd_temp_sct :: "spybot \<Rightarrow> nat \<Rightarrow> fault + u64" where
  "rd_temp_sct s i = (case at (temp_sct s) i of None \<Rightarrow> Inl ArrayBounds | Some v \<Rightarrow> Inr v)"

definition wr_temp_sct :: "nat \<Rightarrow> u64 \<Rightarrow> spybot \<Rightarrow> fault + spybot" where
  "wr_temp_sct i v s =
     (if i < length (temp_sct s) then Inr (s\<lparr>temp_sct := (temp_sct s)[i := v]\<rparr>)
      else Inl ArrayBounds)"

fun create_temp_sct_loop :: "nat \<Rightarrow> nat \<Rightarrow> spybot \<Rightarrow> fault + spybot" where
  "create_temp_sct_loop i 0 s = Inr s"
| "create_temp_sct_loop i (Suc n) s =
     res_bind (rd64 (sct_addr s i) s) (\<lambda>v.
     res_bind (wr_temp_sct i v s) (\<lambda>s. create_temp_sct_loop (Suc i) n s))"

definition create_temp_sct :: "kenv \<Rightarrow> spybot \<Rightarrow> fault + spybot" where
  "create_temp_sct k s = create_temp_sct_loop 0 (NR_syscalls k) s"

fun compare_scts_loop :: "spybot \<Rightarrow> nat \<Rightarrow> nat \<Rightarrow> fault + c_int" where
  "compare_scts_loop s i 0 = Inr (- 1)"
| "compare_scts_loop s i (Suc n) =
     res_bind (rd64 (sct_addr s i) s) (\<lambda>v.
     res_bind (rd_temp_sct s i) (\<lambda>t.
     if v \<noteq> t then Inr (of_nat i) else compare_scts_loop s (Suc i) n))"

definition compare_scts :: "kenv \<Rightarrow> spybot \<Rightarrow> fault + c_int" where
  "compare_scts k s = compare_scts_loop s 0 (NR_syscalls k)"

definition fix_sct :: "kenv \<Rightarrow> c_int \<Rightarrow> spybot \<Rightarrow> fault + bool \<times> spybot" where
  "fix_sct k syscall s =
     (if 0 \<le> sint syscall \<and> sint syscall \<le> int (NR_syscalls k)
      then res_bind (setPage_rw k (sys_call_table s) s) (\<lambda>s.
           res_bind (rd_temp_sct s (nat (sint syscall))) (\<lambda>v.
           res_bind (wr64 k (sct_addr s (nat (sint syscall))) v s) (\<lambda>s.
           res_bind (setPage_ro k (sys_call_table s) s) (\<lambda>s.
           Inr (True, s)))))
      else Inr (False, s))"

subsection \<open>The interrupt descriptor table\<close>

definition wr_temp_idt :: "nat \<Rightarrow> gate_struct \<Rightarrow> spybot \<Rightarrow> fault + spybot" where
  "wr_temp_idt i g s =
     (if i < length (temp_idt s) then Inr (s\<lparr>temp_idt := (temp_idt s)[i := g]\<rparr>)
      else Inl ArrayBounds)"

definition rd_temp_idt :: "spybot \<Rightarrow> nat \<Rightarrow> fault + gate_struct" where
  "rd_temp_idt s i = (case at (temp_idt s) i of None \<Rightarrow> Inl ArrayBounds | Some g \<Rightarrow> Inr g)"

fun create_temp_idt_loop :: "nat \<Rightarrow> nat \<Rightarrow> spybot \<Rightarrow> fault + spybot" where
  "create_temp_idt_loop entry 0 s = Inr s"
| "create_temp_idt_loop entry (Suc n) s =
     res_bind (rd_gate s entry) (\<lambda>g.
     res_bind (wr_temp_idt entry g s) (\<lambda>s. create_temp_idt_loop (Suc entry) n s))"

definition create_temp_idt :: "spybot \<Rightarrow> fault + spybot" where
  "create_temp_idt s = create_temp_idt_loop 0 MAX_IDT_SIZE s"

text \<open>The comparison looks at the handler address only, whose top half exists on 64-bit
  builds.\<close>

definition gate_differs :: "kenv \<Rightarrow> gate_struct \<Rightarrow> gate_struct \<Rightarrow> bool" where
  "gate_differs k g h \<longleftrightarrow>
     offset_low g \<noteq> offset_low h \<or> offset_middle g \<noteq> offset_middle h \<or>
     (CONFIG_X86_64 k \<and> offset_high g \<noteq> offset_high h)"

fun compare_idts_loop :: "kenv \<Rightarrow> spybot \<Rightarrow> nat \<Rightarrow> nat \<Rightarrow> fault + c_int" where
  "compare_idts_loop k s entry 0 = Inr (- 1)"
| "compare_idts_loop k s entry (Suc n) =
     res_bind (rd_gate s entry) (\<lambda>tmp_gate.
     res_bind (rd_temp_idt s entry) (\<lambda>t.
     if gate_differs k t tmp_gate then Inr (of_nat entry)
     else compare_idts_loop k s (Suc entry) n))"

definition compare_idts :: "kenv \<Rightarrow> spybot \<Rightarrow> fault + c_int" where
  "compare_idts k s = compare_idts_loop k s 0 MAX_IDT_SIZE"

subsection \<open>What the scans compute\<close>

text \<open>The shape both scans share: the first index that differs, or \<open>-1\<close>.\<close>

definition scan_result :: "nat option \<Rightarrow> c_int" where
  "scan_result r = (case r of None \<Rightarrow> - 1 | Some i \<Rightarrow> of_nat i)"

definition sct_differs :: "spybot \<Rightarrow> nat \<Rightarrow> bool" where
  "sct_differs s i \<longleftrightarrow> kmem s (sct_addr s i) \<noteq> Some (temp_sct s ! i)"

definition idt_differs :: "kenv \<Rightarrow> spybot \<Rightarrow> nat \<Rightarrow> bool" where
  "idt_differs k s i \<longleftrightarrow>
     (case idt_mem s (gate_addr s i) of
        None \<Rightarrow> True
      | Some g \<Rightarrow> gate_differs k (temp_idt s ! i) g)"

lemma scan_result_minus_one:
  "(\<And>i. r = Some i \<Longrightarrow> i < 2 ^ 31) \<Longrightarrow> scan_result r = - 1 \<longleftrightarrow> r = None"
  by (auto simp: scan_result_def of_nat32_neq_minus_one split: option.split)

lemma scan_result_of_nat:
  assumes "\<And>i. r = Some i \<Longrightarrow> i < 2 ^ 31" "j < 2 ^ 31"
  shows "scan_result r = of_nat j \<longleftrightarrow> r = Some j"
  using assms of_nat32_neq_minus_one [OF assms(2)]
  by (auto simp: scan_result_def of_nat32_inj split: option.split)

lemma compare_scts_loop_eq:
  assumes "\<And>j. i \<le> j \<Longrightarrow> j < i + n \<Longrightarrow> kmem s (sct_addr s j) \<noteq> None \<and> j < length (temp_sct s)"
  shows "compare_scts_loop s i n = Inr (scan_result (first_index (sct_differs s) i n))"
  using assms
proof (induction n arbitrary: i)
  case 0
  then show ?case by (simp add: scan_result_def)
next
  case (Suc n)
  from Suc.prems [of i] obtain v where
    "kmem s (sct_addr s i) = Some v" "i < length (temp_sct s)" by auto
  moreover have "compare_scts_loop s (Suc i) n =
      Inr (scan_result (first_index (sct_differs s) (Suc i) n))"
    by (rule Suc.IH) (simp add: Suc.prems)
  ultimately show ?case
    by (simp add: rd64_def rd_temp_sct_def sct_differs_def [of s i] scan_result_def)
qed

lemma compare_scts_eq:
  assumes "sct_ok k s" "length (temp_sct s) = NR_syscalls k"
  shows "compare_scts k s = Inr (scan_result (first_index (sct_differs s) 0 (NR_syscalls k)))"
  unfolding compare_scts_def
  by (rule compare_scts_loop_eq) (use assms in \<open>auto simp: sct_ok_def\<close>)

lemma compare_idts_loop_eq:
  assumes "\<And>j. i \<le> j \<Longrightarrow> j < i + n \<Longrightarrow> idt_mem s (gate_addr s j) \<noteq> None \<and> j < length (temp_idt s)"
  shows "compare_idts_loop k s i n = Inr (scan_result (first_index (idt_differs k s) i n))"
  using assms
proof (induction n arbitrary: i)
  case 0
  then show ?case by (simp add: scan_result_def)
next
  case (Suc n)
  from Suc.prems [of i] obtain g where
    "idt_mem s (gate_addr s i) = Some g" "i < length (temp_idt s)" by auto
  moreover have "compare_idts_loop k s (Suc i) n =
      Inr (scan_result (first_index (idt_differs k s) (Suc i) n))"
    by (rule Suc.IH) (simp add: Suc.prems)
  ultimately show ?case
    by (simp add: rd_gate_def rd_temp_idt_def idt_differs_def [of k s i] scan_result_def)
qed

definition idt_ok :: "spybot \<Rightarrow> bool" where
  "idt_ok s \<longleftrightarrow> (\<forall>i < MAX_IDT_SIZE. idt_mem s (gate_addr s i) \<noteq> None)"

lemma compare_idts_eq:
  assumes "idt_ok s" "length (temp_idt s) = MAX_IDT_SIZE"
  shows "compare_idts k s = Inr (scan_result (first_index (idt_differs k s) 0 MAX_IDT_SIZE))"
  unfolding compare_idts_def
  by (rule compare_idts_loop_eq) (use assms in \<open>auto simp: idt_ok_def\<close>)

lemma sct_list_eq_iff:
  assumes "length (temp_sct s) = NR_syscalls k"
  shows "sct_list k s = map Some (temp_sct s) \<longleftrightarrow> (\<forall>i < NR_syscalls k. \<not> sct_differs s i)"
  using assms by (auto simp: sct_list_def list_eq_iff_nth_eq sct_differs_def)

lemma sct_list_take_eq_iff:
  assumes "length (temp_sct s) = NR_syscalls k" "i \<le> NR_syscalls k"
  shows "take i (sct_list k s) = map Some (take i (temp_sct s)) \<longleftrightarrow> (\<forall>j < i. \<not> sct_differs s j)"
  using assms by (auto simp: sct_list_def list_eq_iff_nth_eq sct_differs_def)

text \<open>The system call scan answers \<open>-1\<close> exactly when the live table equals the copy,
  and answers \<open>i\<close> exactly when entry \<open>i\<close> is the first one that differs from the copy.\<close>

theorem compare_scts_first_hook:
  assumes "sct_ok k s" "length (temp_sct s) = NR_syscalls k"
  shows "(compare_scts k s = Inr (- 1) \<longleftrightarrow> sct_list k s = map Some (temp_sct s)) \<and>
    (\<forall>i < NR_syscalls k.
       compare_scts k s = Inr (of_nat i) \<longleftrightarrow>
         sct_list k s ! i \<noteq> Some (temp_sct s ! i) \<and>
         take i (sct_list k s) = map Some (take i (temp_sct s)))"
proof -
  let ?r = "first_index (sct_differs s) 0 (NR_syscalls k)"
  from assms(1) have nr: "NR_syscalls k < 2 ^ 28" by (simp add: sct_ok_def)
  have cmp: "compare_scts k s = Inr (scan_result ?r)" by (rule compare_scts_eq [OF assms])
  have small: "i < 2 ^ 31" if "?r = Some i" for i
    using that nr by (simp add: first_index_Some_iff)
  have "scan_result ?r = - 1 \<longleftrightarrow> sct_list k s = map Some (temp_sct s)"
    by (simp add: scan_result_minus_one [OF small] first_index_None_iff sct_list_eq_iff assms(2))
  moreover have "scan_result ?r = of_nat i \<longleftrightarrow>
      sct_list k s ! i \<noteq> Some (temp_sct s ! i) \<and>
      take i (sct_list k s) = map Some (take i (temp_sct s))" if "i < NR_syscalls k" for i
  proof -
    have "scan_result ?r = of_nat i \<longleftrightarrow> ?r = Some i"
      by (rule scan_result_of_nat [OF small]) (use that nr in simp_all)
    also have "\<dots> \<longleftrightarrow> sct_differs s i \<and> (\<forall>j < i. \<not> sct_differs s j)"
      using that by (auto simp: first_index_Some_iff)
    also have "\<dots> \<longleftrightarrow> sct_list k s ! i \<noteq> Some (temp_sct s ! i) \<and>
        take i (sct_list k s) = map Some (take i (temp_sct s))"
      using that by (simp add: sct_list_take_eq_iff assms(2))
        (simp add: sct_list_def sct_differs_def)
    finally show ?thesis .
  qed
  ultimately show ?thesis by (simp add: cmp)
qed

subsection \<open>Repair\<close>

lemma fix_sct_in_range:
  assumes "sct_ok k s" "length (temp_sct s) = NR_syscalls k" "i < NR_syscalls k"
  obtains s' where "fix_sct k (of_nat i) s = Inr (True, s')"
    "sct_store k i (temp_sct s ! i) s = Inr s'"
    "temp_sct s' = temp_sct s" "sys_call_table s' = sys_call_table s"
    "\<not> page_writable k s' (sys_call_table s)"
proof -
  from assms(1) have nr: "NR_syscalls k < 2 ^ 28" by (simp add: sct_ok_def)
  from assms(1,3) obtain p v where
    pv: "lookup_address k (sys_call_table s) = Some p" "ptes s p = Some v"
      "v AND NOT PAGE_RW \<noteq> 0"
    and eq: "sct_store k i (temp_sct s ! i) s =
       Inr (s\<lparr>kmem := (kmem s)(sct_addr s i \<mapsto> temp_sct s ! i),
              ptes := (ptes s)(p \<mapsto> v AND NOT PAGE_RW)\<rparr>)" (is "_ = Inr ?s'")
    by (rule sct_store_eq)
  have "fix_sct k (of_nat i) s = res_bind (sct_store k i (temp_sct s ! i) s) (\<lambda>s. Inr (True, s))"
    using assms nr pv
    by (simp add: fix_sct_def sct_store_def setPage_rw_def rd_temp_sct_def)
       (simp add: res_bind_def split: sum.split)
  then have "fix_sct k (of_nat i) s = Inr (True, ?s')" by (simp add: eq)
  then show thesis
    by (rule that [OF _ eq]) (simp_all add: page_writable_def pv)
qed

lemma fix_sct_differs:
  assumes "sct_ok k s" "length (temp_sct s) = NR_syscalls k" "i < NR_syscalls k"
    and "sct_store k i (temp_sct s ! i) s = Inr s'" "temp_sct s' = temp_sct s"
    and "j < NR_syscalls k"
  shows "sct_differs s' j \<longleftrightarrow> j \<noteq> i \<and> sct_differs s j"
proof -
  have "sct_list k s' ! j = (sct_list k s)[i := Some (temp_sct s ! i)] ! j"
    using sct_store_list [OF assms(1,3,4)] by simp
  then have "kmem s' (sct_addr s' j) =
      (if j = i then Some (temp_sct s ! i) else kmem s (sct_addr s j))"
    using assms(3,6) by (auto simp: sct_list_def nth_list_update)
  then show ?thesis using assms(5) by (auto simp: sct_differs_def)
qed

text \<open>A repair request for an entry of the table copies the saved address back into that
  entry, changes no other entry, reports success and leaves the page read-only.\<close>

theorem fix_sct_restores_entry:
  assumes "sct_ok k s" "length (temp_sct s) = NR_syscalls k" "i < NR_syscalls k"
  shows "\<exists>s'. fix_sct k (of_nat i) s = Inr (True, s') \<and>
    sct_list k s' = (sct_list k s)[i := Some (temp_sct s ! i)] \<and>
    temp_sct s' = temp_sct s \<and> sct_ok k s' \<and>
    \<not> page_writable k s' (sys_call_table s')"
proof -
  from assms obtain s' where s': "fix_sct k (of_nat i) s = Inr (True, s')"
    "sct_store k i (temp_sct s ! i) s = Inr s'"
    "temp_sct s' = temp_sct s" "sys_call_table s' = sys_call_table s"
    "\<not> page_writable k s' (sys_call_table s)"
    by (rule fix_sct_in_range)
  with assms show ?thesis
    by (auto intro: sct_store_list sct_store_ok)
qed

lemma fix_sct_rejected: "sint i < 0 \<or> int (NR_syscalls k) < sint i \<Longrightarrow> fix_sct k i s = Inr (False, s)"
  by (auto simp: fix_sct_def)

lemma fix_sct_past_end:
  assumes "sct_ok k s" "length (temp_sct s) = NR_syscalls k" "sint i = int (NR_syscalls k)"
  shows "fix_sct k i s = Inl ArrayBounds"
proof -
  from assms(1) obtain p v where "lookup_address k (sys_call_table s) = Some p"
    "ptes s p = Some v" unfolding sct_ok_def by blast
  with assms(2,3) show ?thesis
    by (simp add: fix_sct_def setPage_rw_def rd_temp_sct_def)
qed

text \<open>C39: outside the table a repair request is refused without any effect, except for the
  index equal to the number of entries: the range check accepts it and the copy is read
  past its end.\<close>

theorem fix_sct_range_check:
  assumes "sct_ok k s" "length (temp_sct s) = NR_syscalls k"
  shows "(sint i < 0 \<or> int (NR_syscalls k) < sint i \<longrightarrow> fix_sct k i s = Inr (False, s)) \<and>
    (sint i = int (NR_syscalls k) \<longrightarrow> fix_sct k i s = Inl ArrayBounds)"
  using fix_sct_rejected fix_sct_past_end [OF assms] by blast

text \<open>A client that scans and repairs what the scan reports, for a number of rounds.\<close>

fun scan_fix_rounds :: "kenv \<Rightarrow> nat \<Rightarrow> spybot \<Rightarrow> fault + spybot" where
  "scan_fix_rounds k 0 s = Inr s"
| "scan_fix_rounds k (Suc n) s =
     res_bind (compare_scts k s) (\<lambda>i.
     if i = - 1 then Inr s
     else res_bind (fix_sct k i s) (\<lambda>r. scan_fix_rounds k n (snd r)))"

lemma scan_fix_rounds_restore:
  assumes "sct_ok k s" "length (temp_sct s) = NR_syscalls k"
    and "\<And>j. j < m \<Longrightarrow> j < NR_syscalls k \<Longrightarrow> \<not> sct_differs s j" "NR_syscalls k \<le> m + n"
  shows "\<exists>s'. scan_fix_rounds k n s = Inr s' \<and> temp_sct s' = temp_sct s \<and>
    sct_list k s' = map Some (temp_sct s)"
  using assms
proof (induction n arbitrary: s m)
  case 0
  then show ?case by (simp add: sct_list_eq_iff)
next
  case (Suc n)
  let ?r = "first_index (sct_differs s) 0 (NR_syscalls k)"
  from Suc.prems(1) have nr: "NR_syscalls k < 2 ^ 28" by (simp add: sct_ok_def)
  have cmp: "compare_scts k s = Inr (scan_result ?r)"
    by (rule compare_scts_eq [OF Suc.prems(1,2)])
  show ?case
  proof (cases ?r)
    case None
    with cmp Suc.prems(2) show ?thesis
      by (simp add: scan_result_def first_index_None_iff sct_list_eq_iff)
  next
    case (Some i)
    then have i: "i < NR_syscalls k" "sct_differs s i" "\<forall>j < i. \<not> sct_differs s j"
      by (auto simp: first_index_Some_iff)
    with Suc.prems(3) have "m \<le> i" by (meson not_le)
    from Suc.prems(1,2) i(1) obtain s1 where
      s1: "fix_sct k (of_nat i) s = Inr (True, s1)"
        "sct_store k i (temp_sct s ! i) s = Inr s1" "temp_sct s1 = temp_sct s"
      by (rule fix_sct_in_range)
    have differs: "sct_differs s1 j \<longleftrightarrow> j \<noteq> i \<and> sct_differs s j" if "j < NR_syscalls k" for j
      by (rule fix_sct_differs [OF Suc.prems(1,2) i(1) s1(2,3) that])
    have "\<exists>s'. scan_fix_rounds k n s1 = Inr s' \<and> temp_sct s' = temp_sct s1 \<and>
        sct_list k s' = map Some (temp_sct s1)"
    proof (rule Suc.IH [of s1 "Suc i"])
      show "sct_ok k s1" by (rule sct_store_ok [OF Suc.prems(1) i(1) s1(2)])
      show "length (temp_sct s1) = NR_syscalls k" by (simp add: s1(3) Suc.prems(2))
      show "\<not> sct_differs s1 j" if "j < Suc i" "j < NR_syscalls k" for j
        using that i(3) differs by (auto simp: less_Suc_eq)
      show "NR_syscalls k \<le> Suc i + n" using Suc.prems(4) \<open>m \<le> i\<close> by simp
    qed
    moreover have "scan_fix_rounds k (Suc n) s = scan_fix_rounds k n s1"
      using Some i(1) nr by (simp add: cmp scan_result_def s1(1) of_nat32_neq_minus_one)
    ultimately show ?thesis by (simp add: s1(3))
  qed
qed

text \<open>C9: repairing what the scan reports, again and again, restores the whole table: after
  as many rounds as the table has entries every entry holds its saved address, whatever
  the table held before.\<close>

theorem scan_and_fix_restores_table:
  assumes "sct_ok k s" "length (temp_sct s) = NR_syscalls k"
  shows "\<exists>s'. scan_fix_rounds k (NR_syscalls k) s = Inr s' \<and>
    sct_list k s' = map Some (temp_sct s)"
  using scan_fix_rounds_restore [OF assms, of 0] by auto

subsection \<open>Taking the copies\<close>

lemma create_temp_sct_loop_eq:
  assumes "\<And>j. i \<le> j \<Longrightarrow> j < i + n \<Longrightarrow> kmem s (sct_addr s j) \<noteq> None"
    and "i + n \<le> length (temp_sct s)"
  shows "create_temp_sct_loop i n s =
    Inr (s\<lparr>temp_sct := take i (temp_sct s) @
             map (\<lambda>j. the (kmem s (sct_addr s j))) [i..<i + n] @ drop (i + n) (temp_sct s)\<rparr>)"
  using assms
proof (induction n arbitrary: i s)
  case 0
  then show ?case by simp
next
  case (Suc n)
  from Suc.prems(1) [of i] obtain v where v: "kmem s (sct_addr s i) = Some v" by auto
  have i: "i < length (temp_sct s)" using Suc.prems(2) by simp
  let ?s1 = "s\<lparr>temp_sct := (temp_sct s)[i := v]\<rparr>"
  have "create_temp_sct_loop (Suc i) n ?s1 =
    Inr (?s1\<lparr>temp_sct := take (Suc i) (temp_sct ?s1) @
             map (\<lambda>j. the (kmem ?s1 (sct_addr ?s1 j))) [Suc i..<Suc i + n] @
             drop (Suc i + n) (temp_sct ?s1)\<rparr>)"
    using Suc.prems by (intro Suc.IH) auto
  moreover have "take (Suc i) ((temp_sct s)[i := v]) = take i (temp_sct s) @ [v]"
    using i by (simp add: take_Suc_conv_app_nth)
  moreover have "[i..<i + Suc n] = i # [Suc i..<Suc i + n]"
    by (simp add: upt_rec [of i])
  ultimately show ?case
    using v i by (simp add: rd64_def wr_temp_sct_def)
qed

lemma create_temp_sct_eq:
  assumes "sct_ok k s" "length (temp_sct s) = NR_syscalls k"
  shows "create_temp_sct k s =
    Inr (s\<lparr>temp_sct := map (\<lambda>j. the (kmem s (sct_addr s j))) [0..<NR_syscalls k]\<rparr>)"
  using assms by (simp add: create_temp_sct_def create_temp_sct_loop_eq sct_ok_def)

lemma snapshot_list:
  assumes "sct_ok k s"
  shows "map Some (map (\<lambda>j. the (kmem s (sct_addr s j))) [0..<NR_syscalls k]) = sct_list k s"
  using assms by (auto simp: sct_list_def sct_ok_def)

lemma create_temp_idt_loop_eq:
  assumes "\<And>j. i \<le> j \<Longrightarrow> j < i + n \<Longrightarrow> idt_mem s (gate_addr s j) \<noteq> None"
    and "i + n \<le> length (temp_idt s)"
  shows "create_temp_idt_loop i n s =
    Inr (s\<lparr>temp_idt := take i (temp_idt s) @
             map (\<lambda>j. the (idt_mem s (gate_addr s j))) [i..<i + n] @ drop (i + n) (temp_idt s)\<rparr>)"
  using assms
proof (induction n arbitrary: i s)
  case 0
  then show ?case by simp
next
  case (Suc n)
  from Suc.prems(1) [of i] obtain g where g: "idt_mem s (gate_addr s i) = Some g" by auto
  have i: "i < length (temp_idt s)" using Suc.prems(2) by simp
  let ?s1 = "s\<lparr>temp_idt := (temp_idt s)[i := g]\<rparr>"
  have addr: "gate_addr ?s1 = gate_addr s" by (simp add: gate_addr_def fun_eq_iff)
  have "create_temp_idt_loop (Suc i) n ?s1 =
    Inr (?s1\<lparr>temp_idt := take (Suc i) (temp_idt ?s1) @
             map (\<lambda>j. the (idt_mem ?s1 (gate_addr ?s1 j))) [Suc i..<Suc i + n] @
             drop (Suc i + n) (temp_idt ?s1)\<rparr>)"
    using Suc.prems by (intro Suc.IH) (auto simp: addr)
  moreover have "take (Suc i) ((temp_idt s)[i := g]) = take i (temp_idt s) @ [g]"
    using i by (simp add: take_Suc_conv_app_nth)
  moreover have "[i..<i + Suc n] = i # [Suc i..<Suc i + n]"
    by (simp add: upt_rec [of i])
  ultimately show ?case
    using g i by (simp add: rd_gate_def wr_temp_idt_def addr)
qed

lemma create_temp_idt_eq:
  assumes "idt_ok s" "length (temp_idt s) = MAX_IDT_SIZE"
  shows "create_temp_idt s =
    Inr (s\<lparr>temp_idt := map (\<lambda>j. the (idt_mem s (gate_addr s j))) [0..<MAX_IDT_SIZE]\<rparr>)"
  using assms by (simp add: create_temp_idt_def create_temp_idt_loop_eq idt_ok_def)

subsection \<open>The descriptor table scan\<close>

text \<open>The descriptor table scan answers \<open>-1\<close> exactly when the handler addresses of the
  first 32 gates equal the saved ones, and otherwise the first gate whose handler moved.\<close>

theorem compare_idts_first_hook:
  assumes "idt_ok s" "length (temp_idt s) = MAX_IDT_SIZE"
  shows "(compare_idts k s = Inr (- 1) \<longleftrightarrow> (\<forall>i < MAX_IDT_SIZE. \<not> idt_differs k s i)) \<and>
    (\<forall>i < MAX_IDT_SIZE. compare_idts k s = Inr (of_nat i) \<longleftrightarrow>
       idt_differs k s i \<and> (\<forall>j < i. \<not> idt_differs k s j))"
proof -
  let ?r = "first_index (idt_differs k s) 0 MAX_IDT_SIZE"
  have cmp: "compare_idts k s = Inr (scan_result ?r)" by (rule compare_idts_eq [OF assms])
  have small: "i < 2 ^ 31" if "?r = Some i" for i
    using that by (simp add: first_index_Some_iff MAX_IDT_SIZE_def)
  have "scan_result ?r = of_nat i \<longleftrightarrow> idt_differs k s i \<and> (\<forall>j < i. \<not> idt_differs k s j)"
    if "i < MAX_IDT_SIZE" for i
  proof -
    have "scan_result ?r = of_nat i \<longleftrightarrow> ?r = Some i"
      by (rule scan_result_of_nat [OF small]) (use that in \<open>simp_all add: MAX_IDT_SIZE_def\<close>)
    also have "\<dots> \<longleftrightarrow> idt_differs k s i \<and> (\<forall>j < i. \<not> idt_differs k s j)"
      using that by (auto simp: first_index_Some_iff)
    finally show ?thesis .
  qed
  then show ?thesis
    by (simp add: cmp scan_result_minus_one [OF small] first_index_None_iff)
qed

text \<open>The descriptor table scan cannot see a change of any gate past the first 32: the
  system call gate 128 among them.\<close>

theorem compare_idts_ignores_high_gates:
  assumes "MAX_IDT_SIZE \<le> i" "i < 256"
  shows "compare_idts k (s\<lparr>idt_mem := (idt_mem s)(gate_addr s i \<mapsto> g)\<rparr>) = compare_idts k s"
    (is "compare_idts k ?s' = _")
proof -
  have ne: "gate_addr s j \<noteq> gate_addr s i" if "j < MAX_IDT_SIZE" for j
  proof
    assume "gate_addr s j = gate_addr s i"
    then have "(16 * of_nat j :: u64) = 16 * of_nat i" by (simp add: gate_addr_def)
    then have "unat (16 * of_nat j :: u64) = unat (16 * of_nat i :: u64)" by (rule arg_cong)
    moreover have "unat (16 * of_nat n :: u64) = 16 * n" if "n < 256" for n
      using that by (simp add: unat_word_ariths unat_of_nat take_bit_eq_mod)
    moreover have "j < 256" using that by (simp add: MAX_IDT_SIZE_def)
    ultimately have "j = i" using assms(2) by simp
    with that assms(1) show False by simp
  qed
  have "compare_idts_loop k ?s' e n = compare_idts_loop k s e n" if "e + n \<le> MAX_IDT_SIZE" for e n
    using that
  proof (induction n arbitrary: e)
    case 0
    then show ?case by simp
  next
    case (Suc n)
    then have "gate_addr s e \<noteq> gate_addr s i" by (intro ne) simp
    then have "rd_gate ?s' e = rd_gate s e" "rd_temp_idt ?s' e = rd_temp_idt s e"
      by (simp_all add: rd_gate_def rd_temp_idt_def gate_addr_def)
    moreover have "compare_idts_loop k ?s' (Suc e) n = compare_idts_loop k s (Suc e) n"
      using Suc.prems by (intro Suc.IH) simp
    ultimately show ?case by (simp del: fun_upd_apply cong: if_cong)
  qed
  then show ?thesis by (simp add: compare_idts_def)
qed

end
