(* ===== verification/Hook_Queue.thy ===== *)
theory Hook_Queue
  imports Driver_State
begin

text \<open>
  The linked list of recorded \<open>execve\<close> calls of \<open>Driver/spybot.c\<close>: \<open>add_hook\<close> walks to
  the last element through a pointer to a pointer, \<open>pop_hook\<close> unlinks the first.  A
  \<open>struct syscall_hook **\<close> is a \<open>cell\<close>: the global head or the \<open>next\<close> field of an object.
  The walk ends only if the list does, so \<open>add_hook\<close> is a partial function: \<open>None\<close> is a
  call that never returns.

  The locale \<open>fifo\<close> states what a client of a queue with an uncertain representation may
  rely on; it is interpreted on the driver's operations where they are complete, in the
  theory of the module's entry points.
\<close>

subsection \<open>The interface of a queue\<close>

text \<open>\<open>repr s xs\<close> says that state \<open>s\<close> holds the elements \<open>xs\<close>, first out first; \<open>ready a s\<close>
  is what the state must offer for the request \<open>a\<close> to be recorded, and \<open>item a s\<close> the
  element it records.\<close>

locale fifo =
  fixes repr :: "'s \<Rightarrow> 'x list \<Rightarrow> bool"
    and ready :: "'a \<Rightarrow> 's \<Rightarrow> bool"
    and item :: "'a \<Rightarrow> 's \<Rightarrow> 'x"
    and enq :: "'a \<Rightarrow> 's \<Rightarrow> 's option"
    and deq :: "'s \<Rightarrow> ('x \<times> 's) option"
  assumes enq_repr:
    "repr s xs \<Longrightarrow> ready a s \<Longrightarrow> \<exists>s'. enq a s = Some s' \<and> repr s' (xs @ [item a s])"
  and deq_repr: "repr s (x # xs) \<Longrightarrow> \<exists>s'. deq s = Some (x, s') \<and> repr s' xs"
  and deq_empty: "repr s [] \<Longrightarrow> deq s = None"
begin

primrec deq_many :: "nat \<Rightarrow> 's \<Rightarrow> ('x list \<times> 's) option" where
  "deq_many 0 s = Some ([], s)"
| "deq_many (Suc n) s =
     (case deq s of
        None \<Rightarrow> None
      | Some (x, s') \<Rightarrow> map_option (\<lambda>(xs, t). (x # xs, t)) (deq_many n s'))"

primrec enq_many :: "'a list \<Rightarrow> 's \<Rightarrow> ('x list \<times> 's) option" where
  "enq_many [] s = Some ([], s)"
| "enq_many (a # as) s =
     (case enq a s of
        None \<Rightarrow> None
      | Some s' \<Rightarrow> map_option (\<lambda>(xs, t). (item a s # xs, t)) (enq_many as s'))"

text \<open>Draining returns the elements in the order they went in and leaves the rest.\<close>

lemma deq_many_repr:
  "repr s (xs @ ys) \<Longrightarrow> \<exists>s'. deq_many (length xs) s = Some (xs, s') \<and> repr s' ys"
proof (induction xs arbitrary: s)
  case Nil
  then show ?case by simp
next
  case (Cons x xs)
  then obtain s1 where "deq s = Some (x, s1)" "repr s1 (xs @ ys)"
    using deq_repr [of s x "xs @ ys"] by auto
  with Cons.IH [of s1] show ?case by auto
qed

lemma deq_many_too_many:
  "repr s xs \<Longrightarrow> length xs < n \<Longrightarrow> deq_many n s = None"
proof (induction n arbitrary: s xs)
  case 0
  then show ?case by simp
next
  case (Suc n)
  show ?case
  proof (cases xs)
    case Nil
    with Suc.prems show ?thesis by (simp add: deq_empty)
  next
    case (Cons x ys)
    with Suc.prems obtain s1 where "deq s = Some (x, s1)" "repr s1 ys"
      using deq_repr by blast
    with Suc Cons show ?thesis by simp
  qed
qed

lemma enq_then_deq:
  assumes "repr s xs" "ready a s"
  shows "\<exists>s1 s2. enq a s = Some s1 \<and>
    deq_many (Suc (length xs)) s1 = Some (xs @ [item a s], s2) \<and> repr s2 []"
proof -
  from enq_repr [OF assms] obtain s1 where "enq a s = Some s1" "repr s1 (xs @ [item a s])"
    by blast
  with deq_many_repr [of s1 "xs @ [item a s]" "[]"] show ?thesis by auto
qed

end

subsection \<open>Pointers to pointers\<close>

datatype cell = HeadCell | NextCell u64

definition rd_cell :: "cell \<Rightarrow> spybot \<Rightarrow> fault + u64" where
  "rd_cell c s =
     (case c of
        HeadCell \<Rightarrow> Inr (hooks_list s)
      | NextCell p \<Rightarrow> res_bind (rd_hook p s) (\<lambda>h. Inr (sh_next h)))"

definition wr_cell :: "cell \<Rightarrow> u64 \<Rightarrow> spybot \<Rightarrow> fault + spybot" where
  "wr_cell c v s =
     (case c of
        HeadCell \<Rightarrow> Inr (s\<lparr>hooks_list := v\<rparr>)
      | NextCell p \<Rightarrow> wr_hook p (\<lambda>h. h\<lparr>sh_next := v\<rparr>) s)"

subsection \<open>The operations\<close>

partial_function (option) add_hook :: "cell \<Rightarrow> u64 \<Rightarrow> spybot \<Rightarrow> (fault + spybot) option" where
  "add_hook head obj s =
     (case rd_cell head s of
        Inl e \<Rightarrow> Some (Inl e)
      | Inr p \<Rightarrow>
          if p \<noteq> 0
          then (case rd_hook p s of
                  Inl e \<Rightarrow> Some (Inl e)
                | Inr h \<Rightarrow>
                    if sh_next h \<noteq> 0 then add_hook (NextCell p) obj s
                    else Some (wr_hook p (\<lambda>h. h\<lparr>sh_next := obj\<rparr>) s))
          else Some (wr_cell head obj s))"

definition pop_hook :: "cell \<Rightarrow> spybot \<Rightarrow> fault + u64 \<times> spybot" where
  "pop_hook head s =
     res_bind (rd_cell head s) (\<lambda>p.
     if p \<noteq> 0
     then res_bind (rd_hook p s) (\<lambda>h.
          res_bind (wr_cell head (sh_next h) s) (\<lambda>s. Inr (p, s)))
     else Inr (0, s))"

subsection \<open>Lists in the heap\<close>

primrec hlist :: "(u64 \<Rightarrow> syscall_hook option) \<Rightarrow> u64 \<Rightarrow> u64 list \<Rightarrow> bool" where
  "hlist h p [] \<longleftrightarrow> p = 0"
| "hlist h p (a # as) \<longleftrightarrow>
     p = a \<and> a \<noteq> 0 \<and> (case h a of None \<Rightarrow> False | Some n \<Rightarrow> hlist h (sh_next n) as)"

text \<open>The queue's content: the fields a request for a hook hands out, first out first.\<close>

type_synonym hook_rec = "c_int \<times> c_int \<times> c_int"

definition rec_of :: "syscall_hook \<Rightarrow> hook_rec" where
  "rec_of h = (sh_hook_id h, sh_pid h, sh_parent_pid h)"

definition holds :: "spybot \<Rightarrow> u64 list \<Rightarrow> bool" where
  "holds s ps \<longleftrightarrow> hlist (hooks s) (hooks_list s) ps \<and> distinct ps"

definition recs :: "spybot \<Rightarrow> u64 list \<Rightarrow> hook_rec list" where
  "recs s ps = map (\<lambda>p. rec_of (the (hooks s p))) ps"

lemma hlist_0 [simp]: "hlist h 0 ps \<longleftrightarrow> ps = []"
  by (cases ps) auto

lemma hlist_in_heap: "hlist h p ps \<Longrightarrow> a \<in> set ps \<Longrightarrow> a \<noteq> 0 \<and> h a \<noteq> None"
  by (induction ps arbitrary: p) (auto split: option.splits)

lemma hlist_upd [simp]: "a \<notin> set ps \<Longrightarrow> hlist (h(a := v)) p ps = hlist h p ps"
  by (induction ps arbitrary: p) (auto split: option.splits)

lemma hlist_unique: "hlist h p as \<Longrightarrow> hlist h p bs \<Longrightarrow> as = bs"
proof (induction as arbitrary: p bs)
  case Nil
  then show ?case by simp
next
  case (Cons a as)
  then show ?case by (cases bs) (auto split: option.splits)
qed

text \<open>Linking a fresh object behind the last one.\<close>

lemma hlist_snoc:
  assumes "hlist h p (as @ [a])" "a \<notin> set as" "h a = Some n"
    and "q \<noteq> 0" "q \<notin> set (as @ [a])" "h q = Some m" "sh_next m = 0"
  shows "hlist (h(a \<mapsto> n\<lparr>sh_next := q\<rparr>)) p (as @ [a, q])"
  using assms
proof (induction as arbitrary: p)
  case Nil
  then show ?case by auto
next
  case (Cons b as)
  then show ?case by (auto split: option.splits)
qed

subsection \<open>The walk of \<open>add_hook\<close>\<close>

text \<open>Where the walk stops: at an empty cell or at the last object.\<close>

lemma add_hook_last:
  assumes "hlist (hooks s) p (as @ [a])" "rd_cell c s = Inr p"
  shows "add_hook c q s = Some (wr_hook a (\<lambda>h. h\<lparr>sh_next := q\<rparr>) s)"
  using assms
proof (induction as arbitrary: p c)
  case Nil
  then obtain n where "p = a" "a \<noteq> 0" "hooks s a = Some n" "sh_next n = 0"
    by (auto split: option.splits)
  with Nil.prems(2) show ?case
    by (subst add_hook.simps) (simp add: rd_hook_def)
next
  case (Cons b as)
  then obtain n where n: "p = b" "b \<noteq> 0" "hooks s b = Some n"
    "hlist (hooks s) (sh_next n) (as @ [a])"
    by (auto split: option.splits)
  then have "sh_next n \<noteq> 0" by (cases as) auto
  moreover have "add_hook (NextCell b) q s = Some (wr_hook a (\<lambda>h. h\<lparr>sh_next := q\<rparr>) s)"
    using n by (intro Cons.IH [OF n(4)]) (simp add: rd_cell_def rd_hook_def)
  ultimately show ?case
    using n Cons.prems(2) by (subst add_hook.simps) (simp add: rd_hook_def)
qed

lemma add_hook_holds:
  assumes "holds s ps" "q \<noteq> 0" "q \<notin> set ps" "hooks s q = Some m" "sh_next m = 0"
  obtains s' where "add_hook HeadCell q s = Some (Inr s')" "holds s' (ps @ [q])"
    "recs s' (ps @ [q]) = recs s ps @ [rec_of m]"
    "s' = s\<lparr>hooks := hooks s', hooks_list := hooks_list s'\<rparr>"
    "\<And>p. p \<notin> set ps \<Longrightarrow> hooks s' p = hooks s p"
proof (cases ps rule: rev_cases)
  case Nil
  with assms(1) have "hooks_list s = 0" by (simp add: holds_def)
  then have "add_hook HeadCell q s = Some (Inr (s\<lparr>hooks_list := q\<rparr>))"
    by (subst add_hook.simps) (simp add: rd_cell_def wr_cell_def)
  then show thesis
    by (rule that) (use assms Nil in \<open>auto simp: holds_def recs_def\<close>)
next
  case (snoc as a)
  with assms(1) have l: "hlist (hooks s) (hooks_list s) (as @ [a])" and d: "distinct (as @ [a])"
    by (auto simp: holds_def)
  from hlist_in_heap [OF l, of a] obtain n where n: "a \<noteq> 0" "hooks s a = Some n" by auto
  let ?s = "s\<lparr>hooks := (hooks s)(a \<mapsto> n\<lparr>sh_next := q\<rparr>)\<rparr>"
  have "add_hook HeadCell q s = Some (wr_hook a (\<lambda>h. h\<lparr>sh_next := q\<rparr>) s)"
    by (rule add_hook_last [OF l]) (simp add: rd_cell_def)
  also have "\<dots> = Some (Inr ?s)" using n by (simp add: wr_hook_def rd_hook_def)
  finally have "add_hook HeadCell q s = Some (Inr ?s)" .
  then show thesis
  proof (rule that)
    show "holds ?s (ps @ [q])"
      using hlist_snoc [OF l _ n(2) assms(2) _ assms(4,5)] d assms(3) snoc
      by (auto simp: holds_def)
    show "recs ?s (ps @ [q]) = recs s ps @ [rec_of m]"
      using assms(3,4) snoc n by (auto simp: recs_def rec_of_def)
    show "?s = s\<lparr>hooks := hooks ?s, hooks_list := hooks_list ?s\<rparr>" by simp
    show "hooks ?s p = hooks s p" if "p \<notin> set ps" for p using that snoc by auto
  qed
qed

lemma pop_hook_holds:
  assumes "holds s (p # ps)"
  obtains n s' where "hooks s p = Some n" "p \<noteq> 0" "pop_hook HeadCell s = Inr (p, s')"
    "s' = s\<lparr>hooks_list := sh_next n\<rparr>" "holds s' ps" "p \<notin> set ps"
proof -
  from assms obtain n where "hooks_list s = p" "p \<noteq> 0" "hooks s p = Some n"
    "hlist (hooks s) (sh_next n) ps" "distinct (p # ps)"
    by (auto simp: holds_def split: option.splits)
  then show thesis
    by (intro that [of n "s\<lparr>hooks_list := sh_next n\<rparr>"])
       (auto simp: pop_hook_def rd_cell_def rd_hook_def wr_cell_def holds_def)
qed

lemma pop_hook_empty: "holds s [] \<Longrightarrow> pop_hook HeadCell s = Inr (0, s)"
  by (simp add: holds_def pop_hook_def rd_cell_def)

lemma recs_free [simp]: "p \<notin> set ps \<Longrightarrow> recs (kfree p s) ps = recs s ps"
  by (auto simp: recs_def kfree_def)

lemma holds_kfree [simp]: "p \<notin> set ps \<Longrightarrow> holds (kfree p s) ps \<longleftrightarrow> holds s ps"
  by (auto simp: holds_def kfree_def)

subsection \<open>Properties\<close>

text \<open>Recording a hook whose object is new and whose \<open>next\<close> field is null ends, without
  a fault, and puts the record behind the ones already there.\<close>

theorem add_hook_appends:
  assumes "holds s ps" "q \<noteq> 0" "q \<notin> set ps" "hooks s q = Some m" "sh_next m = 0"
  shows "\<exists>s'. add_hook HeadCell q s = Some (Inr s') \<and> holds s' (ps @ [q]) \<and>
    recs s' (ps @ [q]) = recs s ps @ [rec_of m]"
  using assms by (rule add_hook_holds) blast

text \<open>Taking a hook returns the oldest object and leaves the others in order; on an empty
  list it returns the null pointer and changes nothing.\<close>

theorem pop_hook_takes_first:
  "(holds s (p # ps) \<longrightarrow>
     (\<exists>s'. pop_hook HeadCell s = Inr (p, s') \<and> holds s' ps \<and>
        recs s (p # ps) = rec_of (the (hooks s' p)) # recs s' ps)) \<and>
   (holds s [] \<longrightarrow> pop_hook HeadCell s = Inr (0, s))"
proof (intro conjI impI)
  assume "holds s (p # ps)"
  then obtain n s' where "hooks s p = Some n" "pop_hook HeadCell s = Inr (p, s')"
    "s' = s\<lparr>hooks_list := sh_next n\<rparr>" "holds s' ps"
    by (rule pop_hook_holds)
  then show "\<exists>s'. pop_hook HeadCell s = Inr (p, s') \<and> holds s' ps \<and>
      recs s (p # ps) = rec_of (the (hooks s' p)) # recs s' ps"
    by (auto simp: recs_def)
qed (rule pop_hook_empty)

lemma add_hook_self_loop:
  assumes "add_hook c r s = Some res" "rd_cell c s = Inr q"
    and "hooks s q = Some m" "sh_next m = q" "q \<noteq> 0"
  shows False
proof -
  have "rd_cell c s = Inr q \<longrightarrow> hooks s q = Some m \<longrightarrow> False"
  proof (rule add_hook.raw_induct
      [where P = "\<lambda>c r s res. rd_cell c s = Inr q \<longrightarrow> hooks s q = Some m \<longrightarrow> False", OF _ assms(1)])
    fix f c r s res
    assume IH: "\<And>c r s res. f c r s = Some res \<Longrightarrow> rd_cell c s = Inr q \<longrightarrow> hooks s q = Some m \<longrightarrow> False"
      and eq: "(case rd_cell c s of
        Inl e \<Rightarrow> Some (Inl e)
      | Inr p \<Rightarrow>
          if p \<noteq> 0
          then (case rd_hook p s of
                  Inl e \<Rightarrow> Some (Inl e)
                | Inr h \<Rightarrow>
                    if sh_next h \<noteq> 0 then f (NextCell p) r s
                    else Some (wr_hook p (\<lambda>h. h\<lparr>sh_next := r\<rparr>) s))
          else Some (wr_cell c r s)) = Some res"
    show "rd_cell c s = Inr q \<longrightarrow> hooks s q = Some m \<longrightarrow> False"
    proof (intro impI)
      assume q: "rd_cell c s = Inr q" "hooks s q = Some m"
      with eq assms(4,5) have "f (NextCell q) r s = Some res" by (simp add: rd_hook_def)
      from IH [OF this] q assms(4,5) show False by (simp add: rd_cell_def rd_hook_def)
    qed
  qed
  with assms(2,3) show False by blast
qed

text \<open>Nothing initialises the \<open>next\<close> field of a recorded hook.  If the memory it was
  given happens to hold its own address there, it enters an empty list without an error,
  and the next call that records a hook never returns.\<close>

theorem add_hook_uninitialised_next_diverges:
  assumes "holds s []" "hooks s q = Some m" "sh_next m = q" "q \<noteq> 0"
  shows "\<exists>s1. add_hook HeadCell q s = Some (Inr s1) \<and> add_hook HeadCell r s1 = None"
proof -
  let ?s1 = "s\<lparr>hooks_list := q\<rparr>"
  from assms(1) have "add_hook HeadCell q s = Some (Inr ?s1)"
    by (subst add_hook.simps) (simp add: holds_def rd_cell_def wr_cell_def)
  moreover have "add_hook HeadCell r ?s1 = None"
  proof (cases "add_hook HeadCell r ?s1")
    case (Some res)
    have False
      by (rule add_hook_self_loop [OF Some _ _ assms(3,4)]) (simp_all add: rd_cell_def assms(2))
    then show ?thesis ..
  qed
  ultimately show ?thesis by blast
qed

end
