(* ===== verification/Driver_Device.thy ===== *)
theory Driver_Device
  imports Driver_Tables Hook_Queue
begin

text \<open>
  The character device of \<open>Driver/spybot.c\<close>: \<open>spybot_ioctl\<close> with its two request codes
  and seven options.  It takes the outcomes of the user-space accesses of the call
  (\<open>uaccess\<close>) and the bytes its uninitialised stack structure happens to hold.
\<close>

subsection \<open>Signals\<close>

definition sendSignalToTask :: "uaccess \<Rightarrow> c_int \<Rightarrow> int \<Rightarrow> spybot \<Rightarrow> bool \<times> spybot" where
  "sendSignalToTask u target_pid sig s =
     (if task_exists u target_pid
      then (True, s\<lparr>signals := signals s @ [(target_pid, sig)]\<rparr>)
      else (False, s))"

definition set_result :: "bool \<times> spybot \<Rightarrow> spybot" where
  "set_result r = (snd r)\<lparr>drv_result := (if fst r then 1 else 0)\<rparr>"

subsection \<open>The device\<close>

text \<open>\<open>copy_to_user\<close>: the bytes are delivered, or the call fails.\<close>

definition copy_to_user :: "uaccess \<Rightarrow> u64 \<Rightarrow> byte list \<Rightarrow> spybot \<Rightarrow> int \<times> spybot" where
  "copy_to_user u arg bs s =
     (if to_user_ok u arg (length bs)
      then (0, s\<lparr>user_writes := user_writes s @ [(arg, bs)]\<rparr>)
      else (- EFAULT, s))"

text \<open>The image of a \<open>struct syscall_hook\<close> on the stack: three fields are assigned, the
  padding and the \<open>next\<close> field (12 bytes, \<open>stk\<close>) are not.\<close>

definition hook_data_bytes :: "syscall_hook \<Rightarrow> byte list \<Rightarrow> byte list" where
  "hook_data_bytes h stk =
     le_bytes 4 (sh_hook_id h) @ le_bytes 4 (sh_pid h) @ le_bytes 4 (sh_parent_pid h) @ stk"

definition get_hook :: "uaccess \<Rightarrow> byte list \<Rightarrow> u64 \<Rightarrow> spybot \<Rightarrow> fault + int \<times> spybot" where
  "get_hook u stk arg s =
     res_bind (pop_hook HeadCell s) (\<lambda>(tmp, s).
     res_bind (rd_hook tmp s) (\<lambda>h.
     Inr (copy_to_user u arg (hook_data_bytes h stk) (kfree tmp s))))"

definition spybot_option ::
  "kenv \<Rightarrow> uaccess \<Rightarrow> byte list \<Rightarrow> u64 \<Rightarrow> c_int \<Rightarrow> c_int \<Rightarrow> spybot \<Rightarrow> fault + int \<times> spybot" where
  "spybot_option k u stk arg option param_1 s =
     (if option = KILL then Inr (0, set_result (sendSignalToTask u param_1 SIGKILL s))
      else if option = SUSPEND then Inr (0, set_result (sendSignalToTask u param_1 SIGSTOP s))
      else if option = CONT then Inr (0, set_result (sendSignalToTask u param_1 SIGCONT s))
      else if option = SCT_SCAN
      then res_bind (compare_scts k s) (\<lambda>r. Inr (0, s\<lparr>drv_result := r\<rparr>))
      else if option = SCT_FIX
      then res_bind (fix_sct k param_1 s) (\<lambda>r. Inr (0, set_result r))
      else if option = IDT_SCAN
      then res_bind (compare_idts k s) (\<lambda>r. Inr (0, s\<lparr>drv_result := r\<rparr>))
      else if option = GET_HOOK then get_hook u stk arg s
      else Inr (- EINVAL, s))"

text \<open>Element \<open>i\<close> of an array of integers read from its bytes.\<close>

definition int_at :: "byte list \<Rightarrow> nat \<Rightarrow> c_int" where
  "int_at bs i = le_word (take 4 (drop (4 * i) bs))"

definition spybot_ioctl ::
  "kenv \<Rightarrow> uaccess \<Rightarrow> byte list \<Rightarrow> u32 \<Rightarrow> u64 \<Rightarrow> spybot \<Rightarrow> fault + int \<times> spybot" where
  "spybot_ioctl k u stk cmd arg s =
     (if cmd = SPYBOT_IOC_SEND k
      then (case from_user u arg 8 of
              None \<Rightarrow> Inr (- EFAULT, s)
            | Some user_data \<Rightarrow>
                spybot_option k u stk arg (int_at user_data 0) (int_at user_data 1) s)
      else if cmd = SPYBOT_IOC_RECV k
      then Inr (copy_to_user u arg (le_bytes 4 (drv_result s)) s)
      else Inr (- ENOTTY, s))"

text \<open>The bytes of a request as its client lays them out: an array of two integers.\<close>

definition two_ints :: "c_int \<Rightarrow> c_int \<Rightarrow> byte list" where
  "two_ints a b = le_bytes 4 a @ le_bytes 4 b"

lemma two_ints_words [simp]:
  "int_at (two_ints a b) 0 = a"
  "int_at (two_ints a b) 1 = b"
  "int_at (two_ints a b) (Suc 0) = b"
  "length (two_ints a b) = 8"
  by (simp_all add: two_ints_def int_at_def)

subsection \<open>Requests that change nothing\<close>

text \<open>A request code that is neither of the two, a user buffer that cannot be read, and an
  option that is none of the seven are answered with their error numbers and leave every
  variable of the driver as it was.\<close>

theorem ioctl_rejects:
  "(cmd \<noteq> SPYBOT_IOC_SEND k \<and> cmd \<noteq> SPYBOT_IOC_RECV k \<longrightarrow>
      spybot_ioctl k u stk cmd arg s = Inr (- ENOTTY, s)) \<and>
   (from_user u arg 8 = None \<longrightarrow>
      spybot_ioctl k u stk (SPYBOT_IOC_SEND k) arg s = Inr (- EFAULT, s)) \<and>
   (from_user u arg 8 = Some (two_ints option param) \<and> option \<notin> {0, 1, 2, 3, 4, 5, 6} \<longrightarrow>
      spybot_ioctl k u stk (SPYBOT_IOC_SEND k) arg s = Inr (- EINVAL, s))"
  by (simp add: spybot_ioctl_def spybot_option_def drv_simps)

lemma ioctl_send:
  "from_user u arg 8 = Some (two_ints option param) \<Longrightarrow>
   spybot_ioctl k u stk (SPYBOT_IOC_SEND k) arg s = spybot_option k u stk arg option param s"
  by (simp add: spybot_ioctl_def)

lemma ioctl_recv:
  "SPYBOT_IOC_SEND k \<noteq> SPYBOT_IOC_RECV k \<Longrightarrow>
   spybot_ioctl k u stk (SPYBOT_IOC_RECV k) arg s =
     Inr (copy_to_user u arg (le_bytes 4 (drv_result s)) s)"
  by (simp add: spybot_ioctl_def)

subsection \<open>Signals and scans\<close>

definition signal_of :: "c_int \<Rightarrow> int option" where
  "signal_of option =
     (if option = KILL then Some SIGKILL else if option = SUSPEND then Some SIGSTOP
      else if option = CONT then Some SIGCONT else None)"

lemma spybot_option_signal:
  assumes "signal_of option = Some sig"
  shows "spybot_option k u stk arg option param s =
    Inr (0, s\<lparr>drv_result := (if task_exists u param then 1 else 0),
              signals := signals s @ (if task_exists u param then [(param, sig)] else [])\<rparr>)"
proof -
  from assms consider "option = KILL" "sig = SIGKILL" | "option = SUSPEND" "sig = SIGSTOP"
    | "option = CONT" "sig = SIGCONT"
    by (auto simp: signal_of_def split: if_splits)
  then show ?thesis
    by cases (simp_all add: spybot_option_def set_result_def sendSignalToTask_def drv_simps)
qed

text \<open>A kill, suspend or continue request sends exactly one signal, of the requested kind,
  to the process named if it exists, and none otherwise; the stored result says which.\<close>

theorem ioctl_signal:
  assumes "from_user u arg 8 = Some (two_ints option pid)"
    and "signal_of option = Some sig"
  shows "\<exists>s'. spybot_ioctl k u stk (SPYBOT_IOC_SEND k) arg s = Inr (0, s') \<and>
    (if task_exists u pid
     then drv_result s' = 1 \<and> signals s' = signals s @ [(pid, sig)]
     else drv_result s' = 0 \<and> signals s' = signals s) \<and>
    sct_list k s' = sct_list k s \<and> hooks s' = hooks s \<and> hooks_list s' = hooks_list s"
  by (simp add: ioctl_send [OF assms(1)] spybot_option_signal [OF assms(2)] sct_list_def)

text \<open>The value a reply request delivers after a request is the outcome of that request:
  whether the process exists, whether the entry was repaired, or what the scan found.\<close>

theorem ioctl_send_then_recv:
  assumes "SPYBOT_IOC_SEND k \<noteq> SPYBOT_IOC_RECV k"
    and "from_user u arg 8 = Some (two_ints option param)" "option \<noteq> GET_HOOK"
    and "spybot_ioctl k u stk (SPYBOT_IOC_SEND k) arg s = Inr (0, s1)"
    and "to_user_ok u' arg' 4"
  shows "\<exists>v. spybot_ioctl k u' stk' (SPYBOT_IOC_RECV k) arg' s1 =
      Inr (0, s1\<lparr>user_writes := user_writes s1 @ [(arg', le_bytes 4 v)]\<rparr>) \<and>
    (signal_of option \<noteq> None \<longrightarrow> v = (if task_exists u param then 1 else 0)) \<and>
    (option = SCT_SCAN \<longrightarrow> compare_scts k s = Inr v) \<and>
    (option = IDT_SCAN \<longrightarrow> compare_idts k s = Inr v) \<and>
    (option = SCT_FIX \<longrightarrow> (\<exists>b t. fix_sct k param s = Inr (b, t) \<and> v = (if b then 1 else 0)))"
proof (rule exI [of _ "drv_result s1"], intro conjI impI)
  show "spybot_ioctl k u' stk' (SPYBOT_IOC_RECV k) arg' s1 =
      Inr (0, s1\<lparr>user_writes := user_writes s1 @ [(arg', le_bytes 4 (drv_result s1))]\<rparr>)"
    by (simp add: ioctl_recv [OF assms(1)] copy_to_user_def assms(5))
next
  assume "signal_of option \<noteq> None"
  then obtain sig where "signal_of option = Some sig" by blast
  from assms(4) [unfolded ioctl_send [OF assms(2)] spybot_option_signal [OF this]]
  show "drv_result s1 = (if task_exists u param then 1 else 0)" by auto
next
  assume "option = SCT_SCAN"
  with assms(4) [unfolded ioctl_send [OF assms(2)]] show "compare_scts k s = Inr (drv_result s1)"
    by (auto simp: spybot_option_def drv_simps res_bind_Inr_iff)
next
  assume "option = IDT_SCAN"
  with assms(4) [unfolded ioctl_send [OF assms(2)]] show "compare_idts k s = Inr (drv_result s1)"
    by (auto simp: spybot_option_def drv_simps res_bind_Inr_iff)
next
  assume "option = SCT_FIX"
  with assms(4) [unfolded ioctl_send [OF assms(2)]]
  have "\<exists>r. fix_sct k param s = Inr r \<and> s1 = set_result r"
    by (auto simp: spybot_option_def drv_simps res_bind_Inr_iff)
  then obtain b t where "fix_sct k param s = Inr (b, t)" "s1 = set_result (b, t)" by auto
  then show "\<exists>b t. fix_sct k param s = Inr (b, t) \<and> drv_result s1 = (if b then 1 else 0)"
    by (simp add: set_result_def)
qed

text \<open>The result is one variable for all clients.  When a second client's signal request
  comes between a client's request and its reply, the reply tells the first client whether
  the second client's process exists.\<close>

theorem ioctl_result_is_shared:
  assumes "SPYBOT_IOC_SEND k \<noteq> SPYBOT_IOC_RECV k"
    and "from_user u1 a1 8 = Some (two_ints o1 p1)" "signal_of o1 \<noteq> None"
    and "from_user u2 a2 8 = Some (two_ints o2 p2)" "signal_of o2 \<noteq> None"
    and "to_user_ok u3 a3 4"
  shows "\<exists>s1 s2 s3. spybot_ioctl k u1 stk1 (SPYBOT_IOC_SEND k) a1 s = Inr (0, s1) \<and>
    spybot_ioctl k u2 stk2 (SPYBOT_IOC_SEND k) a2 s1 = Inr (0, s2) \<and>
    spybot_ioctl k u3 stk3 (SPYBOT_IOC_RECV k) a3 s2 = Inr (0, s3) \<and>
    user_writes s3 = user_writes s @ [(a3, le_bytes 4 (if task_exists u2 p2 then 1 else 0 :: c_int))]"
proof -
  from assms(3,5) obtain g1 g2 where g: "signal_of o1 = Some g1" "signal_of o2 = Some g2"
    by blast
  define s1 where "s1 = s\<lparr>drv_result := (if task_exists u1 p1 then 1 else 0),
    signals := signals s @ (if task_exists u1 p1 then [(p1, g1)] else [])\<rparr>"
  define s2 where "s2 = s1\<lparr>drv_result := (if task_exists u2 p2 then 1 else 0),
    signals := signals s1 @ (if task_exists u2 p2 then [(p2, g2)] else [])\<rparr>"
  define s3 where "s3 = s2\<lparr>user_writes := user_writes s2 @ [(a3, le_bytes 4 (drv_result s2))]\<rparr>"
  show ?thesis
  proof (intro exI conjI)
    show "spybot_ioctl k u1 stk1 (SPYBOT_IOC_SEND k) a1 s = Inr (0, s1)"
      unfolding ioctl_send [OF assms(2)] s1_def by (rule spybot_option_signal [OF g(1)])
    show "spybot_ioctl k u2 stk2 (SPYBOT_IOC_SEND k) a2 s1 = Inr (0, s2)"
      unfolding ioctl_send [OF assms(4)] s2_def by (rule spybot_option_signal [OF g(2)])
    show "spybot_ioctl k u3 stk3 (SPYBOT_IOC_RECV k) a3 s2 = Inr (0, s3)"
      unfolding ioctl_recv [OF assms(1)] s3_def by (simp add: copy_to_user_def assms(6))
    show "user_writes s3 = user_writes s @
        [(a3, le_bytes 4 (if task_exists u2 p2 then 1 else 0 :: c_int))]"
      by (simp add: s1_def s2_def s3_def)
  qed
qed

subsection \<open>Handing out hooks\<close>

lemma get_hook_holds:
  assumes "holds s (p # ps)"
  obtains n s' where "hooks s p = Some n" "holds s' ps" "recs s' ps = recs s ps"
    "hooks s' p = None" "hook_id s' = hook_id s"
    "get_hook u stk arg s = Inr (copy_to_user u arg (hook_data_bytes n stk) s')"
    "user_writes s' = user_writes s" "p \<notin> set ps" "hooks s' = (hooks s)(p := None)"
proof -
  from assms obtain n s' where n: "hooks s p = Some n" "p \<noteq> 0"
    "pop_hook HeadCell s = Inr (p, s')" "s' = s\<lparr>hooks_list := sh_next n\<rparr>"
    "holds s' ps" "p \<notin> set ps"
    by (rule pop_hook_holds)
  show thesis
  proof (rule that [of n "kfree p s'"])
    show "recs (kfree p s') ps = recs s ps" using n by (auto simp: recs_def kfree_def)
    show "holds (kfree p s') ps" using n by simp
  qed (use n in \<open>auto simp: get_hook_def rd_hook_def kfree_def\<close>)
qed

text \<open>A request for a hook on an empty list dereferences the null pointer that
  \<open>pop_hook\<close> returns.\<close>

theorem get_hook_empty_faults:
  assumes "holds s []" "from_user u arg 8 = Some (two_ints GET_HOOK param)"
  shows "spybot_ioctl k u stk (SPYBOT_IOC_SEND k) arg s = Inl NullDeref"
  by (simp add: ioctl_send [OF assms(2)] spybot_option_def drv_simps get_hook_def
      pop_hook_empty [OF assms(1)] rd_hook_def)

text \<open>A request for a hook takes the oldest one off the list, frees it, and writes 24
  bytes to the caller's buffer of two integers: the three fields, then 12 bytes the
  kernel stack happened to hold.  If that write fails the hook is lost all the same.\<close>

theorem get_hook_delivers:
  assumes "holds s (p # ps)" "length stk = 12"
    and "from_user u arg 8 = Some (two_ints GET_HOOK param)"
  shows "\<exists>rc s'. spybot_ioctl k u stk (SPYBOT_IOC_SEND k) arg s = Inr (rc, s') \<and>
    holds s' ps \<and> recs s' ps = recs s ps \<and> hooks s' p = None \<and>
    (if to_user_ok u arg 24
     then rc = 0 \<and> (case rec_of (the (hooks s p)) of (i, c, d) \<Rightarrow>
       user_writes s' = user_writes s @ [(arg, le_bytes 4 i @ le_bytes 4 c @ le_bytes 4 d @ stk)])
     else rc = - EFAULT \<and> user_writes s' = user_writes s)"
proof -
  from assms(1) obtain n s' where n: "hooks s p = Some n" "holds s' ps" "recs s' ps = recs s ps"
    "hooks s' p = None" "hook_id s' = hook_id s"
    "get_hook u stk arg s = Inr (copy_to_user u arg (hook_data_bytes n stk) s')"
    "user_writes s' = user_writes s" "p \<notin> set ps" "hooks s' = (hooks s)(p := None)"
    by (rule get_hook_holds [where u = u and stk = stk and arg = arg])
  let ?t = "s'\<lparr>user_writes := user_writes s' @ [(arg, hook_data_bytes n stk)]\<rparr>"
  have "holds ?t ps" "recs ?t ps = recs s' ps" using n(2) by (simp_all add: holds_def recs_def)
  moreover have "length (hook_data_bytes n stk) = 24"
    using assms(2) by (simp add: hook_data_bytes_def)
  ultimately show ?thesis
    using n by (auto simp: ioctl_send [OF assms(3)] spybot_option_def drv_simps copy_to_user_def
        hook_data_bytes_def rec_of_def)
qed

end
