(* ===== verification/Driver_Module.thy ===== *)
theory Driver_Module
  imports Driver_Device
begin

text \<open>
  The rest of \<open>Driver/spybot.c\<close>: the hook that replaces the \<open>execve\<close> system call, the
  module's load and unload functions, and the module as a state machine whose steps are
  its entry points.
\<close>

subsection \<open>The system call hook\<close>

definition syscallHijack :: "kenv \<Rightarrow> spybot \<Rightarrow> fault + spybot" where
  "syscallHijack k s =
     res_bind (setPage_rw k (sys_call_table s) s) (\<lambda>s.
     res_bind (rd64 (sct_addr s (NR_execve k)) s) (\<lambda>v.
     let s = s\<lparr>execve_scf := v\<rparr> in
     res_bind (wr64 k (sct_addr s (NR_execve k)) (new_execve_addr k) s) (\<lambda>s.
     setPage_ro k (sys_call_table s) s)))"

definition removeSyscallHijack :: "kenv \<Rightarrow> spybot \<Rightarrow> fault + spybot" where
  "removeSyscallHijack k s =
     res_bind (setPage_rw k (sys_call_table s) s) (\<lambda>s.
     res_bind (wr64 k (sct_addr s (NR_execve k)) (execve_scf s) s) (\<lambda>s.
     setPage_ro k (sys_call_table s) s))"

text \<open>\<open>new_execve\<close>: \<open>p\<close> and \<open>blk\<close> are the address \<open>kmalloc\<close> returns and what the memory
  there holds; the result is the address the call continues at.\<close>

definition next_hook_id :: "u32 \<Rightarrow> u32" where
  "next_hook_id i = (if MAX_HOOK_ID < i + 1 then MIN_HOOK_ID else i + 1)"

definition new_execve ::
  "c_int \<Rightarrow> c_int \<Rightarrow> u64 \<Rightarrow> syscall_hook \<Rightarrow> spybot \<Rightarrow> (fault + u64 \<times> spybot) option" where
  "new_execve pid parent_pid p blk s =
     (if p = 0 then Some (Inl NullDeref)
      else
        let h = blk\<lparr>sh_pid := pid, sh_parent_pid := parent_pid, sh_hook_id := hook_id s\<rparr>;
            s = s\<lparr>hooks := (hooks s)(p \<mapsto> h)\<rparr>
        in (case add_hook HeadCell p s of
              None \<Rightarrow> None
            | Some r \<Rightarrow> Some (res_bind r (\<lambda>s.
                let s = s\<lparr>hook_id := next_hook_id (hook_id s)\<rparr>
                in Inr (execve_scf s, s)))))"

subsection \<open>Load and unload\<close>

text \<open>What the kernel answers while the module loads: the address \<open>store_idt\<close> reports, the
  module parameter, the function at an address (none: the jump faults), and the results of
  \<open>register_chrdev\<close> and \<open>cdev_add\<close>.\<close>

record boot =
  idt_address :: u64
  kallsyms_lookup_addr :: u64
  function_at :: "u64 \<Rightarrow> (string \<Rightarrow> u64) option"
  register_chrdev_ret :: c_int
  cdev_add_ret :: c_int

definition register_device :: "boot \<Rightarrow> spybot \<Rightarrow> c_int \<times> spybot" where
  "register_device b s =
     (let s = s\<lparr>major_number := register_chrdev_ret b\<rparr> in
      if sint (major_number s) < 0 then (major_number s, s)
      else
        let s = s\<lparr>chrdev_registered := True\<rparr> in
        if sint (cdev_add_ret b) < 0 then (- 1, s\<lparr>chrdev_registered := False\<rparr>)
        else (0, s\<lparr>cdev_added := True\<rparr>))"

definition init_spybot :: "kenv \<Rightarrow> boot \<Rightarrow> spybot \<Rightarrow> fault + c_int \<times> spybot" where
  "init_spybot k b s =
     (let s = s\<lparr>idtr := idt_address b\<rparr> in
      res_bind (create_temp_idt s) (\<lambda>s.
      case function_at b (kallsyms_lookup_addr b) of
        None \<Rightarrow> Inl BadPointer
      | Some gkallsyms_lookup_name \<Rightarrow>
          let s = s\<lparr>sys_call_table := gkallsyms_lookup_name ''sys_call_table''\<rparr> in
          res_bind (syscallHijack k s) (\<lambda>s.
          res_bind (create_temp_sct k s) (\<lambda>s.
          Inr (register_device b s)))))"

partial_function (option) drain_hooks :: "spybot \<Rightarrow> (fault + spybot) option" where
  "drain_hooks s =
     (case pop_hook HeadCell s of
        Inl e \<Rightarrow> Some (Inl e)
      | Inr r \<Rightarrow> if fst r \<noteq> 0 then drain_hooks (kfree (fst r) (snd r)) else Some (Inr (snd r)))"

definition cleanup_spybot :: "kenv \<Rightarrow> spybot \<Rightarrow> (fault + spybot) option" where
  "cleanup_spybot k s =
     (case removeSyscallHijack k s of
        Inl e \<Rightarrow> Some (Inl e)
      | Inr s \<Rightarrow>
          (case drain_hooks s of
             None \<Rightarrow> None
           | Some r \<Rightarrow> Some (res_bind r (\<lambda>s.
               Inr (s\<lparr>cdev_added := False, chrdev_registered := False\<rparr>)))))"

subsection \<open>The table updates as stores\<close>

lemma syscallHijack_store:
  assumes "sct_ok k s" "NR_execve k < NR_syscalls k"
  obtains v s' where "kmem s (sct_addr s (NR_execve k)) = Some v"
    "sct_store k (NR_execve k) (new_execve_addr k) (s\<lparr>execve_scf := v\<rparr>) = Inr s'"
    "syscallHijack k s = Inr s'" "execve_scf s' = v" "sct_ok k s'"
    "sct_list k s' = (sct_list k s)[NR_execve k := Some (new_execve_addr k)]"
    "s' = s\<lparr>kmem := kmem s', ptes := ptes s', execve_scf := v\<rparr>"
proof -
  from assms obtain v where v: "kmem s (sct_addr s (NR_execve k)) = Some v"
    unfolding sct_ok_def by blast
  let ?s = "s\<lparr>execve_scf := v\<rparr>"
  from assms(1) have ok: "sct_ok k ?s" by (simp add: sct_ok_def)
  from ok assms(2) obtain p w where
    w: "lookup_address k (sys_call_table ?s) = Some p" "ptes ?s p = Some w"
      "w AND NOT PAGE_RW \<noteq> 0"
    and eq: "sct_store k (NR_execve k) (new_execve_addr k) ?s =
       Inr (?s\<lparr>kmem := (kmem ?s)(sct_addr ?s (NR_execve k) \<mapsto> new_execve_addr k),
              ptes := (ptes ?s)(p \<mapsto> w AND NOT PAGE_RW)\<rparr>)" (is "_ = Inr ?t")
    by (rule sct_store_eq)
  from assms w(1) have "lookup_address k (sct_addr s (NR_execve k)) = Some p"
    unfolding sct_ok_def by auto
  then have "syscallHijack k s = sct_store k (NR_execve k) (new_execve_addr k) ?s"
    using w v by (simp add: syscallHijack_def sct_store_def setPage_rw_def rd64_def wr64_def
        setPage_ro_def page_writable_def Let_def)
  then have "syscallHijack k s = Inr ?t" by (simp add: eq)
  moreover have "sct_list k ?t = (sct_list k s)[NR_execve k := Some (new_execve_addr k)]"
    using sct_store_list [OF ok assms(2) eq] by (simp add: sct_list_def)
  ultimately show thesis
    using v eq sct_store_ok [OF ok assms(2) eq] by (intro that [of v ?t]) simp_all
qed

lemma removeSyscallHijack_store:
  assumes "sct_ok k s" "NR_execve k < NR_syscalls k"
  obtains s' where "removeSyscallHijack k s = Inr s'" "sct_ok k s'"
    "sct_list k s' = (sct_list k s)[NR_execve k := Some (execve_scf s)]"
    "s' = s\<lparr>kmem := kmem s', ptes := ptes s'\<rparr>"
proof -
  from assms obtain p w where
    w: "lookup_address k (sys_call_table s) = Some p" "ptes s p = Some w"
      "w AND NOT PAGE_RW \<noteq> 0"
    and eq: "sct_store k (NR_execve k) (execve_scf s) s =
       Inr (s\<lparr>kmem := (kmem s)(sct_addr s (NR_execve k) \<mapsto> execve_scf s),
              ptes := (ptes s)(p \<mapsto> w AND NOT PAGE_RW)\<rparr>)" (is "_ = Inr ?t")
    by (rule sct_store_eq)
  have "removeSyscallHijack k s = sct_store k (NR_execve k) (execve_scf s) s"
    using w by (simp add: removeSyscallHijack_def sct_store_def setPage_rw_def)
  then have "removeSyscallHijack k s = Inr ?t" by (simp add: eq)
  then show thesis
    using sct_store_list [OF assms eq] sct_store_ok [OF assms eq] by (intro that [of ?t]) simp_all
qed

subsection \<open>Loading\<close>

text \<open>What loading needs: \<open>kallsyms\<close> finds a table the driver can work with, and the
  descriptor table is mapped.\<close>

definition boot_state :: "boot \<Rightarrow> (string \<Rightarrow> u64) \<Rightarrow> spybot \<Rightarrow> spybot" where
  "boot_state b f s = s\<lparr>idtr := idt_address b, sys_call_table := f ''sys_call_table''\<rparr>"

definition boot_ok :: "kenv \<Rightarrow> boot \<Rightarrow> (string \<Rightarrow> u64) \<Rightarrow> spybot \<Rightarrow> bool" where
  "boot_ok k b f s \<longleftrightarrow>
     function_at b (kallsyms_lookup_addr b) = Some f \<and>
     NR_execve k < NR_syscalls k \<and>
     sct_ok k (boot_state b f s) \<and> idt_ok (boot_state b f s) \<and>
     length (temp_sct s) = NR_syscalls k \<and> length (temp_idt s) = MAX_IDT_SIZE"

text \<open>Everything before the device registration.\<close>

definition tables_loaded :: "kenv \<Rightarrow> boot \<Rightarrow> (string \<Rightarrow> u64) \<Rightarrow> spybot \<Rightarrow> spybot \<Rightarrow> bool" where
  "tables_loaded k b f s s' \<longleftrightarrow>
     sct_list k s' = (sct_list k (boot_state b f s))[NR_execve k := Some (new_execve_addr k)] \<and>
     map Some (temp_sct s') = sct_list k s' \<and> length (temp_sct s') = NR_syscalls k \<and>
     sct_list k (boot_state b f s) ! NR_execve k = Some (execve_scf s') \<and>
     sct_ok k s' \<and> idt_ok s' \<and> length (temp_idt s') = MAX_IDT_SIZE \<and>
     (\<forall>i < MAX_IDT_SIZE. \<not> idt_differs k s' i) \<and>
     hooks s' = hooks s \<and> hooks_list s' = hooks_list s \<and> hook_id s' = hook_id s"

lemma init_spybot_tables:
  assumes "boot_ok k b f s"
  shows "\<exists>s'. init_spybot k b s = Inr (register_device b s') \<and> tables_loaded k b f s s'"
proof -
  let ?s1 = "boot_state b f s"
  define ti where "ti = map (\<lambda>j. the (idt_mem s (gate_addr ?s1 j))) [0..<MAX_IDT_SIZE]"
  let ?s2 = "?s1\<lparr>temp_idt := ti\<rparr>"
  from assms have b: "function_at b (kallsyms_lookup_addr b) = Some f"
    "NR_execve k < NR_syscalls k" "sct_ok k ?s1" "idt_ok ?s1"
    "length (temp_sct s) = NR_syscalls k" "length (temp_idt s) = MAX_IDT_SIZE"
    by (simp_all add: boot_ok_def)
  have gaddr: "gate_addr ?s1 = gate_addr (s\<lparr>idtr := idt_address b\<rparr>)"
    by (simp add: gate_addr_def boot_state_def fun_eq_iff)
  have "idt_ok (s\<lparr>idtr := idt_address b\<rparr>)"
    using b(4) gaddr by (simp add: idt_ok_def boot_state_def)
  then have idt: "create_temp_idt (s\<lparr>idtr := idt_address b\<rparr>) =
      Inr (s\<lparr>idtr := idt_address b, temp_idt := ti\<rparr>)"
    using b(6) gaddr by (subst create_temp_idt_eq) (simp_all add: ti_def)
  have ok2: "sct_ok k ?s2" using b(3) by (simp add: sct_ok_def)
  from ok2 b(2) obtain v s3 where s3: "kmem ?s2 (sct_addr ?s2 (NR_execve k)) = Some v"
    "syscallHijack k ?s2 = Inr s3" "execve_scf s3 = v" "sct_ok k s3"
    "sct_list k s3 = (sct_list k ?s2)[NR_execve k := Some (new_execve_addr k)]"
    "s3 = ?s2\<lparr>kmem := kmem s3, ptes := ptes s3, execve_scf := v\<rparr>"
    by (rule syscallHijack_store)
  define ts where "ts = map (\<lambda>j. the (kmem s3 (sct_addr s3 j))) [0..<NR_syscalls k]"
  let ?s4 = "s3\<lparr>temp_sct := ts\<rparr>"
  have f3: "temp_sct s3 = temp_sct s" "idtr s3 = idt_address b" "idt_mem s3 = idt_mem s"
    "temp_idt s3 = ti" "hooks s3 = hooks s" "hooks_list s3 = hooks_list s" "hook_id s3 = hook_id s"
    by (subst s3(6), simp add: boot_state_def)+
  have sct: "create_temp_sct k s3 = Inr ?s4"
    using s3(4) b(5) f3(1) by (simp add: create_temp_sct_eq ts_def)
  have list4: "sct_list k ?s4 = sct_list k s3" "sct_list k ?s2 = sct_list k ?s1"
    by (simp_all add: sct_list_def)
  have g4: "gate_addr ?s4 = gate_addr ?s1"
    using f3(2) by (simp add: gate_addr_def boot_state_def fun_eq_iff)
  have "s\<lparr>idtr := idt_address b, temp_idt := ti, sys_call_table := f ''sys_call_table''\<rparr> = ?s2"
    by (simp add: boot_state_def)
  then have "init_spybot k b s = Inr (register_device b ?s4)"
    using s3(2) by (simp add: init_spybot_def Let_def idt b(1) sct)
  moreover have "tables_loaded k b f s ?s4"
    unfolding tables_loaded_def
  proof (intro conjI allI impI)
    show "sct_list k ?s4 = (sct_list k ?s1)[NR_execve k := Some (new_execve_addr k)]"
      by (simp only: list4 s3(5))
    show "map Some (temp_sct ?s4) = sct_list k ?s4"
      using snapshot_list [OF s3(4)] by (subst list4(1)) (simp add: ts_def)
    show "sct_list k ?s1 ! NR_execve k = Some (execve_scf ?s4)"
      using s3(1,3) b(2) by (simp add: sct_list_def)
    show "sct_ok k ?s4" using s3(4) by (simp add: sct_ok_def)
    show "idt_ok ?s4" using b(4) f3(3) by (simp add: idt_ok_def g4) (simp add: boot_state_def)
    show "\<not> idt_differs k ?s4 i" if "i < MAX_IDT_SIZE" for i
      using that b(4) f3 by (auto simp: idt_differs_def g4 ti_def idt_ok_def boot_state_def
          gate_differs_def)
  qed (simp_all add: f3 ts_def ti_def)
  ultimately show ?thesis by blast
qed

text \<open>Registering the device touches neither table nor copy.\<close>

lemma register_device_frame [simp]:
  "kmem (snd (register_device b s)) = kmem s"
  "temp_sct (snd (register_device b s)) = temp_sct s"
  "sct_addr (snd (register_device b s)) = sct_addr s"
  "gate_addr (snd (register_device b s)) = gate_addr s"
  "idt_mem (snd (register_device b s)) = idt_mem s"
  "temp_idt (snd (register_device b s)) = temp_idt s"
  "execve_scf (snd (register_device b s)) = execve_scf s"
  "hooks (snd (register_device b s)) = hooks s"
  "hooks_list (snd (register_device b s)) = hooks_list s"
  "hook_id (snd (register_device b s)) = hook_id s"
  "ptes (snd (register_device b s)) = ptes s"
  "sys_call_table (snd (register_device b s)) = sys_call_table s"
  by (simp_all add: register_device_def Let_def sct_addr_def gate_addr_def fun_eq_iff)

lemma register_device_tables [simp]:
  "sct_list k (snd (register_device b s)) = sct_list k s"
  "sct_ok k (snd (register_device b s)) = sct_ok k s"
  "idt_ok (snd (register_device b s)) = idt_ok s"
  "idt_differs k (snd (register_device b s)) i = idt_differs k s i"
  by (simp_all add: sct_list_def sct_ok_def idt_ok_def idt_differs_def cong: option.case_cong)

lemma tables_loaded_register [simp]:
  "tables_loaded k b f s (snd (register_device b t)) \<longleftrightarrow> tables_loaded k b f s t"
  by (simp add: tables_loaded_def)

lemma tables_loaded_clean:
  assumes "tables_loaded k b f s t"
  shows "compare_scts k t = Inr (- 1)" "compare_idts k t = Inr (- 1)"
proof -
  from assms have t: "map Some (temp_sct t) = sct_list k t" "length (temp_sct t) = NR_syscalls k"
    "sct_ok k t" "idt_ok t" "length (temp_idt t) = MAX_IDT_SIZE"
    "\<forall>i < MAX_IDT_SIZE. \<not> idt_differs k t i"
    by (simp_all add: tables_loaded_def)
  from t(1,2) have "\<forall>i < NR_syscalls k. \<not> sct_differs t i"
    by (simp flip: sct_list_eq_iff)
  then have "first_index (sct_differs t) 0 (NR_syscalls k) = None"
    by (simp add: first_index_None_iff)
  with t(2,3) show "compare_scts k t = Inr (- 1)" by (simp add: compare_scts_eq scan_result_def)
  from t(6) have "first_index (idt_differs k t) 0 MAX_IDT_SIZE = None"
    by (simp add: first_index_None_iff)
  with t(4,5) show "compare_idts k t = Inr (- 1)" by (simp add: compare_idts_eq scan_result_def)
qed

text \<open>When every kernel service succeeds, loading puts the driver's function into the
  \<open>execve\<close> entry, keeps the old address, changes no other entry, and takes copies against
  which both scans then find nothing.\<close>

theorem init_hooks_and_scans_clean:
  assumes "boot_ok k b f s" "0 \<le> sint (register_chrdev_ret b)" "0 \<le> sint (cdev_add_ret b)"
  shows "\<exists>s'. init_spybot k b s = Inr (0, s') \<and> chrdev_registered s' \<and> cdev_added s' \<and>
    sct_list k s' = (sct_list k (boot_state b f s))[NR_execve k := Some (new_execve_addr k)] \<and>
    sct_list k (boot_state b f s) ! NR_execve k = Some (execve_scf s') \<and>
    compare_scts k s' = Inr (- 1) \<and> compare_idts k s' = Inr (- 1)"
proof -
  from init_spybot_tables [OF assms(1)] obtain t where
    t: "init_spybot k b s = Inr (register_device b t)" "tables_loaded k b f s t" by blast
  let ?s = "snd (register_device b t)"
  have "register_device b t = (0, ?s)" "chrdev_registered ?s" "cdev_added ?s"
    using assms(2,3) by (simp_all add: register_device_def Let_def)
  moreover have l: "tables_loaded k b f s ?s" using t(2) by simp
  moreover note tables_loaded_clean [OF l]
  ultimately show ?thesis
    using t(1) by (intro exI [of _ ?s]) (simp add: tables_loaded_def)
qed

text \<open>When the device cannot be registered or added, loading fails, and the \<open>execve\<close>
  entry still holds the address of the function of the module that is not loaded.\<close>

theorem init_failure_leaves_hook:
  assumes "boot_ok k b f s" "sint (register_chrdev_ret b) < 0 \<or> sint (cdev_add_ret b) < 0"
  shows "\<exists>rc s'. init_spybot k b s = Inr (rc, s') \<and> sint rc < 0 \<and>
    sct_list k s' ! NR_execve k = Some (new_execve_addr k)"
proof -
  from init_spybot_tables [OF assms(1)] obtain t where
    t: "init_spybot k b s = Inr (register_device b t)" "tables_loaded k b f s t" by blast
  let ?s = "snd (register_device b t)"
  from assms(1) have "NR_execve k < length (sct_list k (boot_state b f s))"
    by (simp add: boot_ok_def sct_list_def)
  moreover have "tables_loaded k b f s ?s" using t(2) by simp
  ultimately have "sct_list k ?s ! NR_execve k = Some (new_execve_addr k)"
    by (simp add: tables_loaded_def)
  moreover have "sint (fst (register_device b t)) < 0"
    using assms(2) by (auto simp: register_device_def Let_def)
  ultimately show ?thesis
    using t(1) by (metis prod.collapse)
qed

subsection \<open>Unloading\<close>

lemma drain_hooks_holds:
  "holds s ps \<Longrightarrow> \<exists>s'. drain_hooks s = Some (Inr s') \<and> holds s' [] \<and>
     (\<forall>p. hooks s' p = (if p \<in> set ps then None else hooks s p)) \<and>
     s' = s\<lparr>hooks := hooks s', hooks_list := hooks_list s'\<rparr>"
proof (induction ps arbitrary: s)
  case Nil
  then have "drain_hooks s = Some (Inr s)"
    by (subst drain_hooks.simps) (simp add: pop_hook_empty)
  with Nil show ?case by simp
next
  case (Cons p ps)
  then obtain n s1 where n: "hooks s p = Some n" "p \<noteq> 0"
    "pop_hook HeadCell s = Inr (p, s1)" "s1 = s\<lparr>hooks_list := sh_next n\<rparr>"
    "holds s1 ps" "p \<notin> set ps"
    by (auto elim: pop_hook_holds)
  then have "holds (kfree p s1) ps" by simp
  from Cons.IH [OF this] obtain s' where s': "drain_hooks (kfree p s1) = Some (Inr s')"
    "holds s' []" "\<forall>q. hooks s' q = (if q \<in> set ps then None else hooks (kfree p s1) q)"
    "s' = (kfree p s1)\<lparr>hooks := hooks s', hooks_list := hooks_list s'\<rparr>"
    by blast
  have "drain_hooks s = Some (Inr s')"
    using n s'(1) by (subst drain_hooks.simps) simp
  moreover have "\<forall>q. hooks s' q = (if q \<in> set (p # ps) then None else hooks s q)"
    using s'(3) n(2,4) by (simp add: kfree_def)
  moreover have "s' = s\<lparr>hooks := hooks s', hooks_list := hooks_list s'\<rparr>"
    by (subst s'(4)) (simp add: kfree_def n(2,4))
  ultimately show ?case using s'(2) by blast
qed

lemma cleanup_spybot_holds:
  assumes "sct_ok k s" "NR_execve k < NR_syscalls k" "holds s ps"
  shows "\<exists>s'. cleanup_spybot k s = Some (Inr s') \<and>
    sct_list k s' = (sct_list k s)[NR_execve k := Some (execve_scf s)] \<and>
    holds s' [] \<and> (\<forall>p. hooks s' p = (if p \<in> set ps then None else hooks s p)) \<and>
    \<not> cdev_added s' \<and> \<not> chrdev_registered s'"
proof -
  from assms(1,2) obtain s1 where s1: "removeSyscallHijack k s = Inr s1" "sct_ok k s1"
    "sct_list k s1 = (sct_list k s)[NR_execve k := Some (execve_scf s)]"
    "s1 = s\<lparr>kmem := kmem s1, ptes := ptes s1\<rparr>"
    by (rule removeSyscallHijack_store)
  have h1: "hooks s1 = hooks s" "hooks_list s1 = hooks_list s" by (subst s1(4), simp)+
  then have "holds s1 ps" using assms(3) by (simp add: holds_def)
  from drain_hooks_holds [OF this] obtain s2 where s2: "drain_hooks s1 = Some (Inr s2)"
    "holds s2 []" "\<forall>p. hooks s2 p = (if p \<in> set ps then None else hooks s1 p)"
    "s2 = s1\<lparr>hooks := hooks s2, hooks_list := hooks_list s2\<rparr>" by blast
  let ?s = "s2\<lparr>cdev_added := False, chrdev_registered := False\<rparr>"
  have "kmem s2 = kmem s1" "sys_call_table s2 = sys_call_table s1" by (subst s2(4), simp)+
  then have "sct_list k ?s = sct_list k s1"
    by (simp add: sct_list_def sct_addr_def)
  then show ?thesis
    using s1(1,3) s2(1,2,3) h1(1)
    by (intro exI [of _ ?s]) (simp add: cleanup_spybot_def holds_def)
qed

text \<open>Unloading ends, without a fault, puts the saved address back into the \<open>execve\<close>
  entry, frees every recorded hook and removes the device.\<close>

theorem cleanup_restores:
  assumes "sct_ok k s" "NR_execve k < NR_syscalls k" "holds s ps"
  shows "\<exists>s'. cleanup_spybot k s = Some (Inr s') \<and>
    sct_list k s' = (sct_list k s)[NR_execve k := Some (execve_scf s)] \<and>
    holds s' [] \<and> (\<forall>p. hooks s' p = (if p \<in> set ps then None else hooks s p)) \<and>
    \<not> cdev_added s' \<and> \<not> chrdev_registered s'"
  by (rule cleanup_spybot_holds [OF assms])

text \<open>C40: loading and then unloading leaves the system call table as it was found.\<close>

theorem load_unload_restores_table:
  assumes "boot_ok k b f s" "init_spybot k b s = Inr (0, s1)" "holds s ps"
  shows "\<exists>s2. cleanup_spybot k s1 = Some (Inr s2) \<and>
    sct_list k s2 = sct_list k (boot_state b f s)"
proof -
  from init_spybot_tables [OF assms(1)] obtain t where
    t: "init_spybot k b s = Inr (register_device b t)" "tables_loaded k b f s t" by blast
  with assms(2) have s1: "s1 = snd (register_device b t)" by simp
  with t(2) have l: "tables_loaded k b f s s1" by simp
  then have "sct_ok k s1" "holds s1 ps"
    using assms(3) by (simp_all add: tables_loaded_def holds_def)
  moreover from assms(1) have e: "NR_execve k < NR_syscalls k" by (simp add: boot_ok_def)
  ultimately obtain s2 where s2: "cleanup_spybot k s1 = Some (Inr s2)"
    "sct_list k s2 = (sct_list k s1)[NR_execve k := Some (execve_scf s1)]"
    by (meson cleanup_spybot_holds)
  moreover have "(sct_list k s1)[NR_execve k := Some (execve_scf s1)] = sct_list k (boot_state b f s)"
    using l by (simp add: tables_loaded_def) (metis list_update_id)
  ultimately show ?thesis by auto
qed

end
