(* ===== verification/Driver_Client.thy ===== *)
theory Driver_Client
  imports Driver_Module Cpp_Runtime
begin

text \<open>
  The calls of the backend that talk to the driver: \<open>communicateWithDriver\<close> of
  \<open>RequestHandler.cpp\<close>, \<open>blockPid\<close>, \<open>sctScan\<close> and \<open>idtScan\<close> of \<open>PeriodicScanHandler.cpp\<close>.
  Each opens the device, sends two integers with one request, fetches the result with a
  second one, and closes the device; none looks at the result of \<open>open\<close> or of \<open>ioctl\<close>.
  The driver is the model of the kernel module, so the theorems here are about both sides.
\<close>

subsection \<open>The calls\<close>

text \<open>What a call meets: whether the device file can be opened, the kernel, the processes that
  exist, and what the kernel stack holds.\<close>

record device =
  dev_open :: bool
  dev_kernel :: kenv
  dev_task :: "c_int \<Rightarrow> bool"
  dev_stack :: "byte list"

definition kill_proc :: c_int where "kill_proc = 0"
definition stop_proc :: c_int where "stop_proc = 1"
definition cont_proc :: c_int where "cont_proc = 2"
definition sct_scan :: c_int where "sct_scan = 3"
definition sct_fix :: c_int where "sct_fix = 4"
definition idt_scan :: c_int where "idt_scan = 5"

text \<open>The addresses of the local variables \<open>args\<close> and \<open>result\<close>, and the memory the driver sees
  through them.\<close>

definition args_addr :: u64 where "args_addr = 4096"
definition result_addr :: u64 where "result_addr = 8192"

definition client_memory :: "device \<Rightarrow> c_int \<Rightarrow> c_int \<Rightarrow> uaccess" where
  "client_memory d a b =
     \<lparr>from_user = (\<lambda>p n. if p = args_addr then Some (take n (two_ints a b)) else None),
      to_user_ok = (\<lambda>_ _. True), task_exists = dev_task d\<rparr>"

text \<open>\<open>ioctl\<close> on the descriptor that \<open>open\<close> returned: on a negative one it fails and reaches no
  driver.\<close>

definition ioctl_dev :: "device \<Rightarrow> uaccess \<Rightarrow> u32 \<Rightarrow> u64 \<Rightarrow> spybot \<Rightarrow> stop + spybot" where
  "ioctl_dev d u cmd arg s =
     (if \<not> dev_open d then Inr s
      else (case spybot_ioctl (dev_kernel d) u (dev_stack d) cmd arg s of
              Inl f \<Rightarrow> Inl (KernelFault f)
            | Inr (_, s) \<Rightarrow> Inr s))"

text \<open>The integer at an address of the client after the driver wrote \<open>ws\<close>.\<close>

definition user_int :: "u64 \<Rightarrow> c_int \<Rightarrow> (u64 \<times> byte list) list \<Rightarrow> c_int" where
  "user_int a v ws = foldl (\<lambda>v (p, bs). if p = a then le_word bs else v) v ws"

definition communicateWithDriver ::
  "device \<Rightarrow> c_int \<Rightarrow> c_int \<Rightarrow> spybot \<Rightarrow> stop + c_int \<times> spybot" where
  "communicateWithDriver d action target_pid s =
     (let u = client_memory d action target_pid in
      res_bind (ioctl_dev d u (SPYBOT_IOC_SEND (dev_kernel d)) args_addr s) (\<lambda>s1.
      res_bind (ioctl_dev d u (SPYBOT_IOC_RECV (dev_kernel d)) result_addr s1) (\<lambda>s2.
      Inr (user_int result_addr 0 (drop (length (user_writes s1)) (user_writes s2)), s2))))"

definition blockPid :: "device \<Rightarrow> c_int \<Rightarrow> spybot \<Rightarrow> stop + c_int \<times> spybot" where
  "blockPid d pid s =
     (let u = client_memory d kill_proc pid in
      res_bind (ioctl_dev d u (SPYBOT_IOC_SEND (dev_kernel d)) args_addr s) (\<lambda>s1.
      res_bind (ioctl_dev d u (SPYBOT_IOC_RECV (dev_kernel d)) result_addr s1) (\<lambda>s2.
      Inr (user_int result_addr 0 (drop (length (user_writes s1)) (user_writes s2)), s2))))"

definition sctScan :: "device \<Rightarrow> spybot \<Rightarrow> stop + c_int \<times> spybot" where
  "sctScan d s =
     (let u = client_memory d sct_scan 0 in
      res_bind (ioctl_dev d u (SPYBOT_IOC_SEND (dev_kernel d)) args_addr s) (\<lambda>s1.
      res_bind (ioctl_dev d u (SPYBOT_IOC_RECV (dev_kernel d)) result_addr s1) (\<lambda>s2.
      Inr (user_int result_addr 0 (drop (length (user_writes s1)) (user_writes s2)), s2))))"

definition idtScan :: "device \<Rightarrow> spybot \<Rightarrow> stop + c_int \<times> spybot" where
  "idtScan d s =
     (let u = client_memory d idt_scan 0 in
      res_bind (ioctl_dev d u (SPYBOT_IOC_SEND (dev_kernel d)) args_addr s) (\<lambda>s1.
      res_bind (ioctl_dev d u (SPYBOT_IOC_RECV (dev_kernel d)) result_addr s1) (\<lambda>s2.
      Inr (user_int result_addr 0 (drop (length (user_writes s1)) (user_writes s2)), s2))))"

lemma blockPid_eq: "blockPid d pid s = communicateWithDriver d kill_proc pid s"
  by (simp add: blockPid_def communicateWithDriver_def)

lemma sctScan_eq: "sctScan d s = communicateWithDriver d sct_scan 0 s"
  by (simp add: sctScan_def communicateWithDriver_def)

lemma idtScan_eq: "idtScan d s = communicateWithDriver d idt_scan 0 s"
  by (simp add: idtScan_def communicateWithDriver_def)

lemmas proc_actions = kill_proc_def stop_proc_def cont_proc_def sct_scan_def sct_fix_def
  idt_scan_def

subsection \<open>A request and its reply\<close>

definition codes_differ :: "device \<Rightarrow> bool" where
  "codes_differ d \<longleftrightarrow> SPYBOT_IOC_SEND (dev_kernel d) \<noteq> SPYBOT_IOC_RECV (dev_kernel d)"

lemma client_memory_args [simp]:
  "from_user (client_memory d a b) args_addr 8 = Some (two_ints a b)"
  "to_user_ok (client_memory d a b) p n" "task_exists (client_memory d a b) = dev_task d"
  by (simp_all add: client_memory_def)

text \<open>A request the driver answers without writing to its client: the client gets the result
  the driver stored.\<close>

lemma communicate_open:
  assumes "dev_open d" "codes_differ d"
    and "spybot_option (dev_kernel d) (client_memory d a b) (dev_stack d) args_addr a b s = Inr (rc, s1)"
  shows "communicateWithDriver d a b s =
    Inr (drv_result s1, s1\<lparr>user_writes := user_writes s1 @ [(result_addr, le_bytes 4 (drv_result s1))]\<rparr>)"
  using assms
  by (simp add: communicateWithDriver_def ioctl_dev_def ioctl_send ioctl_recv codes_differ_def
      copy_to_user_def user_int_def)

lemma communicate_closed:
  "\<not> dev_open d \<Longrightarrow> communicateWithDriver d a b s = Inr (0, s)"
  by (simp add: communicateWithDriver_def ioctl_dev_def user_int_def)

lemma communicate_signal:
  assumes "dev_open d" "codes_differ d" "signal_of a = Some sig"
  shows "communicateWithDriver d a pid s =
    Inr (if dev_task d pid then 1 else 0,
      s\<lparr>drv_result := (if dev_task d pid then 1 else 0),
        signals := signals s @ (if dev_task d pid then [(pid, sig)] else []),
        user_writes := user_writes s @
          [(result_addr, le_bytes 4 (if dev_task d pid then 1 else 0 :: c_int))]\<rparr>)"
  by (simp add: communicate_open [OF assms(1,2) spybot_option_signal [OF assms(3)]])

lemma communicate_signal_result:
  assumes "codes_differ d" "signal_of a = Some sig"
  obtains s' where
    "communicateWithDriver d a pid s = Inr (if dev_open d \<and> dev_task d pid then 1 else 0, s')"
    "signals s' = signals s @ (if dev_open d \<and> dev_task d pid then [(pid, sig)] else [])"
  using assms by (cases "dev_open d") (simp_all add: communicate_signal communicate_closed)

text \<open>Free, block and kill requests of the backend send the signal they stand for to the
  process if it exists and report whether it did; when the device cannot be opened nothing
  is sent and the report is the one for a missing process.\<close>

theorem driver_signal_requests:
  assumes "signal_of a = Some sig" "codes_differ d"
  shows "\<exists>s'. communicateWithDriver d a pid s = Inr (if dev_open d \<and> dev_task d pid then 1 else 0, s') \<and>
    signals s' = signals s @ (if dev_open d \<and> dev_task d pid then [(pid, sig)] else [])"
  using assms by (cases "dev_open d") (simp_all add: communicate_signal communicate_closed)

text \<open>A process found by the packet scan is killed: \<open>blockPid\<close> sends the signal that ends a
  process, although the report and the comment call it blocked.\<close>

theorem blockPid_kills:
  assumes "dev_open d" "codes_differ d" "dev_task d pid"
  shows "\<exists>s'. blockPid d pid s = Inr (1, s') \<and> signals s' = signals s @ [(pid, SIGKILL)]"
proof -
  have "signal_of kill_proc = Some SIGKILL" by (simp add: signal_of_def drv_simps proc_actions)
  from communicate_signal [OF assms(1,2) this] assms(3) show ?thesis
    by (simp add: blockPid_eq)
qed

lemma sctScan_open:
  assumes "dev_open d" "codes_differ d"
    and "sct_ok (dev_kernel d) s" "length (temp_sct s) = NR_syscalls (dev_kernel d)"
  shows "\<exists>v w. sctScan d s =
    Inr (scan_result (first_index (sct_differs s) 0 (NR_syscalls (dev_kernel d))),
      s\<lparr>drv_result := v, user_writes := w\<rparr>)"
proof -
  have "spybot_option (dev_kernel d) (client_memory d sct_scan 0) (dev_stack d) args_addr sct_scan 0 s =
    Inr (0, s\<lparr>drv_result := scan_result (first_index (sct_differs s) 0 (NR_syscalls (dev_kernel d)))\<rparr>)"
    using compare_scts_eq [OF assms(3,4)]
    by (simp add: spybot_option_def drv_simps proc_actions)
  from communicate_open [OF assms(1,2) this] show ?thesis
    by (auto simp: sctScan_eq)
qed

lemma idtScan_open:
  assumes "dev_open d" "codes_differ d"
    and "idt_ok s" "length (temp_idt s) = MAX_IDT_SIZE"
  shows "\<exists>v w. idtScan d s =
    Inr (scan_result (first_index (idt_differs (dev_kernel d) s) 0 MAX_IDT_SIZE),
      s\<lparr>drv_result := v, user_writes := w\<rparr>)"
proof -
  have "spybot_option (dev_kernel d) (client_memory d idt_scan 0) (dev_stack d) args_addr idt_scan 0 s =
    Inr (0, s\<lparr>drv_result := scan_result (first_index (idt_differs (dev_kernel d) s) 0 MAX_IDT_SIZE)\<rparr>)"
    using compare_idts_eq [OF assms(3,4)]
    by (simp add: spybot_option_def drv_simps proc_actions)
  from communicate_open [OF assms(1,2) this] show ?thesis by (auto simp: idtScan_eq)
qed

lemma sct_scan_clean:
  assumes "sct_ok k s" "length (temp_sct s) = NR_syscalls k"
  shows "scan_result (first_index (sct_differs s) 0 (NR_syscalls k)) = - 1 \<longleftrightarrow>
    sct_list k s = map Some (temp_sct s)"
proof -
  let ?i = "first_index (sct_differs s) 0 (NR_syscalls k)"
  have small: "i < 2 ^ 31" if "?i = Some i" for i
    using that assms(1) by (simp add: first_index_Some_iff sct_ok_def)
  show ?thesis
    by (simp add: scan_result_minus_one [OF small] first_index_None_iff sct_list_eq_iff assms(2))
qed

lemma idt_scan_clean:
  "scan_result (first_index (idt_differs k s) 0 MAX_IDT_SIZE) = - 1 \<longleftrightarrow>
     (\<forall>i < MAX_IDT_SIZE. \<not> idt_differs k s i)"
proof -
  let ?i = "first_index (idt_differs k s) 0 MAX_IDT_SIZE"
  have small: "i < 2 ^ 31" if "?i = Some i" for i
    using that by (simp add: first_index_Some_iff MAX_IDT_SIZE_def)
  show ?thesis by (simp add: scan_result_minus_one [OF small] first_index_None_iff)
qed

text \<open>With the device open, the backend's system call scan reports \<open>-1\<close> exactly when the table
  is as it was when the driver was loaded, and 0 when the first entry was changed.  When the
  device cannot be opened it also reports 0: a missing driver looks like a hooked first entry,
  and the report of a clean table is never given.\<close>

theorem sct_scan_report:
  assumes "codes_differ d" "sct_ok (dev_kernel d) s"
    and "length (temp_sct s) = NR_syscalls (dev_kernel d)" "0 < NR_syscalls (dev_kernel d)"
  shows "\<exists>r s'. sctScan d s = Inr (r, s') \<and>
    (dev_open d \<longrightarrow>
      (r = - 1 \<longleftrightarrow> sct_list (dev_kernel d) s = map Some (temp_sct s)) \<and>
      (r = 0 \<longleftrightarrow> kmem s (sct_addr s 0) \<noteq> Some (temp_sct s ! 0))) \<and>
    (\<not> dev_open d \<longrightarrow> r = 0 \<and> s' = s)"
proof (cases "dev_open d")
  case True
  let ?k = "dev_kernel d"
  let ?i = "first_index (sct_differs s) 0 (NR_syscalls ?k)"
  from assms(2) have nr: "NR_syscalls ?k < 2 ^ 28" by (simp add: sct_ok_def)
  have small: "i < 2 ^ 31" if "?i = Some i" for i
    using that nr by (simp add: first_index_Some_iff)
  have "scan_result ?i = - 1 \<longleftrightarrow> sct_list ?k s = map Some (temp_sct s)"
    by (rule sct_scan_clean [OF assms(2,3)])
  moreover have "scan_result ?i = of_nat 0 \<longleftrightarrow> sct_differs s 0"
    by (subst scan_result_of_nat [OF small]) (use assms(4) in \<open>auto simp: first_index_Some_iff\<close>)
  ultimately show ?thesis
    using True sctScan_open [OF True assms(1-3)] by (fastforce simp: sct_differs_def)
next
  case False
  then show ?thesis by (simp add: sctScan_eq communicate_closed)
qed

end
