(* ===== verification/Backend_Db.thy ===== *)
theory Backend_Db
  imports Json_Packets Driver_Client
begin

text \<open>
  The state of the backend process and what surrounds it, and its database access:
  \<open>Backend/SqliteHelper\<close> and \<open>Helper::updateVirusTables\<close>.  SQLite itself is a parameter, the
  function \<open>sqlite3_exec\<close>; the texts of the queries are the code's.
\<close>

subsection \<open>The process and its surroundings\<close>

text \<open>The result code of a query, the rows its callback is given, and the new database; an entry
  of a row is a null pointer where the column is null.  \<open>system\<close> runs a command, which changes
  files.  \<open>junk_int\<close> is what uninitialised integers hold.\<close>

record ('db, 'j) host =
  h_json :: "'j json_lib"
  sqlite3_exec :: "string \<Rightarrow> 'db \<Rightarrow> c_int \<times> string option list list \<times> 'db"
  sqlite3_open :: "string \<Rightarrow> c_int"
  system_run :: "string \<Rightarrow> (string \<Rightarrow> string option) \<Rightarrow> string \<Rightarrow> string option"
  local_time :: string
  h_device :: device
  junk_int :: "nat \<Rightarrow> c_int"
  h_heap :: "nat \<Rightarrow> nat \<Rightarrow> byte"

record 'db backend =
  db :: 'db
  db_connections :: nat
  files :: "string \<Rightarrow> string option"
  kernel :: spybot
  scan_time :: c_int
  packetScanResult :: "string list"
  spofingScanResult :: "string \<Rightarrow> string option"
  fullPathsForScan :: "string list"
  quickPathsForScan :: "string list"

definition SQLITE_OK :: c_int where "SQLITE_OK = 0"

definition DB_NAME :: string where "DB_NAME = ''BackendData.db''"
definition VIRUSES_TABLE :: string where "VIRUSES_TABLE = ''VirusTable''"
definition BLOCKED_TABLE :: string where "BLOCKED_TABLE = ''BlockedTable''"

definition exec_sql ::
  "('db, 'j) host \<Rightarrow> string \<Rightarrow> 'db backend \<Rightarrow> (c_int \<times> string option list list) \<times> 'db backend" where
  "exec_sql h query b =
     (case sqlite3_exec h (c_str query) (db b) of (rc, rows, d) \<Rightarrow> ((rc, rows), b\<lparr>db := d\<rparr>))"

text \<open>A call that talks to the driver.\<close>

definition call_driver :: "(spybot \<Rightarrow> stop + 'a \<times> spybot) \<Rightarrow> ('db backend, 'a) prog" where
  "call_driver f b =
     (case f (kernel b) of
        Inl e \<Rightarrow> (Inl e, b)
      | Inr (a, k) \<Rightarrow> (Inr a, b\<lparr>kernel := k\<rparr>))"

subsection \<open>The queries\<close>

definition create_blocked_query :: string where
  "create_blocked_query = ''CREATE TABLE IF NOT EXISTS '' @ BLOCKED_TABLE @
     '' (ID INTEGER PRIMARY KEY AUTOINCREMENT NOT NULL, PID INTEGER NOT NULL, DateAdded TEXT);''"

definition create_viruses_query :: string where
  "create_viruses_query = ''CREATE TABLE IF NOT EXISTS '' @ VIRUSES_TABLE @
     '' (ID INTEGER PRIMARY KEY AUTOINCREMENT NOT NULL, Name TEXT NOT NULL, DateAdded TEXT);''"

definition select_viruses_query :: string where
  "select_viruses_query = ''SELECT Name FROM '' @ VIRUSES_TABLE @ '';''"

definition select_blocked_query :: string where
  "select_blocked_query = ''SELECT PID FROM '' @ BLOCKED_TABLE @ '';''"

definition insert_virus_query :: "string \<Rightarrow> string \<Rightarrow> string" where
  "insert_virus_query name dateTime =
     ''INSERT INTO '' @ VIRUSES_TABLE @ ''(Name, DateAdded) VALUES('' @ [CHR 0x27] @ name @
     [CHR 0x27] @ '', '' @ [CHR 0x27] @ dateTime @ [CHR 0x27] @ '');''"

definition insert_blocked_query :: "c_int \<Rightarrow> string \<Rightarrow> string" where
  "insert_blocked_query pid dateTime =
     ''INSERT INTO '' @ BLOCKED_TABLE @ ''(PID, DateAdded) VALUES('' @ to_string pid @ '', '' @
     [CHR 0x27] @ dateTime @ [CHR 0x27] @ '');''"

definition delete_blocked_query :: "c_int \<Rightarrow> string" where
  "delete_blocked_query pid =
     ''DELETE FROM '' @ BLOCKED_TABLE @ '' WHERE PID = '' @ to_string pid @ '';''"

subsection \<open>The operations\<close>

text \<open>The constructor: a database that cannot be opened ends the process (\<open>None\<close>); the results of
  the two queries are not looked at.\<close>

definition open_database :: "('db, 'j) host \<Rightarrow> 'db backend \<Rightarrow> 'db backend option" where
  "open_database h b =
     (if sqlite3_open h DB_NAME \<noteq> SQLITE_OK then None
      else let b = b\<lparr>db_connections := db_connections b + 1\<rparr>;
               b = snd (exec_sql h create_blocked_query b)
           in Some (snd (exec_sql h create_viruses_query b)))"

text \<open>The callback of the two \<open>SELECT\<close> queries: every column of a row is appended; a string made
  from a null pointer throws.\<close>

fun push_columns :: "string option list \<Rightarrow> string list \<Rightarrow> stop + string list" where
  "push_columns [] data = Inr data"
| "push_columns (None # argv) data = Inl LogicError"
| "push_columns (Some v # argv) data = push_columns argv (data @ [v])"

fun push_rows :: "string option list list \<Rightarrow> string list \<Rightarrow> stop + string list" where
  "push_rows [] data = Inr data"
| "push_rows (argv # rows) data = res_bind (push_columns argv data) (push_rows rows)"

definition getViruses :: "('db, 'j) host \<Rightarrow> ('db backend, string list) prog" where
  "getViruses h b =
     (case exec_sql h select_viruses_query b of ((rc, rows), b) \<Rightarrow> (push_rows rows [], b))"

definition getBlockedPorcesses :: "('db, 'j) host \<Rightarrow> ('db backend, string list) prog" where
  "getBlockedPorcesses h b =
     (case exec_sql h select_blocked_query b of ((rc, rows), b) \<Rightarrow> (push_rows rows [], b))"

definition updateBlockedTable ::
  "('db, 'j) host \<Rightarrow> string \<Rightarrow> c_int \<Rightarrow> string \<Rightarrow> 'db backend \<Rightarrow> bool \<times> 'db backend" where
  "updateBlockedTable h action pid dateTime b =
     (let query = (if action = ''add'' then insert_blocked_query pid dateTime
                   else delete_blocked_query pid)
      in case exec_sql h query b of ((rc, _), b) \<Rightarrow> (rc = SQLITE_OK, b))"

definition updateViruses ::
  "('db, 'j) host \<Rightarrow> string \<Rightarrow> string \<Rightarrow> 'db backend \<Rightarrow> bool \<times> 'db backend" where
  "updateViruses h name dateTime b =
     (case exec_sql h (insert_virus_query name dateTime) b of ((rc, _), b) \<Rightarrow> (rc = SQLITE_OK, b))"

text \<open>\<open>Helper::updateVirusTables\<close> opens the database again for every name and never closes it.\<close>

definition updateVirusTables ::
  "('db, 'j) host \<Rightarrow> string \<Rightarrow> 'db backend \<Rightarrow> bool \<times> 'db backend" where
  "updateVirusTables h name b =
     (let b = b\<lparr>db_connections := db_connections b + 1\<rparr>
      in case exec_sql h (insert_virus_query name (local_time h)) b of
           ((rc, _), b) \<Rightarrow> (rc = SQLITE_OK, b))"

subsection \<open>Rows\<close>

lemma push_columns_Some [simp]: "push_columns (map Some vs) data = Inr (data @ vs)"
  by (induction vs arbitrary: data) simp_all

lemma push_rows_Some [simp]: "push_rows (map (map Some) rows) data = Inr (data @ concat rows)"
  by (induction rows arbitrary: data) simp_all

lemma push_columns_null: "None \<in> set argv \<Longrightarrow> push_columns argv data = Inl LogicError"
  by (induction argv data rule: push_columns.induct) auto

lemma c_str_id [simp]: "CHR 0x00 \<notin> set s \<Longrightarrow> c_str s = s"
  by (induction s) (auto simp: c_str_def)

lemma c_str_append: "CHR 0x00 \<notin> set s \<Longrightarrow> c_str (s @ t) = s @ c_str t"
  by (induction s) (auto simp: c_str_def)

end
