(* ===== verification/Periodic_Scan.thy ===== *)
theory Periodic_Scan
  imports Backend_Db
begin

text \<open>
  \<open>PeriodicScanHandler.cpp\<close>: the scans that run a script and read the log file it leaves, the
  round of the periodic network scans, and the two requests about their period.
\<close>

subsection \<open>Scans of files\<close>

definition run_command :: "('db, 'j) host \<Rightarrow> string \<Rightarrow> 'db backend \<Rightarrow> 'db backend" where
  "run_command h command b = b\<lparr>files := system_run h command (files b)\<rparr>"

definition scan_command :: "string \<Rightarrow> bool \<Rightarrow> bool \<Rightarrow> string \<Rightarrow> string" where
  "scan_command script isFolder all path =
     script @ (if isFolder then ''-d '' else ''-f '') @ path @ (if all then '' -a'' else [])"

definition hash_record ::
  "('db, 'j) host \<Rightarrow> string \<times> string \<Rightarrow> (string \<Rightarrow> bool option) \<times> 'db backend \<Rightarrow>
     (string \<Rightarrow> bool option) \<times> 'db backend" where
  "hash_record h rec st =
     (case (rec, st) of ((name, isMalicious), results, b) \<Rightarrow>
        if isMalicious = ''1''
        then (results(name \<mapsto> True), snd (updateVirusTables h name b))
        else (results(name \<mapsto> False), b))"

definition hash_path ::
  "('db, 'j) host \<Rightarrow> bool \<Rightarrow> bool \<Rightarrow> string \<Rightarrow> (string \<Rightarrow> bool option) \<times> 'db backend \<Rightarrow>
     (string \<Rightarrow> bool option) \<times> 'db backend" where
  "hash_path h isFolder all path st =
     (case st of (results, b) \<Rightarrow>
        let b = run_command h (scan_command ''python3 ./scans/hash-scanner.py '' isFolder all path) b
        in fold (hash_record h) (read_pairs (CHR ''@'') (open_istream (files b ''hash-scan.log'')))
             (results, b))"

definition hashScan ::
  "('db, 'j) host \<Rightarrow> string list \<Rightarrow> bool \<Rightarrow> bool \<Rightarrow> 'db backend \<Rightarrow>
     (string \<Rightarrow> bool option) \<times> 'db backend" where
  "hashScan h paths isFolder all b = fold (hash_path h isFolder all) paths (Map.empty, b)"

definition yara_rules :: "string \<Rightarrow> string list" where
  "yara_rules data =
     (if length data = 0 then [] else read_fields (CHR ''-'') (open_istream (Some data)))"

definition yara_record ::
  "string \<times> string \<Rightarrow> (string \<Rightarrow> string list option) \<Rightarrow> string \<Rightarrow> string list option" where
  "yara_record rec results = (case rec of (name, data) \<Rightarrow> results(name \<mapsto> yara_rules data))"

definition yara_path ::
  "('db, 'j) host \<Rightarrow> bool \<Rightarrow> bool \<Rightarrow> string \<Rightarrow> (string \<Rightarrow> string list option) \<times> 'db backend \<Rightarrow>
     (string \<Rightarrow> string list option) \<times> 'db backend" where
  "yara_path h isFolder all path st =
     (case st of (results, b) \<Rightarrow>
        let b = run_command h (scan_command ''python3 ./scanner.py '' isFolder all path) b
        in (fold yara_record (read_pairs (CHR ''@'') (open_istream (files b ''yara.log''))) results, b))"

definition yaraScan ::
  "('db, 'j) host \<Rightarrow> string list \<Rightarrow> bool \<Rightarrow> bool \<Rightarrow> 'db backend \<Rightarrow>
     (string \<Rightarrow> string list option) \<times> 'db backend" where
  "yaraScan h paths isFolder all b = fold (yara_path h isFolder all) paths (Map.empty, b)"

subsection \<open>Scans of the network\<close>

record packet =
  pk_name :: string
  pk_pid :: string
  pk_active :: string
  pk_port :: string
  pk_ip :: string

text \<open>The loop condition of \<open>packetScan\<close>: five fields, and the loop ends at the first that cannot
  be read.\<close>

definition read_packet :: "istream \<Rightarrow> (packet \<times> istream) option" where
  "read_packet s =
     (case getline (CHR ''-'') s of (None, _) \<Rightarrow> None | (Some name, s) \<Rightarrow>
     (case getline (CHR ''-'') s of (None, _) \<Rightarrow> None | (Some pid, s) \<Rightarrow>
     (case getline (CHR ''-'') s of (None, _) \<Rightarrow> None | (Some active, s) \<Rightarrow>
     (case getline (CHR ''-'') s of (None, _) \<Rightarrow> None | (Some port, s) \<Rightarrow>
     (case getline (CHR 0x0A) s of (None, _) \<Rightarrow> None | (Some ip, s) \<Rightarrow>
        Some (\<lparr>pk_name = name, pk_pid = pid, pk_active = active, pk_port = port, pk_ip = ip\<rparr>, s))))))"

lemma read_packet_end [simp]: "read_packet \<lparr>unread = [], good = True\<rparr> = None"
  by (simp add: read_packet_def)

lemma read_packet_shrinks:
  "read_packet s = Some (p, s') \<Longrightarrow> length (unread s') < length (unread s)"
  by (auto simp: read_packet_def split: prod.splits option.splits)
     (meson getline_shrinks less_trans)

function read_packets :: "istream \<Rightarrow> packet list" where
  "read_packets s =
     (case read_packet s of
        None \<Rightarrow> []
      | Some (p, s') \<Rightarrow> p # read_packets s')"
  by pat_completeness auto
termination
  by (relation "measure (\<lambda>s. length (unread s))") (auto dest: read_packet_shrinks)

declare read_packets.simps [simp del]

lemma read_packets_end [simp]: "read_packets \<lparr>unread = [], good = True\<rparr> = []"
  by (subst read_packets.simps) simp

definition packet_text :: "packet \<Rightarrow> string" where
  "packet_text p =
     ''process name: '' @ pk_name p @ [CHR 0x0A] @ ''pid: '' @ pk_pid p @ [CHR 0x0A] @
     ''is active: '' @ pk_active p @ [CHR 0x0A] @ ''port: '' @ pk_port p @ [CHR 0x0A] @
     ''ip: '' @ pk_ip p @ [CHR 0x0A] @ ''is blocked: ''"

text \<open>The body of the loop: \<open>output\<close> is declared outside it.\<close>

fun packet_loop ::
  "('db, 'j) host \<Rightarrow> packet list \<Rightarrow> string \<Rightarrow> string list \<Rightarrow> ('db backend, string list) prog" where
  "packet_loop h [] output results = ret results"
| "packet_loop h (p # ps) output results =
     bnd (lift (stoi (pk_pid p))) (\<lambda>pid.
     bnd (call_driver (blockPid (h_device h) pid)) (\<lambda>blocked.
     let output = output @ packet_text p @ (if blocked \<noteq> 0 then ''yes'' else ''fail'')
     in packet_loop h ps output (results @ [output])))"

definition packetScan :: "('db, 'j) host \<Rightarrow> ('db backend, string list) prog" where
  "packetScan h b =
     (let b = run_command h ''python3 ./network_scans/net-scanner.py'' b
      in packet_loop h (read_packets (open_istream (files b ''malicious.log''))) [] [] b)"

definition port_record :: "string \<times> string \<Rightarrow> (string \<Rightarrow> bool option) \<Rightarrow> string \<Rightarrow> bool option" where
  "port_record rec results = (case rec of (port, isOpen) \<Rightarrow> results(port \<mapsto> isOpen = ''open''))"

definition openPortsScan ::
  "('db, 'j) host \<Rightarrow> 'db backend \<Rightarrow> (string \<Rightarrow> bool option) \<times> 'db backend" where
  "openPortsScan h b =
     (let b = run_command h ''python3 ./network_scans/open-port-scanner.py'' b
      in (fold port_record (read_pairs (CHR ''-'') (open_istream (files b ''open-ports.log'')))
            Map.empty, b))"

definition spofing_record ::
  "string \<times> string \<Rightarrow> (string \<Rightarrow> string option) \<Rightarrow> string \<Rightarrow> string option" where
  "spofing_record rec results = (case rec of (ip, port) \<Rightarrow> results(ip \<mapsto> port))"

definition spofingScan ::
  "('db, 'j) host \<Rightarrow> 'db backend \<Rightarrow> (string \<Rightarrow> string option) \<times> 'db backend" where
  "spofingScan h b =
     (let b = run_command h ''python3 ./network_scans/spofing-scanner.py'' b
      in (fold spofing_record (read_pairs (CHR ''-'') (open_istream (files b ''spofing.log'')))
            Map.empty, b))"

subsection \<open>The periodic round\<close>

text \<open>\<open>std::map::insert\<close> of a range keeps the entries that are already there.\<close>

definition map_insert :: "('k \<Rightarrow> 'v option) \<Rightarrow> ('k \<Rightarrow> 'v option) \<Rightarrow> 'k \<Rightarrow> 'v option" where
  "map_insert new old = new ++ old"

definition periodic_body :: "('db, 'j) host \<Rightarrow> ('db backend, unit) prog" where
  "periodic_body h =
     bnd (packetScan h) (\<lambda>packetScanTMP b.
     let b = b\<lparr>packetScanResult := packetScanResult b @ packetScanTMP\<rparr>
     in case spofingScan h b of (spofingScanTMP, b) \<Rightarrow>
          ret () (b\<lparr>spofingScanResult := map_insert spofingScanTMP (spofingScanResult b)\<rparr>))"

text \<open>One turn of the loop after its sleep: an exception is reported and forgotten; anything else
  ends the process (\<open>Inl\<close>).\<close>

definition periodic_round :: "('db, 'j) host \<Rightarrow> ('db backend, unit) prog" where
  "periodic_round h b =
     (case periodic_body h b of
        (Inl e, b) \<Rightarrow> (if catchable e then Inr () else Inl e, b)
      | (Inr _, b) \<Rightarrow> (Inr (), b))"

subsection \<open>Requests about the period\<close>

definition changeTime :: "('db, 'j) host \<Rightarrow> RequestInfo \<Rightarrow> ('db backend, message) prog" where
  "changeTime h reqInfo =
     bnd (lift (desirializeChangeScanTimeRequest (h_json h) (req_buffer reqInfo))) (\<lambda>request b.
     lift (serialize_ChangeScanTimeResponse (h_json h)
       \<lparr>cst_status = PERIODIC_SCAN_TIME_RESPONSE, cst_isWorked = 1\<rparr>)
       (b\<lparr>scan_time := change_time request\<rparr>))"

definition getTime :: "('db, 'j) host \<Rightarrow> RequestInfo \<Rightarrow> ('db backend, message) prog" where
  "getTime h reqInfo b =
     lift (serialize_GetTimeResponse (h_json h)
       \<lparr>gt_status = GET_CURRENT_SCAN_FREQUENCY_RESPONSE, gt_time = scan_time b\<rparr>) b"

text \<open>The message for any other request points to seven bytes of a frame that is gone.\<close>

definition error_message :: message where
  "error_message = \<lparr>msg_code = 100, msg_length = 6, msg_data = string_bytes ''error'', msg_msg = []\<rparr>"

definition periodic_handleRequest ::
  "('db, 'j) host \<Rightarrow> RequestInfo \<Rightarrow> ('db backend, message) prog" where
  "periodic_handleRequest h reqInfo =
     (if req_id reqInfo = PERIODIC_SCAN_TIME_REQUEST then changeTime h reqInfo
      else if req_id reqInfo = GET_CURRENT_SCAN_FREQUENCY_REQUEST then getTime h reqInfo
      else ret error_message)"

subsection \<open>Reading the packet log\<close>

definition packet_line :: "packet \<Rightarrow> string" where
  "packet_line p =
     pk_name p @ CHR ''-'' # pk_pid p @ CHR ''-'' # pk_active p @ CHR ''-'' # pk_port p @
     CHR ''-'' # pk_ip p @ [CHR 0x0A]"

definition packet_ok :: "packet \<Rightarrow> bool" where
  "packet_ok p \<longleftrightarrow>
     CHR ''-'' \<notin> set (pk_name p) \<and> CHR ''-'' \<notin> set (pk_pid p) \<and> CHR ''-'' \<notin> set (pk_active p) \<and>
     CHR ''-'' \<notin> set (pk_port p) \<and> CHR 0x0A \<notin> set (pk_ip p)"

lemma read_packets_lines:
  "list_all packet_ok ps \<Longrightarrow>
     read_packets \<lparr>unread = concat (map packet_line ps) @ r, good = True\<rparr> =
       ps @ read_packets \<lparr>unread = r, good = True\<rparr>"
proof (induction ps)
  case Nil
  then show ?case by simp
next
  case (Cons p ps)
  then show ?case
    by (subst read_packets.simps)
       (simp add: read_packet_def packet_line_def [of p] packet_ok_def getline_field)
qed

definition packet_pid :: "packet \<Rightarrow> c_int" where
  "packet_pid p = (case stoi (pk_pid p) of Inl _ \<Rightarrow> 0 | Inr w \<Rightarrow> w)"

definition packet_entry :: "device \<Rightarrow> packet \<Rightarrow> string" where
  "packet_entry d p =
     packet_text p @ (if dev_open d \<and> dev_task d (packet_pid p) then ''yes'' else ''fail'')"

text \<open>The kill signals a list of log entries leads to.\<close>

definition packet_kills :: "device \<Rightarrow> packet list \<Rightarrow> (c_int \<times> int) list" where
  "packet_kills d ps =
     (if dev_open d then map (\<lambda>p. (packet_pid p, SIGKILL)) (filter (\<lambda>p. dev_task d (packet_pid p)) ps)
      else [])"

definition running_outputs :: "device \<Rightarrow> string \<Rightarrow> packet list \<Rightarrow> string list" where
  "running_outputs d output ps =
     map (\<lambda>i. output @ concat (map (packet_entry d) (take (Suc i) ps))) [0..<length ps]"

lemma running_outputs_Cons:
  "running_outputs d output (p # ps) =
     (output @ packet_entry d p) # running_outputs d (output @ packet_entry d p) ps"
  by (simp add: running_outputs_def map_upt_Suc del: upt_Suc)

lemma blockPid_step:
  assumes "codes_differ d" "dev_open d"
  shows "\<exists>k'. blockPid d pid k = Inr (if dev_task d pid then 1 else 0, k') \<and>
    signals k' = signals k @ (if dev_task d pid then [(pid, SIGKILL)] else [])"
proof -
  have "signal_of kill_proc = Some SIGKILL" by (simp add: signal_of_def drv_simps proc_actions)
  from communicate_signal [OF assms(2,1) this] show ?thesis by (simp add: blockPid_eq)
qed

lemma blockPid_result:
  assumes "codes_differ d"
  obtains k' where "blockPid d pid k = Inr (if dev_open d \<and> dev_task d pid then 1 else 0, k')"
    "signals k' = signals k @ (if dev_open d \<and> dev_task d pid then [(pid, SIGKILL)] else [])"
  using blockPid_step [OF assms] communicate_closed [of d kill_proc pid k]
  by (cases "dev_open d") (auto simp: blockPid_eq)

lemma packet_loop_step:
  assumes "codes_differ (h_device h)" "stoi (pk_pid p) = Inr pid"
  obtains k' where "packet_loop h (p # ps) output results b =
      packet_loop h ps (output @ packet_entry (h_device h) p)
        (results @ [output @ packet_entry (h_device h) p]) (b\<lparr>kernel := k'\<rparr>)"
    "signals k' = signals (kernel b) @ packet_kills (h_device h) [p]"
proof -
  let ?d = "h_device h"
  have pid: "packet_pid p = pid" by (simp add: packet_pid_def assms(2))
  obtain k' where k': "blockPid ?d pid (kernel b) = Inr (if dev_open ?d \<and> dev_task ?d pid then 1 else 0, k')"
    "signals k' = signals (kernel b) @ (if dev_open ?d \<and> dev_task ?d pid then [(pid, SIGKILL)] else [])"
    using blockPid_result [OF assms(1)] .
  have "call_driver (blockPid ?d pid) b =
      (Inr (if dev_open ?d \<and> dev_task ?d pid then 1 else 0), b\<lparr>kernel := k'\<rparr>)"
    by (simp add: call_driver_def k'(1))
  then have "packet_loop h (p # ps) output results b =
      packet_loop h ps (output @ packet_entry ?d p) (results @ [output @ packet_entry ?d p])
        (b\<lparr>kernel := k'\<rparr>)"
    by (simp add: assms(2) packet_entry_def pid Let_def)
  moreover have "signals k' = signals (kernel b) @ packet_kills ?d [p]"
    by (simp add: k'(2) packet_kills_def pid)
  ultimately show ?thesis using that by blast
qed

lemma packet_loop_ok:
  assumes "codes_differ (h_device h)" "list_all (\<lambda>p. \<exists>w. stoi (pk_pid p) = Inr w) ps"
  shows "\<exists>k'. packet_loop h ps output results b =
      (Inr (results @ running_outputs (h_device h) output ps), b\<lparr>kernel := k'\<rparr>) \<and>
    signals k' = signals (kernel b) @ packet_kills (h_device h) ps"
  using assms(2)
proof (induction ps arbitrary: "output" results b)
  case Nil
  show ?case by (rule exI [of _ "kernel b"]) (simp add: running_outputs_def packet_kills_def)
next
  case (Cons p ps)
  let ?d = "h_device h"
  let ?o = "output @ packet_entry ?d p"
  from Cons.prems obtain pid where "stoi (pk_pid p) = Inr pid" by auto
  with assms(1) obtain k1 where k1: "packet_loop h (p # ps) output results b =
      packet_loop h ps ?o (results @ [?o]) (b\<lparr>kernel := k1\<rparr>)"
    "signals k1 = signals (kernel b) @ packet_kills ?d [p]"
    by (rule packet_loop_step)
  from Cons.IH [of ?o "results @ [?o]" "b\<lparr>kernel := k1\<rparr>"] Cons.prems obtain k2 where
    "packet_loop h ps ?o (results @ [?o]) (b\<lparr>kernel := k1\<rparr>) =
      (Inr ((results @ [?o]) @ running_outputs ?d ?o ps), b\<lparr>kernel := k2\<rparr>)"
    "signals k2 = signals k1 @ packet_kills ?d ps"
    by auto
  with k1 show ?case by (auto simp: running_outputs_Cons packet_kills_def)
qed

text \<open>An entry whose process identifier is not a number stops the loop after the entries before
  it were acted on.\<close>

lemma packet_loop_throws:
  assumes "codes_differ (h_device h)" "list_all (\<lambda>p. \<exists>w. stoi (pk_pid p) = Inr w) ps"
    and "stoi (pk_pid q) = Inl e"
  shows "\<exists>k'. packet_loop h (ps @ q # qs) output results b = (Inl e, b\<lparr>kernel := k'\<rparr>) \<and>
    signals k' = signals (kernel b) @ packet_kills (h_device h) ps"
  using assms(2)
proof (induction ps arbitrary: "output" results b)
  case Nil
  show ?case by (rule exI [of _ "kernel b"]) (simp add: packet_kills_def assms(3))
next
  case (Cons p ps)
  let ?d = "h_device h"
  let ?o = "output @ packet_entry ?d p"
  from Cons.prems obtain pid where "stoi (pk_pid p) = Inr pid" by auto
  with assms(1) obtain k1 where k1: "packet_loop h (p # ps @ q # qs) output results b =
      packet_loop h (ps @ q # qs) ?o (results @ [?o]) (b\<lparr>kernel := k1\<rparr>)"
    "signals k1 = signals (kernel b) @ packet_kills ?d [p]"
    by (rule packet_loop_step)
  from Cons.IH [of ?o "results @ [?o]" "b\<lparr>kernel := k1\<rparr>"] Cons.prems obtain k2 where
    "packet_loop h (ps @ q # qs) ?o (results @ [?o]) (b\<lparr>kernel := k1\<rparr>) = (Inl e, b\<lparr>kernel := k2\<rparr>)"
    "signals k2 = signals k1 @ packet_kills ?d ps"
    by auto
  with k1 show ?case by (auto simp: packet_kills_def)
qed

definition net_scan_files :: "('db, 'j) host \<Rightarrow> 'db backend \<Rightarrow> string \<Rightarrow> string option" where
  "net_scan_files h b = system_run h ''python3 ./network_scans/net-scanner.py'' (files b)"

lemma packetScan_log:
  assumes "net_scan_files h b ''malicious.log'' = Some cs"
  shows "packetScan h b = packet_loop h (read_packets \<lparr>unread = cs, good = True\<rparr>) [] []
    (b\<lparr>files := net_scan_files h b\<rparr>)"
  using assms by (simp add: packetScan_def run_command_def net_scan_files_def open_istream_def)

text \<open>For a log of well formed entries the packet scan sends the kill signal to every process
  in the log that exists, in the order of the log, and reports one text per entry; the text of
  an entry begins with those of all the entries before it, since the variable that collects
  them is never emptied.\<close>

theorem packet_scan_accumulates:
  assumes "codes_differ (h_device h)" "list_all packet_ok ps"
    and "net_scan_files h b ''malicious.log'' = Some (concat (map packet_line ps))"
    and "list_all (\<lambda>p. \<exists>w. stoi (pk_pid p) = Inr w) ps"
  shows "\<exists>rs k'. packetScan h b = (Inr rs, b\<lparr>files := net_scan_files h b, kernel := k'\<rparr>) \<and>
    signals k' = signals (kernel b) @ packet_kills (h_device h) ps \<and>
    length rs = length ps \<and>
    (\<forall>i < length ps. rs ! i = concat (map (packet_entry (h_device h)) (take (Suc i) ps)))"
proof -
  let ?b = "b\<lparr>files := net_scan_files h b\<rparr>"
  have "packetScan h b = packet_loop h ps [] [] ?b"
    using packetScan_log [OF assms(3)] read_packets_lines [OF assms(2), of "[]"] by simp
  with packet_loop_ok [OF assms(1,4), of "[]" "[]" ?b] show ?thesis
    by (fastforce simp: running_outputs_def)
qed

text \<open>The entry the loop reads where a process name contains a dash.\<close>

lemma read_packet_dashed:
  assumes "pk_name q = n1 @ CHR ''-'' # n2" "CHR ''-'' \<notin> set n1" "CHR ''-'' \<notin> set n2"
    and "packet_ok (q\<lparr>pk_name := n1\<rparr>)" "CHR 0x0A \<notin> set (pk_port q)"
  shows "read_packet \<lparr>unread = packet_line q, good = True\<rparr> =
    Some (\<lparr>pk_name = n1, pk_pid = n2, pk_active = pk_pid q, pk_port = pk_active q,
      pk_ip = pk_port q @ CHR ''-'' # pk_ip q\<rparr>, \<lparr>unread = [], good = True\<rparr>)"
proof -
  have "packet_line q = n1 @ CHR ''-'' # n2 @ CHR ''-'' # pk_pid q @ CHR ''-'' # pk_active q @
      CHR ''-'' # (pk_port q @ CHR ''-'' # pk_ip q) @ CHR 0x0A # []"
    by (simp add: packet_line_def assms(1))
  moreover have "CHR 0x0A \<notin> set (pk_port q @ CHR ''-'' # pk_ip q)"
    using assms(4,5) by (simp add: packet_ok_def)
  ultimately show ?thesis
    using assms(2-4) by (simp add: read_packet_def packet_ok_def getline_field del: append_assoc)
qed

text \<open>The log separates fields with a dash and nothing keeps dashes out of process names.  One
  entry with such a name (its second part is then taken for the process identifier) ends the
  whole round: the processes of the entries before it are killed, but no result is kept, and
  the scan for port spoofing does not run.\<close>

theorem dashed_name_loses_round:
  assumes "codes_differ (h_device h)" "list_all packet_ok ps"
    and "net_scan_files h b ''malicious.log'' = Some (concat (map packet_line ps) @ packet_line q)"
    and "list_all (\<lambda>p. \<exists>w. stoi (pk_pid p) = Inr w) ps"
    and "pk_name q = n1 @ CHR ''-'' # n2" "CHR ''-'' \<notin> set n1" "CHR ''-'' \<notin> set n2"
    and "stoi n2 = Inl e" "packet_ok (q\<lparr>pk_name := n1\<rparr>)" "CHR 0x0A \<notin> set (pk_port q)"
  shows "\<exists>k'. periodic_round h b = (Inr (), b\<lparr>files := net_scan_files h b, kernel := k'\<rparr>) \<and>
    signals k' = signals (kernel b) @ packet_kills (h_device h) ps"
proof -
  let ?b = "b\<lparr>files := net_scan_files h b\<rparr>"
  let ?q = "\<lparr>pk_name = n1, pk_pid = n2, pk_active = pk_pid q, pk_port = pk_active q,
      pk_ip = pk_port q @ CHR ''-'' # pk_ip q\<rparr>"
  have "read_packets \<lparr>unread = packet_line q, good = True\<rparr> = [?q]"
    by (subst read_packets.simps) (simp add: read_packet_dashed [OF assms(5-7,9,10)])
  then have "packetScan h b = packet_loop h (ps @ [?q]) [] [] ?b"
    using packetScan_log [OF assms(3)] read_packets_lines [OF assms(2), of "packet_line q"] by simp
  moreover have "stoi (pk_pid ?q) = Inl e" using assms(8) by simp
  ultimately obtain k' where k': "packetScan h b = (Inl e, ?b\<lparr>kernel := k'\<rparr>)"
    "signals k' = signals (kernel ?b) @ packet_kills (h_device h) ps"
    using packet_loop_throws [OF assms(1,4), of ?q e "[]" "[]" "[]" ?b] by auto
  have "catchable e"
    using assms(8) by (auto simp: stoi_def catchable_def split: option.splits if_splits)
  with k' have "periodic_round h b = (Inr (), ?b\<lparr>kernel := k'\<rparr>)"
    by (simp add: periodic_round_def periodic_body_def)
  with k'(2) show ?thesis by auto
qed

lemma call_driver_frame: "call_driver f b = (r, b') \<Longrightarrow> \<exists>k. b' = b\<lparr>kernel := k\<rparr>"
  by (auto simp: call_driver_def intro: exI [of _ "kernel b"] split: sum.splits)

lemma packet_loop_frame:
  "packet_loop h ps output results b = (r, b') \<Longrightarrow> \<exists>k. b' = b\<lparr>kernel := k\<rparr>"
proof (induction ps arbitrary: "output" results b)
  case Nil
  then show ?case by (auto intro: exI [of _ "kernel b"])
next
  case (Cons p ps)
  show ?case
  proof (cases "stoi (pk_pid p)")
    case (Inl e)
    with Cons.prems show ?thesis by (auto intro: exI [of _ "kernel b"])
  next
    case (Inr pid)
    obtain rc b1 where c: "call_driver (blockPid (h_device h) pid) b = (rc, b1)" by fastforce
    from call_driver_frame [OF c] obtain k1 where k1: "b1 = b\<lparr>kernel := k1\<rparr>" by blast
    show ?thesis
    proof (cases rc)
      case (Inl e)
      with Cons.prems \<open>stoi (pk_pid p) = Inr pid\<close> c k1 show ?thesis by auto
    next
      case (Inr v)
      with Cons.prems \<open>stoi (pk_pid p) = Inr pid\<close> c
      obtain o' r' where "packet_loop h ps o' r' b1 = (r, b')" by (auto simp: Let_def)
      from Cons.IH [OF this] k1 show ?thesis by auto
    qed
  qed
qed

lemma packetScan_frame: "packetScan h b = (r, b') \<Longrightarrow> \<exists>f k. b' = b\<lparr>files := f, kernel := k\<rparr>"
  by (auto simp: packetScan_def run_command_def Let_def dest!: packet_loop_frame)

lemma spofingScan_frame: "spofingScan h b = (m, b') \<Longrightarrow> \<exists>f. b' = b\<lparr>files := f\<rparr>"
  by (auto simp: spofingScan_def run_command_def Let_def)

text \<open>The results of the periodic scans wait for the next quick or full scan: a round appends
  to the packet results, and an address that was reported as spoofing keeps the ports of its
  first report.\<close>

theorem periodic_round_collects:
  assumes "packetScan h b = (Inr rs, b1)" "spofingScan h (b1\<lparr>packetScanResult := packetScanResult b1 @ rs\<rparr>) = (m, b2)"
  shows "\<exists>b'. periodic_round h b = (Inr (), b') \<and> packetScanResult b' = packetScanResult b @ rs \<and>
    (\<forall>ip. spofingScanResult b' ip =
       (case spofingScanResult b ip of None \<Rightarrow> m ip | Some ports \<Rightarrow> Some ports))"
proof -
  let ?b1 = "b1\<lparr>packetScanResult := packetScanResult b1 @ rs\<rparr>"
  from packetScan_frame [OF assms(1)] have 1: "packetScanResult b1 = packetScanResult b"
    "spofingScanResult b1 = spofingScanResult b" by auto
  from spofingScan_frame [OF assms(2)] have 2: "packetScanResult b2 = packetScanResult b @ rs"
    "spofingScanResult b2 = spofingScanResult b" by (auto simp: 1)
  have "periodic_round h b =
      (Inr (), b2\<lparr>spofingScanResult := map_insert m (spofingScanResult b2)\<rparr>)"
    using assms by (simp add: periodic_round_def periodic_body_def)
  with 2 show ?thesis by (auto simp: map_insert_def map_add_def split: option.split)
qed

subsection \<open>What the file scans report\<close>

definition record_names :: "(string \<times> string) list \<Rightarrow> string list" where
  "record_names entries = map fst (filter (\<lambda>r. snd r = ''1'') entries)"

definition insert_viruses :: "('db, 'j) host \<Rightarrow> string list \<Rightarrow> 'db backend \<Rightarrow> 'db backend" where
  "insert_viruses h names b = fold (\<lambda>n b. snd (updateVirusTables h n b)) names b"

lemma updateVirusTables_connections:
  "db_connections (snd (updateVirusTables h n b)) = db_connections b + 1"
  by (simp add: updateVirusTables_def exec_sql_def split: prod.split)

lemma insert_viruses_connections:
  "db_connections (insert_viruses h names b) = db_connections b + length names"
proof (induction names arbitrary: b)
  case Nil
  then show ?case by (simp add: insert_viruses_def)
next
  case (Cons n names)
  from Cons.IH [of "snd (updateVirusTables h n b)"] show ?case
    by (simp add: insert_viruses_def updateVirusTables_connections)
qed

lemma hash_record_eq:
  "hash_record h r (results, b) =
     (results(fst r \<mapsto> snd r = ''1''), insert_viruses h (record_names [r]) b)"
  by (cases r) (auto simp: hash_record_def insert_viruses_def record_names_def)

lemma insert_viruses_append:
  "insert_viruses h (ms @ ns) b = insert_viruses h ns (insert_viruses h ms b)"
  by (simp add: insert_viruses_def)

lemma record_names_Cons: "record_names (r # rs) = record_names [r] @ record_names rs"
  by (simp add: record_names_def)

lemma hash_records_eq:
  "fold (hash_record h) entries (results, b) =
     (fold (\<lambda>r m. m(fst r \<mapsto> snd r = ''1'')) entries results, insert_viruses h (record_names entries) b)"
proof (induction entries arbitrary: results b)
  case Nil
  then show ?case by (simp add: insert_viruses_def record_names_def)
next
  case (Cons r entries)
  then show ?case
    by (subst record_names_Cons) (simp only: fold_Cons comp_apply hash_record_eq
      insert_viruses_append)
qed

lemma fold_updates:
  assumes "distinct (map fst entries)"
  shows "fold (\<lambda>r m. m(fst r \<mapsto> f r)) entries results k =
    (case map_of (map (\<lambda>r. (fst r, f r)) entries) k of None \<Rightarrow> results k | Some v \<Rightarrow> Some v)"
  using assms
proof (induction entries arbitrary: results)
  case Nil
  then show ?case by simp
next
  case (Cons r entries)
  have "fst r = k \<Longrightarrow> map_of (map (\<lambda>r. (fst r, f r)) entries) k = None"
    using Cons.prems by (auto simp: map_of_eq_None_iff image_image)
  with Cons show ?case by (auto split: option.split)
qed

definition hash_files :: "('db, 'j) host \<Rightarrow> bool \<Rightarrow> bool \<Rightarrow> string \<Rightarrow> 'db backend \<Rightarrow> string \<Rightarrow> string option" where
  "hash_files h isFolder all path b =
     system_run h (scan_command ''python3 ./scans/hash-scanner.py '' isFolder all path) (files b)"

definition log_pair_ok :: "string \<times> string \<Rightarrow> bool" where
  "log_pair_ok r \<longleftrightarrow> CHR ''@'' \<notin> set (fst r) \<and> CHR 0x0A \<notin> set (snd r)"

lemma hashScan_log:
  assumes "hash_files h isFolder all path b ''hash-scan.log'' = Some (concat (map (pair_line (CHR ''@'')) entries))"
    and "list_all log_pair_ok entries"
  shows "hashScan h [path] isFolder all b =
    (fold (\<lambda>r m. m(fst r \<mapsto> snd r = ''1'')) entries Map.empty,
     insert_viruses h (record_names entries) (b\<lparr>files := hash_files h isFolder all path b\<rparr>))"
proof -
  have "read_pairs (CHR ''@'') \<lparr>unread = concat (map (pair_line (CHR ''@'')) entries), good = True\<rparr> = entries"
    by (rule read_pairs_lines) (use assms(2) in \<open>auto simp: list_all_iff log_pair_ok_def\<close>)
  then show ?thesis
    using assms(1)
    by (simp add: hashScan_def hash_path_def run_command_def hash_files_def open_istream_def
        hash_records_eq)
qed

text \<open>C34: the hash scan of a path reports exactly the files of the log the script left, as malicious
  where the script wrote 1; it stores the malicious names, in the order of the log, and opens
  one more database connection for each of them.\<close>

theorem hash_scan_reports:
  assumes "hash_files h isFolder all path b ''hash-scan.log'' = Some (concat (map (pair_line (CHR ''@'')) entries))"
    and "list_all log_pair_ok entries" "distinct (map fst entries)"
  shows "\<exists>results b'. hashScan h [path] isFolder all b = (results, b') \<and>
    results = map_of (map (\<lambda>r. (fst r, snd r = ''1'')) entries) \<and>
    b' = insert_viruses h (record_names entries) (b\<lparr>files := hash_files h isFolder all path b\<rparr>) \<and>
    db_connections b' = db_connections b + length (record_names entries)"
proof -
  have "fold (\<lambda>r m. m(fst r \<mapsto> snd r = ''1'')) entries Map.empty =
      map_of (map (\<lambda>r. (fst r, snd r = ''1'')) entries)"
    by (rule ext) (simp add: fold_updates [OF assms(3)] split: option.split)
  then show ?thesis by (simp add: hashScan_log [OF assms(1,2)] insert_viruses_connections)
qed

text \<open>The line \<open>scanner.py\<close> writes: the rules that matched, joined with dashes.\<close>

definition dash_join :: "string list \<Rightarrow> string" where
  "dash_join rules =
     (if rules = [] then [] else concat (map (\<lambda>r. r @ ''-'') (butlast rules)) @ last rules)"

definition rules_ok :: "string list \<Rightarrow> bool" where
  "rules_ok rules \<longleftrightarrow>
     list_all (\<lambda>r. r \<noteq> [] \<and> CHR ''-'' \<notin> set r \<and> CHR 0x0A \<notin> set r) rules"

lemma yara_rules_join:
  assumes "rules_ok rules"
  shows "yara_rules (dash_join rules) = rules"
proof (cases "rules = []")
  case True
  then show ?thesis by (simp add: yara_rules_def dash_join_def)
next
  case False
  from assms False have z: "last rules \<noteq> []" "CHR ''-'' \<notin> set (last rules)"
    by (auto simp: rules_ok_def list_all_iff)
  from assms have "\<forall>a \<in> set (butlast rules). CHR ''-'' \<notin> set a"
    by (auto simp: rules_ok_def list_all_iff dest: in_set_butlastD)
  from read_fields_line [OF this z(2,1)] False z(1) show ?thesis
    by (simp add: yara_rules_def dash_join_def open_istream_def)
qed

lemma dash_join_no_newline: "rules_ok rules \<Longrightarrow> CHR 0x0A \<notin> set (dash_join rules)"
  by (auto simp: dash_join_def rules_ok_def list_all_iff dest: in_set_butlastD)

definition yara_files :: "('db, 'j) host \<Rightarrow> bool \<Rightarrow> bool \<Rightarrow> string \<Rightarrow> 'db backend \<Rightarrow> string \<Rightarrow> string option" where
  "yara_files h isFolder all path b =
     system_run h (scan_command ''python3 ./scanner.py '' isFolder all path) (files b)"

text \<open>The rule scan of a path reads back the list of rules that the script found for each file,
  as long as no file name contains the separator.\<close>

theorem yara_scan_reports:
  assumes "yara_files h isFolder all path b ''yara.log'' =
      Some (concat (map (\<lambda>r. pair_line (CHR ''@'') (fst r, dash_join (snd r))) entries))"
    and "list_all (\<lambda>r. CHR ''@'' \<notin> set (fst r) \<and> rules_ok (snd r)) entries" "distinct (map fst entries)"
  shows "yaraScan h [path] isFolder all b =
    (map_of entries, b\<lparr>files := yara_files h isFolder all path b\<rparr>)"
proof -
  let ?entries = "map (\<lambda>r. (fst r, dash_join (snd r))) entries"
  have "read_pairs (CHR ''@'') \<lparr>unread = concat (map (pair_line (CHR ''@'')) ?entries), good = True\<rparr> = ?entries"
    by (rule read_pairs_lines) (use assms(2) in \<open>auto simp: list_all_iff dash_join_no_newline\<close>)
  then have "yaraScan h [path] isFolder all b =
      (fold yara_record ?entries Map.empty, b\<lparr>files := yara_files h isFolder all path b\<rparr>)"
    using assms(1)
    by (simp add: yaraScan_def yara_path_def run_command_def yara_files_def open_istream_def comp_def)
  moreover have "fold yara_record ?entries m = fold (\<lambda>r m. m(fst r \<mapsto> snd r)) entries m" for m
    using assms(2)
    by (induction entries arbitrary: m) (simp_all add: yara_record_def yara_rules_join)
  moreover have "fold (\<lambda>r m. m(fst r \<mapsto> snd r)) entries Map.empty = map_of entries"
    by (rule ext) (simp add: fold_updates [OF assms(3)] split: option.split)
  ultimately show ?thesis by simp
qed

text \<open>The period that a request sets is the one the next request reads, whatever its value: zero
  and negative periods are accepted.\<close>

theorem scan_time_roundtrip:
  assumes "jparse (h_json h) (req_buffer r) = Some j" "jint (h_json h) j ''time'' = Some t"
    and "req_id r = PERIODIC_SCAN_TIME_REQUEST" "req_id r' = GET_CURRENT_SCAN_FREQUENCY_REQUEST"
  shows "\<exists>m b'. periodic_handleRequest h r b = (m, b') \<and> scan_time b' = t \<and>
    periodic_handleRequest h r' b' =
      (serializeResponse (h_json h) [(''status'', JUnsigned 210), (''time'', JInt t)] 210, b')"
  using assms
  by (simp add: periodic_handleRequest_def changeTime_def getTime_def request_codes response_codes
      desirializeChangeScanTimeRequest_def serialize_GetTimeResponse_def)

end
