(* ===== verification/Backend_Requests.thy ===== *)
theory Backend_Requests
  imports Periodic_Scan
begin

text \<open>
  \<open>Backend/RequestHandler.cpp\<close> and \<open>config.cpp\<close>, and the loop that serves a client in
  \<open>Backend.cpp\<close>, with the relay of requests to the server.
\<close>

subsection \<open>The configuration\<close>

text \<open>\<open>config::parseConfigData\<close>: each variable is assigned as soon as its key is read.\<close>

definition parseConfigData :: "('db, 'j) host \<Rightarrow> ('db backend, unit) prog" where
  "parseConfigData h b =
     bnd (lift (or_throw JsonError
        (case files b ''config.json'' of None \<Rightarrow> None | Some cs \<Rightarrow> jread (h_json h) cs))) (\<lambda>data.
     bnd (lift (or_throw JsonError (jstrings (h_json h) data ''quick''))) (\<lambda>quick b.
     bnd (lift (or_throw JsonError (jstrings (h_json h) data ''full''))) (\<lambda>full b.
     ret () (b\<lparr>fullPathsForScan := full @ quickPathsForScan b\<rparr>))
       (b\<lparr>quickPathsForScan := quick\<rparr>))) b"

subsection \<open>The requests of the backend\<close>

definition isRequestRelevant :: "RequestInfo \<Rightarrow> bool" where
  "isRequestRelevant reqInfo \<longleftrightarrow> req_id reqInfo \<in>
     {SCAN_REQUEST, SUSPENDED_PROCESSES_LIST_REQUEST, SUSPICIOUS_PROCESSES_LIST_REQUEST,
      FREE_PROCESS_REQUEST, BLOCK_PROCESS_REQUEST, IP_SCAN_REQUEST, HASH_SCAN_REQUEST,
      SAVING_HASH_REQUEST, SAVING_IP_REQUEST, KILL_PROCESS_REQUEST, PERIODIC_SCAN_TIME_REQUEST,
      UPDATE_BLOCKED_TABLE_REQUEST, UPDATE_VIRUS_LIST_REQUEST,
      GET_CURRENT_SCAN_FREQUENCY_REQUEST}"

definition file_scan :: c_int where "file_scan = 0"
definition folder_scan :: c_int where "folder_scan = 1"
definition quick_scan :: c_int where "quick_scan = 2"
definition full_scan :: c_int where "full_scan = 3"

lemmas scan_types = file_scan_def folder_scan_def quick_scan_def full_scan_def

text \<open>A \<open>ScanResponse\<close> that was declared and not initialised: the containers are empty, the
  integers hold what the stack held.\<close>

definition new_ScanResponse :: "('db, 'j) host \<Rightarrow> ScanResponse" where
  "new_ScanResponse h =
     \<lparr>sr_status = junk_int h 0, sctResults = junk_int h 1, idtResults = junk_int h 2,
      packetsResults = [], openPortsResults = Map.empty, spofingResults = Map.empty,
      yaraResults = Map.empty, hashesResults = Map.empty\<rparr>"

definition scan_files ::
  "('db, 'j) host \<Rightarrow> string list \<Rightarrow> bool \<Rightarrow> bool \<Rightarrow> ScanResponse \<Rightarrow> ('db backend, ScanResponse) prog" where
  "scan_files h paths isFolder all r b =
     (case yaraScan h paths isFolder all b of (y, b) \<Rightarrow>
      case hashScan h paths isFolder all b of (hs, b) \<Rightarrow>
        ret (r\<lparr>yaraResults := y, hashesResults := hs\<rparr>) b)"

definition scan_system :: "('db, 'j) host \<Rightarrow> ScanResponse \<Rightarrow> ('db backend, ScanResponse) prog" where
  "scan_system h r =
     bnd (call_driver (idtScan (h_device h))) (\<lambda>idt b.
     case openPortsScan h b of (ports, b) \<Rightarrow>
     let packets = packetScanResult b in
     bnd (call_driver (sctScan (h_device h))) (\<lambda>sct b.
     let spofing = spofingScanResult b in
     ret (r\<lparr>idtResults := idt, openPortsResults := ports, packetsResults := packets,
            sctResults := sct, spofingResults := spofing\<rparr>)
       (b\<lparr>packetScanResult := [], spofingScanResult := Map.empty\<rparr>)) b)"

definition scan :: "('db, 'j) host \<Rightarrow> RequestInfo \<Rightarrow> ('db backend, message) prog" where
  "scan h reqInfo =
     bnd (parseConfigData h) (\<lambda>_.
     bnd (lift (deserializeScanRequest (h_json h) (req_buffer reqInfo))) (\<lambda>scanRequest.
     let scanResp = new_ScanResponse h;
         path = [scan_path scanRequest]
     in bnd (\<lambda>b.
          if scanType scanRequest = file_scan then scan_files h path False False scanResp b
          else if scanType scanRequest = folder_scan then scan_files h path True False scanResp b
          else if scanType scanRequest = quick_scan
          then bnd (scan_files h (quickPathsForScan b) True False scanResp) (scan_system h) b
          else if scanType scanRequest = full_scan
          then bnd (scan_files h (fullPathsForScan b) True True scanResp) (scan_system h) b
          else ret scanResp b) (\<lambda>scanResp.
        lift (serialize_ScanResponse (h_json h) (scanResp\<lparr>sr_status := SCAN_RESPONSE\<rparr>)))))"

definition getSuspendedProcessesList ::
  "('db, 'j) host \<Rightarrow> RequestInfo \<Rightarrow> ('db backend, message) prog" where
  "getSuspendedProcessesList h reqInfo =
     bnd (getBlockedPorcesses h) (\<lambda>pids.
     lift (serialize_SuspendedListResponse (h_json h)
       \<lparr>spd_status = SUSPENDED_PROCESSES_LIST_REESPONSE, procPids = pids\<rparr>))"

definition getSuspiciousProcessesList ::
  "('db, 'j) host \<Rightarrow> RequestInfo \<Rightarrow> ('db backend, message) prog" where
  "getSuspiciousProcessesList h reqInfo =
     bnd (getViruses h) (\<lambda>names.
     lift (serialize_SuspiciousListResponse (h_json h)
       \<lparr>sus_status = SUSPICIOUS_PROCESSES_LIST_RESPONSE, procNames = names\<rparr>))"

definition freeProcess :: "('db, 'j) host \<Rightarrow> RequestInfo \<Rightarrow> ('db backend, message) prog" where
  "freeProcess h reqInfo =
     bnd (lift (desrializeFreeRequest (h_json h) (req_buffer reqInfo))) (\<lambda>freeRequest.
     bnd (call_driver (communicateWithDriver (h_device h) 2 (free_pid freeRequest))) (\<lambda>worked.
     lift (serialize_FreeResponse (h_json h)
       \<lparr>free_status = FREE_PROCESS_RESPONSE, free_isWorked = worked\<rparr>)))"

definition blockProcess :: "('db, 'j) host \<Rightarrow> RequestInfo \<Rightarrow> ('db backend, message) prog" where
  "blockProcess h reqInfo =
     bnd (lift (desirializeBlockRequest (h_json h) (req_buffer reqInfo))) (\<lambda>blockRequest.
     bnd (call_driver (communicateWithDriver (h_device h) 1 (block_pid blockRequest))) (\<lambda>worked.
     lift (serialize_BlockResponse (h_json h)
       \<lparr>block_status = BLOCK_PROCESS_RESPONSE, block_isWorked = worked\<rparr>)))"

definition killProcess :: "('db, 'j) host \<Rightarrow> RequestInfo \<Rightarrow> ('db backend, message) prog" where
  "killProcess h reqInfo =
     bnd (lift (desirializeKillRequest (h_json h) (req_buffer reqInfo))) (\<lambda>killReq.
     bnd (call_driver (communicateWithDriver (h_device h) 0 (kill_pid killReq))) (\<lambda>worked.
     lift (serialize_KillResponse (h_json h)
       \<lparr>kill_status = KILL_PROCESS_RESPONSE, kill_isWorked = worked\<rparr>)))"

definition request_updateBlockedTable ::
  "('db, 'j) host \<Rightarrow> RequestInfo \<Rightarrow> ('db backend, message) prog" where
  "request_updateBlockedTable h reqInfo =
     bnd (lift (deserializeUpdateBlockedTbaleRequest (h_json h) (req_buffer reqInfo))) (\<lambda>request b.
     case updateBlockedTable h (ubt_action request) (ubt_pid request) (ubt_dateTime request) b of
       (worked, b) \<Rightarrow>
         lift (serialize_UpdateBlockedTableResponse (h_json h)
           \<lparr>ubr_status = UPDATE_BLOCKED_TABLE_RESPONSE, ubr_isWorked = (if worked then 1 else 0)\<rparr>) b)"

definition request_updateVirusTable ::
  "('db, 'j) host \<Rightarrow> RequestInfo \<Rightarrow> ('db backend, message) prog" where
  "request_updateVirusTable h reqInfo =
     bnd (lift (deserializeUpdateVirusTableRequest (h_json h) (req_buffer reqInfo))) (\<lambda>request b.
     case updateViruses h (uvt_name request) (uvt_dateTime request) b of
       (worked, b) \<Rightarrow>
         lift (serialize_UpdateVirusTableResponse (h_json h)
           \<lparr>uvr_status = UPDATE_VIRUS_TABLE_RESPONSE, uvr_isWorked = (if worked then 1 else 0)\<rparr>) b)"

text \<open>\<open>handleRequest\<close>: a code that is none of the eight returns a message that was never
  initialised.\<close>

definition handleRequest :: "('db, 'j) host \<Rightarrow> RequestInfo \<Rightarrow> ('db backend, message) prog" where
  "handleRequest h reqInfo =
     (if req_id reqInfo = SCAN_REQUEST then scan h reqInfo
      else if req_id reqInfo = SUSPENDED_PROCESSES_LIST_REQUEST then getSuspendedProcessesList h reqInfo
      else if req_id reqInfo = SUSPICIOUS_PROCESSES_LIST_REQUEST then getSuspiciousProcessesList h reqInfo
      else if req_id reqInfo = FREE_PROCESS_REQUEST then freeProcess h reqInfo
      else if req_id reqInfo = BLOCK_PROCESS_REQUEST then blockProcess h reqInfo
      else if req_id reqInfo = KILL_PROCESS_REQUEST then killProcess h reqInfo
      else if req_id reqInfo = UPDATE_BLOCKED_TABLE_REQUEST then request_updateBlockedTable h reqInfo
      else if req_id reqInfo = UPDATE_VIRUS_LIST_REQUEST then request_updateVirusTable h reqInfo
      else lift (Inl Undefined))"

subsection \<open>Requests for one process\<close>

definition request_signal :: "byte \<Rightarrow> int option" where
  "request_signal i =
     (if i = FREE_PROCESS_REQUEST then Some SIGCONT else if i = BLOCK_PROCESS_REQUEST then Some SIGSTOP
      else if i = KILL_PROCESS_REQUEST then Some SIGKILL else None)"

lemma call_driver_communicate:
  assumes "codes_differ (h_device h)" "signal_of a = Some sig"
  shows "\<exists>k. call_driver (communicateWithDriver (h_device h) a pid) b =
      (Inr (if dev_open (h_device h) \<and> dev_task (h_device h) pid then 1 else 0), b\<lparr>kernel := k\<rparr>) \<and>
    signals k = signals (kernel b) @
      (if dev_open (h_device h) \<and> dev_task (h_device h) pid then [(pid, sig)] else [])"
proof -
  obtain k where "communicateWithDriver (h_device h) a pid (kernel b) =
      Inr (if dev_open (h_device h) \<and> dev_task (h_device h) pid then 1 else 0, k)"
    "signals k = signals (kernel b) @
      (if dev_open (h_device h) \<and> dev_task (h_device h) pid then [(pid, sig)] else [])"
    using communicate_signal_result [OF assms] .
  then show ?thesis by (intro exI [of _ k]) (simp only: call_driver_def sum.case prod.case)
qed

lemma process_request_runs:
  assumes "jparse (h_json h) (req_buffer info) = Some j" "jint (h_json h) j ''pid'' = Some pid"
  shows "call_driver (communicateWithDriver (h_device h) 2 pid) b = (Inr w, b') \<Longrightarrow>
      freeProcess h info b =
        (serializeResponse (h_json h) [(''status'', JUnsigned 205), (''isWorked'', JInt w)] 205, b')"
    and "call_driver (communicateWithDriver (h_device h) 1 pid) b = (Inr w, b') \<Longrightarrow>
      blockProcess h info b =
        (serializeResponse (h_json h) [(''status'', JUnsigned 206), (''isWorked'', JInt w)] 206, b')"
    and "call_driver (communicateWithDriver (h_device h) 0 pid) b = (Inr w, b') \<Longrightarrow>
      killProcess h info b =
        (serializeResponse (h_json h) [(''status'', JUnsigned 207), (''isWorked'', JInt w)] 207, b')"
  by (simp_all add: freeProcess_def blockProcess_def killProcess_def desrializeFreeRequest_def
      desirializeBlockRequest_def desirializeKillRequest_def serialize_FreeResponse_def
      serialize_BlockResponse_def serialize_KillResponse_def response_codes assms)

lemma handleRequest_process:
  "req_id info = 105 \<Longrightarrow> handleRequest h info = freeProcess h info"
  "req_id info = 106 \<Longrightarrow> handleRequest h info = blockProcess h info"
  "req_id info = 107 \<Longrightarrow> handleRequest h info = killProcess h info"
  "req_id info = 100 \<Longrightarrow> handleRequest h info = scan h info"
  by (simp_all add: handleRequest_def request_codes)

text \<open>A free, block or kill request for a process sends it the signal to continue, to stop or to
  end, and nothing else; the response says whether there was a driver and a process.\<close>

theorem process_requests:
  assumes "request_signal (req_id info) = Some sig" "codes_differ (h_device h)"
    and "jparse (h_json h) (req_buffer info) = Some j" "jint (h_json h) j ''pid'' = Some pid"
  shows "\<exists>k. handleRequest h info b =
      (serializeResponse (h_json h)
         [(''status'', JUnsigned (ucast (req_id info) + 100)),
          (''isWorked'', JInt (if dev_open (h_device h) \<and> dev_task (h_device h) pid then 1 else 0))]
         (ucast (req_id info) + 100), b\<lparr>kernel := k\<rparr>) \<and>
    signals k = signals (kernel b) @
      (if dev_open (h_device h) \<and> dev_task (h_device h) pid then [(pid, sig)] else [])"
proof -
  let ?w = "if dev_open (h_device h) \<and> dev_task (h_device h) pid then 1 else 0 :: c_int"
  let ?sigs = "\<lambda>g. signals (kernel b) @
      (if dev_open (h_device h) \<and> dev_task (h_device h) pid then [(pid, g)] else [])"
  have sig: "signal_of 2 = Some SIGCONT" "signal_of 1 = Some SIGSTOP" "signal_of 0 = Some SIGKILL"
    by (simp_all add: signal_of_def drv_simps)
  note drv = call_driver_communicate [OF assms(2), of _ _ pid b]
  note run = process_request_runs [OF assms(3,4), of b]
  from assms(1) consider "req_id info = 105" "sig = SIGCONT" | "req_id info = 106" "sig = SIGSTOP"
    | "req_id info = 107" "sig = SIGKILL"
    by (auto simp: request_signal_def request_codes split: if_splits)
  then show ?thesis
  proof cases
    case 1
    from drv [OF sig(1)] obtain k where k: "call_driver (communicateWithDriver (h_device h) 2 pid) b =
        (Inr ?w, b\<lparr>kernel := k\<rparr>)" "signals k = ?sigs SIGCONT" by blast
    from run(1) [OF k(1)] k(2) 1(2) show ?thesis
      by (intro exI [of _ k]) (simp only: handleRequest_process(1) [OF 1(1)] 1(1), simp)
  next
    case 2
    from drv [OF sig(2)] obtain k where k: "call_driver (communicateWithDriver (h_device h) 1 pid) b =
        (Inr ?w, b\<lparr>kernel := k\<rparr>)" "signals k = ?sigs SIGSTOP" by blast
    from run(2) [OF k(1)] k(2) 2(2) show ?thesis
      by (intro exI [of _ k]) (simp only: handleRequest_process(2) [OF 2(1)] 2(1), simp)
  next
    case 3
    from drv [OF sig(3)] obtain k where k: "call_driver (communicateWithDriver (h_device h) 0 pid) b =
        (Inr ?w, b\<lparr>kernel := k\<rparr>)" "signals k = ?sigs SIGKILL" by blast
    from run(3) [OF k(1)] k(2) 3(2) show ?thesis
      by (intro exI [of _ k]) (simp only: handleRequest_process(3) [OF 3(1)] 3(1), simp)
  qed
qed

subsection \<open>Scans on request\<close>

text \<open>What a scan of the files of some paths leaves unchanged.\<close>

lemma updateVirusTables_frame:
  "kernel (snd (updateVirusTables h n b)) = kernel b"
  "packetScanResult (snd (updateVirusTables h n b)) = packetScanResult b"
  "spofingScanResult (snd (updateVirusTables h n b)) = spofingScanResult b"
  by (simp_all add: updateVirusTables_def exec_sql_def split: prod.split)

lemma insert_viruses_frame [simp]:
  "kernel (insert_viruses h ns b) = kernel b"
  "packetScanResult (insert_viruses h ns b) = packetScanResult b"
  "spofingScanResult (insert_viruses h ns b) = spofingScanResult b"
  by (induction ns arbitrary: b) (simp_all add: insert_viruses_def updateVirusTables_frame)

lemma hash_path_frame:
  "hash_path h f a p (m, b) = (m', b') \<Longrightarrow>
     kernel b' = kernel b \<and> packetScanResult b' = packetScanResult b \<and>
     spofingScanResult b' = spofingScanResult b"
  by (auto simp: hash_path_def run_command_def hash_records_eq Let_def)

lemma hashScan_frame:
  "hashScan h ps f a b = (m', b') \<Longrightarrow>
     kernel b' = kernel b \<and> packetScanResult b' = packetScanResult b \<and>
     spofingScanResult b' = spofingScanResult b"
proof -
  have "fold (hash_path h f a) ps (m, b) = (m', b') \<Longrightarrow>
     kernel b' = kernel b \<and> packetScanResult b' = packetScanResult b \<and>
     spofingScanResult b' = spofingScanResult b" for m b
  proof (induction ps arbitrary: m b)
    case Nil
    then show ?case by simp
  next
    case (Cons p ps)
    obtain m1 b1 where s: "hash_path h f a p (m, b) = (m1, b1)" by fastforce
    with Cons.prems have "fold (hash_path h f a) ps (m1, b1) = (m', b')" by simp
    from Cons.IH [OF this] hash_path_frame [OF s] show ?case by simp
  qed
  then show "hashScan h ps f a b = (m', b') \<Longrightarrow> ?thesis" by (simp add: hashScan_def)
qed

lemma yaraScan_frame:
  "yaraScan h ps f a b = (m', b') \<Longrightarrow>
     kernel b' = kernel b \<and> packetScanResult b' = packetScanResult b \<and>
     spofingScanResult b' = spofingScanResult b"
proof -
  have "fold (yara_path h f a) ps (m, b) = (m', b') \<Longrightarrow>
     kernel b' = kernel b \<and> packetScanResult b' = packetScanResult b \<and>
     spofingScanResult b' = spofingScanResult b" for m b
  proof (induction ps arbitrary: m b)
    case Nil
    then show ?case by simp
  next
    case (Cons p ps)
    obtain m1 b1 where s: "yara_path h f a p (m, b) = (m1, b1)" by fastforce
    with Cons.prems have "fold (yara_path h f a) ps (m1, b1) = (m', b')" by simp
    from Cons.IH [OF this] s show ?case
      by (auto simp: yara_path_def run_command_def Let_def)
  qed
  then show "yaraScan h ps f a b = (m', b') \<Longrightarrow> ?thesis" by (simp add: yaraScan_def)
qed

lemma scan_files_result:
  obtains y hs b' where "scan_files h ps f a r b = (Inr (r\<lparr>yaraResults := y, hashesResults := hs\<rparr>), b')"
    "kernel b' = kernel b" "packetScanResult b' = packetScanResult b"
    "spofingScanResult b' = spofingScanResult b"
proof -
  obtain y b1 where y: "yaraScan h ps f a b = (y, b1)" by fastforce
  obtain hs b2 where hs: "hashScan h ps f a b1 = (hs, b2)" by fastforce
  from y hs have "scan_files h ps f a r b = (Inr (r\<lparr>yaraResults := y, hashesResults := hs\<rparr>), b2)"
    by (simp add: scan_files_def)
  then show ?thesis
    by (rule that) (simp_all only: yaraScan_frame [OF y] hashScan_frame [OF hs])
qed

lemma call_driver_ok: "f (kernel b) = Inr (a, k) \<Longrightarrow> call_driver f b = (Inr a, b\<lparr>kernel := k\<rparr>)"
  by (simp add: call_driver_def)

lemma sct_ok_result [simp]: "sct_ok k (s\<lparr>drv_result := v, user_writes := w\<rparr>) = sct_ok k s"
  by (simp add: sct_ok_def sct_addr_def)

lemma sct_differs_result [simp]:
  "sct_differs (s\<lparr>drv_result := v, user_writes := w\<rparr>) = sct_differs s"
  by (simp add: sct_differs_def sct_addr_def fun_eq_iff)

definition driver_ready :: "device \<Rightarrow> spybot \<Rightarrow> bool" where
  "driver_ready d s \<longleftrightarrow>
     dev_open d \<and> codes_differ d \<and> sct_ok (dev_kernel d) s \<and> idt_ok s \<and>
     length (temp_sct s) = NR_syscalls (dev_kernel d) \<and> length (temp_idt s) = MAX_IDT_SIZE"

definition sct_answer :: "device \<Rightarrow> spybot \<Rightarrow> c_int" where
  "sct_answer d s = scan_result (first_index (sct_differs s) 0 (NR_syscalls (dev_kernel d)))"

definition idt_answer :: "device \<Rightarrow> spybot \<Rightarrow> c_int" where
  "idt_answer d s = scan_result (first_index (idt_differs (dev_kernel d) s) 0 MAX_IDT_SIZE)"

lemma scan_system_ready:
  assumes "driver_ready (h_device h) (kernel b)"
  shows "\<exists>ports b'. scan_system h r b = (Inr (r\<lparr>idtResults := idt_answer (h_device h) (kernel b),
      openPortsResults := ports, packetsResults := packetScanResult b,
      sctResults := sct_answer (h_device h) (kernel b), spofingResults := spofingScanResult b\<rparr>), b') \<and>
    packetScanResult b' = [] \<and> spofingScanResult b' = Map.empty"
proof -
  let ?d = "h_device h"
  from assms have d: "dev_open ?d" "codes_differ ?d" "sct_ok (dev_kernel ?d) (kernel b)"
    "idt_ok (kernel b)" "length (temp_sct (kernel b)) = NR_syscalls (dev_kernel ?d)"
    "length (temp_idt (kernel b)) = MAX_IDT_SIZE"
    by (simp_all add: driver_ready_def)
  from idtScan_open [OF d(1,2,4,6)] obtain v w where
    idt: "idtScan ?d (kernel b) = Inr (idt_answer ?d (kernel b), kernel b\<lparr>drv_result := v, user_writes := w\<rparr>)"
    by (auto simp: idt_answer_def)
  let ?k1 = "kernel b\<lparr>drv_result := v, user_writes := w\<rparr>"
  let ?b1 = "b\<lparr>kernel := ?k1\<rparr>"
  obtain ports b2 where ports: "openPortsScan h ?b1 = (ports, b2)" by fastforce
  have b2: "kernel b2 = ?k1" "packetScanResult b2 = packetScanResult b"
    "spofingScanResult b2 = spofingScanResult b"
    using ports by (auto simp: openPortsScan_def run_command_def Let_def)
  from d(3,5) sctScan_open [OF d(1,2), of ?k1] obtain v' w' where
    "sctScan ?d ?k1 = Inr (sct_answer ?d (kernel b), ?k1\<lparr>drv_result := v', user_writes := w'\<rparr>)"
    by (auto simp: sct_answer_def)
  with b2(1) have sct: "sctScan ?d (kernel b2) =
      Inr (sct_answer ?d (kernel b), ?k1\<lparr>drv_result := v', user_writes := w'\<rparr>)" by simp
  show ?thesis
    unfolding scan_system_def
    by (intro exI [of _ ports]) (simp add: call_driver_ok [where f = "idtScan ?d", OF idt] ports
        call_driver_ok [where f = "sctScan ?d", OF sct] b2)
qed

lemma scan_run:
  assumes "parseConfigData h b = (Inr (), b1)"
    and "deserializeScanRequest (h_json h) (req_buffer info) = Inr q"
  shows "scanType q = file_scan \<Longrightarrow>
      scan_files h [scan_path q] False False (new_ScanResponse h) b1 = (Inr r, b2) \<Longrightarrow>
      scan h info b = (serialize_ScanResponse (h_json h) (r\<lparr>sr_status := SCAN_RESPONSE\<rparr>), b2)"
    and "scanType q = folder_scan \<Longrightarrow>
      scan_files h [scan_path q] True False (new_ScanResponse h) b1 = (Inr r, b2) \<Longrightarrow>
      scan h info b = (serialize_ScanResponse (h_json h) (r\<lparr>sr_status := SCAN_RESPONSE\<rparr>), b2)"
    and "scanType q = quick_scan \<Longrightarrow>
      scan_files h (quickPathsForScan b1) True False (new_ScanResponse h) b1 = (Inr r, b2) \<Longrightarrow>
      scan_system h r b2 = (Inr r', b3) \<Longrightarrow>
      scan h info b = (serialize_ScanResponse (h_json h) (r'\<lparr>sr_status := SCAN_RESPONSE\<rparr>), b3)"
  by (simp_all add: scan_def assms scan_types Let_def)

text \<open>A scan of a file or folder asks the driver nothing: the two numbers it reports for the
  system call table and the interrupt table are those the uninitialised response held.\<close>

theorem file_scan_reports_junk:
  assumes "parseConfigData h b = (Inr (), b1)"
    and "deserializeScanRequest (h_json h) (req_buffer info) = Inr q" "scanType q \<in> {file_scan, folder_scan}"
  shows "\<exists>r b'. scan h info b = (serialize_ScanResponse (h_json h) r, b') \<and>
    sctResults r = junk_int h 1 \<and> idtResults r = junk_int h 2 \<and> packetsResults r = [] \<and>
    kernel b' = kernel b1"
proof -
  from assms(3) consider "scanType q = file_scan" | "scanType q = folder_scan" by blast
  then show ?thesis
  proof cases
    case 1
    obtain y hs b' where s: "scan_files h [scan_path q] False False (new_ScanResponse h) b1 =
        (Inr (new_ScanResponse h\<lparr>yaraResults := y, hashesResults := hs\<rparr>), b')" "kernel b' = kernel b1"
      by (rule scan_files_result)
    from scan_run(1) [OF assms(1,2) 1 s(1)] s(2) show ?thesis
      by (intro exI conjI) (assumption | simp add: new_ScanResponse_def)+
  next
    case 2
    obtain y hs b' where s: "scan_files h [scan_path q] True False (new_ScanResponse h) b1 =
        (Inr (new_ScanResponse h\<lparr>yaraResults := y, hashesResults := hs\<rparr>), b')" "kernel b' = kernel b1"
      by (rule scan_files_result)
    from scan_run(2) [OF assms(1,2) 2 s(1)] s(2) show ?thesis
      by (intro exI conjI) (assumption | simp add: new_ScanResponse_def)+
  qed
qed

lemma parseConfigData_frame:
  "parseConfigData h b = (r, b') \<Longrightarrow>
     kernel b' = kernel b \<and> packetScanResult b' = packetScanResult b \<and>
     spofingScanResult b' = spofingScanResult b"
  by (auto simp: parseConfigData_def bnd_def split: prod.splits sum.splits)

text \<open>C10: a quick scan with a working driver reports \<open>-1\<close> for each of the two kernel tables exactly
  when that table is unchanged, hands over what the periodic scans have collected, and empties
  the collection.\<close>

theorem quick_scan_reports:
  assumes "parseConfigData h b = (Inr (), b1)"
    and "deserializeScanRequest (h_json h) (req_buffer info) = Inr q" "scanType q = quick_scan"
    and "driver_ready (h_device h) (kernel b)"
  shows "\<exists>r b'. scan h info b = (serialize_ScanResponse (h_json h) r, b') \<and>
    (sctResults r = - 1 \<longleftrightarrow>
       sct_list (dev_kernel (h_device h)) (kernel b) = map Some (temp_sct (kernel b))) \<and>
    (idtResults r = - 1 \<longleftrightarrow>
       (\<forall>i < MAX_IDT_SIZE. \<not> idt_differs (dev_kernel (h_device h)) (kernel b) i)) \<and>
    packetsResults r = packetScanResult b \<and> spofingResults r = spofingScanResult b \<and>
    packetScanResult b' = [] \<and> spofingScanResult b' = Map.empty"
proof -
  let ?d = "h_device h"
  note b1 = parseConfigData_frame [OF assms(1)]
  obtain y hs b2 where s: "scan_files h (quickPathsForScan b1) True False (new_ScanResponse h) b1 =
      (Inr (new_ScanResponse h\<lparr>yaraResults := y, hashesResults := hs\<rparr>), b2)"
    "kernel b2 = kernel b1" "packetScanResult b2 = packetScanResult b1"
    "spofingScanResult b2 = spofingScanResult b1"
    by (rule scan_files_result)
  let ?r = "new_ScanResponse h\<lparr>yaraResults := y, hashesResults := hs\<rparr>"
  have "driver_ready ?d (kernel b2)" using assms(4) s(2) b1 by simp
  from scan_system_ready [OF this, of ?r] obtain ports b3 where
    t: "scan_system h ?r b2 = (Inr (?r\<lparr>idtResults := idt_answer ?d (kernel b2),
      openPortsResults := ports, packetsResults := packetScanResult b2,
      sctResults := sct_answer ?d (kernel b2), spofingResults := spofingScanResult b2\<rparr>), b3)"
    "packetScanResult b3 = []" "spofingScanResult b3 = Map.empty" by blast
  have k: "kernel b2 = kernel b" "packetScanResult b2 = packetScanResult b"
    "spofingScanResult b2 = spofingScanResult b" using s b1 by simp_all
  have d: "sct_ok (dev_kernel ?d) (kernel b)" "length (temp_sct (kernel b)) = NR_syscalls (dev_kernel ?d)"
    using assms(4) by (simp_all add: driver_ready_def)
  have "sct_answer ?d (kernel b) = - 1 \<longleftrightarrow>
      sct_list (dev_kernel ?d) (kernel b) = map Some (temp_sct (kernel b))"
    unfolding sct_answer_def by (rule sct_scan_clean [OF d])
  moreover have "idt_answer ?d (kernel b) = - 1 \<longleftrightarrow>
      (\<forall>i < MAX_IDT_SIZE. \<not> idt_differs (dev_kernel ?d) (kernel b) i)"
    unfolding idt_answer_def by (rule idt_scan_clean)
  ultimately show ?thesis
    using scan_run(3) [OF assms(1-3) s(1) t(1)] t(2,3) by (auto simp: k)
qed

lemma scan_no_config: "files b ''config.json'' = None \<Longrightarrow> scan h info b = (Inl JsonError, b)"
  by (simp add: scan_def parseConfigData_def)

end
