(* ===== verification/Backend_Main.thy ===== *)
theory Backend_Main
  imports Backend_Requests
begin

text \<open>
  \<open>Backend.cpp\<close>: the loop that serves one client, and the relay of its requests to the
  server.  A round reads one message and answers it; a loop of rounds ends when an exception
  reaches it.
\<close>

subsection \<open>Rounds\<close>

text \<open>The server as the backend meets it: whether it accepts a connection, the new connection,
  and what arrives on it after the bytes that were sent.\<close>

record relay =
  server_accepts :: bool
  server_conn :: sock
  server_answers :: "byte list \<Rightarrow> byte list list"

definition handleServerRequest ::
  "relay \<Rightarrow> (nat \<Rightarrow> nat \<Rightarrow> byte) \<Rightarrow> message \<Rightarrow> (sock, unit) prog" where
  "handleServerRequest r heap clientRequest clientSocket =
     (if \<not> server_accepts r then (Inr (), clientSocket)
      else case res_bind (sendData clientRequest (server_conn r)) (\<lambda>s.
                res_bind (getAllTheSocket heap (s\<lparr>rx := server_answers r (tx s)\<rparr>))
                  (\<lambda>(serverResponse, _). sendData serverResponse clientSocket)) of
             Inr clientSocket' \<Rightarrow> (Inr (), clientSocket')
           | Inl e \<Rightarrow> (if catchable e then Inr () else Inl e, clientSocket))"

text \<open>Sending the result of a handler.\<close>

definition send_reply ::
  "(stop + message) \<times> 'db backend \<Rightarrow> sock \<Rightarrow> (stop + unit) \<times> 'db backend \<times> sock" where
  "send_reply res clientSocket =
     (case res of
        (Inl e, b) \<Rightarrow> (Inl e, b, clientSocket)
      | (Inr m, b) \<Rightarrow>
          (case sendData m clientSocket of
             Inl e \<Rightarrow> (Inl e, b, clientSocket)
           | Inr s \<Rightarrow> (Inr (), b, s)))"

definition client_round ::
  "('db, 'j) host \<Rightarrow> relay \<Rightarrow> 'db backend \<times> sock \<Rightarrow> (stop + unit) \<times> 'db backend \<times> sock" where
  "client_round h r st =
     (case st of (b, clientSocket) \<Rightarrow>
        (case getAllTheSocket (h_heap h) clientSocket of
           Inl e \<Rightarrow> (Inl e, b, clientSocket)
         | Inr (packet, clientSocket) \<Rightarrow>
             let info = request_info packet
             in if \<not> isRequestRelevant info
                then send_reply (serialize_ErrorResponse (h_json h)
                       \<lparr>err_message = ''Request is not relevant.''\<rparr>, b) clientSocket
                else if 100 \<le> req_id info \<and> req_id info \<le> 107
                then send_reply (handleRequest h info b) clientSocket
                else if 108 \<le> req_id info \<and> req_id info \<le> 111
                then send_reply (periodic_handleRequest h info b) clientSocket
                else (case handleServerRequest r (h_heap h) packet clientSocket of
                        (res, clientSocket) \<Rightarrow> (res, b, clientSocket))))"

text \<open>How a bounded number of rounds ends: the loop goes on, the handler has closed the
  connection, or the process is gone.\<close>

datatype serving = Serving | Closed | Dead stop

fun clientHandler ::
  "('db, 'j) host \<Rightarrow> relay \<Rightarrow> nat \<Rightarrow> 'db backend \<times> sock \<Rightarrow> serving \<times> 'db backend \<times> sock" where
  "clientHandler h r 0 st = (Serving, st)"
| "clientHandler h r (Suc n) st =
     (case client_round h r st of
        (Inl e, st) \<Rightarrow> (if catchable e then Closed else Dead e, st)
      | (Inr _, st) \<Rightarrow> clientHandler h r n st)"

subsection \<open>One response for one request\<close>

definition response_code :: "byte \<Rightarrow> c_int" where
  "response_code i = ucast i + 100"

text \<open>What the handlers of both programs have in common: the message comes out of a serializer that
  makes good messages for a code, and everything before it only prepares the fields.\<close>

locale message_handlers =
  fixes good :: "c_int \<Rightarrow> message \<Rightarrow> bool"
    and ser :: "'f \<Rightarrow> c_int \<Rightarrow> stop + message"
  assumes ser_good: "ser j code = Inr m \<Longrightarrow> good code m"
begin

definition answering :: "('s, message) prog \<Rightarrow> c_int \<Rightarrow> bool" where
  "answering p code \<longleftrightarrow> (\<forall>b m b'. p b = (Inr m, b') \<longrightarrow> good code m)"

lemma answering_ser [simp]: "answering (lift (ser j code)) code" "answering (Pair (ser j code)) code"
  by (auto simp: answering_def dest: ser_good)

lemma answering_at:
  "answering (\<lambda>b. lift (ser (j b) code) (g b)) code" "answering (\<lambda>b. (ser (j b) code, g b)) code"
  by (auto simp: answering_def dest: ser_good)

lemma answering_bnd: "(\<And>x. answering (f x) code) \<Longrightarrow> answering (bnd m f) code"
  unfolding answering_def by (blast elim!: bnd_InrE)

lemma answering_case:
  "(\<And>x. answering (f x) code) \<Longrightarrow> answering (\<lambda>b. case g b of (x, b') \<Rightarrow> f x b') code"
  unfolding answering_def by (auto split: prod.splits)

lemma answering_good: "answering p code \<Longrightarrow> p b = (Inr m, b') \<Longrightarrow> good code m"
  unfolding answering_def by blast

lemmas answering_intros = answering_bnd answering_case answering_ser answering_at

end

text \<open>A message of the backend is a frame with the given code.\<close>

definition is_frame :: "c_int \<Rightarrow> message \<Rightarrow> bool" where
  "is_frame code m \<longleftrightarrow> (\<exists>d. fits (length d) \<and> m = framed code d)"

interpretation backend: message_handlers is_frame "serializeResponse J" for J
  by unfold_locales (auto simp: is_frame_def elim: serializeResponse_Inr)

lemma answers_requests:
  "backend.answering (getTime h info) 210" "backend.answering (changeTime h info) 208"
  "backend.answering (scan h info) 200" "backend.answering (getSuspendedProcessesList h info) 202"
  "backend.answering (getSuspiciousProcessesList h info) 201" "backend.answering (freeProcess h info) 205"
  "backend.answering (blockProcess h info) 206" "backend.answering (killProcess h info) 207"
  "backend.answering (request_updateBlockedTable h info) 203" "backend.answering (request_updateVirusTable h info) 204"
  unfolding getTime_def changeTime_def scan_def getSuspendedProcessesList_def getSuspiciousProcessesList_def freeProcess_def
    blockProcess_def killProcess_def request_updateBlockedTable_def request_updateVirusTable_def
    Let_def
  by (rule backend.answering_intros | simp add: backend_serializers response_codes)+

lemma relevant_ids:
  "isRequestRelevant info \<longleftrightarrow>
     req_id info \<in> {100, 101, 102, 103, 104, 105, 106, 107, 108, 110, 112, 113, 114, 115}"
  by (auto simp: isRequestRelevant_def request_codes)

lemma handleRequest_answers:
  assumes "req_id info \<in> {100, 101, 102, 103, 104, 105, 106, 107}"
  shows "backend.answering (handleRequest h info) (response_code (req_id info))"
  using assms answers_requests
  by (auto simp: handleRequest_def request_codes response_code_def)

lemma periodic_answers:
  assumes "req_id info \<in> {108, 110}"
  shows "backend.answering (periodic_handleRequest h info) (response_code (req_id info))"
  using assms answers_requests
  by (auto simp: periodic_handleRequest_def request_codes response_code_def)

lemma send_reply_answers:
  assumes "backend.answering p code" "send_reply (p b) s = (Inr (), b', s')"
  shows "\<exists>d. fits (length d) \<and> tx s' = tx s @ frame code d"
proof -
  from assms(2) obtain m where m: "p b = (Inr m, b')" "sendData m s = Inr s'"
    by (auto simp: send_reply_def split: prod.splits sum.splits)
  obtain d where d: "fits (length d)" "m = framed code d"
    using backend.answering_good [OF assms(1) m(1)] unfolding is_frame_def by blast
  with m(2) have "tx s' = tx s @ frame code d" by (simp add: sendData_framed send_open)
  with d show ?thesis by blast
qed

lemma recv_tx: "recv n s = (r, s') \<Longrightarrow> tx s' = tx s \<and> tx_peer s' = tx_peer s"
  by (auto simp: recv_def split: list.splits)

lemma getPart_tx:
  "getPartFromSocket heap n s = Inr (d, s') \<Longrightarrow> tx s' = tx s \<and> tx_peer s' = tx_peer s"
  by (auto simp: getPartFromSocket_def Let_def dest!: recv_tx split: if_splits prod.splits option.splits)

lemma getAll_tx:
  assumes "getAllTheSocket heap s = Inr (m, s')"
  shows "tx s' = tx s \<and> tx_peer s' = tx_peer s"
proof -
  from assms obtain c s1 l s2 d where
    "getPartFromSocket heap (of_nat CODE_SIZE) s = Inr (c, s1)"
    "getPartFromSocket heap (of_nat LEN_SIZE) s1 = Inr (l, s2)"
    "getPartFromSocket heap (le_word l) s2 = Inr (d, s')"
    unfolding getAllTheSocket_def Let_def
    by (fastforce simp: res_bind_Inr_iff simp del: wire_sizes split: if_splits)
  then show ?thesis by (auto dest!: getPart_tx)
qed

lemma send_reply_sock:
  "send_reply res s = (r, b', s') \<Longrightarrow> \<exists>out. s' = s\<lparr>tx := out\<rparr>"
  by (auto simp: send_reply_def sendData_def send_def Let_def intro: exI [of _ "tx s"]
      split: prod.splits sum.splits if_splits peer.splits)

text \<open>C36: a request takes exactly its own bytes off the connection.  A code the backend does not
  know is answered with one error message and changes nothing; a request that the backend
  handles itself is answered, if the handler returns, with exactly one message whose code is
  the code of the request plus 100.\<close>

theorem one_response_per_request:
  assumes "rx s = push (frame code d @ rest) segs" "fits (length d)" "is_code code"
    and "client_round h r (b, s) = (Inr (), b', s')"
  shows "(ucast code \<notin> {100, 101, 102, 103, 104, 105, 106, 107, 108, 110, 112, 113, 114, 115 :: byte} \<longrightarrow>
      b' = b \<and> rx s' = push rest segs \<and> (\<exists>d'. tx s' = tx s @ frame 1 d')) \<and>
    (ucast code \<in> {100, 101, 102, 103, 104, 105, 106, 107, 108, 110 :: byte} \<longrightarrow>
      rx s' = push rest segs \<and> (\<exists>d'. tx s' = tx s @ frame (code + 100) d'))"
proof -
  let ?info = "request_info (framed code d)"
  have id: "req_id ?info = ucast code" by (simp add: request_info_def framed_def)
  have c: "response_code (ucast code) = code + 100"
    using assms(3) by (simp add: response_code_def is_code_ucast)
  obtain s1 where s1: "getAllTheSocket (h_heap h) s = Inr (framed code d, s1)"
    "rx s1 = push rest segs" "tx s1 = tx s"
    using getAll_frame [OF assms(1-3), of "h_heap h"] by auto
  have out: "rx s2 = rx s1 \<and> (\<exists>d'. tx s2 = tx s @ frame k d')"
    if "backend.answering p k" "send_reply (p b) s1 = (Inr (), b2, s2)" for p k b2 s2
    using send_reply_answers [OF that] send_reply_sock [OF that(2)] s1(3) by auto
  note round = assms(4) [unfolded client_round_def prod.case s1(1) sum.case Let_def]
  show ?thesis
  proof ((rule conjI; rule impI), goal_cases)
    case 1
    then have "\<not> isRequestRelevant ?info" by (simp add: relevant_ids id)
    with round have "send_reply (serializeResponse (h_json h)
        [(''message'', JString ''Request is not relevant.'')] 1, b) s1 = (Inr (), b', s')"
      by (simp add: serialize_ErrorResponse_def response_codes)
    then show ?case
      using out [of "lift (serializeResponse (h_json h)
          [(''message'', JString ''Request is not relevant.'')] 1)" 1 b' s'] s1(2)
      by (auto simp: send_reply_def split: sum.splits)
  next
    case 2
    then have i: "isRequestRelevant ?info" by (auto simp: relevant_ids id)
    from 2 consider "ucast code \<in> {100, 101, 102, 103, 104, 105, 106, 107 :: byte}"
      | "ucast code \<in> {108, 110 :: byte}" by blast
    then show ?case
    proof cases
      case 1
      with round i id have *: "send_reply (handleRequest h ?info b) s1 = (Inr (), b', s')" by auto
      have "req_id ?info \<in> {100, 101, 102, 103, 104, 105, 106, 107}" using 1 by (simp add: id)
      from out [OF handleRequest_answers [OF this] *] s1(2) show ?thesis by (simp only: id c)
    next
      case 2
      with round i id have *: "send_reply (periodic_handleRequest h ?info b) s1 = (Inr (), b', s')" by auto
      have "req_id ?info \<in> {108, 110}" using 2 by (simp add: id)
      from out [OF periodic_answers [OF this] *] s1(2) show ?thesis by (simp only: id c)
    qed
  qed
qed

text \<open>A client that closes its connection is not noticed: with new memory that reads as zeros
  the reader makes a message with code 0, which is answered with an error message, and so on
  for every number of rounds.\<close>

theorem closed_client_served_forever:
  assumes "rx s = []" "\<not> rx_error s" "\<And>k i. h_heap h k i = 0" "tx_peer s = PeerOpen"
    and "jdump (h_json h) [(''message'', JString ''Request is not relevant.'')] = Some d"
    and "fits (length d)"
  shows "\<exists>s'. clientHandler h r n (b, s) = (Serving, b, s') \<and>
    tx s' = tx s @ concat (replicate n (frame 1 d))"
  using assms(1,2,4)
proof (induction n arbitrary: s)
  case 0
  then show ?case by simp
next
  case (Suc n)
  let ?s1 = "s\<lparr>allocs := allocs s + 2, tx := tx s @ frame 1 d\<rparr>"
  have "request_info (framed 0 []) = \<lparr>req_id = 0, req_buffer = []\<rparr>"
    by (simp add: request_info_def framed_def)
  then have "client_round h r (b, s) = (Inr (), b, ?s1)"
    using Suc.prems(3)
    by (simp add: client_round_def getAll_closed [OF Suc.prems(1,2) assms(3)] relevant_ids
        serialize_ErrorResponse_def serializeResponse_fits [OF assms(5,6)] response_codes
        send_reply_def sendData_framed [OF assms(6)] send_def)
  moreover from Suc.prems Suc.IH [of ?s1] obtain s' where
    "clientHandler h r n (b, ?s1) = (Serving, b, s')"
    "tx s' = tx ?s1 @ concat (replicate n (frame 1 d))" by auto
  ultimately show ?case by simp
qed

text \<open>Without a readable configuration file every scan request, also one for a single file, is
  answered by closing the connection without a response; no scan is made.\<close>

theorem no_config_closes:
  assumes "rx s = push (frame 100 d @ rest) segs" "fits (length d)" "files b ''config.json'' = None"
  shows "\<exists>s'. clientHandler h r (Suc n) (b, s) = (Closed, b, s') \<and> tx s' = tx s"
proof -
  have "is_code 100" by (simp add: is_code_def)
  with getAll_frame [OF assms(1,2) this, of "h_heap h"] obtain s1 where
    s1: "getAllTheSocket (h_heap h) s = Inr (framed 100 d, s1)" "tx s1 = tx s" by auto
  have "req_id (request_info (framed 100 d)) = 100" by (simp add: request_info_def framed_def)
  then have "client_round h r (b, s) = (Inl JsonError, b, s1)"
    by (simp add: client_round_def s1(1) relevant_ids handleRequest_process scan_no_config [OF assms(3)]
        send_reply_def)
  with s1(2) show ?thesis by (simp add: catchable_def)
qed

end
