(* ===== verification/Server_App.thy ===== *)
theory Server_App
  imports Backend_Main
begin

text \<open>
  The server (\<open>Server/*.cpp\<close>): its requests and responses, its database of blacklisted
  addresses and hashes, its request handlers, and the loop that serves the backend.
  \<open>Server/Helper.cpp\<close> is the same text as the socket functions of \<open>Backend/Helper.cpp\<close>, so
  the model of those is used.
\<close>

subsection \<open>Requests and responses\<close>

record IPScanRequest =
  ipq_IPAddress :: string

record HashScanRequest =
  hq_hashes :: "string list"

record SaveIpRequest =
  siq_IPAddress :: string
  siq_DateAdded :: string
  siq_Source :: string

record SaveHashRequest =
  shq_FileName :: string
  shq_FilePath :: string
  shq_FileHash_SHA256 :: string
  shq_DateAdded :: string
  shq_SourceDetection :: string

definition deserializeIPScanRequest :: "'j json_lib \<Rightarrow> byte list \<Rightarrow> stop + IPScanRequest" where
  "deserializeIPScanRequest J buffer =
     res_bind (or_throw JsonError (jparse J buffer)) (\<lambda>jsn.
     res_bind (or_throw JsonError (jstring J jsn ''ip'')) (\<lambda>ip.
     Inr \<lparr>ipq_IPAddress = ip\<rparr>))"

definition deserializeHashScanRequest :: "'j json_lib \<Rightarrow> byte list \<Rightarrow> stop + HashScanRequest" where
  "deserializeHashScanRequest J buffer =
     res_bind (or_throw JsonError (jparse J buffer)) (\<lambda>jsn.
     res_bind (or_throw JsonError (jstrings J jsn ''hashes'')) (\<lambda>hs.
     Inr \<lparr>hq_hashes = hs\<rparr>))"

definition deserializeSaveIpRequest :: "'j json_lib \<Rightarrow> byte list \<Rightarrow> stop + SaveIpRequest" where
  "deserializeSaveIpRequest J buffer =
     res_bind (or_throw JsonError (jparse J buffer)) (\<lambda>jsn.
     res_bind (or_throw JsonError (jstring J jsn ''ip'')) (\<lambda>ip.
     res_bind (or_throw JsonError (jstring J jsn ''DateAdded'')) (\<lambda>date.
     res_bind (or_throw JsonError (jstring J jsn ''source'')) (\<lambda>src.
     Inr \<lparr>siq_IPAddress = ip, siq_DateAdded = date, siq_Source = src\<rparr>))))"

definition deserializeSaveHashRequest :: "'j json_lib \<Rightarrow> byte list \<Rightarrow> stop + SaveHashRequest" where
  "deserializeSaveHashRequest J buffer =
     res_bind (or_throw JsonError (jparse J buffer)) (\<lambda>jsn.
     res_bind (or_throw JsonError (jstring J jsn ''DateAdded'')) (\<lambda>date.
     res_bind (or_throw JsonError (jstring J jsn ''hash'')) (\<lambda>hash.
     res_bind (or_throw JsonError (jstring J jsn ''fileName'')) (\<lambda>name.
     res_bind (or_throw JsonError (jstring J jsn ''filepath'')) (\<lambda>path.
     res_bind (or_throw JsonError (jstring J jsn ''source'')) (\<lambda>src.
     Inr \<lparr>shq_FileName = name, shq_FilePath = path, shq_FileHash_SHA256 = hash,
       shq_DateAdded = date, shq_SourceDetection = src\<rparr>))))))"

record IpScanResponse =
  ipr_status :: u32
  ipr_res :: c_int

record HashScanResponse =
  hr_status :: u32
  hr_res :: "c_int list"

record SaveIpResponse =
  sir_status :: u32
  sir_isWorked :: c_int

record SaveHashResponse =
  shr_status :: u32
  shr_isWorked :: c_int

text \<open>The server's \<open>serializeResponse\<close> takes its buffer from \<open>malloc\<close> without looking at the
  result, where the backend uses \<open>new\<close>, and copies as many bytes as the length field says.\<close>

definition server_serializeResponse ::
  "'j json_lib \<Rightarrow> (string \<times> jfield) list \<Rightarrow> c_int \<Rightarrow> stop + message" where
  "server_serializeResponse J j code =
     res_bind (or_throw JsonError (jdump J j)) (\<lambda>dump.
     let len = of_nat (length dump) :: c_int;
         size = sint (len + of_nat (LEN_SIZE + CODE_SIZE))
     in if size < 0 \<or> sint len < 0 then Inl Undefined
        else Inr \<lparr>msg_code = code, msg_length = len, msg_data = dump,
          msg_msg = le_bytes CODE_SIZE code @ le_bytes LEN_SIZE len @ take (nat (sint len)) dump\<rparr>)"

definition serialize_IpScanResponse :: "'j json_lib \<Rightarrow> IpScanResponse \<Rightarrow> stop + message" where
  "serialize_IpScanResponse J r = server_serializeResponse J
     [(''status'', JUnsigned (ipr_status r)), (''res'', JInt (ipr_res r))] (ipr_status r)"

definition serialize_HashScanResponse :: "'j json_lib \<Rightarrow> HashScanResponse \<Rightarrow> stop + message" where
  "serialize_HashScanResponse J r = server_serializeResponse J
     [(''status'', JUnsigned (hr_status r)), (''res'', JInts (hr_res r))] (hr_status r)"

definition serialize_SaveIpResponse :: "'j json_lib \<Rightarrow> SaveIpResponse \<Rightarrow> stop + message" where
  "serialize_SaveIpResponse J r = server_serializeResponse J
     [(''status'', JUnsigned (sir_status r)), (''isWorked'', JInt (sir_isWorked r))] (sir_status r)"

definition serialize_SaveHashResponse :: "'j json_lib \<Rightarrow> SaveHashResponse \<Rightarrow> stop + message" where
  "serialize_SaveHashResponse J r = server_serializeResponse J
     [(''status'', JUnsigned (shr_status r)), (''isWorked'', JInt (shr_isWorked r))] (shr_status r)"

definition server_serialize_ErrorResponse :: "'j json_lib \<Rightarrow> ErrorResponse \<Rightarrow> stop + message" where
  "server_serialize_ErrorResponse J r = server_serializeResponse J
     [(''message'', JString (err_message r))] ERROR_CODE"

lemmas server_serializers = serialize_IpScanResponse_def serialize_HashScanResponse_def
  serialize_SaveIpResponse_def serialize_SaveHashResponse_def server_serialize_ErrorResponse_def

lemma server_serializeResponse_fits:
  "jdump J j = Some d \<Longrightarrow> fits (length d) \<Longrightarrow>
     server_serializeResponse J j code = Inr (framed code d)"
  by (simp add: server_serializeResponse_def Let_def sint_len nat_add_distrib framed_def frame_def)

subsection \<open>The database\<close>

text \<open>SQLite as the server uses it: \<open>sqlite3_exec\<close> with a callback, and one prepared statement
  with bound texts.  The second component of \<open>srv_step\<close> is the database after the step.\<close>

record ('db, 'j) server_host =
  srv_json :: "'j json_lib"
  srv_exec :: "string \<Rightarrow> 'db \<Rightarrow> c_int \<times> string option list list \<times> 'db"
  srv_open :: "string \<Rightarrow> c_int"
  srv_prepare :: "string \<Rightarrow> 'db \<Rightarrow> c_int"
  srv_step :: "string \<Rightarrow> string list \<Rightarrow> 'db \<Rightarrow> c_int \<times> 'db"
  srv_junk :: c_int
  srv_heap :: "nat \<Rightarrow> nat \<Rightarrow> byte"

definition SQLITE_DONE :: c_int where "SQLITE_DONE = 101"

definition SERVER_DB_NAME :: string where "SERVER_DB_NAME = ''ServerData.db''"
definition IPS_TABLE :: string where "IPS_TABLE = ''BlackListIPs''"
definition HASHES_TABLE :: string where "HASHES_TABLE = ''BlackListHashes''"

definition create_ips_query :: string where
  "create_ips_query = ''CREATE TABLE IF NOT EXISTS '' @ IPS_TABLE @
     '' (ID INTEGER PRIMARY KEY AUTOINCREMENT NOT NULL, IPAddress TEXT NOT NULL, DateAdded TEXT NOT NULL, Source TEXT DEFAULT '' @
     [CHR 0x27] @ ''Blocklist.de'' @ [CHR 0x27] @ '' NOT NULL);''"

definition create_hashes_query :: string where
  "create_hashes_query = ''CREATE TABLE IF NOT EXISTS '' @ HASHES_TABLE @
     '' (ID INTEGER PRIMARY KEY AUTOINCREMENT NOT NULL, Name TEXT, Path TEXT, SHA256 TEXT NOT NULL, DateAdded TEXT NOT NULL, Source TEXT DEFAULT '' @
     [CHR 0x27] @ ''bazaar.abuse.ch'' @ [CHR 0x27] @ '' NOT NULL);''"

definition count_ip_query :: "string \<Rightarrow> string" where
  "count_ip_query ip =
     ''SELECT COUNT(*) FROM '' @ IPS_TABLE @ '' WHERE IPAddress = '' @ [CHR 0x27] @ ip @ [CHR 0x27] @ ''; ''"

definition count_hash_query :: "string \<Rightarrow> string" where
  "count_hash_query hash =
     ''SELECT COUNT(*) FROM '' @ HASHES_TABLE @ '' WHERE SHA256 = '' @ [CHR 0x27] @ hash @ [CHR 0x27] @ ''; ''"

definition insert_ip_query :: "string \<Rightarrow> string \<Rightarrow> string \<Rightarrow> string" where
  "insert_ip_query ip date src =
     ''INSERT INTO '' @ IPS_TABLE @ ''(IPAddress, DateAdded, Source) VALUES('' @
     [CHR 0x27] @ ip @ [CHR 0x27] @ '', '' @ [CHR 0x27] @ date @ [CHR 0x27] @ '', '' @
     [CHR 0x27] @ src @ [CHR 0x27] @ '');''"

definition insert_hash_query :: string where
  "insert_hash_query = ''INSERT INTO '' @ HASHES_TABLE @
     ''(Name, Path, SHA256, DateAdded, Source) VALUES(?, ?, ?, ?, ?);''"

definition server_open_database :: "('db, 'j) server_host \<Rightarrow> 'db \<Rightarrow> 'db option" where
  "server_open_database h d =
     (if srv_open h SERVER_DB_NAME \<noteq> SQLITE_OK then None
      else case srv_exec h create_ips_query d of (_, _, d) \<Rightarrow>
           case srv_exec h create_hashes_query d of (_, _, d) \<Rightarrow> Some d)"

text \<open>The callback of the counting queries, on the rows it is called with; \<open>atoi\<close> of a null
  pointer is undefined.\<close>

fun count_rows :: "string option list list \<Rightarrow> c_int \<Rightarrow> stop + c_int" where
  "count_rows [] ans = Inr ans"
| "count_rows ([] # rows) ans = count_rows rows ans"
| "count_rows ((None # _) # rows) ans = Inl Undefined"
| "count_rows ((Some v # _) # rows) ans = count_rows rows (atoi v)"

definition IPisMalicious :: "('db, 'j) server_host \<Rightarrow> string \<Rightarrow> ('db, bool) prog" where
  "IPisMalicious h ip d =
     (case srv_exec h (c_str (count_ip_query ip)) d of (_, rows, d) \<Rightarrow>
        (res_bind (count_rows rows (srv_junk h)) (\<lambda>ans. Inr (1 \<le> sint ans)), d))"

definition HASHisMalicious :: "('db, 'j) server_host \<Rightarrow> string \<Rightarrow> ('db, bool) prog" where
  "HASHisMalicious h hash d =
     (case srv_exec h (c_str (count_hash_query hash)) d of (_, rows, d) \<Rightarrow>
        (res_bind (count_rows rows (srv_junk h)) (\<lambda>ans. Inr (1 \<le> sint ans)), d))"

definition addIP :: "('db, 'j) server_host \<Rightarrow> string \<Rightarrow> string \<Rightarrow> string \<Rightarrow> 'db \<Rightarrow> bool \<times> 'db" where
  "addIP h ip date src d =
     (case srv_exec h (c_str (insert_ip_query ip date src)) d of (rc, _, d) \<Rightarrow> (rc = SQLITE_OK, d))"

definition addHASH ::
  "('db, 'j) server_host \<Rightarrow> string \<Rightarrow> string \<Rightarrow> string \<Rightarrow> string \<Rightarrow> string \<Rightarrow> 'db \<Rightarrow> bool \<times> 'db" where
  "addHASH h name path sha date src d =
     (if srv_prepare h insert_hash_query d = SQLITE_OK
      then (case srv_step h insert_hash_query
               [c_str name, c_str path, c_str sha, c_str date, c_str src] d of
              (rc, d) \<Rightarrow> (rc = SQLITE_DONE, d))
      else (False, d))"

subsection \<open>The handlers\<close>

definition server_isRequestRelevant :: "RequestInfo \<Rightarrow> bool" where
  "server_isRequestRelevant reqInfo \<longleftrightarrow> req_id reqInfo \<in>
     {IP_SCAN_REQUEST, HASH_SCAN_REQUEST, SAVING_IP_REQUEST, SAVING_HASH_REQUEST}"

definition IPScan :: "('db, 'j) server_host \<Rightarrow> RequestInfo \<Rightarrow> ('db, message) prog" where
  "IPScan h reqInfo =
     bnd (lift (deserializeIPScanRequest (srv_json h) (req_buffer reqInfo))) (\<lambda>q.
     bnd (IPisMalicious h (ipq_IPAddress q)) (\<lambda>bad.
     lift (serialize_IpScanResponse (srv_json h)
       \<lparr>ipr_status = IP_SCAN_RESPONSE, ipr_res = (if bad then 1 else 0)\<rparr>)))"

fun hash_loop :: "('db, 'j) server_host \<Rightarrow> string list \<Rightarrow> c_int list \<Rightarrow> ('db, c_int list) prog" where
  "hash_loop h [] res = ret res"
| "hash_loop h (hash # hashes) res =
     bnd (HASHisMalicious h hash) (\<lambda>bad. hash_loop h hashes (res @ [if bad then 1 else 0]))"

definition server_hashScan :: "('db, 'j) server_host \<Rightarrow> RequestInfo \<Rightarrow> ('db, message) prog" where
  "server_hashScan h reqInfo =
     bnd (lift (deserializeHashScanRequest (srv_json h) (req_buffer reqInfo))) (\<lambda>q.
     bnd (hash_loop h (hq_hashes q) []) (\<lambda>res.
     lift (serialize_HashScanResponse (srv_json h)
       \<lparr>hr_status = HASH_SCAN_RESPONSE, hr_res = res\<rparr>)))"

definition saveIp :: "('db, 'j) server_host \<Rightarrow> RequestInfo \<Rightarrow> ('db, message) prog" where
  "saveIp h reqInfo =
     bnd (lift (deserializeSaveIpRequest (srv_json h) (req_buffer reqInfo))) (\<lambda>q d.
     case addIP h (siq_IPAddress q) (siq_DateAdded q) (siq_Source q) d of (worked, d) \<Rightarrow>
       lift (serialize_SaveIpResponse (srv_json h)
         \<lparr>sir_status = SAVING_IP_RESPONSE, sir_isWorked = (if worked then 1 else 0)\<rparr>) d)"

definition saveHash :: "('db, 'j) server_host \<Rightarrow> RequestInfo \<Rightarrow> ('db, message) prog" where
  "saveHash h reqInfo =
     bnd (lift (deserializeSaveHashRequest (srv_json h) (req_buffer reqInfo))) (\<lambda>q d.
     case addHASH h (shq_FileName q) (shq_FilePath q) (shq_FileHash_SHA256 q) (shq_DateAdded q)
       (shq_SourceDetection q) d of (worked, d) \<Rightarrow>
       lift (serialize_SaveHashResponse (srv_json h)
         \<lparr>shr_status = SAVING_HASH_RESPONSE, shr_isWorked = (if worked then 1 else 0)\<rparr>) d)"

definition server_handleRequest ::
  "('db, 'j) server_host \<Rightarrow> RequestInfo \<Rightarrow> ('db, message) prog" where
  "server_handleRequest h reqInfo =
     (if req_id reqInfo = IP_SCAN_REQUEST then IPScan h reqInfo
      else if req_id reqInfo = HASH_SCAN_REQUEST then server_hashScan h reqInfo
      else if req_id reqInfo = SAVING_IP_REQUEST then saveIp h reqInfo
      else if req_id reqInfo = SAVING_HASH_REQUEST then saveHash h reqInfo
      else lift (Inl Undefined))"

definition server_round ::
  "('db, 'j) server_host \<Rightarrow> 'db \<times> sock \<Rightarrow> (stop + unit) \<times> 'db \<times> sock" where
  "server_round h st =
     (case st of (d, s) \<Rightarrow>
        (case getAllTheSocket (srv_heap h) s of
           Inl e \<Rightarrow> (Inl e, d, s)
         | Inr (packet, s) \<Rightarrow>
             let info = request_info packet;
                 (res, d) = (if \<not> server_isRequestRelevant info
                   then (server_serialize_ErrorResponse (srv_json h)
                           \<lparr>err_message = ''Request is not relevant.''\<rparr>, d)
                   else server_handleRequest h info d)
             in (case res_bind res (\<lambda>m. sendData m s) of
                   Inl e \<Rightarrow> (Inl e, d, s)
                 | Inr s \<Rightarrow> (Inr (), d, s))))"

fun backendHandler ::
  "('db, 'j) server_host \<Rightarrow> nat \<Rightarrow> 'db \<times> sock \<Rightarrow> serving \<times> 'db \<times> sock" where
  "backendHandler h 0 st = (Serving, st)"
| "backendHandler h (Suc n) st =
     (case server_round h st of
        (Inl e, st) \<Rightarrow> (if catchable e then Closed else Dead e, st)
      | (Inr _, st) \<Rightarrow> backendHandler h n st)"

subsection \<open>One response for one request\<close>

definition sends :: "c_int \<Rightarrow> message \<Rightarrow> bool" where
  "sends code m \<longleftrightarrow> (\<forall>s s'. sendData m s = Inr s' \<longrightarrow>
     (\<exists>d. fits (length d) \<and> s' = s\<lparr>tx := tx s @ frame code d\<rparr>))"

lemma send_Inr: "send bs s = Inr s' \<Longrightarrow> s' = s\<lparr>tx := tx s @ bs\<rparr>"
  by (simp add: send_def split: peer.splits)

text \<open>The server's serializer truncates a text that is longer than its length field can say.\<close>

lemma server_serializeResponse_sends:
  assumes "server_serializeResponse J j code = Inr m"
  shows "sends code m"
proof -
  obtain d where m: "m = \<lparr>msg_code = code, msg_length = of_nat (length d), msg_data = d,
      msg_msg = le_bytes CODE_SIZE code @ le_bytes LEN_SIZE (of_nat (length d) :: c_int) @
        take (nat (sint (of_nat (length d) :: c_int))) d\<rparr>"
    and pos: "0 \<le> sint (of_nat (length d) :: c_int)" "0 \<le> sint (of_nat (length d) + 5 :: c_int)"
    using assms by (auto simp: server_serializeResponse_def res_bind_Inr_iff Let_def not_le split: if_splits)
  from pos(1) obtain n where n: "(of_nat (length d) :: c_int) = of_nat n" "n < 2 ^ 31"
    "sint (of_nat (length d) :: c_int) = int n" by (rule sint_nonneg_of_nat)
  from pos(2) obtain k where k: "(of_nat (length d) + 5 :: c_int) = of_nat k" "k < 2 ^ 31"
    by (rule sint_nonneg_of_nat)
  have "(of_nat (n + 5) :: c_int) = of_nat k" using k(1) n(1) by simp
  then have "n + 5 = k" using n(2) k(2) of_nat32_unsigned_inj [of "n + 5" k] by simp
  then have f: "fits n" using k(2) by (simp add: fits_def)
  have "take_bit 32 (length d) = n"
    using n(1,2) by (simp add: word_of_nat_eq_iff take_bit_nat_eq_self)
  then have le: "n \<le> length d" by (metis take_bit_nat_less_eq_self)
  have "m = \<lparr>msg_code = code, msg_length = of_nat n, msg_data = d,
      msg_msg = frame code (take n d)\<rparr>"
    using le n(3) [unfolded n(1)] by (simp add: m n(1) frame_def min_absorb2)
  then have "sendData m s = send (frame code (take n d)) s" for s
    using f le by (simp add: sendData_def sint_len nat_add_distrib)
  moreover have "fits (length (take n d))" using f le by (simp add: min_absorb2)
  ultimately show ?thesis unfolding sends_def by (metis send_Inr)
qed

interpretation server: message_handlers sends "server_serializeResponse J" for J
  by unfold_locales (rule server_serializeResponse_sends)

lemma server_answers_requests:
  "server.answering (IPScan h info) 212" "server.answering (server_hashScan h info) 213"
  "server.answering (saveIp h info) 214" "server.answering (saveHash h info) 215"
  unfolding IPScan_def server_hashScan_def saveIp_def saveHash_def
  by (rule server.answering_intros | simp add: server_serializers response_codes)+

lemma server_handleRequest_answers:
  "req_id info \<in> {112, 113, 114, 115} \<Longrightarrow>
     server.answering (server_handleRequest h info) (response_code (req_id info))"
  using server_answers_requests
  by (auto simp: server_handleRequest_def request_codes response_code_def)

text \<open>The server takes exactly the bytes of one request and, unless it closes the connection,
  answers with exactly one message: an error message, without touching the database, for a
  code that is not one of its four, and else one whose code is that of the request plus 100.\<close>

theorem server_one_response:
  assumes "rx s = push (frame code dt @ rest) segs" "fits (length dt)" "is_code code"
    and "server_round h (d, s) = (Inr (), d', s')"
  shows "rx s' = push rest segs \<and> (\<exists>out. tx s' = tx s @
      frame (if ucast code \<in> {112, 113, 114, 115 :: byte} then code + 100 else 1) out) \<and>
    (ucast code \<notin> {112, 113, 114, 115 :: byte} \<longrightarrow> d' = d)"
proof -
  let ?info = "request_info (framed code dt)"
  have id: "req_id ?info = ucast code" by (simp add: request_info_def framed_def)
  have c: "response_code (ucast code) = code + 100"
    using assms(3) by (simp add: response_code_def is_code_ucast)
  have rel: "server_isRequestRelevant ?info \<longleftrightarrow> ucast code \<in> {112, 113, 114, 115 :: byte}"
    by (auto simp: server_isRequestRelevant_def request_codes id)
  obtain s1 where s1: "getAllTheSocket (srv_heap h) s = Inr (framed code dt, s1)"
    "rx s1 = push rest segs" "tx s1 = tx s"
    using getAll_frame [OF assms(1-3), of "srv_heap h"] by auto
  note round = assms(4) [unfolded server_round_def prod.case s1(1) sum.case Let_def rel]
  show ?thesis
  proof (cases "ucast code \<in> {112, 113, 114, 115 :: byte}")
    case True
    with round obtain m where m: "server_handleRequest h ?info d = (Inr m, d')"
      "sendData m s1 = Inr s'"
      by (auto simp: res_bind_Inr_iff split: prod.splits sum.splits)
    have "req_id ?info \<in> {112, 113, 114, 115}" using True by (simp add: id)
    from server.answering_good [OF server_handleRequest_answers [OF this] m(1)] have "sends (code + 100) m"
      unfolding id c .
    with m(2) True s1 show ?thesis unfolding sends_def by fastforce
  next
    case False
    with round obtain m where m: "server_serialize_ErrorResponse (srv_json h)
        \<lparr>err_message = ''Request is not relevant.''\<rparr> = Inr m" "sendData m s1 = Inr s'" "d' = d"
      by (auto simp: res_bind_Inr_iff split: prod.splits sum.splits)
    then have "sends 1 m"
      by (simp add: server_serializers response_codes server_serializeResponse_sends)
    with m(2,3) False s1 show ?thesis unfolding sends_def by fastforce
  qed
qed

subsection \<open>The blacklists\<close>

text \<open>A database in which the counting query for a text answers with one row, the count.\<close>

definition counts :: "('db, 'j) server_host \<Rightarrow> (string \<Rightarrow> string) \<Rightarrow> 'db \<Rightarrow> string \<Rightarrow> nat \<Rightarrow> bool" where
  "counts h query d x n \<longleftrightarrow>
     n < 2 ^ 31 \<and> srv_exec h (c_str (query x)) d = (SQLITE_OK, [[Some (int_text (int n))]], d)"

lemma atoi_count: "n < 2 ^ 31 \<Longrightarrow> sint (atoi (int_text (int n))) = int n"
proof -
  assume n: "n < 2 ^ 31"
  have "atoi (int_text (int n)) = of_nat n"
    using strtol_int_text [of "[]" "int n"] n by (simp add: atoi_def)
  with n show ?thesis by simp
qed

lemma IPisMalicious_counts:
  "counts h count_ip_query d ip n \<Longrightarrow> IPisMalicious h ip d = (Inr (1 \<le> n), d)"
  by (simp add: IPisMalicious_def counts_def atoi_count)

lemma HASHisMalicious_counts:
  "counts h count_hash_query d hash n \<Longrightarrow> HASHisMalicious h hash d = (Inr (1 \<le> n), d)"
  by (simp add: HASHisMalicious_def counts_def atoi_count)

text \<open>A question about an address is answered with 1 exactly when the database counts at least
  one entry for it; when the query fails, so that no row reaches the callback, the answer is
  taken from a variable that was never initialised.\<close>

theorem ip_scan_answer:
  assumes "jparse (srv_json h) (req_buffer info) = Some j" "jstring (srv_json h) j ''ip'' = Some ip"
    and "req_id info = IP_SCAN_REQUEST"
  shows "(counts h count_ip_query d ip n \<longrightarrow>
      server_handleRequest h info d = (server_serializeResponse (srv_json h)
        [(''status'', JUnsigned 212), (''res'', JInt (if 1 \<le> n then 1 else 0))] 212, d)) \<and>
    (srv_exec h (c_str (count_ip_query ip)) d = (rc, [], d) \<longrightarrow>
      server_handleRequest h info d = (server_serializeResponse (srv_json h)
        [(''status'', JUnsigned 212), (''res'', JInt (if 1 \<le> sint (srv_junk h) then 1 else 0))] 212, d))"
proof -
  have run: "IPisMalicious h ip d = (Inr bad, d) \<Longrightarrow> server_handleRequest h info d =
      (server_serializeResponse (srv_json h)
        [(''status'', JUnsigned 212), (''res'', JInt (if bad then 1 else 0))] 212, d)" for bad
    by (simp add: server_handleRequest_def assms IPScan_def deserializeIPScanRequest_def
        serialize_IpScanResponse_def response_codes)
  show ?thesis
    by (intro conjI impI run) (simp_all only: IPisMalicious_counts, simp_all add: IPisMalicious_def)
qed

lemma hash_loop_counts:
  "\<forall>x \<in> set hashes. counts h count_hash_query d x (cnt x) \<Longrightarrow>
     hash_loop h hashes res d = (Inr (res @ map (\<lambda>x. if 1 \<le> cnt x then 1 else 0) hashes), d)"
proof (induction hashes arbitrary: res)
  case Nil
  then show ?case by simp
next
  case (Cons x hashes)
  have "HASHisMalicious h x d = (Inr (1 \<le> cnt x), d)"
    by (rule HASHisMalicious_counts) (use Cons.prems in simp)
  moreover from Cons.prems Cons.IH have
    "hash_loop h hashes res' d = (Inr (res' @ map (\<lambda>x. if 1 \<le> cnt x then 1 else 0) hashes), d)" for res'
    by simp
  ultimately show ?case by simp
qed

text \<open>A question about a list of hashes is answered with one number for each hash, in their
  order: 1 for those the database has.\<close>

theorem hash_scan_answer:
  assumes "jparse (srv_json h) (req_buffer info) = Some j" "jstrings (srv_json h) j ''hashes'' = Some hashes"
    and "req_id info = HASH_SCAN_REQUEST" "\<forall>x \<in> set hashes. counts h count_hash_query d x (cnt x)"
  shows "server_handleRequest h info d = (server_serializeResponse (srv_json h)
    [(''status'', JUnsigned 213), (''res'', JInts (map (\<lambda>x. if 1 \<le> cnt x then 1 else 0) hashes))] 213, d)"
proof -
  have "server_handleRequest h info = server_hashScan h info"
    by (simp add: server_handleRequest_def assms(3) request_codes)
  then show ?thesis
    using hash_loop_counts [OF assms(4), of "[]"]
    by (simp add: server_hashScan_def deserializeHashScanRequest_def assms(1,2)
        serialize_HashScanResponse_def response_codes)
qed

subsection \<open>Through the backend to the server\<close>

text \<open>The server behind a relay: what one round of it sends back for the bytes the backend sent.\<close>

definition server_socket :: "byte list list \<Rightarrow> sock" where
  "server_socket arrivals = \<lparr>sock_fd = 4, rx = arrivals, rx_error = False, tx = [],
     tx_peer = PeerOpen, allocs = 0\<rparr>"

definition relay_to :: "('db, 'j) server_host \<Rightarrow> 'db \<Rightarrow> relay" where
  "relay_to h d =
     \<lparr>server_accepts = True, server_conn = server_socket [],
      server_answers = (\<lambda>bs. push (case server_round h (d, server_socket (push bs [])) of
         (_, _, s) \<Rightarrow> tx s) [])\<rparr>"


text \<open>When the server cannot be reached the backend reads the client's request, sends nothing to
  the client and goes on: the client waits for a response that will not come.\<close>

theorem unreachable_server_silent:
  assumes "rx s = push (frame code dt @ rest) segs" "fits (length dt)" "is_code code"
    and "ucast code \<in> {112, 113, 114, 115 :: byte}" "\<not> server_accepts r"
  shows "\<exists>s'. client_round h r (b, s) = (Inr (), b, s') \<and> tx s' = tx s \<and> rx s' = push rest segs"
proof -
  have id: "req_id (request_info (framed code dt)) = ucast code"
    by (simp add: request_info_def framed_def)
  have rel: "isRequestRelevant (request_info (framed code dt))"
    using assms(4) by (auto simp: relevant_ids id)
  have i: "\<not> (100 \<le> (ucast code :: byte) \<and> (ucast code :: byte) \<le> 107)"
    "\<not> (108 \<le> (ucast code :: byte) \<and> (ucast code :: byte) \<le> 111)"
    using assms(4) by auto
  obtain s1 where "getAllTheSocket (h_heap h) s = Inr (framed code dt, s1)" "rx s1 = push rest segs"
    "tx s1 = tx s"
    using getAll_frame [OF assms(1-3), of "h_heap h"] by auto
  with rel assms(5) show ?thesis
    by (simp add: client_round_def id handleServerRequest_def Let_def i)
qed

end
