(* ===== verification/Driver_Machine.thy ===== *)
theory Driver_Machine
  imports Driver_Module
begin

text \<open>
  The loaded module as a state machine.  Its steps are the driver's own entry points
  (\<open>execve\<close> calls of any process, \<open>ioctl\<close> calls of any client) and what the rest of the
  system may do to the memory the driver watches: overwrite an entry of the system call
  table or a gate of the descriptor table.  The theory proves what holds in every state
  the module can reach and interprets the queue interface on the driver's operations.
\<close>

subsection \<open>Recording an \<open>execve\<close> call\<close>

text \<open>What \<open>kmalloc\<close> promises (memory not in use), and what the driver silently relies on
  (its first use as a list element finds a null \<open>next\<close> field).\<close>

definition fresh_block :: "u64 \<Rightarrow> syscall_hook \<Rightarrow> spybot \<Rightarrow> bool" where
  "fresh_block p blk s \<longleftrightarrow> p \<noteq> 0 \<and> hooks s p = None \<and> sh_next blk = 0"

lemma holds_not_allocated: "holds s ps \<Longrightarrow> hooks s p = None \<Longrightarrow> p \<notin> set ps"
  unfolding holds_def using hlist_in_heap by blast

lemma new_execve_holds:
  assumes "holds s ps" "fresh_block p blk s"
  obtains s' where
    "new_execve pid parent_pid p blk s = Some (Inr (execve_scf s, s'))"
    "holds s' (ps @ [p])" "recs s' (ps @ [p]) = recs s ps @ [(hook_id s, pid, parent_pid)]"
    "hook_id s' = next_hook_id (hook_id s)"
    "s' = s\<lparr>hooks := hooks s', hooks_list := hooks_list s', hook_id := hook_id s'\<rparr>"
proof -
  let ?h = "blk\<lparr>sh_pid := pid, sh_parent_pid := parent_pid, sh_hook_id := hook_id s\<rparr>"
  let ?s = "s\<lparr>hooks := (hooks s)(p \<mapsto> ?h)\<rparr>"
  from assms have p: "p \<noteq> 0" "sh_next blk = 0" "p \<notin> set ps"
    using holds_not_allocated [OF assms(1)] by (auto simp: fresh_block_def)
  have h: "holds ?s ps" using assms(1) p(3) by (simp add: holds_def)
  from add_hook_holds [OF h p(1,3), of ?h] p(2) obtain s1 where
    s1: "add_hook HeadCell p ?s = Some (Inr s1)" "holds s1 (ps @ [p])"
      "recs s1 (ps @ [p]) = recs ?s ps @ [rec_of ?h]"
      "s1 = ?s\<lparr>hooks := hooks s1, hooks_list := hooks_list s1\<rparr>"
    by auto
  have f: "hook_id s1 = hook_id s" "execve_scf s1 = execve_scf s" by (subst s1(4), simp)+
  let ?t = "s1\<lparr>hook_id := next_hook_id (hook_id s)\<rparr>"
  have "recs ?s ps = recs s ps" using p(3) by (auto simp: recs_def)
  show thesis
  proof (rule that [of ?t])
    show "new_execve pid parent_pid p blk s = Some (Inr (execve_scf s, ?t))"
      using p(1) s1(1) f by (simp add: new_execve_def Let_def)
    show "holds ?t (ps @ [p])" using s1(2) by (simp add: holds_def)
    show "recs ?t (ps @ [p]) = recs s ps @ [(hook_id s, pid, parent_pid)]"
      using s1(3) \<open>recs ?s ps = recs s ps\<close> by (simp add: recs_def rec_of_def)
    show "?t = s\<lparr>hooks := hooks ?t, hooks_list := hooks_list ?t, hook_id := hook_id ?t\<rparr>"
      by (subst s1(4)) simp
  qed simp
qed

definition id_in_range :: "u32 \<Rightarrow> bool" where
  "id_in_range i \<longleftrightarrow> MIN_HOOK_ID \<le> i \<and> i \<le> MAX_HOOK_ID"

lemma next_hook_id_in_range: "id_in_range i \<Longrightarrow> id_in_range (next_hook_id i)"
  by (auto simp: id_in_range_def next_hook_id_def driver_limits word_le_nat_alt word_less_nat_alt
      unat_word_ariths)

text \<open>An intercepted \<open>execve\<close> call continues at the original system call, is recorded
  with the identities of the process and its parent behind the calls recorded before, and
  the counter that numbers the records steps from 1000 to 9999 and round again.\<close>

theorem new_execve_records:
  assumes "holds s ps" "fresh_block p blk s" "id_in_range (hook_id s)"
  shows "\<exists>s'. new_execve pid parent_pid p blk s = Some (Inr (execve_scf s, s')) \<and>
    holds s' (ps @ [p]) \<and>
    recs s' (ps @ [p]) = recs s ps @ [(hook_id s, pid, parent_pid)] \<and>
    id_in_range (hook_id s') \<and>
    hook_id s' = (if hook_id s = MAX_HOOK_ID then MIN_HOOK_ID else hook_id s + 1)"
proof -
  from assms(1,2) obtain s' where s':
    "new_execve pid parent_pid p blk s = Some (Inr (execve_scf s, s'))"
    "holds s' (ps @ [p])" "recs s' (ps @ [p]) = recs s ps @ [(hook_id s, pid, parent_pid)]"
    "hook_id s' = next_hook_id (hook_id s)"
    by (rule new_execve_holds)
  have "next_hook_id i = (if i = MAX_HOOK_ID then MIN_HOOK_ID else i + 1)" if "id_in_range i" for i
    using that by (auto simp: next_hook_id_def id_in_range_def driver_limits word_le_nat_alt
        word_less_nat_alt unat_word_ariths word_unat_eq_iff)
  with s' assms(3) show ?thesis by (metis next_hook_id_in_range)
qed

subsection \<open>The hook list as a queue\<close>

text \<open>A caller of the device that takes the oldest hook into a buffer of 24 bytes, and reads
  the three fields out of it.\<close>

definition parse_hook :: "byte list \<Rightarrow> hook_rec" where
  "parse_hook bs = (int_at bs 0, int_at bs 1, int_at bs 2)"

definition take_hook :: "uaccess \<Rightarrow> byte list \<Rightarrow> u64 \<Rightarrow> spybot \<Rightarrow> (hook_rec \<times> spybot) option" where
  "take_hook u stk arg s =
     (case get_hook u stk arg s of
        Inl e \<Rightarrow> None
      | Inr (rc, s') \<Rightarrow>
          if rc = 0 then Some (parse_hook (snd (last (user_writes s'))), s') else None)"

type_synonym exec_event = "c_int \<times> c_int \<times> u64 \<times> syscall_hook"

definition exec_ready :: "exec_event \<Rightarrow> spybot \<Rightarrow> bool" where
  "exec_ready a s = (case a of (pid, ppid, p, blk) \<Rightarrow> fresh_block p blk s)"

definition exec_item :: "exec_event \<Rightarrow> spybot \<Rightarrow> hook_rec" where
  "exec_item a s = (case a of (pid, ppid, p, blk) \<Rightarrow> (hook_id s, pid, ppid))"

definition exec_enq :: "exec_event \<Rightarrow> spybot \<Rightarrow> spybot option" where
  "exec_enq a s =
     (case a of (pid, ppid, p, blk) \<Rightarrow>
        (case new_execve pid ppid p blk s of
           Some (Inr (target, s')) \<Rightarrow> Some s'
         | _ \<Rightarrow> None))"

definition queue_of :: "spybot \<Rightarrow> hook_rec list \<Rightarrow> bool" where
  "queue_of s xs \<longleftrightarrow> (\<exists>ps. holds s ps \<and> recs s ps = xs)"

text \<open>A buffer that accepts 24 bytes everywhere.\<close>

definition open_uaccess :: uaccess where
  "open_uaccess = \<lparr>from_user = (\<lambda>_ _. None), to_user_ok = (\<lambda>_ _. True), task_exists = (\<lambda>_. False)\<rparr>"

lemma open_uaccess_ok [simp]: "to_user_ok open_uaccess a n"
  by (simp add: open_uaccess_def)

definition reader_stack :: "byte list" where
  "reader_stack = replicate 12 0"

lemma parse_hook_bytes: "parse_hook (hook_data_bytes n stk) = rec_of n"
  by (simp add: parse_hook_def int_at_def hook_data_bytes_def rec_of_def)

lemma take_hook_holds:
  assumes "holds s (p # ps)"
  obtains s' where "take_hook open_uaccess reader_stack arg s = Some (rec_of (the (hooks s p)), s')"
    "holds s' ps" "recs s' ps = recs s ps"
proof -
  from assms obtain n s1 where n: "hooks s p = Some n" "holds s1 ps" "recs s1 ps = recs s ps"
    "get_hook open_uaccess reader_stack arg s =
       Inr (copy_to_user open_uaccess arg (hook_data_bytes n reader_stack) s1)"
    by (rule get_hook_holds [where u = open_uaccess and stk = reader_stack and arg = arg])
  show thesis
  proof (rule that)
    show "take_hook open_uaccess reader_stack arg s = Some (rec_of (the (hooks s p)),
        s1\<lparr>user_writes := user_writes s1 @ [(arg, hook_data_bytes n reader_stack)]\<rparr>)"
      by (simp add: take_hook_def n(1,4) copy_to_user_def parse_hook_bytes)
  qed (use n in \<open>simp_all add: holds_def recs_def\<close>)
qed

interpretation hook_fifo: fifo queue_of exec_ready exec_item exec_enq
  "take_hook open_uaccess reader_stack 0"
proof
  fix s xs a
  assume "queue_of s xs" "exec_ready a s"
  then obtain ps pid ppid p blk where "holds s ps" "recs s ps = xs" "a = (pid, ppid, p, blk)"
    "fresh_block p blk s"
    by (cases a) (auto simp: queue_of_def exec_ready_def)
  from this(1,4) obtain s' where
    "new_execve pid ppid p blk s = Some (Inr (execve_scf s, s'))"
    "holds s' (ps @ [p])" "recs s' (ps @ [p]) = recs s ps @ [(hook_id s, pid, ppid)]"
    by (rule new_execve_holds)
  with \<open>recs s ps = xs\<close> \<open>a = _\<close>
  show "\<exists>s'. exec_enq a s = Some s' \<and> queue_of s' (xs @ [exec_item a s])"
    by (intro exI [of _ s']) (simp add: exec_enq_def exec_item_def queue_of_def, blast)
next
  fix s x xs
  assume "queue_of s (x # xs)"
  then obtain p ps where "holds s (p # ps)" "rec_of (the (hooks s p)) = x" "recs s ps = xs"
    by (auto simp: queue_of_def recs_def)
  then show "\<exists>s'. take_hook open_uaccess reader_stack 0 s = Some (x, s') \<and> queue_of s' xs"
    using take_hook_holds [of s p ps 0] by (metis queue_of_def)
next
  fix s
  assume "queue_of s []"
  then have "holds s []" by (auto simp: queue_of_def recs_def)
  then show "take_hook open_uaccess reader_stack 0 s = None"
    by (simp add: take_hook_def get_hook_def pop_hook_empty rd_hook_def)
qed


subsection \<open>Steps\<close>

inductive drv_step :: "kenv \<Rightarrow> spybot \<Rightarrow> spybot \<Rightarrow> bool" for k where
  step_exec: "fresh_block p blk s \<Longrightarrow> new_execve pid ppid p blk s = Some (Inr (target, s')) \<Longrightarrow>
    drv_step k s s'"
| step_ioctl: "length stk = 12 \<Longrightarrow> spybot_ioctl k u stk cmd arg s = Inr (rc, s') \<Longrightarrow>
    drv_step k s s'"
| step_sct_tamper: "i < NR_syscalls k \<Longrightarrow>
    drv_step k s (s\<lparr>kmem := (kmem s)(sct_addr s i \<mapsto> v)\<rparr>)"
| step_idt_tamper: "idt_mem s (gate_addr s i) \<noteq> None \<Longrightarrow>
    drv_step k s (s\<lparr>idt_mem := (idt_mem s)(gate_addr s i \<mapsto> g)\<rparr>)"

inductive drv_reachable :: "kenv \<Rightarrow> boot \<Rightarrow> spybot \<Rightarrow> spybot \<Rightarrow> bool" for k b s0 where
  loaded: "init_spybot k b s0 = Inr (0, s) \<Longrightarrow> drv_reachable k b s0 s"
| stepped: "drv_reachable k b s0 s \<Longrightarrow> drv_step k s s' \<Longrightarrow> drv_reachable k b s0 s'"

definition drv_inv :: "kenv \<Rightarrow> u64 list \<Rightarrow> spybot \<Rightarrow> bool" where
  "drv_inv k t s \<longleftrightarrow>
     sct_ok k s \<and> idt_ok s \<and> temp_sct s = t \<and> length t = NR_syscalls k \<and>
     length (temp_idt s) = MAX_IDT_SIZE \<and> id_in_range (hook_id s) \<and>
     (\<exists>ps. holds s ps \<and> list_all (\<lambda>r. id_in_range (fst r)) (recs s ps))"

text \<open>States that differ only in what the driver tells its clients.\<close>

definition same_core :: "spybot \<Rightarrow> spybot \<Rightarrow> bool" where
  "same_core s s' \<longleftrightarrow>
     (\<exists>r g u. s' = s\<lparr>drv_result := r, signals := g, user_writes := u\<rparr>)"

lemma same_core_inv: "same_core s s' \<Longrightarrow> drv_inv k t s' \<longleftrightarrow> drv_inv k t s"
proof -
  assume "same_core s s'"
  then obtain r g u where s': "s' = s\<lparr>drv_result := r, signals := g, user_writes := u\<rparr>"
    by (auto simp: same_core_def)
  have "sct_addr s' = sct_addr s" "gate_addr s' = gate_addr s"
    by (simp_all add: s' sct_addr_def gate_addr_def fun_eq_iff)
  then show ?thesis
    by (simp add: drv_inv_def sct_ok_def idt_ok_def holds_def recs_def) (simp add: s')
qed

lemma same_core_upd [intro, simp]:
  "same_core s s"
  "same_core s (s\<lparr>drv_result := r\<rparr>)"
  "same_core s (s\<lparr>user_writes := u\<rparr>)"
  "same_core s (s\<lparr>drv_result := r, signals := g\<rparr>)"
proof -
  show "same_core s s"
    unfolding same_core_def by (intro exI [of _ "drv_result s"] exI [of _ "signals s"]
      exI [of _ "user_writes s"]) simp
  show "same_core s (s\<lparr>drv_result := r\<rparr>)"
    unfolding same_core_def by (intro exI [of _ r] exI [of _ "signals s"]
      exI [of _ "user_writes s"]) simp
  show "same_core s (s\<lparr>user_writes := u\<rparr>)"
    unfolding same_core_def by (intro exI [of _ "drv_result s"] exI [of _ "signals s"]
      exI [of _ u]) simp
  show "same_core s (s\<lparr>drv_result := r, signals := g\<rparr>)"
    unfolding same_core_def by (intro exI [of _ r] exI [of _ g]
      exI [of _ "user_writes s"]) simp
qed

lemma copy_to_user_core: "same_core s (snd (copy_to_user u arg bs s))"
  by (simp add: copy_to_user_def)

subsection \<open>The invariant\<close>

lemma drv_inv_get_hook:
  assumes "drv_inv k t s" "get_hook u stk arg s = Inr (rc, s')"
  shows "drv_inv k t s'"
proof -
  from assms(1) obtain ps where ps: "holds s ps" "list_all (\<lambda>r. id_in_range (fst r)) (recs s ps)"
    by (auto simp: drv_inv_def)
  show ?thesis
  proof (cases ps)
    case Nil
    with ps assms(2) show ?thesis by (simp add: get_hook_def pop_hook_empty rd_hook_def)
  next
    case (Cons p qs)
    with ps(1) obtain n s1 where n: "hooks s p = Some n" "p \<noteq> 0"
      "pop_hook HeadCell s = Inr (p, s1)" "s1 = s\<lparr>hooks_list := sh_next n\<rparr>" "holds s1 qs"
      "p \<notin> set qs"
      by (auto elim: pop_hook_holds)
    let ?s2 = "kfree p s1"
    have s': "s' = snd (copy_to_user u arg (hook_data_bytes n stk) ?s2)"
      using assms(2) n(1-4) by (simp add: get_hook_def rd_hook_def)
    have "recs ?s2 qs = recs s qs" using n(2,4,6) by (auto simp: recs_def kfree_def)
    moreover have "list_all (\<lambda>r. id_in_range (fst r)) (recs s qs)"
      using ps(2) Cons by (simp add: recs_def)
    ultimately have "list_all (\<lambda>r. id_in_range (fst r)) (recs ?s2 qs)" by (simp only:)
    moreover have "holds ?s2 qs" using n(5,6) by simp
    moreover have "sct_ok k ?s2" "idt_ok ?s2" "temp_sct ?s2 = temp_sct s"
      "temp_idt ?s2 = temp_idt s" "hook_id ?s2 = hook_id s"
      using assms(1) n(4) by (simp_all add: drv_inv_def kfree_def sct_ok_def idt_ok_def gate_addr_def)
    ultimately have "drv_inv k t ?s2" using assms(1) by (auto simp: drv_inv_def)
    then show ?thesis using same_core_inv [OF copy_to_user_core] s' by simp
  qed
qed

lemma drv_inv_fix_sct:
  assumes "drv_inv k t s" "fix_sct k i s = Inr (b, s')"
  shows "drv_inv k t s'"
proof (cases "0 \<le> sint i \<and> sint i < int (NR_syscalls k)")
  case True
  then have lt: "nat (sint i) < NR_syscalls k" by linarith
  have i: "i = of_nat (nat (sint i))" using True by (simp add: of_nat_nat)
  from assms(1) have inv: "sct_ok k s" "length (temp_sct s) = NR_syscalls k"
    by (auto simp: drv_inv_def)
  from inv lt obtain s1 where "fix_sct k (of_nat (nat (sint i))) s = Inr (True, s1)"
    "sct_store k (nat (sint i)) (temp_sct s ! nat (sint i)) s = Inr s1"
    by (rule fix_sct_in_range)
  with i assms(2) have st: "sct_store k (nat (sint i)) (temp_sct s ! nat (sint i)) s = Inr s'"
    by simp
  from inv(1) lt obtain p v where "sct_store k (nat (sint i)) (temp_sct s ! nat (sint i)) s =
      Inr (s\<lparr>kmem := (kmem s)(sct_addr s (nat (sint i)) \<mapsto> temp_sct s ! nat (sint i)),
            ptes := (ptes s)(p \<mapsto> v AND NOT PAGE_RW)\<rparr>)" (is "_ = Inr ?t")
    by (rule sct_store_eq)
  with st have s': "s' = ?t" by simp
  have "sct_ok k s'" by (rule sct_store_ok [OF inv(1) lt st])
  with assms(1) show ?thesis
    by (simp add: drv_inv_def s' idt_ok_def gate_addr_def holds_def recs_def)
next
  case False
  then consider "sint i < 0 \<or> int (NR_syscalls k) < sint i" | "sint i = int (NR_syscalls k)"
    by linarith
  then show ?thesis
    using assms fix_sct_rejected [of i k s] fix_sct_past_end [of k s i]
    by cases (auto simp: drv_inv_def)
qed

lemma set_result_core: "same_core s (set_result (b, s))"
  by (simp add: set_result_def)

lemma send_signal_core: "same_core s (set_result (sendSignalToTask u pid sig s))"
proof -
  have "same_core s (s\<lparr>signals := g, drv_result := r\<rparr>)" for g r
    unfolding same_core_def
    by (intro exI [of _ r] exI [of _ g] exI [of _ "user_writes s"]) simp
  then show ?thesis by (simp add: set_result_def sendSignalToTask_def)
qed

lemma drv_inv_option:
  assumes "drv_inv k t s" "spybot_option k u stk arg option param s = Inr (rc, s')"
  shows "drv_inv k t s'"
proof -
  have signal: "drv_inv k t (set_result (sendSignalToTask u param sig s))" for sig
    using assms(1) same_core_inv [OF send_signal_core] by simp
  have scan: "drv_inv k t (s\<lparr>drv_result := r\<rparr>)" for r
    using assms(1) same_core_inv [OF same_core_upd(2)] by simp
  consider "s' = s" | sig where "s' = set_result (sendSignalToTask u param sig s)"
    | r where "s' = s\<lparr>drv_result := r\<rparr>"
    | r where "fix_sct k param s = Inr r" "s' = set_result r"
    | "get_hook u stk arg s = Inr (rc, s')"
    using assms(2) by (auto simp: spybot_option_def res_bind_Inr_iff split: if_splits)
  then show ?thesis
  proof cases
    case (4 r)
    have "drv_inv k t (snd r)"
      by (rule drv_inv_fix_sct [OF assms(1), of param "fst r"]) (simp add: 4(1))
    with 4 same_core_inv [OF set_result_core [of "snd r" "fst r"], of k t] show ?thesis by simp
  next
    case 5
    with assms(1) show ?thesis by (rule drv_inv_get_hook)
  qed (use assms(1) signal scan in auto)
qed

lemma drv_inv_ioctl:
  assumes "drv_inv k t s" "spybot_ioctl k u stk cmd arg s = Inr (rc, s')"
  shows "drv_inv k t s'"
proof -
  have recv: "drv_inv k t (snd (copy_to_user u arg bs s))" for bs
    using assms(1) same_core_inv [OF copy_to_user_core] by simp
  show ?thesis
  proof (cases "cmd = SPYBOT_IOC_SEND k")
    case True
    with assms show ?thesis
      by (auto simp: spybot_ioctl_def split: option.splits intro: drv_inv_option)
  next
    case False
    with assms(2) consider "s' = s" | "s' = snd (copy_to_user u arg (le_bytes 4 (drv_result s)) s)"
      by (auto simp: spybot_ioctl_def split: if_splits)
    then show ?thesis using assms(1) recv by cases auto
  qed
qed

lemma drv_inv_step: "drv_step k s s' \<Longrightarrow> drv_inv k t s \<Longrightarrow> drv_inv k t s'"
proof (induction rule: drv_step.induct)
  case (step_exec p blk s pid ppid target s')
  then obtain ps where ps: "holds s ps" "list_all (\<lambda>r. id_in_range (fst r)) (recs s ps)"
    by (auto simp: drv_inv_def)
  from ps(1) step_exec(1) obtain s1 where s1:
    "new_execve pid ppid p blk s = Some (Inr (execve_scf s, s1))"
    "holds s1 (ps @ [p])" "recs s1 (ps @ [p]) = recs s ps @ [(hook_id s, pid, ppid)]"
    "hook_id s1 = next_hook_id (hook_id s)"
    "s1 = s\<lparr>hooks := hooks s1, hooks_list := hooks_list s1, hook_id := hook_id s1\<rparr>"
    by (rule new_execve_holds)
  from s1(1) step_exec(2) have "s' = s1" by simp
  have "sct_ok k s1" "idt_ok s1" "temp_sct s1 = temp_sct s" "temp_idt s1 = temp_idt s"
    using step_exec(3)
    by (subst s1(5), simp add: drv_inv_def sct_ok_def idt_ok_def gate_addr_def)+
  moreover have "list_all (\<lambda>r. id_in_range (fst r)) (recs s1 (ps @ [p]))"
    using ps(2) step_exec(3) by (simp add: s1(3) drv_inv_def)
  moreover have "id_in_range (hook_id s1)"
    using step_exec(3) by (simp add: s1(4) drv_inv_def next_hook_id_in_range)
  ultimately show ?case
    using step_exec(3) s1(2) \<open>s' = s1\<close> by (auto simp: drv_inv_def)
next
  case (step_ioctl stk u cmd arg s rc s')
  then show ?case by (blast intro: drv_inv_ioctl)
next
  case (step_sct_tamper i s v)
  then show ?case
    by (auto simp: drv_inv_def sct_ok_def idt_ok_def gate_addr_def holds_def recs_def)
next
  case (step_idt_tamper s i g)
  then show ?case
    by (auto simp: drv_inv_def sct_ok_def idt_ok_def gate_addr_def sct_addr_def holds_def recs_def)
qed

text \<open>The module's static data when it is loaded: an empty list and the first number.\<close>

definition fresh_module :: "spybot \<Rightarrow> bool" where
  "fresh_module s \<longleftrightarrow> hooks_list s = 0 \<and> hook_id s = MIN_HOOK_ID"

lemma drv_reachable_inv:
  assumes "drv_reachable k b s0 s" "boot_ok k b f s0" "fresh_module s0"
  shows "\<exists>t. drv_inv k t s \<and>
    map Some t = (sct_list k (boot_state b f s0))[NR_execve k := Some (new_execve_addr k)]"
  using assms(1)
proof (induction rule: drv_reachable.induct)
  case (loaded s)
  from init_spybot_tables [OF assms(2)] obtain s1 where
    s1: "init_spybot k b s0 = Inr (register_device b s1)" "tables_loaded k b f s0 s1" by blast
  with loaded have "tables_loaded k b f s0 s" by (metis Inr_inject snd_conv tables_loaded_register)
  moreover from this assms(3) have "holds s []" "id_in_range (hook_id s)"
    by (simp_all add: tables_loaded_def holds_def fresh_module_def id_in_range_def driver_limits)
  ultimately show ?case
    by (intro exI [of _ "temp_sct s"] conjI)
       (auto simp: drv_inv_def tables_loaded_def recs_def intro!: exI [of _ "[]"])
next
  case (stepped s s')
  then show ?case by (blast intro: drv_inv_step)
qed


text \<open>C1: in every reachable state, the rounds of scan and repair bring back the system call
  table as the module loaded it, however many entries were overwritten.\<close>

theorem reachable_tampering_is_undone:
  assumes "drv_reachable k b s0 s" "boot_ok k b f s0" "fresh_module s0"
  shows "\<exists>s'. scan_fix_rounds k (NR_syscalls k) s = Inr s' \<and>
    sct_list k s' = (sct_list k (boot_state b f s0))[NR_execve k := Some (new_execve_addr k)]"
proof -
  from drv_reachable_inv [OF assms] obtain t where "drv_inv k t s"
    "map Some t = (sct_list k (boot_state b f s0))[NR_execve k := Some (new_execve_addr k)]" by blast
  with scan_fix_rounds_restore [of k s 0 "NR_syscalls k"] show ?thesis by (auto simp: drv_inv_def)
qed


end
