(* ===== verification/Driver_Example.thy ===== *)
theory Driver_Example
  imports Driver_Machine
begin

text \<open>
  A small concrete kernel (three system calls, one page, 32 equal gates) on which the
  theorems about the driver are applied: every theorem with a hypothesis has here an
  instance in which its hypotheses hold.
\<close>

definition ex_env :: kenv where
  "ex_env = \<lparr>NR_syscalls = 3, NR_execve = 1, CONFIG_X86_64 = True,
     IOWR = (\<lambda>c n sz. of_nat sz), lookup_address = (\<lambda>_. Some 1), new_execve_addr = 48879\<rparr>"

definition ex_gate :: gate_struct where
  "ex_gate = \<lparr>offset_low = 1, segment = 16, gate_bits = 0, offset_middle = 2, offset_high = 3\<rparr>"

definition ex_state :: spybot where
  "ex_state = \<lparr>kmem = [4096 \<mapsto> 11, 4104 \<mapsto> 22, 4112 \<mapsto> 33], ptes = [1 \<mapsto> 1],
     idt_mem = (\<lambda>_. Some ex_gate), hooks = Map.empty, sys_call_table = 4096,
     temp_sct = [11, 22, 33], idtr = 32768, temp_idt = replicate 32 ex_gate,
     execve_scf = 7, hook_id = 1000, hooks_list = 0, drv_result = 0, major_number = 0,
     chrdev_registered = False, cdev_added = False, signals = [], user_writes = []\<rparr>"

definition ex_hooked :: spybot where
  "ex_hooked = ex_state\<lparr>kmem := [4096 \<mapsto> 11, 4104 \<mapsto> 99, 4112 \<mapsto> 33]\<rparr>"

definition ex_node1 :: syscall_hook where
  "ex_node1 = \<lparr>sh_hook_id = 1000, sh_pid = 7, sh_parent_pid = 1, sh_next = 64\<rparr>"

definition ex_node2 :: syscall_hook where
  "ex_node2 = \<lparr>sh_hook_id = 1001, sh_pid = 8, sh_parent_pid = 1, sh_next = 0\<rparr>"

definition ex_queue :: spybot where
  "ex_queue = ex_state\<lparr>hooks := [32 \<mapsto> ex_node1, 64 \<mapsto> ex_node2, 96 \<mapsto> ex_node2],
     hooks_list := 32, hook_id := 1002\<rparr>"

definition ex_boot :: boot where
  "ex_boot = \<lparr>idt_address = 32768, kallsyms_lookup_addr = 5,
     function_at = (\<lambda>a. if a = 5 then Some (\<lambda>_. 4096) else None),
     register_chrdev_ret = 240, cdev_add_ret = 0\<rparr>"

definition ex_request :: "c_int \<Rightarrow> c_int \<Rightarrow> uaccess" where
  "ex_request option param =
     \<lparr>from_user = (\<lambda>_ _. Some (two_ints option param)), to_user_ok = (\<lambda>_ _. True),
      task_exists = (\<lambda>p. p = 7)\<rparr>"

lemmas ex_defs = ex_env_def ex_state_def ex_hooked_def ex_gate_def

lemma ex_fields [simp]:
  "NR_syscalls ex_env = 3" "NR_execve ex_env = 1" "new_execve_addr ex_env = 48879"
  "temp_sct ex_state = [11, 22, 33]" "temp_sct ex_hooked = [11, 22, 33]"
  "temp_idt ex_state = replicate 32 ex_gate" "idt_mem ex_state = (\<lambda>_. Some ex_gate)"
  "signals ex_state = []" "user_writes ex_state = []" "user_writes ex_hooked = []"
  "user_writes ex_queue = []" "hook_id ex_state = 1000" "execve_scf ex_state = 7"
  "execve_scf ex_queue = 7" "sys_call_table ex_state = 4096" "hooks_list ex_state = 0"
  by (simp_all add: ex_env_def ex_state_def ex_hooked_def ex_queue_def)

lemma ex_gate_equal [simp]: "\<not> gate_differs ex_env ex_gate ex_gate"
  by (simp add: gate_differs_def)

lemma less_3_cases: "(\<forall>i < (3::nat). P i) \<longleftrightarrow> P 0 \<and> P 1 \<and> P 2"
  by (auto simp: numeral_3_eq_3 numeral_2_eq_2 less_Suc_eq)

lemma ex_sct_addr [simp]:
  "sct_addr ex_state i = 4096 + 8 * of_nat i"
  "sct_addr ex_hooked i = 4096 + 8 * of_nat i"
  "sct_addr ex_queue i = 4096 + 8 * of_nat i"
  by (simp_all add: sct_addr_def ex_defs ex_queue_def)

lemma ex_sct_ok: "sct_ok ex_env ex_state" "sct_ok ex_env ex_hooked" "sct_ok ex_env ex_queue"
  by (simp_all add: sct_ok_def less_3_cases ex_env_def)
     (simp_all add: ex_defs ex_queue_def PAGE_RW_def)

lemma ex_lengths:
  "length (temp_sct ex_state) = NR_syscalls ex_env"
  "length (temp_sct ex_hooked) = NR_syscalls ex_env"
  "length (temp_idt ex_state) = MAX_IDT_SIZE"
  by (simp_all add: MAX_IDT_SIZE_def)

lemma ex_idt_ok: "idt_ok ex_state"
  by (simp add: idt_ok_def ex_defs)

lemma ex_sct_list: "sct_list ex_env ex_state = [Some 11, Some 22, Some 33]"
  "sct_list ex_env ex_hooked = [Some 11, Some 99, Some 33]"
  by (simp_all add: sct_list_def ex_env_def upt_rec) (simp_all add: ex_defs)

lemma ex_holds: "holds ex_queue [32, 64]" "holds ex_state []"
  by (simp_all add: holds_def ex_queue_def ex_state_def ex_node1_def ex_node2_def)

lemma ex_boot_state: "boot_state ex_boot (\<lambda>_. 4096) ex_state = ex_state"
  by (simp add: boot_state_def ex_boot_def ex_state_def)

lemma ex_boot_ok: "boot_ok ex_env ex_boot (\<lambda>_. 4096) ex_state"
  by (simp add: boot_ok_def ex_boot_state ex_sct_ok ex_idt_ok ex_lengths)
     (simp add: ex_boot_def MAX_IDT_SIZE_def)

lemma ex_ioc: "SPYBOT_IOC_SEND ex_env \<noteq> SPYBOT_IOC_RECV ex_env"
  by (simp add: SPYBOT_IOC_SEND_def SPYBOT_IOC_RECV_def ex_env_def)

lemma ex_request [simp]:
  "from_user (ex_request o1 p) a n = Some (two_ints o1 p)"
  "to_user_ok (ex_request o1 p) a n" "task_exists (ex_request o1 p) q \<longleftrightarrow> q = 7"
  by (simp_all add: ex_request_def)

subsection \<open>The tables\<close>

lemma compare_scts_first_hook_witness:
  "compare_scts ex_env ex_state = Inr (- 1) \<and> compare_scts ex_env ex_hooked = Inr 1"
proof -
  have "compare_scts ex_env ex_state = Inr (- 1)"
    using compare_scts_first_hook [OF ex_sct_ok(1) ex_lengths(1)]
    by (simp add: ex_sct_list)
  moreover have "1 < NR_syscalls ex_env" by (simp add: ex_env_def)
  then have "compare_scts ex_env ex_hooked = Inr (of_nat 1)"
    using compare_scts_first_hook [OF ex_sct_ok(2) ex_lengths(2)]
    by (simp only: ex_sct_list) simp
  ultimately show ?thesis by simp
qed

lemma fix_sct_restores_entry_witness:
  "\<exists>s'. fix_sct ex_env 1 ex_hooked = Inr (True, s') \<and>
    sct_list ex_env s' = [Some 11, Some 22, Some 33] \<and> \<not> page_writable ex_env s' (sys_call_table s')"
proof -
  have "1 < NR_syscalls ex_env" by (simp add: ex_env_def)
  from fix_sct_restores_entry [OF ex_sct_ok(2) ex_lengths(2) this] show ?thesis
    by (auto simp: ex_sct_list)
qed

lemma fix_sct_range_check_witness:
  "fix_sct ex_env (- 4) ex_state = Inr (False, ex_state) \<and>
   fix_sct ex_env 4 ex_state = Inr (False, ex_state) \<and> fix_sct ex_env 3 ex_state = Inl ArrayBounds"
  using fix_sct_range_check [OF ex_sct_ok(1) ex_lengths(1), of "- 4"]
    fix_sct_range_check [OF ex_sct_ok(1) ex_lengths(1), of 4]
    fix_sct_range_check [OF ex_sct_ok(1) ex_lengths(1), of 3]
  by (simp add: ex_env_def)

lemma scan_and_fix_restores_table_witness:
  "\<exists>s'. scan_fix_rounds ex_env 3 ex_hooked = Inr s' \<and>
    sct_list ex_env s' = [Some 11, Some 22, Some 33]"
  using scan_and_fix_restores_table [OF ex_sct_ok(2) ex_lengths(2)]
  by (simp add: ex_defs)

lemma compare_idts_first_hook_witness:
  "compare_idts ex_env ex_state = Inr (- 1)"
  using compare_idts_first_hook [OF ex_idt_ok ex_lengths(3), of ex_env]
  by (simp add: idt_differs_def MAX_IDT_SIZE_def)

lemma compare_idts_ignores_high_gates_witness:
  "compare_idts ex_env (ex_state\<lparr>idt_mem := (idt_mem ex_state)
     (gate_addr ex_state 128 \<mapsto> ex_gate\<lparr>offset_low := 666\<rparr>)\<rparr>) = compare_idts ex_env ex_state"
  by (rule compare_idts_ignores_high_gates) (simp_all add: MAX_IDT_SIZE_def)

subsection \<open>The hook list\<close>

lemma add_hook_appends_witness:
  "\<exists>s'. add_hook HeadCell 96 ex_queue = Some (Inr s') \<and> holds s' [32, 64, 96]"
proof -
  have "hooks ex_queue 96 = Some ex_node2" "sh_next ex_node2 = 0"
    by (simp_all add: ex_queue_def ex_node2_def)
  from add_hook_appends [OF ex_holds(1) _ _ this] show ?thesis by auto
qed

lemma pop_hook_takes_first_witness:
  "\<exists>s'. pop_hook HeadCell ex_queue = Inr (32, s') \<and> holds s' [64]"
  using pop_hook_takes_first [of ex_queue 32 "[64]"] ex_holds(1) by auto

lemma add_hook_uninitialised_next_diverges_witness:
  "\<exists>s1. add_hook HeadCell 32 (ex_state\<lparr>hooks := [32 \<mapsto> ex_node1\<lparr>sh_next := 32\<rparr>]\<rparr>) = Some (Inr s1) \<and>
    add_hook HeadCell 64 s1 = None"
  by (rule add_hook_uninitialised_next_diverges [where m = "ex_node1\<lparr>sh_next := 32\<rparr>"])
     (simp_all add: holds_def)

subsection \<open>The device\<close>

lemma ioctl_rejects_witness:
  "spybot_ioctl ex_env (ex_request 7 0) [] 1 0 ex_state = Inr (- ENOTTY, ex_state) \<and>
   spybot_ioctl ex_env (ex_request 7 0) [] (SPYBOT_IOC_SEND ex_env) 0 ex_state = Inr (- EINVAL, ex_state)"
proof -
  have "(1::u32) \<noteq> SPYBOT_IOC_SEND ex_env" "(1::u32) \<noteq> SPYBOT_IOC_RECV ex_env"
    by (simp_all add: SPYBOT_IOC_SEND_def SPYBOT_IOC_RECV_def ex_env_def)
  then show ?thesis
    using ioctl_rejects [of 1 ex_env "ex_request 7 0" "[]" 0 ex_state 7 0] by simp
qed

lemma ioctl_signal_witness:
  "\<exists>s'. spybot_ioctl ex_env (ex_request SUSPEND 7) [] (SPYBOT_IOC_SEND ex_env) 0 ex_state = Inr (0, s') \<and>
    drv_result s' = 1 \<and> signals s' = [(7, SIGSTOP)]"
proof -
  have "signal_of SUSPEND = Some SIGSTOP" by (simp add: signal_of_def drv_simps)
  from ioctl_signal [OF ex_request(1) this, of ex_env 7 "[]" 0 ex_state]
  show ?thesis by auto
qed

lemma ioctl_send_then_recv_witness:
  "\<exists>s1 s2. spybot_ioctl ex_env (ex_request SCT_SCAN 0) [] (SPYBOT_IOC_SEND ex_env) 0 ex_hooked = Inr (0, s1) \<and>
    spybot_ioctl ex_env (ex_request 0 0) [] (SPYBOT_IOC_RECV ex_env) 8 s1 = Inr (0, s2) \<and>
    (\<exists>v. last (user_writes s2) = (8, le_bytes 4 v) \<and> compare_scts ex_env ex_hooked = Inr v)"
proof -
  have "compare_scts ex_env ex_hooked = Inr (scan_result (first_index (sct_differs ex_hooked) 0 3))"
    using compare_scts_eq [OF ex_sct_ok(2) ex_lengths(2)] by (simp add: ex_env_def)
  then obtain s1 where s1:
    "spybot_ioctl ex_env (ex_request SCT_SCAN 0) [] (SPYBOT_IOC_SEND ex_env) 0 ex_hooked = Inr (0, s1)"
    by (simp add: ioctl_send spybot_option_def drv_simps)
  have "SCT_SCAN \<noteq> GET_HOOK" by (simp add: drv_simps)
  from ioctl_send_then_recv [OF ex_ioc ex_request(1) this s1, of "ex_request 0 0" 8 "[]"] s1
  show ?thesis by force
qed

lemma ioctl_result_is_shared_witness:
  "\<exists>s1 s2 s3. spybot_ioctl ex_env (ex_request KILL 7) [] (SPYBOT_IOC_SEND ex_env) 0 ex_state = Inr (0, s1) \<and>
    spybot_ioctl ex_env (ex_request KILL 9) [] (SPYBOT_IOC_SEND ex_env) 0 s1 = Inr (0, s2) \<and>
    spybot_ioctl ex_env (ex_request 0 0) [] (SPYBOT_IOC_RECV ex_env) 8 s2 = Inr (0, s3) \<and>
    user_writes s3 = [(8, le_bytes 4 (0 :: c_int))]"
proof -
  have "signal_of KILL \<noteq> None" by (simp add: signal_of_def)
  from ioctl_result_is_shared [OF ex_ioc ex_request(1) this ex_request(1) this
      ex_request(2) [of 0 0]]
  show ?thesis by (simp only: ex_fields ex_request) fastforce
qed

lemma get_hook_empty_faults_witness:
  "spybot_ioctl ex_env (ex_request GET_HOOK 0) [] (SPYBOT_IOC_SEND ex_env) 0 ex_state = Inl NullDeref"
  by (rule get_hook_empty_faults [OF ex_holds(2) ex_request(1)])

lemma get_hook_delivers_witness:
  "\<exists>s'. spybot_ioctl ex_env (ex_request GET_HOOK 0) (replicate 12 170) (SPYBOT_IOC_SEND ex_env) 0 ex_queue = Inr (0, s') \<and>
    holds s' [64] \<and>
    user_writes s' = [(0, le_bytes 4 (1000 :: c_int) @ le_bytes 4 (7 :: c_int) @ le_bytes 4 (1 :: c_int) @ replicate 12 170)]"
proof -
  have "rec_of (the (hooks ex_queue 32)) = (1000, 7, 1)" "user_writes ex_queue = []"
    by (simp_all add: ex_queue_def ex_node1_def rec_of_def ex_state_def)
  with get_hook_delivers [OF ex_holds(1) _ ex_request(1), of "replicate 12 170" ex_env 0 0]
  show ?thesis by auto
qed

subsection \<open>The module\<close>

lemma init_hooks_and_scans_clean_witness:
  "\<exists>s'. init_spybot ex_env ex_boot ex_state = Inr (0, s') \<and>
    sct_list ex_env s' = [Some 11, Some 48879, Some 33] \<and> execve_scf s' = 22 \<and>
    compare_scts ex_env s' = Inr (- 1)"
proof -
  have "0 \<le> sint (register_chrdev_ret ex_boot)" "0 \<le> sint (cdev_add_ret ex_boot)"
    by (simp_all add: ex_boot_def)
  from init_hooks_and_scans_clean [OF ex_boot_ok this] show ?thesis
    by (auto simp: ex_boot_state ex_sct_list)
qed

lemma init_failure_leaves_hook_witness:
  "\<exists>rc s'. init_spybot ex_env (ex_boot\<lparr>register_chrdev_ret := - 16\<rparr>) ex_state = Inr (rc, s') \<and>
    sint rc < 0 \<and> sct_list ex_env s' ! 1 = Some 48879"
proof -
  let ?b = "ex_boot\<lparr>register_chrdev_ret := - 16\<rparr>"
  have "boot_ok ex_env ?b (\<lambda>_. 4096) ex_state"
    using ex_boot_ok by (simp add: boot_ok_def boot_state_def)
  moreover have "sint (register_chrdev_ret ?b) < 0" by simp
  ultimately show ?thesis
    using init_failure_leaves_hook [of ex_env ?b "\<lambda>_. 4096" ex_state] by (simp add: ex_env_def)
qed

lemma cleanup_restores_witness:
  "\<exists>s'. cleanup_spybot ex_env ex_queue = Some (Inr s') \<and>
    sct_list ex_env s' = [Some 11, Some 7, Some 33] \<and> holds s' []"
proof -
  have e: "NR_execve ex_env < NR_syscalls ex_env" by (simp add: ex_env_def)
  have "sct_list ex_env ex_queue = [Some 11, Some 22, Some 33]" "execve_scf ex_queue = 7"
    "NR_execve ex_env = 1"
    by (simp_all add: sct_list_def ex_env_def upt_rec) (simp_all add: ex_queue_def ex_state_def)
  with cleanup_restores [OF ex_sct_ok(3) e ex_holds(1)] show ?thesis by auto
qed

lemma ex_loaded: "\<exists>s. init_spybot ex_env ex_boot ex_state = Inr (0, s)"
proof -
  from init_spybot_tables [OF ex_boot_ok] obtain t where
    "init_spybot ex_env ex_boot ex_state = Inr (register_device ex_boot t)" by blast
  moreover have "fst (register_device ex_boot t) = 0"
    by (simp add: register_device_def ex_boot_def Let_def)
  ultimately show ?thesis by (metis prod.collapse)
qed

lemma load_unload_restores_table_witness:
  "\<exists>s1 s2. init_spybot ex_env ex_boot ex_state = Inr (0, s1) \<and>
    cleanup_spybot ex_env s1 = Some (Inr s2) \<and> sct_list ex_env s2 = [Some 11, Some 22, Some 33]"
proof -
  from ex_loaded obtain s1 where s1: "init_spybot ex_env ex_boot ex_state = Inr (0, s1)" by blast
  from load_unload_restores_table [OF ex_boot_ok s1 ex_holds(2)] s1 show ?thesis
    by (auto simp: ex_boot_state ex_sct_list)
qed

subsection \<open>The machine\<close>

lemma ex_fresh: "fresh_block 96 ex_node2 ex_state"
  by (simp add: fresh_block_def ex_state_def ex_node2_def)

lemma ex_fresh_module: "fresh_module ex_state"
  by (simp add: fresh_module_def ex_state_def driver_limits)

lemma new_execve_records_witness:
  "\<exists>s'. new_execve 7 1 96 ex_node2 ex_state = Some (Inr (7, s')) \<and>
    recs s' [96] = [(1000, 7, 1)] \<and> hook_id s' = 1001"
proof -
  have "id_in_range (hook_id ex_state)" "execve_scf ex_state = 7" "hook_id ex_state = 1000"
    by (simp_all add: id_in_range_def ex_state_def driver_limits)
  with new_execve_records [OF ex_holds(2) ex_fresh, of 7 1] show ?thesis
    by (auto simp: recs_def [of ex_state] driver_limits)
qed



lemma reachable_tampering_is_undone_witness:
  "\<exists>s s'. drv_reachable ex_env ex_boot ex_state s \<and> kmem s (sct_addr s 2) = Some 666 \<and>
    scan_fix_rounds ex_env 3 s = Inr s' \<and> sct_list ex_env s' = [Some 11, Some 48879, Some 33]"
proof -
  from init_spybot_tables [OF ex_boot_ok] ex_loaded obtain s where
    s: "init_spybot ex_env ex_boot ex_state = Inr (0, s)" by blast
  let ?t = "s\<lparr>kmem := (kmem s)(sct_addr s 2 \<mapsto> 666)\<rparr>"
  have "2 < NR_syscalls ex_env" by (simp add: ex_env_def)
  with s have t: "drv_reachable ex_env ex_boot ex_state ?t"
    by (blast intro: drv_reachable.intros step_sct_tamper)
  have "kmem ?t (sct_addr ?t 2) = Some 666" by (simp add: sct_addr_def)
  with reachable_tampering_is_undone [OF t ex_boot_ok ex_fresh_module] t show ?thesis
    by (auto simp: ex_boot_state ex_sct_list)
qed


end
