(* ===== verification/App_Example.thy ===== *)
theory App_Example
  imports Server_App Driver_Example
begin

text \<open>
  A small concrete installation on which the theorems about the backend and the server are
  applied: a driver that is loaded, a JSON library that answers every question, a database of
  one query, and scripts that leave fixed logs.
\<close>

definition ex_json :: "unit json_lib" where
  "ex_json = \<lparr>jparse = (\<lambda>_. Some ()), jread = (\<lambda>_. Some ()),
     jint = (\<lambda>_ k. Some (if k = ''pid'' then 7 else if k = ''time'' then 5 else 2)),
     jstring = (\<lambda>_ _. Some ''x''), jstrings = (\<lambda>_ _. Some [''a'', ''b'']),
     jdump = (\<lambda>_. Some [1])\<rparr>"

definition ex_file_json :: "unit json_lib" where
  "ex_file_json = ex_json\<lparr>jint := (\<lambda>_ _. Some 0)\<rparr>"

definition ex_device :: device where
  "ex_device = \<lparr>dev_open = True, dev_kernel = ex_env, dev_task = (\<lambda>p. p = 7),
     dev_stack = replicate 12 0\<rparr>"

definition ex_packet :: packet where
  "ex_packet = \<lparr>pk_name = ''nc'', pk_pid = ''7'', pk_active = ''1'', pk_port = ''80'', pk_ip = ''i''\<rparr>"

definition ex_logs :: "string \<Rightarrow> string option" where
  "ex_logs = [''config.json'' \<mapsto> ''c'', ''malicious.log'' \<mapsto> packet_line ex_packet,
     ''hash-scan.log'' \<mapsto> pair_line (CHR ''@'') (''f'', ''1''),
     ''yara.log'' \<mapsto> pair_line (CHR ''@'') (''f'', dash_join [''r'', ''s''])]"

definition ex_host :: "(nat, unit) host" where
  "ex_host = \<lparr>h_json = ex_json, sqlite3_exec = (\<lambda>_ d. (0, [], Suc d)), sqlite3_open = (\<lambda>_. 0),
     system_run = (\<lambda>_ _. ex_logs), local_time = ''t'', h_device = ex_device,
     junk_int = of_nat, h_heap = (\<lambda>_ _. 0)\<rparr>"

definition ex_backend :: "nat backend" where
  "ex_backend = \<lparr>db = 0, db_connections = 1, files = ex_logs, kernel = ex_state, scan_time = 1,
     packetScanResult = [], spofingScanResult = Map.empty, fullPathsForScan = [],
     quickPathsForScan = []\<rparr>"

definition ex_sock :: "byte list list \<Rightarrow> sock" where
  "ex_sock segs = \<lparr>sock_fd = 4, rx = segs, rx_error = False, tx = [], tx_peer = PeerOpen, allocs = 0\<rparr>"

definition ex_server :: "(nat, unit) server_host" where
  "ex_server = \<lparr>srv_json = ex_json, srv_exec = (\<lambda>q d. (0, [[Some (int_text 1)]], d)), srv_open = (\<lambda>_. 0),
     srv_prepare = (\<lambda>_ _. 0), srv_step = (\<lambda>_ _ d. (101, d)), srv_junk = 3, srv_heap = (\<lambda>_ _. 0)\<rparr>"

definition ex_relay :: relay where
  "ex_relay = \<lparr>server_accepts = False, server_conn = ex_sock [], server_answers = (\<lambda>_. [])\<rparr>"

lemma ex_app_fields [simp]:
  "\<not> server_accepts ex_relay"
  "dev_open ex_device" "dev_kernel ex_device = ex_env" "dev_task ex_device q \<longleftrightarrow> q = 7"
  "h_json ex_host = ex_json" "h_device ex_host = ex_device" "h_heap ex_host n i = 0"
  "system_run ex_host c fs = ex_logs" "junk_int ex_host = of_nat"
  "kernel ex_backend = ex_state" "files ex_backend = ex_logs" "packetScanResult ex_backend = []"
  "spofingScanResult ex_backend = Map.empty" "db_connections ex_backend = 1"
  "rx (ex_sock segs) = segs" "\<not> rx_error (ex_sock segs)" "tx (ex_sock segs) = []"
  "tx_peer (ex_sock segs) = PeerOpen" "allocs (ex_sock segs) = 0"
  "jparse ex_json bs = Some ()" "jread ex_json cs = Some ()" "jstring ex_json v k = Some ''x''"
  "jstrings ex_json v k = Some [''a'', ''b'']" "jdump ex_json js = Some [1]"
  "jint ex_json v ''pid'' = Some 7" "jint ex_json v ''time'' = Some 5" "jint ex_json v ''scanType'' = Some 2"
  by (simp_all add: ex_relay_def ex_device_def ex_host_def ex_backend_def ex_sock_def ex_json_def)

lemma ex_logs [simp]:
  "ex_logs ''config.json'' = Some ''c''" "ex_logs ''malicious.log'' = Some (packet_line ex_packet)"
  "ex_logs ''hash-scan.log'' = Some (pair_line (CHR ''@'') (''f'', ''1''))"
  "ex_logs ''yara.log'' = Some (pair_line (CHR ''@'') (''f'', dash_join [''r'', ''s'']))"
  by (simp_all add: ex_logs_def)

lemma ex_codes: "codes_differ ex_device"
  using ex_ioc by (simp add: codes_differ_def)

lemma fits_small: "n < 2 ^ 20 \<Longrightarrow> fits n"
  by (simp add: fits_def)

subsection \<open>Messages\<close>

lemma ex_send: "sendData (framed c [x]) (ex_sock segs) = Inr (ex_sock segs\<lparr>tx := frame c [x]\<rparr>)"
  by (simp add: sendData_framed fits_small send_def)

lemma wire_roundtrip_witness:
  "\<exists>t'. getAllTheSocket (\<lambda>_ _. 0) (ex_sock [frame 100 [65] @ [9]]) = Inr (framed 100 [65], t') \<and>
    rx t' = [[9]] \<and> request_info (framed 100 [65]) = \<lparr>req_id = 100, req_buffer = [65]\<rparr>"
proof -
  have "serialize_message [65] 100 = Inr (framed 100 [65])"
    by (simp add: serialize_message_fits fits_small)
  moreover have "is_code (100 :: c_int)" by (simp add: is_code_def)
  moreover have "rx (ex_sock [frame 100 [65] @ [9]]) =
      push (drop (length (tx (ex_sock []))) (tx (ex_sock []\<lparr>tx := frame 100 [65]\<rparr>)) @ [9]) []"
    by (simp add: push_def)
  ultimately have "\<exists>t'. getAllTheSocket (\<lambda>_ _. 0) (ex_sock [frame 100 [65] @ [9]]) = Inr (framed 100 [65], t') \<and>
      rx t' = push [9] [] \<and> request_info (framed 100 [65]) = \<lparr>req_id = ucast (100 :: c_int), req_buffer = [65]\<rparr>"
    by (rule wire_roundtrip [OF _ _ ex_send])
  then show ?thesis by (simp add: push_def)
qed

lemma short_read_desynchronises_witness:
  "\<exists>m s'. getAllTheSocket (\<lambda>_ _. 7)
      (ex_sock [le_bytes 1 (100 :: c_int) @ le_bytes 4 (2 :: c_int) @ [65], [66]]) = Inr (m, s') \<and>
    msg_data m = [65, 7] \<and>
    (\<forall>m' s''. getAllTheSocket (\<lambda>_ _. 7) s' = Inr (m', s'') \<longrightarrow> ucast (msg_code m') = (66 :: byte))"
proof -
  let ?s = "ex_sock [le_bytes 1 (100 :: c_int) @ le_bytes 4 (2 :: c_int) @ [65], [66]]"
  have "rx ?s = (le_bytes 1 (100 :: c_int) @
      le_bytes 4 (of_nat (length [65 :: byte] + length [66 :: byte]) :: c_int) @ [65]) # ([66] @ []) # []"
    by simp
  from short_read_desynchronises [OF this, where heap = "\<lambda>_ _. 7"] show ?thesis
    by (auto simp: fits_def)
qed

definition ex_messages :: "(c_int \<times> byte list) list" where
  "ex_messages = [(100, [65]), (107, [])]"


subsection \<open>The driver's client\<close>

lemma driver_signal_requests_witness:
  "\<exists>s'. communicateWithDriver ex_device stop_proc 7 ex_state = Inr (1, s') \<and> signals s' = [(7, SIGSTOP)]"
  using driver_signal_requests [of stop_proc SIGSTOP ex_device 7 ex_state] ex_codes
  by (simp add: signal_of_def proc_actions KILL_def SUSPEND_def)

lemma blockPid_kills_witness:
  "\<exists>s'. blockPid ex_device 7 ex_state = Inr (1, s') \<and> signals s' = [(7, SIGKILL)]"
  using blockPid_kills [of ex_device 7 ex_state] ex_codes by simp

lemma sct_scan_report_witness:
  "\<exists>r s'. sctScan ex_device ex_state = Inr (r, s') \<and> r = - 1"
  using sct_scan_report [of ex_device ex_state] ex_codes ex_sct_ok(1) ex_lengths(1)
  by (auto simp: ex_sct_list)

subsection \<open>The periodic scans\<close>

lemma ex_stoi: "stoi ''7'' = Inr 7" "stoi ''b'' = Inl InvalidArgument"
  by (simp_all add: stoi_def strtol_def is_space_def is_digit_def digits_value_def)

lemma ex_packet_ok: "packet_ok ex_packet" "packet_ok (ex_packet\<lparr>pk_name := []\<rparr>)"
  by (simp_all add: packet_ok_def ex_packet_def)

lemma ex_stois: "list_all (\<lambda>p. \<exists>w. stoi (pk_pid p) = Inr w) [ex_packet]"
  by (simp add: ex_packet_def ex_stoi)

lemma packet_scan_accumulates_witness:
  "\<exists>rs k'. packetScan ex_host ex_backend =
      (Inr rs, ex_backend\<lparr>files := net_scan_files ex_host ex_backend, kernel := k'\<rparr>) \<and>
    signals k' = signals (kernel ex_backend) @ packet_kills (h_device ex_host) [ex_packet] \<and>
    length rs = length [ex_packet] \<and>
    (\<forall>i < length [ex_packet]. rs ! i =
       concat (map (packet_entry (h_device ex_host)) (take (Suc i) [ex_packet])))"
proof (rule packet_scan_accumulates)
  show "net_scan_files ex_host ex_backend ''malicious.log'' = Some (concat (map packet_line [ex_packet]))"
    by (simp add: net_scan_files_def)
  show "codes_differ (h_device ex_host)" using ex_codes by simp
  show "list_all packet_ok [ex_packet]" using ex_packet_ok(1) by simp
qed (rule ex_stois)

definition ex_dashed :: packet where
  "ex_dashed = ex_packet\<lparr>pk_name := ''a-b''\<rparr>"

definition ex_dash_host :: "(nat, unit) host" where
  "ex_dash_host = ex_host\<lparr>system_run := (\<lambda>_ _.
     [''malicious.log'' \<mapsto> packet_line ex_packet @ packet_line ex_dashed])\<rparr>"

lemma dashed_name_loses_round_witness:
  "\<exists>k'. periodic_round ex_dash_host ex_backend =
      (Inr (), ex_backend\<lparr>files := net_scan_files ex_dash_host ex_backend, kernel := k'\<rparr>) \<and>
    signals k' = signals (kernel ex_backend) @ packet_kills (h_device ex_dash_host) [ex_packet]"
proof (rule dashed_name_loses_round)
  show "codes_differ (h_device ex_dash_host)" using ex_codes by (simp add: ex_dash_host_def)
  show "list_all packet_ok [ex_packet]" using ex_packet_ok(1) by simp
  show "net_scan_files ex_dash_host ex_backend ''malicious.log'' =
      Some (concat (map packet_line [ex_packet]) @ packet_line ex_dashed)"
    by (simp add: net_scan_files_def ex_dash_host_def)
  show "pk_name ex_dashed = ''a'' @ CHR ''-'' # ''b''" by (simp add: ex_dashed_def)
  show "stoi ''b'' = Inl InvalidArgument" by (rule ex_stoi)
  show "packet_ok (ex_dashed\<lparr>pk_name := ''a''\<rparr>)" "CHR 0x0A \<notin> set (pk_port ex_dashed)"
    by (simp_all add: packet_ok_def ex_dashed_def ex_packet_def)
qed (rule ex_stois | simp)+

lemma hash_scan_reports_witness:
  "\<exists>results b'. hashScan ex_host [''p''] True False ex_backend = (results, b') \<and>
    results = [''f'' \<mapsto> True] \<and> db_connections b' = 2"
proof -
  have "hash_files ex_host True False ''p'' ex_backend ''hash-scan.log'' =
      Some (concat (map (pair_line (CHR ''@'')) [(''f'', ''1'')]))"
    by (simp add: hash_files_def)
  from hash_scan_reports [OF this] show ?thesis
    by (simp add: log_pair_ok_def record_names_def)
qed

lemma yara_scan_reports_witness:
  "\<exists>b'. yaraScan ex_host [''p''] True False ex_backend = ([''f'' \<mapsto> [''r'', ''s'']], b')"
proof -
  have "yara_files ex_host True False ''p'' ex_backend ''yara.log'' =
      Some (concat (map (\<lambda>r. pair_line (CHR ''@'') (fst r, dash_join (snd r))) [(''f'', [''r'', ''s''])]))"
    by (simp add: yara_files_def)
  from yara_scan_reports [OF this] show ?thesis
    by (simp add: rules_ok_def)
qed

lemma scan_time_roundtrip_witness:
  "\<exists>m b'. periodic_handleRequest ex_host \<lparr>req_id = 108, req_buffer = []\<rparr> ex_backend = (m, b') \<and> scan_time b' = 5"
  using scan_time_roundtrip [of ex_host "\<lparr>req_id = 108, req_buffer = []\<rparr>" "()" 5 "\<lparr>req_id = 110, req_buffer = []\<rparr>" ex_backend]
  by (auto simp: request_codes)

subsection \<open>Requests to the backend\<close>

lemma process_requests_witness:
  "\<exists>k m. handleRequest ex_host \<lparr>req_id = 107, req_buffer = []\<rparr> ex_backend = (m, ex_backend\<lparr>kernel := k\<rparr>) \<and>
    signals k = [(7, SIGKILL)]"
proof -
  have "request_signal (req_id \<lparr>req_id = 107, req_buffer = []\<rparr>) = Some SIGKILL"
    by (simp add: request_signal_def request_codes)
  from process_requests [OF this, of ex_host "()" 7 ex_backend] show ?thesis
    using ex_codes by auto
qed

lemma ex_config: "parseConfigData ex_host ex_backend = (Inr (), ex_backend\<lparr>quickPathsForScan := [''a'', ''b''],
    fullPathsForScan := [''a'', ''b'', ''a'', ''b'']\<rparr>)"
  by (simp add: parseConfigData_def or_throw_def)

definition ex_file_host :: "(nat, unit) host" where
  "ex_file_host = ex_host\<lparr>h_json := ex_file_json\<rparr>"

lemma ex_file_config: "parseConfigData ex_file_host ex_backend = (Inr (), ex_backend\<lparr>quickPathsForScan := [''a'', ''b''],
    fullPathsForScan := [''a'', ''b'', ''a'', ''b'']\<rparr>)"
  by (simp add: parseConfigData_def or_throw_def ex_file_host_def ex_file_json_def)

lemma file_scan_reports_junk_witness:
  "\<exists>r b'. scan ex_file_host \<lparr>req_id = 100, req_buffer = []\<rparr> ex_backend = (serialize_ScanResponse ex_file_json r, b') \<and>
    sctResults r = 1 \<and> idtResults r = 2"
proof -
  have "deserializeScanRequest (h_json ex_file_host) (req_buffer \<lparr>req_id = 100, req_buffer = []\<rparr>) =
      Inr \<lparr>scanType = 0, scan_path = ''x''\<rparr>"
    by (simp add: deserializeScanRequest_def or_throw_def ex_file_host_def ex_file_json_def)
  from file_scan_reports_junk [OF ex_file_config this] show ?thesis
    by (auto simp: scan_types ex_file_host_def)
qed

lemma ex_ready: "driver_ready ex_device ex_state"
  using ex_codes ex_sct_ok(1) ex_idt_ok ex_lengths(1,3) by (simp add: driver_ready_def)

lemma quick_scan_reports_witness:
  "\<exists>r b'. scan ex_host \<lparr>req_id = 100, req_buffer = []\<rparr> ex_backend = (serialize_ScanResponse ex_json r, b') \<and>
    sctResults r = - 1 \<and> idtResults r = - 1"
proof -
  have "deserializeScanRequest (h_json ex_host) (req_buffer \<lparr>req_id = 100, req_buffer = []\<rparr>) =
      Inr \<lparr>scanType = 2, scan_path = ''x''\<rparr>"
    by (simp add: deserializeScanRequest_def or_throw_def)
  from quick_scan_reports [OF ex_config this] show ?thesis
    using ex_ready by (auto simp: scan_types ex_sct_list idt_differs_def MAX_IDT_SIZE_def)
qed


subsection \<open>Connections\<close>

lemma ex_unknown:
  "\<exists>s'. client_round ex_host ex_relay (ex_backend, ex_sock [frame 99 []]) = (Inr (), ex_backend, s')"
proof -
  obtain s1 where "getAllTheSocket (h_heap ex_host) (ex_sock [frame 99 []]) = Inr (framed 99 [], s1)"
    "tx_peer s1 = PeerOpen"
    using getAll_frame [of "ex_sock [frame 99 []]" 99 "[]" "[]" "[]" "h_heap ex_host"]
    by (auto simp: push_def frame_def is_code_def fits_def)
  moreover have "request_info (framed 99 []) = \<lparr>req_id = 99, req_buffer = []\<rparr>"
    by (simp add: request_info_def framed_def)
  ultimately show ?thesis
    by (simp add: client_round_def relevant_ids serialize_ErrorResponse_def response_codes
        serializeResponse_fits fits_small send_reply_def sendData_framed send_def)
qed

lemma one_response_per_request_witness:
  "\<exists>s' d'. client_round ex_host ex_relay (ex_backend, ex_sock [frame 99 []]) = (Inr (), ex_backend, s') \<and>
    rx s' = [] \<and> tx s' = frame 1 d'"
proof -
  obtain s' where round: "client_round ex_host ex_relay (ex_backend, ex_sock [frame 99 []]) = (Inr (), ex_backend, s')"
    using ex_unknown by blast
  have "rx (ex_sock [frame 99 []]) = push (frame 99 [] @ []) []" "fits (length ([] :: byte list))"
    "is_code (99 :: c_int)"
    by (simp_all add: push_def frame_def is_code_def fits_def)
  from one_response_per_request [OF this round] show ?thesis
    using round by (auto simp: push_def)
qed

lemma closed_client_served_forever_witness:
  "\<exists>s'. clientHandler ex_host ex_relay 3 (ex_backend, ex_sock []) = (Serving, ex_backend, s') \<and>
    tx s' = tx (ex_sock []) @ concat (replicate 3 (frame 1 [1]))"
  by (rule closed_client_served_forever) (simp_all add: fits_small)

lemma no_config_closes_witness:
  "\<exists>s'. clientHandler ex_host ex_relay (Suc 0) (ex_backend\<lparr>files := Map.empty\<rparr>, ex_sock [frame 100 []]) =
      (Closed, ex_backend\<lparr>files := Map.empty\<rparr>, s') \<and> tx s' = tx (ex_sock [frame 100 []])"
  by (rule no_config_closes [where d = "[]" and rest = "[]" and segs = "[]"]) (simp_all add: push_def frame_def fits_def)

subsection \<open>The server\<close>

lemma ex_server_fields [simp]:
  "srv_json ex_server = ex_json" "srv_exec ex_server q d = (0, [[Some (int_text 1)]], d)"
  "srv_heap ex_server n i = 0"
  by (simp_all add: ex_server_def)

lemma ex_counts: "counts ex_server query d x 1"
  by (simp add: counts_def SQLITE_OK_def)

lemma ex_server_unknown:
  "\<exists>s'. server_round ex_server (d, ex_sock [frame 99 []]) = (Inr (), d, s')"
proof -
  obtain s1 where "getAllTheSocket (srv_heap ex_server) (ex_sock [frame 99 []]) = Inr (framed 99 [], s1)"
    "tx_peer s1 = PeerOpen"
    using getAll_frame [of "ex_sock [frame 99 []]" 99 "[]" "[]" "[]" "srv_heap ex_server"]
    by (auto simp: push_def frame_def is_code_def fits_def)
  moreover have "request_info (framed 99 []) = \<lparr>req_id = 99, req_buffer = []\<rparr>"
    by (simp add: request_info_def framed_def)
  ultimately show ?thesis
    by (simp add: server_round_def server_isRequestRelevant_def request_codes
        server_serialize_ErrorResponse_def server_serializeResponse_fits fits_small response_codes
        sendData_framed send_def)
qed

lemma server_one_response_witness:
  "\<exists>s' d'. server_round ex_server (5, ex_sock [frame 99 []]) = (Inr (), 5, s') \<and>
    rx s' = [] \<and> tx s' = frame 1 d'"
proof -
  obtain s' where round: "server_round ex_server (5, ex_sock [frame 99 []]) = (Inr (), 5, s')"
    using ex_server_unknown by blast
  have "rx (ex_sock [frame 99 []]) = push (frame 99 [] @ []) []" "fits (length ([] :: byte list))"
    "is_code (99 :: c_int)"
    by (simp_all add: push_def frame_def is_code_def fits_def)
  from server_one_response [OF this round] show ?thesis
    using round by (auto simp: push_def)
qed

lemma ip_scan_answer_witness:
  "server_handleRequest ex_server \<lparr>req_id = 112, req_buffer = []\<rparr> 0 =
    (server_serializeResponse ex_json [(''status'', JUnsigned 212), (''res'', JInt 1)] 212, 0)"
  using ip_scan_answer [of ex_server "\<lparr>req_id = 112, req_buffer = []\<rparr>" "()" "''x''" 0 1] ex_counts
  by (simp add: request_codes)

lemma hash_scan_answer_witness:
  "server_handleRequest ex_server \<lparr>req_id = 113, req_buffer = []\<rparr> 0 =
    (server_serializeResponse ex_json [(''status'', JUnsigned 213), (''res'', JInts [1, 1])] 213, 0)"
  using hash_scan_answer [of ex_server "\<lparr>req_id = 113, req_buffer = []\<rparr>" "()" "[''a'', ''b'']" 0 "\<lambda>_. 1"] ex_counts
  by (simp add: request_codes)


lemma unreachable_server_silent_witness:
  "\<exists>s'. client_round ex_host ex_relay (ex_backend, ex_sock [frame 112 []]) = (Inr (), ex_backend, s') \<and>
    tx s' = tx (ex_sock [frame 112 []]) \<and> rx s' = push [] []"
proof (rule unreachable_server_silent)
  show "rx (ex_sock [frame 112 []]) = push (frame 112 [] @ []) []"
    by (simp add: push_def frame_def)
qed (simp_all add: is_code_def fits_def)

end
