(* ===== verification/Backend_Driver.thy ===== *)
theory Backend_Driver
  imports Backend_Main Driver_Machine
begin

text \<open>
  What the backend does to the kernel module.  All its parts reach the module through calls that
  ask for a signal or a scan; whatever relation between states such calls respect, every request
  of a client and every periodic round respects.  Two relations matter: a run of steps of the
  module, which joins the two programs into one machine, and leaving everything alone but the
  signals and the answers.
\<close>

subsection \<open>The interface of the module\<close>

text \<open>\<open>R s s'\<close> holds between the states before and after each call the backend may make: killing,
  stopping and continuing a process, and the scans of the two tables.\<close>

locale driver_relation =
  fixes dev :: device
    and R :: "spybot \<Rightarrow> spybot \<Rightarrow> bool"
  assumes R_refl: "R s s"
    and R_trans: "R s t \<Longrightarrow> R t u \<Longrightarrow> R s u"
    and R_call: "a \<in> {kill_proc, stop_proc, cont_proc, sct_scan, idt_scan} \<Longrightarrow>
      communicateWithDriver dev a pid s = Inr (v, s') \<Longrightarrow> R s s'"
begin

definition keeps :: "('db backend, 'a) prog \<Rightarrow> bool" where
  "keeps p \<longleftrightarrow> (\<forall>b r b'. p b = (r, b') \<longrightarrow> R (kernel b) (kernel b'))"

lemma keepsI: "(\<And>b r b'. p b = (r, b') \<Longrightarrow> R (kernel b) (kernel b')) \<Longrightarrow> keeps p"
  by (simp add: keeps_def)

lemma keepsD: "keeps p \<Longrightarrow> p b = (r, b') \<Longrightarrow> R (kernel b) (kernel b')"
  by (simp add: keeps_def)

lemma keeps_same: "(\<And>b. kernel (snd (p b)) = kernel b) \<Longrightarrow> keeps p"
  unfolding keeps_def by (metis R_refl snd_conv)

lemma keeps_lift: "keeps (lift r)" "keeps (ret a)"
  by (rule keeps_same, simp add: lift_def)+

lemma keeps_bnd:
  assumes "keeps m" "\<And>x. keeps (f x)"
  shows "keeps (bnd m f)"
proof (rule keepsI)
  fix b r b'
  assume run: "bnd m f b = (r, b')"
  obtain x b1 where m: "m b = (x, b1)" by fastforce
  have "R (kernel b) (kernel b1)" using assms(1) m by (rule keepsD)
  moreover have "R (kernel b1) (kernel b')"
  proof (cases x)
    case (Inl e)
    with run m show ?thesis by (simp add: bnd_def R_refl)
  next
    case (Inr a)
    with run m have "f a b1 = (r, b')" by (simp add: bnd_def)
    with assms(2) show ?thesis by (rule keepsD)
  qed
  ultimately show "R (kernel b) (kernel b')" by (rule R_trans)
qed

lemma keeps_call:
  "a \<in> {kill_proc, stop_proc, cont_proc, sct_scan, idt_scan} \<Longrightarrow>
     keeps (call_driver (communicateWithDriver dev a pid))"
  unfolding keeps_def call_driver_def
  by (auto split: sum.splits prod.splits intro: R_refl R_call)

lemma keeps_calls:
  "keeps (call_driver (blockPid dev pid))" "keeps (call_driver (sctScan dev))"
  "keeps (call_driver (idtScan dev))" "keeps (call_driver (communicateWithDriver dev 0 pid))"
  "keeps (call_driver (communicateWithDriver dev 1 pid))" "keeps (call_driver (communicateWithDriver dev 2 pid))"
  unfolding blockPid_eq [abs_def] sctScan_eq [abs_def] idtScan_eq [abs_def]
  by (rule keeps_call, simp add: proc_actions)+

text \<open>Requests.\<close>

lemma keeps_database:
  "keeps (getViruses h)" "keeps (getBlockedPorcesses h)"
  by (rule keeps_same, simp add: getViruses_def getBlockedPorcesses_def exec_sql_def split: prod.split)+

lemma keeps_config: "keeps (parseConfigData h)"
  by (rule keepsI) (use parseConfigData_frame R_refl in metis)

lemma keeps_scan_files: "keeps (scan_files h ps f a r)"
proof (rule keeps_same)
  fix b
  show "kernel (snd (scan_files h ps f a r b)) = kernel b"
    by (rule scan_files_result [of h ps f a r b]) simp
qed

lemma keeps_if: "(P \<Longrightarrow> keeps p) \<Longrightarrow> (\<not> P \<Longrightarrow> keeps q) \<Longrightarrow> keeps (if P then p else q)"
  by simp

lemma keeps_at: "(\<And>x. keeps (p x)) \<Longrightarrow> keeps (\<lambda>b. p (g b) b)"
  by (auto simp: keeps_def)

lemma keeps_after:
  assumes "\<And>x c. keeps (p x c)" "\<And>b. kernel (snd (g b)) = kernel b"
  shows "keeps (\<lambda>b. case g b of (x, b) \<Rightarrow> p x b b)"
proof (rule keepsI)
  fix b r b'
  assume run: "(case g b of (x, b) \<Rightarrow> p x b b) = (r, b')"
  obtain x b1 where g: "g b = (x, b1)" by fastforce
  with run have "p x b1 b1 = (r, b')" by simp
  with assms(1) have "R (kernel b1) (kernel b')" by (rule keepsD)
  then show "R (kernel b) (kernel b')" using assms(2) [of b] g by simp
qed

lemma ports_kernel: "kernel (snd (openPortsScan h b)) = kernel b"
  by (simp add: openPortsScan_def run_command_def Let_def)

lemma keeps_scan_system:
  assumes "h_device h = dev"
  shows "keeps (scan_system h r)"
  unfolding scan_system_def Let_def assms
proof (rule keeps_bnd, rule keeps_calls)
  fix idt
  show "keeps (\<lambda>b. case openPortsScan h b of (ports, b) \<Rightarrow>
     bnd (call_driver (sctScan dev)) (\<lambda>sct b'. ret (r\<lparr>idtResults := idt, openPortsResults := ports,
       packetsResults := packetScanResult b, sctResults := sct, spofingResults := spofingScanResult b'\<rparr>)
       (b'\<lparr>packetScanResult := [], spofingScanResult := Map.empty\<rparr>)) b)"
    by (rule keeps_after, rule keeps_bnd, rule keeps_calls, rule keeps_same) (simp_all add: ports_kernel)
qed

lemma keeps_scan_body:
  assumes "h_device h = dev"
  shows "keeps (\<lambda>b. if t = file_scan then scan_files h path False False r b
    else if t = folder_scan then scan_files h path True False r b
    else if t = quick_scan then bnd (scan_files h (quickPathsForScan b) True False r) (scan_system h) b
    else if t = full_scan then bnd (scan_files h (fullPathsForScan b) True True r) (scan_system h) b
    else ret r b)"
proof -
  have sys: "keeps (bnd (scan_files h ps f a r) (scan_system h))" for ps f a
    by (rule keeps_bnd [OF keeps_scan_files keeps_scan_system [OF assms]])
  show ?thesis
    by (rule keepsI, simp split: if_splits)
       (auto dest: keepsD [OF keeps_scan_files] keepsD [OF sys] intro: R_refl)
qed

lemma keeps_scan:
  assumes "h_device h = dev"
  shows "keeps (scan h info)"
  unfolding scan_def Let_def
  by (rule keeps_bnd [OF keeps_config], rule keeps_bnd [OF keeps_lift(1)],
      rule keeps_bnd [OF keeps_scan_body [OF assms] keeps_lift(1)])

lemma keeps_process:
  assumes "h_device h = dev"
  shows "keeps (freeProcess h info)" "keeps (blockProcess h info)" "keeps (killProcess h info)"
  unfolding freeProcess_def blockProcess_def killProcess_def assms
  by (rule keeps_bnd [OF keeps_lift(1)], rule keeps_bnd, rule keeps_calls, rule keeps_lift(1))+

lemma keeps_tables:
  "keeps (request_updateBlockedTable h info)" "keeps (request_updateVirusTable h info)"
  unfolding request_updateBlockedTable_def request_updateVirusTable_def
  by (rule keeps_bnd [OF keeps_lift(1)], rule keeps_same,
      simp add: updateBlockedTable_def updateViruses_def exec_sql_def lift_def Let_def split: prod.split)+

lemma keeps_lists:
  "keeps (getSuspendedProcessesList h info)" "keeps (getSuspiciousProcessesList h info)"
  unfolding getSuspendedProcessesList_def getSuspiciousProcessesList_def
  by (rule keeps_bnd, rule keeps_database, rule keeps_lift(1))+

lemma keeps_handleRequest:
  assumes "h_device h = dev"
  shows "keeps (handleRequest h info)"
  unfolding handleRequest_def
  by (intro keeps_if keeps_scan keeps_process keeps_tables keeps_lists keeps_lift assms)

lemma keeps_periodic_requests: "keeps (periodic_handleRequest h info)"
proof -
  have "keeps (changeTime h info)"
    unfolding changeTime_def by (rule keeps_bnd [OF keeps_lift(1)], rule keeps_same) (simp add: lift_def)
  moreover have "keeps (getTime h info)" by (rule keeps_same) (simp add: getTime_def lift_def)
  ultimately show ?thesis
    unfolding periodic_handleRequest_def by (intro keeps_if keeps_lift)
qed

text \<open>One message of a client, and one turn of the periodic thread.\<close>

lemma send_reply_backend: "send_reply (r, b) s = (r', b', s') \<Longrightarrow> b' = b"
  by (auto simp: send_reply_def split: sum.splits)

theorem client_round_keeps:
  assumes "h_device h = dev" "client_round h rl (b, s) = (r, b', s')"
  shows "R (kernel b) (kernel b')"
proof -
  have reply: "R (kernel b) (kernel b1)"
    if "keeps p" "send_reply (p b) s1 = (r1, b1, s2)" for p r1 b1 s1 s2
    using that by (cases "p b") (auto dest: send_reply_backend keepsD)
  show ?thesis
    using assms(2) reply [OF keeps_handleRequest [OF assms(1)]] reply [OF keeps_periodic_requests]
      R_refl
    by (auto simp: client_round_def Let_def serialize_ErrorResponse_def dest!: send_reply_backend
        split: sum.splits prod.splits if_splits)
qed

lemma keeps_packet_loop:
  assumes "h_device h = dev"
  shows "keeps (packet_loop h ps out rs)"
proof (induction ps arbitrary: out rs)
  case Nil
  then show ?case unfolding packet_loop.simps by (rule keeps_lift(2))
next
  case (Cons p ps)
  show ?case
    unfolding packet_loop.simps Let_def assms
    by (rule keeps_bnd [OF keeps_lift(1)], rule keeps_bnd [OF keeps_calls(1)], rule Cons.IH)
qed

theorem periodic_round_keeps:
  assumes "h_device h = dev" "periodic_round h b = (r, b')"
  shows "R (kernel b) (kernel b')"
proof -
  have packets: "keeps (packetScan h)"
  proof (rule keepsI)
    fix b r b'
    assume "packetScan h b = (r, b')"
    then show "R (kernel b) (kernel b')"
      using keepsD [OF keeps_packet_loop [OF assms(1)]] by (fastforce simp: packetScan_def run_command_def Let_def)
  qed
  have "keeps (periodic_body h)"
    unfolding periodic_body_def Let_def
    by (rule keeps_bnd [OF packets], rule keeps_same)
       (simp add: spofingScan_def run_command_def Let_def)
  then show ?thesis
    using assms(2) by (auto simp: periodic_round_def split: prod.splits sum.splits dest: keepsD)
qed

end

subsection \<open>Only signals and answers\<close>

lemma same_core_trans: "same_core s t \<Longrightarrow> same_core t u \<Longrightarrow> same_core s u"
  unfolding same_core_def by (elim exE) (simp, blast)

lemma option_core:
  assumes "spybot_option k u stk arg a p s = Inr (rc, s')"
    and "a \<in> {kill_proc, stop_proc, cont_proc, sct_scan, idt_scan}"
  shows "same_core s s'"
  using assms send_signal_core same_core_upd(2)
  by (auto simp: spybot_option_def res_bind_Inr_iff proc_actions option_codes split: if_splits)

lemma send_core:
  assumes "ioctl_dev d (client_memory d a p) (SPYBOT_IOC_SEND (dev_kernel d)) args_addr s = Inr s'"
    and "a \<in> {kill_proc, stop_proc, cont_proc, sct_scan, idt_scan}"
  shows "same_core s s'"
  using assms(1) option_core [OF _ assms(2)]
  by (auto simp: ioctl_dev_def ioctl_send split: if_splits sum.splits)

lemma recv_core:
  assumes "ioctl_dev d (client_memory d a p) (SPYBOT_IOC_RECV (dev_kernel d)) result_addr s = Inr s'"
  shows "same_core s s'"
proof -
  have "from_user (client_memory d a p) result_addr 8 = None"
    by (simp add: client_memory_def args_addr_def result_addr_def)
  then show ?thesis
    using assms copy_to_user_core [of s "client_memory d a p" result_addr "le_bytes 4 (drv_result s)"]
    by (auto simp: ioctl_dev_def spybot_ioctl_def split: if_splits sum.splits prod.splits)
qed

interpretation core: driver_relation dev same_core for dev
proof unfold_locales
  fix a pid s v s'
  assume "a \<in> {kill_proc, stop_proc, cont_proc, sct_scan, idt_scan}"
    and "communicateWithDriver dev a pid s = Inr (v, s')"
  then show "same_core s s'"
    by (auto simp: communicateWithDriver_def res_bind_Inr_iff Let_def
        intro: same_core_trans [OF send_core recv_core])
qed (simp, rule same_core_trans)

subsection \<open>Steps of the module\<close>

definition module_run :: "device \<Rightarrow> spybot \<Rightarrow> spybot \<Rightarrow> bool" where
  "module_run d s s' \<longleftrightarrow> (length (dev_stack d) = 12 \<longrightarrow> (drv_step (dev_kernel d))\<^sup>*\<^sup>* s s')"

lemma ioctl_dev_run: "ioctl_dev d u cmd arg s = Inr s' \<Longrightarrow> module_run d s s'"
  by (auto simp: ioctl_dev_def module_run_def split: if_splits sum.splits intro: r_into_rtranclp step_ioctl)

lemma module_run_trans: "module_run d s t \<Longrightarrow> module_run d t u \<Longrightarrow> module_run d s u"
  unfolding module_run_def by auto

interpretation steps: driver_relation dev "module_run dev" for dev
proof unfold_locales
  fix a pid s v s'
  assume "communicateWithDriver dev a pid s = Inr (v, s')"
  then show "module_run dev s s'"
    by (auto simp: communicateWithDriver_def res_bind_Inr_iff Let_def
        intro: module_run_trans [OF ioctl_dev_run ioctl_dev_run])
qed (simp add: module_run_def, rule module_run_trans)

subsection \<open>The whole machine\<close>

text \<open>The backend does one request of a client, or one periodic round.\<close>

inductive backend_step :: "('db, 'j) host \<Rightarrow> 'db backend \<Rightarrow> 'db backend \<Rightarrow> bool" for h where
  request: "client_round h rl (b, s) = (r, b', s') \<Longrightarrow> backend_step h b b'"
| periodic: "periodic_round h b = (r, b') \<Longrightarrow> backend_step h b b'"

text \<open>What happens in the kernel without the backend: programs are started, and other code writes
  to the two tables.\<close>

inductive other_step :: "kenv \<Rightarrow> spybot \<Rightarrow> spybot \<Rightarrow> bool" for k where
  other_exec: "fresh_block p blk s \<Longrightarrow> new_execve pid ppid p blk s = Some (Inr (target, s')) \<Longrightarrow>
    other_step k s s'"
| other_sct: "i < NR_syscalls k \<Longrightarrow> other_step k s (s\<lparr>kmem := (kmem s)(sct_addr s i \<mapsto> v)\<rparr>)"
| other_idt: "idt_mem s (gate_addr s i) \<noteq> None \<Longrightarrow>
    other_step k s (s\<lparr>idt_mem := (idt_mem s)(gate_addr s i \<mapsto> g)\<rparr>)"

inductive system_step :: "('db, 'j) host \<Rightarrow> 'db backend \<Rightarrow> 'db backend \<Rightarrow> bool" for h where
  by_backend: "backend_step h b b' \<Longrightarrow> system_step h b b'"
| by_others: "other_step (dev_kernel (h_device h)) (kernel b) s' \<Longrightarrow> system_step h b (b\<lparr>kernel := s'\<rparr>)"

inductive_cases backend_stepE: "backend_step h b b'"
inductive_cases other_stepE: "other_step k s s'"
inductive_cases system_stepE: "system_step h b b'"

lemma backend_step_core: "backend_step h b b' \<Longrightarrow> same_core (kernel b) (kernel b')"
  by (elim backend_stepE) (auto dest: core.client_round_keeps [OF refl] core.periodic_round_keeps [OF refl])

lemma backend_step_run: "backend_step h b b' \<Longrightarrow> module_run (h_device h) (kernel b) (kernel b')"
  by (elim backend_stepE) (auto dest: steps.client_round_keeps [OF refl] steps.periodic_round_keeps [OF refl])

lemma other_step_drv: "other_step k s s' \<Longrightarrow> drv_step k s s'"
  by (elim other_stepE) (auto intro: drv_step.intros)

lemma drv_reachable_run: "(drv_step k)\<^sup>*\<^sup>* s s' \<Longrightarrow> drv_reachable k bt s0 s \<Longrightarrow> drv_reachable k bt s0 s'"
  by (induction rule: rtranclp_induct) (auto intro: drv_reachable.stepped)


text \<open>C6: Whatever clients ask for and whatever the logs of the scripts hold, the backend repairs
  nothing: it never writes kernel memory, page protection, a table or the list of recorded calls.\<close>

theorem backend_repairs_nothing:
  assumes "(backend_step h)\<^sup>*\<^sup>* b b'"
  shows "kmem (kernel b') = kmem (kernel b) \<and> ptes (kernel b') = ptes (kernel b) \<and>
    idt_mem (kernel b') = idt_mem (kernel b) \<and> temp_sct (kernel b') = temp_sct (kernel b) \<and>
    temp_idt (kernel b') = temp_idt (kernel b) \<and> hooks (kernel b') = hooks (kernel b) \<and>
    hooks_list (kernel b') = hooks_list (kernel b)"
proof -
  have "same_core (kernel b) (kernel b')"
    using assms by (induction rule: rtranclp_induct) (auto dest: backend_step_core intro: same_core_trans)
  then show ?thesis by (auto simp: same_core_def)
qed

lemma same_core_holds: "same_core s s' \<Longrightarrow> holds s' ps = holds s ps \<and> recs s' ps = recs s ps"
  by (auto simp: same_core_def holds_def recs_def)

lemma length_recs: "length (recs s ps) = length ps"
  by (simp add: recs_def)

lemma other_step_holds:
  assumes "other_step k s s'" "holds s ps"
  shows "\<exists>qs. holds s' (ps @ qs) \<and> take (length ps) (recs s' (ps @ qs)) = recs s ps"
  using assms(1)
proof (rule other_stepE)
  fix p blk pid ppid target
  assume exec: "fresh_block p blk s" "new_execve pid ppid p blk s = Some (Inr (target, s'))"
  obtain s1 where s1: "new_execve pid ppid p blk s = Some (Inr (execve_scf s, s1))" "holds s1 (ps @ [p])"
    "recs s1 (ps @ [p]) = recs s ps @ [(hook_id s, pid, ppid)]"
    using new_execve_holds [OF assms(2) exec(1), of pid ppid] by metis
  with exec(2) have "s' = s1" by simp
  with s1 show ?thesis by (intro exI [of _ "[p]"]) (simp add: length_recs)
qed (intro exI [of _ "[]"], use assms(2) in \<open>simp add: holds_def recs_def\<close>)+


end
