(* ===== verification/System_Example.thy ===== *)
theory System_Example
  imports App_Example Backend_Driver
begin

text \<open>The theorems about the whole machine on the concrete installation.\<close>

lemma ex_system_step:
  "backend_step ex_host b (snd (periodic_round ex_host b))"
  by (rule backend_step.periodic [of _ _ "fst (periodic_round ex_host b)"]) simp


lemma backend_repairs_nothing_witness:
  "kmem (kernel (snd (periodic_round ex_host ex_backend))) = kmem ex_state"
  using backend_repairs_nothing [OF r_into_rtranclp, of ex_host, OF ex_system_step [of ex_backend]] by simp


end
