(* ===== verification/Relay_Threads.thy ===== *)
theory Relay_Threads
  imports Server_App
begin

text \<open>
  \<open>Backend::handleServerRequest\<close> runs in one thread for each client, and all the threads share one
  member of the \<open>Backend\<close> object, \<open>_ServerSocket\<close>, which every call of the function reads again.
  Here each statement of the function is a step, a schedule says which thread takes the next one,
  and the answers of the server arrive on the connection the request was sent on.
\<close>

subsection \<open>Statements\<close>

record conn =
  conn_up :: bool
  conn_sock :: sock

text \<open>Where a thread is in the function; the last two have left it.\<close>

datatype relay_point =
    At_Socket | At_Connect | At_Send | At_Recv | At_Reply message | At_Close
  | At_Return | Stopped stop

record relay_world =
  serverSocket :: int
  descriptors :: "int \<Rightarrow> conn option"
  clients :: "nat \<Rightarrow> sock"
  point :: "nat \<Rightarrow> relay_point"

text \<open>What surrounds the threads: uncleared memory, a new socket, whether the server listens, what
  arrives after a request was sent, and the request of each thread.\<close>

record relay_env =
  env_heap :: "nat \<Rightarrow> nat \<Rightarrow> byte"
  env_new :: sock
  env_accepts :: bool
  env_answers :: "byte list \<Rightarrow> byte list list"
  env_request :: "nat \<Rightarrow> message"

definition goto :: "nat \<Rightarrow> relay_point \<Rightarrow> relay_world \<Rightarrow> relay_world" where
  "goto t p w = w\<lparr>point := (point w)(t := p)\<rparr>"

definition set_conn :: "conn option \<Rightarrow> relay_world \<Rightarrow> relay_world" where
  "set_conn c w = w\<lparr>descriptors := (descriptors w)(serverSocket w := c)\<rparr>"

text \<open>An exception is caught and leads to the \<open>close\<close> at the end; other stops end the process.\<close>

definition on_stop :: "nat \<Rightarrow> stop \<Rightarrow> relay_world \<Rightarrow> relay_world" where
  "on_stop t e = goto t (if catchable e then At_Close else Stopped e)"

text \<open>\<open>socket()\<close>: the kernel answers with a free descriptor \<open>fd\<close>, or with -1.\<close>

definition relay_socket :: "relay_env \<Rightarrow> nat \<Rightarrow> int \<Rightarrow> relay_world \<Rightarrow> relay_world option" where
  "relay_socket e t fd w =
     (if fd = - 1 then Some (goto t At_Connect (w\<lparr>serverSocket := fd\<rparr>))
      else if fd < 0 \<or> descriptors w fd \<noteq> None then None
      else Some (goto t At_Connect (set_conn (Some \<lparr>conn_up = False, conn_sock = env_new e\<rparr>)
             (w\<lparr>serverSocket := fd\<rparr>))))"

definition relay_connect :: "relay_env \<Rightarrow> nat \<Rightarrow> relay_world \<Rightarrow> relay_world" where
  "relay_connect e t w =
     (case descriptors w (serverSocket w) of
        None \<Rightarrow> goto t At_Return w
      | Some c \<Rightarrow>
          if env_accepts e \<and> \<not> conn_up c
          then goto t At_Send (set_conn (Some \<lparr>conn_up = True,
                 conn_sock = (conn_sock c)\<lparr>tx_peer := PeerOpen\<rparr>\<rparr>) w)
          else goto t At_Return (set_conn None w))"

definition relay_send :: "relay_env \<Rightarrow> nat \<Rightarrow> relay_world \<Rightarrow> relay_world" where
  "relay_send e t w =
     (case descriptors w (serverSocket w) of
        None \<Rightarrow> goto t At_Close w
      | Some c \<Rightarrow>
          (case sendData (env_request e t) (conn_sock c) of
             Inl x \<Rightarrow> on_stop t x w
           | Inr s \<Rightarrow> goto t At_Recv (set_conn (Some (c\<lparr>conn_sock :=
               s\<lparr>rx := rx s @ env_answers e (drop (length (tx (conn_sock c))) (tx s))\<rparr>\<rparr>)) w)))"

text \<open>\<open>recv\<close> waits on a connection on which nothing has arrived.\<close>

definition relay_recv :: "relay_env \<Rightarrow> nat \<Rightarrow> relay_world \<Rightarrow> relay_world option" where
  "relay_recv e t w =
     (case descriptors w (serverSocket w) of
        None \<Rightarrow> Some (goto t At_Close w)
      | Some c \<Rightarrow>
          if conn_up c \<and> rx (conn_sock c) = [] then None
          else (case getAllTheSocket (env_heap e) (conn_sock c) of
                  Inl x \<Rightarrow> Some (on_stop t x w)
                | Inr (m, s) \<Rightarrow> Some (goto t (At_Reply m) (set_conn (Some (c\<lparr>conn_sock := s\<rparr>)) w))))"

definition relay_reply :: "nat \<Rightarrow> message \<Rightarrow> relay_world \<Rightarrow> relay_world" where
  "relay_reply t m w =
     (case sendData m (clients w t) of
        Inl x \<Rightarrow> on_stop t x w
      | Inr s \<Rightarrow> goto t At_Close (w\<lparr>clients := (clients w)(t := s)\<rparr>))"

definition relay_statement :: "relay_env \<Rightarrow> nat \<Rightarrow> int \<Rightarrow> relay_world \<Rightarrow> relay_world option" where
  "relay_statement e t fd w =
     (case point w t of
        At_Socket \<Rightarrow> relay_socket e t fd w
      | At_Connect \<Rightarrow> Some (relay_connect e t w)
      | At_Send \<Rightarrow> Some (relay_send e t w)
      | At_Recv \<Rightarrow> relay_recv e t w
      | At_Reply m \<Rightarrow> Some (relay_reply t m w)
      | At_Close \<Rightarrow> Some (goto t At_Return (set_conn None w))
      | At_Return \<Rightarrow> None
      | Stopped x \<Rightarrow> None)"

text \<open>A schedule: the thread of each step, and the descriptor the kernel hands out if the step is
  the call of \<open>socket\<close>.\<close>

fun relay_run :: "relay_env \<Rightarrow> (nat \<times> int) list \<Rightarrow> relay_world \<Rightarrow> relay_world option" where
  "relay_run e [] w = Some w"
| "relay_run e ((t, fd) # sch) w =
     (case relay_statement e t fd w of None \<Rightarrow> None | Some w' \<Rightarrow> relay_run e sch w')"

lemma relay_run_append:
  "relay_run e (xs @ ys) w = (case relay_run e xs w of None \<Rightarrow> None | Some w' \<Rightarrow> relay_run e ys w')"
  by (induction xs arbitrary: w) (auto split: option.split)

lemmas relay_steps = relay_statement_def relay_socket_def relay_connect_def relay_send_def
  relay_recv_def relay_reply_def goto_def set_conn_def on_stop_def

subsection \<open>One thread at a time\<close>

text \<open>The server as one undisturbed call of the function meets it.\<close>

definition relay_of :: "relay_env \<Rightarrow> relay" where
  "relay_of e = \<lparr>server_accepts = env_accepts e,
     server_conn = (env_new e)\<lparr>tx_peer := PeerOpen\<rparr>, server_answers = env_answers e\<rparr>"

lemma sendData_rx: "sendData m s = Inr s' \<Longrightarrow> rx s' = rx s"
  by (auto simp: sendData_def send_def Let_def split: if_splits peer.splits)

text \<open>A call of the function that no other thread disturbs does what the function says as one
  step: the same outcome, the same bytes for the client, and no descriptor left open.\<close>

theorem undisturbed_relay:
  assumes "point w t = At_Socket" "0 \<le> fd" "descriptors w fd = None"
    and "rx (env_new e) = []" "tx (env_new e) = []" "\<And>bs. env_answers e bs \<noteq> []"
  shows "\<exists>n w'. relay_run e (replicate n (t, fd)) w = Some w' \<and>
    (case handleServerRequest (relay_of e) (env_heap e) (env_request e t) (clients w t) of
       (Inr u, s) \<Rightarrow> w' = w\<lparr>serverSocket := fd, clients := (clients w)(t := s), point := (point w)(t := At_Return)\<rparr>
     | (Inl x, s) \<Rightarrow> point w' t = Stopped x \<and> clients w' = clients w)"
proof -
  let ?c = "(env_new e)\<lparr>tx_peer := PeerOpen\<rparr>" and ?req = "env_request e t"
  have closed: "(descriptors w)(fd := None) = descriptors w" using assms(3) by (simp add: fun_upd_idem)
  have fd: "\<not> fd < 0" "fd \<noteq> - 1" using assms(2) by simp_all
  note run = relay_steps relay_of_def handleServerRequest_def numeral_eq_Suc assms(1,3-5) closed fd
  show ?thesis
  proof (cases "env_accepts e")
    case False
    show ?thesis by (rule exI [of _ 2]) (simp add: run False)
  next
    case up: True
    show ?thesis
    proof (cases "sendData ?req ?c")
      case (Inl x)
      show ?thesis
        by (rule exI [of _ "if catchable x then 4 else 3"]) (simp add: run up Inl)
    next
      case sent: (Inr s)
      let ?s = "s\<lparr>rx := env_answers e (tx s)\<rparr>"
      have rx: "rx s = []" using sendData_rx [OF sent] assms(4) by simp
      show ?thesis
      proof (cases "getAllTheSocket (env_heap e) ?s")
        case (Inl x)
        show ?thesis
          by (rule exI [of _ "if catchable x then 5 else 4"]) (simp add: run up sent rx assms(6) Inl)
      next
        case got: (Inr r)
        obtain m s2 where r: "r = (m, s2)" by (cases r)
        show ?thesis
        proof (cases "sendData m (clients w t)")
          case (Inl x)
          show ?thesis
            by (rule exI [of _ "if catchable x then 6 else 5"]) (simp add: run up sent rx assms(6) got r Inl)
        next
          case (Inr s3)
          show ?thesis
            by (rule exI [of _ 6]) (simp add: run up sent rx assms(6) got r Inr)
        qed
      qed
    qed
  qed
qed


subsection \<open>Two threads\<close>

text \<open>The first thread connects, then the second, whose socket takes the place of the first one in
  the member; both requests go out on it, and the second thread reads first.\<close>

definition crossing :: "nat \<Rightarrow> nat \<Rightarrow> int \<Rightarrow> int \<Rightarrow> (nat \<times> int) list" where
  "crossing t u fd1 fd2 =
     [(t, fd1), (t, fd1), (u, fd2), (u, fd2), (t, 0), (u, 0), (u, 0), (t, 0), (t, 0), (u, 0), (t, 0), (u, 0)]"

text \<open>C12: Two clients that ask the server at the same time may get each other's answers, and the
  connection that was opened first stays open when both calls have returned.\<close>

theorem crossed_answers:
  assumes "point w t = At_Socket" "point w u = At_Socket" "t \<noteq> u"
    and "0 \<le> fd1" "0 \<le> fd2" "fd1 \<noteq> fd2" "descriptors w fd1 = None" "descriptors w fd2 = None"
    and "env_accepts e" "rx (env_new e) = []" "tx (env_new e) = []"
    and "env_request e t = framed c1 d1" "env_request e u = framed c2 d2" "fits (length d1)" "fits (length d2)"
    and "env_answers e (frame c1 d1) = push (frame r1 a1) []" "env_answers e (frame c2 d2) = push (frame r2 a2) []"
    and "fits (length a1)" "fits (length a2)" "is_code r1" "is_code r2"
    and "tx_peer (clients w t) = PeerOpen" "tx_peer (clients w u) = PeerOpen"
  shows "\<exists>w'. relay_run e (crossing t u fd1 fd2) w = Some w' \<and>
    tx (clients w' t) = tx (clients w t) @ frame r2 a2 \<and> tx (clients w' u) = tx (clients w u) @ frame r1 a1 \<and>
    point w' t = At_Return \<and> point w' u = At_Return \<and> descriptors w' fd1 \<noteq> None"
proof -
  have fd: "\<not> fd1 < 0" "fd1 \<noteq> - 1" "\<not> fd2 < 0" "fd2 \<noteq> - 1" "fd2 \<noteq> fd1" "u \<noteq> t" using assms(3-6) by simp_all
  have ne: "frame r1 a1 \<noteq> []" "frame r2 a2 \<noteq> []" by (simp_all add: frame_def)
  have first: "getAllTheSocket h (s\<lparr>rx := [frame r1 a1, frame r2 a2]\<rparr>) = Inr (framed r1 a1,
      s\<lparr>rx := [frame r2 a2], allocs := allocs s + (if a1 = [] then 2 else 3)\<rparr>)" for h s
    using getAll_frame [of "s\<lparr>rx := [frame r1 a1, frame r2 a2]\<rparr>" r1 a1 "[]" "[frame r2 a2]" h] assms(18,20) ne
    by (simp add: push_def)
  have second: "getAllTheSocket h (s\<lparr>rx := [frame r2 a2], allocs := k\<rparr>) = Inr (framed r2 a2,
      s\<lparr>rx := [], allocs := k + (if a2 = [] then 2 else 3)\<rparr>)" for h s k
    using getAll_frame [of "s\<lparr>rx := [frame r2 a2], allocs := k\<rparr>" r2 a2 "[]" "[]" h] assms(19,21) ne
    by (simp add: push_def)
  show ?thesis
    by (simp add: crossing_def relay_steps fd assms(1-3,6-13,16,17,22,23) sendData_framed assms(14,15,18,19)
      send_def push_def ne first second)
qed

text \<open>A request that is sent after another thread has taken a new socket and before that thread has
  connected it goes out on a socket without a peer; where the system answers that with the signal
  for a broken pipe, the whole process ends.\<close>

lemma request_without_peer:
  assumes "point w t = At_Socket" "point w u = At_Socket" "t \<noteq> u"
    and "0 \<le> fd1" "0 \<le> fd2" "fd1 \<noteq> fd2" "descriptors w fd1 = None" "descriptors w fd2 = None"
    and "env_accepts e" "env_request e t = framed c d" "fits (length d)" "tx_peer (env_new e) = PeerGone"
  shows "\<exists>w'. relay_run e [(t, fd1), (t, fd1), (u, fd2), (t, 0)] w = Some w' \<and> point w' t = Stopped Sigpipe"
proof -
  have fd: "\<not> fd1 < 0" "fd1 \<noteq> - 1" "\<not> fd2 < 0" "fd2 \<noteq> - 1" "fd2 \<noteq> fd1" "u \<noteq> t" using assms(3-6) by simp_all
  show ?thesis
    by (simp add: relay_steps fd assms(1-3,6-10,12) sendData_framed assms(11) send_def catchable_def)
qed

end
