(* ===== verification/Scan_Threads.thy ===== *)
theory Scan_Threads
  imports Backend_Requests
begin

text \<open>
  A quick or full scan of \<open>RequestHandler::scan\<close> and the thread of the periodic scans use the same
  two static collections without a lock.  Here the statements of the scan that touch the system
  are single steps, between which the periodic thread may add what it found.
\<close>

subsection \<open>The statements of a scan\<close>

definition scan_statement ::
  "('db, 'j) host \<Rightarrow> nat \<Rightarrow> ScanResponse \<Rightarrow> ('db backend, ScanResponse) prog" where
  "scan_statement h i r b =
     (if i = 0 then bnd (call_driver (idtScan (h_device h))) (\<lambda>idt. ret (r\<lparr>idtResults := idt\<rparr>)) b
      else if i = 1 then (case openPortsScan h b of (ports, b) \<Rightarrow> ret (r\<lparr>openPortsResults := ports\<rparr>) b)
      else if i = 2 then ret (r\<lparr>packetsResults := packetScanResult b\<rparr>) b
      else if i = 3 then bnd (call_driver (sctScan (h_device h))) (\<lambda>sct. ret (r\<lparr>sctResults := sct\<rparr>)) b
      else if i = 4 then ret (r\<lparr>spofingResults := spofingScanResult b\<rparr>) b
      else if i = 5 then ret r (b\<lparr>packetScanResult := []\<rparr>)
      else ret r (b\<lparr>spofingScanResult := Map.empty\<rparr>))"

fun scan_statements ::
  "('db, 'j) host \<Rightarrow> nat list \<Rightarrow> ScanResponse \<Rightarrow> ('db backend, ScanResponse) prog" where
  "scan_statements h [] r = ret r"
| "scan_statements h (i # is) r = bnd (scan_statement h i r) (scan_statements h is)"

text \<open>Undisturbed, the seven statements are \<open>scan_system\<close>.\<close>

lemma scan_statements_system: "scan_statements h [0..<7] r b = scan_system h r b"
  by (simp add: upt_rec scan_statement_def scan_system_def bnd_def split: prod.split sum.split)

text \<open>What the periodic thread adds in a round: first the texts of the packet scan, later the
  entries of the spoofing scan.\<close>

definition add_packets :: "string list \<Rightarrow> 'db backend \<Rightarrow> 'db backend" where
  "add_packets ps b = b\<lparr>packetScanResult := packetScanResult b @ ps\<rparr>"

definition add_spofing :: "(string \<Rightarrow> string option) \<Rightarrow> 'db backend \<Rightarrow> 'db backend" where
  "add_spofing sp b = b\<lparr>spofingScanResult := map_insert sp (spofingScanResult b)\<rparr>"

lemma periodic_body_adds:
  "periodic_body h = bnd (packetScan h) (\<lambda>ps b.
     case spofingScan h (add_packets ps b) of (sp, b) \<Rightarrow> ret () (add_spofing sp b))"
  by (simp add: periodic_body_def add_packets_def add_spofing_def fun_eq_iff bnd_def split: prod.split sum.split)

text \<open>The scan with a periodic round that adds its packets after \<open>k\<close> of the statements and its
  spoofing entries after \<open>l\<close> of them.\<close>

definition scan_with_round ::
  "('db, 'j) host \<Rightarrow> nat \<Rightarrow> nat \<Rightarrow> string list \<Rightarrow> (string \<Rightarrow> string option) \<Rightarrow> ScanResponse \<Rightarrow>
     ('db backend, ScanResponse) prog" where
  "scan_with_round h k l ps sp r =
     bnd (scan_statements h [0..<k] r) (\<lambda>r b.
     bnd (scan_statements h [k..<l] r) (\<lambda>r b.
       scan_statements h [l..<7] r (add_spofing sp b)) (add_packets ps b))"

subsection \<open>What the scan sees and leaves of the collections\<close>

record collected =
  seen_packets :: "string list"
  seen_spofing :: "string \<Rightarrow> string option"
  left_packets :: "string list"
  left_spofing :: "string \<Rightarrow> string option"

definition collected_of :: "ScanResponse \<Rightarrow> 'db backend \<Rightarrow> collected" where
  "collected_of r b = \<lparr>seen_packets = packetsResults r, seen_spofing = spofingResults r,
     left_packets = packetScanResult b, left_spofing = spofingScanResult b\<rparr>"

definition collected_statement :: "nat \<Rightarrow> collected \<Rightarrow> collected" where
  "collected_statement i c =
     (if i = 2 then c\<lparr>seen_packets := left_packets c\<rparr>
      else if i = 4 then c\<lparr>seen_spofing := left_spofing c\<rparr>
      else if i = 5 then c\<lparr>left_packets := []\<rparr>
      else if 6 \<le> i then c\<lparr>left_spofing := Map.empty\<rparr>
      else c)"

lemma driver_ready_result [simp]:
  "driver_ready d (s\<lparr>drv_result := v, user_writes := w\<rparr>) = driver_ready d s"
  by (simp add: driver_ready_def idt_ok_def gate_addr_def)

lemma idtScan_ready:
  assumes "driver_ready d s"
  obtains a v w where "idtScan d s = Inr (a, s\<lparr>drv_result := v, user_writes := w\<rparr>)"
  using idtScan_open [of d s] assms by (auto simp: driver_ready_def)

lemma sctScan_ready:
  assumes "driver_ready d s"
  obtains a v w where "sctScan d s = Inr (a, s\<lparr>drv_result := v, user_writes := w\<rparr>)"
  using sctScan_open [of d s] assms by (auto simp: driver_ready_def)

lemma scan_statement_simulates:
  assumes "driver_ready (h_device h) (kernel b)"
  shows "\<exists>r' b'. scan_statement h i r b = (Inr r', b') \<and> driver_ready (h_device h) (kernel b') \<and>
    collected_of r' b' = collected_statement i (collected_of r b)"
proof -
  let ?d = "h_device h"
  obtain a v w where idt: "idtScan ?d (kernel b) = Inr (a, kernel b\<lparr>drv_result := v, user_writes := w\<rparr>)"
    using idtScan_ready [OF assms] .
  obtain a' v' w' where sct: "sctScan ?d (kernel b) = Inr (a', kernel b\<lparr>drv_result := v', user_writes := w'\<rparr>)"
    using sctScan_ready [OF assms] .
  consider "i = 0" | "i = 1" | "i = 2" | "i = 3" | "i = 4" | "i = 5" | "6 \<le> i" by linarith
  then show ?thesis
    using assms
    by cases (simp_all add: scan_statement_def call_driver_ok [where f = "idtScan ?d", OF idt]
        call_driver_ok [where f = "sctScan ?d", OF sct] openPortsScan_def run_command_def
        collected_of_def collected_statement_def)
qed

lemma scan_statements_simulate:
  assumes "driver_ready (h_device h) (kernel b)"
  shows "\<exists>r' b'. scan_statements h is r b = (Inr r', b') \<and> driver_ready (h_device h) (kernel b') \<and>
    collected_of r' b' = fold collected_statement is (collected_of r b)"
  using assms
proof (induction "is" arbitrary: r b)
  case Nil
  then show ?case by simp
next
  case (Cons i "is")
  obtain r1 b1 where 1: "scan_statement h i r b = (Inr r1, b1)" "driver_ready (h_device h) (kernel b1)"
    "collected_of r1 b1 = collected_statement i (collected_of r b)"
    using scan_statement_simulates [OF Cons.prems] by blast
  from Cons.IH [OF 1(2), of r1] 1(1,3) show ?case by simp
qed

lemma collected_adds:
  "collected_of r (add_packets ps b) = (collected_of r b)\<lparr>left_packets := left_packets (collected_of r b) @ ps\<rparr>"
  "collected_of r (add_spofing sp b) =
     (collected_of r b)\<lparr>left_spofing := map_insert sp (left_spofing (collected_of r b))\<rparr>"
  by (simp_all add: collected_of_def add_packets_def add_spofing_def)

lemma ready_adds [simp]:
  "kernel (add_packets ps b) = kernel b" "kernel (add_spofing sp b) = kernel b"
  by (simp_all add: add_packets_def add_spofing_def)

definition collected_run ::
  "nat \<Rightarrow> nat \<Rightarrow> string list \<Rightarrow> (string \<Rightarrow> string option) \<Rightarrow> collected \<Rightarrow> collected" where
  "collected_run k l ps sp c =
     (let c = fold collected_statement [0..<k] c;
          c = fold collected_statement [k..<l] (c\<lparr>left_packets := left_packets c @ ps\<rparr>)
      in fold collected_statement [l..<7] (c\<lparr>left_spofing := map_insert sp (left_spofing c)\<rparr>))"

lemma scan_with_round_simulates:
  assumes "driver_ready (h_device h) (kernel b)"
  shows "\<exists>r' b'. scan_with_round h k l ps sp r b = (Inr r', b') \<and>
    collected_of r' b' = collected_run k l ps sp (collected_of r b)"
proof -
  obtain r1 b1 where 1: "scan_statements h [0..<k] r b = (Inr r1, b1)" "driver_ready (h_device h) (kernel b1)"
    "collected_of r1 b1 = fold collected_statement [0..<k] (collected_of r b)"
    using scan_statements_simulate [OF assms(1)] by blast
  from 1(2) have "driver_ready (h_device h) (kernel (add_packets ps b1))" by simp
  from scan_statements_simulate [OF this] obtain r2 b2 where
    2: "scan_statements h [k..<l] r1 (add_packets ps b1) = (Inr r2, b2)" "driver_ready (h_device h) (kernel b2)"
    "collected_of r2 b2 = fold collected_statement [k..<l] (collected_of r1 (add_packets ps b1))" by blast
  from 2(2) have "driver_ready (h_device h) (kernel (add_spofing sp b2))" by simp
  from scan_statements_simulate [OF this] obtain r3 b3 where
    3: "scan_statements h [l..<7] r2 (add_spofing sp b2) = (Inr r3, b3)"
    "collected_of r3 b3 = fold collected_statement [l..<7] (collected_of r2 (add_spofing sp b2))" by blast
  show ?thesis
    by (rule exI [of _ r3], rule exI [of _ b3])
       (simp add: scan_with_round_def collected_run_def 1 2 3 collected_adds Let_def)
qed

text \<open>C13: What the periodic thread adds is reported by a scan that has not yet copied the
  collection, is kept for the next scan when this one has already emptied it, and is lost when it
  arrives in between.\<close>

theorem periodic_results_lost:
  assumes "driver_ready (h_device h) (kernel b)" "k \<le> l" "l \<le> 7"
  shows "\<exists>r' b'. scan_with_round h k l ps sp r b = (Inr r', b') \<and>
    (packetsResults r', packetScanResult b') =
      (if k \<le> 2 then (packetScanResult b @ ps, []) else if k \<le> 5 then (packetScanResult b, [])
       else (packetScanResult b, ps)) \<and>
    (spofingResults r', spofingScanResult b') =
      (if l \<le> 4 then (map_insert sp (spofingScanResult b), Map.empty)
       else if l \<le> 6 then (spofingScanResult b, Map.empty) else (spofingScanResult b, sp))"
proof -
  obtain r' b' where run: "scan_with_round h k l ps sp r b = (Inr r', b')"
    "collected_of r' b' = collected_run k l ps sp (collected_of r b)"
    using scan_with_round_simulates [OF assms(1)] by blast
  have packets: "(seen_packets (collected_run k l ps sp c), left_packets (collected_run k l ps sp c)) =
      (if k \<le> 2 then (left_packets c @ ps, []) else if k \<le> 5 then (left_packets c, []) else (left_packets c, ps)) \<and>
    (seen_spofing (collected_run k l ps sp c), left_spofing (collected_run k l ps sp c)) =
      (if l \<le> 4 then (map_insert sp (left_spofing c), Map.empty)
       else if l \<le> 6 then (left_spofing c, Map.empty) else (left_spofing c, sp))" for c
  proof -
    have "k \<in> {0, 1, 2, 3, 4, 5, 6, 7}" "l \<in> {0, 1, 2, 3, 4, 5, 6, 7}" using assms(2,3) by auto
    with assms(2) show ?thesis
      by (elim insertE emptyE) (simp_all add: collected_run_def upt_rec collected_statement_def map_insert_def)
  qed
  have fields: "packetsResults r' = seen_packets (collected_of r' b')" "packetScanResult b' = left_packets (collected_of r' b')"
    "spofingResults r' = seen_spofing (collected_of r' b')" "spofingScanResult b' = left_spofing (collected_of r' b')"
    "packetScanResult b = left_packets (collected_of r b)" "spofingScanResult b = left_spofing (collected_of r b)"
    by (simp_all add: collected_of_def)
  show ?thesis
    by (intro exI [of _ r'] exI [of _ b']) (simp only: run(1) simp_thms fields run(2) packets)
qed

end
