(* ===== verification/Device_Threads.thy ===== *)
theory Device_Threads
  imports Backend_Requests
begin

text \<open>
  The threads of the backend call the driver at the same time: a client that asks for a scan, a
  client that kills a process, and the periodic thread that kills what the packet scan found.  Each
  call (\<open>communicateWithDriver\<close>, \<open>blockPid\<close>, \<open>sctScan\<close>, \<open>idtScan\<close>) is two requests, and the result
  in between is one global variable of the driver.  Here the two requests of a call are steps of
  their own; a schedule says which thread takes the next one.
\<close>

subsection \<open>Statements\<close>

datatype device_point =
    Call_Send c_int c_int | Call_Recv c_int c_int | Call_Done c_int | Call_Fault stop

record device_world =
  dw_kernel :: spybot
  device_point_of :: "nat \<Rightarrow> device_point"

text \<open>What happened: a request with the result it left in the driver, and a result fetched.\<close>

datatype device_event = Sent nat c_int | Got nat c_int

definition device_goto :: "nat \<Rightarrow> device_point \<Rightarrow> spybot \<Rightarrow> device_world \<Rightarrow> device_world" where
  "device_goto t pt s w = \<lparr>dw_kernel = s, device_point_of = (device_point_of w)(t := pt)\<rparr>"

definition device_send ::
  "device \<Rightarrow> nat \<Rightarrow> c_int \<Rightarrow> c_int \<Rightarrow> device_world \<Rightarrow> device_event list \<times> device_world" where
  "device_send d t a b w =
     (case ioctl_dev d (client_memory d a b) (SPYBOT_IOC_SEND (dev_kernel d)) args_addr (dw_kernel w) of
        Inl f \<Rightarrow> ([], device_goto t (Call_Fault f) (dw_kernel w) w)
      | Inr s \<Rightarrow> ([Sent t (drv_result s)], device_goto t (Call_Recv a b) s w))"

definition device_recv ::
  "device \<Rightarrow> nat \<Rightarrow> c_int \<Rightarrow> c_int \<Rightarrow> device_world \<Rightarrow> device_event list \<times> device_world" where
  "device_recv d t a b w =
     (case ioctl_dev d (client_memory d a b) (SPYBOT_IOC_RECV (dev_kernel d)) result_addr (dw_kernel w) of
        Inl f \<Rightarrow> ([], device_goto t (Call_Fault f) (dw_kernel w) w)
      | Inr s \<Rightarrow>
          (let v = user_int result_addr 0 (drop (length (user_writes (dw_kernel w))) (user_writes s))
           in ([Got t v], device_goto t (Call_Done v) s w)))"

definition device_statement ::
  "device \<Rightarrow> nat \<Rightarrow> device_world \<Rightarrow> (device_event list \<times> device_world) option" where
  "device_statement d t w =
     (case device_point_of w t of
        Call_Send a b \<Rightarrow> Some (device_send d t a b w)
      | Call_Recv a b \<Rightarrow> Some (device_recv d t a b w)
      | _ \<Rightarrow> None)"

fun device_run ::
  "device \<Rightarrow> nat list \<Rightarrow> device_world \<Rightarrow> (device_event list \<times> device_world) option" where
  "device_run d [] w = Some ([], w)"
| "device_run d (t # sch) w =
     (case device_statement d t w of
        None \<Rightarrow> None
      | Some (ev, w) \<Rightarrow> map_option (\<lambda>(evs, w). (ev @ evs, w)) (device_run d sch w))"

lemmas device_steps = device_statement_def device_send_def device_recv_def device_goto_def

text \<open>Alone, the two steps are the call.\<close>

lemma undisturbed_device_call:
  assumes "device_point_of w t = Call_Send a b"
  shows "\<exists>n evs w'. device_run d (replicate n t) w = Some (evs, w') \<and>
    (case communicateWithDriver d a b (dw_kernel w) of
       Inl f \<Rightarrow> device_point_of w' t = Call_Fault f
     | Inr (v, s) \<Rightarrow> device_point_of w' t = Call_Done v \<and> dw_kernel w' = s)"
proof (cases "ioctl_dev d (client_memory d a b) (SPYBOT_IOC_SEND (dev_kernel d)) args_addr (dw_kernel w)")
  case (Inl f)
  then show ?thesis using assms
    by (intro exI [of _ 1]) (simp add: device_steps communicateWithDriver_def)
next
  case (Inr s)
  then show ?thesis using assms
    by (intro exI [of _ 2])
      (auto simp: device_steps communicateWithDriver_def numeral_2_eq_2 Let_def split: sum.split)
qed

subsection \<open>Whose result a call gets\<close>

fun last_result :: "c_int \<Rightarrow> device_event list \<Rightarrow> c_int" where
  "last_result v [] = v"
| "last_result v (Sent t r # es) = last_result r es"
| "last_result v (Got t r # es) = last_result v es"

lemma recv_step:
  assumes "dev_open d" "codes_differ d"
  shows "device_recv d t a b w = ([Got t (drv_result (dw_kernel w))],
    device_goto t (Call_Done (drv_result (dw_kernel w))) ((dw_kernel w)\<lparr>user_writes :=
      user_writes (dw_kernel w) @ [(result_addr, le_bytes 4 (drv_result (dw_kernel w)))]\<rparr>) w)"
  using assms
  by (simp add: device_recv_def ioctl_dev_def ioctl_recv codes_differ_def copy_to_user_def user_int_def Let_def)

lemma statement_result:
  assumes "dev_open d" "codes_differ d" "device_statement d t w = Some (ev, w')"
  shows "drv_result (dw_kernel w') = last_result (drv_result (dw_kernel w)) ev \<and>
    (\<forall>xs u v ys. ev = xs @ Got u v # ys \<longrightarrow> v = last_result (drv_result (dw_kernel w)) xs)"
proof (cases "device_point_of w t")
  case (Call_Send a b)
  with assms(3) show ?thesis
    by (auto simp: device_statement_def device_send_def device_goto_def Cons_eq_append_conv split: sum.splits)
next
  case (Call_Recv a b)
  with assms(3) show ?thesis
    by (auto simp: device_statement_def recv_step [OF assms(1,2)] device_goto_def Cons_eq_append_conv)
qed (use assms(3) in \<open>simp_all add: device_statement_def\<close>)

lemma last_result_append: "last_result v (xs @ ys) = last_result (last_result v xs) ys"
  by (induction v xs rule: last_result.induct) auto


subsection \<open>A scan and a kill\<close>

definition task_answer :: "device \<Rightarrow> c_int \<Rightarrow> c_int" where
  "task_answer d pid = (if dev_task d pid then 1 else 0)"

lemma send_step:
  assumes "dev_open d"
    and "spybot_option (dev_kernel d) (client_memory d a b) (dev_stack d) args_addr a b (dw_kernel w) = Inr (rc, s)"
  shows "device_send d t a b w = ([Sent t (drv_result s)], device_goto t (Call_Recv a b) s w)"
  using assms by (simp add: device_send_def ioctl_dev_def ioctl_send)

lemma send_kill:
  assumes "dev_open d"
  shows "device_send d t kill_proc pid w = ([Sent t (task_answer d pid)], device_goto t (Call_Recv kill_proc pid)
    ((dw_kernel w)\<lparr>drv_result := task_answer d pid,
       signals := signals (dw_kernel w) @ (if dev_task d pid then [(pid, SIGKILL)] else [])\<rparr>) w)"
proof -
  have "signal_of kill_proc = Some SIGKILL" by (simp add: signal_of_def drv_simps proc_actions)
  from send_step [OF assms spybot_option_signal [OF this]] show ?thesis by (simp add: task_answer_def)
qed

lemma send_scan:
  assumes "driver_ready d (dw_kernel w)"
  shows "device_send d t sct_scan 0 w = ([Sent t (sct_answer d (dw_kernel w))],
    device_goto t (Call_Recv sct_scan 0) ((dw_kernel w)\<lparr>drv_result := sct_answer d (dw_kernel w)\<rparr>) w)"
proof -
  from assms have d: "dev_open d" "sct_ok (dev_kernel d) (dw_kernel w)"
    "length (temp_sct (dw_kernel w)) = NR_syscalls (dev_kernel d)" by (simp_all add: driver_ready_def)
  have "spybot_option (dev_kernel d) (client_memory d sct_scan 0) (dev_stack d) args_addr sct_scan 0 (dw_kernel w) =
    Inr (0, (dw_kernel w)\<lparr>drv_result := sct_answer d (dw_kernel w)\<rparr>)"
    using compare_scts_eq [OF d(2,3)]
    by (simp add: spybot_option_def drv_simps proc_actions sct_answer_def)
  from send_step [OF d(1) this] show ?thesis by simp
qed

lemma sct_answer_signal [simp]:
  "driver_ready d (s\<lparr>drv_result := v, signals := g\<rparr>) = driver_ready d s"
  "sct_answer d (s\<lparr>drv_result := v, signals := g\<rparr>) = sct_answer d s"
  "driver_ready d (s\<lparr>drv_result := v\<rparr>) = driver_ready d s" "sct_answer d (s\<lparr>drv_result := v\<rparr>) = sct_answer d s"
  by (simp_all add: driver_ready_def sct_answer_def idt_ok_def gate_addr_def sct_ok_def sct_addr_def sct_differs_def [abs_def])

lemma device_goto_fields [simp]:
  "dw_kernel (device_goto t pt s w) = s"
  "device_point_of (device_goto t pt s w) u = (if u = t then pt else device_point_of w u)"
  by (simp_all add: device_goto_def)

text \<open>A scan of the system call table and a kill that overlap get each other's results.  When the
  kill comes second, the scan reports 1 or 0 - the second or the first entry is hooked - although
  the table may be clean; when the scan comes second, the kill of a process that does not exist
  reports what the scan found, which for a clean table is -1 and counts as killed.\<close>

theorem scan_and_kill_crossed:
  assumes "driver_ready d (dw_kernel w)" "t \<noteq> u"
    and "device_point_of w t = Call_Send sct_scan 0" "device_point_of w u = Call_Send kill_proc pid"
  shows "(\<exists>w'. device_run d [t, u, t, u] w = Some ([Sent t (sct_answer d (dw_kernel w)),
      Sent u (task_answer d pid), Got t (task_answer d pid), Got u (task_answer d pid)], w')) \<and>
    (\<exists>w'. device_run d [u, t, u, t] w = Some ([Sent u (task_answer d pid),
      Sent t (sct_answer d (dw_kernel w)), Got u (sct_answer d (dw_kernel w)), Got t (sct_answer d (dw_kernel w))], w')) \<and>
    (sct_answer d (dw_kernel w) = - 1 \<longleftrightarrow>
      sct_list (dev_kernel d) (dw_kernel w) = map Some (temp_sct (dw_kernel w)))"
proof -
  have d: "dev_open d" "codes_differ d" "sct_ok (dev_kernel d) (dw_kernel w)"
    "length (temp_sct (dw_kernel w)) = NR_syscalls (dev_kernel d)"
    using assms(1) by (simp_all add: driver_ready_def)
  show ?thesis
    using assms d(1,2) sct_scan_clean [OF d(3,4), folded sct_answer_def]
    by (simp add: device_statement_def send_scan send_kill recv_step)
qed

end
