(* ===== verification/Threads_Example.thy ===== *)
theory Threads_Example
  imports App_Example Relay_Threads Scan_Threads Device_Threads
begin

text \<open>The theorems about threads at concrete clients, answers and scans.\<close>

definition ex_relay_env :: relay_env where
  "ex_relay_env = \<lparr>env_heap = (\<lambda>_ _. 0), env_new = ex_sock [], env_accepts = True,
     env_answers = (\<lambda>bs. push (frame 212 (drop 5 bs)) []),
     env_request = (\<lambda>t. framed 112 [of_nat t])\<rparr>"

definition ex_world :: relay_world where
  "ex_world = \<lparr>serverSocket = - 1, descriptors = (\<lambda>_. None), clients = (\<lambda>_. ex_sock []),
     point = (\<lambda>_. At_Socket)\<rparr>"

lemma is_code_212: "is_code 212"
  by (simp add: is_code_def)

lemma crossed_answers_witness:
  "\<exists>w'. relay_run ex_relay_env (crossing 1 2 5 6) ex_world = Some w' \<and>
    tx (clients w' 1) = frame 212 [2] \<and> tx (clients w' 2) = frame 212 [1]"
proof -
  have "drop 5 (frame 112 d) = d" for d by (simp add: frame_def)
  then show ?thesis
    using crossed_answers [of ex_world 1 2 5 6 ex_relay_env 112 "[1]" 112 "[2]" 212 "[1]" 212 "[2]"]
    by (auto simp: ex_world_def ex_relay_env_def fits_def is_code_212)
qed

lemma undisturbed_relay_witness:
  "\<exists>n w'. relay_run ex_relay_env (replicate n (1, 5)) ex_world = Some w' \<and>
    (case handleServerRequest (relay_of ex_relay_env) (env_heap ex_relay_env) (env_request ex_relay_env 1) (clients ex_world 1) of
       (Inr u, s) \<Rightarrow> w' = ex_world\<lparr>serverSocket := 5, clients := (clients ex_world)(1 := s), point := (point ex_world)(1 := At_Return)\<rparr>
     | (Inl x, s) \<Rightarrow> point w' 1 = Stopped x \<and> clients w' = clients ex_world)"
  by (rule undisturbed_relay) (simp_all add: ex_world_def ex_relay_env_def push_def frame_def)

lemma periodic_results_lost_witness:
  "\<exists>r' b'. scan_with_round ex_host 3 3 [''x''] Map.empty (new_ScanResponse ex_host) ex_backend = (Inr r', b') \<and>
     packetsResults r' = [] \<and> packetScanResult b' = []"
  using periodic_results_lost [of ex_host ex_backend 3 3 "[''x'']" Map.empty "new_ScanResponse ex_host"] ex_ready
  by auto

text \<open>A scan by thread 0 and the kill of process 7 by thread 1.\<close>

definition ex_device_world :: device_world where
  "ex_device_world = \<lparr>dw_kernel = ex_state,
     device_point_of = (\<lambda>t. if t = 0 then Call_Send sct_scan 0 else Call_Send kill_proc 7)\<rparr>"

lemma ex_device_world_fields [simp]:
  "dw_kernel ex_device_world = ex_state"
  "device_point_of ex_device_world t = (if t = 0 then Call_Send sct_scan 0 else Call_Send kill_proc 7)"
  by (simp_all add: ex_device_world_def)

lemma ex_device_answers: "sct_answer ex_device ex_state = - 1" "task_answer ex_device 7 = 1"
proof -
  have d: "sct_ok (dev_kernel ex_device) ex_state" "length (temp_sct ex_state) = NR_syscalls (dev_kernel ex_device)"
    using ex_ready by (simp_all add: driver_ready_def)
  from sct_scan_clean [OF d] show "sct_answer ex_device ex_state = - 1"
    by (simp add: sct_answer_def ex_sct_list)
  show "task_answer ex_device 7 = 1" by (simp add: task_answer_def ex_device_def)
qed


lemma scan_and_kill_crossed_witness:
  "\<exists>w'. device_run ex_device [0, 1, 0, 1] ex_device_world = Some ([Sent 0 (- 1), Sent 1 1, Got 0 1, Got 1 1], w')"
  using scan_and_kill_crossed [of ex_device ex_device_world 0 1 7] ex_ready
  by (simp add: ex_device_answers)

end
