(* ===== verification/Sql_Chars.thy ===== *)
theory Sql_Chars
  imports Cpp_Runtime
begin

text \<open>
  The character tables of \<open>Backend/sqlite3.c\<close> (ASCII build): case folding, character types,
  and the classes by which the tokenizer chooses a rule.  Every table is shown to be a
  function of the code of the character, so that nothing is looked up in it afterwards.
\<close>

text \<open>The code of a character, and the \<open>i\<close>-th byte of a C string, whose end reads as 0.\<close>

abbreviation code :: "char \<Rightarrow> nat" where
  "code c \<equiv> of_char c"

definition zat :: "string \<Rightarrow> nat \<Rightarrow> char" where
  "zat z i = (if i < length z then z ! i else CHR 0x00)"

subsection \<open>Tables\<close>

definition sqlite3UpperToLower :: "nat list" where
  "sqlite3UpperToLower = [
     0, 1, 2, 3, 4, 5, 6, 7, 8, 9, 10, 11, 12, 13, 14, 15, 16, 17,
     18, 19, 20, 21, 22, 23, 24, 25, 26, 27, 28, 29, 30, 31, 32, 33, 34, 35,
     36, 37, 38, 39, 40, 41, 42, 43, 44, 45, 46, 47, 48, 49, 50, 51, 52, 53,
     54, 55, 56, 57, 58, 59, 60, 61, 62, 63, 64, 97, 98, 99, 100, 101, 102, 103,
     104, 105, 106, 107, 108, 109, 110, 111, 112, 113, 114, 115, 116, 117, 118, 119, 120, 121,
     122, 91, 92, 93, 94, 95, 96, 97, 98, 99, 100, 101, 102, 103, 104, 105, 106, 107,
     108, 109, 110, 111, 112, 113, 114, 115, 116, 117, 118, 119, 120, 121, 122, 123, 124, 125,
     126, 127, 128, 129, 130, 131, 132, 133, 134, 135, 136, 137, 138, 139, 140, 141, 142, 143,
     144, 145, 146, 147, 148, 149, 150, 151, 152, 153, 154, 155, 156, 157, 158, 159, 160, 161,
     162, 163, 164, 165, 166, 167, 168, 169, 170, 171, 172, 173, 174, 175, 176, 177, 178, 179,
     180, 181, 182, 183, 184, 185, 186, 187, 188, 189, 190, 191, 192, 193, 194, 195, 196, 197,
     198, 199, 200, 201, 202, 203, 204, 205, 206, 207, 208, 209, 210, 211, 212, 213, 214, 215,
     216, 217, 218, 219, 220, 221, 222, 223, 224, 225, 226, 227, 228, 229, 230, 231, 232, 233,
     234, 235, 236, 237, 238, 239, 240, 241, 242, 243, 244, 245, 246, 247, 248, 249, 250, 251,
     252, 253, 254, 255]"

definition sqlite3CtypeMap :: "nat list" where
  "sqlite3CtypeMap = [
     0x00, 0x00, 0x00, 0x00, 0x00, 0x00, 0x00, 0x00,
     0x00, 0x01, 0x01, 0x01, 0x01, 0x01, 0x00, 0x00,
     0x00, 0x00, 0x00, 0x00, 0x00, 0x00, 0x00, 0x00,
     0x00, 0x00, 0x00, 0x00, 0x00, 0x00, 0x00, 0x00,
     0x01, 0x00, 0x80, 0x00, 0x40, 0x00, 0x00, 0x80,
     0x00, 0x00, 0x00, 0x00, 0x00, 0x00, 0x00, 0x00,
     0x0c, 0x0c, 0x0c, 0x0c, 0x0c, 0x0c, 0x0c, 0x0c,
     0x0c, 0x0c, 0x00, 0x00, 0x00, 0x00, 0x00, 0x00,
     0x00, 0x0a, 0x0a, 0x0a, 0x0a, 0x0a, 0x0a, 0x02,
     0x02, 0x02, 0x02, 0x02, 0x02, 0x02, 0x02, 0x02,
     0x02, 0x02, 0x02, 0x02, 0x02, 0x02, 0x02, 0x02,
     0x02, 0x02, 0x02, 0x80, 0x00, 0x00, 0x00, 0x40,
     0x80, 0x2a, 0x2a, 0x2a, 0x2a, 0x2a, 0x2a, 0x22,
     0x22, 0x22, 0x22, 0x22, 0x22, 0x22, 0x22, 0x22,
     0x22, 0x22, 0x22, 0x22, 0x22, 0x22, 0x22, 0x22,
     0x22, 0x22, 0x22, 0x00, 0x00, 0x00, 0x00, 0x00,
     0x40, 0x40, 0x40, 0x40, 0x40, 0x40, 0x40, 0x40,
     0x40, 0x40, 0x40, 0x40, 0x40, 0x40, 0x40, 0x40,
     0x40, 0x40, 0x40, 0x40, 0x40, 0x40, 0x40, 0x40,
     0x40, 0x40, 0x40, 0x40, 0x40, 0x40, 0x40, 0x40,
     0x40, 0x40, 0x40, 0x40, 0x40, 0x40, 0x40, 0x40,
     0x40, 0x40, 0x40, 0x40, 0x40, 0x40, 0x40, 0x40,
     0x40, 0x40, 0x40, 0x40, 0x40, 0x40, 0x40, 0x40,
     0x40, 0x40, 0x40, 0x40, 0x40, 0x40, 0x40, 0x40,
     0x40, 0x40, 0x40, 0x40, 0x40, 0x40, 0x40, 0x40,
     0x40, 0x40, 0x40, 0x40, 0x40, 0x40, 0x40, 0x40,
     0x40, 0x40, 0x40, 0x40, 0x40, 0x40, 0x40, 0x40,
     0x40, 0x40, 0x40, 0x40, 0x40, 0x40, 0x40, 0x40,
     0x40, 0x40, 0x40, 0x40, 0x40, 0x40, 0x40, 0x40,
     0x40, 0x40, 0x40, 0x40, 0x40, 0x40, 0x40, 0x40,
     0x40, 0x40, 0x40, 0x40, 0x40, 0x40, 0x40, 0x40,
     0x40, 0x40, 0x40, 0x40, 0x40, 0x40, 0x40, 0x40]"

definition aiClass :: "nat list" where
  "aiClass = [
     29, 28, 28, 28, 28, 28, 28, 28, 28, 7, 7, 28, 7, 7, 28, 28,
     28, 28, 28, 28, 28, 28, 28, 28, 28, 28, 28, 28, 28, 28, 28, 28,
     7, 15, 8, 5, 4, 22, 24, 8, 17, 18, 21, 20, 23, 11, 26, 16,
     3, 3, 3, 3, 3, 3, 3, 3, 3, 3, 5, 19, 12, 14, 13, 6,
     5, 1, 1, 1, 1, 1, 1, 1, 1, 1, 1, 1, 1, 1, 1, 1,
     1, 1, 1, 1, 1, 1, 1, 1, 0, 2, 2, 9, 28, 28, 28, 2,
     8, 1, 1, 1, 1, 1, 1, 1, 1, 1, 1, 1, 1, 1, 1, 1,
     1, 1, 1, 1, 1, 1, 1, 1, 0, 2, 2, 28, 10, 28, 25, 28,
     27, 27, 27, 27, 27, 27, 27, 27, 27, 27, 27, 27, 27, 27, 27, 27,
     27, 27, 27, 27, 27, 27, 27, 27, 27, 27, 27, 27, 27, 27, 27, 27,
     27, 27, 27, 27, 27, 27, 27, 27, 27, 27, 27, 27, 27, 27, 27, 27,
     27, 27, 27, 27, 27, 27, 27, 27, 27, 27, 27, 27, 27, 27, 27, 27,
     27, 27, 27, 27, 27, 27, 27, 27, 27, 27, 27, 27, 27, 27, 27, 27,
     27, 27, 27, 27, 27, 27, 27, 27, 27, 27, 27, 27, 27, 27, 27, 27,
     27, 27, 27, 27, 27, 27, 27, 27, 27, 27, 27, 27, 27, 27, 27, 30,
     27, 27, 27, 27, 27, 27, 27, 27, 27, 27, 27, 27, 27, 27, 27, 27]"

definition CC_X :: nat where "CC_X = 0"
definition CC_KYWD0 :: nat where "CC_KYWD0 = 1"
definition CC_KYWD :: nat where "CC_KYWD = 2"
definition CC_DIGIT :: nat where "CC_DIGIT = 3"
definition CC_DOLLAR :: nat where "CC_DOLLAR = 4"
definition CC_VARALPHA :: nat where "CC_VARALPHA = 5"
definition CC_VARNUM :: nat where "CC_VARNUM = 6"
definition CC_SPACE :: nat where "CC_SPACE = 7"
definition CC_QUOTE :: nat where "CC_QUOTE = 8"
definition CC_QUOTE2 :: nat where "CC_QUOTE2 = 9"
definition CC_PIPE :: nat where "CC_PIPE = 10"
definition CC_MINUS :: nat where "CC_MINUS = 11"
definition CC_LT :: nat where "CC_LT = 12"
definition CC_GT :: nat where "CC_GT = 13"
definition CC_EQ :: nat where "CC_EQ = 14"
definition CC_BANG :: nat where "CC_BANG = 15"
definition CC_SLASH :: nat where "CC_SLASH = 16"
definition CC_LP :: nat where "CC_LP = 17"
definition CC_RP :: nat where "CC_RP = 18"
definition CC_SEMI :: nat where "CC_SEMI = 19"
definition CC_PLUS :: nat where "CC_PLUS = 20"
definition CC_STAR :: nat where "CC_STAR = 21"
definition CC_PERCENT :: nat where "CC_PERCENT = 22"
definition CC_COMMA :: nat where "CC_COMMA = 23"
definition CC_AND :: nat where "CC_AND = 24"
definition CC_TILDA :: nat where "CC_TILDA = 25"
definition CC_DOT :: nat where "CC_DOT = 26"
definition CC_ID :: nat where "CC_ID = 27"
definition CC_ILLEGAL :: nat where "CC_ILLEGAL = 28"
definition CC_NUL :: nat where "CC_NUL = 29"
definition CC_BOM :: nat where "CC_BOM = 30"

lemmas cc_defs = CC_X_def CC_KYWD0_def CC_KYWD_def CC_DIGIT_def CC_DOLLAR_def CC_VARALPHA_def
  CC_VARNUM_def CC_SPACE_def CC_QUOTE_def CC_QUOTE2_def CC_PIPE_def CC_MINUS_def
  CC_LT_def CC_GT_def CC_EQ_def CC_BANG_def CC_SLASH_def CC_LP_def
  CC_RP_def CC_SEMI_def CC_PLUS_def CC_STAR_def CC_PERCENT_def CC_COMMA_def
  CC_AND_def CC_TILDA_def CC_DOT_def CC_ID_def CC_ILLEGAL_def CC_NUL_def
  CC_BOM_def

definition charMap :: "char \<Rightarrow> nat" where
  "charMap c = sqlite3UpperToLower ! code c"

definition sqlite3Isspace :: "char \<Rightarrow> bool" where
  "sqlite3Isspace c \<longleftrightarrow> sqlite3CtypeMap ! code c AND 0x01 \<noteq> 0"

definition sqlite3Isdigit :: "char \<Rightarrow> bool" where
  "sqlite3Isdigit c \<longleftrightarrow> sqlite3CtypeMap ! code c AND 0x04 \<noteq> 0"

definition sqlite3Isxdigit :: "char \<Rightarrow> bool" where
  "sqlite3Isxdigit c \<longleftrightarrow> sqlite3CtypeMap ! code c AND 0x08 \<noteq> 0"

definition sqlite3Isquote :: "char \<Rightarrow> bool" where
  "sqlite3Isquote c \<longleftrightarrow> sqlite3CtypeMap ! code c AND 0x80 \<noteq> 0"

definition sqlite3Toupper :: "char \<Rightarrow> nat" where
  "sqlite3Toupper c = code c AND (0xFF XOR (sqlite3CtypeMap ! code c AND 0x20))"

definition IdChar :: "char \<Rightarrow> bool" where
  "IdChar c \<longleftrightarrow> sqlite3CtypeMap ! code c AND 0x46 \<noteq> 0"

definition char_class :: "char \<Rightarrow> nat" where
  "char_class c = aiClass ! code c"

subsection \<open>The tables as functions\<close>

definition lower_code :: "nat \<Rightarrow> nat" where
  "lower_code n = (if 65 \<le> n \<and> n \<le> 90 then n + 32 else n)"

definition ctype_code :: "nat \<Rightarrow> nat" where
  "ctype_code n =
     (if n < 48 then
        if 9 \<le> n \<and> n \<le> 13 \<or> n = 32 then 1
        else if n = 34 \<or> n = 39 then 128 else if n = 36 then 64 else 0
      else if n < 58 then 12
      else if n < 65 then 0
      else if n < 71 then 10
      else if n < 91 then 2
      else if n < 97 then if n = 91 \<or> n = 96 then 128 else if n = 95 then 64 else 0
      else if n < 103 then 42
      else if n < 123 then 34
      else if n < 128 then 0 else 64)"

definition class_code :: "nat \<Rightarrow> nat" where
  "class_code n =
     (if n < 48 then
        if n = 0 then 29
        else if n = 9 \<or> n = 10 \<or> n = 12 \<or> n = 13 \<or> n = 32 then 7
        else if n < 32 then 28
        else if n = 33 then 15 else if n = 34 \<or> n = 39 then 8 else if n = 35 then 5
        else if n = 36 then 4 else if n = 37 then 22 else if n = 38 then 24
        else if n = 40 then 17 else if n = 41 then 18 else if n = 42 then 21
        else if n = 43 then 20 else if n = 44 then 23 else if n = 45 then 11
        else if n = 46 then 26 else 16
      else if n < 58 then 3
      else if n < 65 then
        if n = 58 then 5 else if n = 59 then 19 else if n = 60 then 12 else if n = 61 then 14
        else if n = 62 then 13 else if n = 63 then 6 else 5
      else if n < 91 then if n < 88 then 1 else if n = 88 then 0 else 2
      else if n < 97 then if n = 91 then 9 else if n = 95 then 2 else if n = 96 then 8 else 28
      else if n < 123 then if n < 120 then 1 else if n = 120 then 0 else 2
      else if n < 128 then if n = 124 then 10 else if n = 126 then 25 else 28
      else if n = 239 then 30 else 27)"

lemma sqlite3UpperToLower_eq: "sqlite3UpperToLower = map lower_code [0..<256]"
  by (simp add: sqlite3UpperToLower_def upt_conv_Cons lower_code_def)

lemma sqlite3CtypeMap_eq: "sqlite3CtypeMap = map ctype_code [0..<256]"
  by (simp add: sqlite3CtypeMap_def upt_conv_Cons ctype_code_def)

lemma aiClass_eq: "aiClass = map class_code [0..<256]"
  by (simp add: aiClass_def upt_conv_Cons class_code_def)

lemma table_at:
  "sqlite3UpperToLower ! code c = lower_code (code c)"
  "sqlite3CtypeMap ! code c = ctype_code (code c)"
  "aiClass ! code c = class_code (code c)"
  by (simp_all add: sqlite3UpperToLower_eq sqlite3CtypeMap_eq aiClass_eq)

lemma ctype_iffs:
  "sqlite3Isspace c \<longleftrightarrow> 9 \<le> code c \<and> code c \<le> 13 \<or> code c = 32"
  "sqlite3Isdigit c \<longleftrightarrow> 48 \<le> code c \<and> code c \<le> 57"
  "sqlite3Isxdigit c \<longleftrightarrow> 48 \<le> code c \<and> code c \<le> 57 \<or> 65 \<le> code c \<and> code c \<le> 70 \<or>
     97 \<le> code c \<and> code c \<le> 102"
  "sqlite3Isquote c \<longleftrightarrow> code c \<in> {34, 39, 91, 96}"
  "IdChar c \<longleftrightarrow> code c = 36 \<or> 48 \<le> code c \<and> code c \<le> 57 \<or> 65 \<le> code c \<and> code c \<le> 90 \<or>
     code c = 95 \<or> 97 \<le> code c \<and> code c \<le> 122 \<or> 128 \<le> code c"
  by (auto simp: sqlite3Isspace_def sqlite3Isdigit_def sqlite3Isxdigit_def sqlite3Isquote_def
      IdChar_def table_at ctype_code_def)

lemma charMap_eq: "charMap c = lower_code (code c)"
  by (simp add: charMap_def table_at)

lemma char_class_eq: "char_class c = class_code (code c)"
  by (simp add: char_class_def table_at)

lemma nul_classes [simp]:
  "\<not> sqlite3Isspace (CHR 0x00)" "\<not> sqlite3Isdigit (CHR 0x00)" "\<not> sqlite3Isxdigit (CHR 0x00)"
  "\<not> IdChar (CHR 0x00)" "char_class (CHR 0x00) = CC_NUL"
  by (simp_all add: ctype_iffs char_class_eq class_code_def CC_NUL_def)

text \<open>The characters a keyword is made of are the letters and the underscore.\<close>

lemma class_keyword:
  "char_class c \<le> CC_KYWD \<longleftrightarrow> 65 \<le> code c \<and> code c \<le> 90 \<or> code c = 95 \<or> 97 \<le> code c \<and> code c \<le> 122"
  by (simp add: char_class_eq CC_KYWD_def class_code_def)

lemma keyword_IdChar: "char_class c \<le> CC_KYWD \<Longrightarrow> IdChar c"
  by (auto simp: class_keyword ctype_iffs)

end
