(* ===== verification/Keyword_Lookup.thy ===== *)
theory Keyword_Lookup
  imports Sql_Keywords
begin

text \<open>
  The keyword search of \<open>Backend/sqlite3.c\<close> is a perfect lookup: the hash, the chains and the
  packed text together find exactly the 147 keywords, in any mixture of cases.
\<close>

subsection \<open>The table entries\<close>

text \<open>The entries of a table from index \<open>k\<close> on, as equations.\<close>

fun entries_from :: "'a list \<Rightarrow> nat \<Rightarrow> 'a list \<Rightarrow> bool" where
  "entries_from xs k [] = True"
| "entries_from xs k (y # ys) = (xs ! k = y \<and> entries_from xs (k + 1) ys)"

lemma entries_from_drop: "drop k xs = ys \<Longrightarrow> entries_from xs k ys"
proof (induction ys arbitrary: k)
  case Nil
  then show ?case by simp
next
  case (Cons y ys)
  then have "k < length xs" by (metis drop_all list.distinct(1) not_le)
  with Cons.prems have "xs ! k = y" "drop (Suc k) xs = ys"
    by (metis Cons_nth_drop_Suc list.inject)+
  with Cons.IH show ?case by simp
qed

lemma entries_of: "xs = ys \<Longrightarrow> entries_from xs 0 ys"
  by (rule entries_from_drop) simp

lemmas table_index =
  entries_from.simps add_0 one_add_one numeral_plus_one add_num_simps

lemmas aKW_at =
  entries_of [OF aKWHash_def, unfolded table_index, unfolded One_nat_def]
  entries_of [OF aKWNext_def, unfolded table_index, unfolded One_nat_def]
  entries_of [OF aKWLen_def, unfolded table_index, unfolded One_nat_def]
  entries_of [OF aKWCode_def, unfolded table_index, unfolded One_nat_def]

text \<open>The texts of the keywords, cut out of the packed text in one pass.\<close>

fun cut_texts :: "nat \<Rightarrow> string \<Rightarrow> (nat \<times> nat) list \<Rightarrow> string list" where
  "cut_texts c z [] = []"
| "cut_texts c z ((off, len) # ps) =
     (let z' = drop (off - c) z in take len z' # cut_texts off z' ps)"

fun ascending :: "nat \<Rightarrow> (nat \<times> nat) list \<Rightarrow> bool" where
  "ascending c [] = True"
| "ascending c ((off, len) # ps) = (c \<le> off \<and> ascending off ps)"

lemma cut_texts_eq:
  "ascending c ps \<Longrightarrow> z = drop c t \<Longrightarrow>
     cut_texts c z ps = map (\<lambda>(off, len). take len (drop off t)) ps"
  by (induction c z ps rule: cut_texts.induct) (auto simp: Let_def)

lemma keyword_table_lengths [simp]:
  "length aKWLen = 147" "length aKWOffset = 147" "length aKWNext = 147" "length aKWCode = 147"
  "length aKWHash = 127"
  by (simp_all add: aKWLen_def aKWOffset_def aKWNext_def aKWCode_def aKWHash_def)

definition keyword_list :: "string list" where
  "keyword_list = [
   ''REINDEX'', ''INDEXED'', ''INDEX'', ''DESC'', ''ESCAPE'', ''EACH'', ''CHECK'', ''KEY'',
   ''BEFORE'', ''FOREIGN'', ''FOR'', ''IGNORE'', ''REGEXP'', ''EXPLAIN'', ''INSTEAD'', ''ADD'',
   ''DATABASE'', ''AS'', ''SELECT'', ''TABLE'', ''LEFT'', ''THEN'', ''END'', ''DEFERRABLE'',
   ''ELSE'', ''EXCLUDE'', ''DELETE'', ''TEMPORARY'', ''TEMP'', ''OR'', ''ISNULL'', ''NULLS'',
   ''SAVEPOINT'', ''INTERSECT'', ''TIES'', ''NOTNULL'', ''NOT'', ''NO'', ''NULL'', ''LIKE'',
   ''EXCEPT'', ''TRANSACTION'', ''ACTION'', ''ON'', ''NATURAL'', ''ALTER'', ''RAISE'',
   ''EXCLUSIVE'', ''EXISTS'', ''CONSTRAINT'', ''INTO'', ''OFFSET'', ''OF'', ''SET'',
   ''TRIGGER'', ''RANGE'', ''GENERATED'', ''DETACH'', ''HAVING'', ''GLOB'', ''BEGIN'',
   ''INNER'', ''REFERENCES'', ''UNIQUE'', ''QUERY'', ''WITHOUT'', ''WITH'', ''OUTER'',
   ''RELEASE'', ''ATTACH'', ''BETWEEN'', ''NOTHING'', ''GROUPS'', ''GROUP'', ''CASCADE'',
   ''ASC'', ''DEFAULT'', ''CASE'', ''COLLATE'', ''CREATE'', ''CURRENT_DATE'', ''IMMEDIATE'',
   ''JOIN'', ''INSERT'', ''MATCH'', ''PLAN'', ''ANALYZE'', ''PRAGMA'', ''MATERIALIZED'',
   ''DEFERRED'', ''DISTINCT'', ''IS'', ''UPDATE'', ''VALUES'', ''VIRTUAL'', ''ALWAYS'',
   ''WHEN'', ''WHERE'', ''RECURSIVE'', ''ABORT'', ''AFTER'', ''RENAME'', ''AND'', ''DROP'',
   ''PARTITION'', ''AUTOINCREMENT'', ''TO'', ''IN'', ''CAST'', ''COLUMN'', ''COMMIT'',
   ''CONFLICT'', ''CROSS'', ''CURRENT_TIMESTAMP'', ''CURRENT_TIME'', ''CURRENT'',
   ''PRECEDING'', ''FAIL'', ''LAST'', ''FILTER'', ''REPLACE'', ''FIRST'', ''FOLLOWING'',
   ''FROM'', ''FULL'', ''LIMIT'', ''IF'', ''ORDER'', ''RESTRICT'', ''OTHERS'', ''OVER'',
   ''RETURNING'', ''RIGHT'', ''ROLLBACK'', ''ROWS'', ''ROW'', ''UNBOUNDED'', ''UNION'',
   ''USING'', ''VACUUM'', ''VIEW'', ''WINDOW'', ''DO'', ''BY'', ''INITIALLY'', ''ALL'',
   ''PRIMARY'']"

lemma keyword_texts: "map keyword_text [0..<147] = keyword_list"
proof -
  have "map keyword_text [0..<147] = map (\<lambda>(off, len). take len (drop off zKWText)) (zip aKWOffset aKWLen)"
    by (rule nth_equalityI) (simp_all add: keyword_text_def)
  also have "\<dots> = cut_texts 0 zKWText (zip aKWOffset aKWLen)"
    by (rule cut_texts_eq [symmetric]) (simp_all add: aKWOffset_def aKWLen_def)
  also have "\<dots> = keyword_list"
    by code_simp
  finally show ?thesis .
qed


lemma keyword_text_at:
  "i < 147 \<Longrightarrow> keyword_text i = keyword_list ! i"
  by (simp flip: keyword_texts)

definition clear_code :: "nat \<Rightarrow> nat" where
  "clear_code n = (if odd (n div 32) then n - 32 else n)"

lemma clear_case_eq: "clear_case c = clear_code (code c)"
proof -
  have "[0..<256] = 0 # 1 # [2..<256 :: nat]"
    by (simp only: upt_conv_Cons) (simp add: upt_conv_Cons numeral_2_eq_2)
  then have "map (\<lambda>n. n AND (0xFF XOR 0x20)) [0..<256] = map clear_code [0..<256]"
    by (simp add: clear_code_def)
  then have "\<forall>n \<in> set [0..<256]. n AND (0xFF XOR 0x20) = clear_code n"
    by (simp only: map_eq_conv)
  moreover have "code c \<in> set [0..<256]" by simp
  ultimately show ?thesis unfolding clear_case_def by blast
qed

text \<open>A letter in upper case.\<close>

definition upper :: "char \<Rightarrow> char" where
  "upper c = (if 97 \<le> code c \<and> code c \<le> 122 then char_of (code c - 32) else c)"

definition is_keyword_char :: "char \<Rightarrow> bool" where
  "is_keyword_char c \<longleftrightarrow> char_class c \<le> CC_KYWD"

lemma code_upper: "code (upper c) = (if 97 \<le> code c \<and> code c \<le> 122 then code c - 32 else code c)"
  by (auto simp: upper_def intro!: mod_less)

lemma clear_case_upper:
  assumes "is_keyword_char c"
  shows "clear_case c = code (upper c)"
proof -
  from assms consider "65 \<le> code c \<and> code c \<le> 90 \<or> code c = 95" | "97 \<le> code c \<and> code c \<le> 122"
    unfolding is_keyword_char_def class_keyword by blast
  then show ?thesis
  proof cases
    case 1
    then have "code c div 32 = 2" "\<not> 97 \<le> code c" by linarith+
    then show ?thesis by (simp add: clear_case_eq clear_code_def code_upper)
  next
    case 2
    then have "code c div 32 = 3" by linarith
    with 2 show ?thesis by (simp add: clear_case_eq clear_code_def code_upper)
  qed
qed

lemma charMap_upper: "charMap (upper c) = charMap c"
  by (auto simp: charMap_eq lower_code_def code_upper)

lemma map_code_inj: "map code xs = map code ys \<longleftrightarrow> xs = ys"
  by (rule inj_map_eq_map) (simp add: inj_on_def)

text \<open>The search for an upper case word, with the texts read from the list.\<close>

fun upper_chain :: "nat \<Rightarrow> string \<Rightarrow> nat \<Rightarrow> nat option" where
  "upper_chain 0 w i = None"
| "upper_chain (Suc fuel) w 0 = None"
| "upper_chain (Suc fuel) w (Suc i) =
     (if keyword_list ! i = w then Some (aKWCode ! i) else upper_chain fuel w (aKWNext ! i))"

lemma upper_chain_numeral:
  "upper_chain (numeral k) w 0 = None"
  "upper_chain (numeral k) w (Suc 0) =
     (if keyword_list ! 0 = w then Some (aKWCode ! 0)
      else upper_chain (pred_numeral k) w (aKWNext ! 0))"
  "upper_chain (numeral k) w (numeral i) =
     (if keyword_list ! pred_numeral i = w then Some (aKWCode ! pred_numeral i)
      else upper_chain (pred_numeral k) w (aKWNext ! pred_numeral i))"
  by (simp_all add: numeral_eq_Suc)

lemmas keyword_list_at = entries_of [OF keyword_list_def, unfolded table_index, unfolded One_nat_def]

lemma keyword_codes:
  "map (\<lambda>w. upper_chain 147 w (aKWHash ! keyword_hash w (length w))) keyword_list = map Some aKWCode"
  unfolding keyword_list_def aKWCode_def
  by (simp add: keyword_hash_def charMap_eq lower_code_def zat_def numeral_2_eq_2 [symmetric]
    aKW_at keyword_list_at upper_chain_numeral)
lemma keyword_lens: "map length keyword_list = aKWLen"
  unfolding keyword_list_def aKWLen_def by simp

lemma aKWNext_bound: "list_all (\<lambda>i. i \<le> 147) aKWNext"
  unfolding aKWNext_def by simp

lemma aKWHash_bound: "list_all (\<lambda>i. i \<le> 147) aKWHash"
  unfolding aKWHash_def by simp

lemma length_keyword_list [simp]: "length keyword_list = 147"
  using arg_cong [OF keyword_lens, of length] by simp

lemma keyword_matches_upper:
  assumes "i < 147" "n \<le> length z" "list_all is_keyword_char (take n z)"
  shows "keyword_matches z n i \<longleftrightarrow> keyword_list ! i = map upper (take n z)"
proof -
  have "aKWLen ! i = length (keyword_list ! i)"
    using assms(1) by (simp flip: keyword_lens)
  moreover have "map clear_case (take n z) = map code (map upper (take n z))"
    using assms(3) by (auto simp: list_all_iff clear_case_upper)
  ultimately show ?thesis
    using assms(2) unfolding keyword_matches_def keyword_text_at [OF assms(1)]
    by (simp only: map_code_inj) (auto simp: min_def)
qed

lemma keyword_chain_upper:
  assumes "n \<le> length z" "list_all is_keyword_char (take n z)"
  shows "s \<le> 147 \<Longrightarrow> keyword_chain fuel z n s = upper_chain fuel (map upper (take n z)) s"
proof (induction fuel arbitrary: s)
  case (Suc fuel)
  show ?case
  proof (cases s)
    case (Suc i)
    then have "i < 147" "aKWNext ! i \<le> 147"
      using Suc.prems aKWNext_bound by (simp_all add: list_all_length)
    with Suc.IH Suc keyword_matches_upper [OF _ assms] show ?thesis by simp
  qed simp
qed simp

lemma keyword_hash_upper:
  assumes "0 < n" "n \<le> length z"
  shows "keyword_hash (map upper (take n z)) n = keyword_hash z n"
proof -
  have "z \<noteq> []" "n - 1 < length z" using assms by auto
  with assms show ?thesis by (simp add: keyword_hash_def zat_def charMap_upper)
qed

lemma upper_chain_sound:
  "upper_chain fuel w s = Some t \<Longrightarrow> s \<le> 147 \<Longrightarrow> \<exists>k < 147. keyword_list ! k = w \<and> t = aKWCode ! k"
proof (induction fuel w s rule: upper_chain.induct)
  case (3 fuel w i)
  then have "i < 147" "aKWNext ! i \<le> 147"
    using aKWNext_bound by (simp_all add: list_all_length)
  with 3 show ?case by (auto split: if_splits)
qed simp_all

lemma upper_lookup:
  "upper_chain 147 w (aKWHash ! keyword_hash w (length w)) = map_of (zip keyword_list aKWCode) w"
  (is "?l = ?r")
proof -
  have start: "aKWHash ! keyword_hash w (length w) \<le> 147"
    using aKWHash_bound by (simp add: list_all_length keyword_hash_def)
  have found: "?l = Some (aKWCode ! k)" if "k < 147" "keyword_list ! k = w" for k
    using arg_cong [OF keyword_codes, of "\<lambda>xs. xs ! k"] that by simp
  show ?thesis
  proof (cases "?r")
    case None
    then have "w \<notin> set keyword_list" by (simp add: map_of_zip_is_None)
    then show ?thesis
      using None upper_chain_sound [OF _ start] by (metis length_keyword_list not_None_eq nth_mem)
  next
    case (Some t)
    then obtain k where "k < 147" "keyword_list ! k = w" "aKWCode ! k = t"
      by (auto dest!: map_of_SomeD simp: set_zip)
    with Some found show ?thesis by auto
  qed
qed

lemma keywords_long: "list_all (\<lambda>w. 2 \<le> length w) keyword_list"
  unfolding keyword_list_def by simp

lemma short_words: "length w < 2 \<Longrightarrow> map_of (zip keyword_list aKWCode) w = None"
  using keywords_long by (auto simp: map_of_zip_is_None list_all_iff)

lemma keywordCode_table:
  assumes "n \<le> length z" "list_all is_keyword_char (take n z)"
  shows "keywordCode z n = map_of (zip keyword_list aKWCode) (map upper (take n z))"
proof (cases "2 \<le> n")
  case True
  let ?w = "map upper (take n z)"
  have "keyword_hash z n = keyword_hash ?w (length ?w)"
    using True assms(1) keyword_hash_upper [of n z] by simp
  moreover have "aKWHash ! keyword_hash z n \<le> 147"
    using aKWHash_bound by (simp add: list_all_length keyword_hash_def)
  ultimately show ?thesis
    using True keyword_chain_upper [OF assms] upper_lookup [of ?w]
    unfolding keywordCode_def SQLITE_N_KEYWORD_def by simp
next
  case False
  then show ?thesis
    by (simp add: keywordCode_def short_words)
qed


subsection \<open>The lookup\<close>

text \<open>C31: For a word of letters and underscores, \<open>sqlite3KeywordCode\<close> (hash, chain and packed
  text) is the lookup of the upper case word in the list of the 147 keywords, and TK_ID when
  the word is not in it.\<close>

theorem keyword_lookup:
  assumes "n \<le> length z" "list_all is_keyword_char (take n z)"
  shows "sqlite3KeywordCode z n =
    (case map_of (zip keyword_list aKWCode) (map upper (take n z)) of None \<Rightarrow> TK_ID | Some t \<Rightarrow> t)"
  by (simp add: sqlite3KeywordCode_def keywordCode_table [OF assms])

lemma keyword_lookup_witness: "sqlite3KeywordCode ''Select x'' 6 = TK_SELECT"
proof -
  have "6 \<le> length ''Select x''" "list_all is_keyword_char (take 6 ''Select x'')"
    by (simp_all add: is_keyword_char_def class_keyword)
  from keyword_lookup [OF this] show ?thesis
    by (simp add: upper_def keyword_list_def aKWCode_def char_of_eq_iff take_bit_eq_mod)
qed

lemma keyword_list_chars: "list_all (list_all is_keyword_char) keyword_list"
  unfolding keyword_list_def by (simp add: is_keyword_char_def class_keyword)

lemma keyword_list_upper: "list_all (\<lambda>w. map upper w = w) keyword_list"
  unfolding keyword_list_def by (simp add: upper_def)

lemma aKWCode_not_ID: "list_all (\<lambda>t. t \<noteq> TK_ID) aKWCode"
  unfolding aKWCode_def by (simp add: tk_defs)

lemma keywordCode_keyword:
  assumes "w \<in> set keyword_list"
  shows "\<exists>t \<in> set aKWCode. keywordCode w (length w) = Some t"
proof -
  have "list_all is_keyword_char (take (length w) w)" "map upper w = w"
    using assms keyword_list_chars keyword_list_upper by (auto simp: list_all_iff)
  then have "keywordCode w (length w) = map_of (zip keyword_list aKWCode) w"
    using keywordCode_table [of "length w" w] by simp
  moreover obtain t where "map_of (zip keyword_list aKWCode) w = Some t"
    using assms map_of_zip_is_None [of keyword_list aKWCode w] by (cases "map_of (zip keyword_list aKWCode) w") auto
  moreover from this have "t \<in> set aKWCode"
    by (auto dest!: map_of_SomeD set_zip_rightD)
  ultimately show ?thesis by simp
qed

text \<open>Every name that \<open>sqlite3_keyword_name\<close> gives for an index below the count passes
  \<open>sqlite3_keyword_check\<close>, and an index out of range is an error.\<close>

theorem keyword_names_checked:
  "case sqlite3_keyword_name i of
     None \<Rightarrow> i < 0 \<or> int sqlite3_keyword_count \<le> i
   | Some w \<Rightarrow> 0 \<le> i \<and> i < int sqlite3_keyword_count \<and> sqlite3_keyword_check w (length w)"
proof (cases "i < 0 \<or> int SQLITE_N_KEYWORD \<le> i")
  case False
  then have "nat i < 147" by (auto simp: SQLITE_N_KEYWORD_def)
  then have "keyword_text (nat i) \<in> set keyword_list"
    by (simp add: keyword_text_at)
  with False show ?thesis
    using keywordCode_keyword [of "keyword_text (nat i)"] aKWCode_not_ID
    by (auto simp: sqlite3_keyword_name_def sqlite3_keyword_count_def sqlite3_keyword_check_def
        sqlite3KeywordCode_def list_all_iff)
qed (simp add: sqlite3_keyword_name_def sqlite3_keyword_count_def)

end
