(* ===== verification/Sql_Grammar.thy ===== *)
theory Sql_Grammar
  imports Keyword_Lookup
begin

text \<open>
  The tables of the LALR(1) parser that \<open>Backend/sqlite3.c\<close> runs on the tokens: the actions, the
  token each action is for, the offsets of a state's rows, the default actions, the fallback
  tokens, and the left-hand side and (negated) length of every rule.  The long tables are cut
  into parts of some thirty rows of the source.
\<close>

subsection \<open>Constants\<close>

definition YYNOCODE :: nat where "YYNOCODE = 319"
definition YYWILDCARD :: nat where "YYWILDCARD = 101"
definition YYSTACKDEPTH :: nat where "YYSTACKDEPTH = 100"
definition YYNSTATE :: nat where "YYNSTATE = 576"
definition YYNRULE :: nat where "YYNRULE = 405"
definition YYNTOKEN :: nat where "YYNTOKEN = 185"
definition YY_MAX_SHIFT :: nat where "YY_MAX_SHIFT = 575"
definition YY_MIN_SHIFTREDUCE :: nat where "YY_MIN_SHIFTREDUCE = 835"
definition YY_MAX_SHIFTREDUCE :: nat where "YY_MAX_SHIFTREDUCE = 1239"
definition YY_ERROR_ACTION :: nat where "YY_ERROR_ACTION = 1240"
definition YY_ACCEPT_ACTION :: nat where "YY_ACCEPT_ACTION = 1241"
definition YY_NO_ACTION :: nat where "YY_NO_ACTION = 1242"
definition YY_MIN_REDUCE :: nat where "YY_MIN_REDUCE = 1243"
definition YY_MAX_REDUCE :: nat where "YY_MAX_REDUCE = 1647"
definition YY_ACTTAB_COUNT :: nat where "YY_ACTTAB_COUNT = 2098"
definition YY_SHIFT_COUNT :: nat where "YY_SHIFT_COUNT = 575"
definition YY_REDUCE_COUNT :: nat where "YY_REDUCE_COUNT = 408"

lemmas yy_consts =
  YYNOCODE_def YYWILDCARD_def YYSTACKDEPTH_def YYNSTATE_def YYNRULE_def YYNTOKEN_def
  YY_MAX_SHIFT_def YY_MIN_SHIFTREDUCE_def YY_MAX_SHIFTREDUCE_def YY_ERROR_ACTION_def
  YY_ACCEPT_ACTION_def YY_NO_ACTION_def YY_MIN_REDUCE_def YY_MAX_REDUCE_def YY_ACTTAB_COUNT_def
  YY_SHIFT_COUNT_def YY_REDUCE_COUNT_def

subsection \<open>\<open>yy_action\<close>\<close>

definition yy_action_1 :: "nat list" where
  "yy_action_1 = [568, 208, 568, 118, 115, 229, 568, 118, 115, 229, 568, 1314, 377, 1293, 408, 562, 562,
     562, 568, 409, 378, 1314, 1276, 41, 41, 41, 41, 208, 1526, 71, 71, 971, 419, 41, 41,
     491, 303, 279, 303, 972, 397, 71, 71, 125, 126, 80, 1217, 1217, 1050, 1053, 1040, 1040,
     123, 123, 124, 124, 124, 124, 476, 409, 1241, 1, 1, 575, 2, 1245, 550, 118, 115, 229,
     317, 480, 146, 480, 524, 118, 115, 229, 529, 1327, 417, 523, 142, 125, 126, 80, 1217,
     1217, 1050, 1053, 1040, 1040, 123, 123, 124, 124, 124, 124, 118, 115, 229, 327, 122,
     122, 122, 122, 121, 121, 120, 120, 120, 119, 116, 444, 284, 284, 284, 284, 442, 442,
     442, 1567, 376, 1569, 1192, 375, 1163, 565, 1163, 565, 409, 1567, 537, 259, 226, 444,
     101, 145, 449, 316, 559, 240, 122, 122, 122, 122, 121, 121, 120, 120, 120, 119, 116,
     444, 125, 126, 80, 1217, 1217, 1050, 1053, 1040, 1040, 123, 123, 124, 124, 124, 124,
     142, 294, 1192, 339, 448, 120, 120, 120, 119, 116, 444, 127, 1192, 1193, 1194, 148, 441,
     440, 568, 119, 116, 444, 124, 124, 124, 124, 117, 122, 122, 122, 122, 121, 121, 120,
     120, 120, 119, 116, 444, 454, 113, 13, 13, 546, 122, 122, 122, 122, 121, 121, 120, 120,
     120, 119, 116, 444, 422, 316, 559, 1192, 1193, 1194, 149, 1224, 409, 1224, 124, 124,
     124, 124, 122, 122, 122, 122, 121, 121, 120, 120, 120, 119, 116, 444, 465, 342, 1037,
     1037, 1051, 1054, 125, 126, 80, 1217, 1217, 1050, 1053, 1040, 1040, 123, 123, 124, 124,
     124, 124, 1279, 522, 222, 1192, 568, 409, 224, 514, 175, 82, 83, 122, 122, 122, 122,
     121, 121, 120, 120, 120, 119, 116, 444, 1007, 16, 16, 1192, 133]"

definition yy_action_2 :: "nat list" where
  "yy_action_2 = [133, 125, 126, 80, 1217, 1217, 1050, 1053, 1040, 1040, 123, 123, 124, 124, 124, 124,
     122, 122, 122, 122, 121, 121, 120, 120, 120, 119, 116, 444, 1041, 546, 1192, 373, 1192,
     1193, 1194, 252, 1434, 399, 504, 501, 500, 111, 560, 566, 4, 926, 926, 433, 499, 340,
     460, 328, 360, 394, 1237, 1192, 1193, 1194, 563, 568, 122, 122, 122, 122, 121, 121, 120,
     120, 120, 119, 116, 444, 284, 284, 369, 1580, 1607, 441, 440, 154, 409, 445, 71, 71,
     1286, 565, 1221, 1192, 1193, 1194, 85, 1223, 271, 557, 543, 515, 1561, 568, 98, 1222, 6,
     1278, 472, 142, 125, 126, 80, 1217, 1217, 1050, 1053, 1040, 1040, 123, 123, 124, 124,
     124, 124, 550, 13, 13, 1027, 507, 1224, 1192, 1224, 549, 109, 109, 222, 568, 1238, 175,
     568, 427, 110, 197, 445, 570, 569, 430, 1552, 1017, 325, 551, 1192, 270, 287, 368, 510,
     363, 509, 257, 71, 71, 543, 71, 71, 359, 316, 559, 1613, 122, 122, 122, 122, 121, 121,
     120, 120, 120, 119, 116, 444, 1017, 1017, 1019, 1020, 27, 284, 284, 1192, 1193, 1194,
     1158, 568, 1612, 409, 901, 190, 550, 356, 565, 550, 937, 533, 517, 1158, 516, 413, 1158,
     552, 1192, 1193, 1194, 568, 544, 1554, 51, 51, 214, 125, 126, 80, 1217, 1217, 1050,
     1053, 1040, 1040, 123, 123, 124, 124, 124, 124, 1192, 474, 135, 135, 409, 284, 284,
     1490, 505, 121, 121, 120, 120, 120, 119, 116, 444, 1007, 565, 518, 217, 541, 1561, 316,
     559, 142, 6, 532, 125, 126, 80, 1217, 1217, 1050, 1053, 1040, 1040, 123, 123, 124, 124,
     124, 124, 1555, 122, 122, 122, 122, 121, 121, 120, 120, 120, 119, 116, 444, 485, 1192,
     1193, 1194, 482, 281, 1267, 957, 252, 1192, 373, 504, 501, 500, 1192, 340, 571]"

definition yy_action_3 :: "nat list" where
  "yy_action_3 = [1192, 571, 409, 292, 499, 957, 876, 191, 480, 316, 559, 384, 290, 380, 122, 122, 122,
     122, 121, 121, 120, 120, 120, 119, 116, 444, 125, 126, 80, 1217, 1217, 1050, 1053, 1040,
     1040, 123, 123, 124, 124, 124, 124, 409, 394, 1136, 1192, 869, 100, 284, 284, 1192,
     1193, 1194, 373, 1093, 1192, 1193, 1194, 1192, 1193, 1194, 565, 455, 32, 373, 233, 125,
     126, 80, 1217, 1217, 1050, 1053, 1040, 1040, 123, 123, 124, 124, 124, 124, 1433, 959,
     568, 228, 958, 122, 122, 122, 122, 121, 121, 120, 120, 120, 119, 116, 444, 1158, 228,
     1192, 157, 1192, 1193, 1194, 1553, 13, 13, 301, 957, 1232, 1158, 153, 409, 1158, 373,
     1583, 1176, 5, 369, 1580, 429, 1238, 3, 957, 122, 122, 122, 122, 121, 121, 120, 120,
     120, 119, 116, 444, 125, 126, 80, 1217, 1217, 1050, 1053, 1040, 1040, 123, 123, 124,
     124, 124, 124, 409, 208, 567, 1192, 1028, 1192, 1193, 1194, 1192, 388, 852, 155, 1552,
     286, 402, 1098, 1098, 488, 568, 465, 342, 1319, 1319, 1552, 125, 126, 80, 1217, 1217,
     1050, 1053, 1040, 1040, 123, 123, 124, 124, 124, 124, 129, 568, 13, 13, 374, 122, 122,
     122, 122, 121, 121, 120, 120, 120, 119, 116, 444, 302, 568, 453, 528, 1192, 1193, 1194,
     13, 13, 1192, 1193, 1194, 1297, 463, 1267, 409, 1317, 1317, 1552, 1012, 453, 452, 200,
     299, 71, 71, 1265, 122, 122, 122, 122, 121, 121, 120, 120, 120, 119, 116, 444, 125, 126,
     80, 1217, 1217, 1050, 1053, 1040, 1040, 123, 123, 124, 124, 124, 124, 409, 227, 1073,
     1158, 284, 284, 419, 312, 278, 278, 285, 285, 1419, 406, 405, 382, 1158, 565, 568, 1158,
     1196, 565, 1600, 565, 125, 126, 80, 1217, 1217, 1050, 1053, 1040, 1040, 123, 123, 124,
     124, 124, 124]"

definition yy_action_4 :: "nat list" where
  "yy_action_4 = [453, 1482, 13, 13, 1536, 122, 122, 122, 122, 121, 121, 120, 120, 120, 119, 116, 444,
     201, 568, 354, 1586, 575, 2, 1245, 840, 841, 842, 1562, 317, 1212, 146, 6, 409, 255,
     254, 253, 206, 1327, 9, 1196, 262, 71, 71, 424, 122, 122, 122, 122, 121, 121, 120, 120,
     120, 119, 116, 444, 125, 126, 80, 1217, 1217, 1050, 1053, 1040, 1040, 123, 123, 124,
     124, 124, 124, 568, 284, 284, 568, 1213, 409, 574, 313, 1245, 349, 1296, 352, 419, 317,
     565, 146, 491, 525, 1643, 395, 371, 491, 1327, 70, 70, 1295, 71, 71, 240, 1325, 104, 80,
     1217, 1217, 1050, 1053, 1040, 1040, 123, 123, 124, 124, 124, 124, 122, 122, 122, 122,
     121, 121, 120, 120, 120, 119, 116, 444, 1114, 284, 284, 428, 448, 1525, 1213, 439, 284,
     284, 1489, 1352, 311, 474, 565, 1115, 971, 491, 491, 217, 1263, 565, 1538, 568, 972,
     207, 568, 1027, 240, 383, 1116, 519, 122, 122, 122, 122, 121, 121, 120, 120, 120, 119,
     116, 444, 1018, 107, 71, 71, 1017, 13, 13, 912, 568, 1495, 568, 284, 284, 97, 526, 491,
     448, 913, 1326, 1322, 545, 409, 284, 284, 565, 151, 209, 1495, 1497, 262, 450, 55, 55,
     56, 56, 565, 1017, 1017, 1019, 443, 332, 409, 527, 12, 295, 125, 126, 80, 1217, 1217,
     1050, 1053, 1040, 1040, 123, 123, 124, 124, 124, 124, 347, 409, 864, 1534, 1213, 125,
     126, 80, 1217, 1217, 1050, 1053, 1040, 1040, 123, 123, 124, 124, 124, 124, 1137, 1641,
     474, 1641, 371, 125, 114, 80, 1217, 1217, 1050, 1053, 1040, 1040, 123, 123, 124, 124,
     124, 124, 1495, 329, 474, 331, 122, 122, 122, 122, 121, 121, 120, 120, 120, 119, 116,
     444, 203, 1419, 568, 1294, 864, 464, 1213, 436, 122, 122, 122, 122, 121]"

definition yy_action_5 :: "nat list" where
  "yy_action_5 = [121, 120, 120, 120, 119, 116, 444, 553, 1137, 1642, 539, 1642, 15, 15, 892, 122, 122,
     122, 122, 121, 121, 120, 120, 120, 119, 116, 444, 568, 298, 538, 1135, 1419, 1559, 1560,
     1331, 409, 6, 6, 1169, 1268, 415, 320, 284, 284, 1419, 508, 565, 525, 300, 457, 43, 43,
     568, 893, 12, 565, 330, 478, 425, 407, 126, 80, 1217, 1217, 1050, 1053, 1040, 1040, 123,
     123, 124, 124, 124, 124, 568, 57, 57, 288, 1192, 1419, 496, 458, 392, 392, 391, 273,
     389, 1135, 1558, 849, 1169, 407, 6, 568, 321, 1158, 470, 44, 44, 1557, 1114, 426, 234,
     6, 323, 256, 540, 256, 1158, 431, 568, 1158, 322, 17, 487, 1115, 58, 58, 122, 122, 122,
     122, 121, 121, 120, 120, 120, 119, 116, 444, 1116, 216, 481, 59, 59, 1192, 1193, 1194,
     111, 560, 324, 4, 236, 456, 526, 568, 237, 456, 568, 437, 168, 556, 420, 141, 479, 563,
     568, 293, 568, 1095, 568, 293, 568, 1095, 531, 568, 872, 8, 60, 60, 235, 61, 61, 568,
     414, 568, 414, 568, 445, 62, 62, 45, 45, 46, 46, 47, 47, 199, 49, 49, 557, 568, 359,
     568, 100, 486, 50, 50, 63, 63, 64, 64, 561, 415, 535, 410, 568, 1027, 568, 534, 316,
     559, 316, 559, 65, 65, 14, 14, 568, 1027, 568, 512, 932, 872, 1018, 109, 109, 931, 1017,
     66, 66, 131, 131, 110, 451, 445, 570, 569, 416, 177, 1017, 132, 132, 67, 67, 568, 467,
     568, 932, 471, 1364, 283, 226, 931, 315, 1363, 407, 568, 459, 407, 1017, 1017, 1019,
     239, 407, 86, 213, 1350, 52, 52, 68, 68, 1017, 1017, 1019, 1020, 27, 1585, 1180, 447,
     69, 69, 288, 97, 108, 1541, 106, 392, 392, 391, 273, 389, 568, 879, 849, 883, 568, 111,
     560, 466]"

definition yy_action_6 :: "nat list" where
  "yy_action_6 = [4, 568, 152, 30, 38, 568, 1132, 234, 396, 323, 111, 560, 527, 4, 563, 53, 53, 322, 568,
     163, 163, 568, 337, 468, 164, 164, 333, 563, 76, 76, 568, 289, 1514, 568, 31, 1513, 568,
     445, 338, 483, 100, 54, 54, 344, 72, 72, 296, 236, 1080, 557, 445, 879, 1360, 134, 134,
     168, 73, 73, 141, 161, 161, 1574, 557, 535, 568, 319, 568, 348, 536, 1009, 473, 261,
     261, 891, 890, 235, 535, 568, 1027, 568, 475, 534, 261, 367, 109, 109, 521, 136, 136,
     130, 130, 1027, 110, 366, 445, 570, 569, 109, 109, 1017, 162, 162, 156, 156, 568, 110,
     1080, 445, 570, 569, 410, 351, 1017, 568, 353, 316, 559, 568, 343, 568, 100, 497, 357,
     258, 100, 898, 899, 140, 140, 355, 1310, 1017, 1017, 1019, 1020, 27, 139, 139, 362, 451,
     137, 137, 138, 138, 1017, 1017, 1019, 1020, 27, 1180, 447, 568, 372, 288, 111, 560,
     1021, 4, 392, 392, 391, 273, 389, 568, 1141, 849, 568, 1076, 568, 258, 492, 563, 568,
     211, 75, 75, 555, 962, 234, 261, 323, 111, 560, 929, 4, 113, 77, 77, 322, 74, 74, 42,
     42, 1373, 445, 48, 48, 1418, 563, 974, 975, 1092, 1091, 1092, 1091, 862, 557, 150, 930,
     1346, 113, 1358, 554, 1424, 1021, 1275, 1266, 1254, 236, 1253, 1255, 445, 1593, 1343,
     308, 276, 168, 309, 11, 141, 393, 310, 232, 557, 1405, 1027, 335, 291, 1400, 219, 336,
     109, 109, 936, 297, 1410, 235, 341, 477, 110, 502, 445, 570, 569, 1393, 1409, 1017, 400,
     1293, 365, 223, 1486, 1027, 1485, 1355, 1356, 1354, 1353, 109, 109, 204, 1596, 1232,
     558, 265, 218, 110, 205, 445, 570, 569, 410, 387, 1017, 1533, 179, 316, 559, 1017, 1017,
     1019, 1020, 27, 230, 1531, 1229, 79, 560, 85, 4]"

definition yy_action_7 :: "nat list" where
  "yy_action_7 = [418, 215, 548, 81, 84, 188, 1406, 173, 181, 461, 451, 35, 462, 563, 183, 1017, 1017,
     1019, 1020, 27, 184, 1491, 185, 186, 495, 242, 98, 398, 1412, 36, 1411, 484, 91, 469,
     401, 1414, 445, 192, 1480, 246, 1502, 490, 346, 277, 248, 196, 493, 511, 557, 350, 1256,
     249, 250, 403, 1313, 1312, 111, 560, 432, 4, 1311, 1304, 93, 1611, 883, 1610, 224, 404,
     434, 520, 263, 435, 1579, 563, 1283, 1282, 364, 1027, 306, 1281, 264, 1609, 1565, 109,
     109, 370, 1303, 307, 1564, 438, 128, 110, 1378, 445, 570, 569, 445, 546, 1017, 10, 1466,
     105, 381, 1377, 34, 572, 99, 1336, 557, 314, 1186, 530, 272, 274, 379, 210, 1335, 547,
     385, 386, 275, 573, 1251, 1246, 411, 412, 1518, 165, 178, 1519, 1017, 1017, 1019, 1020,
     27, 1517, 1516, 1027, 78, 147, 166, 220, 221, 109, 109, 836, 304, 167, 446, 212, 318,
     110, 231, 445, 570, 569, 144, 1090, 1017, 1088, 326, 180, 169, 1212, 182, 334, 238, 915,
     241, 1104, 187, 170, 171, 421, 87, 88, 423, 189, 89, 90, 172, 1107, 243, 1103, 244, 158,
     18, 245, 345, 247, 1017, 1017, 1019, 1020, 27, 261, 1096, 193, 1226, 489, 194, 37, 366,
     851, 494, 251, 195, 506, 92, 19, 498, 358, 20, 503, 881, 361, 94, 894, 305, 159, 513,
     39, 95, 1174, 160, 1056, 966, 1143, 96, 174, 1142, 225, 280, 282, 198, 960, 113, 1164,
     1160, 260, 21, 22, 23, 1162, 1168, 1167, 1148, 24, 33, 25, 202, 542, 26, 100, 1071, 102,
     1057, 103, 7, 1055, 1059, 1113, 1060, 1112, 266, 267, 28, 40, 390, 1022, 863, 112, 29,
     564, 1182, 1181, 268, 176, 143, 925, 1242, 1242, 1242, 1242, 1242, 1242, 1242, 1242,
     1242, 1242, 1242, 1242, 1242, 1242, 269, 1602, 1242, 1601]"

definition yy_action :: "nat list" where
  "yy_action = yy_action_1 @ yy_action_2 @ yy_action_3 @ yy_action_4 @ yy_action_5 @ yy_action_6 @ yy_action_7"

lemma yy_action_lengths:
  "length yy_action_1 = 300" "length yy_action_2 = 300" "length yy_action_3 = 300" "length yy_action_4 = 300" "length yy_action_5 = 300" "length yy_action_6 = 300" "length yy_action_7 = 298"
  "length yy_action = 2098"
  by (simp_all add: yy_action_1_def yy_action_2_def yy_action_3_def yy_action_4_def yy_action_5_def yy_action_6_def yy_action_7_def yy_action_def)

subsection \<open>\<open>yy_lookahead\<close>\<close>

definition yy_lookahead_1 :: "nat list" where
  "yy_lookahead_1 = [193, 193, 193, 274, 275, 276, 193, 274, 275, 276, 193, 223, 219, 225, 206, 210, 211,
     212, 193, 19, 219, 233, 216, 216, 217, 216, 217, 193, 295, 216, 217, 31, 193, 216, 217,
     193, 228, 213, 230, 39, 206, 216, 217, 43, 44, 45, 46, 47, 48, 49, 50, 51, 52, 53, 54,
     55, 56, 57, 193, 19, 185, 186, 187, 188, 189, 190, 253, 274, 275, 276, 195, 193, 197,
     193, 261, 274, 275, 276, 253, 204, 238, 204, 81, 43, 44, 45, 46, 47, 48, 49, 50, 51, 52,
     53, 54, 55, 56, 57, 274, 275, 276, 262, 102, 103, 104, 105, 106, 107, 108, 109, 110,
     111, 112, 113, 239, 240, 239, 240, 210, 211, 212, 314, 315, 314, 59, 316, 86, 252, 88,
     252, 19, 314, 315, 256, 257, 113, 25, 72, 296, 138, 139, 266, 102, 103, 104, 105, 106,
     107, 108, 109, 110, 111, 112, 113, 43, 44, 45, 46, 47, 48, 49, 50, 51, 52, 53, 54, 55,
     56, 57, 81, 292, 59, 292, 298, 108, 109, 110, 111, 112, 113, 69, 116, 117, 118, 72, 106,
     107, 193, 111, 112, 113, 54, 55, 56, 57, 58, 102, 103, 104, 105, 106, 107, 108, 109,
     110, 111, 112, 113, 120, 25, 216, 217, 145, 102, 103, 104, 105, 106, 107, 108, 109, 110,
     111, 112, 113, 231, 138, 139, 116, 117, 118, 164, 153, 19, 155, 54, 55, 56, 57, 102,
     103, 104, 105, 106, 107, 108, 109, 110, 111, 112, 113, 128, 129, 46, 47, 48, 49, 43, 44,
     45, 46, 47, 48, 49, 50, 51, 52, 53, 54, 55, 56, 57, 216, 193, 25, 59, 193, 19, 165, 166,
     193, 67, 24, 102, 103, 104, 105, 106, 107, 108, 109, 110, 111, 112, 113, 73, 216, 217,
     59, 216]"

definition yy_lookahead_2 :: "nat list" where
  "yy_lookahead_2 = [217, 43, 44, 45, 46, 47, 48, 49, 50, 51, 52, 53, 54, 55, 56, 57, 102, 103, 104, 105,
     106, 107, 108, 109, 110, 111, 112, 113, 121, 145, 59, 193, 116, 117, 118, 119, 273, 204,
     122, 123, 124, 19, 20, 134, 22, 136, 137, 19, 132, 127, 128, 129, 24, 22, 23, 116, 117,
     118, 36, 193, 102, 103, 104, 105, 106, 107, 108, 109, 110, 111, 112, 113, 239, 240, 311,
     312, 215, 106, 107, 241, 19, 59, 216, 217, 223, 252, 115, 116, 117, 118, 151, 120, 26,
     71, 193, 308, 309, 193, 149, 128, 313, 216, 269, 81, 43, 44, 45, 46, 47, 48, 49, 50, 51,
     52, 53, 54, 55, 56, 57, 253, 216, 217, 100, 95, 153, 59, 155, 261, 106, 107, 25, 193,
     101, 193, 193, 231, 114, 25, 116, 117, 118, 113, 304, 121, 193, 204, 59, 119, 120, 121,
     122, 123, 124, 125, 216, 217, 193, 216, 217, 131, 138, 139, 230, 102, 103, 104, 105,
     106, 107, 108, 109, 110, 111, 112, 113, 153, 154, 155, 156, 157, 239, 240, 116, 117,
     118, 76, 193, 23, 19, 25, 22, 253, 23, 252, 253, 108, 87, 204, 89, 261, 198, 92, 261,
     116, 117, 118, 193, 306, 307, 216, 217, 150, 43, 44, 45, 46, 47, 48, 49, 50, 51, 52, 53,
     54, 55, 56, 57, 59, 193, 216, 217, 19, 239, 240, 283, 23, 106, 107, 108, 109, 110, 111,
     112, 113, 73, 252, 253, 142, 308, 309, 138, 139, 81, 313, 145, 43, 44, 45, 46, 47, 48,
     49, 50, 51, 52, 53, 54, 55, 56, 57, 307, 102, 103, 104, 105, 106, 107, 108, 109, 110,
     111, 112, 113, 281, 116, 117, 118, 285, 23, 193, 25, 119, 59, 193, 122, 123, 124, 59,
     127, 203]"

definition yy_lookahead_3 :: "nat list" where
  "yy_lookahead_3 = [59, 205, 19, 268, 132, 25, 23, 22, 193, 138, 139, 249, 204, 251, 102, 103, 104, 105,
     106, 107, 108, 109, 110, 111, 112, 113, 43, 44, 45, 46, 47, 48, 49, 50, 51, 52, 53, 54,
     55, 56, 57, 19, 22, 23, 59, 23, 25, 239, 240, 116, 117, 118, 193, 11, 116, 117, 118,
     116, 117, 118, 252, 269, 22, 193, 15, 43, 44, 45, 46, 47, 48, 49, 50, 51, 52, 53, 54,
     55, 56, 57, 273, 143, 193, 118, 143, 102, 103, 104, 105, 106, 107, 108, 109, 110, 111,
     112, 113, 76, 118, 59, 241, 116, 117, 118, 304, 216, 217, 292, 143, 60, 89, 241, 19, 92,
     193, 193, 23, 22, 311, 312, 231, 101, 22, 143, 102, 103, 104, 105, 106, 107, 108, 109,
     110, 111, 112, 113, 43, 44, 45, 46, 47, 48, 49, 50, 51, 52, 53, 54, 55, 56, 57, 19, 193,
     193, 59, 23, 116, 117, 118, 59, 201, 21, 241, 304, 22, 206, 127, 128, 129, 193, 128,
     129, 235, 236, 304, 43, 44, 45, 46, 47, 48, 49, 50, 51, 52, 53, 54, 55, 56, 57, 22, 193,
     216, 217, 193, 102, 103, 104, 105, 106, 107, 108, 109, 110, 111, 112, 113, 231, 193,
     193, 193, 116, 117, 118, 216, 217, 116, 117, 118, 226, 80, 193, 19, 235, 236, 304, 23,
     211, 212, 231, 204, 216, 217, 205, 102, 103, 104, 105, 106, 107, 108, 109, 110, 111,
     112, 113, 43, 44, 45, 46, 47, 48, 49, 50, 51, 52, 53, 54, 55, 56, 57, 19, 193, 123, 76,
     239, 240, 193, 253, 239, 240, 239, 240, 193, 106, 107, 193, 89, 252, 193, 92, 59, 252,
     141, 252, 43, 44, 45, 46, 47, 48, 49, 50, 51, 52, 53, 54, 55, 56, 57]"

definition yy_lookahead_4 :: "nat list" where
  "yy_lookahead_4 = [284, 161, 216, 217, 193, 102, 103, 104, 105, 106, 107, 108, 109, 110, 111, 112, 113,
     231, 193, 16, 187, 188, 189, 190, 7, 8, 9, 309, 195, 25, 197, 313, 19, 127, 128, 129,
     262, 204, 22, 117, 24, 216, 217, 263, 102, 103, 104, 105, 106, 107, 108, 109, 110, 111,
     112, 113, 43, 44, 45, 46, 47, 48, 49, 50, 51, 52, 53, 54, 55, 56, 57, 193, 239, 240,
     193, 59, 19, 188, 253, 190, 77, 226, 79, 193, 195, 252, 197, 193, 19, 301, 302, 193,
     193, 204, 216, 217, 226, 216, 217, 266, 204, 159, 45, 46, 47, 48, 49, 50, 51, 52, 53,
     54, 55, 56, 57, 102, 103, 104, 105, 106, 107, 108, 109, 110, 111, 112, 113, 12, 239,
     240, 232, 298, 238, 117, 253, 239, 240, 238, 259, 260, 193, 252, 27, 31, 193, 193, 142,
     204, 252, 193, 193, 39, 262, 193, 100, 266, 278, 42, 204, 102, 103, 104, 105, 106, 107,
     108, 109, 110, 111, 112, 113, 117, 159, 216, 217, 121, 216, 217, 63, 193, 193, 193, 239,
     240, 115, 116, 193, 298, 73, 238, 238, 231, 19, 239, 240, 252, 22, 24, 211, 212, 24,
     193, 216, 217, 216, 217, 252, 153, 154, 155, 253, 16, 19, 144, 213, 268, 43, 44, 45, 46,
     47, 48, 49, 50, 51, 52, 53, 54, 55, 56, 57, 238, 19, 59, 193, 59, 43, 44, 45, 46, 47,
     48, 49, 50, 51, 52, 53, 54, 55, 56, 57, 22, 23, 193, 25, 193, 43, 44, 45, 46, 47, 48,
     49, 50, 51, 52, 53, 54, 55, 56, 57, 284, 77, 193, 79, 102, 103, 104, 105, 106, 107, 108,
     109, 110, 111, 112, 113, 286, 193, 193, 193, 117, 291, 117, 232, 102, 103, 104, 105, 106]"

definition yy_lookahead_5 :: "nat list" where
  "yy_lookahead_5 = [107, 108, 109, 110, 111, 112, 113, 204, 22, 23, 66, 25, 216, 217, 35, 102, 103, 104,
     105, 106, 107, 108, 109, 110, 111, 112, 113, 193, 268, 85, 101, 193, 309, 309, 240, 19,
     313, 313, 94, 208, 209, 193, 239, 240, 193, 66, 252, 19, 268, 244, 216, 217, 193, 74,
     213, 252, 161, 19, 263, 254, 44, 45, 46, 47, 48, 49, 50, 51, 52, 53, 54, 55, 56, 57,
     193, 216, 217, 5, 59, 193, 19, 244, 10, 11, 12, 13, 14, 101, 309, 17, 146, 254, 313,
     193, 193, 76, 115, 216, 217, 309, 12, 263, 30, 313, 32, 46, 87, 46, 89, 130, 193, 92,
     40, 22, 263, 27, 216, 217, 102, 103, 104, 105, 106, 107, 108, 109, 110, 111, 112, 113,
     42, 150, 291, 216, 217, 116, 117, 118, 19, 20, 193, 22, 70, 260, 116, 193, 24, 264, 193,
     263, 78, 63, 61, 81, 116, 36, 193, 260, 193, 29, 193, 264, 193, 33, 145, 193, 59, 48,
     216, 217, 98, 216, 217, 193, 115, 193, 115, 193, 59, 216, 217, 216, 217, 216, 217, 216,
     217, 255, 216, 217, 71, 193, 131, 193, 25, 65, 216, 217, 216, 217, 216, 217, 208, 209,
     85, 133, 193, 100, 193, 90, 138, 139, 138, 139, 216, 217, 216, 217, 193, 100, 193, 108,
     135, 116, 117, 106, 107, 140, 121, 216, 217, 216, 217, 114, 162, 116, 117, 118, 299,
     300, 121, 216, 217, 216, 217, 193, 244, 193, 135, 244, 193, 256, 257, 140, 244, 193,
     254, 193, 193, 254, 153, 154, 155, 141, 254, 149, 150, 258, 216, 217, 216, 217, 153,
     154, 155, 156, 157, 0, 1, 2, 216, 217, 5, 115, 158, 193, 160, 10, 11, 12, 13, 14, 193,
     59, 17, 126, 193, 19, 20, 129]"

definition yy_lookahead_6 :: "nat list" where
  "yy_lookahead_6 = [22, 193, 22, 22, 24, 193, 23, 30, 25, 32, 19, 20, 144, 22, 36, 216, 217, 40, 193, 216,
     217, 193, 152, 129, 216, 217, 193, 36, 216, 217, 193, 99, 193, 193, 53, 193, 193, 59,
     23, 193, 25, 216, 217, 193, 216, 217, 152, 70, 59, 71, 59, 117, 193, 216, 217, 78, 216,
     217, 81, 216, 217, 318, 71, 85, 193, 133, 193, 193, 90, 23, 23, 25, 25, 120, 121, 98,
     85, 193, 100, 193, 23, 90, 25, 121, 106, 107, 19, 216, 217, 216, 217, 100, 114, 131,
     116, 117, 118, 106, 107, 121, 216, 217, 216, 217, 193, 114, 117, 116, 117, 118, 133,
     193, 121, 193, 193, 138, 139, 193, 23, 193, 25, 23, 23, 25, 25, 7, 8, 216, 217, 193,
     193, 153, 154, 155, 156, 157, 216, 217, 193, 162, 216, 217, 216, 217, 153, 154, 155,
     156, 157, 1, 2, 193, 193, 5, 19, 20, 59, 22, 10, 11, 12, 13, 14, 193, 97, 17, 193, 23,
     193, 25, 288, 36, 193, 242, 216, 217, 236, 23, 30, 25, 32, 19, 20, 23, 22, 25, 216, 217,
     40, 216, 217, 216, 217, 193, 59, 216, 217, 193, 36, 83, 84, 153, 153, 155, 155, 23, 71,
     25, 23, 193, 25, 193, 193, 193, 117, 193, 193, 193, 70, 193, 193, 59, 193, 255, 255,
     287, 78, 255, 243, 81, 191, 255, 297, 71, 271, 100, 293, 245, 267, 214, 246, 106, 107,
     108, 246, 271, 98, 245, 293, 114, 220, 116, 117, 118, 267, 271, 121, 271, 225, 219, 229,
     219, 100, 219, 259, 259, 259, 259, 106, 107, 249, 196, 60, 280, 141, 243, 114, 249, 116,
     117, 118, 133, 245, 121, 200, 297, 138, 139, 153, 154, 155, 156, 157, 297, 200, 38, 19,
     20, 151, 22]"

definition yy_lookahead_7 :: "nat list" where
  "yy_lookahead_7 = [200, 150, 140, 294, 294, 22, 272, 43, 234, 18, 162, 270, 200, 36, 237, 153, 154, 155,
     156, 157, 237, 283, 237, 237, 18, 199, 149, 246, 272, 270, 272, 200, 158, 246, 246, 234,
     59, 234, 246, 199, 290, 62, 289, 200, 199, 22, 221, 115, 71, 200, 200, 199, 199, 221,
     218, 218, 19, 20, 64, 22, 218, 227, 22, 224, 126, 224, 165, 221, 24, 305, 200, 113, 312,
     36, 218, 220, 218, 100, 282, 218, 91, 218, 317, 106, 107, 221, 227, 282, 317, 82, 148,
     114, 265, 116, 117, 118, 59, 145, 121, 22, 277, 158, 200, 265, 25, 202, 147, 250, 71,
     279, 13, 146, 194, 194, 249, 248, 250, 140, 247, 246, 6, 192, 192, 192, 303, 303, 213,
     207, 300, 213, 153, 154, 155, 156, 157, 213, 213, 100, 213, 222, 207, 214, 214, 106,
     107, 4, 222, 207, 3, 22, 163, 114, 15, 116, 117, 118, 16, 23, 121, 23, 139, 151, 130,
     25, 142, 16, 24, 20, 144, 1, 142, 130, 130, 61, 53, 53, 37, 151, 53, 53, 130, 116, 34,
     1, 141, 5, 22, 115, 161, 141, 153, 154, 155, 156, 157, 25, 68, 68, 75, 41, 115, 24, 131,
     20, 19, 125, 22, 96, 22, 22, 67, 23, 22, 67, 59, 24, 22, 28, 67, 23, 22, 22, 149, 23,
     23, 23, 116, 23, 25, 37, 97, 141, 23, 23, 22, 143, 25, 75, 88, 34, 34, 34, 34, 86, 75,
     93, 23, 34, 22, 34, 25, 24, 34, 25, 23, 142, 23, 142, 44, 23, 23, 23, 11, 23, 25, 22,
     22, 22, 15, 23, 23, 22, 22, 25, 1, 1, 141, 25, 23, 135, 319, 319, 319, 319, 319, 319,
     319, 319, 319, 319, 319, 319, 319, 319, 141, 141, 319, 141, 319, 319]"

definition yy_lookahead_8 :: "nat list" where
  "yy_lookahead_8 = [319, 319, 319, 319, 319, 319, 319, 319, 319, 319, 319, 319, 319, 319, 319, 319, 319,
     319, 319, 319, 319, 319, 319, 319, 319, 319, 319, 319, 319, 319, 319, 319, 319, 319,
     319, 319, 319, 319, 319, 319, 319, 319, 319, 319, 319, 319, 319, 319, 319, 319, 319,
     319, 319, 319, 319, 319, 319, 319, 319, 319, 319, 319, 319, 319, 319, 319, 319, 319,
     319, 319, 319, 319, 319, 319, 319, 319, 319, 319, 319, 319, 319, 319, 319, 319, 319,
     319, 319, 319, 319, 319, 319, 319, 319, 319, 319, 319, 319, 319, 319, 319, 319, 319,
     319, 319, 319, 319, 319, 319, 319, 319, 319, 319, 319, 319, 319, 319, 319, 319, 319,
     319, 319, 319, 319, 319, 319, 319, 319, 319, 319, 319, 319, 319, 319, 319, 319, 319,
     319, 319, 319, 319, 319, 319, 319, 319, 319, 319, 319, 319, 319, 319, 319, 319, 319,
     319, 319, 319, 319, 319, 319, 319, 319, 319, 319, 319, 319, 319, 319, 319, 319, 319,
     319, 319, 319, 319, 319, 319, 319, 319, 319, 319, 319, 319, 319]"

definition yy_lookahead :: "nat list" where
  "yy_lookahead = yy_lookahead_1 @ yy_lookahead_2 @ yy_lookahead_3 @ yy_lookahead_4 @ yy_lookahead_5 @ yy_lookahead_6 @ yy_lookahead_7 @ yy_lookahead_8"

lemma yy_lookahead_lengths:
  "length yy_lookahead_1 = 300" "length yy_lookahead_2 = 300" "length yy_lookahead_3 = 300" "length yy_lookahead_4 = 300" "length yy_lookahead_5 = 300" "length yy_lookahead_6 = 300" "length yy_lookahead_7 = 300" "length yy_lookahead_8 = 183"
  "length yy_lookahead = 2283"
  by (simp_all add: yy_lookahead_1_def yy_lookahead_2_def yy_lookahead_3_def yy_lookahead_4_def yy_lookahead_5_def yy_lookahead_6_def yy_lookahead_7_def yy_lookahead_8_def yy_lookahead_def)

subsection \<open>\<open>yy_shift_ofst\<close>\<close>

definition yy_shift_ofst_1 :: "nat list" where
  "yy_shift_ofst_1 = [1648, 1477, 1272, 322, 322, 1, 1319, 1478, 1491, 1837, 1837, 1837, 471, 0, 0, 214, 1093,
     1837, 1837, 1837, 1837, 1837, 1837, 1837, 1837, 1837, 1837, 1837, 1837, 1837, 271, 271,
     1219, 1219, 216, 88, 1, 1, 1, 1, 1, 40, 111, 258, 361, 469, 512, 583, 622, 693, 732,
     803, 842, 913, 1073, 1093, 1093, 1093, 1093, 1093, 1093, 1093, 1093, 1093, 1093, 1093,
     1093, 1093, 1093, 1093, 1093, 1093, 1093, 1113, 1093, 1216, 957, 957, 1635, 1662, 1777,
     1837, 1837, 1837, 1837, 1837, 1837, 1837, 1837, 1837, 1837, 1837, 1837, 1837, 1837,
     1837, 1837, 1837, 1837, 1837, 1837, 1837, 1837, 1837, 1837, 1837, 1837, 1837, 1837,
     1837, 1837, 1837, 1837, 1837, 1837, 1837, 1837, 1837, 1837, 1837, 1837, 1837, 1837,
     1837, 1837, 1837, 1837, 1837, 1837, 1837, 137, 181, 181, 181, 181, 181, 181, 181, 94,
     430, 66, 65, 112, 366, 533, 533, 740, 1261, 533, 533, 79, 79, 533, 412, 412, 412, 77,
     412, 123, 113, 113, 22, 22, 2098, 2098, 328, 328, 328, 239, 468, 468, 468, 468, 1015,
     1015, 409, 366, 1129, 1186, 533, 533, 533, 533, 533, 533, 533, 533, 533, 533, 533, 533,
     533, 533, 533, 533, 533, 533, 533, 533, 969, 621, 621, 533, 642, 788, 788, 1228, 1228,
     822, 822, 67, 1274, 2098, 2098, 2098, 2098, 2098, 2098, 2098, 1307, 954, 954, 585, 472,
     640, 387, 695, 538, 541, 700, 533, 533, 533, 533, 533, 533, 533, 533, 533, 533, 222,
     533, 533, 533, 533, 533, 533, 533, 533, 533, 533, 533, 533, 1179, 1179, 1179, 533, 533,
     533, 565, 533, 533, 533, 916, 1144, 533, 533, 1288, 533, 533, 533, 533, 533, 533, 533,
     533, 639, 1330, 209, 1076, 1076, 1076, 1076, 580, 209, 209, 1313, 768, 917, 649]"

definition yy_shift_ofst_2 :: "nat list" where
  "yy_shift_ofst_2 = [1181, 1316, 405, 1316, 1238, 249, 1181, 1181, 249, 1181, 405, 1238, 1369, 464, 1259,
     1012, 1012, 1012, 1368, 1368, 1368, 1368, 184, 184, 1326, 904, 1287, 1480, 1712, 1712,
     1633, 1633, 1757, 1757, 1633, 1647, 1651, 1783, 1764, 1791, 1791, 1791, 1791, 1633,
     1806, 1677, 1651, 1651, 1677, 1783, 1764, 1677, 1764, 1677, 1633, 1806, 1674, 1779,
     1633, 1806, 1823, 1633, 1806, 1633, 1806, 1823, 1732, 1732, 1732, 1794, 1840, 1840,
     1823, 1732, 1738, 1732, 1794, 1732, 1732, 1701, 1844, 1758, 1758, 1823, 1633, 1789,
     1789, 1807, 1807, 1742, 1752, 1877, 1633, 1743, 1742, 1759, 1765, 1677, 1879, 1897,
     1897, 1914, 1914, 1914, 2098, 2098, 2098, 2098, 2098, 2098, 2098, 2098, 2098, 2098,
     2098, 2098, 2098, 2098, 2098, 207, 1095, 331, 620, 903, 806, 1074, 1483, 1432, 1481,
     1322, 1370, 1394, 1515, 1291, 1546, 1547, 1557, 1595, 1598, 1599, 1434, 1453, 1618,
     1462, 1567, 1489, 1644, 1654, 1616, 1660, 1548, 1549, 1682, 1685, 1597, 742, 1941, 1945,
     1927, 1787, 1937, 1940, 1934, 1936, 1821, 1810, 1832, 1938, 1938, 1942, 1822, 1947,
     1824, 1949, 1968, 1828, 1841, 1938, 1842, 1912, 1939, 1938, 1826, 1921, 1922, 1925,
     1926, 1850, 1865, 1948, 1843, 1982, 1980, 1964, 1872, 1827, 1928, 1970, 1929, 1923,
     1958, 1848, 1885, 1977, 1983, 1985, 1871, 1880, 1984, 1943, 1986, 1987, 1988, 1990,
     1946, 1955, 1991, 1911, 1989, 1994, 1951, 1992, 1996, 1873, 1998, 2000, 2001, 2002,
     2003, 2004, 1999, 1933, 1890, 2009, 2010, 1910, 2005, 2012, 1892, 2011, 2006, 2007,
     2008, 2013, 1950, 1962, 1957, 2014, 1969, 1952, 2015, 2023, 2026, 2027, 2025, 2028,
     2018, 1913, 1915, 2031, 2011, 2033, 2036, 2037, 2038, 2039, 2040, 2043, 2051, 2044,
     2045, 2046, 2047, 2049, 2050, 2048, 1944, 1935, 1953, 1954, 1956, 2052, 2055, 2053,
     2073, 2074]"

definition yy_shift_ofst :: "nat list" where
  "yy_shift_ofst = yy_shift_ofst_1 @ yy_shift_ofst_2"

lemma yy_shift_ofst_lengths:
  "length yy_shift_ofst_1 = 290" "length yy_shift_ofst_2 = 286"
  "length yy_shift_ofst = 576"
  by (simp_all add: yy_shift_ofst_1_def yy_shift_ofst_2_def yy_shift_ofst_def)

subsection \<open>\<open>yy_reduce_ofst\<close>\<close>

definition yy_reduce_ofst_1 :: "int list" where
  "yy_reduce_ofst_1 = [-125, 733, 789, 241, 293, -123, -193, -191, -183, -187, 166, 238, 133, -207, -199, -267,
     -176, -6, 204, 489, 576, -175, 598, 686, 615, 725, 860, 778, 781, 857, 616, 887, 87,
     240, -192, 408, 626, 796, 843, 854, 1003, -271, -271, -271, -271, -271, -271, -271,
     -271, -271, -271, -271, -271, -271, -271, -271, -271, -271, -271, -271, -271, -271,
     -271, -271, -271, -271, -271, -271, -271, -271, -271, -271, -271, -271, -271, -271,
     -271, -271, 80, 83, 313, 886, 888, 996, 1034, 1059, 1081, 1100, 1117, 1152, 1155, 1163,
     1165, 1167, 1169, 1172, 1180, 1182, 1184, 1198, 1200, 1213, 1215, 1225, 1227, 1252,
     1254, 1264, 1299, 1303, 1308, 1312, 1325, 1328, 1337, 1340, 1343, 1371, 1373, 1384,
     1386, 1411, 1420, 1424, 1426, 1458, 1470, 1473, 1475, 1479, -271, -271, -271, -271,
     -271, -271, -271, -271, -271, -271, -271, 138, 459, 396, -158, 470, 302, -212, 521, 201,
     -195, -92, 559, 630, 632, 630, -271, 632, 901, 63, 407, -271, -271, -271, -271, 161,
     161, 161, 251, 335, 847, 960, 980, 537, 588, 618, 628, 688, 688, -166, -161, 674, 790,
     794, 799, 851, 852, -122, 680, -120, 995, 1038, 415, 1051, 893, 798, 962, 400, 1086,
     779, 923, 924, 263, 1041, 979, 990, 1083, 1097, 1031, 1194]"

definition yy_reduce_ofst_2 :: "int list" where
  "yy_reduce_ofst_2 = [362, 994, 1139, 1005, 1037, 1202, 1205, 1195, 1210, -194, 56, 185, -135, 232, 522, 560,
     601, 617, 669, 683, 711, 856, 908, 941, 1048, 1101, 1147, 1257, 1262, 1265, 392, 1292,
     1333, 1339, 1342, 1346, 1350, 1359, 1374, 1418, 1421, 1436, 1437, 593, 755, 770, 997,
     1445, 1459, 1209, 1500, 1504, 1516, 1132, 1243, 1518, 1519, 1440, 1520, 560, 1522, 1523,
     1524, 1526, 1527, 1529, 1382, 1438, 1431, 1468, 1469, 1472, 1476, 1209, 1431, 1431,
     1485, 1525, 1539, 1435, 1463, 1471, 1492, 1487, 1443, 1494, 1474, 1484, 1498, 1486,
     1502, 1455, 1530, 1531, 1533, 1540, 1542, 1544, 1505, 1506, 1507, 1508, 1521, 1528,
     1493, 1537, 1532, 1575, 1488, 1496, 1584, 1594, 1509, 1510, 1600, 1538, 1534, 1541,
     1574, 1577, 1583, 1585, 1586, 1612, 1626, 1581, 1556, 1558, 1587, 1559, 1601, 1588,
     1603, 1592, 1631, 1640, 1550, 1553, 1643, 1645, 1625, 1649, 1652, 1650, 1653, 1632,
     1636, 1637, 1642, 1634, 1639, 1641, 1646, 1656, 1655, 1658, 1659, 1661, 1663, 1560,
     1564, 1596, 1605, 1664, 1670, 1565, 1571, 1627, 1638, 1657, 1665, 1623, 1702, 1630,
     1666, 1667, 1671, 1673, 1703, 1718, 1719, 1729, 1730, 1731, 1621, 1622, 1628, 1720,
     1713, 1716, 1722, 1723, 1733, 1717, 1724, 1727, 1728, 1725, 1740]"

definition yy_reduce_ofst :: "int list" where
  "yy_reduce_ofst = yy_reduce_ofst_1 @ yy_reduce_ofst_2"

lemma yy_reduce_ofst_lengths:
  "length yy_reduce_ofst_1 = 210" "length yy_reduce_ofst_2 = 199"
  "length yy_reduce_ofst = 409"
  by (simp_all add: yy_reduce_ofst_1_def yy_reduce_ofst_2_def yy_reduce_ofst_def)

subsection \<open>\<open>yy_default\<close>\<close>

definition yy_default_1 :: "nat list" where
  "yy_default_1 = [1647, 1647, 1647, 1475, 1240, 1351, 1240, 1240, 1240, 1475, 1475, 1475, 1240, 1381,
     1381, 1528, 1273, 1240, 1240, 1240, 1240, 1240, 1240, 1240, 1240, 1240, 1240, 1474,
     1240, 1240, 1240, 1240, 1563, 1563, 1240, 1240, 1240, 1240, 1240, 1240, 1240, 1240,
     1390, 1240, 1397, 1240, 1240, 1240, 1240, 1240, 1476, 1477, 1240, 1240, 1240, 1527,
     1529, 1492, 1404, 1403, 1402, 1401, 1510, 1369, 1395, 1388, 1392, 1470, 1471, 1469,
     1473, 1477, 1476, 1240, 1391, 1438, 1454, 1437, 1240, 1240, 1240, 1240, 1240, 1240,
     1240, 1240, 1240, 1240, 1240, 1240, 1240, 1240, 1240, 1240, 1240, 1240, 1240, 1240,
     1240, 1240, 1240, 1240, 1240, 1240, 1240, 1240, 1240, 1240, 1240, 1240, 1240, 1240,
     1240, 1240, 1240, 1240, 1240, 1240, 1240, 1240, 1240, 1240, 1240, 1240, 1240, 1240,
     1240, 1240, 1240, 1240, 1446, 1453, 1452, 1451, 1460, 1450, 1447, 1440, 1439, 1441,
     1442, 1240, 1240, 1264, 1240, 1240, 1261, 1315, 1240, 1240, 1240, 1240, 1240, 1547,
     1546, 1240, 1443, 1240, 1273, 1432, 1431, 1457, 1444, 1456, 1455, 1535, 1599, 1598,
     1493, 1240, 1240, 1240, 1240, 1240, 1240, 1563, 1240, 1240, 1240, 1240, 1240, 1240,
     1240, 1240, 1240, 1240, 1240, 1240, 1240, 1240, 1240, 1240, 1240, 1240, 1240, 1240,
     1240, 1240, 1240, 1371, 1563, 1563, 1240, 1273, 1563, 1563, 1372, 1372, 1269, 1269,
     1375, 1240, 1542, 1342, 1342, 1342, 1342, 1351, 1342, 1240, 1240, 1240, 1240, 1240,
     1240, 1240, 1240, 1240, 1240, 1240, 1240, 1240, 1240, 1240, 1532, 1530, 1240, 1240,
     1240, 1240, 1240, 1240, 1240, 1240, 1240, 1240, 1240, 1240, 1240, 1240, 1240, 1240,
     1240, 1240, 1240, 1240, 1240, 1240, 1240, 1240, 1240, 1240, 1240, 1347, 1240, 1240,
     1240, 1240, 1240, 1240, 1240, 1240, 1240, 1240, 1240, 1592, 1240, 1505, 1329, 1347,
     1347, 1347, 1347, 1349, 1330, 1328, 1341, 1274, 1247, 1639]"

definition yy_default_2 :: "nat list" where
  "yy_default_2 = [1407, 1396, 1348, 1396, 1636, 1394, 1407, 1407, 1394, 1407, 1348, 1636, 1290, 1615,
     1285, 1381, 1381, 1381, 1371, 1371, 1371, 1371, 1375, 1375, 1472, 1348, 1341, 1240,
     1639, 1639, 1357, 1357, 1638, 1638, 1357, 1493, 1623, 1416, 1318, 1324, 1324, 1324,
     1324, 1357, 1258, 1394, 1623, 1623, 1394, 1416, 1318, 1394, 1318, 1394, 1357, 1258,
     1509, 1633, 1357, 1258, 1483, 1357, 1258, 1357, 1258, 1483, 1316, 1316, 1316, 1305,
     1240, 1240, 1483, 1316, 1290, 1316, 1305, 1316, 1316, 1581, 1240, 1487, 1487, 1483,
     1357, 1573, 1573, 1384, 1384, 1389, 1375, 1478, 1357, 1240, 1389, 1387, 1385, 1394,
     1308, 1595, 1595, 1591, 1591, 1591, 1644, 1644, 1542, 1608, 1273, 1273, 1273, 1273,
     1608, 1292, 1292, 1274, 1274, 1273, 1608, 1240, 1240, 1240, 1240, 1240, 1240, 1603,
     1240, 1537, 1494, 1361, 1240, 1240, 1240, 1240, 1240, 1240, 1240, 1240, 1240, 1240,
     1240, 1240, 1240, 1240, 1548, 1240, 1240, 1240, 1240, 1240, 1240, 1240, 1240, 1240,
     1240, 1421, 1240, 1243, 1539, 1240, 1240, 1240, 1240, 1240, 1240, 1240, 1240, 1398,
     1399, 1362, 1240, 1240, 1240, 1240, 1240, 1240, 1240, 1413, 1240, 1240, 1240, 1408,
     1240, 1240, 1240, 1240, 1240, 1240, 1240, 1240, 1635, 1240, 1240, 1240, 1240, 1240,
     1240, 1508, 1507, 1240, 1240, 1359, 1240, 1240, 1240, 1240, 1240, 1240, 1240, 1240,
     1240, 1240, 1240, 1240, 1240, 1288, 1240, 1240, 1240, 1240, 1240, 1240, 1240, 1240,
     1240, 1240, 1240, 1240, 1240, 1240, 1240, 1240, 1240, 1240, 1240, 1240, 1240, 1240,
     1240, 1386, 1240, 1240, 1240, 1240, 1240, 1240, 1240, 1240, 1240, 1240, 1240, 1240,
     1240, 1240, 1578, 1376, 1240, 1240, 1240, 1240, 1626, 1240, 1240, 1240, 1240, 1240,
     1240, 1240, 1240, 1240, 1240, 1240, 1240, 1240, 1240, 1619, 1332, 1423, 1240, 1422,
     1426, 1262, 1240, 1252, 1240, 1240]"

definition yy_default :: "nat list" where
  "yy_default = yy_default_1 @ yy_default_2"

lemma yy_default_lengths:
  "length yy_default_1 = 290" "length yy_default_2 = 286"
  "length yy_default = 576"
  by (simp_all add: yy_default_1_def yy_default_2_def yy_default_def)

subsection \<open>\<open>yyFallback\<close>\<close>

definition yyFallback_1 :: "nat list" where
  "yyFallback_1 = [0, 0, 59, 59, 59, 59, 0, 59, 59, 59, 0, 59, 59, 59, 59, 0, 0, 0, 59, 0, 0, 59, 0, 0, 0,
     0, 59, 59, 59, 59, 59, 59, 59, 59, 59, 59, 59, 59, 59, 59, 59, 59, 59, 0, 0, 0, 59, 59,
     0, 0, 0, 0, 0, 0, 0, 0, 0, 0, 0, 0, 59, 59, 59, 59, 59, 59, 59, 59, 59, 59, 59, 59, 59,
     59, 59, 59, 59, 59, 59, 59, 59, 59, 59, 59, 59, 59, 59, 59, 59, 59, 59, 59, 59, 59, 59]"

definition yyFallback_2 :: "nat list" where
  "yyFallback_2 = [59, 59, 59, 59, 59, 59, 0, 0, 0, 0, 0, 0, 0, 0, 0, 0, 0, 0, 0, 0, 0, 0, 0, 0, 0, 0, 0,
     0, 0, 0, 0, 0, 0, 0, 0, 0, 0, 0, 0, 0, 0, 0, 0, 0, 0, 0, 0, 0, 0, 0, 0, 0, 0, 0, 0, 0,
     0, 0, 0, 0, 0, 0, 0, 0, 0, 0, 0, 0, 0, 0, 0, 0, 0, 0, 0, 0, 0, 0, 0, 0, 0, 0, 0, 0, 0,
     0, 0, 0, 0, 0]"

definition yyFallback :: "nat list" where
  "yyFallback = yyFallback_1 @ yyFallback_2"

lemma yyFallback_lengths:
  "length yyFallback_1 = 95" "length yyFallback_2 = 90"
  "length yyFallback = 185"
  by (simp_all add: yyFallback_1_def yyFallback_2_def yyFallback_def)

subsection \<open>\<open>yyRuleInfoLhs\<close>\<close>

definition yyRuleInfoLhs_1 :: "nat list" where
  "yyRuleInfoLhs_1 = [189, 189, 188, 190, 191, 191, 191, 191, 190, 190, 190, 190, 190, 195, 197, 199, 199,
     198, 198, 196, 196, 203, 203, 205, 205, 206, 208, 208, 208, 209, 213, 214, 215, 215,
     215, 215, 215, 215, 215, 215, 215, 215, 215, 215, 215, 224, 224, 220, 220, 222, 222,
     225, 225, 225, 225, 226, 226, 226, 226, 226, 223, 223, 227, 227, 227, 202, 229, 230,
     230, 230, 230, 230, 233, 218, 218, 234, 234, 235, 235, 190, 237, 237, 190, 190, 190,
     204, 204, 204, 239, 242, 242, 242, 240, 240, 252, 252, 243, 243, 243, 254, 244, 244,
     244, 255, 255, 245, 245, 257, 257, 256, 256, 256, 256, 256, 200, 200, 238, 238, 262,
     262, 262, 262, 258, 258, 258, 258, 259, 259, 259, 264, 260, 260, 249, 249, 231]"

definition yyRuleInfoLhs_2 :: "nat list" where
  "yyRuleInfoLhs_2 = [231, 219, 219, 219, 265, 265, 265, 247, 247, 248, 248, 250, 250, 250, 250, 190, 246,
     246, 267, 267, 267, 267, 190, 268, 268, 268, 268, 190, 190, 271, 271, 271, 271, 271,
     271, 272, 269, 269, 270, 270, 263, 263, 217, 217, 217, 217, 217, 216, 216, 216, 217,
     217, 217, 217, 217, 217, 217, 216, 217, 217, 217, 217, 217, 217, 217, 217, 217, 274,
     217, 217, 217, 217, 217, 217, 217, 217, 217, 217, 217, 217, 275, 275, 217, 276, 276,
     217, 217, 217, 217, 217, 217, 279, 279, 280, 280, 278, 278, 261, 253, 253, 277, 277,
     190, 281, 281, 221, 221, 232, 232, 282, 282, 190, 190, 190, 283, 283, 190, 190, 190,
     190, 190, 211, 212, 190, 285, 287, 287, 287, 288, 288, 288, 290, 290, 286, 286]"

definition yyRuleInfoLhs_3 :: "nat list" where
  "yyRuleInfoLhs_3 = [292, 293, 293, 291, 291, 291, 291, 217, 217, 236, 236, 236, 190, 190, 190, 295, 295,
     190, 190, 190, 190, 190, 190, 190, 296, 190, 190, 190, 298, 300, 301, 301, 302, 266,
     266, 305, 305, 305, 304, 241, 241, 306, 306, 307, 308, 308, 308, 308, 308, 308, 309,
     309, 309, 313, 315, 315, 316, 316, 314, 314, 317, 317, 318, 318, 318, 251, 273, 273,
     273, 312, 312, 311, 185, 186, 186, 187, 187, 187, 192, 192, 192, 194, 194, 190, 203,
     201, 201, 193, 193, 193, 208, 209, 210, 210, 207, 207, 215, 215, 215, 202, 228, 228,
     229, 233, 235, 239, 240, 254, 255, 264, 272, 217, 274, 261, 284, 284, 284, 284, 284,
     211, 289, 289, 292, 293, 294, 294, 297, 297, 299, 299, 300, 303, 303, 303, 266]"

definition yyRuleInfoLhs :: "nat list" where
  "yyRuleInfoLhs = yyRuleInfoLhs_1 @ yyRuleInfoLhs_2 @ yyRuleInfoLhs_3"

lemma yyRuleInfoLhs_lengths:
  "length yyRuleInfoLhs_1 = 135" "length yyRuleInfoLhs_2 = 135" "length yyRuleInfoLhs_3 = 135"
  "length yyRuleInfoLhs = 405"
  by (simp_all add: yyRuleInfoLhs_1_def yyRuleInfoLhs_2_def yyRuleInfoLhs_3_def yyRuleInfoLhs_def)

subsection \<open>\<open>yyRuleInfoNRhs\<close>\<close>

definition yyRuleInfoNRhs_1 :: "int list" where
  "yyRuleInfoNRhs_1 = [-1, -3, -1, -3, 0, -1, -1, -1, -2, -2, -2, -3, -5, -6, -1, 0, -3, -1, 0, -5, -2, 0, -3,
     -2, -1, -2, 0, -4, -6, -2, 0, 0, -2, -3, -4, -4, -4, -3, -3, -5, -2, -4, -4, -1, -2, -3,
     -4, 0, -1, 0, -2, -2, -3, -3, -3, -2, -2, -1, -1, -2, -3, -2, 0, -2, -2, 0, -1, -2, -7,
     -5, -5, -10, 0, 0, -3, 0, -2, -1, -1, -4, -2, 0, -9, -4, -1, -3, -4, -1, -3, -1, -2, -1,
     -9, -10, -4, -5, -1, -1, 0, 0, -5, -3, -5, -2, 0, 0, -2, -2, 0, -5, -6, -8, -6, -6, 0,
     -2, -1, -3, -1, -3, -5, -3, -1, -2, -3, -4, -2, -4, 0, 0, -3, -2, 0, -3, -5]"

definition yyRuleInfoNRhs_2 :: "int list" where
  "yyRuleInfoNRhs_2 = [-3, -1, -1, 0, -2, -2, 0, 0, -3, 0, -2, 0, -2, -4, -4, -6, 0, -2, 0, -2, -2, -4, -9, -5,
     -7, -3, -5, -7, -8, 0, -2, -12, -9, -5, -8, -2, -2, -1, 0, -3, -3, -1, -3, -1, -1, -3,
     -5, -1, -1, -1, -1, -3, -6, -5, -4, -6, -5, -1, -5, -3, -3, -3, -3, -3, -3, -3, -3, -2,
     -3, -5, -2, -3, -3, -4, -6, -5, -2, -2, -2, -3, -1, -2, -5, -1, -2, -5, -3, -5, -5, -4,
     -5, -5, -4, -2, 0, -1, 0, 0, -3, -1, 0, -3, -12, -1, 0, 0, -3, -5, -3, 0, -2, -4, -2,
     -3, -2, 0, -3, -5, -6, -5, -6, -2, -2, -5, -11, -1, -2, 0, -1, -1, -3, 0, -2, -3, -2]"

definition yyRuleInfoNRhs_3 :: "int list" where
  "yyRuleInfoNRhs_3 = [-3, -3, -2, -9, -8, -6, -3, -4, -6, -1, -1, -1, -4, -6, -3, 0, -2, -1, -3, -1, -3, -6,
     -7, -6, -1, -8, -1, -4, -8, 0, -1, -3, -1, -2, -3, -1, -2, -3, -6, -1, -3, -1, -3, -5,
     -5, -6, -4, -5, -1, -2, 0, -3, -6, -1, -1, -2, -1, -2, -2, -2, 0, -2, -2, -2, -1, -2,
     -2, -1, -1, -4, -2, -5, -1, -2, -1, -1, -2, -3, 0, -1, -2, -1, 0, -2, -1, -4, -2, -1,
     -1, -1, -1, -1, -1, -1, -2, 0, -2, -4, -2, -2, -3, -1, 0, -1, -1, -1, -1, -2, -1, -1, 0,
     -1, -1, -1, -1, -1, -1, -1, -1, -1, 0, -3, -1, 0, -1, 0, 0, -1, -1, -3, -2, 0, -4, -2, 0]"

definition yyRuleInfoNRhs :: "int list" where
  "yyRuleInfoNRhs = yyRuleInfoNRhs_1 @ yyRuleInfoNRhs_2 @ yyRuleInfoNRhs_3"

lemma yyRuleInfoNRhs_lengths:
  "length yyRuleInfoNRhs_1 = 135" "length yyRuleInfoNRhs_2 = 135" "length yyRuleInfoNRhs_3 = 135"
  "length yyRuleInfoNRhs = 405"
  by (simp_all add: yyRuleInfoNRhs_1_def yyRuleInfoNRhs_2_def yyRuleInfoNRhs_3_def yyRuleInfoNRhs_def)

subsection \<open>The entries as equations\<close>

definition part_at :: "'a list \<Rightarrow> nat \<Rightarrow> 'a list \<Rightarrow> bool" where
  "part_at xs k ys \<longleftrightarrow> (\<exists>pre post. xs = pre @ ys @ post \<and> length pre = k)"

lemma entries_from_prefix: "entries_from xs k (ys @ zs) \<Longrightarrow> entries_from xs k ys"
  by (induction ys arbitrary: k) auto

lemma entries_of_part:
  assumes "part_at xs k ys" "ys = zs"
  shows "entries_from xs k zs"
proof -
  from assms obtain pre post where "xs = pre @ zs @ post" "length pre = k"
    unfolding part_at_def by blast
  then have "drop k xs = zs @ post" by auto
  then show ?thesis
    by (rule entries_from_prefix [OF entries_from_drop])
qed

lemma yy_action_1_entries: "part_at yy_action 0 yy_action_1"
  unfolding part_at_def
  by (rule exI [of _ "[]"], rule exI [of _ "yy_action_2 @ yy_action_3 @ yy_action_4 @ yy_action_5 @ yy_action_6 @ yy_action_7"]) (simp add: yy_action_def yy_action_lengths)

lemma yy_action_2_entries: "part_at yy_action 300 yy_action_2"
  unfolding part_at_def
  by (rule exI [of _ "yy_action_1"], rule exI [of _ "yy_action_3 @ yy_action_4 @ yy_action_5 @ yy_action_6 @ yy_action_7"]) (simp add: yy_action_def yy_action_lengths)

lemma yy_action_3_entries: "part_at yy_action 600 yy_action_3"
  unfolding part_at_def
  by (rule exI [of _ "yy_action_1 @ yy_action_2"], rule exI [of _ "yy_action_4 @ yy_action_5 @ yy_action_6 @ yy_action_7"]) (simp add: yy_action_def yy_action_lengths)

lemma yy_action_4_entries: "part_at yy_action 900 yy_action_4"
  unfolding part_at_def
  by (rule exI [of _ "yy_action_1 @ yy_action_2 @ yy_action_3"], rule exI [of _ "yy_action_5 @ yy_action_6 @ yy_action_7"]) (simp add: yy_action_def yy_action_lengths)

lemma yy_action_5_entries: "part_at yy_action 1200 yy_action_5"
  unfolding part_at_def
  by (rule exI [of _ "yy_action_1 @ yy_action_2 @ yy_action_3 @ yy_action_4"], rule exI [of _ "yy_action_6 @ yy_action_7"]) (simp add: yy_action_def yy_action_lengths)

lemma yy_action_6_entries: "part_at yy_action 1500 yy_action_6"
  unfolding part_at_def
  by (rule exI [of _ "yy_action_1 @ yy_action_2 @ yy_action_3 @ yy_action_4 @ yy_action_5"], rule exI [of _ "yy_action_7"]) (simp add: yy_action_def yy_action_lengths)

lemma yy_action_7_entries: "part_at yy_action 1800 yy_action_7"
  unfolding part_at_def
  by (rule exI [of _ "yy_action_1 @ yy_action_2 @ yy_action_3 @ yy_action_4 @ yy_action_5 @ yy_action_6"], rule exI [of _ "[]"]) (simp add: yy_action_def yy_action_lengths)

lemmas yy_action_at [simp] =
  entries_of_part [OF yy_action_1_entries yy_action_1_def, unfolded table_index, unfolded One_nat_def]
  entries_of_part [OF yy_action_2_entries yy_action_2_def, unfolded table_index, unfolded One_nat_def]
  entries_of_part [OF yy_action_3_entries yy_action_3_def, unfolded table_index, unfolded One_nat_def]
  entries_of_part [OF yy_action_4_entries yy_action_4_def, unfolded table_index, unfolded One_nat_def]
  entries_of_part [OF yy_action_5_entries yy_action_5_def, unfolded table_index, unfolded One_nat_def]
  entries_of_part [OF yy_action_6_entries yy_action_6_def, unfolded table_index, unfolded One_nat_def]
  entries_of_part [OF yy_action_7_entries yy_action_7_def, unfolded table_index, unfolded One_nat_def]

lemma yy_lookahead_1_entries: "part_at yy_lookahead 0 yy_lookahead_1"
  unfolding part_at_def
  by (rule exI [of _ "[]"], rule exI [of _ "yy_lookahead_2 @ yy_lookahead_3 @ yy_lookahead_4 @ yy_lookahead_5 @ yy_lookahead_6 @ yy_lookahead_7 @ yy_lookahead_8"]) (simp add: yy_lookahead_def yy_lookahead_lengths)

lemma yy_lookahead_2_entries: "part_at yy_lookahead 300 yy_lookahead_2"
  unfolding part_at_def
  by (rule exI [of _ "yy_lookahead_1"], rule exI [of _ "yy_lookahead_3 @ yy_lookahead_4 @ yy_lookahead_5 @ yy_lookahead_6 @ yy_lookahead_7 @ yy_lookahead_8"]) (simp add: yy_lookahead_def yy_lookahead_lengths)

lemma yy_lookahead_3_entries: "part_at yy_lookahead 600 yy_lookahead_3"
  unfolding part_at_def
  by (rule exI [of _ "yy_lookahead_1 @ yy_lookahead_2"], rule exI [of _ "yy_lookahead_4 @ yy_lookahead_5 @ yy_lookahead_6 @ yy_lookahead_7 @ yy_lookahead_8"]) (simp add: yy_lookahead_def yy_lookahead_lengths)

lemma yy_lookahead_4_entries: "part_at yy_lookahead 900 yy_lookahead_4"
  unfolding part_at_def
  by (rule exI [of _ "yy_lookahead_1 @ yy_lookahead_2 @ yy_lookahead_3"], rule exI [of _ "yy_lookahead_5 @ yy_lookahead_6 @ yy_lookahead_7 @ yy_lookahead_8"]) (simp add: yy_lookahead_def yy_lookahead_lengths)

lemma yy_lookahead_5_entries: "part_at yy_lookahead 1200 yy_lookahead_5"
  unfolding part_at_def
  by (rule exI [of _ "yy_lookahead_1 @ yy_lookahead_2 @ yy_lookahead_3 @ yy_lookahead_4"], rule exI [of _ "yy_lookahead_6 @ yy_lookahead_7 @ yy_lookahead_8"]) (simp add: yy_lookahead_def yy_lookahead_lengths)

lemma yy_lookahead_6_entries: "part_at yy_lookahead 1500 yy_lookahead_6"
  unfolding part_at_def
  by (rule exI [of _ "yy_lookahead_1 @ yy_lookahead_2 @ yy_lookahead_3 @ yy_lookahead_4 @ yy_lookahead_5"], rule exI [of _ "yy_lookahead_7 @ yy_lookahead_8"]) (simp add: yy_lookahead_def yy_lookahead_lengths)

lemma yy_lookahead_7_entries: "part_at yy_lookahead 1800 yy_lookahead_7"
  unfolding part_at_def
  by (rule exI [of _ "yy_lookahead_1 @ yy_lookahead_2 @ yy_lookahead_3 @ yy_lookahead_4 @ yy_lookahead_5 @ yy_lookahead_6"], rule exI [of _ "yy_lookahead_8"]) (simp add: yy_lookahead_def yy_lookahead_lengths)

lemma yy_lookahead_8_entries: "part_at yy_lookahead 2100 yy_lookahead_8"
  unfolding part_at_def
  by (rule exI [of _ "yy_lookahead_1 @ yy_lookahead_2 @ yy_lookahead_3 @ yy_lookahead_4 @ yy_lookahead_5 @ yy_lookahead_6 @ yy_lookahead_7"], rule exI [of _ "[]"]) (simp add: yy_lookahead_def yy_lookahead_lengths)

lemmas yy_lookahead_at [simp] =
  entries_of_part [OF yy_lookahead_1_entries yy_lookahead_1_def, unfolded table_index, unfolded One_nat_def]
  entries_of_part [OF yy_lookahead_2_entries yy_lookahead_2_def, unfolded table_index, unfolded One_nat_def]
  entries_of_part [OF yy_lookahead_3_entries yy_lookahead_3_def, unfolded table_index, unfolded One_nat_def]
  entries_of_part [OF yy_lookahead_4_entries yy_lookahead_4_def, unfolded table_index, unfolded One_nat_def]
  entries_of_part [OF yy_lookahead_5_entries yy_lookahead_5_def, unfolded table_index, unfolded One_nat_def]
  entries_of_part [OF yy_lookahead_6_entries yy_lookahead_6_def, unfolded table_index, unfolded One_nat_def]
  entries_of_part [OF yy_lookahead_7_entries yy_lookahead_7_def, unfolded table_index, unfolded One_nat_def]
  entries_of_part [OF yy_lookahead_8_entries yy_lookahead_8_def, unfolded table_index, unfolded One_nat_def]

lemma yy_shift_ofst_1_entries: "part_at yy_shift_ofst 0 yy_shift_ofst_1"
  unfolding part_at_def
  by (rule exI [of _ "[]"], rule exI [of _ "yy_shift_ofst_2"]) (simp add: yy_shift_ofst_def yy_shift_ofst_lengths)

lemma yy_shift_ofst_2_entries: "part_at yy_shift_ofst 290 yy_shift_ofst_2"
  unfolding part_at_def
  by (rule exI [of _ "yy_shift_ofst_1"], rule exI [of _ "[]"]) (simp add: yy_shift_ofst_def yy_shift_ofst_lengths)

lemmas yy_shift_ofst_at [simp] =
  entries_of_part [OF yy_shift_ofst_1_entries yy_shift_ofst_1_def, unfolded table_index, unfolded One_nat_def]
  entries_of_part [OF yy_shift_ofst_2_entries yy_shift_ofst_2_def, unfolded table_index, unfolded One_nat_def]

lemma yy_reduce_ofst_1_entries: "part_at yy_reduce_ofst 0 yy_reduce_ofst_1"
  unfolding part_at_def
  by (rule exI [of _ "[]"], rule exI [of _ "yy_reduce_ofst_2"]) (simp add: yy_reduce_ofst_def yy_reduce_ofst_lengths)

lemma yy_reduce_ofst_2_entries: "part_at yy_reduce_ofst 210 yy_reduce_ofst_2"
  unfolding part_at_def
  by (rule exI [of _ "yy_reduce_ofst_1"], rule exI [of _ "[]"]) (simp add: yy_reduce_ofst_def yy_reduce_ofst_lengths)

lemmas yy_reduce_ofst_at [simp] =
  entries_of_part [OF yy_reduce_ofst_1_entries yy_reduce_ofst_1_def, unfolded table_index, unfolded One_nat_def]
  entries_of_part [OF yy_reduce_ofst_2_entries yy_reduce_ofst_2_def, unfolded table_index, unfolded One_nat_def]

lemma yy_default_1_entries: "part_at yy_default 0 yy_default_1"
  unfolding part_at_def
  by (rule exI [of _ "[]"], rule exI [of _ "yy_default_2"]) (simp add: yy_default_def yy_default_lengths)

lemma yy_default_2_entries: "part_at yy_default 290 yy_default_2"
  unfolding part_at_def
  by (rule exI [of _ "yy_default_1"], rule exI [of _ "[]"]) (simp add: yy_default_def yy_default_lengths)

lemmas yy_default_at [simp] =
  entries_of_part [OF yy_default_1_entries yy_default_1_def, unfolded table_index, unfolded One_nat_def]
  entries_of_part [OF yy_default_2_entries yy_default_2_def, unfolded table_index, unfolded One_nat_def]

lemma yyFallback_1_entries: "part_at yyFallback 0 yyFallback_1"
  unfolding part_at_def
  by (rule exI [of _ "[]"], rule exI [of _ "yyFallback_2"]) (simp add: yyFallback_def yyFallback_lengths)

lemma yyFallback_2_entries: "part_at yyFallback 95 yyFallback_2"
  unfolding part_at_def
  by (rule exI [of _ "yyFallback_1"], rule exI [of _ "[]"]) (simp add: yyFallback_def yyFallback_lengths)

lemmas yyFallback_at [simp] =
  entries_of_part [OF yyFallback_1_entries yyFallback_1_def, unfolded table_index, unfolded One_nat_def]
  entries_of_part [OF yyFallback_2_entries yyFallback_2_def, unfolded table_index, unfolded One_nat_def]

lemma yyRuleInfoLhs_1_entries: "part_at yyRuleInfoLhs 0 yyRuleInfoLhs_1"
  unfolding part_at_def
  by (rule exI [of _ "[]"], rule exI [of _ "yyRuleInfoLhs_2 @ yyRuleInfoLhs_3"]) (simp add: yyRuleInfoLhs_def yyRuleInfoLhs_lengths)

lemma yyRuleInfoLhs_2_entries: "part_at yyRuleInfoLhs 135 yyRuleInfoLhs_2"
  unfolding part_at_def
  by (rule exI [of _ "yyRuleInfoLhs_1"], rule exI [of _ "yyRuleInfoLhs_3"]) (simp add: yyRuleInfoLhs_def yyRuleInfoLhs_lengths)

lemma yyRuleInfoLhs_3_entries: "part_at yyRuleInfoLhs 270 yyRuleInfoLhs_3"
  unfolding part_at_def
  by (rule exI [of _ "yyRuleInfoLhs_1 @ yyRuleInfoLhs_2"], rule exI [of _ "[]"]) (simp add: yyRuleInfoLhs_def yyRuleInfoLhs_lengths)

lemmas yyRuleInfoLhs_at [simp] =
  entries_of_part [OF yyRuleInfoLhs_1_entries yyRuleInfoLhs_1_def, unfolded table_index, unfolded One_nat_def]
  entries_of_part [OF yyRuleInfoLhs_2_entries yyRuleInfoLhs_2_def, unfolded table_index, unfolded One_nat_def]
  entries_of_part [OF yyRuleInfoLhs_3_entries yyRuleInfoLhs_3_def, unfolded table_index, unfolded One_nat_def]

lemma yyRuleInfoNRhs_1_entries: "part_at yyRuleInfoNRhs 0 yyRuleInfoNRhs_1"
  unfolding part_at_def
  by (rule exI [of _ "[]"], rule exI [of _ "yyRuleInfoNRhs_2 @ yyRuleInfoNRhs_3"]) (simp add: yyRuleInfoNRhs_def yyRuleInfoNRhs_lengths)

lemma yyRuleInfoNRhs_2_entries: "part_at yyRuleInfoNRhs 135 yyRuleInfoNRhs_2"
  unfolding part_at_def
  by (rule exI [of _ "yyRuleInfoNRhs_1"], rule exI [of _ "yyRuleInfoNRhs_3"]) (simp add: yyRuleInfoNRhs_def yyRuleInfoNRhs_lengths)

lemma yyRuleInfoNRhs_3_entries: "part_at yyRuleInfoNRhs 270 yyRuleInfoNRhs_3"
  unfolding part_at_def
  by (rule exI [of _ "yyRuleInfoNRhs_1 @ yyRuleInfoNRhs_2"], rule exI [of _ "[]"]) (simp add: yyRuleInfoNRhs_def yyRuleInfoNRhs_lengths)

lemmas yyRuleInfoNRhs_at [simp] =
  entries_of_part [OF yyRuleInfoNRhs_1_entries yyRuleInfoNRhs_1_def, unfolded table_index, unfolded One_nat_def]
  entries_of_part [OF yyRuleInfoNRhs_2_entries yyRuleInfoNRhs_2_def, unfolded table_index, unfolded One_nat_def]
  entries_of_part [OF yyRuleInfoNRhs_3_entries yyRuleInfoNRhs_3_def, unfolded table_index, unfolded One_nat_def]

end
