(* ===== verification/Sql_Tokens.thy ===== *)
theory Sql_Tokens
  imports Keyword_Lookup
begin

text \<open>
  The tokenizer \<open>sqlite3GetToken\<close> of \<open>Backend/sqlite3.c\<close>, one definition per case of its switch.
  A text \<open>z\<close> is read with \<open>zat\<close>, so that the position after the last character holds the NUL at
  which the C string ends.  A token is its type and its length in bytes.
\<close>

type_synonym token = "nat \<times> nat"

subsection \<open>The cases of the switch\<close>

text \<open>The loop \<open>for(; P(z[i]); i++)\<close> for a class \<open>P\<close> that does not hold of the NUL.\<close>

definition advance :: "(char \<Rightarrow> bool) \<Rightarrow> string \<Rightarrow> nat \<Rightarrow> nat" where
  "advance P z i = i + length (takeWhile P (drop i z))"

definition tok_space :: "string \<Rightarrow> token" where
  "tok_space z = (TK_SPACE, advance sqlite3Isspace z 1)"

definition tok_minus :: "string \<Rightarrow> token" where
  "tok_minus z =
     (if zat z 1 = CHR ''-'' then
        (TK_SPACE, advance (\<lambda>c. c \<noteq> CHR 0x00 \<and> c \<noteq> CHR 0x0A) z 2)
      else if zat z 1 = CHR ''>'' then (TK_PTR, 2 + of_bool (zat z 2 = CHR ''>''))
      else (TK_MINUS, 1))"

text \<open>The loop of a comment: \<open>c\<close> is the character before position \<open>i\<close>, the list is the text from
  \<open>i\<close> on, and the result is the pair of \<open>c\<close> and \<open>i\<close> at the end of the loop.\<close>

fun comment_loop :: "char \<Rightarrow> string \<Rightarrow> nat \<Rightarrow> char \<times> nat" where
  "comment_loop c [] i = (CHR 0x00, i)"
| "comment_loop c (d # ds) i =
     (if c = CHR ''*'' \<and> d = CHR ''/'' then (c, i)
      else if d = CHR 0x00 then (d, i)
      else comment_loop d ds (i + 1))"

definition tok_slash :: "string \<Rightarrow> token" where
  "tok_slash z =
     (if zat z 1 \<noteq> CHR ''*'' \<or> zat z 2 = CHR 0x00 then (TK_SLASH, 1)
      else let (c, i) = comment_loop (zat z 2) (drop 3 z) 3
           in (TK_SPACE, if c \<noteq> CHR 0x00 then i + 1 else i))"

definition tok_eq :: "string \<Rightarrow> token" where
  "tok_eq z = (TK_EQ, 1 + of_bool (zat z 1 = CHR ''=''))"

definition tok_lt :: "string \<Rightarrow> token" where
  "tok_lt z =
     (let c = zat z 1 in
      if c = CHR ''='' then (TK_LE, 2)
      else if c = CHR ''>'' then (TK_NE, 2)
      else if c = CHR ''<'' then (TK_LSHIFT, 2)
      else (TK_LT, 1))"

definition tok_gt :: "string \<Rightarrow> token" where
  "tok_gt z =
     (let c = zat z 1 in
      if c = CHR ''='' then (TK_GE, 2)
      else if c = CHR ''>'' then (TK_RSHIFT, 2)
      else (TK_GT, 1))"

definition tok_bang :: "string \<Rightarrow> token" where
  "tok_bang z = (if zat z 1 \<noteq> CHR ''='' then (TK_ILLEGAL, 1) else (TK_NE, 2))"

definition tok_pipe :: "string \<Rightarrow> token" where
  "tok_pipe z = (if zat z 1 \<noteq> CHR ''|'' then (TK_BITOR, 1) else (TK_CONCAT, 2))"

text \<open>The loop over a quoted text; the result is \<open>c\<close> and \<open>i\<close> where the loop stops.\<close>

fun quote_loop :: "char \<Rightarrow> string \<Rightarrow> nat \<Rightarrow> char \<times> nat" where
  "quote_loop delim [] i = (CHR 0x00, i)"
| "quote_loop delim [c] i =
     (if c = CHR 0x00 \<or> c = delim then (c, i) else (CHR 0x00, i + 1))"
| "quote_loop delim (c # d # ds) i =
     (if c = CHR 0x00 then (c, i)
      else if c = delim then
        if d = delim then quote_loop delim ds (i + 2) else (c, i)
      else quote_loop delim (d # ds) (i + 1))"

definition tok_quote :: "string \<Rightarrow> token" where
  "tok_quote z =
     (let (c, i) = quote_loop (zat z 0) (drop 1 z) 1 in
      if c = CHR 0x27 then (TK_STRING, i + 1)
      else if c \<noteq> CHR 0x00 then (TK_ID, i + 1)
      else (TK_ILLEGAL, i))"

text \<open>The exponent and the trailing identifier characters of a number, from the type and the
  position reached so far.\<close>

definition number_fraction :: "string \<Rightarrow> token \<Rightarrow> token" where
  "number_fraction z = (\<lambda>(t, i).
     if zat z i = CHR ''.'' then (TK_FLOAT, advance sqlite3Isdigit z (i + 1)) else (t, i))"

definition number_exponent :: "string \<Rightarrow> token \<Rightarrow> token" where
  "number_exponent z = (\<lambda>(t, i).
     if (zat z i = CHR ''e'' \<or> zat z i = CHR ''E'') \<and>
        (sqlite3Isdigit (zat z (i + 1)) \<or>
         (zat z (i + 1) = CHR ''+'' \<or> zat z (i + 1) = CHR ''-'') \<and> sqlite3Isdigit (zat z (i + 2)))
     then (TK_FLOAT, advance sqlite3Isdigit z (i + 2)) else (t, i))"

definition number_tail :: "string \<Rightarrow> token \<Rightarrow> token" where
  "number_tail z = (\<lambda>(t, i). (if IdChar (zat z i) then TK_ILLEGAL else t, advance IdChar z i))"

definition tok_digit :: "string \<Rightarrow> token" where
  "tok_digit z =
     (if zat z 0 = CHR ''0'' \<and> (zat z 1 = CHR ''x'' \<or> zat z 1 = CHR ''X'') \<and> sqlite3Isxdigit (zat z 2)
      then (TK_INTEGER, advance sqlite3Isxdigit z 3)
      else number_tail z (number_exponent z (number_fraction z
             (TK_INTEGER, advance sqlite3Isdigit z 0))))"

definition tok_dot :: "string \<Rightarrow> token" where
  "tok_dot z = (if \<not> sqlite3Isdigit (zat z 1) then (TK_DOT, 1) else tok_digit z)"

fun bracket_loop :: "char \<Rightarrow> string \<Rightarrow> nat \<Rightarrow> char \<times> nat" where
  "bracket_loop c [] i = (if c = CHR '']'' then c else CHR 0x00, i)"
| "bracket_loop c (d # ds) i =
     (if c = CHR '']'' then (c, i) else if d = CHR 0x00 then (d, i)
      else bracket_loop d ds (i + 1))"

definition tok_quote2 :: "string \<Rightarrow> token" where
  "tok_quote2 z =
     (let (c, i) = bracket_loop (zat z 0) (drop 1 z) 1
      in (if c = CHR '']'' then TK_ID else TK_ILLEGAL, i))"

definition tok_varnum :: "string \<Rightarrow> token" where
  "tok_varnum z = (TK_VARIABLE, advance sqlite3Isdigit z 1)"

text \<open>The loop of a named parameter: the rest of the text, the number of identifier characters
  and the position; the result is the type, the number and the position at the end.\<close>

fun variable_loop :: "string \<Rightarrow> nat \<Rightarrow> nat \<Rightarrow> nat \<times> nat \<times> nat" where
  "variable_loop [] n i = (TK_VARIABLE, n, i)"
| "variable_loop (c # cs) n i =
     (if c = CHR 0x00 then (TK_VARIABLE, n, i)
      else if IdChar c then variable_loop cs (n + 1) (i + 1)
      else if c = CHR ''('' \<and> 0 < n then
        let i' = advance (\<lambda>d. d \<noteq> CHR 0x00 \<and> \<not> sqlite3Isspace d \<and> d \<noteq> CHR '')'') cs 0
        in if zat cs i' = CHR '')'' then (TK_VARIABLE, n, i + 1 + i' + 1)
           else (TK_ILLEGAL, n, i + 1 + i')
      else if c = CHR '':'' \<and> zat cs 0 = CHR '':'' then variable_loop (tl cs) n (i + 2)
      else (TK_VARIABLE, n, i))"

definition tok_variable :: "string \<Rightarrow> token" where
  "tok_variable z =
     (let (t, n, i) = variable_loop (drop 1 z) 0 1
      in (if n = 0 then TK_ILLEGAL else t, i))"

text \<open>The end of the function, which the identifier cases reach by \<open>break\<close>.\<close>

definition tok_id :: "string \<Rightarrow> nat \<Rightarrow> token" where
  "tok_id z i = (TK_ID, advance IdChar z i)"

definition tok_keyword :: "string \<Rightarrow> token" where
  "tok_keyword z =
     (let i = advance (\<lambda>c. char_class c \<le> CC_KYWD) z 1 in
      if IdChar (zat z i) then tok_id z (i + 1)
      else (case keywordCode z i of None \<Rightarrow> TK_ID | Some t \<Rightarrow> t, i))"

definition tok_x :: "string \<Rightarrow> token" where
  "tok_x z =
     (if zat z 1 = CHR 0x27 then
        let i = advance sqlite3Isxdigit z 2;
            bad = (zat z i \<noteq> CHR 0x27 \<or> odd i);
            i' = (if bad then advance (\<lambda>c. c \<noteq> CHR 0x00 \<and> c \<noteq> CHR 0x27) z i else i)
        in (if bad then TK_ILLEGAL else TK_BLOB, if zat z i' \<noteq> CHR 0x00 then i' + 1 else i')
      else tok_id z 1)"

definition tok_bom :: "string \<Rightarrow> token" where
  "tok_bom z = (if code (zat z 1) = 0xBB \<and> code (zat z 2) = 0xBF then (TK_SPACE, 3) else tok_id z 1)"

definition sqlite3GetToken :: "string \<Rightarrow> token" where
  "sqlite3GetToken z =
     (let k = char_class (zat z 0) in
      if k = CC_SPACE then tok_space z
      else if k = CC_MINUS then tok_minus z
      else if k = CC_LP then (TK_LP, 1)
      else if k = CC_RP then (TK_RP, 1)
      else if k = CC_SEMI then (TK_SEMI, 1)
      else if k = CC_PLUS then (TK_PLUS, 1)
      else if k = CC_STAR then (TK_STAR, 1)
      else if k = CC_SLASH then tok_slash z
      else if k = CC_PERCENT then (TK_REM, 1)
      else if k = CC_EQ then tok_eq z
      else if k = CC_LT then tok_lt z
      else if k = CC_GT then tok_gt z
      else if k = CC_BANG then tok_bang z
      else if k = CC_PIPE then tok_pipe z
      else if k = CC_COMMA then (TK_COMMA, 1)
      else if k = CC_AND then (TK_BITAND, 1)
      else if k = CC_TILDA then (TK_BITNOT, 1)
      else if k = CC_QUOTE then tok_quote z
      else if k = CC_DOT then tok_dot z
      else if k = CC_DIGIT then tok_digit z
      else if k = CC_QUOTE2 then tok_quote2 z
      else if k = CC_VARNUM then tok_varnum z
      else if k = CC_DOLLAR \<or> k = CC_VARALPHA then tok_variable z
      else if k = CC_KYWD0 then tok_keyword z
      else if k = CC_X then tok_x z
      else if k = CC_KYWD \<or> k = CC_ID then tok_id z 1
      else if k = CC_BOM then tok_bom z
      else if k = CC_NUL then (TK_ILLEGAL, 0)
      else (TK_ILLEGAL, 1))"

subsection \<open>Lengths\<close>

lemma zat_at_end [simp]: "length z \<le> i \<Longrightarrow> zat z i = CHR 0x00"
  by (simp add: zat_def)

lemma zat_nonzero: "zat z i \<noteq> CHR 0x00 \<Longrightarrow> i < length z"
  using zat_at_end not_le by blast

lemma advance_ge: "i \<le> advance P z i"
  by (simp add: advance_def)

lemma advance_le: "i \<le> length z \<Longrightarrow> advance P z i \<le> length z"
  using length_takeWhile_le [of P "drop i z"] by (simp add: advance_def)

lemma comment_loop_bounds:
  "comment_loop c ds i = (c', j) \<Longrightarrow>
     i \<le> j \<and> j \<le> i + length ds \<and> (c' \<noteq> CHR 0x00 \<longrightarrow> j < i + length ds)"
  by (induction c ds i rule: comment_loop.induct) (auto split: if_splits)

lemma quote_loop_bounds:
  "quote_loop d cs i = (c, j) \<Longrightarrow>
     i \<le> j \<and> j \<le> i + length cs \<and> (c \<noteq> CHR 0x00 \<longrightarrow> j < i + length cs)"
  by (induction d cs i rule: quote_loop.induct) (auto split: if_splits)

lemma bracket_loop_bounds:
  "bracket_loop c cs i = (c', j) \<Longrightarrow> i \<le> j \<and> j \<le> i + length cs"
  by (induction c cs i rule: bracket_loop.induct) (auto split: if_splits)

lemma variable_loop_bounds:
  "variable_loop cs n i = (t, m, j) \<Longrightarrow> i \<le> j \<and> j \<le> i + length cs"
proof (induction cs n i rule: variable_loop.induct)
  case (2 c cs n i)
  let ?i = "advance (\<lambda>d. d \<noteq> CHR 0x00 \<and> \<not> sqlite3Isspace d \<and> d \<noteq> CHR '')'') cs 0"
  have "?i \<le> length cs" by (rule advance_le) simp
  moreover have "zat cs ?i = CHR '')'' \<Longrightarrow> ?i < length cs" by (rule zat_nonzero) simp
  moreover have "zat cs 0 = CHR '':'' \<Longrightarrow> 0 < length cs" by (rule zat_nonzero) simp
  ultimately show ?case using 2 by (auto simp: Let_def simp del: length_greater_0_conv split: if_splits)
qed simp

text \<open>A token lies within the text; \<open>in_text z i n\<close> says that \<open>n\<close> is a position after \<open>i\<close>.\<close>

definition in_text :: "string \<Rightarrow> nat \<Rightarrow> token \<Rightarrow> bool" where
  "in_text z i tok \<longleftrightarrow> i \<le> snd tok \<and> snd tok \<le> length z"

named_theorems in_text

lemma in_text_advance [in_text]:
  "i \<le> j \<Longrightarrow> j \<le> length z \<Longrightarrow> in_text z i (t, advance P z j)"
  using advance_ge [of j P z] advance_le [of j z P] by (simp add: in_text_def)

lemma at_most_length:
  "zat z 0 \<noteq> CHR 0x00 \<Longrightarrow> 1 \<le> length z"
  "zat z 1 \<noteq> CHR 0x00 \<Longrightarrow> 2 \<le> length z"
  "zat z 2 \<noteq> CHR 0x00 \<Longrightarrow> 3 \<le> length z"
  using zat_nonzero [of z 0] zat_nonzero [of z 1] zat_nonzero [of z 2] by linarith+

lemma class_nonzero:
  "sqlite3Isdigit c \<Longrightarrow> c \<noteq> CHR 0x00" "sqlite3Isxdigit c \<Longrightarrow> c \<noteq> CHR 0x00"
  "IdChar c \<Longrightarrow> c \<noteq> CHR 0x00"
  by (auto simp del: One_nat_def)

lemma in_text_id [in_text]: "1 \<le> i \<Longrightarrow> i \<le> length z \<Longrightarrow> in_text z 1 (tok_id z i)"
  unfolding tok_id_def by (rule in_text_advance)

lemma in_text_space [in_text]: "zat z 0 \<noteq> CHR 0x00 \<Longrightarrow> in_text z 1 (tok_space z)"
  unfolding tok_space_def by (intro in_text_advance at_most_length) simp

lemma in_text_minus [in_text]: "zat z 0 \<noteq> CHR 0x00 \<Longrightarrow> in_text z 1 (tok_minus z)"
  using at_most_length [of z] by (auto simp: tok_minus_def in_text_def in_text_advance [unfolded in_text_def]
      simp del: One_nat_def intro: order_trans [OF _ advance_ge] advance_le)

lemma in_text_slash [in_text]: "zat z 0 \<noteq> CHR 0x00 \<Longrightarrow> in_text z 1 (tok_slash z)"
  using at_most_length [of z] comment_loop_bounds [of "zat z 2" "drop 3 z" 3]
  by (fastforce simp: tok_slash_def in_text_def split: prod.splits simp del: One_nat_def)

lemma in_text_operators [in_text]:
  assumes "zat z 0 \<noteq> CHR 0x00"
  shows "in_text z 1 (tok_eq z)" "in_text z 1 (tok_lt z)" "in_text z 1 (tok_gt z)"
    "in_text z 1 (tok_bang z)" "in_text z 1 (tok_pipe z)"
  using at_most_length [of z] assms
  by (auto simp: tok_eq_def tok_lt_def tok_gt_def tok_bang_def tok_pipe_def in_text_def Let_def
      simp del: One_nat_def)

lemma in_text_quote [in_text]:
  assumes "zat z 0 \<noteq> CHR 0x00"
  shows "in_text z 1 (tok_quote z)"
proof -
  obtain c i where q: "quote_loop (zat z 0) (drop 1 z) 1 = (c, i)" by fastforce
  from quote_loop_bounds [OF q] zat_nonzero [OF assms] show ?thesis
    unfolding tok_quote_def q in_text_def by auto
qed

lemma in_text_quote2 [in_text]:
  assumes "zat z 0 \<noteq> CHR 0x00"
  shows "in_text z 1 (tok_quote2 z)"
proof -
  obtain c i where q: "bracket_loop (zat z 0) (drop 1 z) 1 = (c, i)" by fastforce
  from bracket_loop_bounds [OF q] zat_nonzero [OF assms] show ?thesis
    unfolding tok_quote2_def q in_text_def by auto
qed

lemma in_text_variable [in_text]:
  assumes "zat z 0 \<noteq> CHR 0x00"
  shows "in_text z 1 (tok_variable z)"
proof -
  obtain t n i where q: "variable_loop (drop 1 z) 0 1 = (t, n, i)" by (metis prod_cases3)
  from variable_loop_bounds [OF q] zat_nonzero [OF assms] show ?thesis
    unfolding tok_variable_def q in_text_def by auto
qed

lemma zat_Suc_le: "zat z i = c \<Longrightarrow> c \<noteq> CHR 0x00 \<Longrightarrow> Suc i \<le> length z"
  using zat_nonzero [of z i] by auto

lemma in_text_fraction:
  assumes "in_text z i tok"
  shows "in_text z i (number_fraction z tok)"
proof (cases tok)
  case (Pair t j)
  have "in_text z i (TK_FLOAT, advance sqlite3Isdigit z (j + 1))" if "zat z j = CHR ''.''"
    using assms zat_Suc_le [OF that] Pair by (intro in_text_advance) (simp_all add: in_text_def)
  with assms Pair show ?thesis by (simp add: number_fraction_def)
qed

lemma in_text_exponent:
  assumes "in_text z i tok"
  shows "in_text z i (number_exponent z tok)"
proof (cases tok)
  case (Pair t j)
  have "in_text z i (TK_FLOAT, advance sqlite3Isdigit z (j + 2))"
    if "sqlite3Isdigit (zat z (j + 1)) \<or> sqlite3Isdigit (zat z (j + 2))"
  proof -
    from that have "j + 2 \<le> length z"
      using zat_nonzero [of z "j + 1"] zat_nonzero [of z "j + 2"] class_nonzero(1) by fastforce
    with assms Pair show ?thesis by (intro in_text_advance) (simp_all add: in_text_def)
  qed
  with assms Pair show ?thesis by (auto simp: number_exponent_def)
qed

lemma in_text_tail: "in_text z i tok \<Longrightarrow> in_text z i (number_tail z tok)"
  using in_text_advance [of i "snd tok" z _ IdChar]
  by (cases tok) (simp add: number_tail_def in_text_def)

lemma advance_first:
  "P (zat z 0) \<Longrightarrow> \<not> P (CHR 0x00) \<Longrightarrow> 1 \<le> advance P z 0"
  by (cases z) (auto simp: zat_def advance_def)

lemma advance_none: "\<not> P (zat z i) \<Longrightarrow> advance P z i = i"
  by (cases "i < length z") (simp_all add: zat_def advance_def flip: Cons_nth_drop_Suc)

lemma in_text_number:
  assumes "zat z 0 = CHR ''.'' \<or> sqlite3Isdigit (zat z 0)"
  shows "in_text z 1 (number_fraction z (TK_INTEGER, advance sqlite3Isdigit z 0))"
proof (cases "sqlite3Isdigit (zat z 0)")
  case True
  then have "in_text z 1 (TK_INTEGER, advance sqlite3Isdigit z 0)"
    using advance_first [of sqlite3Isdigit z] advance_le [of 0 z] by (simp add: in_text_def)
  then show ?thesis by (rule in_text_fraction)
next
  case False
  with assms have dot: "zat z 0 = CHR ''.''" by simp
  from False have "advance sqlite3Isdigit z 0 = 0" by (rule advance_none)
  moreover have "in_text z 1 (TK_FLOAT, advance sqlite3Isdigit z 1)"
    using zat_Suc_le [OF dot] by (intro in_text_advance) simp_all
  ultimately show ?thesis by (simp add: number_fraction_def dot)
qed

lemma in_text_digit [in_text]:
  assumes "zat z 0 = CHR ''.'' \<or> sqlite3Isdigit (zat z 0)"
  shows "in_text z 1 (tok_digit z)"
proof -
  have "in_text z 1 (TK_INTEGER, advance sqlite3Isxdigit z 3)" if "sqlite3Isxdigit (zat z 2)"
    using at_most_length(3) class_nonzero(2) [OF that] by (intro in_text_advance) simp_all
  then show ?thesis
    unfolding tok_digit_def
    using in_text_tail [OF in_text_exponent [OF in_text_number [OF assms]]] by simp
qed

lemma in_text_dot [in_text]:
  "zat z 0 = CHR ''.'' \<Longrightarrow> in_text z 1 (tok_dot z)"
  using in_text_digit [of z] zat_Suc_le [of z 0] by (simp add: tok_dot_def in_text_def)

lemma in_text_varnum [in_text]: "zat z 0 \<noteq> CHR 0x00 \<Longrightarrow> in_text z 1 (tok_varnum z)"
  unfolding tok_varnum_def by (intro in_text_advance at_most_length) simp

lemma in_text_keyword [in_text]:
  assumes "zat z 0 \<noteq> CHR 0x00"
  shows "in_text z 1 (tok_keyword z)"
proof -
  let ?i = "advance (\<lambda>c. char_class c \<le> CC_KYWD) z 1"
  have "1 \<le> ?i" "?i \<le> length z"
    using at_most_length(1) [OF assms] by (auto intro: advance_ge advance_le)
  moreover from this have "in_text z 1 (tok_id z (?i + 1))" if "IdChar (zat z ?i)"
    using zat_nonzero class_nonzero(3) [OF that] by (intro in_text_id) fastforce+
  ultimately show ?thesis by (simp add: tok_keyword_def Let_def in_text_def)
qed

lemma in_text_x [in_text]:
  assumes "zat z 0 \<noteq> CHR 0x00"
  shows "in_text z 1 (tok_x z)"
proof (cases "zat z 1 = CHR 0x27")
  case True
  define i where "i = advance sqlite3Isxdigit z 2"
  define i' where "i' = (if zat z i \<noteq> CHR 0x27 \<or> odd i
    then advance (\<lambda>c. c \<noteq> CHR 0x00 \<and> c \<noteq> CHR 0x27) z i else i)"
  have "1 \<le> i" "i \<le> length z"
    unfolding i_def using advance_ge [of 2 sqlite3Isxdigit z] zat_Suc_le [OF True]
    by (auto intro: advance_le)
  then have "1 \<le> i'" "i' \<le> length z"
    unfolding i'_def using advance_ge [of i _ z] by (auto intro: advance_le le_trans)
  moreover have "Suc i' \<le> length z" if "zat z i' \<noteq> CHR 0x00"
    using zat_Suc_le [OF refl that] .
  moreover have "snd (tok_x z) = (if zat z i' \<noteq> CHR 0x00 then i' + 1 else i')"
    using True unfolding tok_x_def Let_def i'_def i_def by simp
  ultimately show ?thesis
    by (simp add: in_text_def)
next
  case False
  then show ?thesis
    using in_text_id [of 1 z] at_most_length(1) [OF assms] by (simp add: tok_x_def)
qed

lemma in_text_bom [in_text]:
  assumes "zat z 0 \<noteq> CHR 0x00"
  shows "in_text z 1 (tok_bom z)"
proof -
  have "3 \<le> length z" if "code (zat z 2) = 0xBF"
    using that at_most_length(3) [of z] by (cases "zat z 2 = CHR 0x00") auto
  then show ?thesis
    using in_text_id [of 1 z] at_most_length(1) [OF assms] by (auto simp: tok_bom_def in_text_def)
qed

lemma code_eq_iff: "c = d \<longleftrightarrow> code c = code d"
  by simp

lemma class_of_first:
  "char_class c = CC_DOT \<Longrightarrow> c = CHR ''.''"
  "char_class c = CC_DIGIT \<Longrightarrow> sqlite3Isdigit c"
  "char_class c = CC_NUL \<longleftrightarrow> c = CHR 0x00"
  unfolding char_class_eq CC_DOT_def CC_DIGIT_def CC_NUL_def
  by (simp_all add: code_eq_iff ctype_iffs class_code_def split: if_splits)

lemma if_both: "(c \<Longrightarrow> P x) \<Longrightarrow> (\<not> c \<Longrightarrow> P y) \<Longrightarrow> P (if c then x else y)"
  by simp

lemma sqlite3GetToken_in_text:
  assumes "zat z 0 \<noteq> CHR 0x00"
  shows "in_text z 1 (sqlite3GetToken z)"
proof -
  have "1 \<le> length z" by (rule at_most_length(1) [OF assms])
  then have one: "in_text z 1 (t, 1)" for t by (simp add: in_text_def)
  have id: "in_text z 1 (tok_id z 1)" by (rule in_text_id [OF order_refl \<open>1 \<le> length z\<close>])
  have nul: "char_class (zat z 0) \<noteq> CC_NUL" using assms class_of_first(3) by blast
  have dot: "in_text z 1 (tok_dot z)" if "char_class (zat z 0) = CC_DOT"
    using in_text_dot class_of_first(1) [OF that] .
  have digit: "in_text z 1 (tok_digit z)" if "char_class (zat z 0) = CC_DIGIT"
    using in_text_digit class_of_first(2) [OF that] by blast
  show ?thesis
    unfolding sqlite3GetToken_def Let_def
    by (intro if_both [where P = "in_text z 1"] one id dot digit in_text_space in_text_minus in_text_slash
        in_text_operators in_text_quote in_text_quote2 in_text_variable in_text_varnum
        in_text_keyword in_text_x in_text_bom assms; use nul in blast)
qed

subsection \<open>The tokens of a text\<close>

function tokens :: "string \<Rightarrow> (nat \<times> string) list" where
  "tokens z =
     (if zat z 0 = CHR 0x00 then []
      else let (t, n) = sqlite3GetToken z in (t, take n z) # tokens (drop n z))"
  by auto
termination
proof (relation "measure length")
  fix z tok t n
  assume tok: "zat z 0 \<noteq> CHR 0x00" "tok = sqlite3GetToken z" "(t, n) = tok"
  from tok(2,3) have "sqlite3GetToken z = (t, n)" by simp
  with sqlite3GetToken_in_text [OF tok(1)] have "0 < n \<and> n \<le> length z"
    by (auto simp: in_text_def)
  then show "(drop n z, z) \<in> measure length" by auto
qed simp

declare tokens.simps [simp del]



end
