(* ===== verification/Sql_Parser.thy ===== *)
theory Sql_Parser
  imports Sql_Grammar Sql_Tokens
begin

text \<open>
  The parser engine of \<open>Backend/sqlite3.c\<close> (\<open>yy_find_shift_action\<close>, \<open>yy_find_reduce_action\<close>,
  \<open>yy_shift\<close>, \<open>yy_reduce\<close>, \<open>sqlite3Parser\<close>) and the loop that feeds it, \<open>sqlite3RunParser\<close>.
  What the actions of the rules do (they generate the code of the statement) is not modelled:
  the log of shifts and reductions is kept, and the result code that the actions leave in the
  parse object is a parameter, a function of that log.
\<close>

subsection \<open>Actions\<close>

text \<open>The parser tries the token, then its fallback, then the wildcard; the second call has no
  fallback to go to (lemma \<open>fallback_final\<close>).\<close>

definition yy_shift_at :: "nat \<Rightarrow> nat \<Rightarrow> nat" where
  "yy_shift_at stateno iLookAhead = yy_shift_ofst ! stateno + iLookAhead"

definition yy_default_action :: "nat \<Rightarrow> nat \<Rightarrow> nat" where
  "yy_default_action iLookAhead stateno =
     (let j = yy_shift_at stateno YYWILDCARD in
      if yy_lookahead ! j = YYWILDCARD \<and> 0 < iLookAhead then yy_action ! j
      else yy_default ! stateno)"

definition yy_find_shift_action :: "nat \<Rightarrow> nat \<Rightarrow> nat" where
  "yy_find_shift_action iLookAhead stateno =
     (if YY_MAX_SHIFT < stateno then stateno
      else let i = yy_shift_at stateno iLookAhead in
        if yy_lookahead ! i = iLookAhead then yy_action ! i
        else let iFallback = yyFallback ! iLookAhead in
          if iFallback = 0 then yy_default_action iLookAhead stateno
          else let i = yy_shift_at stateno iFallback in
            if yy_lookahead ! i = iFallback then yy_action ! i
            else yy_default_action iFallback stateno)"

definition yy_find_reduce_action :: "nat \<Rightarrow> nat \<Rightarrow> nat" where
  "yy_find_reduce_action stateno iLookAhead =
     yy_action ! nat (yy_reduce_ofst ! stateno + int iLookAhead)"

text \<open>The indices stay within the tables.\<close>

lemma shift_offsets: "list_all (\<lambda>i. i \<le> YY_ACTTAB_COUNT) yy_shift_ofst"
  by (simp add: yy_shift_ofst_def yy_shift_ofst_1_def yy_shift_ofst_2_def YY_ACTTAB_COUNT_def)

lemma lookahead_last_part: "list_all (\<lambda>t. t = 319) yy_lookahead_8"
  by (simp add: yy_lookahead_8_def)

lemma lookahead_padding:
  assumes "2098 \<le> i" "i < 2283"
  shows "yy_lookahead ! i = YYNOCODE"
proof (cases "i < 2100")
  case True
  with assms(1) have "i = 2098 \<or> i = 2099" by linarith
  then show ?thesis by (auto simp: YYNOCODE_def)
next
  case False
  obtain pre post where parts: "yy_lookahead = pre @ yy_lookahead_8 @ post" "length pre = 2100"
    using yy_lookahead_8_entries unfolding part_at_def by blast
  have "(pre @ yy_lookahead_8 @ post) ! i = yy_lookahead_8 ! (i - 2100)"
    using False assms(2) parts(2) yy_lookahead_lengths by (auto simp: nth_append)
  then have "yy_lookahead ! i = yy_lookahead_8 ! (i - 2100)" by (simp only: parts(1))
  with False assms(2) lookahead_last_part show ?thesis
    by (simp add: list_all_length yy_lookahead_lengths YYNOCODE_def)
qed

lemma fallbacks: "list_all (\<lambda>t. t = 0 \<or> t = 59) yyFallback"
  by (simp add: yyFallback_def yyFallback_1_def yyFallback_2_def)

lemma fallback_final: "t < YYNTOKEN \<Longrightarrow> yyFallback ! (yyFallback ! t) = 0"
  using fallbacks yyFallback_lengths by (auto simp: list_all_length YYNTOKEN_def)

text \<open>For every state and token the parser only reads within its tables: the look-ahead table
  at the token, at its fallback and at the wildcard, and the action table where the look-ahead
  table has the token; a fallback token has no fallback itself.\<close>

theorem parser_tables_in_range:
  assumes "stateno \<le> YY_MAX_SHIFT" "t < YYNTOKEN"
  shows "yy_shift_at stateno t < length yy_lookahead \<and>
    yy_shift_at stateno YYWILDCARD < length yy_lookahead \<and>
    (yy_lookahead ! yy_shift_at stateno t = t \<longrightarrow> yy_shift_at stateno t < length yy_action) \<and>
    yyFallback ! t < YYNTOKEN \<and> yyFallback ! (yyFallback ! t) = 0"
proof -
  have "yy_shift_ofst ! stateno \<le> 2098"
    using shift_offsets assms(1) by (simp add: list_all_length yy_shift_ofst_lengths yy_consts)
  moreover have "yyFallback ! t = 0 \<or> yyFallback ! t = 59"
    using fallbacks assms(2) by (simp add: list_all_length yyFallback_lengths yy_consts)
  moreover have "yy_shift_at stateno t < 2098" if "yy_lookahead ! yy_shift_at stateno t = t" "yy_shift_at stateno t < 2283"
    using lookahead_padding [of "yy_shift_at stateno t"] that assms(2) by (fastforce simp: yy_consts)
  ultimately show ?thesis
    using assms(2) fallback_final [OF assms(2)]
    by (auto simp: yy_shift_at_def yy_lookahead_lengths yy_action_lengths yy_consts)
qed

lemma parser_tables_in_range_witness: "yy_shift_at 575 184 < length yy_lookahead"
  using parser_tables_in_range [of 575 184] by (simp add: yy_consts)

subsection \<open>The engine\<close>

datatype parse_event = Shifted nat string | Reduced nat

datatype parse_error =
    Near string | Incomplete | Stack_Overflow | Unrecognized string | Too_Big | Interrupted

text \<open>A parser: its stack (top first, with the initial entry), the log, and what it leaves in the
  parse object: the result code and the error.\<close>

record yyParser =
  yystack :: "(nat \<times> nat) list"
  yylog :: "parse_event list"
  parse_rc :: int
  parse_err :: "parse_error option"

definition PARSE_OK :: int where "PARSE_OK = 0"
definition PARSE_ERROR :: int where "PARSE_ERROR = 1"

definition sqlite3ParserInit :: yyParser where
  "sqlite3ParserInit = \<lparr>yystack = [(0, 0)], yylog = [], parse_rc = PARSE_OK, parse_err = None\<rparr>"

definition parse_ErrorMsg :: "parse_error \<Rightarrow> yyParser \<Rightarrow> yyParser" where
  "parse_ErrorMsg e p = p\<lparr>parse_rc := PARSE_ERROR, parse_err := Some e\<rparr>"

definition yy_syntax_error :: "string \<Rightarrow> yyParser \<Rightarrow> yyParser" where
  "yy_syntax_error yyminor p =
     (if zat yyminor 0 \<noteq> CHR 0x00 then parse_ErrorMsg (Near yyminor) p else parse_ErrorMsg Incomplete p)"

definition yyStackOverflow :: "yyParser \<Rightarrow> yyParser" where
  "yyStackOverflow p = parse_ErrorMsg Stack_Overflow (p\<lparr>yystack := [last (yystack p)]\<rparr>)"

definition yy_shift :: "nat \<Rightarrow> nat \<Rightarrow> string \<Rightarrow> yyParser \<Rightarrow> yyParser" where
  "yy_shift yyNewState yyMajor yyMinor p =
     (if YYSTACKDEPTH \<le> length (yystack p) then yyStackOverflow p
      else let s = (if YY_MAX_SHIFT < yyNewState
                    then yyNewState + YY_MIN_REDUCE - YY_MIN_SHIFTREDUCE else yyNewState)
           in p\<lparr>yystack := (s, yyMajor) # yystack p, yylog := yylog p @ [Shifted yyMajor yyMinor]\<rparr>)"

text \<open>The number of stack entries a rule replaces; the table holds it negated.\<close>

definition rule_size :: "nat \<Rightarrow> nat" where
  "rule_size yyruleno = nat (- (yyRuleInfoNRhs ! yyruleno))"

text \<open>A reduction, and the action that follows it; a stack that does not hold the entries of the
  rule has no defined result.\<close>

definition yy_reduce :: "(parse_event list \<Rightarrow> int) \<Rightarrow> nat \<Rightarrow> yyParser \<Rightarrow> (nat \<times> yyParser) option" where
  "yy_reduce gen yyruleno p =
     (if length (yystack p) \<le> rule_size yyruleno then None
      else
        let log = yylog p @ [Reduced yyruleno];
            yygoto = yyRuleInfoLhs ! yyruleno;
            below = drop (rule_size yyruleno) (yystack p);
            yyact = yy_find_reduce_action (fst (hd below)) yygoto
        in Some (yyact, p\<lparr>yystack := (yyact, yygoto) # below, yylog := log, parse_rc := gen log\<rparr>))"

partial_function (option) parser_loop ::
  "(parse_event list \<Rightarrow> int) \<Rightarrow> nat \<Rightarrow> string \<Rightarrow> nat \<Rightarrow> yyParser \<Rightarrow> yyParser option" where
  "parser_loop gen yymajor yyminor yyact p =
     (let act = yy_find_shift_action yymajor yyact in
      if YY_MIN_REDUCE \<le> act then
        let yyruleno = act - YY_MIN_REDUCE in
        if rule_size yyruleno = 0 \<and> YYSTACKDEPTH \<le> length (yystack p) then Some (yyStackOverflow p)
        else (case yy_reduce gen yyruleno p of
                None \<Rightarrow> None
              | Some r \<Rightarrow> parser_loop gen yymajor yyminor (fst r) (snd r))
      else if act \<le> YY_MAX_SHIFTREDUCE then Some (yy_shift act yymajor yyminor p)
      else if act = YY_ACCEPT_ACTION then Some (p\<lparr>yystack := tl (yystack p)\<rparr>)
      else Some (yy_syntax_error yyminor p))"

definition sqlite3Parser ::
  "(parse_event list \<Rightarrow> int) \<Rightarrow> nat \<Rightarrow> string \<Rightarrow> yyParser \<Rightarrow> yyParser option" where
  "sqlite3Parser gen yymajor yyminor p =
     (case yystack p of
        [] \<Rightarrow> None
      | (stateno, _) # _ \<Rightarrow> parser_loop gen yymajor yyminor stateno p)"

subsection \<open>Tokens for the parser\<close>

definition sqlite3ParserFallback :: "nat \<Rightarrow> nat" where
  "sqlite3ParserFallback iToken = yyFallback ! iToken"

lemma token_at_end: "zat z 0 = CHR 0x00 \<Longrightarrow> sqlite3GetToken z = (TK_ILLEGAL, 0)"
  by (simp add: sqlite3GetToken_def cc_defs)

lemma token_length:
  assumes "sqlite3GetToken z = (t, n)" "t \<noteq> TK_ILLEGAL \<or> zat z 0 \<noteq> CHR 0x00"
  shows "0 < n \<and> n \<le> length z \<and> z \<noteq> []"
proof -
  have "zat z 0 \<noteq> CHR 0x00" using assms token_at_end by auto
  from sqlite3GetToken_in_text [OF this] assms(1) show ?thesis
    by (auto simp: in_text_def)
qed

function getToken :: "string \<Rightarrow> nat \<times> string" where
  "getToken z =
     (let (t, n) = sqlite3GetToken z in
      if t = TK_SPACE then getToken (drop n z)
      else (if t = TK_ID \<or> t = TK_STRING \<or> t = TK_JOIN_KW \<or> t = TK_WINDOW \<or> t = TK_OVER \<or>
               sqlite3ParserFallback t = TK_ID then TK_ID else t, drop n z))"
  by auto
termination
proof (relation "measure length")
  fix z tok t n
  assume "tok = sqlite3GetToken z" "(t, n) = tok" "t = TK_SPACE"
  then have "0 < n \<and> n \<le> length z \<and> z \<noteq> []"
    by (intro token_length [of z t n]) (simp_all add: tk_defs)
  then show "(drop n z, z) \<in> measure length" by simp
qed simp

definition analyzeWindowKeyword :: "string \<Rightarrow> nat" where
  "analyzeWindowKeyword z =
     (let (t, z) = getToken z in
      if t \<noteq> TK_ID then TK_ID
      else let (t, z) = getToken z in if t \<noteq> TK_AS then TK_ID else TK_WINDOW)"

definition analyzeOverKeyword :: "string \<Rightarrow> int \<Rightarrow> nat" where
  "analyzeOverKeyword z lastToken =
     (if lastToken = int TK_RP then
        let (t, z) = getToken z in if t = TK_LP \<or> t = TK_ID then TK_OVER else TK_ID
      else TK_ID)"

definition analyzeFilterKeyword :: "string \<Rightarrow> int \<Rightarrow> nat" where
  "analyzeFilterKeyword z lastToken =
     (if lastToken = int TK_RP \<and> fst (getToken z) = TK_LP then TK_FILTER else TK_ID)"

subsection \<open>Parsing a text\<close>

text \<open>What one round of the loop of \<open>sqlite3RunParser\<close> does before it calls the parser: stop, go
  on after white space, or feed a token of some length.\<close>

datatype parser_step = Stop int parse_error | Ready | Skip nat | Feed nat nat

definition PARSE_TOOBIG :: int where "PARSE_TOOBIG = 18"
definition PARSE_INTERRUPT :: int where "PARSE_INTERRUPT = 9"
definition PARSE_DONE :: int where "PARSE_DONE = 101"

definition parser_input :: "bool \<Rightarrow> int \<Rightarrow> int \<Rightarrow> string \<Rightarrow> parser_step" where
  "parser_input interrupted mxSqlLen lastTokenParsed z =
     (let (tokenType, n) = sqlite3GetToken z in
      if mxSqlLen - int n < 0 then Stop PARSE_TOOBIG Too_Big
      else if TK_WINDOW \<le> tokenType then
        if interrupted then Stop PARSE_INTERRUPT Interrupted
        else if tokenType = TK_SPACE then Skip n
        else if zat z 0 = CHR 0x00 then
          if lastTokenParsed = int TK_SEMI then Feed 0 0
          else if lastTokenParsed = 0 then Ready
          else Feed TK_SEMI 0
        else if tokenType = TK_WINDOW then Feed (analyzeWindowKeyword (drop 6 z)) n
        else if tokenType = TK_OVER then Feed (analyzeOverKeyword (drop 4 z) lastTokenParsed) n
        else if tokenType = TK_FILTER then Feed (analyzeFilterKeyword (drop 6 z) lastTokenParsed) n
        else Stop PARSE_ERROR (Unrecognized (take n z))
      else Feed tokenType n)"

partial_function (option) parse_loop ::
  "(parse_event list \<Rightarrow> int) \<Rightarrow> bool \<Rightarrow> int \<Rightarrow> int \<Rightarrow> string \<Rightarrow> yyParser \<Rightarrow> (yyParser \<times> string) option" where
  "parse_loop gen interrupted mxSqlLen lastTokenParsed z p =
     (case parser_input interrupted mxSqlLen lastTokenParsed z of
        Stop rc e \<Rightarrow> Some (p\<lparr>parse_rc := rc, parse_err := Some e\<rparr>, z)
      | Ready \<Rightarrow> Some (p, z)
      | Skip n \<Rightarrow> parse_loop gen interrupted (mxSqlLen - int n) lastTokenParsed (drop n z) p
      | Feed t n \<Rightarrow>
          (case sqlite3Parser gen t (take n z) p of
             None \<Rightarrow> None
           | Some p' \<Rightarrow>
               if parse_rc p' \<noteq> PARSE_OK then Some (p', drop n z)
               else parse_loop gen interrupted (mxSqlLen - int n) (int t) (drop n z) p'))"

text \<open>\<open>sqlite3RunParser\<close>: whether there was an error, the parser at the end, and \<open>zTail\<close>.\<close>

definition sqlite3RunParser ::
  "(parse_event list \<Rightarrow> int) \<Rightarrow> bool \<Rightarrow> int \<Rightarrow> string \<Rightarrow> (bool \<times> yyParser \<times> string) option" where
  "sqlite3RunParser gen interrupted mxSqlLen zSql =
     (case parse_loop gen interrupted mxSqlLen (- 1) zSql sqlite3ParserInit of
        None \<Rightarrow> None
      | Some (p, zTail) \<Rightarrow>
          Some (parse_err p \<noteq> None \<or> parse_rc p \<noteq> PARSE_OK \<and> parse_rc p \<noteq> PARSE_DONE, p, zTail))"

end
