(* ===== verification/Sql_Queries.thy ===== *)
theory Sql_Queries
  imports Sql_Parser Server_App
begin

text \<open>
  What the queries of this program are for the parser, and the loop of \<open>sqlite3_exec\<close> that runs
  the statements of a text one after the other.  A value without a quote stays one string token,
  so a query is the one statement it was written as.
\<close>

subsection \<open>Tokens of a quoted value\<close>

lemma quote_loop_Cons:
  "quote_loop d (c # cs) i =
     (if c = CHR 0x00 then (c, i)
      else if c = d then if cs \<noteq> [] \<and> hd cs = d then quote_loop d (tl cs) (i + 2) else (c, i)
      else quote_loop d cs (i + 1))"
  by (cases cs) auto

lemma quote_loop_value:
  assumes "d \<notin> set v" "CHR 0x00 \<notin> set v" "d \<noteq> CHR 0x00" "rest = [] \<or> hd rest \<noteq> d"
  shows "quote_loop d (v @ d # rest) i = (d, i + length v)"
  using assms(1,2)
proof (induction v arbitrary: i)
  case Nil
  with assms(3,4) show ?case by (auto simp: quote_loop_Cons)
next
  case (Cons c v)
  then show ?case by (auto simp: quote_loop_Cons)
qed

lemma class_quote: "char_class (CHR 0x27) = CC_QUOTE"
  by (simp add: char_class_eq class_code_def cc_defs)

lemma tok_quote_value:
  assumes "CHR 0x27 \<notin> set v" "CHR 0x00 \<notin> set v" "rest = [] \<or> hd rest \<noteq> CHR 0x27"
  shows "tok_quote (CHR 0x27 # v @ CHR 0x27 # rest) = (TK_STRING, length v + 2)"
  using quote_loop_value [OF assms(1,2) _ assms(3), of 1]
  by (simp add: tok_quote_def zat_def)

lemma GetToken_Cons:
  "char_class c = CC_SPACE \<Longrightarrow> sqlite3GetToken (c # cs) = tok_space (c # cs)"
  "char_class c = CC_LP \<Longrightarrow> sqlite3GetToken (c # cs) = (TK_LP, 1)"
  "char_class c = CC_RP \<Longrightarrow> sqlite3GetToken (c # cs) = (TK_RP, 1)"
  "char_class c = CC_SEMI \<Longrightarrow> sqlite3GetToken (c # cs) = (TK_SEMI, 1)"
  "char_class c = CC_STAR \<Longrightarrow> sqlite3GetToken (c # cs) = (TK_STAR, 1)"
  "char_class c = CC_COMMA \<Longrightarrow> sqlite3GetToken (c # cs) = (TK_COMMA, 1)"
  "char_class c = CC_MINUS \<Longrightarrow> sqlite3GetToken (c # cs) = tok_minus (c # cs)"
  "char_class c = CC_EQ \<Longrightarrow> sqlite3GetToken (c # cs) = tok_eq (c # cs)"
  "char_class c = CC_QUOTE \<Longrightarrow> sqlite3GetToken (c # cs) = tok_quote (c # cs)"
  "char_class c = CC_DIGIT \<Longrightarrow> sqlite3GetToken (c # cs) = tok_digit (c # cs)"
  "char_class c = CC_KYWD0 \<Longrightarrow> sqlite3GetToken (c # cs) = tok_keyword (c # cs)"
  "char_class c = CC_KYWD \<Longrightarrow> sqlite3GetToken (c # cs) = tok_id (c # cs) 1"
  by (simp_all add: sqlite3GetToken_def zat_def cc_defs)

fun lex_statement :: "nat \<Rightarrow> string \<Rightarrow> ((nat \<times> string) list \<times> string) option" where
  "lex_statement 0 z = None"
| "lex_statement (Suc fuel) z =
     (let (t, n) = sqlite3GetToken z in
      if t = TK_SPACE then lex_statement fuel (drop n z)
      else if t = TK_SEMI then Some ([(t, take n z)], drop n z)
      else if TK_WINDOW \<le> t then None
      else map_option (\<lambda>(ts, r). ((t, take n z) # ts, r)) (lex_statement fuel (drop n z)))"

lemma lex_statement_numeral:
  "lex_statement (numeral k) z =
     (let (t, n) = sqlite3GetToken z in
      if t = TK_SPACE then lex_statement (pred_numeral k) (drop n z)
      else if t = TK_SEMI then Some ([(t, take n z)], drop n z)
      else if TK_WINDOW \<le> t then None
      else map_option (\<lambda>(ts, r). ((t, take n z) # ts, r)) (lex_statement (pred_numeral k) (drop n z)))"
  by (simp add: numeral_eq_Suc)

lemma keywordCode_upper:
  assumes "n \<le> length z" "list_all is_keyword_char (take n z)"
  shows "keywordCode z n = upper_chain 147 (map upper (take n z)) (aKWHash ! keyword_hash (map upper (take n z)) n)"
proof -
  have "length (map upper (take n z)) = n" using assms(1) by simp
  then show ?thesis
    using keywordCode_table [OF assms] upper_lookup [of "map upper (take n z)"] by metis
qed

lemmas lex_simps = lex_statement_numeral GetToken_Cons char_class_eq class_code_def cc_defs
  tok_quote_value tok_space_def tok_eq_def tok_minus_def tok_keyword_def tok_id_def advance_def
  zat_def ctype_iffs keywordCode_upper is_keyword_char_def upper_def keyword_hash_def charMap_eq
  lower_code_def numeral_2_eq_2 [symmetric] aKW_at keyword_list_at upper_chain_numeral
  char_of_eq_iff take_bit_eq_mod

text \<open>Feeding tokens to the parser, until an action ends the statement.\<close>

fun feed_tokens ::
  "(parse_event list \<Rightarrow> int) \<Rightarrow> (nat \<times> string) list \<Rightarrow> yyParser \<Rightarrow> yyParser option" where
  "feed_tokens gen [] p = None"
| "feed_tokens gen ((t, s) # ts) p =
     (case sqlite3Parser gen t s p of
        None \<Rightarrow> None
      | Some p' \<Rightarrow> if parse_rc p' \<noteq> PARSE_OK then if ts = [] then Some p' else None
                  else feed_tokens gen ts p')"

lemma lex_statement_nonempty: "lex_statement fuel z \<noteq> Some ([], r)"
  by (induction fuel arbitrary: z) (auto split: if_splits prod.splits)

lemma parse_loop_lex:
  "lex_statement fuel z = Some (ts, r) \<Longrightarrow> feed_tokens gen ts p = Some p' \<Longrightarrow> int (length z) \<le> mx \<Longrightarrow>
     parse_loop gen False mx prev z p = Some (p', r)"
proof (induction fuel arbitrary: z ts p mx prev)
  case (Suc fuel)
  obtain t n where tok: "sqlite3GetToken z = (t, n)" by fastforce
  have "n \<le> length z"
    using token_length [OF tok] tok token_at_end [of z] by (cases "zat z 0 = CHR 0x00") auto
  then have mx: "int (length (drop n z)) \<le> mx - int n" "\<not> mx < int n"
    using Suc.prems(3) by auto
  show ?case
  proof (cases "t = TK_SPACE")
    case True
    then have "lex_statement fuel (drop n z) = Some (ts, r)"
      using Suc.prems(1) by (simp add: tok)
    from Suc.IH [OF this Suc.prems(2) mx(1)] show ?thesis
      by (subst parse_loop.simps) (simp add: parser_input_def tok mx(2) True tk_defs)
  next
    case False
    then have t: "t < TK_WINDOW"
      using Suc.prems(1) by (auto simp: tok tk_defs split: if_splits)
    obtain ts' where ts: "ts = (t, take n z) # ts'"
      using Suc.prems(1) False by (auto simp: tok split: if_splits)
    obtain q where q: "sqlite3Parser gen t (take n z) p = Some q"
      using Suc.prems(2) by (cases "sqlite3Parser gen t (take n z) p") (simp_all add: ts)
    have feed: "if parse_rc q \<noteq> PARSE_OK then ts' = [] \<and> p' = q else feed_tokens gen ts' q = Some p'"
      using Suc.prems(2) by (auto simp: ts q split: if_splits)
    have lex: "if t = TK_SEMI then ts' = [] \<and> r = drop n z else lex_statement fuel (drop n z) = Some (ts', r)"
      using Suc.prems(1) False t by (auto simp: tok ts split: if_splits)
    have "parse_loop gen False mx prev z p =
        (if parse_rc q \<noteq> PARSE_OK then Some (q, drop n z)
         else parse_loop gen False (mx - int n) (int t) (drop n z) q)"
      using t by (subst parse_loop.simps) (simp add: parser_input_def tok mx(2) q)
    moreover have "r = drop n z" if "parse_rc q \<noteq> PARSE_OK"
      using that feed lex lex_statement_nonempty [of fuel "drop n z"] by (auto split: if_splits)
    ultimately show ?thesis
      using feed lex Suc.IH [of "drop n z" ts' q "mx - int n" "int t"] mx(1)
      by (auto split: if_splits)
  qed
qed simp


definition quote_free :: "string \<Rightarrow> bool" where
  "quote_free v \<longleftrightarrow> CHR 0x27 \<notin> set v \<and> CHR 0x00 \<notin> set v"

text \<open>A code generator that meets no error: the rule \<open>cmdx ::= cmd\<close> (number 2) ends the statement.\<close>

definition clean_codegen :: "parse_event list \<Rightarrow> int" where
  "clean_codegen log = (if Reduced 2 \<in> set log then PARSE_DONE else PARSE_OK)"

fun shifted :: "parse_event list \<Rightarrow> (nat \<times> string) list" where
  "shifted [] = []"
| "shifted (Shifted t s # es) = (t, s) # shifted es"
| "shifted (Reduced r # es) = shifted es"

lemmas parse_simps = sqlite3Parser_def sqlite3ParserInit_def parser_loop.simps
  yy_find_shift_action_def yy_shift_at_def yy_consts yy_default_action_def
  yy_find_reduce_action_def yy_reduce_def rule_size_def PARSE_OK_def yy_shift_def
  clean_codegen_def PARSE_DONE_def

subsection \<open>Executing a text\<close>

text \<open>The loop of \<open>sqlite3_exec\<close>.  Preparing a statement is one run of the parser, whose result
  code says whether there is an error (a locked schema and the retries after a change of the
  schema are not modelled).  A statement is compiled when the rule \<open>cmdx ::= cmd\<close> was
  reduced; running it to its end is the parameter \<open>run\<close>, which gives the result code, the rows
  for the callback (which returns 0 in all the calls of this program) and the new database.\<close>

definition compiled :: "parse_event list \<Rightarrow> bool" where
  "compiled log \<longleftrightarrow> Reduced 2 \<in> set log"

partial_function (option) exec_loop ::
  "('db \<Rightarrow> parse_event list \<Rightarrow> int) \<Rightarrow> (parse_event list \<Rightarrow> 'db \<Rightarrow> int \<times> 'row list \<times> 'db) \<Rightarrow> int \<Rightarrow>
     string \<Rightarrow> 'row list \<Rightarrow> 'db \<Rightarrow> (int \<times> 'row list \<times> 'db) option" where
  "exec_loop gen run mxSqlLen zSql rows d =
     (if zat zSql 0 = CHR 0x00 then Some (PARSE_OK, rows, d)
      else case sqlite3RunParser (gen d) False mxSqlLen zSql of
             None \<Rightarrow> None
           | Some (nErr, p, zLeftover) \<Rightarrow>
               if nErr then Some (parse_rc p, rows, d)
               else if \<not> compiled (yylog p) then exec_loop gen run mxSqlLen zLeftover rows d
               else let (rc, rs, d') = run (yylog p) d in
                    if rc \<noteq> PARSE_OK then Some (rc, rows @ rs, d')
                    else exec_loop gen run mxSqlLen (dropWhile sqlite3Isspace zLeftover) (rows @ rs) d')"

text \<open>A text that is one statement, by its tokens.\<close>

definition one_statement :: "string \<Rightarrow> (nat \<times> string) list \<Rightarrow> string \<Rightarrow> bool" where
  "one_statement z ts r \<longleftrightarrow>
     (\<exists>fuel p. lex_statement fuel z = Some (ts, r) \<and> feed_tokens clean_codegen ts sqlite3ParserInit = Some p \<and>
       parse_rc p = PARSE_DONE \<and> parse_err p = None \<and> shifted (yylog p) = ts \<and> compiled (yylog p))"

lemma lex_statement_start: "lex_statement fuel z = Some x \<Longrightarrow> zat z 0 \<noteq> CHR 0x00"
  by (cases fuel) (auto simp: token_at_end tk_defs)

lemma one_statement_parses:
  assumes "one_statement z ts r" "int (length z) \<le> mx"
  obtains p where "sqlite3RunParser clean_codegen False mx z = Some (False, p, r)"
    "shifted (yylog p) = ts" "compiled (yylog p)"
proof -
  from assms(1) obtain fuel p where p: "lex_statement fuel z = Some (ts, r)"
    "feed_tokens clean_codegen ts sqlite3ParserInit = Some p"
    "parse_rc p = PARSE_DONE" "parse_err p = None" "shifted (yylog p) = ts" "compiled (yylog p)"
    unfolding one_statement_def by blast
  have "sqlite3RunParser clean_codegen False mx z = Some (False, p, r)"
    by (simp add: sqlite3RunParser_def parse_loop_lex [OF p(1,2) assms(2)] p(3,4))
  then show ?thesis by (rule that [OF _ p(5,6)])
qed

lemma exec_one_statement:
  assumes "one_statement z ts r" "int (length z) \<le> mx"
  obtains log where "shifted log = ts"
    "\<And>run rows d. exec_loop (\<lambda>_. clean_codegen) run mx z rows d =
      (let (rc, rs, d') = run log d in
       if rc \<noteq> PARSE_OK then Some (rc, rows @ rs, d')
       else exec_loop (\<lambda>_. clean_codegen) run mx (dropWhile sqlite3Isspace r) (rows @ rs) d')"
proof -
  obtain p where p: "sqlite3RunParser clean_codegen False mx z = Some (False, p, r)"
    "shifted (yylog p) = ts" "compiled (yylog p)"
    using one_statement_parses [OF assms] .
  have z: "zat z 0 \<noteq> CHR 0x00"
    using assms(1) lex_statement_start unfolding one_statement_def by blast
  show ?thesis
  proof (rule that [OF p(2)])
    fix run rows d
    show "exec_loop (\<lambda>_. clean_codegen) run mx z rows d =
      (let (rc, rs, d') = run (yylog p) d in
       if rc \<noteq> PARSE_OK then Some (rc, rows @ rs, d')
       else exec_loop (\<lambda>_. clean_codegen) run mx (dropWhile sqlite3Isspace r) (rows @ rs) d')"
      by (subst exec_loop.simps) (simp add: z p(1,3))
  qed
qed

lemma exec_end: "zat z 0 = CHR 0x00 \<Longrightarrow> exec_loop gen run mx z rows d = Some (PARSE_OK, rows, d)"
  by (subst exec_loop.simps) simp

definition quoted :: "string \<Rightarrow> string" where
  "quoted v = CHR 0x27 # v @ [CHR 0x27]"

definition count_tokens :: "string \<Rightarrow> string \<Rightarrow> string \<Rightarrow> (nat \<times> string) list" where
  "count_tokens table column v =
    [(TK_SELECT, ''SELECT''), (TK_ID, ''COUNT''), (TK_LP, ''(''), (TK_STAR, ''*''), (TK_RP, '')''),
     (TK_FROM, ''FROM''), (TK_ID, table), (TK_WHERE, ''WHERE''), (TK_ID, column), (TK_EQ, ''=''),
     (TK_STRING, quoted v), (TK_SEMI, '';'')]"

lemma count_parses:
  "\<exists>p. feed_tokens clean_codegen (count_tokens table column v) sqlite3ParserInit = Some p \<and>
     parse_rc p = PARSE_DONE \<and> parse_err p = None \<and> shifted (yylog p) = count_tokens table column v \<and>
     compiled (yylog p)"
  by (simp add: count_tokens_def parse_simps tk_defs compiled_def)

lemma count_ip_lexes:
  "quote_free ip \<Longrightarrow> lex_statement 100 (count_ip_query ip) = Some (count_tokens IPS_TABLE ''IPAddress'' ip, '' '')"
  by (simp add: count_ip_query_def IPS_TABLE_def count_tokens_def quoted_def quote_free_def lex_simps tk_defs)

lemma count_hash_lexes:
  "quote_free v \<Longrightarrow> lex_statement 100 (count_hash_query v) = Some (count_tokens HASHES_TABLE ''SHA256'' v, '' '')"
  by (simp add: count_hash_query_def HASHES_TABLE_def count_tokens_def quoted_def quote_free_def lex_simps tk_defs)

definition insert_tokens :: "string \<Rightarrow> string list \<Rightarrow> string list \<Rightarrow> (nat \<times> string) list" where
  "insert_tokens table columns vs =
    [(TK_INSERT, ''INSERT''), (TK_INTO, ''INTO''), (TK_ID, table), (TK_LP, ''('')] @
    tl (concat (map (\<lambda>c. [(TK_COMMA, '',''), (TK_ID, c)]) columns)) @
    [(TK_RP, '')''), (TK_VALUES, ''VALUES''), (TK_LP, ''('')] @
    tl (concat (map (\<lambda>v. [(TK_COMMA, '',''), (TK_STRING, quoted v)]) vs)) @
    [(TK_RP, '')''), (TK_SEMI, '';'')]"

lemma insert_parses:
  "\<exists>p. feed_tokens clean_codegen (insert_tokens table [c1, c2] [v1, v2]) sqlite3ParserInit = Some p \<and>
     parse_rc p = PARSE_DONE \<and> parse_err p = None \<and> shifted (yylog p) = insert_tokens table [c1, c2] [v1, v2] \<and>
     compiled (yylog p)"
  "\<exists>p. feed_tokens clean_codegen (insert_tokens table [c1, c2, c3] [v1, v2, v3]) sqlite3ParserInit = Some p \<and>
     parse_rc p = PARSE_DONE \<and> parse_err p = None \<and>
     shifted (yylog p) = insert_tokens table [c1, c2, c3] [v1, v2, v3] \<and> compiled (yylog p)"
  by (simp_all add: insert_tokens_def parse_simps tk_defs compiled_def)

lemma insert_virus_lexes:
  "quote_free v \<Longrightarrow> quote_free w \<Longrightarrow> lex_statement 100 (insert_virus_query v w) =
     Some (insert_tokens VIRUSES_TABLE [''Name'', ''DateAdded''] [v, w], [])"
  by (simp add: insert_virus_query_def VIRUSES_TABLE_def insert_tokens_def quoted_def quote_free_def lex_simps tk_defs)

lemma insert_ip_lexes:
  "quote_free u \<Longrightarrow> quote_free v \<Longrightarrow> quote_free w \<Longrightarrow> lex_statement 100 (insert_ip_query u v w) =
     Some (insert_tokens IPS_TABLE [''IPAddress'', ''DateAdded'', ''Source''] [u, v, w], [])"
  by (simp add: insert_ip_query_def IPS_TABLE_def insert_tokens_def quoted_def quote_free_def lex_simps tk_defs)

lemma lexed_statement:
  assumes "lex_statement fuel z = Some (ts, r)"
    and "\<exists>p. feed_tokens clean_codegen ts sqlite3ParserInit = Some p \<and>
     parse_rc p = PARSE_DONE \<and> parse_err p = None \<and> shifted (yylog p) = ts \<and> compiled (yylog p)"
  shows "one_statement z ts r"
  using assms unfolding one_statement_def by blast

text \<open>A text whose only statement is followed by white space.\<close>

lemma exec_single:
  fixes run :: "parse_event list \<Rightarrow> 'db \<Rightarrow> int \<times> 'row list \<times> 'db"
  assumes "one_statement z ts r" "int (length z) \<le> mx" "list_all sqlite3Isspace r"
  shows "\<exists>log. shifted log = ts \<and>
    exec_loop (\<lambda>_. clean_codegen) run mx z [] d = (case run log d of (rc, rs, d') \<Rightarrow> Some (rc, rs, d'))"
proof -
  have "dropWhile sqlite3Isspace r = []"
    using assms(3) by (simp add: list_all_iff)
  then have "exec_loop gen run mx (dropWhile sqlite3Isspace r) rows d = Some (PARSE_OK, rows, d)" for gen rows d
    by (simp add: exec_end)
  note at_end = this
  obtain log where log: "shifted log = ts"
    "\<And>(run :: parse_event list \<Rightarrow> 'db \<Rightarrow> int \<times> 'row list \<times> 'db) rows d. exec_loop (\<lambda>_. clean_codegen) run mx z rows d =
      (let (rc, rs, d') = run log d in
       if rc \<noteq> PARSE_OK then Some (rc, rows @ rs, d')
       else exec_loop (\<lambda>_. clean_codegen) run mx (dropWhile sqlite3Isspace r) (rows @ rs) d')"
    by (rule exec_one_statement [OF assms(1,2)]) (rule that)
  show ?thesis
    by (rule exI [of _ log], cases "run log d") (simp add: log at_end)
qed

lemma c_str_no_nul: "CHR 0x00 \<notin> set q \<Longrightarrow> c_str q = q"
  by (auto simp: c_str_def takeWhile_eq_all_conv)

end
