(* ===== verification/Sql_Statements.thy ===== *)
theory Sql_Statements
  imports Sql_Queries
begin

text \<open>
  Every query of the two programs, with the tokens it is meant to be.  A value is one string token
  when it has no quote, a process number one or two tokens whatever it is; then the query is the
  one statement it was written as, and it alone runs.
\<close>

subsection \<open>Numbers\<close>

lemma digit_char_class: "is_digit c \<Longrightarrow> sqlite3Isdigit c \<and> char_class c = CC_DIGIT \<and>
   c \<noteq> CHR ''x'' \<and> c \<noteq> CHR ''X'' \<and> c \<noteq> CHR ''-'' \<and> c \<noteq> CHR ''>''"
  by (auto simp: is_digit_def ctype_iffs char_class_eq class_code_def cc_defs char_of_eq_iff take_bit_eq_mod)

lemma number_token:
  assumes "list_all is_digit ds" "ds \<noteq> []" "c = CHR '','' \<or> c = CHR '';'' \<or> c = CHR '')''"
  shows "sqlite3GetToken (ds @ c # r) = (TK_INTEGER, length ds)"
proof -
  obtain d es where ds: "ds = d # es" using assms(2) by (cases ds) auto
  have d: "is_digit d" using assms(1) ds by simp
  have c: "\<not> sqlite3Isdigit c" "\<not> IdChar c" "c \<noteq> CHR ''x''" "c \<noteq> CHR ''X''" "c \<noteq> CHR ''.''" "c \<noteq> CHR ''e''" "c \<noteq> CHR ''E''"
    using assms(3) by (auto simp: ctype_iffs)
  have all: "\<forall>e \<in> set ds. sqlite3Isdigit e" using assms(1) digit_char_class by (auto simp: list_all_iff)
  then have "takeWhile sqlite3Isdigit (ds @ c # r) = ds" using c(1) by (simp add: takeWhile_append)
  then have adv: "advance sqlite3Isdigit (ds @ c # r) 0 = length ds" by (simp add: advance_def)
  have at: "zat (ds @ c # r) (length ds) = c" by (simp add: zat_def)
  have "zat (ds @ c # r) 1 \<noteq> CHR ''x'' \<and> zat (ds @ c # r) 1 \<noteq> CHR ''X''"
  proof (cases es)
    case Nil
    then show ?thesis using c ds by (simp add: zat_def)
  next
    case (Cons e es')
    then have "is_digit e" using assms(1) ds by simp
    then show ?thesis using Cons ds digit_char_class by (simp add: zat_def)
  qed
  then have "tok_digit (ds @ c # r) = number_tail (ds @ c # r) (number_exponent (ds @ c # r) (number_fraction (ds @ c # r) (TK_INTEGER, length ds)))"
    by (simp add: tok_digit_def adv)
  also have "\<dots> = (TK_INTEGER, length ds)"
    using c by (simp add: number_fraction_def number_exponent_def number_tail_def at advance_def)
  finally have "tok_digit (ds @ c # r) = (TK_INTEGER, length ds)" .
  then show ?thesis using GetToken_Cons(10) [of d "es @ c # r"] digit_char_class [OF d] by (simp add: ds)
qed

definition pid_tokens :: "c_int \<Rightarrow> (nat \<times> string) list" where
  "pid_tokens pid =
     (if sint pid < 0 then [(TK_MINUS, ''-''), (TK_INTEGER, dec_digits (nat (- sint pid)))]
      else [(TK_INTEGER, dec_digits (nat (sint pid)))])"

lemmas number_tokens = number_token [OF dec_digits_all dec_digits_nonempty]

lemma minus_number: "sqlite3GetToken (CHR ''-'' # dec_digits n @ r) = (TK_MINUS, 1)"
proof -
  obtain d ds where d: "dec_digits n = d # ds" by (cases "dec_digits n") auto
  have "is_digit d" using dec_digits_all [of n] d by simp
  then have "d \<noteq> CHR ''-''" "d \<noteq> CHR ''>''" using digit_char_class by auto
  then show ?thesis by (simp add: GetToken_Cons char_class_eq class_code_def cc_defs tok_minus_def zat_def d)
qed

lemma spaces_number [simp]: "takeWhile sqlite3Isspace (dec_digits n @ r) = []"
proof -
  obtain d ds where d: "dec_digits n = d # ds" by (cases "dec_digits n") auto
  have "is_digit d" using dec_digits_all [of n] d by simp
  then have "\<not> sqlite3Isspace d" by (auto simp: is_digit_def ctype_iffs)
  then show ?thesis by (simp add: d)
qed

definition delete_tokens :: "(nat \<times> string) list \<Rightarrow> (nat \<times> string) list" where
  "delete_tokens pid =
     [(TK_DELETE, ''DELETE''), (TK_FROM, ''FROM''), (TK_ID, BLOCKED_TABLE), (TK_WHERE, ''WHERE''), (TK_ID, ''PID''), (TK_EQ, ''='')] @
       pid @ [(TK_SEMI, '';'')]"

definition insert_blocked_tokens :: "(nat \<times> string) list \<Rightarrow> string \<Rightarrow> (nat \<times> string) list" where
  "insert_blocked_tokens pid v =
    [(TK_INSERT, ''INSERT''), (TK_INTO, ''INTO''), (TK_ID, BLOCKED_TABLE), (TK_LP, ''(''), (TK_ID, ''PID''), (TK_COMMA, '',''),
     (TK_ID, ''DateAdded''), (TK_RP, '')''), (TK_VALUES, ''VALUES''), (TK_LP, ''('')] @ pid @
    [(TK_COMMA, '',''), (TK_STRING, quoted v), (TK_RP, '')''), (TK_SEMI, '';'')]"

definition select_tokens :: "string \<Rightarrow> string \<Rightarrow> (nat \<times> string) list" where
  "select_tokens table column =
    [(TK_SELECT, ''SELECT''), (TK_ID, column), (TK_FROM, ''FROM''), (TK_ID, table), (TK_SEMI, '';'')]"

definition create_tokens :: "string \<Rightarrow> (nat \<times> string) list \<Rightarrow> (nat \<times> string) list" where
  "create_tokens table columns =
    [(TK_CREATE, ''CREATE''), (TK_TABLE, ''TABLE''), (TK_IF, ''IF''), (TK_NOT, ''NOT''), (TK_EXISTS, ''EXISTS''), (TK_ID, table),
     (TK_LP, ''(''), (TK_ID, ''ID''), (TK_ID, ''INTEGER''), (TK_PRIMARY, ''PRIMARY''), (TK_KEY, ''KEY''), (TK_AUTOINCR, ''AUTOINCREMENT''),
     (TK_NOT, ''NOT''), (TK_NULL, ''NULL'')] @ columns @ [(TK_RP, '')''), (TK_SEMI, '';'')]"

definition column_tokens :: "string \<Rightarrow> string \<Rightarrow> (nat \<times> string) list \<Rightarrow> (nat \<times> string) list" where
  "column_tokens name type constraint = (TK_COMMA, '','') # (TK_ID, name) # (TK_ID, type) # constraint"

abbreviation not_null :: "(nat \<times> string) list" where
  "not_null \<equiv> [(TK_NOT, ''NOT''), (TK_NULL, ''NULL'')]"

abbreviation default_text :: "string \<Rightarrow> (nat \<times> string) list" where
  "default_text v \<equiv> [(TK_DEFAULT, ''DEFAULT''), (TK_STRING, quoted v), (TK_NOT, ''NOT''), (TK_NULL, ''NULL'')]"

definition bound_tokens :: "(nat \<times> string) list" where
  "bound_tokens =
    [(TK_INSERT, ''INSERT''), (TK_INTO, ''INTO''), (TK_ID, HASHES_TABLE), (TK_LP, ''(''), (TK_ID, ''Name''), (TK_COMMA, '',''),
     (TK_ID, ''Path''), (TK_COMMA, '',''), (TK_ID, ''SHA256''), (TK_COMMA, '',''), (TK_ID, ''DateAdded''), (TK_COMMA, '',''),
     (TK_ID, ''Source''), (TK_RP, '')''), (TK_VALUES, ''VALUES''), (TK_LP, ''(''), (TK_VARIABLE, ''?''), (TK_COMMA, '',''),
     (TK_VARIABLE, ''?''), (TK_COMMA, '',''), (TK_VARIABLE, ''?''), (TK_COMMA, '',''), (TK_VARIABLE, ''?''), (TK_COMMA, '',''),
     (TK_VARIABLE, ''?''), (TK_RP, '')''), (TK_SEMI, '';'')]"

lemmas query_tokens = pid_tokens_def delete_tokens_def insert_blocked_tokens_def select_tokens_def create_tokens_def
  column_tokens_def bound_tokens_def count_tokens_def insert_tokens_def

lemma blocked_lexes:
  "lex_statement 100 (delete_blocked_query pid) = Some (delete_tokens (pid_tokens pid), [])"
  "quote_free v \<Longrightarrow> lex_statement 100 (insert_blocked_query pid v) = Some (insert_blocked_tokens (pid_tokens pid) v, [])"
  by (simp_all add: delete_blocked_query_def insert_blocked_query_def to_string_def int_text_def query_tokens BLOCKED_TABLE_def
     number_tokens minus_number lex_simps tk_defs quoted_def quote_free_def)

lemma select_lexes:
  "lex_statement 100 select_viruses_query = Some (select_tokens VIRUSES_TABLE ''Name'', [])"
  "lex_statement 100 select_blocked_query = Some (select_tokens BLOCKED_TABLE ''PID'', [])"
  by (simp_all add: select_viruses_query_def select_blocked_query_def query_tokens VIRUSES_TABLE_def BLOCKED_TABLE_def lex_simps tk_defs)

definition blocked_columns where
  "blocked_columns = column_tokens ''PID'' ''INTEGER'' not_null @ column_tokens ''DateAdded'' ''TEXT'' []"
definition viruses_columns where
  "viruses_columns = column_tokens ''Name'' ''TEXT'' not_null @ column_tokens ''DateAdded'' ''TEXT'' []"
definition ips_columns where
  "ips_columns = column_tokens ''IPAddress'' ''TEXT'' not_null @ column_tokens ''DateAdded'' ''TEXT'' not_null @
     column_tokens ''Source'' ''TEXT'' (default_text ''Blocklist.de'')"
definition hashes_columns where
  "hashes_columns = column_tokens ''Name'' ''TEXT'' [] @ column_tokens ''Path'' ''TEXT'' [] @
     column_tokens ''SHA256'' ''TEXT'' not_null @ column_tokens ''DateAdded'' ''TEXT'' not_null @
     column_tokens ''Source'' ''TEXT'' (default_text ''bazaar.abuse.ch'')"

lemmas query_columns = blocked_columns_def viruses_columns_def ips_columns_def hashes_columns_def

lemma create_lexes:
  "lex_statement 100 create_blocked_query = Some (create_tokens BLOCKED_TABLE blocked_columns, [])"
  "lex_statement 100 create_viruses_query = Some (create_tokens VIRUSES_TABLE viruses_columns, [])"
  "lex_statement 100 create_ips_query = Some (create_tokens IPS_TABLE ips_columns, [])"
  "lex_statement 100 create_hashes_query = Some (create_tokens HASHES_TABLE hashes_columns, [])"
  by (simp_all add: create_blocked_query_def create_viruses_query_def create_ips_query_def create_hashes_query_def
    query_tokens query_columns quoted_def
    IPS_TABLE_def HASHES_TABLE_def VIRUSES_TABLE_def BLOCKED_TABLE_def lex_simps tk_defs tok_quote_def)


lemma GetToken_varnum: "char_class c = CC_VARNUM \<Longrightarrow> sqlite3GetToken (c # cs) = tok_varnum (c # cs)"
  by (simp add: sqlite3GetToken_def zat_def cc_defs)

lemma bound_lexes: "lex_statement 100 insert_hash_query = Some (bound_tokens, [])"
  by (simp add: insert_hash_query_def bound_tokens_def HASHES_TABLE_def GetToken_varnum tok_varnum_def lex_simps tk_defs)

text \<open>What the parser does with each shape of tokens.\<close>

definition parses :: "(nat \<times> string) list \<Rightarrow> bool" where
  "parses ts \<longleftrightarrow> (\<exists>p. feed_tokens clean_codegen ts sqlite3ParserInit = Some p \<and>
     parse_rc p = PARSE_DONE \<and> parse_err p = None \<and> shifted (yylog p) = ts \<and> compiled (yylog p))"

lemma blocked_parses: "parses (delete_tokens (pid_tokens pid))" "parses (insert_blocked_tokens (pid_tokens pid) v)"
  by (simp_all add: parses_def delete_tokens_def insert_blocked_tokens_def pid_tokens_def parse_simps tk_defs compiled_def)

lemma select_parses: "parses (select_tokens table column)"
  by (simp add: parses_def select_tokens_def parse_simps tk_defs compiled_def)

lemma bound_parses: "parses bound_tokens"
  by (simp add: parses_def bound_tokens_def parse_simps tk_defs compiled_def)

lemma create_parses:
  "parses (create_tokens BLOCKED_TABLE blocked_columns)"
  "parses (create_tokens VIRUSES_TABLE viruses_columns)"
  "parses (create_tokens IPS_TABLE ips_columns)"
  "parses (create_tokens HASHES_TABLE hashes_columns)"
  by (simp_all add: parses_def create_tokens_def query_columns column_tokens_def parse_simps tk_defs compiled_def)

subsection \<open>The queries of the programs\<close>

inductive program_query :: "string \<Rightarrow> (nat \<times> string) list \<Rightarrow> bool" where
  "quote_free v \<Longrightarrow> program_query (count_ip_query v) (count_tokens IPS_TABLE ''IPAddress'' v)"
| "quote_free v \<Longrightarrow> program_query (count_hash_query v) (count_tokens HASHES_TABLE ''SHA256'' v)"
| "quote_free v \<Longrightarrow> quote_free w \<Longrightarrow>
     program_query (insert_virus_query v w) (insert_tokens VIRUSES_TABLE [''Name'', ''DateAdded''] [v, w])"
| "quote_free u \<Longrightarrow> quote_free v \<Longrightarrow> quote_free w \<Longrightarrow>
     program_query (insert_ip_query u v w) (insert_tokens IPS_TABLE [''IPAddress'', ''DateAdded'', ''Source''] [u, v, w])"
| "quote_free v \<Longrightarrow> program_query (insert_blocked_query pid v) (insert_blocked_tokens (pid_tokens pid) v)"
| "program_query (delete_blocked_query pid) (delete_tokens (pid_tokens pid))"
| "program_query select_viruses_query (select_tokens VIRUSES_TABLE ''Name'')"
| "program_query select_blocked_query (select_tokens BLOCKED_TABLE ''PID'')"
| "program_query create_blocked_query (create_tokens BLOCKED_TABLE blocked_columns)"
| "program_query create_viruses_query (create_tokens VIRUSES_TABLE viruses_columns)"
| "program_query create_ips_query (create_tokens IPS_TABLE ips_columns)"
| "program_query create_hashes_query (create_tokens HASHES_TABLE hashes_columns)"
| "program_query insert_hash_query bound_tokens"

lemma statement_of:
  "lex_statement 100 q = Some (ts, r) \<Longrightarrow> parses ts \<Longrightarrow> one_statement q ts r"
  unfolding parses_def by (rule lexed_statement)

lemma value_parses:
  "parses (count_tokens table column v)" "parses (insert_tokens table [c1, c2] [v1, v2])"
  "parses (insert_tokens table [c1, c2, c3] [v1, v2, v3])"
  unfolding parses_def by (rule count_parses insert_parses)+

lemmas query_statements =
  statement_of [OF count_ip_lexes value_parses(1)] statement_of [OF count_hash_lexes value_parses(1)]
  statement_of [OF insert_virus_lexes value_parses(2)] statement_of [OF insert_ip_lexes value_parses(3)]
  statement_of [OF blocked_lexes(1) blocked_parses(1)] statement_of [OF blocked_lexes(2) blocked_parses(2)]
  statement_of [OF select_lexes(1) select_parses] statement_of [OF select_lexes(2) select_parses]
  statement_of [OF create_lexes(1) create_parses(1)] statement_of [OF create_lexes(2) create_parses(2)]
  statement_of [OF create_lexes(3) create_parses(3)] statement_of [OF create_lexes(4) create_parses(4)]
  statement_of [OF bound_lexes bound_parses]

lemma program_query_statement:
  "program_query q ts \<Longrightarrow> one_statement q ts [] \<or> one_statement q ts '' ''"
  by (induction rule: program_query.induct) (auto intro: query_statements)

lemma to_string_no_nul: "CHR 0x00 \<notin> set (to_string pid)"
proof -
  have "CHR 0x00 \<notin> set (dec_digits n)" for n
    using dec_digits_all [of n] by (auto simp: list_all_iff is_digit_def)
  then show ?thesis by (simp add: to_string_def int_text_def)
qed

lemma program_query_no_nul: "program_query q ts \<Longrightarrow> CHR 0x00 \<notin> set q"
  by (induction rule: program_query.induct)
     (simp_all add: quote_free_def count_ip_query_def count_hash_query_def insert_virus_query_def insert_ip_query_def
       insert_blocked_query_def delete_blocked_query_def select_viruses_query_def select_blocked_query_def
       create_blocked_query_def create_viruses_query_def create_ips_query_def create_hashes_query_def
       insert_hash_query_def to_string_no_nul IPS_TABLE_def HASHES_TABLE_def VIRUSES_TABLE_def BLOCKED_TABLE_def)

lemma program_query_runs:
  assumes "program_query q ts" "int (length q) \<le> mx"
  shows "\<exists>log. shifted log = ts \<and> exec_loop (\<lambda>_. clean_codegen) run mx (c_str q) [] d =
    (case run log d of (rc, rs, d') \<Rightarrow> Some (rc, rs, d'))"
  using program_query_statement [OF assms(1)]
    exec_single [OF _ assms(2), of ts "[]" run d] exec_single [OF _ assms(2), of ts "'' ''" run d]
  by (auto simp: c_str_no_nul [OF program_query_no_nul [OF assms(1)]] ctype_iffs)

text \<open>C23: Every query of the two programs, with values that have no quote in them and whatever
  process number, is parsed as the one statement it was written as, with the values as its strings
  and numbers, and exactly that statement runs.\<close>

theorem program_queries_run_once:
  assumes "program_query q ts" "int (length q) \<le> mx"
  shows "\<exists>log. shifted log = ts \<and> exec_loop (\<lambda>_. clean_codegen) run mx (c_str q) [] d =
    (case run log d of (rc, rs, d') \<Rightarrow> Some (rc, rs, d'))"
  by (rule program_query_runs [OF assms])

lemma program_queries_run_once_witness:
  "\<exists>log. shifted log = delete_tokens [(TK_INTEGER, ''7'')] \<and>
    exec_loop (\<lambda>_. clean_codegen) (\<lambda>log d. (0, [length log], d)) 1000 (c_str (delete_blocked_query 7)) [] () =
      Some (0, [length log], ())"
proof -
  have "pid_tokens 7 = [(TK_INTEGER, ''7'')]"
    by (simp add: pid_tokens_def dec_digits.simps digit_char_def char_of_def bit_0)
  then have "program_query (delete_blocked_query 7) (delete_tokens [(TK_INTEGER, ''7'')])"
    using program_query.intros(6) [of 7] by simp
  moreover have "int (length (delete_blocked_query 7)) \<le> 1000"
    by (simp add: delete_blocked_query_def BLOCKED_TABLE_def to_string_def int_text_def dec_digits.simps)
  ultimately show ?thesis
    using program_queries_run_once [of "delete_blocked_query 7" _ 1000 "\<lambda>log d. (0, [length log], d)" "()"] by simp
qed

end
