(* ===== verification/Sql_Values.thy ===== *)
theory Sql_Values
  imports Sql_Queries
begin

text \<open>
  The value of a quoted token: \<open>sqlite3Dequote\<close> takes the quotes off the text the tokenizer cut out.
  It reads on until it finds the closing quote, so it relies on the tokenizer; for a text in which
  every quote was doubled before it was put between quotes it gives the text back.
\<close>

text \<open>The loop of \<open>sqlite3Dequote\<close>; past the end of the text there is nothing to read.\<close>

fun dequote_loop :: "char \<Rightarrow> string \<Rightarrow> string option" where
  "dequote_loop q [] = None"
| "dequote_loop q (c # cs) =
     (if c = CHR 0x00 then None
      else if c = q then
        (case cs of
           d # ds \<Rightarrow> if d = q then map_option (Cons q) (dequote_loop q ds) else Some []
         | [] \<Rightarrow> Some [])
      else map_option (Cons c) (dequote_loop q cs))"

definition sqlite3Dequote :: "string \<Rightarrow> string option" where
  "sqlite3Dequote z =
     (let quote = zat z 0 in
      if \<not> sqlite3Isquote quote then Some z
      else dequote_loop (if quote = CHR ''['' then CHR '']'' else quote) (drop 1 z))"

subsection \<open>Every quoted token has a value\<close>

lemma quote_loop_dequotes:
  "quote_loop q cs i = (q, j) \<Longrightarrow> q \<noteq> CHR 0x00 \<Longrightarrow>
     i \<le> j \<and> (\<exists>v. dequote_loop q (take (j + 1 - i) cs) = Some v \<and> length v \<le> j - i)"
proof (induction cs arbitrary: i rule: length_induct)
  case (1 cs)
  have IH: "x \<le> j \<and> (\<exists>v. dequote_loop q (take (j + 1 - x) ys) = Some v \<and> length v \<le> j - x)"
    if "length ys < length cs" "quote_loop q ys x = (q, j)" for ys x
    using 1(1,3) that by blast
  obtain c rest where cs: "cs = c # rest" using 1(2,3) by (cases cs) auto
  have nul: "c \<noteq> CHR 0x00" using 1(2,3) by (auto simp: cs quote_loop_Cons)
  show ?case
  proof (cases "c = q")
    case quote: True
    show ?thesis
    proof (cases "rest \<noteq> [] \<and> hd rest = q")
      case True
      then obtain ds where ds: "rest = q # ds" by (cases rest) auto
      then have "quote_loop q ds (i + 2) = (q, j)" using 1(2) nul quote by (simp add: cs quote_loop_Cons)
      from IH [OF _ this] obtain v where v: "i + 2 \<le> j" "dequote_loop q (take (j + 1 - (i + 2)) ds) = Some v" "length v \<le> j - (i + 2)"
        by (auto simp: cs ds)
      have "j + 1 - i = Suc (Suc (j + 1 - (i + 2)))" using v(1) by simp
      then have "take (j + 1 - i) cs = q # q # take (j + 1 - (i + 2)) ds" using quote by (simp only: cs ds take_Suc_Cons)
      with v 1(3) show ?thesis by (simp del: take_Suc_Cons)
    next
      case False
      then have "j = i" using 1(2) nul quote by (auto simp: cs quote_loop_Cons)
      then show ?thesis using 1(3) quote by (simp add: cs)
    qed
  next
    case False
    then have "quote_loop q rest (i + 1) = (q, j)" using 1(2) nul by (simp add: cs quote_loop_Cons)
    from IH [OF _ this] obtain v where v: "i + 1 \<le> j" "dequote_loop q (take (j + 1 - (i + 1)) rest) = Some v" "length v \<le> j - (i + 1)"
      by (auto simp: cs)
    have "j + 1 - i = Suc (j + 1 - (i + 1))" using v(1) by simp
    then have "take (j + 1 - i) cs = c # take (j + 1 - (i + 1)) rest" by (simp only: cs take_Suc_Cons)
    with v nul False show ?thesis by (simp del: take_Suc_Cons)
  qed
qed

lemma bracket_loop_dequotes:
  "bracket_loop c cs i = (CHR '']'', j) \<Longrightarrow> c \<noteq> CHR '']'' \<Longrightarrow>
     i \<le> j \<and> (\<exists>v. dequote_loop (CHR '']'') (take (j - i) cs) = Some v \<and> length v < j - i)"
proof (induction cs arbitrary: c i)
  case Nil
  then show ?case by simp
next
  case (Cons d ds)
  then have d: "d \<noteq> CHR 0x00" and run: "bracket_loop d ds (i + 1) = (CHR '']'', j)" by (auto split: if_splits)
  show ?case
  proof (cases "d = CHR '']''")
    case True
    then have "j = i + 1" using run by (cases ds) auto
    with True show ?thesis by simp
  next
    case False
    from Cons.IH [OF run False] obtain v where v: "i + 1 \<le> j"
      "dequote_loop (CHR '']'') (take (j - (i + 1)) ds) = Some v" "length v < j - (i + 1)" by blast
    have "j - i = Suc (j - (i + 1))" using v(1,3) by simp
    then have "take (j - i) (d # ds) = d # take (j - (i + 1)) ds" by (simp only: take_Suc_Cons)
    with v d False show ?thesis by (simp del: take_Suc_Cons)
  qed
qed

lemma quote_loop_end: "fst (quote_loop q cs i) = CHR 0x00 \<or> fst (quote_loop q cs i) = q"
  by (induction q cs i rule: quote_loop.induct) auto

lemma quote_chars: "sqlite3Isquote c \<longleftrightarrow> c = CHR 0x22 \<or> c = CHR 0x27 \<or> c = CHR 0x60 \<or> c = CHR ''[''"
  using of_char_eq_iff [of c "CHR 0x22", where 'a = nat] of_char_eq_iff [of c "CHR 0x27", where 'a = nat]
    of_char_eq_iff [of c "CHR 0x60", where 'a = nat] of_char_eq_iff [of c "CHR ''[''", where 'a = nat]
  by (auto simp: ctype_iffs simp del: of_char_eq_iff)

lemma GetToken_quotes:
  "c = CHR 0x22 \<or> c = CHR 0x27 \<or> c = CHR 0x60 \<Longrightarrow> sqlite3GetToken (c # cs) = tok_quote (c # cs)"
  "sqlite3GetToken (CHR ''['' # cs) = tok_quote2 (CHR ''['' # cs)"
  by (auto simp: sqlite3GetToken_def zat_def char_class_eq class_code_def cc_defs)

text \<open>Every token that begins with a quote and is a string or an identifier has a value:
  \<open>sqlite3Dequote\<close> finds its closing quote within the token, and the value is shorter than the
  token by at least the two quotes.\<close>

theorem quoted_token_has_value:
  assumes "sqlite3GetToken z = (t, n)" "t = TK_STRING \<or> t = TK_ID" "sqlite3Isquote (zat z 0)"
  shows "\<exists>v. sqlite3Dequote (take n z) = Some v \<and> length v + 2 \<le> n"
proof -
  obtain c cs where z: "z = c # cs" using assms(3) by (cases z) (auto simp: quote_chars zat_def)
  have c: "c = CHR 0x22 \<or> c = CHR 0x27 \<or> c = CHR 0x60 \<or> c = CHR ''[''" "sqlite3Isquote c"
    using assms(3) by (auto simp: quote_chars z zat_def)
  show ?thesis
  proof (cases "c = CHR ''[''")
    case True
    then have tok: "tok_quote2 (CHR ''['' # cs) = (t, n)" using assms(1) by (simp add: z GetToken_quotes)
    obtain e where e: "bracket_loop (CHR ''['') cs 1 = (e, n)" "e = CHR '']''"
      using tok assms(2) by (auto simp: tok_quote2_def zat_def tk_defs split: prod.splits if_splits)
    from bracket_loop_dequotes [of "CHR ''[''" cs 1 n] e obtain v where
      v: "1 \<le> n" "dequote_loop (CHR '']'') (take (n - 1) cs) = Some v" "length v < n - 1" by auto
    then have "take n z = CHR ''['' # take (n - 1) cs" by (simp add: z True take_Cons')
    with v c(2) True show ?thesis by (simp add: sqlite3Dequote_def zat_def)
  next
    case False
    then have tok: "tok_quote (c # cs) = (t, n)" using assms(1) c(1) by (auto simp: z GetToken_quotes)
    obtain e i where e: "quote_loop c cs 1 = (e, i)" by fastforce
    have "e = c \<and> n = i + 1" "c \<noteq> CHR 0x00"
      using tok assms(2) quote_loop_end [of c cs 1] c(1) e
      by (auto simp: tok_quote_def zat_def tk_defs split: if_splits)
    with quote_loop_dequotes [of c cs 1 i] e obtain v where
      v: "1 \<le> i" "dequote_loop c (take i cs) = Some v" "length v \<le> i - 1" "n = i + 1" by auto
    with c(2) False show ?thesis by (simp add: sqlite3Dequote_def zat_def z)
  qed
qed

lemma quoted_token_has_value_witness:
  "\<exists>v. sqlite3Dequote (take 7 ([CHR 0x27] @ ''it'' @ [CHR 0x27, CHR 0x27] @ ''s'' @ [CHR 0x27] @ ''x'')) = Some v"
proof -
  have "sqlite3GetToken ([CHR 0x27] @ ''it'' @ [CHR 0x27, CHR 0x27] @ ''s'' @ [CHR 0x27] @ ''x'') = (TK_STRING, 7)"
    by (simp add: GetToken_quotes tok_quote_def zat_def)
  from quoted_token_has_value [OF this] show ?thesis by (simp add: quote_chars zat_def sqlite3Dequote_def)
qed

subsection \<open>Doubled quotes\<close>

fun escape :: "string \<Rightarrow> string" where
  "escape [] = []"
| "escape (c # cs) = (if c = CHR 0x27 then [CHR 0x27, CHR 0x27] else [c]) @ escape cs"

lemma quote_loop_escape:
  assumes "rest = [] \<or> hd rest \<noteq> CHR 0x27"
  shows "CHR 0x00 \<notin> set v \<Longrightarrow> quote_loop (CHR 0x27) (escape v @ CHR 0x27 # rest) i = (CHR 0x27, i + length (escape v))"
proof (induction v arbitrary: i)
  case Nil
  with assms show ?case by (auto simp: quote_loop_Cons)
next
  case (Cons c v)
  then show ?case by (auto simp: quote_loop_Cons)
qed

lemma dequote_escape: "CHR 0x00 \<notin> set v \<Longrightarrow> dequote_loop (CHR 0x27) (escape v @ [CHR 0x27]) = Some v"
  by (induction v) (auto split: list.split)

text \<open>C28: A value in which every quote is doubled survives: between quotes it is one string token,
  whatever it holds (but the NUL) and whatever follows (but a quote), and \<open>sqlite3Dequote\<close> gives the
  value back.  A value free of quotes is its own doubling.\<close>

theorem escaped_value_survives:
  assumes "CHR 0x00 \<notin> set v" "rest = [] \<or> hd rest \<noteq> CHR 0x27"
  shows "sqlite3GetToken (quoted (escape v) @ rest) = (TK_STRING, length (quoted (escape v))) \<and>
    sqlite3Dequote (quoted (escape v)) = Some v \<and> (CHR 0x27 \<notin> set v \<longrightarrow> escape v = v)"
proof -
  have "escape v = v" if "CHR 0x27 \<notin> set v" using that by (induction v) auto
  moreover have "sqlite3Dequote (quoted (escape v)) = Some v"
    using dequote_escape [OF assms(1)] by (simp add: sqlite3Dequote_def quoted_def zat_def quote_chars)
  ultimately show ?thesis
    using quote_loop_escape [OF assms(2,1), of 1] by (simp add: quoted_def GetToken_quotes tok_quote_def zat_def)
qed

lemma escaped_value_survives_witness:
  "sqlite3Dequote (quoted (escape (''O'' @ [CHR 0x27] @ ''Brien''))) = Some (''O'' @ [CHR 0x27] @ ''Brien'')"
  using escaped_value_survives [of "''O'' @ [CHR 0x27] @ ''Brien''" "'';''"] by simp

end
