(* ===== verification/Sql_Attacks.thy ===== *)
theory Sql_Attacks
  imports Sql_Queries App_Example
begin

text \<open>
  Values that carry a statement.  A value with a quote in it ends the string of its query, and
  \<open>sqlite3_exec\<close> runs what follows as a statement of its own; two dashes make the rest of the
  query a comment.  Anyone who may ask the server about an address, and anyone who may name a
  file that the backend scans, runs statements on its database.
\<close>

subsection \<open>Comments\<close>

lemma token_comment:
  assumes "CHR 0x0A \<notin> set t" "CHR 0x00 \<notin> set t"
  shows "sqlite3GetToken (''--'' @ t) = (TK_SPACE, length t + 2)"
proof -
  have "\<forall>c \<in> set t. c \<noteq> CHR 0x00 \<and> c \<noteq> CHR 0x0A" using assms by metis
  then have "takeWhile (\<lambda>c. c \<noteq> CHR 0x00 \<and> c \<noteq> CHR 0x0A) t = t"
    by (simp add: takeWhile_eq_all_conv)
  then show ?thesis
    by (simp add: GetToken_Cons char_class_eq class_code_def cc_defs tok_minus_def zat_def advance_def
      del: takeWhile_eq_all_conv)
qed

lemma comment_parses:
  assumes "CHR 0x0A \<notin> set t" "CHR 0x00 \<notin> set t" "int (length t) + 2 \<le> mx"
  shows "\<exists>p. sqlite3RunParser clean_codegen False mx (''--'' @ t) = Some (False, p, []) \<and> \<not> compiled (yylog p)"
  using assms(3) token_comment [OF assms(1,2)]
  by (simp add: sqlite3RunParser_def parse_loop.simps [of _ _ _ _ "CHR ''-'' # CHR ''-'' # t"] 
    parse_loop.simps [of _ _ _ _ "[]"] parser_input_def compiled_def
      token_at_end lex_simps tk_defs parse_simps)

lemma comment_runs:
  assumes "CHR 0x0A \<notin> set t" "CHR 0x00 \<notin> set t" "int (length t) + 2 \<le> mx"
  shows "exec_loop (\<lambda>_. clean_codegen) run mx (''--'' @ t) rows d = Some (PARSE_OK, rows, d)"
proof -
  obtain p where "sqlite3RunParser clean_codegen False mx (''--'' @ t) = Some (False, p, [])"
    "\<not> compiled (yylog p)" using comment_parses [OF assms] by blast
  moreover have "zat (''--'' @ t) 0 \<noteq> CHR 0x00" by (simp add: zat_def)
  ultimately show ?thesis
    by (subst exec_loop.simps) (simp add: exec_end)
qed


subsection \<open>Two statements in one text\<close>

text \<open>A text that is a statement whatever follows it: it ends with its own semicolon.\<close>

definition complete_statement :: "string \<Rightarrow> (nat \<times> string) list \<Rightarrow> bool" where
  "complete_statement s ts \<longleftrightarrow>
     s \<noteq> [] \<and> \<not> sqlite3Isspace (hd s) \<and> CHR 0x00 \<notin> set s \<and> (\<forall>r. one_statement (s @ r) ts r)"

text \<open>Running two statements, the second only when the first succeeded.\<close>

definition run_two ::
  "(parse_event list \<Rightarrow> 'db \<Rightarrow> int \<times> 'row list \<times> 'db) \<Rightarrow> parse_event list \<Rightarrow> parse_event list \<Rightarrow>
     'db \<Rightarrow> int \<times> 'row list \<times> 'db" where
  "run_two run log1 log2 d =
     (case run log1 d of (rc1, rows1, d1) \<Rightarrow>
        if rc1 \<noteq> PARSE_OK then (rc1, rows1, d1)
        else case run log2 d1 of (rc2, rows2, d2) \<Rightarrow> (rc2, rows1 @ rows2, d2))"

lemma exec_two_statements:
  fixes run :: "parse_event list \<Rightarrow> 'db \<Rightarrow> int \<times> 'row list \<times> 'db"
  assumes "one_statement z ts1 ('' '' @ s @ ''--'' @ t)" "complete_statement s ts2"
    and "CHR 0x0A \<notin> set t" "CHR 0x00 \<notin> set t"
    and "int (length z) \<le> mx" "int (length (s @ ''--'' @ t)) \<le> mx"
  shows "\<exists>log1 log2. shifted log1 = ts1 \<and> shifted log2 = ts2 \<and>
    exec_loop (\<lambda>_. clean_codegen) run mx z [] d = Some (run_two run log1 log2 d)"
proof -
  note s = assms(2) [unfolded complete_statement_def]
  have spaces: "sqlite3Isspace (CHR '' '')" "\<not> sqlite3Isspace (CHR ''-'')"
    by (simp_all add: ctype_iffs)
  have drop: "dropWhile sqlite3Isspace ('' '' @ s @ ''--'' @ t) = s @ ''--'' @ t"
    "dropWhile sqlite3Isspace (''--'' @ t) = ''--'' @ t"
    using s by (cases s, simp_all add: spaces)
  have one: "one_statement (s @ ''--'' @ t) ts2 (''--'' @ t)" using s by blast
  obtain log1 where log1: "shifted log1 = ts1"
    "\<And>(run :: parse_event list \<Rightarrow> 'db \<Rightarrow> int \<times> 'row list \<times> 'db) rows d. exec_loop (\<lambda>_. clean_codegen) run mx z rows d =
      (let (rc, rs, d') = run log1 d in
       if rc \<noteq> PARSE_OK then Some (rc, rows @ rs, d')
       else exec_loop (\<lambda>_. clean_codegen) run mx (s @ ''--'' @ t) (rows @ rs) d')"
    by (rule exec_one_statement [OF assms(1,5), unfolded drop(1)]) (rule that)
  obtain log2 where log2: "shifted log2 = ts2"
    "\<And>(run :: parse_event list \<Rightarrow> 'db \<Rightarrow> int \<times> 'row list \<times> 'db) rows d. exec_loop (\<lambda>_. clean_codegen) run mx (s @ ''--'' @ t) rows d =
      (let (rc, rs, d') = run log2 d in
       if rc \<noteq> PARSE_OK then Some (rc, rows @ rs, d')
       else exec_loop (\<lambda>_. clean_codegen) run mx (''--'' @ t) (rows @ rs) d')"
    by (rule exec_one_statement [OF one assms(6), unfolded drop(2)]) (rule that)
  have tail: "exec_loop (\<lambda>_. clean_codegen) run mx (''--'' @ t) rows d = Some (PARSE_OK, rows, d)" for rows d
    using comment_runs [OF assms(3,4), of mx run rows d] assms(6) by simp
  show ?thesis
    by (rule exI [of _ log1], rule exI [of _ log2], cases "run log1 d", cases "run log2 (snd (snd (run log1 d)))")
       (simp only: log1 log2 tail run_two_def, simp)
qed

subsection \<open>Values that carry a statement\<close>

definition injected :: "string \<Rightarrow> string \<Rightarrow> string" where
  "injected a s = a @ [CHR 0x27] @ ''; '' @ s @ ''--''"

definition injected_row :: "string \<Rightarrow> string \<Rightarrow> string \<Rightarrow> string" where
  "injected_row a b s = a @ [CHR 0x27] @ '', '' @ [CHR 0x27] @ b @ [CHR 0x27] @ ''); '' @ s @ ''--''"

lemma injected_lexes:
  "quote_free a \<Longrightarrow> lex_statement 100 (count_ip_query (injected a s)) =
     Some (count_tokens IPS_TABLE ''IPAddress'' a, '' '' @ s @ ''--'' @ [CHR 0x27] @ ''; '')"
  by (simp add: count_ip_query_def injected_def IPS_TABLE_def count_tokens_def quoted_def quote_free_def lex_simps tk_defs)

lemma injected_row_lexes:
  "quote_free a \<Longrightarrow> quote_free b \<Longrightarrow> lex_statement 100 (insert_virus_query (injected_row a b s) date) =
     Some (insert_tokens VIRUSES_TABLE [''Name'', ''DateAdded''] [a, b],
       '' '' @ s @ ''--'' @ [CHR 0x27] @ '', '' @ [CHR 0x27] @ date @ [CHR 0x27] @ '');'')"
  by (simp add: insert_virus_query_def injected_row_def VIRUSES_TABLE_def insert_tokens_def quoted_def quote_free_def lex_simps tk_defs)

lemma injected_no_nul:
  "quote_free a \<Longrightarrow> complete_statement s ts \<Longrightarrow> CHR 0x00 \<notin> set (count_ip_query (injected a s))"
  "quote_free a \<Longrightarrow> quote_free b \<Longrightarrow> complete_statement s ts \<Longrightarrow> CHR 0x00 \<notin> set date \<Longrightarrow>
     CHR 0x00 \<notin> set (insert_virus_query (injected_row a b s) date)"
  by (auto simp: quote_free_def complete_statement_def count_ip_query_def IPS_TABLE_def injected_def
      insert_virus_query_def injected_row_def VIRUSES_TABLE_def)

text \<open>A question about an address that holds a quote, a semicolon and a statement runs both the
  question about the text before the quote and, when that succeeds, the statement; the rest of
  the query is a comment.\<close>

lemma injected_statement_runs:
  assumes "quote_free a" "complete_statement s ts"
    and "int (length (count_ip_query (injected a s))) \<le> mx"
  shows "\<exists>log1 log2. shifted log1 = count_tokens IPS_TABLE ''IPAddress'' a \<and> shifted log2 = ts \<and>
    exec_loop (\<lambda>_. clean_codegen) run mx (c_str (count_ip_query (injected a s))) [] d =
      Some (run_two run log1 log2 d)"
proof -
  have "one_statement (count_ip_query (injected a s)) (count_tokens IPS_TABLE ''IPAddress'' a)
      ('' '' @ s @ ''--'' @ [CHR 0x27] @ ''; '')"
    by (rule lexed_statement [OF injected_lexes [OF assms(1)] count_parses])
  from exec_two_statements [OF this assms(2) _ _ assms(3)] assms(3)
  show ?thesis
    by (simp add: c_str_no_nul [OF injected_no_nul(1) [OF assms(1,2)]]) (simp add: count_ip_query_def injected_def)
qed

lemma injected_row_runs:
  assumes "quote_free a" "quote_free b" "complete_statement s ts" "CHR 0x00 \<notin> set date" "CHR 0x0A \<notin> set date"
    and "int (length (insert_virus_query (injected_row a b s) date)) \<le> mx"
  shows "\<exists>log1 log2. shifted log1 = insert_tokens VIRUSES_TABLE [''Name'', ''DateAdded''] [a, b] \<and> shifted log2 = ts \<and>
    exec_loop (\<lambda>_. clean_codegen) run mx (c_str (insert_virus_query (injected_row a b s) date)) [] d =
      Some (run_two run log1 log2 d)"
proof -
  have "one_statement (insert_virus_query (injected_row a b s) date)
      (insert_tokens VIRUSES_TABLE [''Name'', ''DateAdded''] [a, b])
      ('' '' @ s @ ''--'' @ [CHR 0x27] @ '', '' @ [CHR 0x27] @ date @ [CHR 0x27] @ '');'')"
    by (rule lexed_statement [OF injected_row_lexes [OF assms(1,2)] insert_parses(1)])
  from exec_two_statements [OF this assms(3) _ _ assms(6)] assms(4-6)
  show ?thesis
    by (simp add: c_str_no_nul [OF injected_no_nul(2) [OF assms(1-4)]]) (simp add: insert_virus_query_def injected_row_def)
qed


lemma delete_statement:
  "complete_statement ''DELETE FROM BlackListIPs;''
     [(TK_DELETE, ''DELETE''), (TK_FROM, ''FROM''), (TK_ID, ''BlackListIPs''), (TK_SEMI, '';'')]"
proof -
  have "one_statement (''DELETE FROM BlackListIPs;'' @ r)
     [(TK_DELETE, ''DELETE''), (TK_FROM, ''FROM''), (TK_ID, ''BlackListIPs''), (TK_SEMI, '';'')] r" for r
  proof (rule lexed_statement)
    show "lex_statement 100 (''DELETE FROM BlackListIPs;'' @ r) =
        Some ([(TK_DELETE, ''DELETE''), (TK_FROM, ''FROM''), (TK_ID, ''BlackListIPs''), (TK_SEMI, '';'')], r)"
      by (simp add: lex_simps tk_defs)
    show "\<exists>p. feed_tokens clean_codegen [(TK_DELETE, ''DELETE''), (TK_FROM, ''FROM''), (TK_ID, ''BlackListIPs''), (TK_SEMI, '';'')] sqlite3ParserInit = Some p \<and>
       parse_rc p = PARSE_DONE \<and> parse_err p = None \<and> shifted (yylog p) = [(TK_DELETE, ''DELETE''), (TK_FROM, ''FROM''), (TK_ID, ''BlackListIPs''), (TK_SEMI, '';'')] \<and> compiled (yylog p)"
      by (simp add: parse_simps tk_defs compiled_def)
  qed
  then show ?thesis by (simp add: complete_statement_def ctype_iffs)
qed

subsection \<open>The two programs on SQLite\<close>

text \<open>The function the programs call for \<open>sqlite3_exec\<close> does what the loop does.\<close>

definition executes ::
  "(string \<Rightarrow> 'db \<Rightarrow> c_int \<times> 'row list \<times> 'db) \<Rightarrow> (parse_event list \<Rightarrow> 'db \<Rightarrow> int \<times> 'row list \<times> 'db) \<Rightarrow>
     int \<Rightarrow> bool" where
  "executes ex run mx \<longleftrightarrow>
     (\<forall>q d rc rows d'. exec_loop (\<lambda>_. clean_codegen) run mx q [] d = Some (rc, rows, d') \<longrightarrow>
        ex q d = (of_int rc, rows, d'))"

lemma executes_db:
  "executes ex run mx \<Longrightarrow> exec_loop (\<lambda>_. clean_codegen) run mx q [] d = Some r \<Longrightarrow>
     snd (snd (ex q d)) = snd (snd r)"
  by (cases r) (auto simp: executes_def)

text \<open>C21: A request to the server that asks about an address changes the database as the sender
  likes: when the address in the request is a value, a quote and a statement, the request leaves
  the database that the statement makes of it.\<close>

theorem ip_request_runs_statement:
  assumes "executes (srv_exec sh) run mx"
    and "jparse (srv_json sh) (req_buffer info) = Some j"
    and "jstring (srv_json sh) j ''ip'' = Some (injected a s)" "req_id info = IP_SCAN_REQUEST"
    and "quote_free a" "complete_statement s ts" "int (length (count_ip_query (injected a s))) \<le> mx"
    and "\<And>log. shifted log = count_tokens IPS_TABLE ''IPAddress'' a \<Longrightarrow> \<exists>rows. run log d = (PARSE_OK, rows, d)"
  shows "\<exists>log. shifted log = ts \<and> snd (server_handleRequest sh info d) = snd (snd (run log d))"
proof -
  obtain log1 log2 where logs: "shifted log1 = count_tokens IPS_TABLE ''IPAddress'' a" "shifted log2 = ts"
    and run: "exec_loop (\<lambda>_. clean_codegen) run mx (c_str (count_ip_query (injected a s))) [] d =
      Some (run_two run log1 log2 d)"
    using injected_statement_runs [OF assms(5-7), of run d] by blast
  obtain rows where "run log1 d = (PARSE_OK, rows, d)" using assms(8) [OF logs(1)] by blast
  then have "snd (snd (srv_exec sh (c_str (count_ip_query (injected a s))) d)) = snd (snd (run log2 d))"
    using executes_db [OF assms(1) run] by (simp add: run_two_def split: prod.split)
  moreover have "snd (server_handleRequest sh info d) = snd (snd (srv_exec sh (c_str (count_ip_query (injected a s))) d))"
    by (simp add: server_handleRequest_def assms(2-4) IPScan_def deserializeIPScanRequest_def IPisMalicious_def
        bnd_def lift_def ret_def split: prod.split sum.split)
  ultimately show ?thesis using logs(2) by metis
qed


lemma updateVirusTables_db:
  "db (snd (updateVirusTables h name b)) =
     snd (snd (sqlite3_exec h (c_str (insert_virus_query name (local_time h))) (db b)))"
  by (simp add: updateVirusTables_def exec_sql_def split: prod.split)

text \<open>C22: A file on the disk changes the database of the backend as whoever named it likes: when a
  scan finds a malicious file whose name is a row, a quote and a statement, it stores the row and
  then runs the statement.\<close>

theorem file_name_runs_statement:
  assumes "executes (sqlite3_exec h) run mx"
    and "hash_files h isFolder all path b ''hash-scan.log'' = Some (concat (map (pair_line (CHR ''@'')) entries))"
    and "list_all log_pair_ok entries" "record_names entries = [injected_row a n s]"
    and "quote_free a" "quote_free n" "complete_statement s ts"
    and "CHR 0x00 \<notin> set (local_time h)" "CHR 0x0A \<notin> set (local_time h)"
    and "int (length (insert_virus_query (injected_row a n s) (local_time h))) \<le> mx"
    and "\<And>log d. shifted log = insert_tokens VIRUSES_TABLE [''Name'', ''DateAdded''] [a, n] \<Longrightarrow>
      fst (run log d) = PARSE_OK"
  shows "\<exists>log1 log2. shifted log1 = insert_tokens VIRUSES_TABLE [''Name'', ''DateAdded''] [a, n] \<and> shifted log2 = ts \<and>
    db (snd (hashScan h [path] isFolder all b)) = snd (snd (run log2 (snd (snd (run log1 (db b))))))"
proof -
  obtain log1 log2 where logs: "shifted log1 = insert_tokens VIRUSES_TABLE [''Name'', ''DateAdded''] [a, n]"
    "shifted log2 = ts"
    and run: "exec_loop (\<lambda>_. clean_codegen) run mx (c_str (insert_virus_query (injected_row a n s) (local_time h))) [] (db b) =
      Some (run_two run log1 log2 (db b))"
    using injected_row_runs [OF assms(5-10), of run "db b"] by blast
  have "snd (snd (run_two run log1 log2 (db b))) = snd (snd (run log2 (snd (snd (run log1 (db b))))))"
    using assms(11) [OF logs(1), of "db b"] by (auto simp: run_two_def split: prod.split)
  moreover have "db (snd (hashScan h [path] isFolder all b)) = snd (snd (run_two run log1 log2 (db b)))"
    by (simp add: hashScan_log [OF assms(2,3)] assms(4) insert_viruses_def updateVirusTables_db
      executes_db [OF assms(1) run])
  ultimately show ?thesis using logs by auto
qed


subsection \<open>Concrete attacks\<close>

text \<open>A database that is the number of its rows; the first keyword says what a statement does.\<close>

definition toy_run :: "parse_event list \<Rightarrow> nat \<Rightarrow> int \<times> string option list list \<times> nat" where
  "toy_run log d =
     (case shifted log of
        (t, _) # _ \<Rightarrow> (PARSE_OK, [], if t = TK_DELETE then 0 else if t = TK_INSERT then d + 1 else d)
      | [] \<Rightarrow> (PARSE_OK, [], d))"

definition toy_exec :: "string \<Rightarrow> nat \<Rightarrow> c_int \<times> string option list list \<times> nat" where
  "toy_exec q d =
     (case exec_loop (\<lambda>_. clean_codegen) toy_run 1000 q [] d of
        None \<Rightarrow> (1, [], d)
      | Some (rc, rows, d') \<Rightarrow> (of_int rc, rows, d'))"

lemma toy_executes: "executes toy_exec toy_run 1000"
  by (simp add: executes_def toy_exec_def)

definition toy_attack :: string where
  "toy_attack = ''DELETE FROM BlackListIPs;''"

definition toy_server :: "(nat, unit) server_host" where
  "toy_server = \<lparr>srv_json = ex_json\<lparr>jstring := (\<lambda>_ _. Some (injected ''1.2.3.4'' toy_attack))\<rparr>,
     srv_exec = toy_exec, srv_open = (\<lambda>_. 0), srv_prepare = (\<lambda>_ _. 0), srv_step = (\<lambda>_ _ d. (101, d)),
     srv_junk = 0, srv_heap = (\<lambda>_ _. 0)\<rparr>"

lemma ip_request_runs_statement_witness:
  "snd (server_handleRequest toy_server \<lparr>req_id = IP_SCAN_REQUEST, req_buffer = []\<rparr> 5) = 0"
proof -
  let ?i = "\<lparr>req_id = IP_SCAN_REQUEST, req_buffer = []\<rparr>"
  have "\<exists>log. shifted log = [(TK_DELETE, ''DELETE''), (TK_FROM, ''FROM''), (TK_ID, ''BlackListIPs''), (TK_SEMI, '';'')] \<and>
    snd (server_handleRequest toy_server ?i 5) = snd (snd (toy_run log 5))"
  proof (rule ip_request_runs_statement)
    show "executes (srv_exec toy_server) toy_run 1000" by (simp add: toy_server_def toy_executes)
    show "jparse (srv_json toy_server) (req_buffer ?i) = Some ()" by (simp add: toy_server_def ex_json_def)
    show "jstring (srv_json toy_server) () ''ip'' = Some (injected ''1.2.3.4'' toy_attack)"
      by (simp add: toy_server_def)
    show "quote_free ''1.2.3.4''" by (simp add: quote_free_def)
    show "complete_statement toy_attack [(TK_DELETE, ''DELETE''), (TK_FROM, ''FROM''), (TK_ID, ''BlackListIPs''), (TK_SEMI, '';'')]"
      by (simp add: toy_attack_def delete_statement)
    show "int (length (count_ip_query (injected ''1.2.3.4'' toy_attack))) \<le> 1000"
      by (simp add: count_ip_query_def injected_def IPS_TABLE_def toy_attack_def)
    show "\<exists>rows. toy_run log 5 = (PARSE_OK, rows, 5)"
      if "shifted log = count_tokens IPS_TABLE ''IPAddress'' ''1.2.3.4''" for log
      using that by (simp add: toy_run_def count_tokens_def tk_defs)
  qed simp
  then show ?thesis by (auto simp: toy_run_def)
qed

definition toy_files :: "string \<Rightarrow> string option" where
  "toy_files = [''hash-scan.log'' \<mapsto> pair_line (CHR ''@'') (injected_row ''a.exe'' ''now'' toy_attack, ''1'')]"

definition toy_host :: "(nat, unit) host" where
  "toy_host = ex_host\<lparr>sqlite3_exec := toy_exec, local_time := ''today'', system_run := (\<lambda>_ _. toy_files)\<rparr>"

lemma file_name_runs_statement_witness:
  "db (snd (hashScan toy_host [''/tmp''] True False (ex_backend\<lparr>db := 5\<rparr>))) = 0"
proof -
  let ?b = "ex_backend\<lparr>db := 5\<rparr>" and ?name = "injected_row ''a.exe'' ''now'' toy_attack"
  have "\<exists>log1 log2. shifted log1 = insert_tokens VIRUSES_TABLE [''Name'', ''DateAdded''] [''a.exe'', ''now''] \<and>
    shifted log2 = [(TK_DELETE, ''DELETE''), (TK_FROM, ''FROM''), (TK_ID, ''BlackListIPs''), (TK_SEMI, '';'')] \<and>
    db (snd (hashScan toy_host [''/tmp''] True False ?b)) = snd (snd (toy_run log2 (snd (snd (toy_run log1 (db ?b))))))"
  proof (rule file_name_runs_statement)
    show "executes (sqlite3_exec toy_host) toy_run 1000" by (simp add: toy_host_def toy_executes)
    show "hash_files toy_host True False ''/tmp'' ?b ''hash-scan.log'' = Some (concat (map (pair_line (CHR ''@'')) [(?name, ''1'')]))"
      by (simp add: hash_files_def toy_host_def toy_files_def)
    show "list_all log_pair_ok [(?name, ''1'')]"
      by (simp add: log_pair_ok_def injected_row_def toy_attack_def)
    show "record_names [(?name, ''1'')] = [?name]" by (simp add: record_names_def)
    show "quote_free ''a.exe''" "quote_free ''now''" by (simp_all add: quote_free_def)
    show "complete_statement toy_attack [(TK_DELETE, ''DELETE''), (TK_FROM, ''FROM''), (TK_ID, ''BlackListIPs''), (TK_SEMI, '';'')]"
      by (simp add: toy_attack_def delete_statement)
    show "CHR 0x00 \<notin> set (local_time toy_host)" "CHR 0x0A \<notin> set (local_time toy_host)"
      by (simp_all add: toy_host_def)
    show "int (length (insert_virus_query ?name (local_time toy_host))) \<le> 1000"
      by (simp add: insert_virus_query_def injected_row_def VIRUSES_TABLE_def toy_attack_def toy_host_def)
    show "fst (toy_run log d) = PARSE_OK" for log d
      by (auto simp: toy_run_def split: list.split)
  qed
  then show ?thesis by (auto simp: toy_run_def)
qed

end
