(* ===== verification/Backend_Store.thy ===== *)
theory Backend_Store
  imports Sql_Statements Sql_Attacks "HOL-Library.Multiset"
begin

text \<open>
  The two tables of the backend from the request to the rows: the handlers of
  \<open>RequestHandler.cpp\<close>, the queries of \<open>SqliteHelper.cpp\<close>, the tokenizer and parser of SQLite, and
  a virtual machine of which only the effect of the statements of this program on the tables is
  asked.  Together they implement two multisets.
\<close>

subsection \<open>The tables\<close>

text \<open>What the tables hold: the process numbers, as the texts that a query gives and is given, and
  the names; a value can be there several times.\<close>

record kept =
  kept_pids :: "string multiset"
  kept_names :: "string multiset"

abbreviation add_pid :: "string \<Rightarrow> kept \<Rightarrow> kept" where
  "add_pid p k \<equiv> k\<lparr>kept_pids := add_mset p (kept_pids k)\<rparr>"

abbreviation remove_pid :: "string \<Rightarrow> kept \<Rightarrow> kept" where
  "remove_pid p k \<equiv> k\<lparr>kept_pids := filter_mset (\<lambda>q. q \<noteq> p) (kept_pids k)\<rparr>"

abbreviation add_name :: "string \<Rightarrow> kept \<Rightarrow> kept" where
  "add_name v k \<equiv> k\<lparr>kept_names := add_mset v (kept_names k)\<rparr>"

text \<open>The effect of one statement, given by its tokens: insertions add a row, the deletion removes
  every row with the number, the selections give the rows in some order.\<close>

definition changes_to ::
  "int \<times> 'row list \<times> 'db \<Rightarrow> ('db \<Rightarrow> kept) \<Rightarrow> kept \<Rightarrow> bool" where
  "changes_to r tabs k \<longleftrightarrow> fst r = PARSE_OK \<and> tabs (snd (snd r)) = k"

definition gives_rows ::
  "int \<times> string option list list \<times> 'db \<Rightarrow> ('db \<Rightarrow> kept) \<Rightarrow> kept \<Rightarrow> string multiset \<Rightarrow> bool" where
  "gives_rows r tabs k m \<longleftrightarrow> changes_to r tabs k \<and> (\<exists>vs. fst (snd r) = map (\<lambda>v. [Some v]) vs \<and> mset vs = m)"

definition keeps_tables ::
  "(parse_event list \<Rightarrow> 'db \<Rightarrow> int \<times> string option list list \<times> 'db) \<Rightarrow> ('db \<Rightarrow> kept) \<Rightarrow> bool" where
  "keeps_tables run tabs \<longleftrightarrow>
     (\<forall>log d pid v. shifted log = insert_blocked_tokens (pid_tokens pid) v \<longrightarrow>
        changes_to (run log d) tabs (add_pid (to_string pid) (tabs d))) \<and>
     (\<forall>log d pid. shifted log = delete_tokens (pid_tokens pid) \<longrightarrow>
        changes_to (run log d) tabs (remove_pid (to_string pid) (tabs d))) \<and>
     (\<forall>log d v w. shifted log = insert_tokens VIRUSES_TABLE [''Name'', ''DateAdded''] [v, w] \<longrightarrow>
        changes_to (run log d) tabs (add_name v (tabs d))) \<and>
     (\<forall>log d. shifted log = select_tokens BLOCKED_TABLE ''PID'' \<longrightarrow>
        gives_rows (run log d) tabs (tabs d) (kept_pids (tabs d))) \<and>
     (\<forall>log d. shifted log = select_tokens VIRUSES_TABLE ''Name'' \<longrightarrow>
        gives_rows (run log d) tabs (tabs d) (kept_names (tabs d)))"

lemma keeps_tables_laws:
  assumes "keeps_tables run tabs"
  shows "shifted log = insert_blocked_tokens (pid_tokens pid) v \<Longrightarrow>
      changes_to (run log d) tabs (add_pid (to_string pid) (tabs d))"
    "shifted log = delete_tokens (pid_tokens pid) \<Longrightarrow>
      changes_to (run log d) tabs (remove_pid (to_string pid) (tabs d))"
    "shifted log = insert_tokens VIRUSES_TABLE [''Name'', ''DateAdded''] [v, w] \<Longrightarrow>
      changes_to (run log d) tabs (add_name v (tabs d))"
    "shifted log = select_tokens BLOCKED_TABLE ''PID'' \<Longrightarrow>
      gives_rows (run log d) tabs (tabs d) (kept_pids (tabs d))"
    "shifted log = select_tokens VIRUSES_TABLE ''Name'' \<Longrightarrow>
      gives_rows (run log d) tabs (tabs d) (kept_names (tabs d))"
  using assms unfolding keeps_tables_def by blast+

subsection \<open>Requests on the tables\<close>

text \<open>What a request does to the tables: only the two update requests change them, and an update of
  the processes whose action is not \<open>add\<close> removes, whatever the action is.\<close>

definition kept_after :: "'j json_lib \<Rightarrow> RequestInfo \<Rightarrow> kept \<Rightarrow> kept" where
  "kept_after J info k =
     (if req_id info = UPDATE_BLOCKED_TABLE_REQUEST then
        case deserializeUpdateBlockedTbaleRequest J (req_buffer info) of
          Inl _ \<Rightarrow> k
        | Inr q \<Rightarrow> if ubt_action q = ''add'' then add_pid (to_string (ubt_pid q)) k
                  else remove_pid (to_string (ubt_pid q)) k
      else if req_id info = UPDATE_VIRUS_LIST_REQUEST then
        case deserializeUpdateVirusTableRequest J (req_buffer info) of
          Inl _ \<Rightarrow> k
        | Inr q \<Rightarrow> add_name (uvt_name q) k
      else k)"

text \<open>Requests other than scans whose values have no quote and whose queries SQLite takes.\<close>

definition plain_request :: "int \<Rightarrow> 'j json_lib \<Rightarrow> RequestInfo \<Rightarrow> bool" where
  "plain_request mx J info \<longleftrightarrow> req_id info \<noteq> SCAN_REQUEST \<and>
     (case deserializeUpdateBlockedTbaleRequest J (req_buffer info) of
        Inl _ \<Rightarrow> True
      | Inr q \<Rightarrow> quote_free (ubt_dateTime q) \<and>
          int (length (insert_blocked_query (ubt_pid q) (ubt_dateTime q))) \<le> mx) \<and>
     (case deserializeUpdateVirusTableRequest J (req_buffer info) of
        Inl _ \<Rightarrow> True
      | Inr q \<Rightarrow> quote_free (uvt_name q) \<and> quote_free (uvt_dateTime q) \<and>
          int (length (insert_virus_query (uvt_name q) (uvt_dateTime q))) \<le> mx)"

lemma sql_runs:
  assumes "executes (sqlite3_exec h) run mx" "program_query q ts" "int (length q) \<le> mx"
  obtains log where "shifted log = ts"
    "exec_sql h q b = ((of_int (fst (run log (db b))), fst (snd (run log (db b)))), b\<lparr>db := snd (snd (run log (db b)))\<rparr>)"
proof -
  obtain log where log: "shifted log = ts"
    "exec_loop (\<lambda>_. clean_codegen) run mx (c_str q) [] (db b) = (case run log (db b) of (rc, rs, d') \<Rightarrow> Some (rc, rs, d'))"
    using program_query_runs [OF assms(2,3), of run "db b"] by blast
  obtain rc rs d' where run: "run log (db b) = (rc, rs, d')" by (cases "run log (db b)")
  then have "sqlite3_exec h (c_str q) (db b) = (of_int rc, rs, d')"
    using log(2) assms(1) unfolding executes_def by fastforce
  with run log(1) that show thesis by (simp add: exec_sql_def)
qed

lemma delete_shorter: "length (delete_blocked_query pid) \<le> length (insert_blocked_query pid v)"
  by (simp add: delete_blocked_query_def insert_blocked_query_def BLOCKED_TABLE_def)

lemma updateBlockedTable_kept:
  assumes "executes (sqlite3_exec h) run mx" "keeps_tables run tabs"
    and "quote_free v" "int (length (insert_blocked_query pid v)) \<le> mx"
  shows "fst (updateBlockedTable h a pid v b) \<and> tabs (db (snd (updateBlockedTable h a pid v b))) =
    (if a = ''add'' then add_pid (to_string pid) (tabs (db b)) else remove_pid (to_string pid) (tabs (db b)))"
proof (cases "a = ''add''")
  case True
  obtain log where log: "shifted log = insert_blocked_tokens (pid_tokens pid) v"
    "exec_sql h (insert_blocked_query pid v) b =
       ((of_int (fst (run log (db b))), fst (snd (run log (db b)))), b\<lparr>db := snd (snd (run log (db b)))\<rparr>)"
    using sql_runs [OF assms(1) program_query.intros(5) [OF assms(3)] assms(4)] .
  from keeps_tables_laws(1) [OF assms(2) log(1), of "db b"] log(2) True show ?thesis
    by (simp add: updateBlockedTable_def changes_to_def PARSE_OK_def SQLITE_OK_def)
next
  case False
  have "int (length (delete_blocked_query pid)) \<le> mx" using assms(4) delete_shorter [of pid v] by linarith
  then obtain log where log: "shifted log = delete_tokens (pid_tokens pid)"
    "exec_sql h (delete_blocked_query pid) b =
       ((of_int (fst (run log (db b))), fst (snd (run log (db b)))), b\<lparr>db := snd (snd (run log (db b)))\<rparr>)"
    using sql_runs [OF assms(1) program_query.intros(6)] by blast
  from keeps_tables_laws(2) [OF assms(2) log(1), of "db b"] log(2) False show ?thesis
    by (simp add: updateBlockedTable_def changes_to_def PARSE_OK_def SQLITE_OK_def)
qed

lemma updateViruses_kept:
  assumes "executes (sqlite3_exec h) run mx" "keeps_tables run tabs"
    and "quote_free v" "quote_free w" "int (length (insert_virus_query v w)) \<le> mx"
  shows "fst (updateViruses h v w b) \<and> tabs (db (snd (updateViruses h v w b))) = add_name v (tabs (db b))"
proof -
  obtain log where log: "shifted log = insert_tokens VIRUSES_TABLE [''Name'', ''DateAdded''] [v, w]"
    "exec_sql h (insert_virus_query v w) b =
       ((of_int (fst (run log (db b))), fst (snd (run log (db b)))), b\<lparr>db := snd (snd (run log (db b)))\<rparr>)"
    using sql_runs [OF assms(1) program_query.intros(3) [OF assms(3,4)] assms(5)] .
  from keeps_tables_laws(3) [OF assms(2) log(1), of "db b"] log(2) show ?thesis
    by (simp add: updateViruses_def changes_to_def PARSE_OK_def SQLITE_OK_def)
qed

lemma rows_listed: "push_rows (map (\<lambda>v. [Some v]) vs) [] = Inr vs"
  using push_rows_Some [of "map (\<lambda>v. [v]) vs" "[]"] by (simp add: comp_def)

lemma getBlocked_kept:
  assumes "executes (sqlite3_exec h) run mx" "keeps_tables run tabs" "100 \<le> mx"
  shows "\<exists>ps b'. getBlockedPorcesses h b = (Inr ps, b') \<and> mset ps = kept_pids (tabs (db b)) \<and> tabs (db b') = tabs (db b)"
proof -
  have "int (length select_blocked_query) \<le> mx" using assms(3) by (simp add: select_blocked_query_def BLOCKED_TABLE_def)
  then obtain log where log: "shifted log = select_tokens BLOCKED_TABLE ''PID''"
    "exec_sql h select_blocked_query b =
       ((of_int (fst (run log (db b))), fst (snd (run log (db b)))), b\<lparr>db := snd (snd (run log (db b)))\<rparr>)"
    using sql_runs [OF assms(1) program_query.intros(8)] by blast
  from keeps_tables_laws(4) [OF assms(2) log(1), of "db b"] log(2) show ?thesis
    by (auto simp: getBlockedPorcesses_def gives_rows_def changes_to_def rows_listed)
qed

lemma getViruses_kept:
  assumes "executes (sqlite3_exec h) run mx" "keeps_tables run tabs" "100 \<le> mx"
  shows "\<exists>vs b'. getViruses h b = (Inr vs, b') \<and> mset vs = kept_names (tabs (db b)) \<and> tabs (db b') = tabs (db b)"
proof -
  have "int (length select_viruses_query) \<le> mx" using assms(3) by (simp add: select_viruses_query_def VIRUSES_TABLE_def)
  then obtain log where log: "shifted log = select_tokens VIRUSES_TABLE ''Name''"
    "exec_sql h select_viruses_query b =
       ((of_int (fst (run log (db b))), fst (snd (run log (db b)))), b\<lparr>db := snd (snd (run log (db b)))\<rparr>)"
    using sql_runs [OF assms(1) program_query.intros(7)] by blast
  from keeps_tables_laws(5) [OF assms(2) log(1), of "db b"] log(2) show ?thesis
    by (auto simp: getViruses_def gives_rows_def changes_to_def rows_listed)
qed

lemma signal_requests_db:
  "db (snd (freeProcess h info b)) = db b" "db (snd (blockProcess h info b)) = db b" "db (snd (killProcess h info b)) = db b"
  by (auto simp: freeProcess_def blockProcess_def killProcess_def bnd_def lift_def call_driver_def split: sum.split prod.split)

lemma request_kept:
  assumes "executes (sqlite3_exec h) run mx" "keeps_tables run tabs" "100 \<le> mx" "plain_request mx (h_json h) info"
  shows "tabs (db (snd (handleRequest h info b))) = kept_after (h_json h) info (tabs (db b))"
proof -
  let ?J = "h_json h"
  have "tabs (db (snd (request_updateBlockedTable h info b))) = kept_after ?J info (tabs (db b))"
    if "req_id info = UPDATE_BLOCKED_TABLE_REQUEST"
  proof (cases "deserializeUpdateBlockedTbaleRequest ?J (req_buffer info)")
    case (Inr q)
    with assms(4) updateBlockedTable_kept [OF assms(1,2), of "ubt_dateTime q" "ubt_pid q" "ubt_action q" b] that
    show ?thesis by (simp add: request_updateBlockedTable_def kept_after_def plain_request_def lift_def split_beta)
  qed (simp add: request_updateBlockedTable_def kept_after_def lift_def bnd_def that)
  moreover have "tabs (db (snd (request_updateVirusTable h info b))) = kept_after ?J info (tabs (db b))"
    if "req_id info = UPDATE_VIRUS_LIST_REQUEST"
  proof (cases "deserializeUpdateVirusTableRequest ?J (req_buffer info)")
    case (Inr q)
    with assms(4) updateViruses_kept [OF assms(1,2), of "uvt_name q" "uvt_dateTime q" b] that
    show ?thesis
      by (simp add: request_updateVirusTable_def kept_after_def plain_request_def lift_def request_codes split_beta)
  qed (simp add: request_updateVirusTable_def kept_after_def lift_def bnd_def that request_codes)
  moreover have "tabs (db (snd (getSuspendedProcessesList h info b))) = tabs (db b)"
    "tabs (db (snd (getSuspiciousProcessesList h info b))) = tabs (db b)"
    using getBlocked_kept [OF assms(1-3), of b] getViruses_kept [OF assms(1-3), of b]
    by (auto simp: getSuspendedProcessesList_def getSuspiciousProcessesList_def bnd_def lift_def)
  ultimately show ?thesis
    using assms(4) by (simp add: handleRequest_def kept_after_def plain_request_def request_codes signal_requests_db lift_def)
qed

subsection \<open>The lists\<close>

fun handle_all :: "('db, 'j) host \<Rightarrow> RequestInfo list \<Rightarrow> 'db backend \<Rightarrow> 'db backend" where
  "handle_all h [] b = b"
| "handle_all h (info # infos) b = handle_all h infos (snd (handleRequest h info b))"

lemma handle_all_kept:
  assumes "executes (sqlite3_exec h) run mx" "keeps_tables run tabs" "100 \<le> mx"
    and "list_all (plain_request mx (h_json h)) infos"
  shows "tabs (db (handle_all h infos b)) = fold (kept_after (h_json h)) infos (tabs (db b))"
  using assms(4) by (induction infos arbitrary: b) (simp_all add: request_kept [OF assms(1-3)])

text \<open>C15: After any sequence of requests other than scans, without quotes in their values, the list of
  blocked processes holds the numbers that were added and not removed since, and the list of
  suspicious programs the names that were added, each as often as it was added: the handlers, the
  queries and the parser of SQLite together implement the two multisets.\<close>

theorem lists_show_what_is_kept:
  assumes "executes (sqlite3_exec h) run mx" "keeps_tables run tabs" "100 \<le> mx"
    and "list_all (plain_request mx (h_json h)) infos"
    and "req_id info1 = SUSPENDED_PROCESSES_LIST_REQUEST" "req_id info2 = SUSPICIOUS_PROCESSES_LIST_REQUEST"
  shows "\<exists>ps vs. fst (handleRequest h info1 (handle_all h infos b)) = serialize_SuspendedListResponse (h_json h)
        \<lparr>spd_status = SUSPENDED_PROCESSES_LIST_REESPONSE, procPids = ps\<rparr> \<and>
    mset ps = kept_pids (fold (kept_after (h_json h)) infos (tabs (db b))) \<and>
    fst (handleRequest h info2 (handle_all h infos b)) = serialize_SuspiciousListResponse (h_json h)
        \<lparr>sus_status = SUSPICIOUS_PROCESSES_LIST_RESPONSE, procNames = vs\<rparr> \<and>
    mset vs = kept_names (fold (kept_after (h_json h)) infos (tabs (db b)))"
proof -
  let ?b = "handle_all h infos b"
  obtain ps b1 vs b2 where rows: "getBlockedPorcesses h ?b = (Inr ps, b1)" "mset ps = kept_pids (tabs (db ?b))"
    "getViruses h ?b = (Inr vs, b2)" "mset vs = kept_names (tabs (db ?b))"
    using getBlocked_kept [OF assms(1-3), of ?b] getViruses_kept [OF assms(1-3), of ?b] by blast
  show ?thesis
  proof (intro exI conjI)
    show "mset ps = kept_pids (fold (kept_after (h_json h)) infos (tabs (db b)))"
      "mset vs = kept_names (fold (kept_after (h_json h)) infos (tabs (db b)))"
      using rows(2,4) handle_all_kept [OF assms(1-4)] by simp_all
  qed (simp_all add: handleRequest_def assms(5,6) request_codes getSuspendedProcessesList_def
        getSuspiciousProcessesList_def lift_def rows(1,3))
qed

subsection \<open>A database of two lists\<close>

text \<open>A virtual machine that reads the tokens: the keyword, the table and the values.\<close>

definition list_run ::
  "parse_event list \<Rightarrow> string list \<times> string list \<Rightarrow> int \<times> string option list list \<times> string list \<times> string list" where
  "list_run log d =
     (let ts = shifted log; k = fst (ts ! 0); table = snd (ts ! (if k = TK_SELECT then 3 else 2))
      in if k = TK_SELECT then (PARSE_OK, map (\<lambda>v. [Some v]) (if table = BLOCKED_TABLE then fst d else snd d), d)
         else if k = TK_DELETE then
           (PARSE_OK, [], filter (\<lambda>p. p \<noteq> concat (map snd (butlast (drop 6 ts)))) (fst d), snd d)
         else if table = BLOCKED_TABLE then
           (PARSE_OK, [], concat (map snd (takeWhile (\<lambda>(t, s). t \<noteq> TK_COMMA) (drop 10 ts))) # fst d, snd d)
         else (PARSE_OK, [], fst d, butlast (tl (snd (ts ! 10))) # snd d))"

definition list_tables :: "string list \<times> string list \<Rightarrow> kept" where
  "list_tables d = \<lparr>kept_pids = mset (fst d), kept_names = mset (snd d)\<rparr>"

lemma pid_tokens_text: "concat (map snd (pid_tokens pid)) = to_string pid"
  by (simp add: pid_tokens_def to_string_def int_text_def)

lemma pid_tokens_comma: "takeWhile (\<lambda>(t, s). t \<noteq> TK_COMMA) (pid_tokens pid @ (TK_COMMA, v) # ts) = pid_tokens pid"
  by (simp add: pid_tokens_def tk_defs)

lemma list_tables_kept: "keeps_tables list_run list_tables"
proof -
  have names: "VIRUSES_TABLE \<noteq> BLOCKED_TABLE" by (simp add: VIRUSES_TABLE_def BLOCKED_TABLE_def)
  have "changes_to (list_run log d) list_tables (add_pid (to_string pid) (list_tables d))"
    if "shifted log = insert_blocked_tokens (pid_tokens pid) v" for log d pid v
    by (simp add: changes_to_def list_run_def list_tables_def that insert_blocked_tokens_def Let_def TK_INSERT_def TK_DELETE_def TK_SELECT_def
        pid_tokens_comma pid_tokens_text)
  moreover have "changes_to (list_run log d) list_tables (remove_pid (to_string pid) (list_tables d))"
    if "shifted log = delete_tokens (pid_tokens pid)" for log d pid
    by (simp add: changes_to_def list_run_def list_tables_def that delete_tokens_def Let_def TK_INSERT_def TK_DELETE_def TK_SELECT_def
        butlast_append pid_tokens_text)
  moreover have "changes_to (list_run log d) list_tables (add_name v (list_tables d))"
    if "shifted log = insert_tokens VIRUSES_TABLE [''Name'', ''DateAdded''] [v, w]" for log d v w
    by (simp add: changes_to_def list_run_def list_tables_def that insert_tokens_def quoted_def Let_def
        TK_INSERT_def TK_DELETE_def TK_SELECT_def names)
  moreover have "gives_rows (list_run log d) list_tables (list_tables d) (kept_pids (list_tables d))"
    if "shifted log = select_tokens BLOCKED_TABLE ''PID''" for log d
    by (auto simp: gives_rows_def changes_to_def list_run_def list_tables_def that select_tokens_def)
  moreover have "gives_rows (list_run log d) list_tables (list_tables d) (kept_names (list_tables d))"
    if "shifted log = select_tokens VIRUSES_TABLE ''Name''" for log d
    by (auto simp: gives_rows_def changes_to_def list_run_def list_tables_def that select_tokens_def names)
  ultimately show ?thesis unfolding keeps_tables_def by blast
qed

definition list_exec :: "string \<Rightarrow> string list \<times> string list \<Rightarrow> c_int \<times> string option list list \<times> string list \<times> string list" where
  "list_exec q d =
     (case exec_loop (\<lambda>_. clean_codegen) list_run 1000 q [] d of
        None \<Rightarrow> (1, [], d)
      | Some (rc, rows, d') \<Rightarrow> (of_int rc, rows, d'))"

text \<open>Requests whose data are the action and one byte for the process.\<close>

definition byte_json :: "byte list json_lib" where
  "byte_json = \<lparr>jparse = Some, jread = (\<lambda>_. None), jint = (\<lambda>bs _. Some (ucast (bs ! 1))),
     jstring = (\<lambda>bs k. Some (if k = ''action'' then (if bs ! 0 = 1 then ''add'' else ''delete'') else ''x'')),
     jstrings = (\<lambda>_ _. None), jdump = (\<lambda>_. Some [1])\<rparr>"

definition list_host :: "(string list \<times> string list, byte list) host" where
  "list_host = \<lparr>h_json = byte_json, sqlite3_exec = list_exec, sqlite3_open = (\<lambda>_. 0), system_run = (\<lambda>_ fs. fs),
     local_time = ''t'', h_device = ex_device, junk_int = of_nat, h_heap = (\<lambda>_ _. 0)\<rparr>"

definition list_backend :: "(string list \<times> string list) backend" where
  "list_backend = \<lparr>db = ([], []), db_connections = 1, files = Map.empty, kernel = ex_state, scan_time = 1,
     packetScanResult = [], spofingScanResult = Map.empty, fullPathsForScan = [], quickPathsForScan = []\<rparr>"

abbreviation update_pid :: "byte \<Rightarrow> byte \<Rightarrow> RequestInfo" where
  "update_pid action p \<equiv> \<lparr>req_id = UPDATE_BLOCKED_TABLE_REQUEST, req_buffer = [action, p]\<rparr>"

lemma lists_show_what_is_kept_witness:
  "\<exists>ps. fst (handleRequest list_host \<lparr>req_id = SUSPENDED_PROCESSES_LIST_REQUEST, req_buffer = []\<rparr>
        (handle_all list_host [update_pid 1 7, update_pid 1 9, update_pid 1 7, update_pid 0 9] list_backend)) =
      serialize_SuspendedListResponse byte_json \<lparr>spd_status = SUSPENDED_PROCESSES_LIST_REESPONSE, procPids = ps\<rparr> \<and>
    mset ps = {#''7'', ''7''#}"
proof -
  let ?infos = "[update_pid 1 7, update_pid 1 9, update_pid 1 7, update_pid 0 9]"
  let ?last = "\<lparr>req_id = SUSPENDED_PROCESSES_LIST_REQUEST, req_buffer = []\<rparr>"
  have texts: "to_string 7 = ''7''" "to_string 9 = ''9''"
    by (simp_all add: to_string_def int_text_def dec_digits.simps digit_char_def char_of_def bit_0)
  have json: "h_json list_host = byte_json" by (simp add: list_host_def)
  have update: "deserializeUpdateBlockedTbaleRequest byte_json [a, p] =
      Inr \<lparr>ubt_pid = ucast p, ubt_dateTime = ''x'', ubt_action = (if a = 1 then ''add'' else ''delete'')\<rparr>" for a p
    by (simp add: deserializeUpdateBlockedTbaleRequest_def byte_json_def)
  have "deserializeUpdateVirusTableRequest byte_json [a, p] = Inr \<lparr>uvt_name = ''x'', uvt_dateTime = ''x''\<rparr>" for a p
    by (simp add: deserializeUpdateVirusTableRequest_def byte_json_def)
  then have plain: "list_all (plain_request 1000 (h_json list_host)) ?infos"
    by (simp add: json plain_request_def update quote_free_def insert_blocked_query_def insert_virus_query_def texts
        BLOCKED_TABLE_def VIRUSES_TABLE_def request_codes)
  have exec: "executes (sqlite3_exec list_host) list_run 1000"
    by (simp add: list_host_def executes_def list_exec_def)
  have after: "kept_pids (fold (kept_after (h_json list_host)) ?infos (list_tables (db list_backend))) = {#''7'', ''7''#}"
    by (simp add: json kept_after_def update texts list_tables_def list_backend_def)
  let ?names = "\<lparr>req_id = SUSPICIOUS_PROCESSES_LIST_REQUEST, req_buffer = []\<rparr>"
  have "100 \<le> (1000 :: int)" "req_id ?last = SUSPENDED_PROCESSES_LIST_REQUEST"
    "req_id ?names = SUSPICIOUS_PROCESSES_LIST_REQUEST" by simp_all
  from lists_show_what_is_kept [OF exec list_tables_kept this(1) plain this(2,3), of list_backend]
  show ?thesis unfolding after unfolding json by blast
qed

end
