(* ===== verification/Server_Store.thy ===== *)
theory Server_Store
  imports Backend_Store
begin

text \<open>
  The two blacklists of the server from the request to the rows: the handlers of the server, its
  queries, the tokenizer and parser of SQLite, and a virtual machine of which only the effect of
  the statements of the server on its tables is asked.  Together they implement two multisets, of
  which a scan asks whether it has an element.
\<close>

subsection \<open>The tables\<close>

record listed =
  ls_ips :: "string multiset"
  ls_hashes :: "string multiset"

abbreviation add_ip :: "string \<Rightarrow> listed \<Rightarrow> listed" where
  "add_ip v k \<equiv> k\<lparr>ls_ips := add_mset v (ls_ips k)\<rparr>"

abbreviation add_hash :: "string \<Rightarrow> listed \<Rightarrow> listed" where
  "add_hash v k \<equiv> k\<lparr>ls_hashes := add_mset v (ls_hashes k)\<rparr>"

text \<open>The effect of the statements, given by their tokens: a row is added, or one row with the count
  is answered.  The insertion of a hash is prepared once and stepped with its values.\<close>

definition counted ::
  "int \<times> string option list list \<times> 'db \<Rightarrow> ('db \<Rightarrow> listed) \<Rightarrow> listed \<Rightarrow> nat \<Rightarrow> bool" where
  "counted r tabs k n \<longleftrightarrow>
     fst r = PARSE_OK \<and> fst (snd r) = [[Some (int_text (int n))]] \<and> tabs (snd (snd r)) = k"

definition keeps_lists ::
  "('db, 'j) server_host \<Rightarrow> (parse_event list \<Rightarrow> 'db \<Rightarrow> int \<times> string option list list \<times> 'db) \<Rightarrow>
     ('db \<Rightarrow> listed) \<Rightarrow> bool" where
  "keeps_lists h run tabs \<longleftrightarrow>
     (\<forall>log d u v w. shifted log = insert_tokens IPS_TABLE [''IPAddress'', ''DateAdded'', ''Source''] [u, v, w] \<longrightarrow>
        fst (run log d) = PARSE_OK \<and> tabs (snd (snd (run log d))) = add_ip u (tabs d)) \<and>
     (\<forall>log d v. shifted log = count_tokens IPS_TABLE ''IPAddress'' v \<longrightarrow>
        counted (run log d) tabs (tabs d) (count (ls_ips (tabs d)) v)) \<and>
     (\<forall>log d v. shifted log = count_tokens HASHES_TABLE ''SHA256'' v \<longrightarrow>
        counted (run log d) tabs (tabs d) (count (ls_hashes (tabs d)) v)) \<and>
     (\<forall>name path sha date src d. srv_prepare h insert_hash_query d = SQLITE_OK \<and>
        (case srv_step h insert_hash_query [name, path, sha, date, src] d of
           (rc, d') \<Rightarrow> rc = SQLITE_DONE \<and> tabs d' = add_hash sha (tabs d)))"

lemma keeps_lists_laws:
  assumes "keeps_lists h run tabs"
  shows "shifted log = insert_tokens IPS_TABLE [''IPAddress'', ''DateAdded'', ''Source''] [u, v, w] \<Longrightarrow>
      fst (run log d) = PARSE_OK \<and> tabs (snd (snd (run log d))) = add_ip u (tabs d)"
    "shifted log = count_tokens IPS_TABLE ''IPAddress'' v \<Longrightarrow>
      counted (run log d) tabs (tabs d) (count (ls_ips (tabs d)) v)"
    "shifted log = count_tokens HASHES_TABLE ''SHA256'' v \<Longrightarrow>
      counted (run log d) tabs (tabs d) (count (ls_hashes (tabs d)) v)"
    "srv_prepare h insert_hash_query d = SQLITE_OK \<and>
      (\<exists>d'. srv_step h insert_hash_query [name, path, sha, date, src] d = (SQLITE_DONE, d') \<and>
         tabs d' = add_hash sha (tabs d))"
  using assms unfolding keeps_lists_def by (blast, blast, blast, fastforce)

subsection \<open>Requests on the tables\<close>

text \<open>The requests whose values have no quote and whose queries SQLite takes.  The values of a hash
  are bound to its statement, so they may be anything.\<close>

definition plain_question :: "int \<Rightarrow> (string \<Rightarrow> string) \<Rightarrow> string \<Rightarrow> bool" where
  "plain_question mx query v \<longleftrightarrow> quote_free v \<and> int (length (query v)) \<le> mx"

definition plain_server_request :: "int \<Rightarrow> 'j json_lib \<Rightarrow> RequestInfo \<Rightarrow> bool" where
  "plain_server_request mx J info \<longleftrightarrow>
     (case deserializeIPScanRequest J (req_buffer info) of
        Inl _ \<Rightarrow> True | Inr q \<Rightarrow> plain_question mx count_ip_query (ipq_IPAddress q)) \<and>
     (case deserializeHashScanRequest J (req_buffer info) of
        Inl _ \<Rightarrow> True | Inr q \<Rightarrow> list_all (plain_question mx count_hash_query) (hq_hashes q)) \<and>
     (case deserializeSaveIpRequest J (req_buffer info) of
        Inl _ \<Rightarrow> True
      | Inr q \<Rightarrow> quote_free (siq_IPAddress q) \<and> quote_free (siq_DateAdded q) \<and> quote_free (siq_Source q) \<and>
          int (length (insert_ip_query (siq_IPAddress q) (siq_DateAdded q) (siq_Source q))) \<le> mx)"

definition listed_after :: "'j json_lib \<Rightarrow> RequestInfo \<Rightarrow> listed \<Rightarrow> listed" where
  "listed_after J info k =
     (if req_id info = SAVING_IP_REQUEST then
        case deserializeSaveIpRequest J (req_buffer info) of
          Inl _ \<Rightarrow> k | Inr q \<Rightarrow> add_ip (siq_IPAddress q) k
      else if req_id info = SAVING_HASH_REQUEST then
        case deserializeSaveHashRequest J (req_buffer info) of
          Inl _ \<Rightarrow> k | Inr q \<Rightarrow> add_hash (c_str (shq_FileHash_SHA256 q)) k
      else k)"

definition listed_size :: "listed \<Rightarrow> nat" where
  "listed_size k = size (ls_ips k) + size (ls_hashes k)"

lemma listed_after_size: "listed_size (listed_after J info k) \<le> listed_size k + 1"
  by (auto simp: listed_after_def listed_size_def split: sum.split)

lemma listed_counts: "count (ls_ips k) v \<le> listed_size k" "count (ls_hashes k) v \<le> listed_size k"
  by (simp_all add: listed_size_def count_le_size trans_le_add1 trans_le_add2)

lemma server_query_runs:
  assumes "executes (srv_exec h) run mx" "program_query q ts" "int (length q) \<le> mx"
  obtains log where "shifted log = ts"
    "srv_exec h (c_str q) d = (of_int (fst (run log d)), fst (snd (run log d)), snd (snd (run log d)))"
proof -
  obtain log where log: "shifted log = ts"
    "exec_loop (\<lambda>_. clean_codegen) run mx (c_str q) [] d = (case run log d of (rc, rs, d') \<Rightarrow> Some (rc, rs, d'))"
    using program_query_runs [OF assms(2,3), of run d] by blast
  obtain rc rs d' where "run log d = (rc, rs, d')" by (cases "run log d")
  with log assms(1) show thesis by (intro that [OF log(1)]) (auto simp: executes_def)
qed

text \<open>A question about one value, and about a list of hashes.\<close>

lemma question_answered:
  assumes "executes (srv_exec h) run mx" "program_query (query v) ts" "plain_question mx query v"
    and "\<And>log. shifted log = ts \<Longrightarrow> counted (run log d) tabs (tabs d) n" "n < 2 ^ 31"
  shows "\<exists>d'. srv_exec h (c_str (query v)) d = (SQLITE_OK, [[Some (int_text (int n))]], d') \<and>
    res_bind (count_rows [[Some (int_text (int n))]] junk) (\<lambda>ans. Inr (1 \<le> sint ans)) = (Inr (1 \<le> n) :: stop + bool) \<and>
    tabs d' = tabs d"
proof -
  have "int (length (query v)) \<le> mx" using assms(3) by (simp add: plain_question_def)
  then obtain log where log: "shifted log = ts"
    "srv_exec h (c_str (query v)) d = (of_int (fst (run log d)), fst (snd (run log d)), snd (snd (run log d)))"
    by (rule server_query_runs [OF assms(1,2)])
  from assms(4) [OF log(1)] log(2) show ?thesis
    by (simp add: counted_def PARSE_OK_def SQLITE_OK_def atoi_count [OF assms(5)])
qed

lemma ip_question:
  assumes "executes (srv_exec h) run mx" "keeps_lists h run tabs" "plain_question mx count_ip_query v"
    and "listed_size (tabs d) < 2 ^ 31"
  shows "\<exists>d'. IPisMalicious h v d = (Inr (v \<in># ls_ips (tabs d)), d') \<and> tabs d' = tabs d"
proof -
  have "count (ls_ips (tabs d)) v < 2 ^ 31" using listed_counts(1) assms(4) by (rule le_less_trans)
  moreover from assms(3) have "quote_free v" by (simp add: plain_question_def)
  ultimately show ?thesis
    using question_answered [OF assms(1) program_query.intros(1) assms(3), of d tabs "count (ls_ips (tabs d)) v" "srv_junk h"]
      keeps_lists_laws(2) [OF assms(2)]
    by (auto simp: IPisMalicious_def Suc_le_eq)
qed

lemma hash_question:
  assumes "executes (srv_exec h) run mx" "keeps_lists h run tabs" "plain_question mx count_hash_query v"
    and "listed_size (tabs d) < 2 ^ 31"
  shows "\<exists>d'. HASHisMalicious h v d = (Inr (v \<in># ls_hashes (tabs d)), d') \<and> tabs d' = tabs d"
proof -
  have "count (ls_hashes (tabs d)) v < 2 ^ 31" using listed_counts(2) assms(4) by (rule le_less_trans)
  moreover from assms(3) have "quote_free v" by (simp add: plain_question_def)
  ultimately show ?thesis
    using question_answered [OF assms(1) program_query.intros(2) assms(3), of d tabs "count (ls_hashes (tabs d)) v" "srv_junk h"]
      keeps_lists_laws(3) [OF assms(2)]
    by (auto simp: HASHisMalicious_def Suc_le_eq)
qed

lemma hash_questions:
  assumes "executes (srv_exec h) run mx" "keeps_lists h run tabs"
  shows "list_all (plain_question mx count_hash_query) vs \<Longrightarrow> listed_size (tabs d) < 2 ^ 31 \<Longrightarrow>
    \<exists>d'. hash_loop h vs res d = (Inr (res @ map (\<lambda>v. if v \<in># ls_hashes (tabs d) then 1 else 0) vs), d') \<and>
      tabs d' = tabs d"
proof (induction vs arbitrary: res d)
  case (Cons v vs)
  then have "plain_question mx count_hash_query v" by simp
  from hash_question [OF assms this Cons.prems(2)] obtain d1 where
    d1: "HASHisMalicious h v d = (Inr (v \<in># ls_hashes (tabs d)), d1)" "tabs d1 = tabs d" by blast
  with Cons.IH [of d1 "res @ [if v \<in># ls_hashes (tabs d) then 1 else 0]"] Cons.prems show ?case
    by auto
qed simp

lemma server_request_listed:
  assumes "executes (srv_exec h) run mx" "keeps_lists h run tabs"
    and "plain_server_request mx (srv_json h) info" "listed_size (tabs d) < 2 ^ 31"
  shows "tabs (snd (server_handleRequest h info d)) = listed_after (srv_json h) info (tabs d)"
proof -
  let ?J = "srv_json h" and ?b = "req_buffer info"
  have "tabs (snd (IPScan h info d)) = tabs d"
  proof (cases "deserializeIPScanRequest ?J ?b")
    case (Inr q)
    with assms(3) ip_question [OF assms(1,2) _ assms(4), of "ipq_IPAddress q"] show ?thesis
      by (auto simp: IPScan_def plain_server_request_def lift_def)
  qed (simp add: IPScan_def lift_def bnd_def)
  moreover have "tabs (snd (server_hashScan h info d)) = tabs d"
  proof (cases "deserializeHashScanRequest ?J ?b")
    case (Inr q)
    with assms(3) hash_questions [OF assms(1,2) _ assms(4), of "hq_hashes q" "[]"] show ?thesis
      by (auto simp: server_hashScan_def plain_server_request_def lift_def)
  qed (simp add: server_hashScan_def lift_def bnd_def)
  moreover have "tabs (snd (saveIp h info d)) = listed_after ?J info (tabs d)"
    if id: "req_id info = SAVING_IP_REQUEST"
  proof (cases "deserializeSaveIpRequest ?J ?b")
    case (Inr q)
    with assms(3) have q: "quote_free (siq_IPAddress q)" "quote_free (siq_DateAdded q)" "quote_free (siq_Source q)"
      "int (length (insert_ip_query (siq_IPAddress q) (siq_DateAdded q) (siq_Source q))) \<le> mx"
      by (simp_all add: plain_server_request_def)
    obtain log where log: "shifted log = insert_tokens IPS_TABLE [''IPAddress'', ''DateAdded'', ''Source'']
        [siq_IPAddress q, siq_DateAdded q, siq_Source q]"
      "srv_exec h (c_str (insert_ip_query (siq_IPAddress q) (siq_DateAdded q) (siq_Source q))) d =
        (of_int (fst (run log d)), fst (snd (run log d)), snd (snd (run log d)))"
      by (rule server_query_runs [OF assms(1) program_query.intros(4) [OF q(1-3)] q(4)])
    from keeps_lists_laws(1) [OF assms(2) log(1), of d] show ?thesis
      by (simp add: saveIp_def addIP_def Inr log(2) listed_after_def id lift_def split_beta)
  qed (simp add: saveIp_def lift_def bnd_def listed_after_def id)
  moreover have "tabs (snd (saveHash h info d)) = listed_after ?J info (tabs d)"
    if id: "req_id info = SAVING_HASH_REQUEST"
  proof (cases "deserializeSaveHashRequest ?J ?b")
    case (Inr q)
    from keeps_lists_laws(4) [OF assms(2)] obtain d' where
      "srv_prepare h insert_hash_query d = SQLITE_OK"
      "srv_step h insert_hash_query [c_str (shq_FileName q), c_str (shq_FilePath q), c_str (shq_FileHash_SHA256 q),
         c_str (shq_DateAdded q), c_str (shq_SourceDetection q)] d = (SQLITE_DONE, d')"
      "tabs d' = add_hash (c_str (shq_FileHash_SHA256 q)) (tabs d)" by blast
    then show ?thesis
      by (simp add: saveHash_def addHASH_def Inr listed_after_def id lift_def request_codes)
  qed (simp add: saveHash_def lift_def bnd_def listed_after_def id request_codes)
  ultimately show ?thesis
    by (simp add: server_handleRequest_def listed_after_def request_codes lift_def)
qed

subsection \<open>The questions\<close>

fun server_handle_all :: "('db, 'j) server_host \<Rightarrow> RequestInfo list \<Rightarrow> 'db \<Rightarrow> 'db" where
  "server_handle_all h [] d = d"
| "server_handle_all h (info # infos) d = server_handle_all h infos (snd (server_handleRequest h info d))"

lemma server_handle_all_listed:
  assumes "executes (srv_exec h) run mx" "keeps_lists h run tabs"
  shows "list_all (plain_server_request mx (srv_json h)) infos \<Longrightarrow>
    listed_size (tabs d) + length infos < 2 ^ 31 \<Longrightarrow>
    tabs (server_handle_all h infos d) = fold (listed_after (srv_json h)) infos (tabs d) \<and>
    listed_size (tabs (server_handle_all h infos d)) < 2 ^ 31"
proof (induction infos arbitrary: d)
  case (Cons info infos)
  let ?d = "snd (server_handleRequest h info d)"
  have d: "tabs ?d = listed_after (srv_json h) info (tabs d)"
    using Cons.prems by (intro server_request_listed [OF assms]) simp_all
  have "listed_size (tabs ?d) + length infos < 2 ^ 31"
    using Cons.prems(2) listed_after_size [of "srv_json h" info "tabs d"] by (simp add: d)
  with Cons.IH [of ?d] Cons.prems(1) d show ?case by auto
qed simp


subsection \<open>A database of two lists\<close>

definition two_lists :: "string list \<times> string list \<Rightarrow> listed" where
  "two_lists d = \<lparr>ls_ips = mset (fst d), ls_hashes = mset (snd d)\<rparr>"

text \<open>A virtual machine that reads the tokens: the keyword, the table and the value.\<close>

definition two_lists_run ::
  "parse_event list \<Rightarrow> string list \<times> string list \<Rightarrow> int \<times> string option list list \<times> string list \<times> string list" where
  "two_lists_run log d =
     (let ts = shifted log
      in if fst (ts ! 0) = TK_SELECT
         then (PARSE_OK, [[Some (int_text (int (count_list (if snd (ts ! 6) = IPS_TABLE then fst d else snd d)
                (butlast (tl (snd (ts ! 10)))))))]], d)
         else (PARSE_OK, [], butlast (tl (snd (ts ! 12))) # fst d, snd d))"

definition two_lists_exec ::
  "string \<Rightarrow> string list \<times> string list \<Rightarrow> c_int \<times> string option list list \<times> string list \<times> string list" where
  "two_lists_exec q d =
     (case exec_loop (\<lambda>_. clean_codegen) two_lists_run 1000 q [] d of
        None \<Rightarrow> (1, [], d)
      | Some (rc, rows, d') \<Rightarrow> (of_int rc, rows, d'))"

text \<open>Requests whose data are one byte, the number of an address.\<close>

definition address_json :: "byte list json_lib" where
  "address_json = byte_json\<lparr>
     jstring := (\<lambda>bs k. Some (if k = ''ip'' then (if bs = [1] then ''1.1.1.1'' else ''2.2.2.2'') else ''a'')),
     jstrings := (\<lambda>_ _. Some [''a'', ''b''])\<rparr>"

definition two_lists_server :: "(string list \<times> string list, byte list) server_host" where
  "two_lists_server = \<lparr>srv_json = address_json, srv_exec = two_lists_exec, srv_open = (\<lambda>_. 0),
     srv_prepare = (\<lambda>_ _. 0), srv_step = (\<lambda>_ vs d. (101, fst d, vs ! 2 # snd d)), srv_junk = 0,
     srv_heap = (\<lambda>_ _. 0)\<rparr>"

lemma two_lists_kept: "keeps_lists two_lists_server two_lists_run two_lists"
proof -
  have names: "HASHES_TABLE \<noteq> IPS_TABLE" by (simp add: HASHES_TABLE_def IPS_TABLE_def)
  have a: "fst (two_lists_run log d) = PARSE_OK \<and> two_lists (snd (snd (two_lists_run log d))) = add_ip u (two_lists d)"
    if "shifted log = insert_tokens IPS_TABLE [''IPAddress'', ''DateAdded'', ''Source''] [u, v, w]" for log d u v w
    by (simp add: two_lists_run_def two_lists_def that insert_tokens_def quoted_def Let_def TK_INSERT_def TK_SELECT_def)
  have b: "counted (two_lists_run log d) two_lists (two_lists d) (count (ls_ips (two_lists d)) v)"
    if "shifted log = count_tokens IPS_TABLE ''IPAddress'' v" for log d v
    by (simp add: counted_def two_lists_run_def two_lists_def that count_tokens_def quoted_def Let_def count_mset)
  have c: "counted (two_lists_run log d) two_lists (two_lists d) (count (ls_hashes (two_lists d)) v)"
    if "shifted log = count_tokens HASHES_TABLE ''SHA256'' v" for log d v
    by (simp add: counted_def two_lists_run_def two_lists_def that count_tokens_def quoted_def Let_def names count_mset)
  have d: "srv_prepare two_lists_server insert_hash_query d = SQLITE_OK"
    "case srv_step two_lists_server insert_hash_query [name, path, sha, date, src] d of
       (rc, d') \<Rightarrow> rc = SQLITE_DONE \<and> two_lists d' = add_hash sha (two_lists d)" for name path sha date src d
    by (simp_all add: two_lists_server_def two_lists_def SQLITE_OK_def SQLITE_DONE_def)
  show ?thesis unfolding keeps_lists_def by (intro conjI allI impI a b c d)
qed


end
