(* ===== verification/Startup.thy ===== *)
theory Startup
  imports Server_App
begin

text \<open>
  The start of the two processes: \<open>Source.cpp\<close>, the constructors, \<open>serve\<close> and the accepting
  of connections in \<open>Backend.cpp\<close> and \<open>Server.cpp\<close>.  What the operating system answers is a
  parameter; the accept loops run over the answers of successive calls of \<open>accept\<close> and, when
  these are used up, wait for the next one.
\<close>

subsection \<open>A process\<close>

datatype job =
    Periodic_scan | Client_handler int
  | Updater_script | Backend_handler int

datatype line = Line string | Error_occurred stop

text \<open>The threads a process started, in their order, what it printed and the descriptors its
  destructors closed.\<close>

record process =
  jobs :: "job list"
  console :: "line list"
  closed :: "int list"

text \<open>The results of the calls: \<open>socket\<close> by the number of the call, \<open>setsockopt\<close>,
  \<open>bind\<close> of a descriptor to a port in network order, \<open>listen\<close>, whether the first thread of
  the process can be created, and for each \<open>accept\<close> the descriptor and whether the thread
  for it can be created.\<close>

record os =
  os_socket :: "nat \<Rightarrow> int"
  os_setsockopt :: "int \<Rightarrow> int"
  os_bind :: "int \<Rightarrow> 16 word \<Rightarrow> int"
  os_listen :: "int \<Rightarrow> int"
  os_first :: bool
  os_accepts :: "(int \<times> bool) list"

datatype outcome = Waits | Exits int

definition say :: "line \<Rightarrow> process \<Rightarrow> process" where
  "say l p = p\<lparr>console := console p @ [l]\<rparr>"

text \<open>The constructor of \<open>std::thread\<close> throws a \<open>std::system_error\<close>, a runtime error, when
  there is no thread.\<close>

definition start_thread :: "bool \<Rightarrow> job \<Rightarrow> (process, unit) prog" where
  "start_thread possible j p =
     (if possible then (Inr (), p\<lparr>jobs := jobs p @ [j]\<rparr>)
      else (Inl (RuntimeError ''Resource temporarily unavailable''), p))"

text \<open>\<open>htons\<close> on a little-endian machine.\<close>

definition htons :: "16 word \<Rightarrow> 16 word" where
  "htons w = push_bit 8 w OR drop_bit 8 w"

subsection \<open>The backend\<close>

definition backend_construct :: "os \<Rightarrow> (process, int \<times> int) prog" where
  "backend_construct os p =
     (let backendSocket = os_socket os 0;
          serverSocket = os_socket os 1
      in if backendSocket = - 1 \<or> serverSocket = - 1
         then (Inl (RuntimeError ''Backend::Backend() - socket''), p)
         else if os_setsockopt os backendSocket < 0
         then (Inl (RuntimeError ''Backend::Backend() - setsockopt(SO_REUSEADDR) failed''), p)
         else (Inr (backendSocket, serverSocket), p))"

definition backend_destruct :: "int \<times> int \<Rightarrow> process \<Rightarrow> process" where
  "backend_destruct s p = p\<lparr>closed := closed p @ [fst s, snd s]\<rparr>"

definition acceptClient :: "int \<times> bool \<Rightarrow> (process, unit) prog" where
  "acceptClient a p =
     (case a of (client_socket, possible) \<Rightarrow>
        if client_socket = - 1
        then (Inl (RuntimeError ''Backend::acceptClient() - accept''), p)
        else start_thread possible (Client_handler client_socket)
               (say (Line ''Client accepted'') p))"

text \<open>The loops do not return: \<open>None\<close> while they wait, \<open>Some e\<close> when \<open>e\<close> leaves them.\<close>

fun accept_clients :: "(int \<times> bool) list \<Rightarrow> process \<Rightarrow> stop option \<times> process" where
  "accept_clients [] p = (None, say (Line ''Waiting for client connection request'') p)"
| "accept_clients (a # answers) p =
     (case acceptClient a (say (Line ''Waiting for client connection request'') p) of
        (Inl e, p) \<Rightarrow> if catchable e then accept_clients answers p else (Some e, p)
      | (Inr _, p) \<Rightarrow> accept_clients answers p)"

definition backend_serve :: "os \<Rightarrow> int \<times> int \<Rightarrow> c_int \<Rightarrow> process \<Rightarrow> stop option \<times> process" where
  "backend_serve os s port p =
     (if os_bind os (fst s) (htons (ucast port)) = - 1
      then (Some (RuntimeError ''Backend::serve() - bind''), p)
      else if os_listen os (fst s) = - 1
      then (Some (RuntimeError ''Backend::serve() - listen''), p)
      else accept_clients (os_accepts os) (say (Line (''Listening on port '' @ to_string port)) p))"

definition backend_main ::
  "('db, 'j) host \<Rightarrow> os \<Rightarrow> 'db backend \<Rightarrow> process \<Rightarrow> outcome \<times> process \<times> 'db backend" where
  "backend_main h os b p =
     (case open_database h b of
        None \<Rightarrow> (Exits 1, say (Line ''Failed to open DB'') p, b)
      | Some b \<Rightarrow>
          (case start_thread (os_first os) Periodic_scan p of
             (Inl e, p) \<Rightarrow> (Exits 0, say (Error_occurred e) p, b)
           | (Inr _, p) \<Rightarrow>
               (case backend_construct os p of
                  (Inl e, p) \<Rightarrow> (Exits 0, say (Error_occurred e) p, b)
                | (Inr s, p) \<Rightarrow>
                    (case backend_serve os s 8876 p of
                       (None, p) \<Rightarrow> (Waits, p, b)
                     | (Some e, p) \<Rightarrow>
                         (Exits 0, say (Error_occurred e) (backend_destruct s p), b)))))"

subsection \<open>The server\<close>

definition server_construct :: "os \<Rightarrow> (process, int) prog" where
  "server_construct os p =
     (if os_socket os 0 = - 1 then (Inl (RuntimeError ''Server::Server() - socket''), p)
      else bnd (start_thread (os_first os) Updater_script) (\<lambda>_. ret (os_socket os 0)) p)"

definition server_destruct :: "int \<Rightarrow> process \<Rightarrow> process" where
  "server_destruct s p = p\<lparr>closed := closed p @ [s]\<rparr>"

fun acceptBackend :: "(int \<times> bool) list \<Rightarrow> process \<Rightarrow> stop option \<times> process" where
  "acceptBackend [] p = (None, p)"
| "acceptBackend ((backend_socket, possible) # answers) p =
     (if backend_socket = - 1 then (Some (RuntimeError ''acceptBackend''), p)
      else case start_thread possible (Backend_handler backend_socket)
                  (say (Line ''Client accepted'') p) of
             (Inl e, p) \<Rightarrow> (Some e, p)
           | (Inr _, p) \<Rightarrow> acceptBackend answers p)"

definition server_serve :: "os \<Rightarrow> int \<Rightarrow> c_int \<Rightarrow> process \<Rightarrow> stop option \<times> process" where
  "server_serve os s port p =
     (if os_bind os s (htons (ucast port)) = - 1
      then (Some (RuntimeError ''Server::serve() - bind''), p)
      else if os_listen os s = - 1
      then (Some (RuntimeError ''Server::serve() - listen''), p)
      else acceptBackend (os_accepts os)
             (say (Line ''Waiting for client connection request'')
               (say (Line (''Listening on port '' @ to_string port)) p)))"

definition server_main ::
  "('db, 'j) server_host \<Rightarrow> os \<Rightarrow> 'db \<Rightarrow> process \<Rightarrow> outcome \<times> process \<times> 'db" where
  "server_main h os d p =
     (case server_open_database h d of
        None \<Rightarrow> (Exits 1, say (Line ''Failed to open DB'') p, d)
      | Some d \<Rightarrow>
          (case server_construct os p of
             (Inl e, p) \<Rightarrow> (Exits 0, say (Error_occurred e) p, d)
           | (Inr s, p) \<Rightarrow>
               (case server_serve os s 9000 p of
                  (None, p) \<Rightarrow> (Waits, p, d)
                | (Some e, p) \<Rightarrow>
                    (Exits 0, say (Error_occurred e) (server_destruct s p), d))))"

subsection \<open>The accept loops\<close>

definition usable :: "int \<times> bool \<Rightarrow> bool" where
  "usable a \<longleftrightarrow> fst a \<noteq> - 1 \<and> snd a"

definition threads_of :: "outcome \<times> process \<times> 'a \<Rightarrow> job list" where
  "threads_of r = (case r of (Waits, p, _) \<Rightarrow> jobs p | (Exits _, _, _) \<Rightarrow> [])"

lemma say_fields [simp]:
  "jobs (say l p) = jobs p" "closed (say l p) = closed p" "console (say l p) = console p @ [l]"
  by (simp_all add: say_def)

lemma acceptClient_usable:
  "usable a \<Longrightarrow> acceptClient a p = (Inr (), (say (Line ''Client accepted'') p)\<lparr>jobs := jobs p @ [Client_handler (fst a)]\<rparr>)"
  by (cases a) (simp add: usable_def acceptClient_def start_thread_def say_def)

lemma acceptClient_unusable:
  "\<not> usable a \<Longrightarrow> \<exists>e p'. acceptClient a p = (Inl (RuntimeError e), p') \<and> jobs p' = jobs p \<and> closed p' = closed p"
  by (cases a) (auto simp: usable_def acceptClient_def start_thread_def)

lemma accept_clients_waits:
  "\<exists>p'. accept_clients answers p = (None, p') \<and> closed p' = closed p \<and>
     jobs p' = jobs p @ map (Client_handler \<circ> fst) (filter usable answers)"
proof (induction answers arbitrary: p)
  case Nil
  then show ?case by simp
next
  case (Cons a answers)
  let ?p = "say (Line ''Waiting for client connection request'') p"
  show ?case
  proof (cases "usable a")
    case True
    then show ?thesis
      using Cons [of "(say (Line ''Client accepted'') ?p)\<lparr>jobs := jobs p @ [Client_handler (fst a)]\<rparr>"]
      by (auto simp: acceptClient_usable)
  next
    case False
    with acceptClient_unusable [of a ?p] obtain e p'
      where "acceptClient a ?p = (Inl (RuntimeError e), p')" "jobs p' = jobs p" "closed p' = closed p"
      by auto
    then show ?thesis using Cons [of p'] False by (auto simp: catchable_def)
  qed
qed

lemma acceptBackend_runs:
  "\<exists>r p'. acceptBackend answers p = (r, p') \<and> (r = None \<longleftrightarrow> list_all usable answers) \<and>
     closed p' = closed p \<and>
     jobs p' = jobs p @ map (Backend_handler \<circ> fst) (takeWhile usable answers)"
  by (induction answers p rule: acceptBackend.induct) (auto simp: usable_def start_thread_def)

lemma htons_ports [simp]: "htons 8876 = 0xAC22" "htons 9000 = 0x2823"
  by (simp_all add: htons_def)

subsection \<open>The processes\<close>

text \<open>C35: Once the backend has its database, its first thread, its two sockets and the port
  8876 it never ends, whatever \<open>accept\<close> answers: every connection that was accepted and for
  which a thread could be made gets its handler, in the order of their arrival, next to the
  periodic scan; a failed \<open>accept\<close> is passed over, and a connection without a thread is neither
  served nor closed.\<close>

theorem backend_outlives_failed_accepts:
  assumes "open_database h b = Some b'" "os_first os"
    and "os_socket os 0 \<noteq> - 1" "os_socket os 1 \<noteq> - 1" "0 \<le> os_setsockopt os (os_socket os 0)"
    and "os_bind os (os_socket os 0) 0xAC22 \<noteq> - 1" "os_listen os (os_socket os 0) \<noteq> - 1"
  shows "\<exists>p'. backend_main h os b p = (Waits, p', b') \<and> closed p' = closed p \<and>
    threads_of (backend_main h os b p) =
      jobs p @ Periodic_scan # map (Client_handler \<circ> fst) (filter usable (os_accepts os))"
proof -
  let ?p = "say (Line (''Listening on port '' @ to_string 8876)) (p\<lparr>jobs := jobs p @ [Periodic_scan]\<rparr>)"
  obtain p' where "accept_clients (os_accepts os) ?p = (None, p')" "closed p' = closed p"
      "jobs p' = (jobs p @ [Periodic_scan]) @ map (Client_handler \<circ> fst) (filter usable (os_accepts os))"
    using accept_clients_waits [of "os_accepts os" ?p] by auto
  then show ?thesis
    using assms by (simp add: backend_main_def start_thread_def backend_construct_def
        backend_serve_def threads_of_def)
qed

text \<open>The server, started the same way on port 9000, waits for connections exactly as long
  as every \<open>accept\<close> gives a connection and every connection a thread.  At the first that
  does not it ends, with exit code 0 and its listening socket closed, and the handlers of the
  connections it still serves end with it.\<close>

theorem server_ends_at_failed_accept:
  assumes "server_open_database h d = Some d'" "os_first os" "os_socket os 0 \<noteq> - 1"
    and "os_bind os (os_socket os 0) 0x2823 \<noteq> - 1" "os_listen os (os_socket os 0) \<noteq> - 1"
  shows "\<exists>p'. server_main h os d p =
      (if list_all usable (os_accepts os) then Waits else Exits 0, p', d') \<and>
    jobs p' = jobs p @ Updater_script #
      map (Backend_handler \<circ> fst) (takeWhile usable (os_accepts os)) \<and>
    closed p' = closed p @ (if list_all usable (os_accepts os) then [] else [os_socket os 0]) \<and>
    threads_of (server_main h os d p) = (if list_all usable (os_accepts os) then jobs p' else [])"
proof -
  let ?p = "say (Line ''Waiting for client connection request'')
    (say (Line (''Listening on port '' @ to_string 9000)) (p\<lparr>jobs := jobs p @ [Updater_script]\<rparr>))"
  obtain r p' where "acceptBackend (os_accepts os) ?p = (r, p')" "r = None \<longleftrightarrow> list_all usable (os_accepts os)"
      "closed p' = closed p"
      "jobs p' = (jobs p @ [Updater_script]) @ map (Backend_handler \<circ> fst) (takeWhile usable (os_accepts os))"
    using acceptBackend_runs [of "os_accepts os" ?p] by auto
  then show ?thesis
    using assms by (cases r) (simp_all add: server_main_def start_thread_def server_construct_def
        server_serve_def server_destruct_def threads_of_def)
qed

text \<open>Only a database that cannot be opened makes the exit code of the backend 1.  All its
  other failures to start, a port that is taken among them, are reported as success: exit code
  0.\<close>

theorem backend_exit_codes:
  "fst (backend_main h os b p) =
     (case open_database h b of
        None \<Rightarrow> Exits 1
      | Some _ \<Rightarrow>
          if os_first os \<and> os_socket os 0 \<noteq> - 1 \<and> os_socket os 1 \<noteq> - 1 \<and>
             0 \<le> os_setsockopt os (os_socket os 0) \<and>
             os_bind os (os_socket os 0) 0xAC22 \<noteq> - 1 \<and> os_listen os (os_socket os 0) \<noteq> - 1
          then Waits else Exits 0)"
proof -
  have "accept_clients answers q \<noteq> (Some e, q')" for answers q e q'
    using accept_clients_waits [of answers q] by auto
  then show ?thesis
    by (auto simp: backend_main_def start_thread_def backend_construct_def backend_serve_def
        Let_def split: option.split prod.split)
qed

end
