(* ===== verification/Startup_Example.thy ===== *)
theory Startup_Example
  imports App_Example Startup
begin

text \<open>The theorems about the start of the processes on a machine where one \<open>accept\<close> of three
  fails.\<close>

definition ex_os :: os where
  "ex_os = \<lparr>os_socket = (\<lambda>n. 3 + int n), os_setsockopt = (\<lambda>_. 0),
     os_bind = (\<lambda>s port. if port = 0xAC22 \<or> port = 0x2823 then 0 else - 1), os_listen = (\<lambda>_. 0),
     os_first = True, os_accepts = [(5, True), (- 1, True), (6, True)]\<rparr>"

definition ex_process :: process where
  "ex_process = \<lparr>jobs = [], console = [], closed = []\<rparr>"

lemma backend_outlives_failed_accepts_witness:
  "threads_of (backend_main ex_host ex_os ex_backend ex_process) =
     [Periodic_scan, Client_handler 5, Client_handler 6]"
proof -
  obtain b' where "open_database ex_host ex_backend = Some b'"
    by (auto simp: open_database_def ex_host_def SQLITE_OK_def)
  from backend_outlives_failed_accepts [OF this, of ex_os ex_process] show ?thesis
    by (auto simp: ex_os_def ex_process_def usable_def)
qed

lemma server_ends_at_failed_accept_witness:
  "\<exists>p' d'. server_main ex_server ex_os 0 ex_process = (Exits 0, p', d') \<and>
     jobs p' = [Updater_script, Backend_handler 5] \<and> closed p' = [3] \<and>
     threads_of (server_main ex_server ex_os 0 ex_process) = []"
proof -
  obtain d' where "server_open_database ex_server 0 = Some d'"
    by (auto simp: server_open_database_def ex_server_def SQLITE_OK_def split: prod.splits)
  from server_ends_at_failed_accept [OF this, of ex_os ex_process] show ?thesis
    by (auto simp: ex_os_def ex_process_def usable_def)
qed

end
