(* ===== verification/Execve_Threads.thy ===== *)
theory Execve_Threads
  imports Driver_Machine
begin

text \<open>
  \<open>new_execve\<close> runs on every processor at once, and so does the request \<open>GET_HOOK\<close> of several
  clients.  Here their statements are the steps, those of \<open>add_hook\<close> and \<open>pop_hook\<close> too: the list is
  walked and changed between \<open>mutex_lock\<close> and \<open>mutex_unlock\<close> of \<open>hook_mutex\<close>, the counter
  \<open>hook_id\<close> is read, increased, compared and reset without it.  A schedule says which thread takes the next step.
\<close>

subsection \<open>Statements\<close>

text \<open>Where a thread is: before \<open>kmalloc\<close> in \<open>new_execve\<close> with the identity of the process and
  of its parent, and so on to the call of the saved function, in \<open>add_hook\<close> with the cell that is
  looked at or assigned to; before \<open>mutex_lock\<close> in
  \<open>GET_HOOK\<close>, and so on to the copy; and outside the driver.\<close>

datatype hook_point =
    Exec_Alloc c_int c_int | Exec_Fill c_int c_int u64 | Exec_Id u64 | Exec_Lock u64
  | Exec_Add cell u64 | Exec_Link cell u64 | Exec_Unlock | Exec_Count | Exec_Test | Exec_Reset
  | Get_Lock | Get_Pop | Get_Take u64 | Get_Unlock u64 | Get_Read u64 | Get_Copy "byte list"
  | Finished | Faulted fault

record hook_world =
  hw_mod :: spybot
  hook_mutex :: "nat option"
  hook_point_of :: "nat \<Rightarrow> hook_point"

text \<open>What a step is answered if it asks: the memory \<open>kmalloc\<close> returns, with its contents, the
  unassigned bytes of the stack, and the user memory of the client with the address of its
  buffer.\<close>

record hook_env =
  he_block :: "u64 \<times> syscall_hook"
  he_stack :: "byte list"
  he_user :: uaccess
  he_arg :: u64

datatype hook_event = Added hook_rec | Taken hook_rec

definition step_to :: "nat \<Rightarrow> hook_point \<Rightarrow> spybot \<Rightarrow> nat option \<Rightarrow> hook_world \<Rightarrow> hook_world" where
  "step_to t pt s l w = \<lparr>hw_mod = s, hook_mutex = l, hook_point_of = (hook_point_of w)(t := pt)\<rparr>"

text \<open>A faulting statement stops its thread; a lock it holds stays taken.\<close>

definition step_or_fault ::
  "nat \<Rightarrow> hook_point \<Rightarrow> fault + spybot \<Rightarrow> hook_world \<Rightarrow> hook_world" where
  "step_or_fault t pt r w =
     (case r of
        Inl e \<Rightarrow> step_to t (Faulted e) (hw_mod w) (hook_mutex w) w
      | Inr s \<Rightarrow> step_to t pt s (hook_mutex w) w)"

definition exec_alloc :: "hook_env \<Rightarrow> nat \<Rightarrow> c_int \<Rightarrow> c_int \<Rightarrow> hook_world \<Rightarrow> hook_world" where
  "exec_alloc e t pid parent_pid w =
     (case he_block e of (p, blk) \<Rightarrow>
        step_to t (Exec_Fill pid parent_pid p)
          (if p = 0 then hw_mod w else (hw_mod w)\<lparr>hooks := (hooks (hw_mod w))(p \<mapsto> blk)\<rparr>)
          (hook_mutex w) w)"

text \<open>One call of \<open>add_hook\<close>: its two tests, and the recursive call or the assignment it chooses.\<close>

definition exec_add :: "nat \<Rightarrow> cell \<Rightarrow> u64 \<Rightarrow> hook_world \<Rightarrow> hook_world" where
  "exec_add t head obj w =
     (let s = hw_mod w; goto = (\<lambda>pt. step_to t pt s (hook_mutex w) w)
      in case rd_cell head s of
           Inl e \<Rightarrow> goto (Faulted e)
         | Inr p \<Rightarrow>
             if p \<noteq> 0
             then (case rd_hook p s of
                     Inl e \<Rightarrow> goto (Faulted e)
                   | Inr h \<Rightarrow> if sh_next h \<noteq> 0 then goto (Exec_Add (NextCell p) obj)
                             else goto (Exec_Link (NextCell p) obj))
             else goto (Exec_Link head obj))"

definition exec_link :: "nat \<Rightarrow> cell \<Rightarrow> u64 \<Rightarrow> hook_world \<Rightarrow> hook_event list \<times> hook_world" where
  "exec_link t c obj w =
     (let r = wr_cell c obj (hw_mod w)
      in (case r of Inl _ \<Rightarrow> [] | Inr _ \<Rightarrow> [Added (rec_of (the (hooks (hw_mod w) obj)))],
          step_or_fault t Exec_Unlock r w))"

text \<open>\<open>pop_hook\<close>: the test of the head, and its assignment.\<close>

definition get_pop :: "nat \<Rightarrow> hook_world \<Rightarrow> hook_world" where
  "get_pop t w =
     (case rd_cell HeadCell (hw_mod w) of
        Inl e \<Rightarrow> step_to t (Faulted e) (hw_mod w) (hook_mutex w) w
      | Inr p \<Rightarrow> step_to t (if p \<noteq> 0 then Get_Take p else Get_Unlock 0) (hw_mod w) (hook_mutex w) w)"

definition get_take :: "nat \<Rightarrow> u64 \<Rightarrow> hook_world \<Rightarrow> hook_event list \<times> hook_world" where
  "get_take t p w =
     (case res_bind (rd_hook p (hw_mod w)) (\<lambda>h. wr_cell HeadCell (sh_next h) (hw_mod w)) of
        Inl e \<Rightarrow> ([], step_to t (Faulted e) (hw_mod w) (hook_mutex w) w)
      | Inr s \<Rightarrow> ([Taken (rec_of (the (hooks s p)))], step_to t (Get_Unlock p) s (hook_mutex w) w))"

definition get_read :: "hook_env \<Rightarrow> nat \<Rightarrow> u64 \<Rightarrow> hook_world \<Rightarrow> hook_world" where
  "get_read e t tmp w =
     (case rd_hook tmp (hw_mod w) of
        Inl f \<Rightarrow> step_to t (Faulted f) (hw_mod w) (hook_mutex w) w
      | Inr h \<Rightarrow> step_to t (Get_Copy (hook_data_bytes h (he_stack e))) (kfree tmp (hw_mod w)) (hook_mutex w) w)"

definition take_mutex :: "nat \<Rightarrow> hook_point \<Rightarrow> hook_world \<Rightarrow> (hook_event list \<times> hook_world) option" where
  "take_mutex t pt w =
     (if hook_mutex w = None then Some ([], step_to t pt (hw_mod w) (Some t) w) else None)"

definition hook_statement ::
  "hook_env \<Rightarrow> nat \<Rightarrow> hook_world \<Rightarrow> (hook_event list \<times> hook_world) option" where
  "hook_statement e t w =
     (let s = hw_mod w; l = hook_mutex w
      in case hook_point_of w t of
        Exec_Alloc pid parent_pid \<Rightarrow> Some ([], exec_alloc e t pid parent_pid w)
      | Exec_Fill pid parent_pid p \<Rightarrow>
          Some ([], step_or_fault t (Exec_Id p)
            (wr_hook p (\<lambda>h. h\<lparr>sh_pid := pid, sh_parent_pid := parent_pid\<rparr>) s) w)
      | Exec_Id p \<Rightarrow>
          Some ([], step_or_fault t (Exec_Lock p) (wr_hook p (\<lambda>h. h\<lparr>sh_hook_id := hook_id s\<rparr>) s) w)
      | Exec_Lock p \<Rightarrow> take_mutex t (Exec_Add HeadCell p) w
      | Exec_Add c p \<Rightarrow> Some ([], exec_add t c p w)
      | Exec_Link c p \<Rightarrow> Some (exec_link t c p w)
      | Exec_Unlock \<Rightarrow> Some ([], step_to t Exec_Count s None w)
      | Exec_Count \<Rightarrow> Some ([], step_to t Exec_Test (s\<lparr>hook_id := hook_id s + 1\<rparr>) l w)
      | Exec_Test \<Rightarrow>
          Some ([], step_to t (if MAX_HOOK_ID < hook_id s then Exec_Reset else Finished) s l w)
      | Exec_Reset \<Rightarrow> Some ([], step_to t Finished (s\<lparr>hook_id := MIN_HOOK_ID\<rparr>) l w)
      | Get_Lock \<Rightarrow> take_mutex t Get_Pop w
      | Get_Pop \<Rightarrow> Some ([], get_pop t w)
      | Get_Take p \<Rightarrow> Some (get_take t p w)
      | Get_Unlock tmp \<Rightarrow> Some ([], step_to t (Get_Read tmp) s None w)
      | Get_Read tmp \<Rightarrow> Some ([], get_read e t tmp w)
      | Get_Copy bs \<Rightarrow>
          Some ([], step_to t Finished (snd (copy_to_user (he_user e) (he_arg e) bs s)) l w)
      | Finished \<Rightarrow> None
      | Faulted f \<Rightarrow> None)"

fun hook_run ::
  "(nat \<times> hook_env) list \<Rightarrow> hook_world \<Rightarrow> (hook_event list \<times> hook_world) option" where
  "hook_run [] w = Some ([], w)"
| "hook_run ((t, e) # sch) w =
     (case hook_statement e t w of
        None \<Rightarrow> None
      | Some (ev, w) \<Rightarrow> map_option (\<lambda>(evs, w). (ev @ evs, w)) (hook_run sch w))"

text \<open>\<open>kmalloc\<close> fails or returns memory that is not in use, with a null pointer in the field
  \<open>next\<close>; the calls that do not ask are not restricted.\<close>

definition allocates :: "hook_env \<Rightarrow> hook_world \<Rightarrow> bool" where
  "allocates e w \<longleftrightarrow>
     (case he_block e of (p, blk) \<Rightarrow> p = 0 \<or> fresh_block p blk (hw_mod w))"

text \<open>The runs: the threads of the steps, what happened to the list, and the last state.\<close>

inductive hook_runs ::
  "hook_world \<Rightarrow> nat list \<Rightarrow> hook_event list \<Rightarrow> hook_world \<Rightarrow> bool" for w where
  runs_start: "hook_runs w [] [] w"
| runs_step: "hook_runs w ts evs w1 \<Longrightarrow> allocates e w1 \<Longrightarrow> hook_statement e t w1 = Some (ev, w2) \<Longrightarrow>
    hook_runs w (ts @ [t]) (evs @ ev) w2"

subsection \<open>The invariant\<close>

text \<open>The object a thread has for itself, and whether it is one that will be linked.\<close>

definition owns :: "hook_point \<Rightarrow> u64 option" where
  "owns pt =
     (case pt of
        Exec_Fill _ _ p \<Rightarrow> if p = 0 then None else Some p
      | Exec_Id p \<Rightarrow> Some p | Exec_Lock p \<Rightarrow> Some p | Exec_Add _ p \<Rightarrow> Some p
      | Exec_Link _ p \<Rightarrow> Some p | Get_Unlock p \<Rightarrow> if p = 0 then None else Some p
      | Get_Read p \<Rightarrow> if p = 0 then None else Some p
      | _ \<Rightarrow> None)"

definition links :: "hook_point \<Rightarrow> bool" where
  "links pt \<longleftrightarrow>
     (case pt of Exec_Fill _ _ _ \<Rightarrow> True | Exec_Id _ \<Rightarrow> True | Exec_Lock _ \<Rightarrow> True
      | Exec_Add _ _ \<Rightarrow> True | Exec_Link _ _ \<Rightarrow> True | _ \<Rightarrow> False)"

definition in_critical :: "hook_point \<Rightarrow> bool" where
  "in_critical pt \<longleftrightarrow>
     (case pt of Exec_Add _ _ \<Rightarrow> True | Exec_Link _ _ \<Rightarrow> True | Exec_Unlock \<Rightarrow> True | Get_Pop \<Rightarrow> True
      | Get_Take _ \<Rightarrow> True | Get_Unlock _ \<Rightarrow> True | _ \<Rightarrow> False)"

definition owned_ok :: "spybot \<Rightarrow> u64 list \<Rightarrow> hook_point \<Rightarrow> bool" where
  "owned_ok s ps pt \<longleftrightarrow>
     (case owns pt of
        None \<Rightarrow> True
      | Some p \<Rightarrow> p \<noteq> 0 \<and> p \<notin> set ps \<and>
          (\<exists>h. hooks s p = Some h \<and> (links pt \<longrightarrow> sh_next h = 0)))"

text \<open>What a thread with the lock knows of the list \<open>ps\<close>: the cell it looks at is one of the list, the
  one it will assign to is the last, the object it will take is the first.\<close>

definition on_list :: "u64 list \<Rightarrow> cell \<Rightarrow> bool" where
  "on_list ps c \<longleftrightarrow> (case c of HeadCell \<Rightarrow> True | NextCell q \<Rightarrow> q \<in> set ps)"

definition knows :: "spybot \<Rightarrow> u64 list \<Rightarrow> hook_point \<Rightarrow> bool" where
  "knows s ps pt \<longleftrightarrow>
     (case pt of Exec_Add c _ \<Rightarrow> on_list ps c
      | Exec_Link c _ \<Rightarrow> on_list ps c \<and> rd_cell c s = Inr 0
      | Get_Take p \<Rightarrow> p \<noteq> 0 \<and> hooks_list s = p | _ \<Rightarrow> True)"

definition same_list :: "spybot \<Rightarrow> spybot \<Rightarrow> u64 list \<Rightarrow> bool" where
  "same_list s s' ps \<longleftrightarrow> hooks_list s' = hooks_list s \<and> (\<forall>p \<in> set ps. hooks s' p = hooks s p)"

lemmas hook_points = owns_def links_def in_critical_def knows_def

lemma knows_outside: "\<not> in_critical pt \<Longrightarrow> knows s ps pt"
  by (cases pt) (simp_all add: hook_points)

lemma knows_same: "same_list s s' ps \<Longrightarrow> knows s ps pt \<Longrightarrow> knows s' ps pt"
  by (auto simp: knows_def same_list_def on_list_def rd_cell_def rd_hook_def split: hook_point.splits cell.splits)

definition hooks_inv :: "hook_world \<Rightarrow> u64 list \<Rightarrow> bool" where
  "hooks_inv w ps \<longleftrightarrow>
     holds (hw_mod w) ps \<and> (\<forall>t. owned_ok (hw_mod w) ps (hook_point_of w t)) \<and>
     (\<forall>t u. t \<noteq> u \<longrightarrow> owns (hook_point_of w t) \<noteq> None \<longrightarrow>
        owns (hook_point_of w t) \<noteq> owns (hook_point_of w u)) \<and>
     (\<forall>t. knows (hw_mod w) ps (hook_point_of w t)) \<and>
     (\<forall>t. in_critical (hook_point_of w t) \<longleftrightarrow> hook_mutex w = Some t)"

text \<open>A step of thread \<open>t\<close> keeps the invariant when it leaves the objects of the others alone.\<close>

lemma inv_step_to:
  assumes "hooks_inv w ps" "holds s' ps'" "owned_ok s' ps' pt"
    and "\<And>p. p \<noteq> 0 \<Longrightarrow> p \<notin> set ps \<Longrightarrow> hooks (hw_mod w) p \<noteq> None \<Longrightarrow> owns (hook_point_of w t) \<noteq> Some p \<Longrightarrow>
      p \<notin> set ps' \<and> hooks s' p = hooks (hw_mod w) p"
    and "owns pt = None \<or> owns pt = owns (hook_point_of w t) \<or>
      (\<forall>u. owns (hook_point_of w u) \<noteq> owns pt)"
    and "in_critical pt \<longleftrightarrow> l = Some t"
    and "\<And>u. u \<noteq> t \<Longrightarrow> hook_mutex w = Some u \<longleftrightarrow> l = Some u"
    and "knows s' ps' pt" "hook_mutex w = Some t \<or> ps' = ps \<and> same_list (hw_mod w) s' ps"
  shows "hooks_inv (step_to t pt s' l w) ps'"
proof -
  let ?pts = "hook_point_of w"
  have know: "knows s' ps' (?pts u)" if "u \<noteq> t" for u
  proof (cases "hook_mutex w = Some t")
    case True
    with assms(1) that have "\<not> in_critical (?pts u)" by (simp add: hooks_inv_def)
    then show ?thesis by (rule knows_outside)
  next
    case False
    with assms(9) have "ps' = ps" "same_list (hw_mod w) s' ps" by simp_all
    moreover have "knows (hw_mod w) ps (?pts u)" using assms(1) by (simp add: hooks_inv_def)
    ultimately show ?thesis using knows_same by blast
  qed
  have owned: "owned_ok s' ps' (?pts u)" if "u \<noteq> t" for u
  proof (cases "owns (?pts u)")
    case (Some p)
    from assms(1) have "owned_ok (hw_mod w) ps (?pts u)" by (simp add: hooks_inv_def)
    with Some obtain h where "p \<noteq> 0" "p \<notin> set ps" "hooks (hw_mod w) p = Some h"
      "links (?pts u) \<longrightarrow> sh_next h = 0"
      by (auto simp: owned_ok_def)
    moreover have "owns (?pts t) \<noteq> Some p"
      using assms(1) \<open>u \<noteq> t\<close> Some unfolding hooks_inv_def by (metis option.distinct(1))
    ultimately show ?thesis
      using assms(4) [of p] Some by (simp add: owned_ok_def)
  qed (simp add: owned_ok_def)
  have sep: "owns (?pts u) \<noteq> owns pt" if "u \<noteq> t" "owns pt \<noteq> None" for u
  proof -
    from assms(5) that(2) consider "owns pt = owns (?pts t)" | "owns (?pts u) \<noteq> owns pt" by auto
    then show ?thesis
    proof cases
      case 1
      with assms(1) that show ?thesis unfolding hooks_inv_def by metis
    qed
  qed
  have "owns ((?pts(t := pt)) a) \<noteq> owns ((?pts(t := pt)) b)"
    if ab: "a \<noteq> b" and some: "owns ((?pts(t := pt)) a) \<noteq> None" for a b
  proof -
    consider "a = t" "b \<noteq> t" | "a \<noteq> t" "b = t" | "a \<noteq> t" "b \<noteq> t" using ab by blast
    then show ?thesis
    proof cases
      case 1
      with some sep [of b] show ?thesis by auto
    next
      case 2
      show ?thesis
      proof (cases "owns pt")
        case None
        with 2 some show ?thesis by simp
      next
        case (Some p)
        with 2 sep [of a] show ?thesis by simp
      qed
    next
      case 3
      with assms(1) ab some show ?thesis unfolding hooks_inv_def by simp
    qed
  qed
  then have "\<forall>a b. a \<noteq> b \<longrightarrow> owns ((?pts(t := pt)) a) \<noteq> None \<longrightarrow>
      owns ((?pts(t := pt)) a) \<noteq> owns ((?pts(t := pt)) b)" by blast
  moreover have "\<forall>u. in_critical ((?pts(t := pt)) u) \<longleftrightarrow> l = Some u"
    using assms(1,6,7) by (simp add: hooks_inv_def)
  moreover have "\<forall>u. owned_ok s' ps' ((?pts(t := pt)) u)" using assms(3) owned by simp
  moreover have "\<forall>u. knows s' ps' ((?pts(t := pt)) u)" using assms(8) know by simp
  ultimately show ?thesis
    using assms(2) unfolding hooks_inv_def step_to_def hook_world.simps by blast
qed

primrec added :: "hook_event list \<Rightarrow> hook_rec list" where
  "added [] = []"
| "added (e # es) = (case e of Added r \<Rightarrow> r # added es | Taken r \<Rightarrow> added es)"

primrec taken :: "hook_event list \<Rightarrow> hook_rec list" where
  "taken [] = []"
| "taken (e # es) = (case e of Added r \<Rightarrow> taken es | Taken r \<Rightarrow> r # taken es)"

lemma added_append [simp]: "added (xs @ ys) = added xs @ added ys"
  by (induction xs) (auto split: hook_event.split)

lemma taken_append [simp]: "taken (xs @ ys) = taken xs @ taken ys"
  by (induction xs) (auto split: hook_event.split)

lemma hooks_invD:
  assumes "hooks_inv w ps"
  shows "holds (hw_mod w) ps" "owned_ok (hw_mod w) ps (hook_point_of w t)"
    "in_critical (hook_point_of w t) \<longleftrightarrow> hook_mutex w = Some t" "knows (hw_mod w) ps (hook_point_of w t)"
  using assms by (simp_all add: hooks_inv_def)


text \<open>Steps that touch neither the list nor any object.\<close>

lemma inv_step_plain:
  assumes "hooks_inv w ps" "hooks s = hooks (hw_mod w)" "hooks_list s = hooks_list (hw_mod w)"
    and "owns pt = None \<or> owns pt = owns (hook_point_of w t) \<and> (links pt \<longrightarrow> links (hook_point_of w t))"
    and "in_critical pt \<longleftrightarrow> l = Some t" "\<And>u. u \<noteq> t \<Longrightarrow> hook_mutex w = Some u \<longleftrightarrow> l = Some u"
    and "knows s ps pt"
  shows "hooks_inv (step_to t pt s l w) ps"
proof (rule inv_step_to [OF assms(1)])
  show "holds s ps" using hooks_invD(1) [OF assms(1)] assms(2,3) by (simp add: holds_def)
  show "owned_ok s ps pt"
    using hooks_invD(2) [OF assms(1), of t] assms(2,4)
    by (auto simp: owned_ok_def split: option.splits)
qed (use assms in \<open>auto simp: same_list_def\<close>)

text \<open>Steps that write or free the object of the thread.\<close>

lemma inv_step_own:
  assumes "hooks_inv w ps" "owns (hook_point_of w t) = Some p"
    and "s = (hw_mod w)\<lparr>hooks := (hooks (hw_mod w))(p := v)\<rparr>"
    and "owns pt = None \<or> owns pt = Some p \<and> v \<noteq> None \<and> (links pt \<longrightarrow> sh_next (the v) = 0)"
    and "\<not> in_critical pt" "\<not> in_critical (hook_point_of w t)"
  shows "hooks_inv (step_to t pt s (hook_mutex w) w) ps" "recs s ps = recs (hw_mod w) ps"
proof -
  from hooks_invD(2) [OF assms(1), of t] assms(2) have p: "p \<noteq> 0" "p \<notin> set ps"
    by (simp_all add: owned_ok_def)
  show "hooks_inv (step_to t pt s (hook_mutex w) w) ps"
  proof (rule inv_step_to [OF assms(1)])
    show "holds s ps" using hooks_invD(1) [OF assms(1)] p(2) assms(3) by (simp add: holds_def)
    show "owned_ok s ps pt" using assms(3,4) p by (auto simp: owned_ok_def)
  qed (use assms p(2) hooks_invD(3) [OF assms(1), of t] in \<open>auto simp: same_list_def intro!: knows_outside\<close>)
  show "recs s ps = recs (hw_mod w) ps" using p(2) assms(3) by (auto simp: recs_def)
qed

lemma inv_alloc:
  assumes "hooks_inv w ps" "allocates e w" "hook_point_of w t = Exec_Alloc pid ppid"
  shows "hooks_inv (exec_alloc e t pid ppid w) ps" "recs (hw_mod (exec_alloc e t pid ppid w)) ps = recs (hw_mod w) ps"
proof -
  obtain p blk where b: "he_block e = (p, blk)" by fastforce
  have "hooks_inv (exec_alloc e t pid ppid w) ps \<and> recs (hw_mod (exec_alloc e t pid ppid w)) ps = recs (hw_mod w) ps"
  proof (cases "p = 0")
    case True
    have "hooks_inv (step_to t (Exec_Fill pid ppid p) (hw_mod w) (hook_mutex w) w) ps"
      by (rule inv_step_plain [OF assms(1)])
        (use hooks_invD(3) [OF assms(1), of t] assms(3) True in \<open>simp_all add: hook_points\<close>)
    then show ?thesis using True b by (simp add: exec_alloc_def) (simp add: step_to_def)
  next
    case False
    with assms(2) b have f: "hooks (hw_mod w) p = None" "sh_next blk = 0"
      by (simp_all add: allocates_def fresh_block_def)
    have p: "p \<notin> set ps" using holds_not_allocated [OF hooks_invD(1) [OF assms(1)] f(1)] .
    let ?s = "(hw_mod w)\<lparr>hooks := (hooks (hw_mod w))(p \<mapsto> blk)\<rparr>"
    have "hooks_inv (step_to t (Exec_Fill pid ppid p) ?s (hook_mutex w) w) ps"
    proof (rule inv_step_to [OF assms(1)])
      show "holds ?s ps" using hooks_invD(1) [OF assms(1)] p by (simp add: holds_def)
      show "owned_ok ?s ps (Exec_Fill pid ppid p)" using False p f by (simp add: owned_ok_def hook_points)
      have "owns (hook_point_of w u) \<noteq> Some p" for u
        using hooks_invD(2) [OF assms(1), of u] f(1) by (auto simp: owned_ok_def)
      then show "owns (Exec_Fill pid ppid p) = None \<or> owns (Exec_Fill pid ppid p) = owns (hook_point_of w t) \<or>
          (\<forall>u. owns (hook_point_of w u) \<noteq> owns (Exec_Fill pid ppid p))"
        using False by (simp add: hook_points)
      show "q \<notin> set ps \<and> hooks ?s q = hooks (hw_mod w) q"
        if "q \<notin> set ps" "hooks (hw_mod w) q \<noteq> None" for q using that f(1) by auto
    qed (use hooks_invD(3) [OF assms(1), of t] assms(3) p in \<open>auto simp: hook_points same_list_def\<close>)
    moreover have "recs ?s ps = recs (hw_mod w) ps" using p by (auto simp: recs_def)
    ultimately show ?thesis using False b by (simp add: exec_alloc_def) (simp add: step_to_def)
  qed
  then show "hooks_inv (exec_alloc e t pid ppid w) ps"
    "recs (hw_mod (exec_alloc e t pid ppid w)) ps = recs (hw_mod w) ps" by simp_all
qed

text \<open>The objects behind a cell of the list.\<close>

definition behind :: "u64 list \<Rightarrow> cell \<Rightarrow> u64 list" where
  "behind ps c = (case c of HeadCell \<Rightarrow> ps | NextCell q \<Rightarrow> tl (dropWhile (\<lambda>p. p \<noteq> q) ps))"

lemma behind_split: "q \<notin> set as \<Longrightarrow> behind (as @ q # bs) (NextCell q) = bs"
  by (induction as) (auto simp: behind_def)

lemma hlist_middle:
  "hlist h p (as @ q # bs) \<Longrightarrow> q \<noteq> 0 \<and> (\<exists>n. h q = Some n \<and> hlist h (sh_next n) bs)"
  by (induction as arbitrary: p) (auto split: option.splits)

lemma on_list_behind:
  assumes "holds s ps" "on_list ps c"
  shows "\<exists>p. rd_cell c s = Inr p \<and> hlist (hooks s) p (behind ps c)"
proof (cases c)
  case HeadCell
  with assms(1) show ?thesis by (simp add: rd_cell_def holds_def behind_def)
next
  case (NextCell q)
  with assms(2) obtain as bs where ps: "ps = as @ q # bs" "q \<notin> set as"
    by (auto simp: on_list_def dest: split_list_first)
  with assms(1) obtain n where "hooks s q = Some n" "hlist (hooks s) (sh_next n) bs" "q \<noteq> 0"
    using hlist_middle by (force simp: holds_def)
  with NextCell ps show ?thesis by (simp add: behind_split rd_cell_def rd_hook_def)
qed

lemma behind_next:
  assumes "distinct ps" "on_list ps c" "behind ps c = p # r"
  shows "on_list ps (NextCell p)" "behind ps (NextCell p) = r"
proof -
  obtain as where "ps = as @ p # r"
  proof (cases c)
    case HeadCell
    with assms(3) show thesis by (intro that [of "[]"]) (simp add: behind_def)
  next
    case (NextCell q)
    with assms(2) obtain as bs where "ps = as @ q # bs" "q \<notin> set as"
      by (auto simp: on_list_def dest: split_list_first)
    with assms(3) NextCell show thesis by (intro that [of "as @ [q]"]) (simp add: behind_split)
  qed
  with assms(1) show "on_list ps (NextCell p)" "behind ps (NextCell p) = r"
    by (simp_all add: on_list_def behind_split)
qed

text \<open>What one call of \<open>add_hook\<close> chooses: the next cell, or the last one.\<close>

lemma exec_add_cases:
  assumes "holds (hw_mod w) ps" "on_list ps c"
  obtains (walk) p q r where "behind ps c = p # q # r" "on_list ps (NextCell p)"
      "behind ps (NextCell p) = q # r"
      "exec_add t c obj w = step_to t (Exec_Add (NextCell p) obj) (hw_mod w) (hook_mutex w) w"
  | (stop) c' where "on_list ps c'" "rd_cell c' (hw_mod w) = Inr 0"
      "exec_add t c obj w = step_to t (Exec_Link c' obj) (hw_mod w) (hook_mutex w) w"
proof -
  obtain p where p: "rd_cell c (hw_mod w) = Inr p" "hlist (hooks (hw_mod w)) p (behind ps c)"
    using on_list_behind [OF assms] by blast
  have d: "distinct ps" using assms(1) by (simp add: holds_def)
  show thesis
  proof (cases "behind ps c")
    case Nil
    with p show thesis by (intro stop [OF assms(2)]) (simp_all add: exec_add_def Let_def)
  next
    case (Cons a r)
    with p(2) obtain h where h: "p = a" "a \<noteq> 0" "hooks (hw_mod w) a = Some h"
      "hlist (hooks (hw_mod w)) (sh_next h) r" by (auto split: option.splits)
    note next_cell = behind_next [OF d assms(2) Cons]
    show thesis
    proof (cases r)
      case Nil
      with h p(1) show thesis
        by (intro stop [OF next_cell(1)]) (simp_all add: exec_add_def rd_cell_def rd_hook_def Let_def)
    next
      case (Cons q r')
      with h p(1) \<open>behind ps c = a # r\<close> next_cell show thesis
        by (intro walk) (auto simp: exec_add_def rd_hook_def Let_def)
    qed
  qed
qed

text \<open>The assignment at the end of the walk is the whole of \<open>add_hook\<close>.\<close>

lemma add_hook_at_last:
  assumes "holds s ps" "on_list ps c" "rd_cell c s = Inr 0"
  shows "add_hook HeadCell obj s = Some (wr_cell c obj s)"
proof (cases c)
  case HeadCell
  with assms(3) show ?thesis by (subst add_hook.simps) simp
next
  case (NextCell q)
  with assms(2) obtain as bs where ps: "ps = as @ q # bs" "q \<notin> set as"
    by (auto simp: on_list_def dest: split_list_first)
  from on_list_behind [OF assms(1,2)] assms(3) NextCell ps have "bs = []"
    by (simp add: behind_split)
  with assms(1) ps have "hlist (hooks s) (hooks_list s) (as @ [q])" by (simp add: holds_def)
  from add_hook_last [OF this, of HeadCell obj] NextCell show ?thesis
    by (simp add: rd_cell_def wr_cell_def)
qed

lemma inv_walk:
  assumes "hooks_inv w ps" "hook_point_of w t = Exec_Add c p"
  shows "hooks_inv (exec_add t c p w) ps"
proof -
  from hooks_invD(4) [OF assms(1), of t] assms(2) have "on_list ps c" by (simp add: knows_def)
  with hooks_invD(1) [OF assms(1)] show ?thesis
  proof (cases rule: exec_add_cases [where t = t and obj = p])
    case (walk a b r)
    show ?thesis unfolding walk(4)
      by (rule inv_step_plain [OF assms(1)])
        (use assms(2) hooks_invD(3) [OF assms(1), of t] walk(2) in \<open>simp_all add: hook_points knows_def\<close>)
  next
    case (stop c')
    show ?thesis unfolding stop(3)
      by (rule inv_step_plain [OF assms(1)])
        (use assms(2) hooks_invD(3) [OF assms(1), of t] stop(1,2) in \<open>simp_all add: hook_points knows_def\<close>)
  qed
qed

lemma exec_add_same [simp]: "hw_mod (exec_add t c p w) = hw_mod w"
  by (simp add: exec_add_def step_to_def Let_def split: sum.split)

lemma inv_link:
  assumes "hooks_inv w ps" "hook_point_of w t = Exec_Link c p"
  shows "\<exists>r w'. exec_link t c p w = ([Added r], w') \<and> hooks_inv w' (ps @ [p]) \<and>
    recs (hw_mod w') (ps @ [p]) = recs (hw_mod w) ps @ [r]"
proof -
  from hooks_invD(2) [OF assms(1), of t] assms(2) obtain m where
    p: "p \<noteq> 0" "p \<notin> set ps" "hooks (hw_mod w) p = Some m" "sh_next m = 0"
    by (auto simp: owned_ok_def hook_points)
  from hooks_invD(3,4) [OF assms(1), of t] assms(2) have
    c: "on_list ps c" "rd_cell c (hw_mod w) = Inr 0" "hook_mutex w = Some t"
    by (simp_all add: knows_def hook_points)
  from add_hook_holds [OF hooks_invD(1) [OF assms(1)] p] obtain s' where
    s': "add_hook HeadCell p (hw_mod w) = Some (Inr s')" "holds s' (ps @ [p])"
      "recs s' (ps @ [p]) = recs (hw_mod w) ps @ [rec_of m]"
      "\<And>q. q \<notin> set ps \<Longrightarrow> hooks s' q = hooks (hw_mod w) q" by blast
  with add_hook_at_last [OF hooks_invD(1) [OF assms(1)] c(1,2)] have
    wr: "wr_cell c p (hw_mod w) = Inr s'" by simp
  have "hooks_inv (step_to t Exec_Unlock s' (hook_mutex w) w) (ps @ [p])"
    by (rule inv_step_to [OF assms(1) s'(2)])
       (use s'(4) assms(2) c(3) in \<open>auto simp: owned_ok_def hook_points knows_def\<close>)
  then show ?thesis
    using wr s'(3) p(3) by (simp add: exec_link_def step_or_fault_def) (simp add: step_to_def)
qed

lemma inv_pop:
  assumes "hooks_inv w ps" "hook_point_of w t = Get_Pop"
  shows "hooks_inv (get_pop t w) ps"
proof -
  have "hooks_inv (step_to t (if hooks_list (hw_mod w) \<noteq> 0 then Get_Take (hooks_list (hw_mod w))
      else Get_Unlock 0) (hw_mod w) (hook_mutex w) w) ps"
    by (rule inv_step_plain [OF assms(1)])
      (use assms(2) hooks_invD(3) [OF assms(1), of t] in \<open>auto simp: hook_points knows_def\<close>)
  then show ?thesis by (simp add: get_pop_def rd_cell_def)
qed

lemma get_pop_same [simp]: "hw_mod (get_pop t w) = hw_mod w"
  by (simp add: get_pop_def step_to_def split: sum.split)

lemma inv_take:
  assumes "hooks_inv w ps" "hook_point_of w t = Get_Take p"
  shows "\<exists>r ps' w'. get_take t p w = ([Taken r], w') \<and> hooks_inv w' ps' \<and>
    recs (hw_mod w) ps = r # recs (hw_mod w') ps'"
proof -
  from hooks_invD(3,4) [OF assms(1), of t] assms(2) have
    know: "p \<noteq> 0" "hooks_list (hw_mod w) = p" "hook_mutex w = Some t"
    by (simp_all add: knows_def hook_points)
  with hooks_invD(1) [OF assms(1)] obtain qs where ps: "ps = p # qs"
    by (cases ps) (auto simp: holds_def)
  from hooks_invD(1) [OF assms(1)] ps obtain n s' where
    s': "hooks (hw_mod w) p = Some n" "p \<noteq> 0" "pop_hook HeadCell (hw_mod w) = Inr (p, s')"
      "s' = (hw_mod w)\<lparr>hooks_list := sh_next n\<rparr>" "holds s' qs" "p \<notin> set qs"
    by (auto elim: pop_hook_holds)
  have w': "get_take t p w = ([Taken (rec_of n)], step_to t (Get_Unlock p) s' (hook_mutex w) w)"
    using s'(1,2,4) by (simp add: get_take_def rd_hook_def wr_cell_def)
  have other: "owns (hook_point_of w u) \<noteq> Some p" for u
    using hooks_invD(2) [OF assms(1), of u] ps by (auto simp: owned_ok_def)
  have "hooks_inv (step_to t (Get_Unlock p) s' (hook_mutex w) w) qs"
  proof (rule inv_step_to [OF assms(1) s'(5)])
    show "owned_ok s' qs (Get_Unlock p)" using s' by (simp add: owned_ok_def hook_points)
  qed (use s' ps other assms(2) know(3) in \<open>auto simp: hook_points knows_def\<close>)
  moreover have "recs (hw_mod w) ps = rec_of n # recs s' qs" using ps s' by (simp add: recs_def)
  ultimately show ?thesis unfolding w'
    by (intro exI [of _ "rec_of n"] exI [of _ qs]) (simp add: step_to_def)
qed

lemma inv_write:
  assumes "hooks_inv w ps" "owns (hook_point_of w t) = Some p" "links (hook_point_of w t)"
    and "\<And>h. sh_next (f h) = sh_next h" "owns pt = Some p" "\<not> in_critical pt" "\<not> in_critical (hook_point_of w t)"
  shows "hooks_inv (step_or_fault t pt (wr_hook p f (hw_mod w)) w) ps"
    "recs (hw_mod (step_or_fault t pt (wr_hook p f (hw_mod w)) w)) ps = recs (hw_mod w) ps"
proof -
  from hooks_invD(2) [OF assms(1), of t] assms(2,3) obtain h where
    h: "p \<noteq> 0" "hooks (hw_mod w) p = Some h" "sh_next h = 0" by (auto simp: owned_ok_def)
  let ?s = "(hw_mod w)\<lparr>hooks := (hooks (hw_mod w))(p \<mapsto> f h)\<rparr>"
  have w: "wr_hook p f (hw_mod w) = Inr ?s" using h by (simp add: wr_hook_def rd_hook_def)
  have "owns pt = None \<or> owns pt = Some p \<and> Some (f h) \<noteq> None \<and> (links pt \<longrightarrow> sh_next (the (Some (f h))) = 0)"
    using assms(4,5) h(3) by simp
  from inv_step_own [OF assms(1,2) refl this assms(6,7)]
  show "hooks_inv (step_or_fault t pt (wr_hook p f (hw_mod w)) w) ps"
    "recs (hw_mod (step_or_fault t pt (wr_hook p f (hw_mod w)) w)) ps = recs (hw_mod w) ps"
    by (simp_all add: w step_or_fault_def) (simp add: step_to_def)
qed

lemma inv_read:
  assumes "hooks_inv w ps" "hook_point_of w t = Get_Read p"
  shows "hooks_inv (get_read e t p w) ps" "recs (hw_mod (get_read e t p w)) ps = recs (hw_mod w) ps"
proof -
  have "hooks_inv (get_read e t p w) ps \<and> recs (hw_mod (get_read e t p w)) ps = recs (hw_mod w) ps"
  proof (cases "p = 0")
    case True
    have "hooks_inv (step_to t (Faulted NullDeref) (hw_mod w) (hook_mutex w) w) ps"
      by (rule inv_step_plain [OF assms(1)])
        (use hooks_invD(3) [OF assms(1), of t] assms(2) in \<open>simp_all add: hook_points\<close>)
    then show ?thesis using True by (simp add: get_read_def rd_hook_def) (simp add: step_to_def)
  next
    case False
    with assms(2) have o: "owns (hook_point_of w t) = Some p" by (simp add: hook_points)
    with hooks_invD(2) [OF assms(1), of t] obtain h where h: "hooks (hw_mod w) p = Some h"
      by (auto simp: owned_ok_def)
    have k: "kfree p (hw_mod w) = (hw_mod w)\<lparr>hooks := (hooks (hw_mod w))(p := None)\<rparr>"
      using False by (simp add: kfree_def)
    from inv_step_own [OF assms(1) o k, of "Get_Copy (hook_data_bytes h (he_stack e))"] h False assms(2)
    show ?thesis by (simp add: get_read_def rd_hook_def hook_points) (simp add: step_to_def)
  qed
  then show "hooks_inv (get_read e t p w) ps"
    "recs (hw_mod (get_read e t p w)) ps = recs (hw_mod w) ps" by simp_all
qed

text \<open>What every step keeps: the list is well formed, and what it adds or takes is at the right
  end.\<close>

definition keeps_list ::
  "nat \<Rightarrow> hook_world \<Rightarrow> u64 list \<Rightarrow> hook_event list \<Rightarrow> hook_world \<Rightarrow> bool" where
  "keeps_list t w ps ev w' \<longleftrightarrow>
     (\<exists>ps'. hooks_inv w' ps' \<and> recs (hw_mod w) ps @ added ev = taken ev @ recs (hw_mod w') ps' \<and>
        (hook_mutex w = Some t \<or> ps' = ps))"

lemma keeps_quiet:
  "hooks_inv w' ps \<Longrightarrow> recs (hw_mod w') ps = recs (hw_mod w) ps \<Longrightarrow> keeps_list t w ps [] w'"
  by (auto simp: keeps_list_def)

lemma keeps_plain:
  assumes "hooks_inv w ps" "hooks s = hooks (hw_mod w)" "hooks_list s = hooks_list (hw_mod w)"
    and "owns pt = None \<or> owns pt = owns (hook_point_of w t) \<and> (links pt \<longrightarrow> links (hook_point_of w t))"
    and "in_critical pt \<longleftrightarrow> l = Some t" "\<And>u. u \<noteq> t \<Longrightarrow> hook_mutex w = Some u \<longleftrightarrow> l = Some u"
    and "knows s ps pt"
  shows "keeps_list t w ps [] (step_to t pt s l w)"
  by (rule keeps_quiet [OF inv_step_plain [OF assms]]) (simp_all add: step_to_def recs_def assms(2))

lemma keeps_lock:
  assumes "hooks_inv w ps" "take_mutex t pt w = Some (ev, w')"
    and "owns pt = owns (hook_point_of w t)" "links pt = links (hook_point_of w t)" "in_critical pt"
    and "knows (hw_mod w) ps pt"
  shows "keeps_list t w ps ev w'"
proof -
  from assms(2) have "ev = []" "w' = step_to t pt (hw_mod w) (Some t) w" "hook_mutex w = None"
    by (simp_all add: take_mutex_def split: if_splits)
  then show ?thesis using assms(3-6) by (auto intro!: keeps_plain [OF assms(1)])
qed

lemma keeps_fill:
  assumes "hooks_inv w ps" "hook_point_of w t = Exec_Fill pid ppid p"
  shows "keeps_list t w ps []
    (step_or_fault t (Exec_Id p) (wr_hook p (\<lambda>h. h\<lparr>sh_pid := pid, sh_parent_pid := ppid\<rparr>) (hw_mod w)) w)"
proof (cases "p = 0")
  case True
  have "keeps_list t w ps [] (step_to t (Faulted NullDeref) (hw_mod w) (hook_mutex w) w)"
    by (rule keeps_plain [OF assms(1)])
      (use hooks_invD(3) [OF assms(1), of t] assms(2) in \<open>simp_all add: hook_points\<close>)
  with True show ?thesis by (simp add: wr_hook_def rd_hook_def step_or_fault_def)
next
  case False
  then have "owns (hook_point_of w t) = Some p" "links (hook_point_of w t)"
    "\<not> in_critical (hook_point_of w t)"
    by (simp_all add: assms(2) hook_points)
  then show ?thesis
    by (intro keeps_quiet inv_write [OF assms(1)]) (assumption | simp add: hook_points)+
qed

lemma inv_statement:
  assumes "hooks_inv w ps" "allocates e w" "hook_statement e t w = Some (ev, w')"
  shows "keeps_list t w ps ev w'"
proof -
  have crit: "in_critical (hook_point_of w t) \<longleftrightarrow> hook_mutex w = Some t"
    by (rule hooks_invD(3) [OF assms(1)])
  note step = assms(3) [unfolded hook_statement_def Let_def]
  show ?thesis
  proof (cases "hook_point_of w t")
    case (Exec_Alloc pid ppid)
    with step inv_alloc [OF assms(1,2) Exec_Alloc] show ?thesis by (auto intro!: keeps_quiet)
  next
    case (Exec_Fill pid ppid p)
    with step keeps_fill [OF assms(1) Exec_Fill] show ?thesis by simp
  next
    case (Exec_Id p)
    then have "owns (hook_point_of w t) = Some p" "links (hook_point_of w t)"
      "\<not> in_critical (hook_point_of w t)"
      by (simp_all add: hook_points)
    then have "keeps_list t w ps [] (step_or_fault t (Exec_Lock p)
        (wr_hook p (\<lambda>h. h\<lparr>sh_hook_id := hook_id (hw_mod w)\<rparr>) (hw_mod w)) w)"
      by (intro keeps_quiet inv_write [OF assms(1)]) (assumption | simp add: hook_points)+
    with Exec_Id step show ?thesis by simp
  next
    case (Exec_Lock p)
    with step show ?thesis by (auto intro!: keeps_lock [OF assms(1)] simp: hook_points on_list_def)
  next
    case (Exec_Add c p)
    with step inv_walk [OF assms(1) Exec_Add] show ?thesis by (auto intro!: keeps_quiet)
  next
    case (Exec_Link c p)
    with step crit inv_link [OF assms(1) Exec_Link] show ?thesis
      by (auto simp: keeps_list_def in_critical_def)
  next
    case Exec_Unlock
    with step crit show ?thesis by (auto intro!: keeps_plain [OF assms(1)] simp: hook_points)
  next
    case Exec_Count
    with step crit show ?thesis by (auto intro!: keeps_plain [OF assms(1)] simp: hook_points)
  next
    case Exec_Test
    with step crit show ?thesis
      by (auto intro!: keeps_plain [OF assms(1)] simp: hook_points split: if_splits)
  next
    case Exec_Reset
    with step crit show ?thesis by (auto intro!: keeps_plain [OF assms(1)] simp: hook_points)
  next
    case Get_Lock
    with step show ?thesis by (auto intro!: keeps_lock [OF assms(1)] simp: hook_points)
  next
    case Get_Pop
    with step inv_pop [OF assms(1) Get_Pop] show ?thesis by (auto intro!: keeps_quiet)
  next
    case (Get_Take p)
    with step crit inv_take [OF assms(1) Get_Take] show ?thesis
      by (force simp: keeps_list_def in_critical_def)
  next
    case (Get_Unlock p)
    with step crit show ?thesis by (auto intro!: keeps_plain [OF assms(1)] simp: hook_points)
  next
    case (Get_Read p)
    with step inv_read [OF assms(1) Get_Read] show ?thesis by (auto intro!: keeps_quiet)
  next
    case (Get_Copy bs)
    with step crit show ?thesis
      by (auto intro!: keeps_plain [OF assms(1)] simp: hook_points copy_to_user_def)
  next
    case Finished
    with step show ?thesis by simp
  next
    case (Faulted f)
    with step show ?thesis by simp
  qed
qed

subsection \<open>All interleavings\<close>

text \<open>A thread outside the driver, and one that is done.\<close>

definition idle :: "hook_point \<Rightarrow> bool" where
  "idle pt \<longleftrightarrow>
     (case pt of Exec_Alloc _ _ \<Rightarrow> True | Get_Lock \<Rightarrow> True | Finished \<Rightarrow> True | _ \<Rightarrow> False)"

definition done_with :: "hook_point \<Rightarrow> bool" where
  "done_with pt \<longleftrightarrow> (case pt of Finished \<Rightarrow> True | Faulted _ \<Rightarrow> True | _ \<Rightarrow> False)"

definition quiet :: "hook_world \<Rightarrow> bool" where
  "quiet w \<longleftrightarrow> hook_mutex w = None \<and> (\<forall>t. idle (hook_point_of w t))"

lemma quiet_inv: "quiet w \<Longrightarrow> holds (hw_mod w) ps \<Longrightarrow> hooks_inv w ps"
proof -
  assume q: "quiet w" "holds (hw_mod w) ps"
  have "owns (hook_point_of w t) = None \<and> \<not> in_critical (hook_point_of w t) \<and>
      knows (hw_mod w) ps (hook_point_of w t)" for t
    using q(1) by (auto simp: quiet_def idle_def hook_points dest!: spec [of _ t] split: hook_point.splits)
  with q show ?thesis by (simp add: hooks_inv_def quiet_def owned_ok_def)
qed

text \<open>How many statements a thread has left when the list is \<open>ps\<close>.\<close>

definition left :: "u64 list \<Rightarrow> hook_point \<Rightarrow> nat" where
  "left ps pt =
     (case pt of Exec_Alloc _ _ \<Rightarrow> 10 + length ps | Exec_Fill _ _ _ \<Rightarrow> 9 + length ps
      | Exec_Id _ \<Rightarrow> 8 + length ps | Exec_Lock _ \<Rightarrow> 7 + length ps
      | Exec_Add c _ \<Rightarrow> 6 + length (behind ps c) | Exec_Link _ _ \<Rightarrow> 5 | Exec_Unlock \<Rightarrow> 4
      | Exec_Count \<Rightarrow> 3 | Exec_Test \<Rightarrow> 2 | Exec_Reset \<Rightarrow> 1
      | Get_Lock \<Rightarrow> 6 | Get_Pop \<Rightarrow> 5 | Get_Take _ \<Rightarrow> 4 | Get_Unlock _ \<Rightarrow> 3 | Get_Read _ \<Rightarrow> 2
      | Get_Copy _ \<Rightarrow> 1 | Finished \<Rightarrow> 0 | Faulted _ \<Rightarrow> 0)"

lemmas statement_defs = hook_statement_def step_to_def step_or_fault_def exec_alloc_def
  exec_add_def exec_link_def get_pop_def get_take_def get_read_def take_mutex_def

lemma statement_other:
  assumes "hook_statement e u w = Some (ev, w')" "u \<noteq> t"
  shows "hook_point_of w' t = hook_point_of w t"
  using assms
  by (auto simp: statement_defs Let_def split: hook_point.splits option.splits sum.splits
      prod.splits if_splits)

lemma walk_left:
  assumes "hooks_inv w ps" "hooks_inv (exec_add t c p w) ps'" "hook_point_of w t = Exec_Add c p"
  shows "left ps' (hook_point_of (exec_add t c p w) t) < left ps (hook_point_of w t)"
proof -
  have h: "holds (hw_mod w) ps" by (rule hooks_invD(1) [OF assms(1)])
  moreover have "holds (hw_mod w) ps'" using hooks_invD(1) [OF assms(2)] by simp
  ultimately have ps': "ps' = ps" by (auto simp: holds_def dest: hlist_unique)
  from hooks_invD(4) [OF assms(1), of t] assms(3) have "on_list ps c" by (simp add: knows_def)
  with h show ?thesis
    by (cases rule: exec_add_cases [where t = t and obj = p])
       (simp_all add: ps' assms(3) left_def step_to_def)
qed

lemma own_left:
  assumes "hook_statement e t w = Some (ev, w')" "hooks_inv w ps" "hooks_inv w' ps'"
    and "hook_mutex w = Some t \<or> ps' = ps"
  shows "left ps' (hook_point_of w' t) < left ps (hook_point_of w t)"
proof (cases "in_critical (hook_point_of w t)")
  case True
  then show ?thesis
  proof (cases "hook_point_of w t")
    case (Exec_Add c p)
    with assms(1) have "w' = exec_add t c p w" by (simp add: hook_statement_def)
    with walk_left [OF assms(2) _ Exec_Add] assms(3) show ?thesis by simp
  qed (use assms(1) in \<open>auto simp: statement_defs Let_def left_def in_critical_def split: sum.splits\<close>)
next
  case False
  with hooks_invD(3) [OF assms(2), of t] assms(4) have "ps' = ps" by simp
  with False assms(1) show ?thesis
    by (cases "hook_point_of w t")
       (auto simp: statement_defs Let_def left_def in_critical_def behind_def split: sum.splits
         prod.splits if_splits)
qed

lemma other_left:
  assumes "hooks_inv w ps" "recs (hw_mod w) ps @ added ev = taken ev @ recs (hw_mod w') ps'"
    and "hook_mutex w = Some u \<or> ps' = ps" "u \<noteq> t"
  shows "left ps' (hook_point_of w t) \<le> left ps (hook_point_of w t) + length (added ev)"
proof (cases "ps' = ps")
  case False
  with assms(3,4) hooks_invD(3) [OF assms(1), of t] have "\<not> in_critical (hook_point_of w t)" by simp
  moreover from arg_cong [OF assms(2), of length] have "length ps' \<le> length ps + length (added ev)"
    by (simp add: recs_def)
  ultimately show ?thesis
    by (cases "hook_point_of w t") (simp_all add: left_def in_critical_def)
qed simp

lemma hook_runs_inv:
  assumes "hook_runs w ts evs w'" "hooks_inv w ps"
  shows "\<exists>ps'. hooks_inv w' ps' \<and> recs (hw_mod w) ps @ added evs = taken evs @ recs (hw_mod w') ps' \<and>
    (\<forall>t. count_list ts t + left ps' (hook_point_of w' t) \<le>
       left ps (hook_point_of w t) + length (added evs))"
  using assms(1)
proof (induction rule: hook_runs.induct)
  case runs_start
  with assms(2) show ?case by auto
next
  case (runs_step ts evs w1 e u ev w2)
  then obtain qs where qs: "hooks_inv w1 qs"
    "recs (hw_mod w) ps @ added evs = taken evs @ recs (hw_mod w1) qs"
    "\<And>t. count_list ts t + left qs (hook_point_of w1 t) \<le>
       left ps (hook_point_of w t) + length (added evs)" by blast
  from inv_statement [OF qs(1) runs_step(2,3)] obtain rs where
    rs: "hooks_inv w2 rs" "recs (hw_mod w1) qs @ added ev = taken ev @ recs (hw_mod w2) rs"
      "hook_mutex w1 = Some u \<or> rs = qs"
    by (auto simp: keeps_list_def)
  have "count_list (ts @ [u]) t + left rs (hook_point_of w2 t) \<le>
      left ps (hook_point_of w t) + length (added (evs @ ev))" for t
  proof (cases "u = t")
    case True
    with own_left [OF runs_step(3) qs(1) rs(1,3)] qs(3) [of t] show ?thesis by simp
  next
    case False
    with other_left [OF qs(1) rs(2,3)] statement_other [OF runs_step(3)] qs(3) [of t]
    show ?thesis by (fastforce dest: spec)
  qed
  with rs(1,2) qs(2) show ?case by (intro exI [of _ rs]) (simp flip: append_assoc, simp)
qed


subsection \<open>Every call ends\<close>

lemma inv_progress:
  assumes "hooks_inv w ps" "\<not> done_with (hook_point_of w t)"
  shows "\<exists>u e r. allocates e w \<and> hook_statement e u w = Some r"
proof -
  let ?e = "\<lparr>he_block = (0, undefined), he_stack = [], he_user = undefined, he_arg = 0\<rparr>"
  have e: "allocates ?e w" by (simp add: allocates_def)
  have run: "\<exists>r. hook_statement ?e u w = Some r"
    if "\<not> done_with (hook_point_of w u)" "hook_mutex w = None \<or> in_critical (hook_point_of w u)" for u
    using that by (cases "hook_point_of w u")
      (simp_all add: hook_statement_def Let_def take_mutex_def done_with_def hook_points)
  show ?thesis
  proof (cases "hook_mutex w")
    case None
    with run [of t] assms(2) e show ?thesis by blast
  next
    case (Some u)
    with hooks_invD(3) [OF assms(1), of u] have "in_critical (hook_point_of w u)" by simp
    moreover from this have "\<not> done_with (hook_point_of w u)"
      by (auto simp: done_with_def hook_points split: hook_point.splits)
    ultimately show ?thesis using run [of u] e by blast
  qed
qed


subsection \<open>One call alone, and the counter\<close>

text \<open>The statements before the lock, and those from the lock to the counter.\<close>

lemma run_prepare:
  assumes "hook_point_of w t = Exec_Alloc pid ppid" "he_block e = (p, blk)" "p \<noteq> 0"
  shows "hook_run (replicate 3 (t, e)) w = Some ([], step_to t (Exec_Lock p)
    ((hw_mod w)\<lparr>hooks := (hooks (hw_mod w))(p \<mapsto>
       blk\<lparr>sh_pid := pid, sh_parent_pid := ppid, sh_hook_id := hook_id (hw_mod w)\<rparr>)\<rparr>) (hook_mutex w) w)"
  using assms by (simp add: numeral_3_eq_3 statement_defs Let_def wr_hook_def rd_hook_def)

lemma hook_run_append:
  assumes "hook_run xs w = Some (ev, w1)" "hook_run ys w1 = Some (evs, w2)"
  shows "hook_run (xs @ ys) w = Some (ev @ evs, w2)"
  using assms by (induction xs arbitrary: w ev) (auto split: option.splits)

lemma run_walk:
  "hook_point_of w t = Exec_Add c obj \<Longrightarrow> holds (hw_mod w) ps \<Longrightarrow> on_list ps c \<Longrightarrow>
   \<exists>n c'. hook_run (replicate n (t, e)) w =
       Some ([], step_to t (Exec_Link c' obj) (hw_mod w) (hook_mutex w) w) \<and>
     on_list ps c' \<and> rd_cell c' (hw_mod w) = Inr 0"
proof (induction "length (behind ps c)" arbitrary: c w rule: less_induct)
  case less
  have st: "hook_statement e t w = Some ([], exec_add t c obj w)"
    using less.prems(1) by (simp add: hook_statement_def)
  from less.prems(2,3) show ?case
  proof (cases rule: exec_add_cases [where t = t and obj = obj])
    case (walk p q r)
    let ?w = "step_to t (Exec_Add (NextCell p) obj) (hw_mod w) (hook_mutex w) w"
    have "length (behind ps (NextCell p)) < length (behind ps c)" using walk(1,3) by simp
    from less.hyps [OF this, of ?w] less.prems(2) walk(2) obtain n c' where
      "hook_run (replicate n (t, e)) ?w =
         Some ([], step_to t (Exec_Link c' obj) (hw_mod w) (hook_mutex w) w)"
      "on_list ps c'" "rd_cell c' (hw_mod w) = Inr 0"
      by (auto simp: step_to_def)
    then show ?thesis using st walk(4) by (intro exI [of _ "Suc n"] exI [of _ c']) simp
  next
    case (stop c')
    then show ?thesis using st by (intro exI [of _ 1] exI [of _ c']) simp
  qed
qed

lemma run_publish:
  assumes "hook_point_of w t = Exec_Lock p" "hook_mutex w = None" "holds (hw_mod w) ps"
    and "add_hook HeadCell p (hw_mod w) = Some (Inr s')"
  shows "\<exists>n. hook_run (replicate n (t, e)) w =
    Some ([Added (rec_of (the (hooks (hw_mod w) p)))],
      step_to t Exec_Test (s'\<lparr>hook_id := hook_id s' + 1\<rparr>) None w)"
proof -
  let ?w = "step_to t (Exec_Add HeadCell p) (hw_mod w) (Some t) w"
  from run_walk [of ?w t HeadCell p ps e] assms(3) obtain n c where
    walk: "hook_run (replicate n (t, e)) ?w =
        Some ([], step_to t (Exec_Link c p) (hw_mod w) (Some t) w)" (is "_ = Some (_, ?v)")
      and c: "on_list ps c" "rd_cell c (hw_mod w) = Inr 0"
    by (auto simp: step_to_def on_list_def)
  have lock: "hook_run (replicate 1 (t, e)) w = Some ([], ?w)"
    using assms(1,2) by (simp add: hook_statement_def take_mutex_def)
  from add_hook_at_last [OF assms(3) c] assms(4) have "wr_cell c p (hw_mod w) = Inr s'" by simp
  then have "hook_run (replicate 3 (t, e)) ?v =
    Some ([Added (rec_of (the (hooks (hw_mod w) p)))],
      step_to t Exec_Test (s'\<lparr>hook_id := hook_id s' + 1\<rparr>) None w)"
    by (simp add: numeral_3_eq_3 statement_defs Let_def)
  from hook_run_append [OF lock hook_run_append [OF walk this]] show ?thesis
    by (intro exI [of _ "1 + (n + 3)"]) (simp only: replicate_add append_Nil)
qed

lemma hook_runs_append:
  "hook_runs w1 us evs w2 \<Longrightarrow> hook_runs w ts ev w1 \<Longrightarrow> hook_runs w (ts @ us) (ev @ evs) w2"
proof (induction rule: hook_runs.induct)
  case (runs_step us evs w2 e t ev' w3)
  from hook_runs.runs_step [OF runs_step(4) [OF runs_step(5)] runs_step(2,3)] show ?case by simp
qed simp

text \<open>A schedule in which no memory is handed out is a run.\<close>

lemma hook_run_runs:
  "hook_run sch w = Some (evs, w') \<Longrightarrow> list_all (\<lambda>(t, e). fst (he_block e) = 0) sch \<Longrightarrow>
   hook_runs w (map fst sch) evs w'"
proof (induction sch w arbitrary: evs rule: hook_run.induct)
  case (1 w)
  then show ?case by (simp add: runs_start)
next
  case (2 t e sch w)
  then obtain ev w1 evs' where s: "hook_statement e t w = Some (ev, w1)"
    "hook_run sch w1 = Some (evs', w')" "evs = ev @ evs'"
    by (auto split: option.splits)
  have "allocates e w" using 2(3) by (auto simp: allocates_def split: prod.split)
  from runs_step [OF runs_start this s(1)] have "hook_runs w [t] ev w1" by simp
  with 2(1) [OF s(1) refl s(2)] 2(3) s(3) show ?case
    using hook_runs_append [of w1 "map fst sch" evs' w' w "[t]" ev] by simp
qed

text \<open>A call of \<open>new_execve\<close> whose statements no other thread interrupts does what the function
  of the model does in one step.\<close>

theorem undisturbed_call:
  assumes "hook_point_of w t = Exec_Alloc pid ppid" "he_block e = (p, blk)" "hook_mutex w = None"
    and "holds (hw_mod w) ps" "fresh_block p blk (hw_mod w)"
  shows "\<exists>n w'. hook_run (replicate n (t, e)) w = Some ([Added (hook_id (hw_mod w), pid, ppid)], w') \<and>
    hook_point_of w' t = Finished \<and> hook_mutex w' = None \<and>
    new_execve pid ppid p blk (hw_mod w) = Some (Inr (execve_scf (hw_mod w), hw_mod w'))"
proof -
  let ?s = "hw_mod w"
  let ?h = "blk\<lparr>sh_pid := pid, sh_parent_pid := ppid, sh_hook_id := hook_id ?s\<rparr>"
  let ?s1 = "?s\<lparr>hooks := (hooks ?s)(p \<mapsto> ?h)\<rparr>"
  let ?w1 = "step_to t (Exec_Lock p) ?s1 (hook_mutex w) w"
  from assms(5) have p: "p \<noteq> 0" "hooks ?s p = None" "sh_next blk = 0" by (simp_all add: fresh_block_def)
  then have "p \<notin> set ps" using holds_not_allocated [OF assms(4)] by blast
  then have h: "holds ?s1 ps" using assms(4) by (simp add: holds_def)
  from add_hook_holds [OF h p(1) \<open>p \<notin> set ps\<close>, of ?h] p(3) obtain s2 where
    s2: "add_hook HeadCell p ?s1 = Some (Inr s2)"
      "s2 = ?s1\<lparr>hooks := hooks s2, hooks_list := hooks_list s2\<rparr>" by auto
  have f: "hook_id s2 = hook_id ?s" "execve_scf s2 = execve_scf ?s" by (subst s2(2), simp)+
  let ?w2 = "step_to t Exec_Test (s2\<lparr>hook_id := hook_id s2 + 1\<rparr>) None ?w1"
  have "\<exists>n. hook_run (replicate n (t, e)) ?w1 = Some ([Added (rec_of (the (hooks (hw_mod ?w1) p)))], ?w2)"
    by (rule run_publish [where ps = ps]) (simp_all add: step_to_def assms(3) s2(1) h)
  then obtain n where
    "hook_run (replicate n (t, e)) ?w1 = Some ([Added (rec_of (the (hooks (hw_mod ?w1) p)))], ?w2)" ..
  from hook_run_append [OF run_prepare [OF assms(1,2) p(1)] this]
  have run: "hook_run (replicate (3 + n) (t, e)) w = Some ([Added (hook_id ?s, pid, ppid)], ?w2)"
    by (simp add: rec_of_def step_to_def replicate_add)
  have new: "new_execve pid ppid p blk ?s =
      Some (Inr (execve_scf ?s, s2\<lparr>hook_id := next_hook_id (hook_id s2)\<rparr>))"
    using p(1) s2(1) f by (simp add: new_execve_def Let_def)
  show ?thesis
  proof (cases "MAX_HOOK_ID < hook_id s2 + 1")
    case True
    have "hook_run (replicate 2 (t, e)) ?w2 =
        Some ([], step_to t Finished (s2\<lparr>hook_id := MIN_HOOK_ID\<rparr>) None ?w2)"
      using True by (simp add: numeral_2_eq_2 statement_defs Let_def)
    from hook_run_append [OF run this] have "hook_run (replicate (3 + n + 2) (t, e)) w = Some
        ([Added (hook_id ?s, pid, ppid)], step_to t Finished (s2\<lparr>hook_id := MIN_HOOK_ID\<rparr>) None ?w2)"
      by (simp only: replicate_add append_Nil2)
    with new True show ?thesis
      by (intro exI [of _ "3 + n + 2"]) (simp add: step_to_def next_hook_id_def)
  next
    case False
    have "hook_run (replicate 1 (t, e)) ?w2 =
        Some ([], step_to t Finished (s2\<lparr>hook_id := hook_id s2 + 1\<rparr>) None ?w2)"
      using False by (simp add: statement_defs Let_def)
    from hook_run_append [OF run this] have "hook_run (replicate (3 + n + 1) (t, e)) w = Some
        ([Added (hook_id ?s, pid, ppid)], step_to t Finished (s2\<lparr>hook_id := hook_id s2 + 1\<rparr>) None ?w2)"
      by (simp only: replicate_add append_Nil2)
    with new False show ?thesis
      by (intro exI [of _ "3 + n + 1"]) (simp add: step_to_def next_hook_id_def)
  qed
qed

text \<open>From the lock to the counter, with the object it links.\<close>

lemma run_publish_holds:
  assumes "hook_point_of w t = Exec_Lock p" "hook_mutex w = None" "holds (hw_mod w) ps"
    and "p \<noteq> 0" "p \<notin> set ps" "hooks (hw_mod w) p = Some m" "sh_next m = 0"
  obtains n w' where "hook_run (replicate n (t, e)) w = Some ([Added (rec_of m)], w')"
    "holds (hw_mod w') (ps @ [p])" "hook_id (hw_mod w') = hook_id (hw_mod w) + 1" "hook_mutex w' = None"
    "\<forall>q. q \<notin> set ps \<longrightarrow> hooks (hw_mod w') q = hooks (hw_mod w) q"
    "\<forall>u. u \<noteq> t \<longrightarrow> hook_point_of w' u = hook_point_of w u"
proof -
  from add_hook_holds [OF assms(3-7)] obtain s' where
    s': "add_hook HeadCell p (hw_mod w) = Some (Inr s')" "holds s' (ps @ [p])"
      "s' = (hw_mod w)\<lparr>hooks := hooks s', hooks_list := hooks_list s'\<rparr>"
      "\<And>q. q \<notin> set ps \<Longrightarrow> hooks s' q = hooks (hw_mod w) q" by blast
  have "hook_id s' = hook_id (hw_mod w)" by (subst s'(3), simp)
  moreover obtain n where "hook_run (replicate n (t, e)) w =
      Some ([Added (rec_of m)], step_to t Exec_Test (s'\<lparr>hook_id := hook_id s' + 1\<rparr>) None w)"
    using run_publish [OF assms(1-3) s'(1), of e] assms(6) by auto
  ultimately show thesis using s'(2,4)
    by (intro that [of n "step_to t Exec_Test (s'\<lparr>hook_id := hook_id s' + 1\<rparr>) None w"])
       (simp_all add: step_to_def holds_def)
qed

text \<open>From the allocation to the lock.\<close>

lemma run_prepare_holds:
  assumes "hook_point_of w t = Exec_Alloc pid ppid" "he_block e = (p, blk)"
    and "fresh_block p blk (hw_mod w)" "holds (hw_mod w) ps"
  obtains w' m where "hook_run (replicate 3 (t, e)) w = Some ([], w')"
    "hook_point_of w' t = Exec_Lock p" "hook_mutex w' = hook_mutex w" "holds (hw_mod w') ps"
    "hook_id (hw_mod w') = hook_id (hw_mod w)" "p \<noteq> 0" "p \<notin> set ps"
    "hooks (hw_mod w') p = Some m" "sh_next m = 0" "rec_of m = (hook_id (hw_mod w), pid, ppid)"
    "\<forall>q. q \<noteq> p \<longrightarrow> hooks (hw_mod w') q = hooks (hw_mod w) q"
    "\<forall>u. u \<noteq> t \<longrightarrow> hook_point_of w' u = hook_point_of w u"
proof -
  let ?m = "blk\<lparr>sh_pid := pid, sh_parent_pid := ppid, sh_hook_id := hook_id (hw_mod w)\<rparr>"
  from assms(3) have p: "p \<noteq> 0" "hooks (hw_mod w) p = None" "sh_next blk = 0"
    by (simp_all add: fresh_block_def)
  moreover from this have "p \<notin> set ps" using holds_not_allocated [OF assms(4)] by blast
  ultimately show thesis
    using run_prepare [OF assms(1,2)] assms(4)
    by (intro that [of "step_to t (Exec_Lock p)
         ((hw_mod w)\<lparr>hooks := (hooks (hw_mod w))(p \<mapsto> ?m)\<rparr>) (hook_mutex w) w" ?m])
       (simp_all add: step_to_def holds_def rec_of_def)
qed

lemma race_same_number:
  fixes e f :: hook_env
  assumes "hook_point_of w t = Exec_Alloc a b" "hook_point_of w u = Exec_Alloc c d" "t \<noteq> u"
    and "he_block e = (p, blk)" "he_block f = (q, blk')" "p \<noteq> q"
    and "fresh_block p blk (hw_mod w)" "fresh_block q blk' (hw_mod w)"
    and "hook_mutex w = None" "holds (hw_mod w) ps"
  shows "\<exists>sch w'. hook_run sch w =
    Some ([Added (hook_id (hw_mod w), a, b), Added (hook_id (hw_mod w), c, d)], w')"
proof -
  obtain w1 m where
    w1: "hook_run (replicate 3 (t, e)) w = Some ([], w1)"
      "hook_point_of w1 t = Exec_Lock p" "hook_mutex w1 = hook_mutex w" "holds (hw_mod w1) ps"
      "hook_id (hw_mod w1) = hook_id (hw_mod w)" "p \<noteq> 0" "p \<notin> set ps"
      "hooks (hw_mod w1) p = Some m" "sh_next m = 0" "rec_of m = (hook_id (hw_mod w), a, b)"
      "\<forall>q. q \<noteq> p \<longrightarrow> hooks (hw_mod w1) q = hooks (hw_mod w) q"
      "\<forall>u. u \<noteq> t \<longrightarrow> hook_point_of w1 u = hook_point_of w u"
    by (rule run_prepare_holds [OF assms(1,4,7,10)])
  have q: "q \<notin> set ps" using holds_not_allocated [OF assms(10)] assms(8) by (simp add: fresh_block_def)
  have u: "hook_point_of w1 u = Exec_Alloc c d" "fresh_block q blk' (hw_mod w1)"
    using w1(11,12) assms(2,3,6,8) by (simp_all add: fresh_block_def)
  obtain w2 m' where
    w2: "hook_run (replicate 3 (u, f)) w1 = Some ([], w2)"
      "hook_point_of w2 u = Exec_Lock q" "hook_mutex w2 = hook_mutex w1" "holds (hw_mod w2) ps"
      "hook_id (hw_mod w2) = hook_id (hw_mod w1)" "q \<noteq> 0" "q \<notin> set ps"
      "hooks (hw_mod w2) q = Some m'" "sh_next m' = 0" "rec_of m' = (hook_id (hw_mod w1), c, d)"
      "\<forall>x. x \<noteq> q \<longrightarrow> hooks (hw_mod w2) x = hooks (hw_mod w1) x"
      "\<forall>v. v \<noteq> u \<longrightarrow> hook_point_of w2 v = hook_point_of w1 v"
    by (rule run_prepare_holds [OF u(1) assms(5) u(2) w1(4)])
  have t: "hook_point_of w2 t = Exec_Lock p" "hook_mutex w2 = None" "hooks (hw_mod w2) p = Some m"
    using w1(2,3,8) w2(3,11,12) assms(3,6,9) by simp_all
  obtain n w3 where
    w3: "hook_run (replicate n (t, e)) w2 = Some ([Added (rec_of m)], w3)"
      "holds (hw_mod w3) (ps @ [p])" "hook_id (hw_mod w3) = hook_id (hw_mod w2) + 1" "hook_mutex w3 = None"
      "\<forall>x. x \<notin> set ps \<longrightarrow> hooks (hw_mod w3) x = hooks (hw_mod w2) x"
      "\<forall>v. v \<noteq> t \<longrightarrow> hook_point_of w3 v = hook_point_of w2 v"
    by (rule run_publish_holds [OF t(1,2) w2(4) w1(6,7) t(3) w1(9)])
  have v: "hook_point_of w3 u = Exec_Lock q" "hooks (hw_mod w3) q = Some m'" "q \<notin> set (ps @ [p])"
    using w2(2,8) w3(5,6) assms(3,6) q by simp_all
  obtain k w4 where "hook_run (replicate k (u, f)) w3 = Some ([Added (rec_of m')], w4)"
    by (rule run_publish_holds [OF v(1) w3(4,2) w2(6) v(3,2) w2(9)])
  from hook_run_append [OF w1(1) hook_run_append [OF w2(1) hook_run_append [OF w3(1) this]]]
  show ?thesis using w1(5,10) w2(10) by (auto intro!: exI)
qed

lemma race_next_number:
  fixes e f :: hook_env
  assumes "hook_point_of w t = Exec_Alloc a b" "hook_point_of w u = Exec_Alloc c d" "t \<noteq> u"
    and "he_block e = (p, blk)" "he_block f = (q, blk')" "p \<noteq> q"
    and "fresh_block p blk (hw_mod w)" "fresh_block q blk' (hw_mod w)"
    and "hook_mutex w = None" "holds (hw_mod w) ps"
  shows "\<exists>sch w'. hook_run sch w =
    Some ([Added (hook_id (hw_mod w), a, b), Added (hook_id (hw_mod w) + 1, c, d)], w')"
proof -
  obtain w1 m where
    w1: "hook_run (replicate 3 (t, e)) w = Some ([], w1)"
      "hook_point_of w1 t = Exec_Lock p" "hook_mutex w1 = hook_mutex w" "holds (hw_mod w1) ps"
      "hook_id (hw_mod w1) = hook_id (hw_mod w)" "p \<noteq> 0" "p \<notin> set ps"
      "hooks (hw_mod w1) p = Some m" "sh_next m = 0" "rec_of m = (hook_id (hw_mod w), a, b)"
      "\<forall>q. q \<noteq> p \<longrightarrow> hooks (hw_mod w1) q = hooks (hw_mod w) q"
      "\<forall>u. u \<noteq> t \<longrightarrow> hook_point_of w1 u = hook_point_of w u"
    by (rule run_prepare_holds [OF assms(1,4,7,10)])
  have q: "q \<notin> set ps" using holds_not_allocated [OF assms(10)] assms(8) by (simp add: fresh_block_def)
  obtain n w2 where
    w2: "hook_run (replicate n (t, e)) w1 = Some ([Added (rec_of m)], w2)"
      "holds (hw_mod w2) (ps @ [p])" "hook_id (hw_mod w2) = hook_id (hw_mod w1) + 1" "hook_mutex w2 = None"
      "\<forall>x. x \<notin> set ps \<longrightarrow> hooks (hw_mod w2) x = hooks (hw_mod w1) x"
      "\<forall>v. v \<noteq> t \<longrightarrow> hook_point_of w2 v = hook_point_of w1 v"
    by (rule run_publish_holds [OF w1(2) w1(3) [unfolded assms(9)] w1(4,6-9)])
  have u: "hook_point_of w2 u = Exec_Alloc c d" "fresh_block q blk' (hw_mod w2)"
    using w1(11,12) w2(5,6) assms(2,3,6,8) q by (simp_all add: fresh_block_def)
  obtain w3 m' where
    w3: "hook_run (replicate 3 (u, f)) w2 = Some ([], w3)"
      "hook_point_of w3 u = Exec_Lock q" "hook_mutex w3 = hook_mutex w2" "holds (hw_mod w3) (ps @ [p])"
      "hook_id (hw_mod w3) = hook_id (hw_mod w2)" "q \<noteq> 0" "q \<notin> set (ps @ [p])"
      "hooks (hw_mod w3) q = Some m'" "sh_next m' = 0" "rec_of m' = (hook_id (hw_mod w2), c, d)"
      "\<forall>x. x \<noteq> q \<longrightarrow> hooks (hw_mod w3) x = hooks (hw_mod w2) x"
      "\<forall>v. v \<noteq> u \<longrightarrow> hook_point_of w3 v = hook_point_of w2 v"
    by (rule run_prepare_holds [OF u(1) assms(5) u(2) w2(2)])
  obtain k w4 where "hook_run (replicate k (u, f)) w3 = Some ([Added (rec_of m')], w4)"
    by (rule run_publish_holds [OF w3(2) w3(3) [unfolded w2(4)] w3(4,6-9)])
  from hook_run_append [OF w1(1) hook_run_append [OF w2(1) hook_run_append [OF w3(1) this]]]
  show ?thesis using w1(5,10) w2(3) w3(10) by (auto intro!: exI)
qed

text \<open>The counter is not protected by the lock.  Two calls at a time can record the same number;
  and when the counter is at its maximum, a call that reads it between the increment and the
  comparison of another records the number 10000, outside the range.\<close>

theorem counter_race:
  fixes e f :: hook_env
  assumes "hook_point_of w t = Exec_Alloc a b" "hook_point_of w u = Exec_Alloc c d" "t \<noteq> u"
    and "he_block e = (p, blk)" "he_block f = (q, blk')" "p \<noteq> q"
    and "fresh_block p blk (hw_mod w)" "fresh_block q blk' (hw_mod w)"
    and "hook_mutex w = None" "holds (hw_mod w) ps"
  shows "(\<exists>sch w'. hook_run sch w = Some ([Added (hook_id (hw_mod w), a, b),
      Added (hook_id (hw_mod w), c, d)], w')) \<and>
    (hook_id (hw_mod w) = MAX_HOOK_ID \<longrightarrow> (\<exists>sch w'. hook_run sch w =
      Some ([Added (MAX_HOOK_ID, a, b), Added (MAX_HOOK_ID + 1, c, d)], w')))"
proof (intro conjI impI)
  assume "hook_id (hw_mod w) = MAX_HOOK_ID"
  with race_next_number [OF assms] show "\<exists>sch w'. hook_run sch w =
      Some ([Added (MAX_HOOK_ID, a, b), Added (MAX_HOOK_ID + 1, c, d)], w')" by simp
qed (rule race_same_number [OF assms])

end
