(* ===== verification/Execve_Example.thy ===== *)
theory Execve_Example
  imports Driver_Example Execve_Threads
begin

text \<open>The theorems about the threads of the driver on the small kernel: two processes that call
  \<open>execve\<close>, and a client that reads a hook.\<close>

definition ex_block :: "u64 \<Rightarrow> hook_env" where
  "ex_block p = \<lparr>he_block = (p, ex_node2), he_stack = replicate 12 0, he_user = open_uaccess, he_arg = 0\<rparr>"

definition ex_calls :: "spybot \<Rightarrow> hook_world" where
  "ex_calls s = \<lparr>hw_mod = s, hook_mutex = None,
     hook_point_of = (\<lambda>t. if t = 0 then Get_Lock else Exec_Alloc (of_nat t) 1)\<rparr>"

lemma ex_calls_quiet: "quiet (ex_calls s)"
  by (simp add: quiet_def ex_calls_def idle_def)

lemma ex_calls_fields [simp]:
  "hw_mod (ex_calls s) = s" "hook_mutex (ex_calls s) = None"
  "hook_point_of (ex_calls s) t = (if t = 0 then Get_Lock else Exec_Alloc (of_nat t) 1)"
  by (simp_all add: ex_calls_def)

lemma ex_queue_holds: "holds ex_queue [32, 64]"
  by (simp add: holds_def ex_queue_def ex_node1_def ex_node2_def)

lemma ex_reader_runs:
  "\<exists>w'. hook_runs (ex_calls ex_queue) [0, 0, 0, 0, 0] [Taken (1000, 7, 1)] w'"
proof -
  let ?sch = "[(0, ex_block 0), (0, ex_block 0), (0, ex_block 0), (0, ex_block 0), (0, ex_block 0)]"
  have "\<exists>w'. hook_run ?sch (ex_calls ex_queue) = Some ([Taken (1000, 7, 1)], w')"
    by (simp add: statement_defs Let_def pop_hook_def rd_cell_def rd_hook_def
        wr_cell_def ex_queue_def ex_node1_def rec_of_def kfree_def)
  then obtain w' where "hook_run ?sch (ex_calls ex_queue) = Some ([Taken (1000, 7, 1)], w')" ..
  from hook_run_runs [OF this] show ?thesis by (auto simp: ex_block_def)
qed



lemma ex_free_blocks: "p \<in> {128, 160} \<Longrightarrow> fresh_block p ex_node2 ex_queue"
  by (auto simp: fresh_block_def ex_queue_def ex_node2_def)

lemma undisturbed_call_witness:
  "\<exists>n w'. hook_run (replicate n (2, ex_block 128)) (ex_calls ex_queue) = Some ([Added (1002, 2, 1)], w') \<and>
     hook_point_of w' 2 = Finished \<and>
     new_execve 2 1 128 ex_node2 ex_queue = Some (Inr (7, hw_mod w'))"
proof -
  have "hook_id ex_queue = 1002" "execve_scf ex_queue = 7" by (simp_all add: ex_queue_def)
  then show ?thesis
    using undisturbed_call [of "ex_calls ex_queue" 2 2 1 "ex_block 128" 128 ex_node2 "[32, 64]"]
      ex_free_blocks [of 128] ex_queue_holds
    by (simp add: ex_block_def) blast
qed

lemma counter_race_witness:
  "(\<exists>sch w'. hook_run sch (ex_calls ex_queue) = Some ([Added (1002, 1, 1), Added (1002, 2, 1)], w')) \<and>
   (\<exists>sch w'. hook_run sch (ex_calls (ex_queue\<lparr>hook_id := 9999\<rparr>)) =
      Some ([Added (9999, 1, 1), Added (10000, 2, 1)], w'))"
proof
  have id: "hook_id ex_queue = 1002" by (simp add: ex_queue_def)
  show "\<exists>sch w'. hook_run sch (ex_calls ex_queue) = Some ([Added (1002, 1, 1), Added (1002, 2, 1)], w')"
    using counter_race [of "ex_calls ex_queue" 1 1 1 2 2 1 "ex_block 128" 128 ex_node2 "ex_block 160" 160 ex_node2 "[32, 64]"]
      ex_free_blocks ex_queue_holds id
    by (simp add: ex_block_def)
  let ?s = "ex_queue\<lparr>hook_id := 9999\<rparr>"
  have "fresh_block p ex_node2 ?s" if "p \<in> {128, 160}" for p
    using ex_free_blocks [OF that] by (simp add: fresh_block_def)
  moreover have "holds ?s [32, 64]" using ex_queue_holds by (simp add: holds_def)
  ultimately show "\<exists>sch w'. hook_run sch (ex_calls ?s) = Some ([Added (9999, 1, 1), Added (10000, 2, 1)], w')"
    using counter_race [of "ex_calls ?s" 1 1 1 2 2 1 "ex_block 128" 128 ex_node2 "ex_block 160" 160 ex_node2 "[32, 64]"]
    by (simp add: ex_block_def MAX_HOOK_ID_def)
qed

end
