(* ===== verification/Unload_Threads.thy ===== *)
theory Unload_Threads
  imports Execve_Example
begin

text \<open>
  The kernel unloads the module while processes are inside \<open>new_execve\<close>: nothing counts them.
  \<open>cleanup_spybot\<close> takes the hooks off the list without the lock that the calls hold while they
  walk along it.  Here its statements are steps beside those of the calls.
\<close>

subsection \<open>Statements\<close>

text \<open>Where \<open>cleanup_spybot\<close> is: before \<open>removeSyscallHijack\<close>, at the test of \<open>pop_hook\<close>, at its two
  assignments, before \<open>kfree\<close> and before the calls that remove the device.\<close>

datatype unload_point =
    Rm_Hijack | Rm_Test | Rm_Take | Rm_Advance u64 | Rm_Free u64 | Rm_Device | Rm_Done | Rm_Fault fault

record unload_world =
  uw_calls :: hook_world
  uw_point :: unload_point

abbreviation uw_mod :: "unload_world \<Rightarrow> spybot" where
  "uw_mod w \<equiv> hw_mod (uw_calls w)"

definition rm_goto :: "unload_world \<Rightarrow> unload_point \<Rightarrow> spybot \<Rightarrow> unload_world" where
  "rm_goto w pt s = \<lparr>uw_calls = (uw_calls w)\<lparr>hw_mod := s\<rparr>, uw_point = pt\<rparr>"

definition rm_or_fault :: "unload_world \<Rightarrow> unload_point \<Rightarrow> fault + spybot \<Rightarrow> unload_world" where
  "rm_or_fault w pt r =
     (case r of Inl e \<Rightarrow> rm_goto w (Rm_Fault e) (uw_mod w) | Inr s \<Rightarrow> rm_goto w pt s)"

text \<open>\<open>*head = (*head)->next\<close>.\<close>

definition rm_advance :: "spybot \<Rightarrow> fault + spybot" where
  "rm_advance s =
     res_bind (rd_cell HeadCell s) (\<lambda>p.
     res_bind (rd_hook p s) (\<lambda>h. wr_cell HeadCell (sh_next h) s))"

definition unload_statement :: "kenv \<Rightarrow> unload_world \<Rightarrow> unload_world option" where
  "unload_statement k w =
     (let s = uw_mod w
      in case uw_point w of
           Rm_Hijack \<Rightarrow> Some (rm_or_fault w Rm_Test (removeSyscallHijack k s))
         | Rm_Test \<Rightarrow> Some (rm_goto w (if hooks_list s \<noteq> 0 then Rm_Take else Rm_Device) s)
         | Rm_Take \<Rightarrow> Some (rm_goto w (Rm_Advance (hooks_list s)) s)
         | Rm_Advance p \<Rightarrow> Some (rm_or_fault w (Rm_Free p) (rm_advance s))
         | Rm_Free p \<Rightarrow>
             Some (if p \<noteq> 0 then rm_goto w Rm_Test (kfree p s) else rm_goto w Rm_Device s)
         | Rm_Device \<Rightarrow> Some (rm_goto w Rm_Done (s\<lparr>cdev_added := False, chrdev_registered := False\<rparr>))
         | Rm_Done \<Rightarrow> None
         | Rm_Fault e \<Rightarrow> None)"

text \<open>A schedule: \<open>None\<close> is a step of \<open>cleanup_spybot\<close>.\<close>

fun unload_run ::
  "kenv \<Rightarrow> (nat \<times> hook_env) option list \<Rightarrow> unload_world \<Rightarrow> (hook_event list \<times> unload_world) option" where
  "unload_run k [] w = Some ([], w)"
| "unload_run k (None # sch) w =
     (case unload_statement k w of None \<Rightarrow> None | Some w \<Rightarrow> unload_run k sch w)"
| "unload_run k (Some (t, e) # sch) w =
     (case hook_statement e t (uw_calls w) of
        None \<Rightarrow> None
      | Some (ev, c) \<Rightarrow>
          map_option (\<lambda>(evs, w). (ev @ evs, w)) (unload_run k sch (w\<lparr>uw_calls := c\<rparr>)))"

lemma unload_run_append:
  assumes "unload_run k xs w = Some (ev, w1)" "unload_run k ys w1 = Some (evs, w2)"
  shows "unload_run k (xs @ ys) w = Some (ev @ evs, w2)"
  using assms by (induction k xs w arbitrary: ev rule: unload_run.induct) (auto split: option.splits)

lemma unload_run_calls:
  "hook_run sch (uw_calls w) = Some (ev, c) \<Longrightarrow>
   unload_run k (map Some sch) w = Some (ev, w\<lparr>uw_calls := c\<rparr>)"
proof (induction sch arbitrary: w ev)
  case (Cons x sch)
  obtain t e where x: "x = (t, e)" by fastforce
  with Cons.prems obtain ev1 c1 ev2 where
    "hook_statement e t (uw_calls w) = Some (ev1, c1)" "hook_run sch c1 = Some (ev2, c)" "ev = ev1 @ ev2"
    by (auto split: option.splits)
  with Cons.IH [of "w\<lparr>uw_calls := c1\<rparr>"] x show ?case by simp
qed simp

subsection \<open>\<open>cleanup_spybot\<close> alone\<close>

lemmas unload_steps = unload_statement_def rm_or_fault_def rm_goto_def rm_advance_def Let_def

text \<open>One round of the loop: the first object goes.\<close>

lemma unload_round:
  assumes "uw_point w = Rm_Test" "holds (uw_mod w) (p # ps)"
  obtains s where "unload_run k (replicate 4 None) w = Some ([], rm_goto w Rm_Test s)"
    "holds s ps" "hooks s = (hooks (uw_mod w))(p := None)"
    "drain_hooks (uw_mod w) = drain_hooks s" "p \<noteq> 0"
proof -
  from assms(2) obtain n s1 where n: "hooks (uw_mod w) p = Some n" "p \<noteq> 0"
    "pop_hook HeadCell (uw_mod w) = Inr (p, s1)" "s1 = (uw_mod w)\<lparr>hooks_list := sh_next n\<rparr>"
    "holds s1 ps" "p \<notin> set ps"
    by (auto elim: pop_hook_holds)
  have head: "hooks_list (uw_mod w) = p" using assms(2) by (simp add: holds_def)
  have "unload_run k (replicate 4 None) w = Some ([], rm_goto w Rm_Test (kfree p s1))"
    using assms(1) head n(1,2,4)
    by (simp add: numeral_eq_Suc unload_steps rd_cell_def rd_hook_def wr_cell_def)
  moreover have "drain_hooks (uw_mod w) = drain_hooks (kfree p s1)"
    using n(2,3) by (subst drain_hooks.simps) simp
  ultimately show thesis
    using n by (intro that [of "kfree p s1"]) (simp_all, simp add: kfree_def)
qed

lemma unload_drains:
  "uw_point w = Rm_Test \<Longrightarrow> holds (uw_mod w) ps \<Longrightarrow>
   \<exists>n s. unload_run k (replicate n None) w = Some ([], rm_goto w Rm_Device s) \<and>
     drain_hooks (uw_mod w) = Some (Inr s) \<and> holds s [] \<and>
     (\<forall>p. hooks s p = (if p \<in> set ps then None else hooks (uw_mod w) p))"
proof (induction ps arbitrary: w)
  case Nil
  then have "drain_hooks (uw_mod w) = Some (Inr (uw_mod w))"
    by (subst drain_hooks.simps) (simp add: pop_hook_empty)
  with Nil show ?case
    by (intro exI [of _ 1] exI [of _ "uw_mod w"]) (simp add: unload_steps holds_def)
next
  case (Cons p ps)
  obtain s1 where s1: "unload_run k (replicate 4 None) w = Some ([], rm_goto w Rm_Test s1)"
    "holds s1 ps" "hooks s1 = (hooks (uw_mod w))(p := None)"
    "drain_hooks (uw_mod w) = drain_hooks s1"
    by (rule unload_round [OF Cons.prems])
  from Cons.IH [of "rm_goto w Rm_Test s1"] s1(2) obtain n s where s:
    "unload_run k (replicate n None) (rm_goto w Rm_Test s1) = Some ([], rm_goto w Rm_Device s)"
    "drain_hooks s1 = Some (Inr s)" "holds s []"
    "\<forall>q. hooks s q = (if q \<in> set ps then None else hooks s1 q)"
    by (auto simp: rm_goto_def)
  from unload_run_append [OF s1(1) s(1)]
  have "unload_run k (replicate (4 + n) None) w = Some ([], rm_goto w Rm_Device s)"
    by (simp only: replicate_add append_Nil)
  with s s1(3,4) show ?case by (intro exI [of _ "4 + n"] exI [of _ s]) auto
qed

lemma unload_runs:
  assumes "uw_point w = Rm_Hijack" "sct_ok k (uw_mod w)" "NR_execve k < NR_syscalls k"
    and "holds (uw_mod w) ps"
  obtains n s where "unload_run k (replicate n None) w = Some ([], rm_goto w Rm_Done s)"
    "cleanup_spybot k (uw_mod w) = Some (Inr s)" "holds s []"
    "\<forall>p. hooks s p = (if p \<in> set ps then None else hooks (uw_mod w) p)"
    "hook_id s = hook_id (uw_mod w)"
proof -
  from assms(2,3) obtain s1 where s1: "removeSyscallHijack k (uw_mod w) = Inr s1"
    "s1 = (uw_mod w)\<lparr>kmem := kmem s1, ptes := ptes s1\<rparr>"
    by (rule removeSyscallHijack_store)
  have h: "hooks s1 = hooks (uw_mod w)" "hooks_list s1 = hooks_list (uw_mod w)"
    by (subst s1(2), simp)+
  have first: "unload_run k (replicate 1 None) w = Some ([], rm_goto w Rm_Test s1)"
    using assms(1) s1(1) by (simp add: unload_steps)
  from unload_drains [of "rm_goto w Rm_Test s1" ps k] assms(4) h obtain n s where s:
    "unload_run k (replicate n None) (rm_goto w Rm_Test s1) = Some ([], rm_goto w Rm_Device s)"
    "drain_hooks s1 = Some (Inr s)" "holds s []"
    "\<forall>p. hooks s p = (if p \<in> set ps then None else hooks s1 p)"
    by (auto simp: rm_goto_def holds_def)
  let ?s = "s\<lparr>cdev_added := False, chrdev_registered := False\<rparr>"
  have "unload_run k (replicate 1 None) (rm_goto w Rm_Device s) = Some ([], rm_goto w Rm_Done ?s)"
    by (simp add: unload_steps)
  from unload_run_append [OF first unload_run_append [OF s(1) this]]
  have "unload_run k (replicate (1 + (n + 1)) None) w = Some ([], rm_goto w Rm_Done ?s)"
    by (simp only: replicate_add append_Nil)
  moreover have "hook_id s = hook_id (uw_mod w)"
  proof -
    from h assms(4) have "holds s1 ps" by (simp add: holds_def)
    from drain_hooks_holds [OF this] s(2) have f: "s = s1\<lparr>hooks := hooks s, hooks_list := hooks_list s\<rparr>" by auto
    have "hook_id s = hook_id s1" by (subst f, simp)
    also have "\<dots> = hook_id (uw_mod w)" by (subst s1(2), simp)
    finally show ?thesis .
  qed
  moreover have "cleanup_spybot k (uw_mod w) = Some (Inr ?s)"
    using s(2) s1(1) by (simp add: cleanup_spybot_def)
  ultimately show thesis using s(3,4) h(1)
    by (intro that [of "1 + (n + 1)" ?s]) (simp_all add: holds_def)
qed

subsection \<open>A call inside the module\<close>

text \<open>A call that has the lock and looks at the first object, which is then freed.\<close>

lemma walk_meets_freed:
  assumes "hook_point_of (uw_calls w) t = Exec_Lock q" "hook_mutex (uw_calls w) = None"
    and "holds (uw_mod w) (p # ps)" "uw_point w = Rm_Hijack" "sct_ok k (uw_mod w)" "NR_execve k < NR_syscalls k"
  shows "\<exists>sch w'. unload_run k sch w = Some ([], w') \<and> hook_point_of (uw_calls w') t = Faulted BadPointer"
proof -
  let ?c = "uw_calls w"
  let ?c1 = "step_to t (Exec_Add HeadCell q) (hw_mod ?c) (Some t) ?c"
  have h1: "holds (hw_mod ?c1) (p # ps)" using assms(3) by (simp add: step_to_def)
  obtain pt where pt: "pt = Exec_Add (NextCell p) q \<or> pt = Exec_Link (NextCell p) q"
    "exec_add t HeadCell q ?c1 = step_to t pt (hw_mod ?c) (Some t) ?c"
  proof -
    from assms(3) obtain n where "hooks (uw_mod w) p = Some n" "p \<noteq> 0" "hooks_list (uw_mod w) = p"
      by (auto simp: holds_def split: option.splits)
    then show thesis
      by (intro that [of "if sh_next n \<noteq> 0 then Exec_Add (NextCell p) q else Exec_Link (NextCell p) q"])
        (simp_all add: exec_add_def rd_cell_def rd_hook_def step_to_def)
  qed
  let ?w1 = "w\<lparr>uw_calls := step_to t pt (hw_mod ?c) (Some t) ?c\<rparr>"
  obtain e :: hook_env where True by simp
  have "hook_run (replicate 2 (t, e)) ?c = Some ([], step_to t pt (hw_mod ?c) (Some t) ?c)"
    using assms(1,2) pt(2) by (simp add: numeral_2_eq_2 hook_statement_def take_mutex_def) (simp add: step_to_def)
  from unload_run_calls [OF this] have
    walk: "unload_run k (map Some (replicate 2 (t, e))) w = Some ([], ?w1)" .
  from assms(5,6) obtain s1 where s1: "removeSyscallHijack k (uw_mod w) = Inr s1"
    "s1 = (uw_mod w)\<lparr>kmem := kmem s1, ptes := ptes s1\<rparr>"
    by (rule removeSyscallHijack_store)
  let ?w2 = "rm_goto ?w1 Rm_Test s1"
  have first: "unload_run k (replicate 1 None) ?w1 = Some ([], ?w2)"
    using assms(4) s1(1) by (simp add: unload_steps step_to_def)
  have "hooks s1 = hooks (uw_mod w)" "hooks_list s1 = hooks_list (uw_mod w)"
    by (subst s1(2), simp)+
  then have "holds s1 (p # ps)" using assms(3) by (simp add: holds_def)
  then obtain s where s: "unload_run k (replicate 4 None) ?w2 = Some ([], rm_goto ?w2 Rm_Test s)"
    "hooks s = (hooks s1)(p := None)" "p \<noteq> 0"
    using unload_round [of ?w2 p ps k] by (auto simp: rm_goto_def)
  let ?w3 = "rm_goto ?w2 Rm_Test s"
  have "hook_run [(t, e)] (uw_calls ?w3) = Some ([], step_to t (Faulted BadPointer) s (Some t) (uw_calls ?w3))"
    using pt(1) s(2,3)
    by (auto simp: statement_defs Let_def rm_goto_def rd_cell_def wr_cell_def wr_hook_def rd_hook_def)
  from unload_run_append [OF walk unload_run_append [OF first unload_run_append [OF s(1) unload_run_calls [OF this]]]]
  show ?thesis by (auto intro!: exI simp: step_to_def)
qed

text \<open>C7: Nothing makes the removal of the module wait for the calls inside it, and it takes the
  hooks off the list without the lock.  Alone it does what \<open>cleanup_spybot\<close> does; but a call that
  walks along the list at the same time reaches an object that has been freed, and one that links
  its object later leaves it on the list of a module that is gone.\<close>

theorem unload_during_call:
  fixes e :: hook_env
  assumes "hook_point_of (uw_calls w) t = Exec_Alloc pid ppid" "he_block e = (q, blk)"
    and "fresh_block q blk (uw_mod w)" "hook_mutex (uw_calls w) = None" "holds (uw_mod w) (p # ps)"
    and "uw_point w = Rm_Hijack" "sct_ok k (uw_mod w)" "NR_execve k < NR_syscalls k"
  shows "(\<exists>n w'. unload_run k (replicate n None) w = Some ([], w') \<and> uw_point w' = Rm_Done \<and>
      cleanup_spybot k (uw_mod w) = Some (Inr (uw_mod w'))) \<and>
    (\<exists>sch w'. unload_run k sch w = Some ([], w') \<and> hook_point_of (uw_calls w') t = Faulted BadPointer) \<and>
    (\<exists>sch w'. unload_run k sch w = Some ([Added (hook_id (uw_mod w), pid, ppid)], w') \<and>
      uw_point w' = Rm_Done \<and> holds (uw_mod w') [q])"
proof (intro conjI)
  obtain n s where s: "unload_run k (replicate n None) w = Some ([], rm_goto w Rm_Done s)"
    "cleanup_spybot k (uw_mod w) = Some (Inr s)" "holds s []"
    "\<forall>x. hooks s x = (if x \<in> set (p # ps) then None else hooks (uw_mod w) x)"
    "hook_id s = hook_id (uw_mod w)"
    by (rule unload_runs [OF assms(6,7,8,5)])
  then show "\<exists>n w'. unload_run k (replicate n None) w = Some ([], w') \<and> uw_point w' = Rm_Done \<and>
      cleanup_spybot k (uw_mod w) = Some (Inr (uw_mod w'))"
    by (intro exI [of _ n] exI) (auto simp: rm_goto_def)
  obtain c m where c: "hook_run (replicate 3 (t, e)) (uw_calls w) = Some ([], c)"
    "hook_point_of c t = Exec_Lock q" "hook_mutex c = hook_mutex (uw_calls w)" "holds (hw_mod c) (p # ps)"
    by (rule run_prepare_holds [OF assms(1-3,5)])
  have "kmem (hw_mod c) = kmem (uw_mod w) \<and> ptes (hw_mod c) = ptes (uw_mod w) \<and>
      sys_call_table (hw_mod c) = sys_call_table (uw_mod w)"
    using c(1) run_prepare [OF assms(1,2)] assms(3) by (auto simp: fresh_block_def step_to_def)
  then have "sct_ok k (hw_mod c)" using assms(7) by (simp add: sct_ok_def sct_addr_def)
  then obtain sch w' where "unload_run k sch (w\<lparr>uw_calls := c\<rparr>) = Some ([], w')"
    "hook_point_of (uw_calls w') t = Faulted BadPointer"
    using walk_meets_freed [of "w\<lparr>uw_calls := c\<rparr>" t q p ps k] c(2-4) assms(4,6,8) by auto
  with unload_run_append [OF unload_run_calls [OF c(1)]] show
    "\<exists>sch w'. unload_run k sch w = Some ([], w') \<and> hook_point_of (uw_calls w') t = Faulted BadPointer"
    by (metis append_Nil)
  let ?v = "rm_goto w Rm_Done s"
  have v: "hook_point_of (uw_calls ?v) t = Exec_Alloc pid ppid" "hook_mutex (uw_calls ?v) = None"
    "hw_mod (uw_calls ?v) = s" "fresh_block q blk s"
    using assms(1,3,4) s(4) by (auto simp: rm_goto_def fresh_block_def)
  obtain c1 m1 where c1: "hook_run (replicate 3 (t, e)) (uw_calls ?v) = Some ([], c1)"
    "hook_point_of c1 t = Exec_Lock q" "hook_mutex c1 = hook_mutex (uw_calls ?v)" "holds (hw_mod c1) []"
    "q \<noteq> 0" "hooks (hw_mod c1) q = Some m1" "sh_next m1 = 0" "rec_of m1 = (hook_id s, pid, ppid)"
    by (rule run_prepare_holds [OF v(1) assms(2), of "[]"]) (use v(3,4) s(3) in auto)
  obtain j c2 where c2: "hook_run (replicate j (t, e)) c1 = Some ([Added (rec_of m1)], c2)"
    "holds (hw_mod c2) ([] @ [q])"
    by (rule run_publish_holds [OF c1(2) c1(3) [unfolded v(2)] c1(4,5) _ c1(6,7)]) simp
  have "unload_run k (map Some (replicate j (t, e))) (?v\<lparr>uw_calls := c1\<rparr>) =
      Some ([Added (rec_of m1)], ?v\<lparr>uw_calls := c2\<rparr>)"
    using unload_run_calls [of "replicate j (t, e)" "?v\<lparr>uw_calls := c1\<rparr>"] c2(1) by simp
  from unload_run_append [OF s(1) unload_run_append [OF unload_run_calls [OF c1(1)] this]] show "\<exists>sch w'. unload_run k sch w = Some ([Added (hook_id (uw_mod w), pid, ppid)], w') \<and>
      uw_point w' = Rm_Done \<and> holds (uw_mod w') [q]"
    using c1(8) s(5) c2(2) by (auto simp: rm_goto_def intro!: exI)
qed

lemma unload_during_call_witness:
  "\<exists>n sch sch' w1 w2 w3.
     unload_run ex_env (replicate n None) \<lparr>uw_calls = ex_calls ex_queue, uw_point = Rm_Hijack\<rparr> = Some ([], w1) \<and>
     cleanup_spybot ex_env ex_queue = Some (Inr (uw_mod w1)) \<and>
     unload_run ex_env sch \<lparr>uw_calls = ex_calls ex_queue, uw_point = Rm_Hijack\<rparr> = Some ([], w2) \<and>
     hook_point_of (uw_calls w2) 2 = Faulted BadPointer \<and>
     unload_run ex_env sch' \<lparr>uw_calls = ex_calls ex_queue, uw_point = Rm_Hijack\<rparr> =
       Some ([Added (1002, 2, 1)], w3) \<and> uw_point w3 = Rm_Done \<and> holds (uw_mod w3) [128]"
proof -
  have "hook_id ex_queue = 1002" by (simp add: ex_queue_def)
  then show ?thesis
    using unload_during_call [of "\<lparr>uw_calls = ex_calls ex_queue, uw_point = Rm_Hijack\<rparr>" 2 2 1
        "ex_block 128" 128 ex_node2 32 "[64]" ex_env] ex_free_blocks [of 128] ex_queue_holds ex_sct_ok(3)
    by (simp add: ex_block_def) blast
qed

end
