(* ===== verification/Sql_Rules.thy ===== *)
theory Sql_Rules
  imports Sql_Parser
begin

text \<open>
  The grammar that the tables of the parser were made from.  \<open>Backend/sqlite3.c\<close> has it as text,
  for tracing: the names of the symbols in \<open>yyTokenName\<close> and the rules in \<open>yyRuleName\<close>.  The
  right-hand sides are repeated here as numbers of symbols, where a position of a rule may allow
  several tokens, and written back to text they give the table of the source.  Then comes the
  language of the grammar.
\<close>

subsection \<open>Names of symbols\<close>

definition yyTokenName_1 :: "string list" where
  "yyTokenName_1 = [''$'', ''SEMI'', ''EXPLAIN'', ''QUERY'', ''PLAN'', ''BEGIN'', ''TRANSACTION'',
     ''DEFERRED'', ''IMMEDIATE'', ''EXCLUSIVE'', ''COMMIT'', ''END'', ''ROLLBACK'',
     ''SAVEPOINT'', ''RELEASE'', ''TO'', ''TABLE'', ''CREATE'', ''IF'', ''NOT'', ''EXISTS'',
     ''TEMP'', ''LP'', ''RP'', ''AS'', ''COMMA'', ''WITHOUT'', ''ABORT'', ''ACTION'',
     ''AFTER'', ''ANALYZE'', ''ASC'', ''ATTACH'', ''BEFORE'', ''BY'', ''CASCADE'', ''CAST'',
     ''CONFLICT'', ''DATABASE'', ''DESC'', ''DETACH'', ''EACH'', ''FAIL'', ''OR'', ''AND'',
     ''IS'', ''MATCH'', ''LIKE_KW'', ''BETWEEN'', ''IN'', ''ISNULL'', ''NOTNULL'', ''NE'',
     ''EQ'', ''GT'', ''LE'', ''LT'', ''GE'', ''ESCAPE'', ''ID'', ''COLUMNKW'', ''DO'',
     ''FOR'', ''IGNORE'', ''INITIALLY'', ''INSTEAD'', ''NO'', ''KEY'', ''OF'', ''OFFSET'',
     ''PRAGMA'', ''RAISE'', ''RECURSIVE'', ''REPLACE'', ''RESTRICT'', ''ROW'', ''ROWS'',
     ''TRIGGER'', ''VACUUM'', ''VIEW'', ''VIRTUAL'', ''WITH'', ''NULLS'', ''FIRST'',
     ''LAST'', ''CURRENT'', ''FOLLOWING'', ''PARTITION'', ''PRECEDING'', ''RANGE'',
     ''UNBOUNDED'', ''EXCLUDE'', ''GROUPS'', ''OTHERS'', ''TIES'', ''GENERATED'', ''ALWAYS'',
     ''MATERIALIZED'', ''REINDEX'', ''RENAME'', ''CTIME_KW'', ''ANY'', ''BITAND'', ''BITOR'',
     ''LSHIFT'', ''RSHIFT'', ''PLUS'']"

definition yyTokenName_2 :: "string list" where
  "yyTokenName_2 = [''MINUS'', ''STAR'', ''SLASH'', ''REM'', ''CONCAT'', ''PTR'', ''COLLATE'', ''BITNOT'',
     ''ON'', ''INDEXED'', ''STRING'', ''JOIN_KW'', ''CONSTRAINT'', ''DEFAULT'', ''NULL'',
     ''PRIMARY'', ''UNIQUE'', ''CHECK'', ''REFERENCES'', ''AUTOINCR'', ''INSERT'',
     ''DELETE'', ''UPDATE'', ''SET'', ''DEFERRABLE'', ''FOREIGN'', ''DROP'', ''UNION'',
     ''ALL'', ''EXCEPT'', ''INTERSECT'', ''SELECT'', ''VALUES'', ''DISTINCT'', ''DOT'',
     ''FROM'', ''JOIN'', ''USING'', ''ORDER'', ''GROUP'', ''HAVING'', ''LIMIT'', ''WHERE'',
     ''RETURNING'', ''INTO'', ''NOTHING'', ''FLOAT'', ''BLOB'', ''INTEGER'', ''VARIABLE'',
     ''CASE'', ''WHEN'', ''THEN'', ''ELSE'', ''INDEX'', ''ALTER'', ''ADD'', ''WINDOW'',
     ''OVER'', ''FILTER'', ''COLUMN'', ''AGG_FUNCTION'', ''AGG_COLUMN'', ''TRUEFALSE'',
     ''ISNOT'', ''FUNCTION'', ''UMINUS'', ''UPLUS'', ''TRUTH'', ''REGISTER'', ''VECTOR'',
     ''SELECT_COLUMN'', ''IF_NULL_ROW'', ''ASTERISK'', ''SPAN'', ''ERROR'', ''SPACE'',
     ''ILLEGAL'', ''input'', ''cmdlist'', ''ecmd'', ''cmdx'', ''explain'', ''cmd'',
     ''transtype'', ''trans_opt'', ''nm'', ''savepoint_opt'', ''create_table'',
     ''create_table_args'', ''createkw'', ''temp'', ''ifnotexists'', ''dbnm'',
     ''columnlist'', ''conslist_opt'', ''table_option_set'', ''select'', ''table_option'',
     ''columnname'', ''carglist'', ''typetoken'', ''typename'', ''signed'', ''plus_num'',
     ''minus_num'', ''scanpt'']"

definition yyTokenName_3 :: "string list" where
  "yyTokenName_3 = [''scantok'', ''ccons'', ''term'', ''expr'', ''onconf'', ''sortorder'', ''autoinc'',
     ''eidlist_opt'', ''refargs'', ''defer_subclause'', ''generated'', ''refarg'',
     ''refact'', ''init_deferred_pred_opt'', ''conslist'', ''tconscomma'', ''tcons'',
     ''sortlist'', ''eidlist'', ''defer_subclause_opt'', ''orconf'', ''resolvetype'',
     ''raisetype'', ''ifexists'', ''fullname'', ''selectnowith'', ''oneselect'', ''wqlist'',
     ''multiselect_op'', ''distinct'', ''selcollist'', ''from'', ''where_opt'',
     ''groupby_opt'', ''having_opt'', ''orderby_opt'', ''limit_opt'', ''window_clause'',
     ''values'', ''nexprlist'', ''sclp'', ''as'', ''seltablist'', ''stl_prefix'', ''joinop'',
     ''on_using'', ''indexed_by'', ''exprlist'', ''xfullname'', ''idlist'', ''indexed_opt'',
     ''nulls'', ''with'', ''where_opt_ret'', ''setlist'', ''insert_cmd'', ''idlist_opt'',
     ''upsert'', ''returning'', ''filter_over'', ''likeop'', ''between_op'', ''in_op'',
     ''paren_exprlist'', ''case_operand'', ''case_exprlist'', ''case_else'', ''uniqueflag'',
     ''collate'', ''vinto'', ''nmnum'', ''trigger_decl'', ''trigger_cmd_list'',
     ''trigger_time'', ''trigger_event'', ''foreach_clause'', ''when_clause'',
     ''trigger_cmd'', ''trnm'', ''tridxby'', ''database_kw_opt'', ''key_opt'',
     ''add_column_fullname'', ''kwcolumn_opt'', ''create_vtab'', ''vtabarglist'',
     ''vtabarg'', ''vtabargtoken'', ''lp'', ''anylist'', ''wqitem'', ''wqas'',
     ''windowdefn_list'', ''windowdefn'', ''window'', ''frame_opt'', ''part_opt'',
     ''filter_clause'', ''over_clause'', ''range_or_rows'', ''frame_bound'',
     ''frame_bound_s'', ''frame_bound_e'', ''frame_exclude_opt'', ''frame_exclude'']"

definition yyTokenName :: "string list" where
  "yyTokenName = yyTokenName_1 @ yyTokenName_2 @ yyTokenName_3"

lemma yyTokenName_lengths:
  "length yyTokenName_1 = 107" "length yyTokenName_2 = 107" "length yyTokenName_3 = 105"
  "length yyTokenName = 319"
  by (simp_all add: yyTokenName_1_def yyTokenName_2_def yyTokenName_3_def yyTokenName_def)

lemma yyTokenName_1_entries: "part_at yyTokenName 0 yyTokenName_1"
  unfolding part_at_def
  by (rule exI [of _ "[]"], rule exI [of _ "yyTokenName_2 @ yyTokenName_3"]) (simp add: yyTokenName_def yyTokenName_lengths)

lemma yyTokenName_2_entries: "part_at yyTokenName 107 yyTokenName_2"
  unfolding part_at_def
  by (rule exI [of _ "yyTokenName_1"], rule exI [of _ "yyTokenName_3"]) (simp add: yyTokenName_def yyTokenName_lengths)

lemma yyTokenName_3_entries: "part_at yyTokenName 214 yyTokenName_3"
  unfolding part_at_def
  by (rule exI [of _ "yyTokenName_1 @ yyTokenName_2"], rule exI [of _ "[]"]) (simp add: yyTokenName_def yyTokenName_lengths)

lemmas yyTokenName_at [simp] =
  entries_of_part [OF yyTokenName_1_entries yyTokenName_1_def, unfolded table_index, unfolded One_nat_def]
  entries_of_part [OF yyTokenName_2_entries yyTokenName_2_def, unfolded table_index, unfolded One_nat_def]
  entries_of_part [OF yyTokenName_3_entries yyTokenName_3_def, unfolded table_index, unfolded One_nat_def]

subsection \<open>Rules\<close>

definition yyRuleName_1 :: "string list" where
  "yyRuleName_1 = [''explain ::= EXPLAIN'', ''explain ::= EXPLAIN QUERY PLAN'', ''cmdx ::= cmd'',
     ''cmd ::= BEGIN transtype trans_opt'', ''transtype ::='', ''transtype ::= DEFERRED'',
     ''transtype ::= IMMEDIATE'', ''transtype ::= EXCLUSIVE'',
     ''cmd ::= COMMIT|END trans_opt'', ''cmd ::= ROLLBACK trans_opt'',
     ''cmd ::= SAVEPOINT nm'', ''cmd ::= RELEASE savepoint_opt nm'',
     ''cmd ::= ROLLBACK trans_opt TO savepoint_opt nm'',
     ''create_table ::= createkw temp TABLE ifnotexists nm dbnm'', ''createkw ::= CREATE'',
     ''ifnotexists ::='', ''ifnotexists ::= IF NOT EXISTS'', ''temp ::= TEMP'', ''temp ::='',
     ''create_table_args ::= LP columnlist conslist_opt RP table_option_set'',
     ''create_table_args ::= AS select'', ''table_option_set ::='',
     ''table_option_set ::= table_option_set COMMA table_option'',
     ''table_option ::= WITHOUT nm'', ''table_option ::= nm'',
     ''columnname ::= nm typetoken'', ''typetoken ::='',
     ''typetoken ::= typename LP signed RP'',
     ''typetoken ::= typename LP signed COMMA signed RP'',
     ''typename ::= typename ID|STRING'', ''scanpt ::='', ''scantok ::='',
     ''ccons ::= CONSTRAINT nm'', ''ccons ::= DEFAULT scantok term'',
     ''ccons ::= DEFAULT LP expr RP'', ''ccons ::= DEFAULT PLUS scantok term'',
     ''ccons ::= DEFAULT MINUS scantok term'', ''ccons ::= DEFAULT scantok ID|INDEXED'',
     ''ccons ::= NOT NULL onconf'', ''ccons ::= PRIMARY KEY sortorder onconf autoinc'',
     ''ccons ::= UNIQUE onconf'', ''ccons ::= CHECK LP expr RP'',
     ''ccons ::= REFERENCES nm eidlist_opt refargs'', ''ccons ::= defer_subclause'',
     ''ccons ::= COLLATE ID|STRING'', ''generated ::= LP expr RP'',
     ''generated ::= LP expr RP ID'', ''autoinc ::='', ''autoinc ::= AUTOINCR'',
     ''refargs ::='', ''refargs ::= refargs refarg'', ''refarg ::= MATCH nm'',
     ''refarg ::= ON INSERT refact'', ''refarg ::= ON DELETE refact'',
     ''refarg ::= ON UPDATE refact'', ''refact ::= SET NULL'', ''refact ::= SET DEFAULT'',
     ''refact ::= CASCADE'', ''refact ::= RESTRICT'', ''refact ::= NO ACTION'',
     ''defer_subclause ::= NOT DEFERRABLE init_deferred_pred_opt'',
     ''defer_subclause ::= DEFERRABLE init_deferred_pred_opt'',
     ''init_deferred_pred_opt ::='', ''init_deferred_pred_opt ::= INITIALLY DEFERRED'',
     ''init_deferred_pred_opt ::= INITIALLY IMMEDIATE'', ''conslist_opt ::='',
     ''tconscomma ::= COMMA'', ''tcons ::= CONSTRAINT nm'',
     ''tcons ::= PRIMARY KEY LP sortlist autoinc RP onconf'',
     ''tcons ::= UNIQUE LP sortlist RP onconf'', ''tcons ::= CHECK LP expr RP onconf'',
     ''tcons ::= FOREIGN KEY LP eidlist RP REFERENCES nm eidlist_opt refargs defer_subclause_opt'',
     ''defer_subclause_opt ::='', ''onconf ::='', ''onconf ::= ON CONFLICT resolvetype'',
     ''orconf ::='', ''orconf ::= OR resolvetype'', ''resolvetype ::= IGNORE'',
     ''resolvetype ::= REPLACE'', ''cmd ::= DROP TABLE ifexists fullname'',
     ''ifexists ::= IF EXISTS'', ''ifexists ::='',
     ''cmd ::= createkw temp VIEW ifnotexists nm dbnm eidlist_opt AS select'',
     ''cmd ::= DROP VIEW ifexists fullname'', ''cmd ::= select'',
     ''select ::= WITH wqlist selectnowith'',
     ''select ::= WITH RECURSIVE wqlist selectnowith'', ''select ::= selectnowith'',
     ''selectnowith ::= selectnowith multiselect_op oneselect'',
     ''multiselect_op ::= UNION'', ''multiselect_op ::= UNION ALL'',
     ''multiselect_op ::= EXCEPT|INTERSECT'',
     ''oneselect ::= SELECT distinct selcollist from where_opt groupby_opt having_opt orderby_opt limit_opt'',
     ''oneselect ::= SELECT distinct selcollist from where_opt groupby_opt having_opt window_clause orderby_opt limit_opt'',
     ''values ::= VALUES LP nexprlist RP'', ''values ::= values COMMA LP nexprlist RP'',
     ''distinct ::= DISTINCT'', ''distinct ::= ALL'', ''distinct ::='', ''sclp ::='',
     ''selcollist ::= sclp scanpt expr scanpt as'', ''selcollist ::= sclp scanpt STAR'',
     ''selcollist ::= sclp scanpt nm DOT STAR'', ''as ::= AS nm'', ''as ::='', ''from ::='',
     ''from ::= FROM seltablist'', ''stl_prefix ::= seltablist joinop'', ''stl_prefix ::='',
     ''seltablist ::= stl_prefix nm dbnm as on_using'',
     ''seltablist ::= stl_prefix nm dbnm as indexed_by on_using'',
     ''seltablist ::= stl_prefix nm dbnm LP exprlist RP as on_using'',
     ''seltablist ::= stl_prefix LP select RP as on_using'',
     ''seltablist ::= stl_prefix LP seltablist RP as on_using'', ''dbnm ::='',
     ''dbnm ::= DOT nm'', ''fullname ::= nm'', ''fullname ::= nm DOT nm'',
     ''xfullname ::= nm'', ''xfullname ::= nm DOT nm'', ''xfullname ::= nm DOT nm AS nm'',
     ''xfullname ::= nm AS nm'', ''joinop ::= COMMA|JOIN'', ''joinop ::= JOIN_KW JOIN'',
     ''joinop ::= JOIN_KW nm JOIN'', ''joinop ::= JOIN_KW nm nm JOIN'',
     ''on_using ::= ON expr'', ''on_using ::= USING LP idlist RP'', ''on_using ::='',
     ''indexed_opt ::='', ''indexed_by ::= INDEXED BY nm'', ''indexed_by ::= NOT INDEXED'',
     ''orderby_opt ::='', ''orderby_opt ::= ORDER BY sortlist'',
     ''sortlist ::= sortlist COMMA expr sortorder nulls'']"

definition yyRuleName_2 :: "string list" where
  "yyRuleName_2 = [''sortlist ::= expr sortorder nulls'', ''sortorder ::= ASC'', ''sortorder ::= DESC'',
     ''sortorder ::='', ''nulls ::= NULLS FIRST'', ''nulls ::= NULLS LAST'', ''nulls ::='',
     ''groupby_opt ::='', ''groupby_opt ::= GROUP BY nexprlist'', ''having_opt ::='',
     ''having_opt ::= HAVING expr'', ''limit_opt ::='', ''limit_opt ::= LIMIT expr'',
     ''limit_opt ::= LIMIT expr OFFSET expr'', ''limit_opt ::= LIMIT expr COMMA expr'',
     ''cmd ::= with DELETE FROM xfullname indexed_opt where_opt_ret'', ''where_opt ::='',
     ''where_opt ::= WHERE expr'', ''where_opt_ret ::='', ''where_opt_ret ::= WHERE expr'',
     ''where_opt_ret ::= RETURNING selcollist'',
     ''where_opt_ret ::= WHERE expr RETURNING selcollist'',
     ''cmd ::= with UPDATE orconf xfullname indexed_opt SET setlist from where_opt_ret'',
     ''setlist ::= setlist COMMA nm EQ expr'',
     ''setlist ::= setlist COMMA LP idlist RP EQ expr'', ''setlist ::= nm EQ expr'',
     ''setlist ::= LP idlist RP EQ expr'',
     ''cmd ::= with insert_cmd INTO xfullname idlist_opt select upsert'',
     ''cmd ::= with insert_cmd INTO xfullname idlist_opt DEFAULT VALUES returning'',
     ''upsert ::='', ''upsert ::= RETURNING selcollist'',
     ''upsert ::= ON CONFLICT LP sortlist RP where_opt DO UPDATE SET setlist where_opt upsert'',
     ''upsert ::= ON CONFLICT LP sortlist RP where_opt DO NOTHING upsert'',
     ''upsert ::= ON CONFLICT DO NOTHING returning'',
     ''upsert ::= ON CONFLICT DO UPDATE SET setlist where_opt returning'',
     ''returning ::= RETURNING selcollist'', ''insert_cmd ::= INSERT orconf'',
     ''insert_cmd ::= REPLACE'', ''idlist_opt ::='', ''idlist_opt ::= LP idlist RP'',
     ''idlist ::= idlist COMMA nm'', ''idlist ::= nm'', ''expr ::= LP expr RP'',
     ''expr ::= ID|INDEXED'', ''expr ::= JOIN_KW'', ''expr ::= nm DOT nm'',
     ''expr ::= nm DOT nm DOT nm'', ''term ::= NULL|FLOAT|BLOB'', ''term ::= STRING'',
     ''term ::= INTEGER'', ''expr ::= VARIABLE'', ''expr ::= expr COLLATE ID|STRING'',
     ''expr ::= CAST LP expr AS typetoken RP'',
     ''expr ::= ID|INDEXED LP distinct exprlist RP'', ''expr ::= ID|INDEXED LP STAR RP'',
     ''expr ::= ID|INDEXED LP distinct exprlist RP filter_over'',
     ''expr ::= ID|INDEXED LP STAR RP filter_over'', ''term ::= CTIME_KW'',
     ''expr ::= LP nexprlist COMMA expr RP'', ''expr ::= expr AND expr'',
     ''expr ::= expr OR expr'', ''expr ::= expr LT|GT|GE|LE expr'',
     ''expr ::= expr EQ|NE expr'', ''expr ::= expr BITAND|BITOR|LSHIFT|RSHIFT expr'',
     ''expr ::= expr PLUS|MINUS expr'', ''expr ::= expr STAR|SLASH|REM expr'',
     ''expr ::= expr CONCAT expr'', ''likeop ::= NOT LIKE_KW|MATCH'',
     ''expr ::= expr likeop expr'', ''expr ::= expr likeop expr ESCAPE expr'',
     ''expr ::= expr ISNULL|NOTNULL'', ''expr ::= expr NOT NULL'', ''expr ::= expr IS expr'',
     ''expr ::= expr IS NOT expr'', ''expr ::= expr IS NOT DISTINCT FROM expr'',
     ''expr ::= expr IS DISTINCT FROM expr'', ''expr ::= NOT expr'',
     ''expr ::= BITNOT expr'', ''expr ::= PLUS|MINUS expr'', ''expr ::= expr PTR expr'',
     ''between_op ::= BETWEEN'', ''between_op ::= NOT BETWEEN'',
     ''expr ::= expr between_op expr AND expr'', ''in_op ::= IN'', ''in_op ::= NOT IN'',
     ''expr ::= expr in_op LP exprlist RP'', ''expr ::= LP select RP'',
     ''expr ::= expr in_op LP select RP'', ''expr ::= expr in_op nm dbnm paren_exprlist'',
     ''expr ::= EXISTS LP select RP'',
     ''expr ::= CASE case_operand case_exprlist case_else END'',
     ''case_exprlist ::= case_exprlist WHEN expr THEN expr'',
     ''case_exprlist ::= WHEN expr THEN expr'', ''case_else ::= ELSE expr'',
     ''case_else ::='', ''case_operand ::= expr'', ''case_operand ::='', ''exprlist ::='',
     ''nexprlist ::= nexprlist COMMA expr'', ''nexprlist ::= expr'', ''paren_exprlist ::='',
     ''paren_exprlist ::= LP exprlist RP'',
     ''cmd ::= createkw uniqueflag INDEX ifnotexists nm dbnm ON nm LP sortlist RP where_opt'',
     ''uniqueflag ::= UNIQUE'', ''uniqueflag ::='', ''eidlist_opt ::='',
     ''eidlist_opt ::= LP eidlist RP'', ''eidlist ::= eidlist COMMA nm collate sortorder'',
     ''eidlist ::= nm collate sortorder'', ''collate ::='',
     ''collate ::= COLLATE ID|STRING'', ''cmd ::= DROP INDEX ifexists fullname'',
     ''cmd ::= VACUUM vinto'', ''cmd ::= VACUUM nm vinto'', ''vinto ::= INTO expr'',
     ''vinto ::='', ''cmd ::= PRAGMA nm dbnm'', ''cmd ::= PRAGMA nm dbnm EQ nmnum'',
     ''cmd ::= PRAGMA nm dbnm LP nmnum RP'', ''cmd ::= PRAGMA nm dbnm EQ minus_num'',
     ''cmd ::= PRAGMA nm dbnm LP minus_num RP'', ''plus_num ::= PLUS INTEGER|FLOAT'',
     ''minus_num ::= MINUS INTEGER|FLOAT'',
     ''cmd ::= createkw trigger_decl BEGIN trigger_cmd_list END'',
     ''trigger_decl ::= temp TRIGGER ifnotexists nm dbnm trigger_time trigger_event ON fullname foreach_clause when_clause'',
     ''trigger_time ::= BEFORE|AFTER'', ''trigger_time ::= INSTEAD OF'',
     ''trigger_time ::='', ''trigger_event ::= DELETE|INSERT'', ''trigger_event ::= UPDATE'',
     ''trigger_event ::= UPDATE OF idlist'', ''when_clause ::='',
     ''when_clause ::= WHEN expr'',
     ''trigger_cmd_list ::= trigger_cmd_list trigger_cmd SEMI'',
     ''trigger_cmd_list ::= trigger_cmd SEMI'']"

definition yyRuleName_3 :: "string list" where
  "yyRuleName_3 = [''trnm ::= nm DOT nm'', ''tridxby ::= INDEXED BY nm'', ''tridxby ::= NOT INDEXED'',
     ''trigger_cmd ::= UPDATE orconf trnm tridxby SET setlist from where_opt scanpt'',
     ''trigger_cmd ::= scanpt insert_cmd INTO trnm idlist_opt select upsert scanpt'',
     ''trigger_cmd ::= DELETE FROM trnm tridxby where_opt scanpt'',
     ''trigger_cmd ::= scanpt select scanpt'', ''expr ::= RAISE LP IGNORE RP'',
     ''expr ::= RAISE LP raisetype COMMA nm RP'', ''raisetype ::= ROLLBACK'',
     ''raisetype ::= ABORT'', ''raisetype ::= FAIL'',
     ''cmd ::= DROP TRIGGER ifexists fullname'',
     ''cmd ::= ATTACH database_kw_opt expr AS expr key_opt'',
     ''cmd ::= DETACH database_kw_opt expr'', ''key_opt ::='', ''key_opt ::= KEY expr'',
     ''cmd ::= REINDEX'', ''cmd ::= REINDEX nm dbnm'', ''cmd ::= ANALYZE'',
     ''cmd ::= ANALYZE nm dbnm'', ''cmd ::= ALTER TABLE fullname RENAME TO nm'',
     ''cmd ::= ALTER TABLE add_column_fullname ADD kwcolumn_opt columnname carglist'',
     ''cmd ::= ALTER TABLE fullname DROP kwcolumn_opt nm'',
     ''add_column_fullname ::= fullname'',
     ''cmd ::= ALTER TABLE fullname RENAME kwcolumn_opt nm TO nm'', ''cmd ::= create_vtab'',
     ''cmd ::= create_vtab LP vtabarglist RP'',
     ''create_vtab ::= createkw VIRTUAL TABLE ifnotexists nm dbnm USING nm'',
     ''vtabarg ::='', ''vtabargtoken ::= ANY'', ''vtabargtoken ::= lp anylist RP'',
     ''lp ::= LP'', ''with ::= WITH wqlist'', ''with ::= WITH RECURSIVE wqlist'',
     ''wqas ::= AS'', ''wqas ::= AS MATERIALIZED'', ''wqas ::= AS NOT MATERIALIZED'',
     ''wqitem ::= nm eidlist_opt wqas LP select RP'', ''wqlist ::= wqitem'',
     ''wqlist ::= wqlist COMMA wqitem'', ''windowdefn_list ::= windowdefn'',
     ''windowdefn_list ::= windowdefn_list COMMA windowdefn'',
     ''windowdefn ::= nm AS LP window RP'',
     ''window ::= PARTITION BY nexprlist orderby_opt frame_opt'',
     ''window ::= nm PARTITION BY nexprlist orderby_opt frame_opt'',
     ''window ::= ORDER BY sortlist frame_opt'',
     ''window ::= nm ORDER BY sortlist frame_opt'', ''window ::= frame_opt'',
     ''window ::= nm frame_opt'', ''frame_opt ::='',
     ''frame_opt ::= range_or_rows frame_bound_s frame_exclude_opt'',
     ''frame_opt ::= range_or_rows BETWEEN frame_bound_s AND frame_bound_e frame_exclude_opt'',
     ''range_or_rows ::= RANGE|ROWS|GROUPS'', ''frame_bound_s ::= frame_bound'',
     ''frame_bound_s ::= UNBOUNDED PRECEDING'', ''frame_bound_e ::= frame_bound'',
     ''frame_bound_e ::= UNBOUNDED FOLLOWING'', ''frame_bound ::= expr PRECEDING|FOLLOWING'',
     ''frame_bound ::= CURRENT ROW'', ''frame_exclude_opt ::='',
     ''frame_exclude_opt ::= EXCLUDE frame_exclude'', ''frame_exclude ::= NO OTHERS'',
     ''frame_exclude ::= CURRENT ROW'', ''frame_exclude ::= GROUP|TIES'',
     ''window_clause ::= WINDOW windowdefn_list'',
     ''filter_over ::= filter_clause over_clause'', ''filter_over ::= over_clause'',
     ''filter_over ::= filter_clause'', ''over_clause ::= OVER LP window RP'',
     ''over_clause ::= OVER nm'', ''filter_clause ::= FILTER LP WHERE expr RP'',
     ''input ::= cmdlist'', ''cmdlist ::= cmdlist ecmd'', ''cmdlist ::= ecmd'',
     ''ecmd ::= SEMI'', ''ecmd ::= cmdx SEMI'', ''ecmd ::= explain cmdx SEMI'',
     ''trans_opt ::='', ''trans_opt ::= TRANSACTION'', ''trans_opt ::= TRANSACTION nm'',
     ''savepoint_opt ::= SAVEPOINT'', ''savepoint_opt ::='',
     ''cmd ::= create_table create_table_args'', ''table_option_set ::= table_option'',
     ''columnlist ::= columnlist COMMA columnname carglist'',
     ''columnlist ::= columnname carglist'', ''nm ::= ID|INDEXED'', ''nm ::= STRING'',
     ''nm ::= JOIN_KW'', ''typetoken ::= typename'', ''typename ::= ID|STRING'',
     ''signed ::= plus_num'', ''signed ::= minus_num'', ''carglist ::= carglist ccons'',
     ''carglist ::='', ''ccons ::= NULL onconf'',
     ''ccons ::= GENERATED ALWAYS AS generated'', ''ccons ::= AS generated'',
     ''conslist_opt ::= COMMA conslist'', ''conslist ::= conslist tconscomma tcons'',
     ''conslist ::= tcons'', ''tconscomma ::='', ''defer_subclause_opt ::= defer_subclause'',
     ''resolvetype ::= raisetype'', ''selectnowith ::= oneselect'', ''oneselect ::= values'',
     ''sclp ::= selcollist COMMA'', ''as ::= ID|STRING'', ''indexed_opt ::= indexed_by'',
     ''returning ::='', ''expr ::= term'', ''likeop ::= LIKE_KW|MATCH'',
     ''exprlist ::= nexprlist'', ''nmnum ::= plus_num'', ''nmnum ::= nm'', ''nmnum ::= ON'',
     ''nmnum ::= DELETE'', ''nmnum ::= DEFAULT'', ''plus_num ::= INTEGER|FLOAT'',
     ''foreach_clause ::='', ''foreach_clause ::= FOR EACH ROW'', ''trnm ::= nm'',
     ''tridxby ::='', ''database_kw_opt ::= DATABASE'', ''database_kw_opt ::='',
     ''kwcolumn_opt ::='', ''kwcolumn_opt ::= COLUMNKW'', ''vtabarglist ::= vtabarg'',
     ''vtabarglist ::= vtabarglist COMMA vtabarg'', ''vtabarg ::= vtabarg vtabargtoken'',
     ''anylist ::='', ''anylist ::= anylist LP anylist RP'', ''anylist ::= anylist ANY'',
     ''with ::='']"

definition yyRuleName :: "string list" where
  "yyRuleName = yyRuleName_1 @ yyRuleName_2 @ yyRuleName_3"

lemma yyRuleName_lengths:
  "length yyRuleName_1 = 135" "length yyRuleName_2 = 135" "length yyRuleName_3 = 135"
  "length yyRuleName = 405"
  by (simp_all add: yyRuleName_1_def yyRuleName_2_def yyRuleName_3_def yyRuleName_def)

lemma yyRuleName_1_entries: "part_at yyRuleName 0 yyRuleName_1"
  unfolding part_at_def
  by (rule exI [of _ "[]"], rule exI [of _ "yyRuleName_2 @ yyRuleName_3"]) (simp add: yyRuleName_def yyRuleName_lengths)

lemma yyRuleName_2_entries: "part_at yyRuleName 135 yyRuleName_2"
  unfolding part_at_def
  by (rule exI [of _ "yyRuleName_1"], rule exI [of _ "yyRuleName_3"]) (simp add: yyRuleName_def yyRuleName_lengths)

lemma yyRuleName_3_entries: "part_at yyRuleName 270 yyRuleName_3"
  unfolding part_at_def
  by (rule exI [of _ "yyRuleName_1 @ yyRuleName_2"], rule exI [of _ "[]"]) (simp add: yyRuleName_def yyRuleName_lengths)

lemmas yyRuleName_at [simp] =
  entries_of_part [OF yyRuleName_1_entries yyRuleName_1_def, unfolded table_index, unfolded One_nat_def]
  entries_of_part [OF yyRuleName_2_entries yyRuleName_2_def, unfolded table_index, unfolded One_nat_def]
  entries_of_part [OF yyRuleName_3_entries yyRuleName_3_def, unfolded table_index, unfolded One_nat_def]

text \<open>The symbols of the right-hand sides.\<close>

definition rule_rhs_1 :: "nat list list list" where
  "rule_rhs_1 = [[[2]], [[2], [3], [4]], [[190]], [[5], [191], [192]], [], [[7]], [[8]], [[9]],
     [[10, 11], [192]], [[12], [192]], [[13], [193]], [[14], [194], [193]],
     [[12], [192], [15], [194], [193]], [[197], [198], [16], [199], [193], [200]], [[17]],
     [], [[18], [19], [20]], [[21]], [], [[22], [201], [202], [23], [203]], [[24], [204]],
     [], [[203], [25], [205]], [[26], [193]], [[193]], [[193], [208]], [],
     [[209], [22], [210], [23]], [[209], [22], [210], [25], [210], [23]], [[209], [59, 117]],
     [], [], [[119], [193]], [[120], [214], [216]], [[120], [22], [217], [23]],
     [[120], [106], [214], [216]], [[120], [107], [214], [216]], [[120], [214], [59, 116]],
     [[19], [121], [218]], [[122], [67], [219], [218], [220]], [[123], [218]],
     [[124], [22], [217], [23]], [[125], [193], [221], [222]], [[223]], [[113], [59, 117]],
     [[22], [217], [23]], [[22], [217], [23], [59]], [], [[126]], [], [[222], [225]],
     [[46], [193]], [[115], [127], [226]], [[115], [128], [226]], [[115], [129], [226]],
     [[130], [121]], [[130], [120]], [[35]], [[74]], [[66], [28]], [[19], [131], [227]],
     [[131], [227]], [], [[64], [7]], [[64], [8]], [], [[25]], [[119], [193]],
     [[122], [67], [22], [231], [220], [23], [218]], [[123], [22], [231], [23], [218]],
     [[124], [22], [217], [23], [218]],
     [[132], [67], [22], [232], [23], [125], [193], [221], [222], [233]], [], [],
     [[115], [37], [235]], [], [[43], [235]], [[63]], [[73]], [[133], [16], [237], [238]],
     [[18], [20]], [], [[197], [198], [79], [199], [193], [200], [221], [24], [204]],
     [[133], [79], [237], [238]], [[204]], [[81], [241], [239]], [[81], [72], [241], [239]],
     [[239]], [[239], [242], [240]], [[134]], [[134], [135]], [[136, 137]],
     [[138], [243], [244], [245], [246], [247], [248], [249], [250]],
     [[138], [243], [244], [245], [246], [247], [248], [251], [249], [250]],
     [[139], [22], [253], [23]], [[252], [25], [22], [253], [23]], [[140]], [[135]], [], [],
     [[254], [213], [217], [213], [255]], [[254], [213], [108]],
     [[254], [213], [193], [141], [108]], [[24], [193]], [], [], [[142], [256]],
     [[256], [258]], [], [[257], [193], [200], [255], [259]],
     [[257], [193], [200], [255], [260], [259]],
     [[257], [193], [200], [22], [261], [23], [255], [259]],
     [[257], [22], [204], [23], [255], [259]], [[257], [22], [256], [23], [255], [259]], [],
     [[141], [193]], [[193]], [[193], [141], [193]], [[193]], [[193], [141], [193]],
     [[193], [141], [193], [24], [193]], [[193], [24], [193]], [[25, 143]], [[118], [143]],
     [[118], [193], [143]], [[118], [193], [193], [143]], [[115], [217]],
     [[144], [22], [263], [23]], [], [], [[116], [34], [193]], [[19], [116]], [],
     [[145], [34], [231]], [[231], [25], [217], [219], [265]]]"

definition rule_rhs_2 :: "nat list list list" where
  "rule_rhs_2 = [[[217], [219], [265]], [[31]], [[39]], [], [[82], [83]], [[82], [84]], [], [],
     [[146], [34], [253]], [], [[147], [217]], [], [[148], [217]],
     [[148], [217], [69], [217]], [[148], [217], [25], [217]],
     [[266], [128], [142], [262], [264], [267]], [], [[149], [217]], [], [[149], [217]],
     [[150], [244]], [[149], [217], [150], [244]],
     [[266], [129], [234], [262], [264], [130], [268], [245], [267]],
     [[268], [25], [193], [53], [217]], [[268], [25], [22], [263], [23], [53], [217]],
     [[193], [53], [217]], [[22], [263], [23], [53], [217]],
     [[266], [269], [151], [262], [270], [204], [271]],
     [[266], [269], [151], [262], [270], [120], [139], [272]], [], [[150], [244]],
     [[115], [37], [22], [231], [23], [246], [61], [129], [130], [268], [246], [271]],
     [[115], [37], [22], [231], [23], [246], [61], [152], [271]],
     [[115], [37], [61], [152], [272]],
     [[115], [37], [61], [129], [130], [268], [246], [272]], [[150], [244]], [[127], [234]],
     [[73]], [], [[22], [263], [23]], [[263], [25], [193]], [[193]], [[22], [217], [23]],
     [[59, 116]], [[118]], [[193], [141], [193]], [[193], [141], [193], [141], [193]],
     [[121, 153, 154]], [[117]], [[155]], [[156]], [[217], [113], [59, 117]],
     [[36], [22], [217], [24], [208], [23]], [[59, 116], [22], [243], [261], [23]],
     [[59, 116], [22], [108], [23]], [[59, 116], [22], [243], [261], [23], [273]],
     [[59, 116], [22], [108], [23], [273]], [[100]], [[22], [253], [25], [217], [23]],
     [[217], [44], [217]], [[217], [43], [217]], [[217], [56, 54, 57, 55], [217]],
     [[217], [53, 52], [217]], [[217], [102, 103, 104, 105], [217]],
     [[217], [106, 107], [217]], [[217], [108, 109, 110], [217]], [[217], [111], [217]],
     [[19], [47, 46]], [[217], [274], [217]], [[217], [274], [217], [58], [217]],
     [[217], [50, 51]], [[217], [19], [121]], [[217], [45], [217]],
     [[217], [45], [19], [217]], [[217], [45], [19], [140], [142], [217]],
     [[217], [45], [140], [142], [217]], [[19], [217]], [[114], [217]], [[106, 107], [217]],
     [[217], [112], [217]], [[48]], [[19], [48]], [[217], [275], [217], [44], [217]], [[49]],
     [[19], [49]], [[217], [276], [22], [261], [23]], [[22], [204], [23]],
     [[217], [276], [22], [204], [23]], [[217], [276], [193], [200], [277]],
     [[20], [22], [204], [23]], [[157], [278], [279], [280], [11]],
     [[279], [158], [217], [159], [217]], [[158], [217], [159], [217]], [[160], [217]], [],
     [[217]], [], [], [[253], [25], [217]], [[217]], [], [[22], [261], [23]],
     [[197], [281], [161], [199], [193], [200], [115], [193], [22], [231], [23], [246]],
     [[123]], [], [], [[22], [232], [23]], [[232], [25], [193], [282], [219]],
     [[193], [282], [219]], [], [[113], [59, 117]], [[133], [161], [237], [238]],
     [[78], [283]], [[78], [193], [283]], [[151], [217]], [], [[70], [193], [200]],
     [[70], [193], [200], [53], [284]], [[70], [193], [200], [22], [284], [23]],
     [[70], [193], [200], [53], [212]], [[70], [193], [200], [22], [212], [23]],
     [[106], [155, 153]], [[107], [155, 153]], [[197], [285], [5], [286], [11]],
     [[198], [77], [199], [193], [200], [287], [288], [115], [238], [289], [290]],
     [[33, 29]], [[65], [68]], [], [[128, 127]], [[129]], [[129], [68], [263]], [],
     [[158], [217]], [[286], [291], [1]], [[291], [1]]]"

definition rule_rhs_3 :: "nat list list list" where
  "rule_rhs_3 = [[[193], [141], [193]], [[116], [34], [193]], [[19], [116]],
     [[129], [234], [292], [293], [130], [268], [245], [246], [213]],
     [[213], [269], [151], [292], [270], [204], [271], [213]],
     [[128], [142], [292], [293], [246], [213]], [[213], [204], [213]],
     [[71], [22], [63], [23]], [[71], [22], [236], [25], [193], [23]], [[12]], [[27]],
     [[42]], [[133], [77], [237], [238]], [[32], [294], [217], [24], [217], [295]],
     [[40], [294], [217]], [], [[67], [217]], [[98]], [[98], [193], [200]], [[30]],
     [[30], [193], [200]], [[162], [16], [238], [99], [15], [193]],
     [[162], [16], [296], [163], [297], [206], [207]],
     [[162], [16], [238], [133], [297], [193]], [[238]],
     [[162], [16], [238], [99], [297], [193], [15], [193]], [[298]],
     [[298], [22], [299], [23]], [[197], [80], [16], [199], [193], [200], [144], [193]], [],
     [[101]], [[302], [303], [23]], [[22]], [[81], [241]], [[81], [72], [241]], [[24]],
     [[24], [97]], [[24], [19], [97]], [[193], [221], [305], [22], [204], [23]], [[304]],
     [[241], [25], [304]], [[307]], [[306], [25], [307]], [[193], [24], [22], [308], [23]],
     [[87], [34], [253], [249], [309]], [[193], [87], [34], [253], [249], [309]],
     [[145], [34], [231], [309]], [[193], [145], [34], [231], [309]], [[309]],
     [[193], [309]], [], [[313], [315], [317]], [[313], [48], [315], [44], [316], [317]],
     [[89, 76, 92]], [[314]], [[90], [88]], [[314]], [[90], [86]], [[217], [88, 86]],
     [[85], [75]], [], [[91], [318]], [[66], [93]], [[85], [75]], [[146, 94]],
     [[164], [306]], [[311], [312]], [[312]], [[311]], [[165], [22], [308], [23]],
     [[165], [193]], [[166], [22], [149], [217], [23]], [[186]], [[186], [187]], [[187]],
     [[1]], [[188], [1]], [[189], [188], [1]], [], [[6]], [[6], [193]], [[13]], [],
     [[195], [196]], [[205]], [[201], [25], [206], [207]], [[206], [207]], [[59, 116]],
     [[117]], [[118]], [[209]], [[59, 117]], [[211]], [[212]], [[207], [215]], [],
     [[121], [218]], [[95], [96], [24], [224]], [[24], [224]], [[25], [228]],
     [[228], [229], [230]], [[230]], [], [[223]], [[236]], [[240]], [[252]], [[244], [25]],
     [[59, 117]], [[260]], [], [[216]], [[47, 46]], [[253]], [[211]], [[193]], [[115]],
     [[128]], [[120]], [[155, 153]], [], [[62], [41], [75]], [[193]], [], [[38]], [], [],
     [[60]], [[300]], [[299], [25], [300]], [[300], [301]], [], [[303], [22], [303], [23]],
     [[303], [101]], []]"

definition rule_rhs :: "nat list list list" where
  "rule_rhs = rule_rhs_1 @ rule_rhs_2 @ rule_rhs_3"

lemma rule_rhs_lengths:
  "length rule_rhs_1 = 135" "length rule_rhs_2 = 135" "length rule_rhs_3 = 135"
  "length rule_rhs = 405"
  by (simp_all add: rule_rhs_1_def rule_rhs_2_def rule_rhs_3_def rule_rhs_def)

lemma rule_rhs_1_entries: "part_at rule_rhs 0 rule_rhs_1"
  unfolding part_at_def
  by (rule exI [of _ "[]"], rule exI [of _ "rule_rhs_2 @ rule_rhs_3"]) (simp add: rule_rhs_def rule_rhs_lengths)

lemma rule_rhs_2_entries: "part_at rule_rhs 135 rule_rhs_2"
  unfolding part_at_def
  by (rule exI [of _ "rule_rhs_1"], rule exI [of _ "rule_rhs_3"]) (simp add: rule_rhs_def rule_rhs_lengths)

lemma rule_rhs_3_entries: "part_at rule_rhs 270 rule_rhs_3"
  unfolding part_at_def
  by (rule exI [of _ "rule_rhs_1 @ rule_rhs_2"], rule exI [of _ "[]"]) (simp add: rule_rhs_def rule_rhs_lengths)

lemmas rule_rhs_at [simp] =
  entries_of_part [OF rule_rhs_1_entries rule_rhs_1_def, unfolded table_index, unfolded One_nat_def]
  entries_of_part [OF rule_rhs_2_entries rule_rhs_2_def, unfolded table_index, unfolded One_nat_def]
  entries_of_part [OF rule_rhs_3_entries rule_rhs_3_def, unfolded table_index, unfolded One_nat_def]

subsection \<open>The numbers and the names agree\<close>

text \<open>The text of a rule: the alternatives of a position are separated by bars.\<close>

fun alternatives :: "nat list \<Rightarrow> string" where
  "alternatives [] = []"
| "alternatives [x] = yyTokenName ! x"
| "alternatives (x # y # xs) = yyTokenName ! x @ ''|'' @ alternatives (y # xs)"

definition rule_text :: "nat \<Rightarrow> string" where
  "rule_text r = yyTokenName ! (yyRuleInfoLhs ! r) @ '' ::='' @
     concat (map (\<lambda>X. '' '' @ alternatives X) (rule_rhs ! r))"

definition rule_agrees :: "nat \<Rightarrow> bool" where
  "rule_agrees r \<longleftrightarrow> yyRuleName ! r = rule_text r \<and> length (rule_rhs ! r) = rule_size r"

lemma upt_check: "list_all P [a..<b] \<Longrightarrow> a \<le> r \<Longrightarrow> r < b \<Longrightarrow> P r"
  by (simp add: list_all_iff)

lemma upt_from_2: "2 \<le> n \<Longrightarrow> [0..<n] = 0 # Suc 0 # [2..<n]"
  by (simp add: upt_conv_Cons numeral_2_eq_2)

lemmas rule_check = rule_agrees_def rule_text_def rule_size_def

lemma rules_agree_1: "list_all rule_agrees [0..<45]"
  by (simp add: rule_check upt_from_2)

lemma rules_agree_2: "list_all rule_agrees [45..<90]"
  by (simp add: rule_check)

lemma rules_agree_3: "list_all rule_agrees [90..<135]"
  by (simp add: rule_check)

lemma rules_agree_4: "list_all rule_agrees [135..<180]"
  by (simp add: rule_check)

lemma rules_agree_5: "list_all rule_agrees [180..<225]"
  by (simp add: rule_check)

lemma rules_agree_6: "list_all rule_agrees [225..<270]"
  by (simp add: rule_check)

lemma rules_agree_7: "list_all rule_agrees [270..<315]"
  by (simp add: rule_check)

lemma rules_agree_8: "list_all rule_agrees [315..<360]"
  by (simp add: rule_check)

lemma rules_agree_9: "list_all rule_agrees [360..<405]"
  by (simp add: rule_check)

lemma all_rules_agree:
  assumes "r < YYNRULE"
  shows "rule_agrees r"
proof -
  from assms consider "0 \<le> r" "r < 45" | "45 \<le> r" "r < 90"
    | "90 \<le> r" "r < 135" | "135 \<le> r" "r < 180"
    | "180 \<le> r" "r < 225" | "225 \<le> r" "r < 270"
    | "270 \<le> r" "r < 315" | "315 \<le> r" "r < 360"
    | "360 \<le> r" "r < 405"
    unfolding YYNRULE_def by linarith
  then show ?thesis by cases (rule upt_check [OF rules_agree_1] upt_check [OF rules_agree_2]
    upt_check [OF rules_agree_3] upt_check [OF rules_agree_4] upt_check [OF rules_agree_5]
    upt_check [OF rules_agree_6] upt_check [OF rules_agree_7] upt_check [OF rules_agree_8]
    upt_check [OF rules_agree_9], assumption, assumption)+
qed



subsection \<open>The language\<close>

text \<open>What a symbol stands for.  A token stands for itself; the tokens with a fallback also for it,
  and the wildcard for every token but the end of the input.\<close>

inductive yields :: "nat \<Rightarrow> nat list \<Rightarrow> bool"
  and yields_all :: "nat list list \<Rightarrow> nat list \<Rightarrow> bool" where
  yields_token: "t < YYNTOKEN \<Longrightarrow> yields t [t]"
| yields_fallback: "t < YYNTOKEN \<Longrightarrow> yyFallback ! t \<noteq> 0 \<Longrightarrow> yields (yyFallback ! t) [t]"
| yields_wildcard: "0 < t \<Longrightarrow> t < YYNTOKEN \<Longrightarrow> yields YYWILDCARD [t]"
| yields_rule: "r < YYNRULE \<Longrightarrow> yields_all (rule_rhs ! r) ts \<Longrightarrow> yields (yyRuleInfoLhs ! r) ts"
| yields_nil: "yields_all [] []"
| yields_cons: "X \<in> set alts \<Longrightarrow> yields X ts \<Longrightarrow> yields_all rest us \<Longrightarrow> yields_all (alts # rest) (ts @ us)"

lemma yields_snoc:
  "yields_all Xs us \<Longrightarrow> X \<in> set alts \<Longrightarrow> yields X ts \<Longrightarrow> yields_all (Xs @ [alts]) (us @ ts)"
proof (induction Xs arbitrary: us)
  case Nil
  then have "us = []" by (auto elim: yields_all.cases)
  with yields_cons [OF Nil(2,3) yields_nil] show ?case by simp
next
  case (Cons A Xs)
  from Cons.prems(1) obtain Y vs ws where "Y \<in> set A" "yields Y vs" "yields_all Xs ws" "us = vs @ ws"
    by (auto elim: yields_all.cases)
  with yields_cons [OF this(1,2) Cons.IH [OF this(3) Cons.prems(2,3)]] show ?case by simp
qed

lemma yields_unit:
  assumes "r < YYNRULE" "rule_rhs ! r = [[Y]]" "yields Y ts"
  shows "yields (yyRuleInfoLhs ! r) ts"
  using yields_rule [OF assms(1), of ts] yields_cons [of Y "[Y]" ts "[]" "[]"] assms(2,3) yields_nil
  by simp

end
