(* ===== verification/Sql_Automaton.thy ===== *)
theory Sql_Automaton
  imports Sql_Rules
begin

text \<open>
  What the states of the parser mean, as tables that are checked against the tables of the source:
  for every state (and every reduction that is pending on the stack in place of a state) the
  states it is entered from, the symbols it is entered with, and a rank that limits how many
  reductions can follow.  The checks run over the entries of the action table, over the default
  actions and over the pending reductions; for each reduction they walk back through the states
  that can lie on the stack and look at the symbols, at the state that follows, and at its rank.
\<close>

subsection \<open>The tables\<close>

text \<open>Sets of states as search trees.\<close>

datatype states = None_of | One nat | Fork states nat states

definition node_preds_1 :: "states list" where
  "node_preds_1 = [None_of, One 0, Fork (One 0) 1 None_of, One 229,
     Fork (Fork (Fork (Fork (Fork (Fork (One 3) 4 None_of) 6 (One 7)) 8 (Fork (Fork (One 9) 10 None_of) 11 (One 17))) 18 (Fork (Fork (Fork (One 19) 20 None_of) 21 (One 22)) 23 (Fork (One 24) 25 (One 26)))) 27 (Fork (Fork (Fork (Fork (One 28) 29 None_of) 78 (One 79)) 80 (Fork (One 81) 82 (One 83))) 84 (Fork (Fork (Fork (One 85) 86 None_of) 87 (One 88)) 89 (Fork (One 90) 91 (One 92))))) 93 (Fork (Fork (Fork (Fork (Fork (One 94) 95 None_of) 96 (One 97)) 98 (Fork (Fork (One 99) 100 None_of) 101 (One 102))) 103 (Fork (Fork (Fork (One 104) 105 None_of) 106 (One 107)) 108 (Fork (One 109) 110 (One 111)))) 112 (Fork (Fork (Fork (Fork (One 113) 114 None_of) 115 (One 116)) 117 (Fork (One 118) 119 (One 120))) 121 (Fork (Fork (Fork (One 122) 123 None_of) 124 (One 125)) 126 (Fork (One 127) 128 (One 129))))),
     One 226, Fork (Fork (One 32) 33 (One 175)) 200 (Fork (One 201) 204 (One 205)), One 537,
     One 6, One 263, One 381, One 286, Fork (One 158) 203 None_of,
     Fork (Fork (One 17) 18 (One 19)) 20 (Fork (One 22) 23 (One 26)), One 100, One 83,
     One 78, One 423, One 483, One 501, One 503, One 530, One 531, One 532, One 533, One 540,
     One 546,
     Fork (Fork (Fork (Fork (Fork (Fork (One 3) 4 None_of) 6 (One 7)) 8 (Fork (Fork (One 9) 10 None_of) 11 (One 17))) 18 (Fork (Fork (Fork (One 19) 20 None_of) 21 (One 22)) 23 (Fork (One 24) 25 (One 26)))) 27 (Fork (Fork (Fork (Fork (One 28) 29 None_of) 78 (One 79)) 80 (Fork (One 81) 82 (One 83))) 84 (Fork (Fork (Fork (One 85) 86 None_of) 87 (One 88)) 89 (Fork (One 90) 91 (One 92))))) 93 (Fork (Fork (Fork (Fork (Fork (One 94) 95 None_of) 96 (One 97)) 98 (Fork (Fork (One 99) 100 None_of) 101 (One 102))) 103 (Fork (Fork (Fork (One 104) 105 None_of) 106 (One 107)) 108 (Fork (One 109) 110 (One 111)))) 112 (Fork (Fork (Fork (Fork (One 113) 114 None_of) 115 (One 116)) 117 (Fork (One 118) 119 (One 120))) 121 (Fork (Fork (Fork (One 122) 123 None_of) 124 (One 125)) 126 (Fork (One 127) 128 (One 129))))),
     One 559, One 564, One 418, One 418, One 224, One 542, One 388, One 327, One 339,
     One 493, One 317, One 520, One 560, Fork (One 6) 7 (One 8), One 128, One 84, One 86,
     One 92, One 93, One 94, One 129, One 95, One 96, One 4, One 105, One 108, One 112,
     One 81, One 82, One 85, One 87, One 88, One 89, One 90, One 91, One 97, One 98, One 99,
     One 101, One 104, One 106, One 107, One 27,
     Fork (Fork (Fork (One 3) 9 None_of) 10 (One 11)) 21 (Fork (Fork (One 24) 25 None_of) 28 (One 29)),
     One 113, One 115, One 127, One 125, One 111, One 126, One 407, One 80,
     Fork (Fork (Fork (Fork (Fork (One 13) 14 None_of) 15 (Fork (One 16) 41 None_of)) 42 (Fork (Fork (One 43) 44 None_of) 45 (One 46))) 47 (Fork (Fork (Fork (One 48) 49 None_of) 50 (One 51)) 52 (Fork (Fork (One 53) 54 None_of) 55 (One 56)))) 57 (Fork (Fork (Fork (Fork (One 58) 59 None_of) 60 (Fork (One 61) 62 None_of)) 63 (Fork (Fork (One 64) 65 None_of) 66 (One 67))) 68 (Fork (Fork (Fork (One 69) 70 None_of) 71 (One 72)) 73 (Fork (Fork (One 74) 75 None_of) 76 (One 77)))),
     One 322, One 15, One 43, One 323, Fork (One 168) 325 None_of,
     Fork (One 291) 293 None_of, One 473, One 474, One 475, One 476, One 346, One 500,
     Fork (One 360) 361 None_of, One 509, One 513, One 518,
     Fork (Fork (One 199) 308 None_of) 309 (Fork (One 310) 311 None_of),
     Fork (Fork (One 295) 298 (One 335)) 338 (Fork (One 341) 343 (One 387)), One 385,
     Fork (Fork (One 200) 201 (One 302)) 422 (Fork (One 427) 429 (One 545)), One 42, One 547,
     One 548, One 52, One 383, One 314, One 53, One 314,
     Fork (Fork (Fork (Fork (Fork (Fork (One 3) 4 None_of) 6 (One 7)) 8 (Fork (Fork (One 9) 10 None_of) 11 (One 17))) 18 (Fork (Fork (Fork (One 19) 20 None_of) 21 (One 22)) 23 (Fork (One 24) 25 (One 26)))) 27 (Fork (Fork (Fork (Fork (One 28) 29 None_of) 78 (One 79)) 80 (Fork (One 81) 82 (One 83))) 84 (Fork (Fork (Fork (One 85) 86 None_of) 87 (One 88)) 89 (Fork (One 90) 91 (One 92))))) 93 (Fork (Fork (Fork (Fork (Fork (One 94) 95 None_of) 96 (One 97)) 98 (Fork (Fork (One 99) 100 None_of) 101 (One 102))) 103 (Fork (Fork (Fork (One 104) 105 None_of) 106 (One 107)) 108 (Fork (One 109) 110 (One 111)))) 112 (Fork (Fork (Fork (Fork (One 113) 114 None_of) 115 (One 116)) 117 (Fork (One 118) 119 (One 120))) 121 (Fork (Fork (Fork (One 122) 123 None_of) 124 (One 125)) 126 (Fork (One 127) 128 (One 129))))),
     Fork (Fork (Fork (Fork (Fork (Fork (One 3) 4 None_of) 6 (One 7)) 8 (Fork (Fork (One 9) 10 None_of) 11 (One 17))) 18 (Fork (Fork (Fork (One 19) 20 None_of) 21 (One 22)) 23 (Fork (One 24) 25 (One 26)))) 27 (Fork (Fork (Fork (Fork (One 28) 29 None_of) 78 (One 79)) 80 (Fork (One 81) 82 (One 83))) 84 (Fork (Fork (Fork (One 85) 86 None_of) 87 (One 88)) 89 (Fork (One 90) 91 (One 92))))) 93 (Fork (Fork (Fork (Fork (Fork (One 94) 95 None_of) 96 (One 97)) 98 (Fork (Fork (One 99) 100 None_of) 101 (One 102))) 103 (Fork (Fork (Fork (One 104) 105 None_of) 106 (One 107)) 108 (Fork (One 109) 110 (One 111)))) 112 (Fork (Fork (Fork (Fork (One 113) 114 None_of) 115 (One 116)) 117 (Fork (One 118) 119 (One 120))) 121 (Fork (Fork (Fork (One 122) 123 None_of) 124 (One 125)) 126 (Fork (One 127) 128 (One 129))))),
     Fork (Fork (Fork (Fork (Fork (Fork (One 3) 4 None_of) 6 (One 7)) 8 (Fork (Fork (One 9) 10 None_of) 11 (One 17))) 18 (Fork (Fork (Fork (One 19) 20 None_of) 21 (One 22)) 23 (Fork (One 24) 25 (One 26)))) 27 (Fork (Fork (Fork (Fork (One 28) 29 None_of) 78 (One 79)) 81 (Fork (One 82) 83 (One 84))) 85 (Fork (Fork (Fork (One 86) 87 None_of) 88 (One 89)) 90 (Fork (One 91) 92 (One 93))))) 94 (Fork (Fork (Fork (Fork (Fork (One 95) 96 None_of) 97 (One 98)) 99 (Fork (One 100) 101 (One 102))) 103 (Fork (Fork (Fork (One 104) 105 None_of) 106 (One 107)) 108 (Fork (One 109) 110 (One 111)))) 112 (Fork (Fork (Fork (Fork (One 113) 114 None_of) 115 (One 116)) 117 (Fork (One 118) 119 (One 120))) 121 (Fork (Fork (Fork (One 122) 123 None_of) 124 (One 125)) 126 (Fork (One 127) 128 (One 129))))),
     One 563, Fork (Fork (One 312) 313 (One 439)) 443 (Fork (One 529) 550 None_of), One 73,
     Fork (Fork (Fork (Fork (Fork (One 13) 14 None_of) 15 (Fork (One 16) 41 None_of)) 42 (Fork (Fork (One 43) 44 None_of) 45 (One 46))) 47 (Fork (Fork (Fork (One 48) 49 None_of) 50 (One 51)) 52 (Fork (Fork (One 53) 54 None_of) 55 (One 56)))) 57 (Fork (Fork (Fork (Fork (One 58) 59 None_of) 60 (Fork (One 61) 62 None_of)) 63 (Fork (Fork (One 64) 65 None_of) 66 (One 67))) 68 (Fork (Fork (Fork (One 69) 70 None_of) 71 (One 72)) 73 (Fork (Fork (One 74) 75 None_of) 76 (One 77)))),
     Fork (Fork (Fork (Fork (Fork (One 13) 14 (One 15)) 16 (Fork (One 41) 42 None_of)) 43 (Fork (Fork (One 44) 45 (One 46)) 47 (Fork (One 48) 49 None_of))) 50 (Fork (Fork (Fork (One 51) 52 (One 53)) 54 (Fork (One 55) 56 None_of)) 57 (Fork (Fork (One 58) 59 None_of) 60 (Fork (One 61) 62 None_of)))) 63 (Fork (Fork (Fork (Fork (One 64) 65 (One 66)) 67 (Fork (One 68) 69 None_of)) 70 (Fork (Fork (One 71) 72 (One 73)) 74 (Fork (One 75) 76 None_of))) 77 (Fork (Fork (Fork (One 130) 131 (One 132)) 133 (Fork (One 134) 135 None_of)) 136 (Fork (Fork (One 137) 138 None_of) 139 (Fork (One 140) 156 None_of)))),
     One 130,
     Fork (Fork (Fork (Fork (Fork (One 13) 14 None_of) 15 (Fork (One 16) 41 None_of)) 42 (Fork (Fork (One 43) 44 None_of) 45 (One 46))) 47 (Fork (Fork (Fork (One 48) 49 None_of) 50 (One 51)) 52 (Fork (Fork (One 53) 54 None_of) 55 (One 56)))) 57 (Fork (Fork (Fork (Fork (One 58) 59 None_of) 60 (Fork (One 61) 62 None_of)) 63 (Fork (Fork (One 64) 65 None_of) 66 (One 67))) 68 (Fork (Fork (Fork (One 69) 70 None_of) 71 (One 72)) 73 (Fork (Fork (One 74) 75 None_of) 76 (One 77)))),
     Fork (Fork (Fork (Fork (Fork (One 13) 14 (One 15)) 16 (Fork (One 41) 42 None_of)) 43 (Fork (Fork (One 44) 45 (One 46)) 47 (Fork (One 48) 49 None_of))) 50 (Fork (Fork (Fork (One 51) 52 (One 53)) 54 (Fork (One 55) 56 None_of)) 57 (Fork (Fork (One 58) 59 None_of) 60 (Fork (One 61) 62 None_of)))) 63 (Fork (Fork (Fork (Fork (One 64) 65 (One 66)) 67 (Fork (One 68) 69 None_of)) 70 (Fork (Fork (One 71) 72 (One 73)) 74 (Fork (One 75) 76 None_of))) 77 (Fork (Fork (Fork (One 130) 131 (One 132)) 133 (Fork (One 134) 135 None_of)) 136 (Fork (Fork (One 137) 138 None_of) 139 (Fork (One 140) 156 None_of)))),
     Fork (Fork (Fork (Fork (Fork (One 13) 14 (One 15)) 16 (Fork (One 41) 42 None_of)) 43 (Fork (Fork (One 44) 45 (One 46)) 47 (Fork (One 48) 49 None_of))) 50 (Fork (Fork (Fork (One 51) 52 (One 53)) 54 (Fork (One 55) 56 None_of)) 57 (Fork (Fork (One 58) 59 None_of) 60 (Fork (One 61) 62 None_of)))) 63 (Fork (Fork (Fork (Fork (One 64) 65 (One 66)) 67 (Fork (One 68) 69 None_of)) 70 (Fork (Fork (One 71) 72 None_of) 73 (Fork (One 74) 75 None_of))) 76 (Fork (Fork (Fork (One 77) 130 (One 131)) 132 (Fork (One 133) 134 None_of)) 135 (Fork (Fork (One 136) 137 None_of) 138 (Fork (One 139) 140 None_of)))),
     Fork (Fork (Fork (Fork (Fork (One 13) 14 (One 15)) 16 (Fork (One 41) 42 None_of)) 43 (Fork (Fork (One 44) 45 None_of) 46 (Fork (One 47) 48 None_of))) 49 (Fork (Fork (Fork (One 50) 51 (One 52)) 53 (Fork (One 54) 55 None_of)) 56 (Fork (Fork (One 57) 58 None_of) 59 (Fork (One 60) 61 None_of)))) 62 (Fork (Fork (Fork (Fork (One 63) 64 (One 65)) 66 (Fork (One 67) 68 None_of)) 69 (Fork (Fork (One 70) 71 None_of) 72 (Fork (One 73) 74 None_of))) 75 (Fork (Fork (Fork (One 76) 77 (One 130)) 131 (Fork (One 132) 133 None_of)) 134 (Fork (Fork (One 135) 136 None_of) 137 (Fork (One 138) 139 None_of)))),
     Fork (Fork (Fork (Fork (Fork (One 13) 14 (One 15)) 16 (Fork (One 41) 42 None_of)) 43 (Fork (Fork (One 44) 45 None_of) 46 (Fork (One 47) 48 None_of))) 49 (Fork (Fork (Fork (One 50) 51 (One 52)) 53 (Fork (One 54) 55 None_of)) 56 (Fork (Fork (One 57) 58 None_of) 59 (Fork (One 60) 61 None_of)))) 62 (Fork (Fork (Fork (Fork (One 63) 64 (One 65)) 66 (Fork (One 67) 68 None_of)) 69 (Fork (Fork (One 70) 71 None_of) 72 (Fork (One 73) 74 None_of))) 75 (Fork (Fork (Fork (One 76) 77 None_of) 130 (Fork (One 131) 132 None_of)) 133 (Fork (Fork (One 134) 135 None_of) 136 (Fork (One 137) 138 None_of)))),
     Fork (Fork (Fork (Fork (Fork (One 13) 14 None_of) 15 (Fork (One 16) 41 None_of)) 42 (Fork (Fork (One 43) 44 None_of) 45 (One 46))) 47 (Fork (Fork (Fork (One 48) 49 None_of) 50 (One 51)) 52 (Fork (Fork (One 53) 54 None_of) 55 (One 56)))) 57 (Fork (Fork (Fork (Fork (One 58) 59 None_of) 60 (Fork (One 61) 62 None_of)) 63 (Fork (Fork (One 64) 65 None_of) 66 (One 67))) 68 (Fork (Fork (Fork (One 69) 70 None_of) 71 (One 72)) 73 (Fork (Fork (One 74) 75 None_of) 76 (One 77)))),
     Fork (Fork (Fork (Fork (Fork (One 13) 14 (One 15)) 16 (Fork (One 41) 42 None_of)) 43 (Fork (Fork (One 44) 45 None_of) 46 (Fork (One 47) 48 None_of))) 49 (Fork (Fork (Fork (One 50) 51 None_of) 52 (Fork (One 53) 54 None_of)) 55 (Fork (Fork (One 56) 57 None_of) 58 (Fork (One 59) 60 None_of)))) 61 (Fork (Fork (Fork (Fork (One 62) 63 (One 64)) 65 (Fork (One 66) 67 None_of)) 68 (Fork (Fork (One 69) 70 None_of) 71 (Fork (One 72) 73 None_of))) 74 (Fork (Fork (Fork (One 75) 76 None_of) 77 (Fork (One 130) 131 None_of)) 132 (Fork (Fork (One 133) 134 None_of) 135 (Fork (One 136) 137 None_of)))),
     Fork (Fork (Fork (Fork (Fork (One 13) 14 None_of) 15 (One 16)) 41 (Fork (Fork (One 42) 43 None_of) 44 (One 45))) 46 (Fork (Fork (Fork (One 47) 48 None_of) 49 (One 50)) 51 (Fork (Fork (One 52) 53 None_of) 54 (One 55)))) 56 (Fork (Fork (Fork (Fork (One 57) 58 None_of) 59 (One 60)) 61 (Fork (Fork (One 62) 63 None_of) 64 (One 65))) 66 (Fork (Fork (Fork (One 67) 68 None_of) 69 (One 70)) 71 (Fork (One 72) 73 (One 74)))),
     Fork (Fork (Fork (Fork (Fork (One 13) 14 None_of) 15 (One 16)) 41 (Fork (Fork (One 42) 43 None_of) 44 (One 45))) 46 (Fork (Fork (Fork (One 47) 48 None_of) 49 (One 50)) 51 (Fork (Fork (One 52) 53 None_of) 54 (One 55)))) 56 (Fork (Fork (Fork (Fork (One 57) 58 None_of) 59 (One 60)) 61 (Fork (Fork (One 62) 63 None_of) 64 (One 65))) 66 (Fork (Fork (Fork (One 67) 68 None_of) 69 (One 70)) 71 (Fork (One 72) 74 (One 75)))),
     One 42, Fork (One 379) 384 None_of, One 287, One 118, One 102, One 103, One 79, One 114,
     One 80, One 117, One 123, One 124, One 122, One 121, Fork (One 0) 1 (One 2),
     Fork (Fork (Fork (One 3) 4 None_of) 5 (Fork (One 12) 35 None_of)) 36 (Fork (Fork (One 37) 38 None_of) 39 (One 40)),
     One 572, One 451, One 141, Fork (One 0) 1 (One 2), One 403, One 142, One 210, One 442,
     One 415, One 317, One 145, One 141, One 148, One 120, One 142, One 482, One 512,
     One 516, One 116, One 119, One 109, One 110, One 397, One 402, One 408,
     Fork (One 0) 1 (One 2), One 456, One 466, One 468, One 477,
     Fork (One 328) 340 (One 342), One 511, Fork (One 32) 33 None_of, One 571, One 212,
     One 396, One 318, One 455, One 328, One 460, One 329, One 330, One 331, One 332,
     One 465, Fork (One 327) 339 None_of, One 472,
     Fork (Fork (One 169) 170 None_of) 171 (One 172), One 222, One 342, One 488, One 492,
     One 498, Fork (Fork (One 350) 355 None_of) 362 (One 373),
     Fork (Fork (One 153) 154 None_of) 155 (One 157), One 527, One 263]"

definition node_preds_2 :: "states list" where
  "node_preds_2 = [One 22, One 23, One 544, One 158, One 312, One 313, One 181, One 182,
     Fork (One 34) 152 (One 179), One 54, One 385, Fork (One 278) 284 (One 285), One 448,
     Fork (One 291) 293 None_of, One 44, Fork (One 326) 336 (One 337),
     Fork (Fork (One 290) 296 None_of) 297 (One 299), Fork (One 292) 300 (One 315), One 316,
     One 287, One 405, One 406, Fork (Fork (One 292) 295 None_of) 298 (One 300), One 303,
     Fork (One 159) 160 (One 369), One 522, Fork (One 5) 217 None_of, One 228,
     Fork (One 259) 283 None_of,
     Fork (Fork (Fork (Fork (Fork (One 13) 14 None_of) 15 (Fork (One 16) 41 None_of)) 42 (Fork (Fork (One 43) 44 None_of) 45 (One 46))) 47 (Fork (Fork (Fork (One 48) 49 None_of) 50 (One 51)) 52 (Fork (Fork (One 53) 54 None_of) 55 (One 56)))) 57 (Fork (Fork (Fork (Fork (One 58) 59 None_of) 60 (Fork (One 61) 62 None_of)) 63 (Fork (Fork (One 64) 65 None_of) 66 (One 67))) 68 (Fork (Fork (Fork (One 69) 70 None_of) 71 (One 72)) 73 (Fork (Fork (One 74) 75 None_of) 76 (One 77)))),
     One 319, One 450, One 289, One 289, Fork (One 0) 1 (One 2), Fork (One 0) 1 (One 2),
     Fork (One 0) 1 (One 2), One 419, One 459, One 419, Fork (One 0) 1 (One 2), One 462,
     One 334, One 479, One 480, One 484, One 345, One 491, One 349, One 352, One 354,
     One 497, Fork (One 34) 223 None_of, One 414, One 414, One 414,
     Fork (One 147) 304 None_of, Fork (One 165) 166 (One 167), Fork (One 428) 436 None_of,
     One 5, One 526, Fork (Fork (One 424) 425 None_of) 426 (Fork (One 437) 487 None_of),
     Fork (Fork (One 263) 279 None_of) 280 (Fork (One 281) 282 None_of), One 374,
     Fork (One 375) 376 None_of,
     Fork (Fork (Fork (One 320) 321 None_of) 324 (Fork (One 333) 344 None_of)) 348 (Fork (Fork (One 351) 353 None_of) 374 (One 382)),
     One 555, One 557, One 567, One 568, Fork (One 165) 166 (One 167),
     Fork (One 143) 176 None_of, One 389, Fork (One 0) 1 (One 2), One 390,
     Fork (One 391) 392 (One 393), One 277, One 348, Fork (One 153) 155 None_of, One 16,
     One 523, One 259, One 524, One 217,
     Fork (Fork (Fork (One 0) 1 (One 2)) 3 (Fork (One 4) 5 None_of)) 12 (Fork (Fork (One 35) 36 (One 37)) 38 (Fork (One 39) 40 None_of)),
     Fork (One 154) 157 None_of, One 445, Fork (One 165) 166 (One 167),
     Fork (One 0) 1 (One 2), One 417, One 35, One 292, One 169, One 207, One 187, One 170,
     One 421, One 298, One 171, One 36, One 172, One 192, One 20, One 34, One 404, One 510,
     One 371, One 372, One 280, One 281, One 282, One 199, One 24, One 25, One 383, One 218,
     Fork (Fork (Fork (Fork (One 0) 1 None_of) 2 (One 3)) 4 (Fork (Fork (One 5) 12 None_of) 35 (One 36))) 37 (Fork (Fork (Fork (One 38) 39 None_of) 40 (One 153)) 154 (Fork (One 155) 157 (One 211))),
     Fork (One 0) 1 (One 2), One 449, One 417, One 234, One 235, Fork (One 0) 1 (One 2),
     Fork (One 0) 1 (One 2), One 236, One 168, One 454, One 180, One 240, One 410, One 410,
     One 410, One 410, One 242, One 463, One 294, One 295, One 420, One 422, One 189,
     Fork (One 12) 240 None_of, One 300, Fork (One 158) 203 None_of, One 427, One 246,
     One 485, One 347, One 194, One 248, One 413, One 351, One 249, One 413, One 250,
     One 413, One 251, One 45, One 429, One 502,
     Fork (Fork (One 147) 165 None_of) 166 (One 167), Fork (One 165) 166 (One 167), One 506,
     One 257, Fork (One 165) 166 (One 167), One 365, One 305, Fork (One 433) 496 None_of,
     One 433, Fork (One 165) 166 (One 167), Fork (One 159) 160 None_of, One 373,
     Fork (One 195) 196 None_of, One 258,
     Fork (Fork (One 141) 142 None_of) 145 (Fork (One 148) 197 None_of), One 226, One 7,
     One 6, One 13, One 14, One 380, One 210, One 382, One 229, One 27, One 210, One 386,
     One 387, One 315, One 152, Fork (One 0) 1 (One 2), One 573, Fork (One 0) 1 (One 2),
     Fork (One 0) 1 (One 2), One 288, Fork (One 411) 412 None_of, Fork (One 177) 178 None_of,
     One 416, One 179, One 335, One 12]"

definition node_preds_3 :: "states list" where
  "node_preds_3 = [One 299, One 341, One 152, One 355, One 362, One 287, One 287,
     Fork (Fork (One 213) 214 None_of) 215 (Fork (One 216) 218 None_of), One 34,
     Fork (Fork (Fork (Fork (Fork (One 13) 14 None_of) 15 (Fork (One 16) 41 None_of)) 42 (Fork (Fork (One 43) 44 None_of) 45 (One 46))) 47 (Fork (Fork (Fork (One 48) 49 None_of) 50 (One 51)) 52 (Fork (Fork (One 53) 54 None_of) 55 (One 56)))) 57 (Fork (Fork (Fork (Fork (One 58) 59 None_of) 60 (Fork (One 61) 62 None_of)) 63 (Fork (Fork (One 64) 65 None_of) 66 (One 67))) 68 (Fork (Fork (Fork (One 69) 70 None_of) 71 (One 72)) 73 (Fork (Fork (One 74) 75 None_of) 76 (One 77)))),
     Fork (One 0) 1 (One 2), One 394, One 395, One 146, Fork (One 147) 304 None_of,
     Fork (One 208) 209 None_of, One 212, One 144, One 324, Fork (One 180) 181 (One 182),
     One 423, One 469, One 17, One 470, One 188, One 190, One 191, One 18, One 195, One 19,
     Fork (One 165) 166 (One 167), Fork (One 253) 254 (One 255), Fork (One 359) 366 None_of,
     Fork (One 165) 166 (One 167), One 370, Fork (One 371) 372 None_of, One 196, One 198,
     Fork (One 377) 378 None_of, One 28, Fork (Fork (One 30) 31 None_of) 150 (One 151),
     Fork (Fork (One 30) 31 None_of) 150 (One 151), One 151, One 29,
     Fork (Fork (Fork (Fork (Fork (One 13) 14 (One 15)) 16 (Fork (One 41) 42 None_of)) 43 (Fork (Fork (One 44) 45 (One 46)) 47 (Fork (One 48) 49 None_of))) 50 (Fork (Fork (Fork (One 51) 52 (One 53)) 54 (Fork (One 55) 56 None_of)) 57 (Fork (Fork (One 58) 59 (One 60)) 61 (Fork (One 62) 63 None_of)))) 64 (Fork (Fork (Fork (Fork (One 65) 66 (One 67)) 68 (Fork (One 69) 70 None_of)) 71 (Fork (Fork (One 72) 73 (One 74)) 75 (Fork (One 76) 77 None_of))) 130 (Fork (Fork (Fork (One 131) 132 (One 133)) 134 (Fork (One 135) 136 None_of)) 137 (Fork (Fork (One 138) 139 (One 140)) 156 (Fork (One 161) 162 None_of)))),
     Fork (Fork (Fork (Fork (Fork (Fork (One 3) 4 None_of) 6 (One 7)) 8 (Fork (Fork (One 9) 10 None_of) 11 (One 17))) 18 (Fork (Fork (Fork (One 19) 20 None_of) 21 (One 22)) 23 (Fork (One 24) 25 (One 26)))) 27 (Fork (Fork (Fork (Fork (One 28) 29 None_of) 78 (One 79)) 80 (Fork (One 81) 82 (One 83))) 84 (Fork (Fork (Fork (One 85) 86 None_of) 87 (One 88)) 89 (Fork (One 90) 91 (One 92))))) 93 (Fork (Fork (Fork (Fork (Fork (One 94) 95 None_of) 96 (One 97)) 98 (Fork (Fork (One 99) 100 None_of) 101 (One 102))) 103 (Fork (Fork (Fork (One 104) 105 None_of) 106 (One 107)) 108 (Fork (One 109) 110 (One 111)))) 112 (Fork (Fork (Fork (Fork (One 113) 114 None_of) 115 (One 116)) 117 (Fork (One 118) 119 (One 120))) 121 (Fork (Fork (Fork (One 122) 123 None_of) 124 (One 125)) 126 (Fork (One 127) 128 (One 129))))),
     One 447, Fork (One 0) 1 None_of, Fork (One 0) 1 (One 2), One 144, One 232,
     Fork (One 0) 1 (One 2), One 30, One 30, One 35, One 240, One 206, One 213, One 214,
     One 239, One 240, Fork (Fork (One 329) 330 None_of) 331 (One 332), One 333, One 146,
     One 158, Fork (One 158) 203 None_of, One 420, One 215, One 421, One 338,
     Fork (Fork (One 290) 296 None_of) 297 (One 299), One 216, One 12, One 425,
     Fork (Fork (One 169) 170 None_of) 171 (One 172), One 426, One 222, One 301,
     Fork (One 294) 301 None_of, Fork (One 294) 301 None_of, Fork (One 187) 189 (One 192),
     One 203, One 146, One 245, One 344, One 146, One 277, One 193, One 276, One 490,
     One 347, Fork (Fork (One 144) 183 (One 184)) 185 (Fork (One 186) 194 None_of), One 276,
     One 350, One 495, Fork (Fork (One 334) 345 None_of) 349 (Fork (One 352) 354 None_of),
     One 147, One 428, One 499, Fork (One 34) 223 None_of, Fork (One 34) 223 None_of,
     Fork (One 34) 223 None_of, One 302, One 504, Fork (One 34) 223 None_of, One 46, One 507,
     Fork (One 165) 166 (One 167), Fork (One 253) 254 (One 255),
     Fork (One 165) 166 (One 167), Fork (One 165) 166 (One 167),
     Fork (Fork (One 356) 357 (One 358)) 363 (Fork (One 365) 367 (One 368)), One 286,
     One 514, Fork (One 159) 160 None_of, One 32, One 11, One 4, One 4, One 39, One 370,
     One 434, One 78, One 5, One 9, Fork (One 199) 206 (One 207),
     Fork (One 199) 206 (One 207),
     Fork (Fork (One 199) 308 None_of) 309 (Fork (One 310) 311 None_of), One 227, One 21,
     One 386, Fork (One 32) 33 None_of, One 175, One 175, Fork (One 6) 8 None_of,
     Fork (One 6) 7 (One 8), One 7, One 8, One 264, One 264, Fork (One 32) 33 None_of,
     One 33, One 543, Fork (One 149) 202 None_of, One 149, One 26,
     Fork (Fork (One 210) 312 None_of) 313 (One 380), One 80, One 79, One 10,
     Fork (Fork (One 3) 9 None_of) 10 (One 11), One 3, One 3, One 40, One 266, One 267,
     One 267,
     Fork (Fork (Fork (Fork (Fork (Fork (One 3) 4 None_of) 6 (One 7)) 8 (Fork (Fork (One 9) 10 None_of) 11 (One 17))) 18 (Fork (Fork (Fork (One 19) 20 None_of) 21 (One 22)) 23 (Fork (One 24) 25 (One 26)))) 27 (Fork (Fork (Fork (Fork (One 28) 29 None_of) 78 (One 79)) 80 (Fork (One 81) 82 (One 83))) 84 (Fork (Fork (Fork (One 85) 86 None_of) 87 (One 88)) 89 (Fork (One 90) 91 (One 92))))) 93 (Fork (Fork (Fork (Fork (Fork (One 94) 95 None_of) 96 (One 97)) 98 (Fork (Fork (One 99) 100 None_of) 101 (One 102))) 103 (Fork (Fork (Fork (One 104) 105 None_of) 106 (One 107)) 108 (Fork (One 109) 110 (One 111)))) 112 (Fork (Fork (Fork (Fork (One 113) 114 None_of) 115 (One 116)) 117 (Fork (One 118) 119 (One 120))) 121 (Fork (Fork (Fork (One 122) 123 None_of) 124 (One 125)) 126 (Fork (One 127) 128 (One 129))))),
     One 314,
     Fork (Fork (Fork (Fork (One 0) 1 None_of) 2 (One 3)) 4 (Fork (Fork (One 5) 12 None_of) 35 (One 36))) 37 (Fork (Fork (Fork (One 38) 39 None_of) 40 (One 153)) 154 (Fork (One 155) 157 (One 211))),
     Fork (Fork (Fork (Fork (Fork (Fork (One 3) 4 None_of) 6 (One 7)) 8 (Fork (Fork (One 9) 10 None_of) 11 (One 17))) 18 (Fork (Fork (Fork (One 19) 20 None_of) 21 (One 22)) 23 (Fork (One 24) 25 (One 26)))) 27 (Fork (Fork (Fork (Fork (One 28) 29 None_of) 78 (One 79)) 80 (Fork (One 81) 82 (One 83))) 84 (Fork (Fork (Fork (One 85) 86 None_of) 87 (One 88)) 89 (Fork (One 90) 91 (One 92))))) 93 (Fork (Fork (Fork (Fork (Fork (One 94) 95 None_of) 96 (One 97)) 98 (Fork (Fork (One 99) 100 None_of) 101 (One 102))) 103 (Fork (Fork (Fork (One 104) 105 None_of) 106 (One 107)) 108 (Fork (One 109) 110 (One 111)))) 112 (Fork (Fork (Fork (Fork (One 113) 114 None_of) 115 (One 116)) 117 (Fork (One 118) 119 (One 120))) 121 (Fork (Fork (Fork (One 122) 123 None_of) 124 (One 125)) 126 (Fork (One 127) 128 (One 129))))),
     One 209, One 150,
     Fork (Fork (Fork (Fork (Fork (Fork (One 3) 4 None_of) 6 (One 7)) 8 (Fork (Fork (One 9) 10 None_of) 11 (One 17))) 18 (Fork (Fork (Fork (One 19) 20 None_of) 21 (One 22)) 23 (Fork (One 24) 25 (One 26)))) 27 (Fork (Fork (Fork (Fork (One 28) 29 None_of) 78 (One 79)) 80 (Fork (One 81) 82 (One 83))) 84 (Fork (Fork (Fork (One 85) 86 None_of) 87 (One 88)) 89 (Fork (One 90) 91 (One 92))))) 93 (Fork (Fork (Fork (Fork (Fork (One 94) 95 None_of) 96 (One 97)) 98 (Fork (Fork (One 99) 100 None_of) 101 (One 102))) 103 (Fork (Fork (Fork (One 104) 105 None_of) 106 (One 107)) 108 (Fork (One 109) 110 (One 111)))) 112 (Fork (Fork (Fork (Fork (One 113) 114 None_of) 115 (One 116)) 117 (Fork (One 118) 119 (One 120))) 121 (Fork (Fork (Fork (One 122) 123 None_of) 124 (One 125)) 126 (Fork (One 127) 128 (One 129))))),
     One 565,
     Fork (Fork (Fork (Fork (One 0) 1 None_of) 2 (One 3)) 4 (Fork (Fork (One 5) 12 None_of) 35 (One 36))) 37 (Fork (Fork (Fork (One 38) 39 None_of) 40 (One 153)) 154 (Fork (One 155) 157 (One 211))),
     Fork (One 278) 284 (One 285), Fork (One 225) 269 None_of,
     Fork (Fork (Fork (Fork (Fork (Fork (One 3) 4 None_of) 6 (One 7)) 8 (Fork (Fork (One 9) 10 None_of) 11 (One 17))) 18 (Fork (Fork (Fork (One 19) 20 None_of) 21 (One 22)) 23 (Fork (One 24) 25 (One 26)))) 27 (Fork (Fork (Fork (Fork (One 28) 29 None_of) 79 (One 80)) 81 (Fork (One 82) 83 (One 84))) 85 (Fork (Fork (Fork (One 86) 87 None_of) 88 (One 89)) 90 (Fork (One 91) 92 (One 93))))) 94 (Fork (Fork (Fork (Fork (Fork (One 95) 96 None_of) 97 (One 98)) 99 (Fork (One 100) 101 (One 102))) 103 (Fork (Fork (Fork (One 104) 105 None_of) 106 (One 107)) 108 (Fork (One 109) 110 (One 111)))) 112 (Fork (Fork (Fork (Fork (One 113) 114 None_of) 115 (One 116)) 117 (Fork (One 118) 119 (One 120))) 121 (Fork (Fork (Fork (One 122) 123 None_of) 124 (One 125)) 126 (Fork (One 127) 128 (One 129))))),
     Fork (Fork (Fork (Fork (Fork (Fork (One 3) 4 None_of) 6 (One 7)) 8 (Fork (Fork (One 9) 10 None_of) 11 (One 17))) 18 (Fork (Fork (Fork (One 19) 20 None_of) 21 (One 22)) 23 (Fork (One 24) 25 (One 26)))) 27 (Fork (Fork (Fork (Fork (One 28) 29 None_of) 78 (One 79)) 80 (Fork (One 81) 82 (One 83))) 84 (Fork (Fork (Fork (One 85) 86 None_of) 87 (One 88)) 89 (Fork (One 90) 91 (One 92))))) 93 (Fork (Fork (Fork (Fork (Fork (One 94) 95 None_of) 96 (One 97)) 98 (Fork (Fork (One 99) 100 None_of) 101 (One 102))) 103 (Fork (Fork (Fork (One 104) 105 None_of) 106 (One 107)) 108 (Fork (One 109) 110 (One 111)))) 112 (Fork (Fork (Fork (Fork (One 113) 114 None_of) 115 (One 116)) 117 (Fork (One 118) 119 (One 120))) 121 (Fork (Fork (Fork (One 122) 123 None_of) 124 (One 125)) 126 (Fork (One 127) 128 (One 129))))),
     Fork (Fork (Fork (Fork (Fork (Fork (One 3) 4 None_of) 6 (One 7)) 8 (Fork (Fork (One 9) 10 None_of) 11 (One 17))) 18 (Fork (Fork (Fork (One 19) 20 None_of) 21 (One 22)) 23 (Fork (One 24) 25 (One 26)))) 27 (Fork (Fork (Fork (Fork (One 28) 29 None_of) 78 (One 79)) 80 (Fork (One 81) 82 (One 83))) 84 (Fork (Fork (Fork (One 85) 86 None_of) 87 (One 88)) 89 (Fork (One 90) 91 (One 92))))) 93 (Fork (Fork (Fork (Fork (Fork (One 94) 95 None_of) 96 (One 97)) 98 (Fork (Fork (One 99) 100 None_of) 101 (One 102))) 103 (Fork (Fork (Fork (One 104) 105 None_of) 106 (One 107)) 108 (Fork (One 109) 110 (One 111)))) 112 (Fork (Fork (Fork (Fork (One 113) 114 None_of) 115 (One 116)) 117 (Fork (One 118) 119 (One 120))) 121 (Fork (Fork (Fork (One 122) 123 None_of) 124 (One 125)) 126 (Fork (One 127) 128 (One 129))))),
     One 143, One 388, One 391, One 2, Fork (One 0) 1 None_of, One 0, None_of, One 446,
     Fork (One 0) 1 (One 2), One 393, None_of, One 288, One 288, One 288, One 392, None_of,
     One 273, One 272, One 274, One 353, Fork (One 0) 1 (One 2), None_of, One 494, One 146,
     None_of, None_of, One 38, None_of, One 176]"

definition node_preds_4 :: "states list" where
  "node_preds_4 = [One 271, Fork (One 143) 176 None_of, One 208, None_of, One 442, One 562, One 415,
     None_of, None_of, One 270, One 219, One 48, One 221, One 220, One 219, One 367, One 364,
     One 363, One 47, None_of, Fork (One 165) 166 (One 167), One 430, None_of, One 505,
     None_of, Fork (One 302) 364 None_of, None_of, Fork (One 147) 304 None_of, One 256,
     One 255, One 254, One 253, One 431, One 431, Fork (One 253) 254 (One 255),
     Fork (One 253) 254 (One 255), One 508, One 366, One 359, None_of, One 432, One 432,
     None_of, One 303, One 252, One 358, One 357, One 356, One 147, None_of, None_of,
     One 174, None_of, One 173, Fork (One 173) 174 None_of, Fork (One 173) 174 None_of,
     One 186, One 461, None_of, One 37, One 185, Fork (One 0) 1 (One 2), None_of, None_of,
     None_of, One 211, None_of, One 566, Fork (One 278) 284 (One 285), One 384, One 379,
     One 439, One 443, Fork (One 286) 316 None_of, Fork (One 286) 316 None_of, None_of,
     None_of, One 279, One 78, One 225, One 262, None_of, None_of, None_of,
     Fork (One 259) 283 None_of, None_of, One 199, One 311, One 310, One 308, One 309,
     None_of, One 265, None_of, One 247, None_of, None_of, One 238, One 237,
     Fork (One 259) 283 None_of, One 228, One 227, One 528, None_of, One 437, None_of,
     None_of, One 260, One 525, None_of, None_of, One 378, One 377,
     Fork (Fork (One 13) 14 None_of) 305 (Fork (One 306) 307 None_of),
     Fork (Fork (One 13) 14 None_of) 305 (Fork (One 306) 307 None_of), None_of, One 438,
     One 438, None_of, None_of, None_of, None_of, None_of, None_of, None_of, None_of,
     None_of, One 293, None_of, None_of, None_of, None_of, None_of, None_of, One 291,
     None_of, None_of, None_of, None_of, One 290, One 326, None_of, None_of, One 297,
     One 296, One 337, One 336, None_of, One 340, Fork (One 12) 240 None_of, None_of,
     One 424, One 261, Fork (Fork (One 188) 190 None_of) 191 (Fork (One 193) 198 None_of),
     One 51, None_of, None_of, None_of, One 268,
     Fork (Fork (Fork (Fork (Fork (Fork (One 3) 4 None_of) 6 (One 7)) 8 (Fork (Fork (One 9) 10 None_of) 11 (One 17))) 18 (Fork (Fork (Fork (One 19) 20 None_of) 21 (One 22)) 23 (Fork (Fork (One 24) 25 None_of) 26 (One 27)))) 28 (Fork (Fork (Fork (Fork (One 29) 78 None_of) 79 (One 80)) 81 (Fork (Fork (One 82) 83 None_of) 84 (One 85))) 86 (Fork (Fork (Fork (One 87) 88 None_of) 89 (One 90)) 91 (Fork (One 92) 93 (One 94))))) 95 (Fork (Fork (Fork (Fork (Fork (One 96) 97 None_of) 98 (One 99)) 100 (Fork (Fork (One 101) 102 None_of) 103 (One 104))) 105 (Fork (Fork (Fork (One 106) 107 None_of) 108 (One 109)) 110 (Fork (One 111) 112 (One 113)))) 114 (Fork (Fork (Fork (Fork (One 115) 116 None_of) 117 (One 118)) 119 (Fork (Fork (One 120) 121 None_of) 122 (One 123))) 124 (Fork (Fork (Fork (One 125) 126 None_of) 127 (One 128)) 129 (Fork (One 219) 220 (One 221))))),
     Fork (One 219) 220 (One 221),
     Fork (Fork (Fork (Fork (Fork (Fork (One 3) 4 None_of) 6 (One 7)) 8 (Fork (Fork (One 9) 10 None_of) 11 (One 17))) 18 (Fork (Fork (Fork (One 19) 20 None_of) 21 (One 22)) 23 (Fork (Fork (One 24) 25 None_of) 26 (One 27)))) 28 (Fork (Fork (Fork (Fork (One 29) 78 None_of) 79 (One 80)) 81 (Fork (Fork (One 82) 83 None_of) 84 (One 85))) 86 (Fork (Fork (Fork (One 87) 88 None_of) 89 (One 90)) 91 (Fork (One 92) 93 (One 94))))) 95 (Fork (Fork (Fork (Fork (Fork (One 96) 97 None_of) 98 (One 99)) 100 (Fork (Fork (One 101) 102 None_of) 103 (One 104))) 105 (Fork (Fork (Fork (One 106) 107 None_of) 108 (One 109)) 110 (Fork (One 111) 112 (One 113)))) 114 (Fork (Fork (Fork (Fork (One 115) 116 None_of) 117 (One 118)) 119 (Fork (Fork (One 120) 121 None_of) 122 (One 123))) 124 (Fork (Fork (Fork (One 125) 126 None_of) 127 (One 128)) 129 (Fork (One 219) 220 (One 221))))),
     Fork (Fork (Fork (Fork (Fork (Fork (One 3) 4 None_of) 6 (One 7)) 8 (Fork (Fork (One 9) 10 None_of) 11 (One 17))) 18 (Fork (Fork (Fork (One 19) 20 None_of) 21 (One 22)) 23 (Fork (One 24) 25 (One 26)))) 27 (Fork (Fork (Fork (Fork (One 28) 29 None_of) 78 (One 79)) 80 (Fork (One 81) 82 (One 83))) 84 (Fork (Fork (Fork (One 85) 86 None_of) 87 (One 88)) 89 (Fork (One 90) 91 (One 92))))) 93 (Fork (Fork (Fork (Fork (Fork (One 94) 95 None_of) 96 (One 97)) 98 (Fork (Fork (One 99) 100 None_of) 101 (One 102))) 103 (Fork (Fork (Fork (One 104) 105 None_of) 106 (One 107)) 108 (Fork (One 109) 110 (One 111)))) 112 (Fork (Fork (Fork (Fork (One 113) 114 None_of) 115 (One 116)) 117 (Fork (One 118) 119 (One 120))) 121 (Fork (Fork (Fork (One 122) 123 None_of) 124 (One 125)) 126 (Fork (One 127) 128 (One 129))))),
     One 444, One 561, None_of, None_of, One 160, One 159,
     Fork (Fork (Fork (Fork (Fork (Fork (One 3) 4 None_of) 6 (One 7)) 8 (Fork (Fork (One 9) 10 None_of) 11 (One 17))) 18 (Fork (Fork (Fork (One 19) 20 None_of) 21 (One 22)) 23 (Fork (Fork (One 24) 25 None_of) 26 (One 27)))) 28 (Fork (Fork (Fork (Fork (One 29) 78 None_of) 79 (One 80)) 81 (Fork (Fork (One 82) 83 None_of) 84 (One 85))) 86 (Fork (Fork (Fork (One 87) 88 None_of) 89 (One 90)) 91 (Fork (One 92) 93 (One 94))))) 95 (Fork (Fork (Fork (Fork (Fork (One 96) 97 None_of) 98 (One 99)) 100 (Fork (Fork (One 101) 102 None_of) 103 (One 104))) 105 (Fork (Fork (Fork (One 106) 107 None_of) 108 (One 109)) 110 (Fork (One 111) 112 (One 113)))) 114 (Fork (Fork (Fork (Fork (One 115) 116 None_of) 117 (One 118)) 119 (Fork (Fork (One 120) 121 None_of) 122 (One 123))) 124 (Fork (Fork (Fork (One 125) 126 None_of) 127 (One 128)) 129 (Fork (One 219) 220 (One 221))))),
     One 50, None_of, None_of, None_of, None_of, None_of, None_of, None_of, None_of, One 409,
     None_of, None_of,
     Fork (Fork (Fork (Fork (Fork (One 13) 14 None_of) 15 (Fork (One 16) 41 None_of)) 42 (Fork (Fork (One 43) 44 None_of) 45 (One 46))) 47 (Fork (Fork (Fork (One 48) 49 None_of) 50 (One 51)) 52 (Fork (Fork (One 53) 54 None_of) 55 (One 56)))) 57 (Fork (Fork (Fork (Fork (One 58) 59 None_of) 60 (Fork (One 61) 62 None_of)) 63 (Fork (Fork (One 64) 65 None_of) 66 (One 67))) 68 (Fork (Fork (Fork (One 69) 70 None_of) 71 (One 72)) 73 (Fork (Fork (One 74) 75 None_of) 76 (One 77)))),
     One 409, None_of, None_of, None_of, None_of, None_of, None_of, None_of, None_of,
     Fork (Fork (Fork (Fork (Fork (One 13) 14 None_of) 15 (Fork (One 16) 41 None_of)) 42 (Fork (Fork (One 43) 44 None_of) 45 (One 46))) 47 (Fork (Fork (Fork (One 48) 49 None_of) 50 (One 51)) 52 (Fork (Fork (One 53) 54 None_of) 55 (One 56)))) 57 (Fork (Fork (Fork (Fork (One 58) 59 None_of) 60 (Fork (One 61) 62 None_of)) 63 (Fork (Fork (One 64) 65 None_of) 66 (One 67))) 68 (Fork (Fork (Fork (One 69) 70 None_of) 71 (One 72)) 73 (Fork (Fork (One 74) 75 None_of) 76 (One 77)))),
     One 409, None_of,
     Fork (Fork (Fork (Fork (Fork (One 13) 14 None_of) 15 (Fork (One 16) 41 None_of)) 42 (Fork (Fork (One 43) 44 None_of) 45 (One 46))) 47 (Fork (Fork (Fork (One 48) 49 None_of) 50 (One 51)) 52 (Fork (Fork (One 53) 54 None_of) 55 (One 56)))) 57 (Fork (Fork (Fork (Fork (One 58) 59 None_of) 60 (Fork (One 61) 62 None_of)) 63 (Fork (Fork (One 64) 65 None_of) 66 (One 67))) 68 (Fork (Fork (Fork (One 69) 70 None_of) 71 (One 72)) 73 (Fork (Fork (One 74) 75 None_of) 76 (One 77)))),
     One 409, One 552, One 517, One 551]"

definition node_preds_5 :: "states list" where
  "node_preds_5 = [One 381, One 553, One 558, None_of, None_of, None_of, None_of, None_of, None_of,
     None_of, None_of, None_of, None_of, One 549, One 343, One 146, None_of, None_of,
     One 436, One 307, One 306, None_of, One 435, One 184, One 168, One 325, None_of,
     None_of, None_of, One 31, One 453, One 31, One 452, One 441, One 440, One 203, One 346,
     One 277, One 486, None_of, One 276, None_of, None_of, None_of, None_of, One 481,
     One 464, One 244, One 243, One 478, One 401, One 400, One 398, One 399, One 556,
     One 554, Fork (One 173) 174 (One 267), Fork (One 173) 174 (One 267),
     Fork (One 173) 174 (One 267), One 183, One 15, None_of, None_of, None_of, None_of,
     One 321, None_of, One 320, One 233, None_of, One 230, None_of, One 231, None_of,
     One 416, One 241, None_of, Fork (One 177) 178 None_of, One 412,
     Fork (One 177) 178 None_of, None_of, None_of, None_of, One 434, One 521, One 519,
     Fork (Fork (One 141) 142 None_of) 145 (One 148), One 197, One 149, One 202, One 541,
     One 205, One 204, One 200, One 201, Fork (One 32) 33 None_of, One 175, None_of, One 376,
     One 375, Fork (Fork (One 32) 33 (One 175)) 200 (Fork (One 201) 204 (One 205)),
     Fork (One 6) 8 None_of, One 534, One 7, One 536, One 41, One 535, None_of, One 264,
     One 539, One 538, One 264, None_of, One 369, Fork (One 159) 160 None_of, None_of,
     One 515, One 224, One 49, None_of, One 1, None_of, Fork (One 0) 1 None_of, One 575,
     One 574, None_of, None_of, One 275, Fork (One 389) 390 None_of, None_of, One 317,
     None_of, None_of, None_of,
     Fork (Fork (Fork (Fork (Fork (Fork (One 30) 31 None_of) 32 (Fork (One 33) 34 None_of)) 141 (Fork (Fork (One 142) 143 None_of) 144 (One 145))) 148 (Fork (Fork (Fork (One 149) 152 None_of) 168 (Fork (One 169) 170 None_of)) 171 (Fork (Fork (One 172) 176 None_of) 179 (One 180)))) 181 (Fork (Fork (Fork (Fork (One 182) 183 None_of) 184 (Fork (One 185) 186 None_of)) 187 (Fork (Fork (One 188) 189 None_of) 190 (One 191))) 192 (Fork (Fork (Fork (One 193) 194 None_of) 195 (One 196)) 197 (Fork (Fork (One 198) 202 None_of) 222 (One 224))))) 225 (Fork (Fork (Fork (Fork (Fork (One 226) 227 None_of) 228 (Fork (One 229) 230 None_of)) 231 (Fork (Fork (One 232) 233 None_of) 234 (One 235))) 236 (Fork (Fork (Fork (One 237) 238 None_of) 239 (Fork (One 241) 242 None_of)) 243 (Fork (Fork (One 244) 245 None_of) 246 (One 247)))) 248 (Fork (Fork (Fork (Fork (One 249) 250 None_of) 251 (Fork (One 252) 256 None_of)) 257 (Fork (Fork (One 258) 260 None_of) 261 (One 262))) 265 (Fork (Fork (Fork (One 266) 268 None_of) 269 (One 270)) 271 (Fork (Fork (One 272) 273 None_of) 274 (One 275))))),
     Fork (Fork (Fork (Fork (Fork (Fork (One 30) 31 None_of) 32 (Fork (One 33) 34 None_of)) 141 (Fork (Fork (One 142) 143 None_of) 144 (One 145))) 148 (Fork (Fork (Fork (One 149) 152 None_of) 168 (Fork (One 169) 170 None_of)) 171 (Fork (Fork (One 172) 176 None_of) 179 (One 180)))) 181 (Fork (Fork (Fork (Fork (One 182) 183 None_of) 184 (Fork (One 185) 186 None_of)) 187 (Fork (Fork (One 188) 189 None_of) 190 (One 191))) 192 (Fork (Fork (Fork (One 193) 194 None_of) 195 (One 196)) 197 (Fork (Fork (One 198) 202 None_of) 222 (One 224))))) 225 (Fork (Fork (Fork (Fork (Fork (One 226) 227 None_of) 228 (Fork (One 229) 230 None_of)) 231 (Fork (Fork (One 232) 233 None_of) 234 (One 235))) 236 (Fork (Fork (Fork (One 237) 238 None_of) 239 (Fork (One 241) 242 None_of)) 243 (Fork (Fork (One 244) 245 None_of) 246 (One 247)))) 248 (Fork (Fork (Fork (Fork (One 249) 250 None_of) 251 (Fork (One 252) 256 None_of)) 257 (Fork (Fork (One 258) 260 None_of) 261 (One 262))) 265 (Fork (Fork (Fork (One 266) 268 None_of) 269 (One 270)) 271 (Fork (Fork (One 272) 273 None_of) 274 (One 275))))),
     Fork (Fork (Fork (Fork (Fork (Fork (One 30) 31 None_of) 32 (Fork (One 33) 34 None_of)) 141 (Fork (Fork (One 142) 143 None_of) 144 (One 145))) 148 (Fork (Fork (Fork (One 149) 152 None_of) 168 (Fork (One 169) 170 None_of)) 171 (Fork (Fork (One 172) 176 None_of) 179 (One 180)))) 181 (Fork (Fork (Fork (Fork (One 182) 183 None_of) 184 (Fork (One 185) 186 None_of)) 187 (Fork (Fork (One 188) 189 None_of) 190 (One 191))) 192 (Fork (Fork (Fork (One 193) 194 None_of) 195 (One 196)) 197 (Fork (Fork (One 198) 202 None_of) 222 (One 224))))) 225 (Fork (Fork (Fork (Fork (Fork (One 226) 227 None_of) 228 (Fork (One 229) 230 None_of)) 231 (Fork (Fork (One 232) 233 None_of) 234 (One 235))) 236 (Fork (Fork (Fork (One 237) 238 None_of) 239 (Fork (One 241) 242 None_of)) 243 (Fork (Fork (One 244) 245 None_of) 246 (One 247)))) 248 (Fork (Fork (Fork (Fork (One 249) 250 None_of) 251 (Fork (One 252) 256 None_of)) 257 (Fork (Fork (One 258) 260 None_of) 261 (One 262))) 265 (Fork (Fork (Fork (One 266) 268 None_of) 269 (One 270)) 271 (Fork (Fork (One 272) 273 None_of) 274 (One 275))))),
     None_of, Fork (One 208) 209 None_of, None_of, None_of, Fork (One 165) 166 (One 167),
     None_of, One 368, One 361, One 360, None_of, One 223, None_of, None_of, None_of,
     None_of, None_of, None_of,
     Fork (Fork (One 315) 457 None_of) 458 (Fork (One 467) 471 None_of),
     Fork (Fork (One 263) 279 None_of) 280 (Fork (One 281) 282 None_of), None_of, None_of,
     None_of,
     Fork (Fork (Fork (Fork (Fork (One 13) 14 None_of) 15 (Fork (One 16) 41 None_of)) 42 (Fork (Fork (One 43) 44 None_of) 45 (One 46))) 47 (Fork (Fork (Fork (One 48) 49 None_of) 50 (One 51)) 52 (Fork (Fork (One 53) 54 None_of) 55 (One 56)))) 57 (Fork (Fork (Fork (Fork (One 58) 59 None_of) 60 (Fork (One 61) 62 None_of)) 63 (Fork (Fork (One 64) 65 None_of) 66 (One 67))) 68 (Fork (Fork (Fork (One 69) 70 None_of) 71 (One 72)) 73 (Fork (Fork (One 74) 75 None_of) 76 (One 77)))),
     None_of, None_of, None_of, Fork (One 30) 31 None_of, Fork (One 30) 31 None_of,
     Fork (One 30) 31 None_of, Fork (Fork (One 30) 31 None_of) 150 (One 151), None_of,
     One 489, None_of, None_of, Fork (One 322) 323 None_of, None_of, None_of,
     Fork (One 289) 318 (One 319), None_of, None_of, Fork (One 177) 178 None_of, None_of,
     One 411, Fork (One 411) 412 None_of, None_of]"

definition node_preds :: "states list" where
  "node_preds = node_preds_1 @ node_preds_2 @ node_preds_3 @ node_preds_4 @ node_preds_5"

lemma node_preds_lengths:
  "length node_preds_1 = 200" "length node_preds_2 = 200" "length node_preds_3 = 200" "length node_preds_4 = 200" "length node_preds_5 = 182"
  "length node_preds = 982"
  by (simp_all add: node_preds_1_def node_preds_2_def node_preds_3_def node_preds_4_def node_preds_5_def node_preds_def)

lemma node_preds_1_entries: "part_at node_preds 0 node_preds_1"
  unfolding part_at_def
  by (rule exI [of _ "[]"], rule exI [of _ "node_preds_2 @ node_preds_3 @ node_preds_4 @ node_preds_5"]) (simp add: node_preds_def node_preds_lengths)

lemma node_preds_2_entries: "part_at node_preds 200 node_preds_2"
  unfolding part_at_def
  by (rule exI [of _ "node_preds_1"], rule exI [of _ "node_preds_3 @ node_preds_4 @ node_preds_5"]) (simp add: node_preds_def node_preds_lengths)

lemma node_preds_3_entries: "part_at node_preds 400 node_preds_3"
  unfolding part_at_def
  by (rule exI [of _ "node_preds_1 @ node_preds_2"], rule exI [of _ "node_preds_4 @ node_preds_5"]) (simp add: node_preds_def node_preds_lengths)

lemma node_preds_4_entries: "part_at node_preds 600 node_preds_4"
  unfolding part_at_def
  by (rule exI [of _ "node_preds_1 @ node_preds_2 @ node_preds_3"], rule exI [of _ "node_preds_5"]) (simp add: node_preds_def node_preds_lengths)

lemma node_preds_5_entries: "part_at node_preds 800 node_preds_5"
  unfolding part_at_def
  by (rule exI [of _ "node_preds_1 @ node_preds_2 @ node_preds_3 @ node_preds_4"], rule exI [of _ "[]"]) (simp add: node_preds_def node_preds_lengths)

lemmas node_preds_at [simp] =
  entries_of_part [OF node_preds_1_entries node_preds_1_def, unfolded table_index, unfolded One_nat_def]
  entries_of_part [OF node_preds_2_entries node_preds_2_def, unfolded table_index, unfolded One_nat_def]
  entries_of_part [OF node_preds_3_entries node_preds_3_def, unfolded table_index, unfolded One_nat_def]
  entries_of_part [OF node_preds_4_entries node_preds_4_def, unfolded table_index, unfolded One_nat_def]
  entries_of_part [OF node_preds_5_entries node_preds_5_def, unfolded table_index, unfolded One_nat_def]

definition node_accs_1 :: "nat list list" where
  "node_accs_1 = [[], [186, 187], [189], [22], [22], [22], [313], [44], [48], [22], [22], [243], [213],
     [216, 217], [216, 217], [216, 217], [216, 217], [22], [22], [22], [22], [34], [34],
     [34], [34], [34], [34], [157], [22], [22], [22], [53], [22], [22], [25], [270], [270],
     [24], [24], [22], [22], [216, 217], [216, 217], [216, 217], [216, 217], [216, 217],
     [216, 217], [216, 217], [216, 217], [216, 217], [216, 217], [216, 217], [216, 217],
     [216, 217], [216, 217], [216, 217], [216, 217], [216, 217], [216, 217], [216, 217],
     [216, 217], [216, 217], [216, 217], [216, 217], [216, 217], [216, 217], [216, 217],
     [216, 217], [216, 217], [216, 217], [216, 217], [216, 217], [216, 217], [216, 217],
     [216, 217], [216, 217], [216, 217], [216, 217], [213], [19], [45], [294], [67], [24],
     [294], [151], [149], [53], [53], [53], [53], [158], [22], [22], [22], [149], [25],
     [115], [149], [147], [25], [25], [142], [142], [159], [158], [160], [159], [158],
     [106, 107], [114], [19], [22], [25], [44], [275], [112], [58], [274], [111],
     [108, 109, 110], [106, 107], [102, 103, 104, 105], [52, 53], [54, 55, 56, 57], [43],
     [44], [69], [148], [22], [216, 217], [216, 217], [216, 217], [216, 217], [216, 217],
     [216, 217], [216, 217], [216, 217], [216, 217], [216, 217], [216, 217], [81], [81],
     [23], [16], [72], [197], [222], [72], [164], [25], [22], [22], [241], [241], [241],
     [216, 217], [241], [5], [23], [23], [216, 217], [216, 217], [216, 217], [216, 217],
     [207], [207], [207], [78], [130], [130], [130], [130], [43], [37], [193], [25], [300],
     [300], [297], [151], [234], [142], [237], [237], [237], [237], [142], [22], [151], [22],
     [22], [234], [68], [115], [22], [22], [25], [22], [255]]"

definition node_accs_2 :: "nat list list" where
  "node_accs_2 = [[231], [231], [25], [286], [249], [249], [262], [262], [193], [24], [248], [242], [22],
     [150], [150], [150], [150], [142], [243], [214], [214], [214], [25], [229], [165],
     [141], [257], [193], [118], [276], [297], [15], [297], [15], [30], [98], [70], [24],
     [24], [141], [266], [144], [199], [34], [141], [115], [199], [141], [199], [199], [199],
     [125], [119], [129], [128], [127], [46], [125], [25], [256], [34], [25], [24], [200],
     [91], [141], [25], [22], [141], [141], [119], [26], [194], [13], [194], [6], [287],
     [200], [239, 240], [213], [23], [23], [23], [256], [239, 240], [239, 240], [22], [120],
     [5], [99], [204], [245], [268], [260, 264], [292], [268], [152], [246], [268], [204],
     [268], [292], [231], [228, 230], [222], [67], [282], [282], [255], [255], [255], [260],
     [253], [253], [279], [244], [138], [195], [163], [133], [193], [193], [40], [32], [193],
     [193], [139], [262], [129], [77], [161], [79], [16], [193], [16], [293], [246], [152],
     [23], [292], [127], [245], [129], [23], [193], [161], [289], [238], [193], [77], [200],
     [193], [79], [193], [16], [193], [23], [23], [23], [131], [24], [24], [193], [123],
     [218], [219], [131], [121], [121], [311], [221], [193], [193], [193], [193], [316],
     [315], [219], [219], [249], [251], [200], [193], [278], [249], [247], [246], [245],
     [201], [14], [15], [12], [10, 11], [191], [22], [302], [25], [206], [246], [204]]"

definition node_accs_3 :: "nat list list" where
  "node_accs_3 = [[271], [246], [206], [221], [221], [107], [106], [254], [206], [19], [133], [303],
     [303], [198], [115], [209], [299], [238], [200], [193], [61], [61], [231], [37], [263],
     [263], [263], [231], [232], [231], [113], [130], [64], [19], [24], [113], [232], [263],
     [82], [253], [107], [106], [211, 212], [253], [113], [59, 116], [3], [2], [298], [296],
     [193], [162], [212], [193, 211, 284], [120], [269], [260, 264], [244], [244], [193],
     [128], [18], [200], [80], [291], [128], [129], [244], [129], [246], [115], [244], [269],
     [23], [193], [23], [193], [293], [19], [116], [193], [291], [285], [193], [200], [281],
     [65], [263], [129], [41], [62], [193], [288], [221], [19], [18], [19], [23], [67],
     [132], [124], [123], [220], [67], [122], [23], [96], [95], [66], [124], [122], [115],
     [108], [22], [166], [308], [261], [204], [253], [204], [305], [19], [193], [204], [261],
     [19], [116], [144], [193], [253], [146], [145], [145], [87], [90], [85], [90], [315],
     [85], [66], [87], [308], [24], [193], [306], [231], [145], [140], [140], [261], [253],
     [204], [261], [204], [193], [236], [63], [71], [280], [139], [20], [208], [211, 212],
     [36], [25], [252], [134], [193], [193], [118], [117], [203, 205], [202], [192], [188],
     [188], [185], [], [4], [190], [192], [], [7], [8], [9], [192], [], [193], [193], [193],
     [200], [17], [], [20], [21], [], [], [204], [], [205]]"

definition node_accs_4 :: "nat list list" where
  "node_accs_4 = [[193], [193], [208], [], [23], [23], [59, 117], [], [], [193], [216], [23], [216],
     [216], [59, 116], [218], [220], [218], [23], [], [223], [59, 117], [], [59], [], [126],
     [], [225], [193], [226], [226], [226], [121], [120], [35], [74], [28], [227], [227], [],
     [7], [8], [], [25], [193], [218], [218], [218], [223, 233], [], [], [235, 236], [],
     [235, 236], [63], [73], [238], [20], [], [204], [238], [204], [], [], [], [240], [],
     [135], [136, 137], [250], [250], [23], [23], [140], [135], [], [], [255], [108], [108],
     [193], [], [], [], [258], [], [259], [259], [259], [259], [259], [], [193], [], [193],
     [], [], [193], [193], [25, 143], [143], [143], [143], [], [23], [], [], [193], [116],
     [], [], [265], [265], [31], [39], [], [83], [84], [], [], [], [], [], [], [], [], [],
     [267], [], [], [], [], [], [], [267], [], [], [], [], [271], [272], [], [], [271],
     [271], [272], [272], [], [234], [73], [], [23], [193], [193], [23], [], [], [], [193],
     [121, 153, 154], [117], [155], [156], [59, 117], [23], [], [], [273], [273], [100],
     [23], [], [], [], [], [], [], [], [], [46, 47], [], [], [50, 51], [121], [], [], [], [],
     [], [], [], [], [48], [48], [], [49], [49], [23], [23], [23]]"

definition node_accs_5 :: "nat list list" where
  "node_accs_5 = [[277], [23], [11], [], [], [], [], [], [], [], [], [], [], [23], [246], [123], [], [],
     [23], [219], [219], [], [59, 117], [238], [283], [283], [], [], [], [193, 211, 284],
     [23], [212], [23], [153, 155], [153, 155], [11], [290], [29, 33], [68], [], [127, 128],
     [], [], [], [], [1], [1], [193], [193], [116], [213], [213], [213], [213], [23], [23],
     [12], [27], [42], [238], [295], [], [], [], [], [200], [], [200], [193], [], [193], [],
     [193], [], [23], [193], [], [101], [23], [22], [], [], [], [97], [97], [23], [304],
     [304], [307], [307], [23], [309], [309], [309], [309], [309], [309], [], [317], [317],
     [76, 89, 92], [314], [88], [314], [86], [86, 88], [75], [], [318], [93], [75],
     [94, 146], [], [312], [312], [], [23], [193], [23], [], [187], [], [1], [1], [1], [],
     [], [193], [13], [], [196], [], [], [], [59, 116], [117], [118], [], [59, 117], [], [],
     [215], [], [218], [224], [224], [], [230], [], [], [], [], [], [], [25], [59, 117], [],
     [], [], [46, 47], [], [], [], [115], [128], [120], [153, 155], [], [75], [], [], [38],
     [], [], [60], [], [], [301], [], [23], [101], []]"

definition node_accs :: "nat list list" where
  "node_accs = node_accs_1 @ node_accs_2 @ node_accs_3 @ node_accs_4 @ node_accs_5"

lemma node_accs_lengths:
  "length node_accs_1 = 200" "length node_accs_2 = 200" "length node_accs_3 = 200" "length node_accs_4 = 200" "length node_accs_5 = 182"
  "length node_accs = 982"
  by (simp_all add: node_accs_1_def node_accs_2_def node_accs_3_def node_accs_4_def node_accs_5_def node_accs_def)

lemma node_accs_1_entries: "part_at node_accs 0 node_accs_1"
  unfolding part_at_def
  by (rule exI [of _ "[]"], rule exI [of _ "node_accs_2 @ node_accs_3 @ node_accs_4 @ node_accs_5"]) (simp add: node_accs_def node_accs_lengths)

lemma node_accs_2_entries: "part_at node_accs 200 node_accs_2"
  unfolding part_at_def
  by (rule exI [of _ "node_accs_1"], rule exI [of _ "node_accs_3 @ node_accs_4 @ node_accs_5"]) (simp add: node_accs_def node_accs_lengths)

lemma node_accs_3_entries: "part_at node_accs 400 node_accs_3"
  unfolding part_at_def
  by (rule exI [of _ "node_accs_1 @ node_accs_2"], rule exI [of _ "node_accs_4 @ node_accs_5"]) (simp add: node_accs_def node_accs_lengths)

lemma node_accs_4_entries: "part_at node_accs 600 node_accs_4"
  unfolding part_at_def
  by (rule exI [of _ "node_accs_1 @ node_accs_2 @ node_accs_3"], rule exI [of _ "node_accs_5"]) (simp add: node_accs_def node_accs_lengths)

lemma node_accs_5_entries: "part_at node_accs 800 node_accs_5"
  unfolding part_at_def
  by (rule exI [of _ "node_accs_1 @ node_accs_2 @ node_accs_3 @ node_accs_4"], rule exI [of _ "[]"]) (simp add: node_accs_def node_accs_lengths)

lemmas node_accs_at [simp] =
  entries_of_part [OF node_accs_1_entries node_accs_1_def, unfolded table_index, unfolded One_nat_def]
  entries_of_part [OF node_accs_2_entries node_accs_2_def, unfolded table_index, unfolded One_nat_def]
  entries_of_part [OF node_accs_3_entries node_accs_3_def, unfolded table_index, unfolded One_nat_def]
  entries_of_part [OF node_accs_4_entries node_accs_4_def, unfolded table_index, unfolded One_nat_def]
  entries_of_part [OF node_accs_5_entries node_accs_5_def, unfolded table_index, unfolded One_nat_def]

definition node_rank_1 :: "nat list" where
  "node_rank_1 = [2, 2, 2, 2, 0, 2, 0, 0, 0, 2, 2, 2, 0, 5, 4, 2, 13, 0, 0, 0, 0, 0, 0, 0, 0, 0, 0, 2, 0,
     0, 0, 0, 3, 3, 0, 0, 0, 0, 0, 0, 0, 0, 0, 0, 0, 0, 0, 0, 0, 0, 0, 1, 0, 0, 0, 0, 0, 1,
     3, 5, 1, 3, 0, 7, 8, 4, 0, 0, 0, 0, 1, 6, 4, 0, 0, 12, 13, 12, 0, 0, 0, 0, 0, 0, 0, 0,
     0, 0, 0, 0, 0, 0, 0, 0, 0, 0, 0, 0, 0, 0, 0, 0, 0, 0, 0, 0, 0, 0, 0, 0, 0, 0, 0, 0, 0,
     0, 0, 0, 0, 0, 0, 0, 0, 0, 0, 0, 0, 0, 0, 0, 12, 10, 9, 11, 10, 12, 10, 12, 12, 12, 12,
     0, 0, 2, 0, 0, 2, 2, 0, 0, 0, 0, 0, 0, 0, 0, 12, 0, 2, 11, 10, 12, 12, 13, 13, 0, 2, 0,
     3, 0, 0, 0, 0, 0, 0, 2, 0, 1, 0, 0, 0, 0, 0, 0, 0, 0, 0, 0, 0, 0, 0, 0, 0, 0, 0, 0, 0,
     0, 0, 9, 2, 2, 0, 2, 2, 2, 2, 4, 6, 2, 4, 0, 3, 4, 4, 4, 4, 2, 4, 0, 0, 0, 0, 0, 0, 0,
     0, 0, 0, 0, 0, 0, 0, 0, 2, 2, 0, 0, 0, 0, 0, 0, 0, 0, 0, 0, 0, 0, 0, 0, 0, 0, 0, 0, 0,
     0, 0, 0, 0, 0, 0, 0, 0, 11, 0, 0, 0, 0, 0, 0, 0, 0, 0, 0, 0, 2, 0, 2, 2, 11, 10, 10, 8,
     10, 5, 3, 4, 2, 4, 2, 2, 2, 4, 2, 6, 4, 2, 2, 4, 4, 6, 2, 2, 2, 0, 6, 2, 2, 8, 8, 6, 8,
     4, 4, 2, 12, 6, 0, 2, 2, 2, 2, 2, 2, 2, 2, 2, 2, 2, 2, 2, 2, 2, 2, 2, 4, 2, 2, 2, 2, 2,
     4, 2, 2, 2, 2, 2, 4, 4, 2, 2, 4, 2, 2, 2, 6, 2, 2, 2, 5, 0, 0, 4, 4, 2, 4, 4, 3, 4, 11,
     0, 4, 4, 2, 13, 2, 2, 3, 2, 2, 4, 12, 14, 0, 2, 6, 8, 10, 2, 2, 2, 3, 3, 2, 2, 2, 2, 2,
     2, 2, 2, 2, 4, 4, 2, 2, 2, 2, 2, 0, 0, 0, 0, 0, 0, 5, 0, 1, 0, 5, 0, 0, 0, 0, 0, 0, 0,
     0, 0, 0, 0, 0, 0, 0, 1, 0, 0, 0, 0, 0, 0, 0, 0, 0, 0, 14, 0, 3, 2, 0, 0, 0, 0, 0, 0, 0,
     0, 0, 0, 3, 0, 0, 0, 0, 0, 0, 0, 0, 0, 0, 0, 2, 0, 0, 0, 0, 0, 0, 0, 0, 7, 0, 0, 0, 0,
     0, 0, 0, 1, 0, 0, 5, 0, 0, 0, 0, 0, 0, 0, 0]"

definition node_rank_2 :: "nat list" where
  "node_rank_2 = [0, 0, 0, 0, 0, 1, 0, 0, 0, 0, 0, 0, 0, 0, 0, 0, 0, 0, 0, 0, 0, 0, 0, 0, 0, 0, 0, 0, 0,
     5, 0, 0, 0, 0, 0, 0, 0, 0, 0, 0, 0, 0, 0, 0, 4, 1, 0, 0, 0, 0, 1, 0, 0, 0, 0, 0, 0, 0,
     0, 0, 0, 0, 0, 0, 0, 6, 1, 12, 0, 14, 14, 0, 0, 1, 0, 0, 0, 0, 1, 1, 0, 0, 3, 3, 3, 1,
     0, 1, 0, 0, 0, 3, 0, 0, 1, 0, 0, 1, 0, 0, 0, 1, 4, 0, 2, 0, 5, 0, 0, 2, 1, 0, 0, 0, 1,
     1, 0, 2, 0, 0, 3, 2, 0, 0, 0, 1, 0, 2, 2, 1, 1, 1, 1, 1, 2, 2, 1, 2, 3, 0, 3, 3, 0, 1,
     2, 0, 0, 0, 0, 0, 0, 1, 0, 0, 2, 2, 0, 0, 0, 0, 0, 2, 0, 0, 0, 4, 0, 0, 1, 0, 0, 4, 3,
     5, 5, 0, 0, 9, 11, 9, 9, 0, 0, 0, 0, 0, 7, 6, 4, 6, 6, 0, 12, 0, 3, 0, 0, 1, 3, 1, 0, 0,
     0, 0, 5, 0, 0, 7, 8, 0, 0, 0, 1, 5, 5, 0, 1, 1, 0, 0, 0, 0, 0, 0, 0, 0, 0, 0, 0, 0, 0,
     0, 0, 0, 0, 0, 0, 0, 0, 0, 0, 0, 0, 0, 0, 0, 0, 0, 0, 1, 0, 0, 0, 1, 12, 0, 0, 0, 10,
     14, 2, 14, 14, 12, 9, 0, 0, 9, 10, 14, 10, 0, 0, 0, 0, 0, 0, 0, 0, 0, 0, 0, 13, 12, 0,
     0, 0, 0, 0, 0, 0, 0, 1, 0, 0, 1, 0, 10, 12, 10, 10, 11, 10, 0, 0, 0, 0, 0, 0, 0, 0, 0,
     0, 9, 0, 1, 0, 0, 3, 0, 0, 0, 2, 0, 1, 0, 0, 0, 0, 0, 0, 0, 0, 0, 0, 0, 0, 1, 0, 0, 1,
     0, 0, 0, 0, 1, 2, 5, 3, 4, 0, 0, 0, 0, 11, 9, 2, 2, 2, 0, 0, 0, 0, 0, 0, 0, 0, 0, 0, 0,
     0, 0, 0, 0, 0, 0, 0, 2, 0, 3, 0, 0, 0, 0, 0, 0, 1, 0, 5, 3, 2, 0, 0, 0, 0, 1, 0, 0, 0,
     0, 1, 3, 2, 3, 2, 3, 3, 0, 0, 0, 0, 1, 0, 10, 11, 0, 9, 11, 8, 0, 2, 0, 3, 2, 1, 0, 0,
     1, 1, 0, 1, 0, 0, 0, 15, 15, 15, 0, 6, 0, 0, 2, 0, 2, 0, 2, 0, 1, 0, 0, 0, 0, 0, 0, 2,
     10, 0, 0, 0, 1, 0, 0, 0, 1, 1, 1, 1, 0, 1, 0, 0, 1, 0, 0, 1, 0, 0, 1, 0, 0, 0, 0]"

definition node_rank :: "nat list" where
  "node_rank = node_rank_1 @ node_rank_2"

lemma node_rank_lengths:
  "length node_rank_1 = 500" "length node_rank_2 = 482"
  "length node_rank = 982"
  by (simp_all add: node_rank_1_def node_rank_2_def node_rank_def)

lemma node_rank_1_entries: "part_at node_rank 0 node_rank_1"
  unfolding part_at_def
  by (rule exI [of _ "[]"], rule exI [of _ "node_rank_2"]) (simp add: node_rank_def node_rank_lengths)

lemma node_rank_2_entries: "part_at node_rank 500 node_rank_2"
  unfolding part_at_def
  by (rule exI [of _ "node_rank_1"], rule exI [of _ "[]"]) (simp add: node_rank_def node_rank_lengths)

lemmas node_rank_at [simp] =
  entries_of_part [OF node_rank_1_entries node_rank_1_def, unfolded table_index, unfolded One_nat_def]
  entries_of_part [OF node_rank_2_entries node_rank_2_def, unfolded table_index, unfolded One_nat_def]

text \<open>The states whose row begins at an offset of the action table.\<close>

definition offset_states_1 :: "nat list list" where
  "offset_states_1 = [[13, 14], [5, 36, 37, 38, 39, 40], [], [], [], [], [], [], [], [], [], [], [], [], [],
     [], [], [], [], [], [], [], [161, 162], [], [], [], [], [], [], [], [], [], [], [], [],
     [], [], [], [], [], [41], [], [], [], [], [], [], [], [], [], [], [], [], [], [], [],
     [], [], [], [], [], [], [], [], [], [141], [140], [210], [], [], [], [], [], [], [], [],
     [], [156], [], [150, 151], [], [], [], [], [], [], [], [], [35], [], [], [], [], [],
     [138], [], [], [], [], [], [], [], [], [], [], [], [], [], [], [], [], [42], [142],
     [159, 160], [], [], [], [], [], [], [], [], [], [158], [], [], [], [], [], [], [], [],
     [], [], [], [], [], [130], [], [], [], [], [], [], [], [], [], [], [], [], [], [], [],
     [], [], [], [], [], [], [], [], [], [], [], [], [], [], [], [], [], [], [], [], [], [],
     [], [], [], [], [], [], [131, 132, 133, 134, 135, 136, 137], [], [], [312, 313], [], [],
     [], [], [], [], [], [], [], [], [], [], [], [], [], [], [], [], [], [], [], [], [409],
     [], [278, 284, 285], [], [], [], [], [15], [], [34], [], [], [], [], [], [240], [], [],
     [], [], [], [], [], [], [], [], [], [], [], [], [], [], [168], [], [], [], [], [], [],
     [], [], [], [295, 298], [], [], [], [], [], [], [], [], [43], [], [], [], [], [], [],
     [], [], [], [], [], [], [30, 31], [], [], [], [], [], [], [], [], [], [], [], [], [],
     [], [], [], [], [], [], [], [], [], [], [], [], [], [], []]"

definition offset_states_2 :: "nat list list" where
  "offset_states_2 = [[], [], [], [], [], [], [], [], [], [], [], [], [], [], [], [], [], [], [], [], [], [],
     [3, 4], [], [], [], [], [], [165, 166, 167], [], [], [411], [], [], [], [], [], [], [],
     [], [], [], [], [], [], [], [], [], [], [], [], [], [], [], [], [], [], [], [], [], [],
     [44], [], [], [], [], [143, 176], [], [], [], [], [], [], [], [], [], [], [], [], [],
     [], [], [], [], [], [], [], [225], [], [], [], [], [], [], [], [], [], [], [], [], [],
     [], [], [], [], [292, 300], [], [], [], [175], [], [], [153, 154, 155, 157], [], [], [],
     [], [], [], [], [], [], [], [], [], [], [], [], [], [], [139], [], [], [], [], [], [],
     [], [], [], [], [], [], [], [], [], [], [], [], [], [], [], [], [], [], [], [], [], [],
     [], [], [], [], [], [303], [], [], [], [169, 170, 171, 172], [45], [], [12], [223], [],
     [], [], [], [], [], [], [], [], [], [], [], [], [], [], [], [], [], [], [], [], [], [],
     [], [], [], [], [], [], [], [], [], [], [], [], [], [], [], [], [46], [], [], [], [],
     [], [], [], [], [], [], [], [], [], [], [], [], [], [], [], [],
     [144, 145, 148, 149, 152, 179, 180, 181, 182, 183, 184, 185, 186, 187, 188, 189, 190, 191, 192, 193, 194, 195, 196, 197, 198, 202, 230, 231, 232, 233, 234, 235, 236, 237, 238, 239, 241, 242, 243, 244, 245, 246, 247, 248, 249, 250, 251, 252, 256, 257, 258, 260, 261, 262, 265, 266, 268, 269, 270, 271, 272, 273, 274, 275],
     [], [], [], [], [227], [], [], [228], [], [], [], [], [], [], [], [], [], [], [], [],
     [], [], [], [], [], [], [], [], [], [], [], [259], [], [], [], [], [], [], [], [], [],
     [], [], [], [], [], [283], [], [], [47], [], [222], [], [], [], [], [], [], [], [], [],
     [], [], [], [], []]"

definition offset_states_3 :: "nat list list" where
  "offset_states_3 = [[], [], [], [], [], [], [], [], [], [], [], [], [], [], [], [], [], [], [], [], [412],
     [200, 201], [48], [], [], [], [], [], [], [], [], [], [], [], [], [], [], [], [], [276],
     [224], [], [203], [], [], [], [], [], [], [289], [], [], [], [], [], [], [], [], [], [],
     [], [], [], [], [], [], [], [], [], [], [], [], [], [], [], [], [], [], [], [], [], [],
     [], [], [], [], [], [], [], [], [], [], [], [49], [], [226], [], [], [], [], [229], [],
     [], [], [], [], [], [], [], [], [], [], [], [], [], [], [], [], [], [], [], [], [], [],
     [], [], [], [], [], [], [], [], [50], [], [], [], [], [], [], [], [146], [], [445], [],
     [], [], [], [], [], [], [], [], [], [], [], [], [], [], [], [], [], [], [], [], [], [],
     [], [], [287], [], [], [], [], [], [], [], [], [], [], [], [], [], [], [], [], [], [],
     [], [204, 205], [], [], [], [], [], [], [], [], [], [], [], [], [], [], [51], [], [],
     [414], [], [], [], [], [], [], [], [], [], [], [], [], [], [], [], [208, 209], [], [],
     [], [], [], [], [], [], [], [], [], [], [], [], [], [], [], [], [], [52], [], [], [],
     [], [], [], [], [], [], [], [], [], [], [], [], [], [], [], [], [], [], [], [], [], [],
     [], [], [], [], [], [], [], [], [], [], [], [], [], [], [], [], [], [], [], [], [], [],
     [], [], [], [], [], [], [], [], [], []]"

definition offset_states_4 :: "nat list list" where
  "offset_states_4 = [[], [], [], [413], [315], [], [], [], [], [], [], [], [], [53], [], [], [263], [288],
     [], [], [], [], [], [], [], [], [], [], [], [], [], [], [], [], [], [], [], [], [], [],
     [], [], [], [], [], [], [], [], [], [], [], [], [], [], [220, 221], [], [], [76, 77],
     [], [], [], [], [], [], [], [], [], [], [], [199], [], [], [], [], [], [], [], [], [],
     [], [], [], [], [], [], [], [], [], [], [], [], [], [], [], [], [], [], [], [], [], [],
     [], [], [], [], [], [], [], [], [], [], [], [305, 306, 307], [], [], [173, 174], [], [],
     [], [], [], [], [], [], [], [], [], [], [], [], [], [], [], [], [], [], [], [], [], [],
     [], [], [], [], [], [], [], [], [], [], [], [], [], [], [], [], [], [], [], [], [], [],
     [], [], [], [], [], [], [], [], [], [], [], [54], [415], [], [279, 280, 281, 282], [],
     [], [], [], [], [], [], [], [], [], [], [], [], [], [], [],
     [16, 55, 56, 57, 58, 59, 60, 61, 62, 63, 64, 65, 66, 67, 68, 69, 70, 71, 72, 74], [],
     [410], [], [], [], [], [], [], [], [], [], [], [], [], [], [], [], [], [], [73], [], [],
     [], [], [], [], [], [], [], [], [], [], [], [], [], [177], [], [], [], [], [], [], [],
     [], [], [], [], [], [], [], [264], [], [], [], [], [], [], [], [], [], [], [], [], [],
     [], [], [], [], [], [], [], [], [], [], [], [], [], [], [], [], [], [], [], [], [],
     [253, 254, 255], [], [290, 296, 297, 299], [], [], [], [], [178], [], [], [], [], [],
     [], [], [], [], [], [], [], []]"

definition offset_states_5 :: "nat list list" where
  "offset_states_5 = [[], [], [], [], [], [], [], [], [], [], [], [], [], [], [], [], [75], [], [], [32, 33],
     [], [], [], [], [], [], [], [], [206, 207], [], [], [], [], [], [], [], [], [],
     [294, 301], [], [], [], [], [], [], [], [], [], [], [], [], [], [], [], [], [], [], [],
     [], [304], [], [147], [], [], [], [], [], [], [], [], [], [], [2], [], [211], [], [],
     [], [], [], [], [], [], [], [], [], [], [316], [267], [], [], [423], [], [], [], [], [],
     [], [], [], [], [], [], [], [], [], [], [219], [], [], [], [], [], [286], [], [],
     [291, 293], [], [], [6], [], [], [419], [], [], [], [314], [], [], [], [277], [], [],
     [], [], [], [], [], [], [], [], [], [], [], [], [], [], [], [], [], [], [], [], [], [],
     [], [], [], [], [], [], [], [], [], [], [], [], [], [308, 309, 310, 311], [302], [420],
     [], [], [], [], [], [], [], [], [], [], [], [], [], [], [], [], [], [], [], [], [], [],
     [], [421], [], [], [], [], [], [], [], [], [], [], [], [], [], [], [], [], [], [], [],
     [], [], [], [], [], [], [], [], [], [], [], [], [], [], [], [], [], [], [417], [],
     [430], [], [], [], [], [], [], [], [], [], [], [], [], [], [], [], [], [], [], [431],
     [], [], [], [], [], [], [], [], [433], [], [], [], [], [], [], [], [], [], [], [], [],
     [], [], [1], [7], [], [317], [418], [], [416], [], [], [], [], [], [435], [], [8], [],
     [], [], [], [], [], [], []]"

definition offset_states_6 :: "nat list list" where
  "offset_states_6 = [[], [], [], [], [], [], [], [], [], [], [], [], [], [], [], [422], [], [], [], [], [],
     [], [], [], [], [], [], [], [], [], [], [], [], [], [], [], [], [], [], [], [], [], [],
     [], [], [], [424], [425], [440], [441], [], [], [], [], [], [], [], [426], [], [], [],
     [], [], [], [], [], [], [434], [], [], [], [], [], [], [], [], [], [], [], [], [], [],
     [], [], [], [], [], [], [], [], [], [], [], [], [], [427], [], [444], [428], [429], [],
     [], [], [], [], [], [], [], [], [], [], [], [], [], [], [], [438], [], [432], [], [],
     [], [], [], [], [], [], [], [], [], [], [], [],
     [320, 321, 324, 333, 344, 348, 351, 353, 374, 382], [], [78], [], [], [], [], [], [],
     [], [], [436], [], [], [325], [0], [], [], [326, 336, 337], [], [], [437], [], [], [],
     [], [], [439], [], [79], [], [], [], [], [], [], [], [], [], [], [], [346], [], [],
     [335, 338, 341, 343, 387], [], [], [], [], [442], [], [], [443], [], [], [], [], [], [],
     [], [], [], [], [], [], [], [], [], [369], [], [], [], [], [], [], [], [], [], [],
     [318, 319], [], [], [], [], [], [], [], [], [], [], [], [], [], [], [], [], [], [], [],
     [356, 357, 358, 363, 365, 367, 368], [], [], [], [], [], [364], [], [], [], [379, 384],
     [383], [], [], [], [], [], [], [], [], [380], [], [], [], [], [322, 323], [371, 372],
     [385], [], [], [], [], [328, 340, 342], [386], [], [], [], [], [], [], [], [], [], [],
     [], [80], [], [347], [], [], [], [327, 339], [], [], [], [449], [], [375, 376], [],
     [329, 330, 331, 332], [], [], [359, 366], [], [], [], [], []]"

definition offset_states_7 :: "nat list list" where
  "offset_states_7 = [[], [], [], [], [], [], [334, 345, 349, 352, 354], [377, 378], [], [], [455], [], [],
     [], [], [], [], [], [], [], [], [454], [460], [350, 355, 362, 373], [462], [], [472],
     [485], [465], [], [], [], [456], [], [], [], [],
     [9, 10, 11, 17, 18, 19, 20, 21, 22, 23, 24, 25, 26, 27, 28, 29, 81, 82, 83, 84, 85, 86, 87, 88, 89, 90, 91, 92, 93, 94, 95, 96, 97, 98, 99, 100, 101, 102, 103, 104, 105, 106, 107, 108, 109, 110, 111, 112, 113, 114, 115, 116, 117, 118, 119, 120, 121, 122, 123, 124, 125, 126, 127, 128, 129],
     [], [], [360, 361], [466], [468], [480], [370], [], [], [], [491], [], [477], [], [],
     [], [], [], [], [], [], [], [], [], [], [], [], [478], [], [], [], [], [], [496], [484],
     [513], [], [], [], [381], [], [388], [497], [], [], [], [], [492], [], [], [], [],
     [522], [], [528], [], [], [], [], [389, 390], [], [], [], [], [], [], [], [], [], [],
     [], [], [525], [507], [469], [547], [391, 392, 393], [548], [], [], [], [], [], [473],
     [474], [489], [], [475], [476], [448], [486], [488], [], [], [], [521], [452], [567],
     [453], [450], [457, 458, 467, 471], [470], [451], [446], [459], [499], [566], [447],
     [504], [461], [479], [463], [534], [510], [539], [568], [569], [505], [570], [536],
     [490], [], [], [], [535], [], [483], [], [], [], [464], [538], [487], [], [], [], [],
     [], [], [493], [], [], [482], [], [481], [494], [498], [495], [500], [501], [502],
     [508], [503], [506], [511], [], [509], [], [512], [], [514], [520], [515], [516], [517],
     [518], [519], [526], [530], [531], [532], [523], [524], [529, 550], [527], [533], [537],
     [540], [], [], [546], [], [], [], [], [541], [], [544], [542], [543], [545], [], [],
     [549], [], [551], [], [], [552], [553], [554], [555], [556], [], [], [557], [559],
     [560], [561], [562], [565], [563], [564], [558], [571], [573], [], [572], [], [], [],
     [], [], [], [], [], [], [], [], [], [], [], [], [], [], [574], [575], [], [], [], [],
     [], [], [], [], [], [], [], [], [], [], [], [], [], [], [], [], [], [], [],
     [163, 164, 212, 213, 214, 215, 216, 217, 218, 394, 395, 396, 397, 398, 399, 400, 401, 402, 403, 404, 405, 406, 407, 408]]"

definition offset_states :: "nat list list" where
  "offset_states = offset_states_1 @ offset_states_2 @ offset_states_3 @ offset_states_4 @ offset_states_5 @ offset_states_6 @ offset_states_7"

lemma offset_states_lengths:
  "length offset_states_1 = 300" "length offset_states_2 = 300" "length offset_states_3 = 300" "length offset_states_4 = 300" "length offset_states_5 = 300" "length offset_states_6 = 300" "length offset_states_7 = 299"
  "length offset_states = 2099"
  by (simp_all add: offset_states_1_def offset_states_2_def offset_states_3_def offset_states_4_def offset_states_5_def offset_states_6_def offset_states_7_def offset_states_def)

lemma offset_states_1_entries: "part_at offset_states 0 offset_states_1"
  unfolding part_at_def
  by (rule exI [of _ "[]"], rule exI [of _ "offset_states_2 @ offset_states_3 @ offset_states_4 @ offset_states_5 @ offset_states_6 @ offset_states_7"]) (simp add: offset_states_def offset_states_lengths)

lemma offset_states_2_entries: "part_at offset_states 300 offset_states_2"
  unfolding part_at_def
  by (rule exI [of _ "offset_states_1"], rule exI [of _ "offset_states_3 @ offset_states_4 @ offset_states_5 @ offset_states_6 @ offset_states_7"]) (simp add: offset_states_def offset_states_lengths)

lemma offset_states_3_entries: "part_at offset_states 600 offset_states_3"
  unfolding part_at_def
  by (rule exI [of _ "offset_states_1 @ offset_states_2"], rule exI [of _ "offset_states_4 @ offset_states_5 @ offset_states_6 @ offset_states_7"]) (simp add: offset_states_def offset_states_lengths)

lemma offset_states_4_entries: "part_at offset_states 900 offset_states_4"
  unfolding part_at_def
  by (rule exI [of _ "offset_states_1 @ offset_states_2 @ offset_states_3"], rule exI [of _ "offset_states_5 @ offset_states_6 @ offset_states_7"]) (simp add: offset_states_def offset_states_lengths)

lemma offset_states_5_entries: "part_at offset_states 1200 offset_states_5"
  unfolding part_at_def
  by (rule exI [of _ "offset_states_1 @ offset_states_2 @ offset_states_3 @ offset_states_4"], rule exI [of _ "offset_states_6 @ offset_states_7"]) (simp add: offset_states_def offset_states_lengths)

lemma offset_states_6_entries: "part_at offset_states 1500 offset_states_6"
  unfolding part_at_def
  by (rule exI [of _ "offset_states_1 @ offset_states_2 @ offset_states_3 @ offset_states_4 @ offset_states_5"], rule exI [of _ "offset_states_7"]) (simp add: offset_states_def offset_states_lengths)

lemma offset_states_7_entries: "part_at offset_states 1800 offset_states_7"
  unfolding part_at_def
  by (rule exI [of _ "offset_states_1 @ offset_states_2 @ offset_states_3 @ offset_states_4 @ offset_states_5 @ offset_states_6"], rule exI [of _ "[]"]) (simp add: offset_states_def offset_states_lengths)

lemmas offset_states_at [simp] =
  entries_of_part [OF offset_states_1_entries offset_states_1_def, unfolded table_index, unfolded One_nat_def]
  entries_of_part [OF offset_states_2_entries offset_states_2_def, unfolded table_index, unfolded One_nat_def]
  entries_of_part [OF offset_states_3_entries offset_states_3_def, unfolded table_index, unfolded One_nat_def]
  entries_of_part [OF offset_states_4_entries offset_states_4_def, unfolded table_index, unfolded One_nat_def]
  entries_of_part [OF offset_states_5_entries offset_states_5_def, unfolded table_index, unfolded One_nat_def]
  entries_of_part [OF offset_states_6_entries offset_states_6_def, unfolded table_index, unfolded One_nat_def]
  entries_of_part [OF offset_states_7_entries offset_states_7_def, unfolded table_index, unfolded One_nat_def]

text \<open>The rules of one symbol that the tables leave out: on the stack the symbol of the right-hand
  side takes the place of the one it would be reduced to.\<close>

definition unit_pairs :: "(nat \<times> nat) list" where
  "unit_pairs = [(186, 187), (203, 205), (210, 211), (210, 212), (217, 216), (228, 230), (233, 223),
     (235, 236), (239, 240), (264, 260), (284, 193), (284, 211)]"

definition node_index :: "nat \<Rightarrow> nat" where
  "node_index n = (if n \<le> YY_MAX_SHIFT then n else if n = YY_ACCEPT_ACTION then 576 else n - 666)"

definition is_node :: "nat \<Rightarrow> bool" where
  "is_node n \<longleftrightarrow> n \<le> YY_MAX_SHIFT \<or> n = YY_ACCEPT_ACTION \<or> YY_MIN_REDUCE \<le> n \<and> n \<le> YY_MAX_REDUCE"

definition preds :: "nat \<Rightarrow> states" where "preds n = node_preds ! node_index n"
definition accs :: "nat \<Rightarrow> nat list" where "accs n = node_accs ! node_index n"
definition rank :: "nat \<Rightarrow> nat" where "rank n = node_rank ! node_index n"

subsection \<open>The checks\<close>

primrec among :: "'a list \<Rightarrow> 'a \<Rightarrow> bool" where
  "among [] x = False"
| "among (y # ys) x = (if x = y then True else among ys x)"

lemma among_iff: "among xs x \<longleftrightarrow> x \<in> set xs"
  by (induction xs) auto

primrec holds_state :: "states \<Rightarrow> nat \<Rightarrow> bool" where
  "holds_state None_of x = False"
| "holds_state (One a) x = (x = a)"
| "holds_state (Fork l a r) x =
     (if x < a then holds_state l x else if x = a then True else holds_state r x)"

primrec all_states :: "(nat \<Rightarrow> bool) \<Rightarrow> states \<Rightarrow> bool" where
  "all_states P None_of = True"
| "all_states P (One a) = P a"
| "all_states P (Fork l a r) = (P a \<and> all_states P l \<and> all_states P r)"

lemma all_states_holds: "all_states P t \<Longrightarrow> holds_state t x \<Longrightarrow> P x"
  by (induction t) (auto split: if_splits)

text \<open>State \<open>n\<close> is entered from \<open>s\<close> with symbol \<open>a\<close>.\<close>

definition edge :: "nat \<Rightarrow> nat \<Rightarrow> nat \<Rightarrow> bool" where
  "edge s a n \<longleftrightarrow> is_node n \<and> holds_state (preds n) s \<and> among (accs n) a"

definition fits_position :: "nat list \<Rightarrow> nat \<Rightarrow> bool" where
  "fits_position X a \<longleftrightarrow> (if among X a then True else list_ex (\<lambda>b. among unit_pairs (b, a)) X)"

text \<open>The state that follows a reduction in state \<open>q\<close>, with its rank.\<close>

definition enters :: "nat \<Rightarrow> nat \<Rightarrow> nat \<Rightarrow> nat option" where
  "enters q lhs n = (if q \<le> YY_REDUCE_COUNT \<and> edge q lhs n then Some (rank n) else None)"

definition goto_rank :: "nat \<Rightarrow> nat \<Rightarrow> nat option" where
  "goto_rank lhs q = enters q lhs (yy_find_reduce_action q lhs)"

primrec less_than :: "nat \<Rightarrow> nat option \<Rightarrow> bool" where
  "less_than b None = False"
| "less_than b (Some r) = (r + 1 < b)"

text \<open>Walking back over a right-hand side, last position first, from state \<open>v\<close>.\<close>

definition symbol_at :: "nat list \<Rightarrow> nat \<Rightarrow> bool" where
  "symbol_at X v \<longleftrightarrow> accs v \<noteq> [] \<and> list_all (fits_position X) (accs v)"

primrec pops_ok :: "nat list list \<Rightarrow> nat \<Rightarrow> nat \<Rightarrow> nat \<Rightarrow> bool" where
  "pops_ok [] lhs bound v = less_than bound (goto_rank lhs v)"
| "pops_ok (X # Xs) lhs bound v = (symbol_at X v \<and> all_states (pops_ok Xs lhs bound) (preds v))"

definition rhs_ok :: "nat list list \<Rightarrow> nat \<Rightarrow> nat \<Rightarrow> bool" where
  "rhs_ok rhs lhs s \<longleftrightarrow> pops_ok (rev rhs) lhs (rank s + length rhs) s"

definition reduce_ok :: "nat \<Rightarrow> nat \<Rightarrow> bool" where
  "reduce_ok s r \<longleftrightarrow> r < YYNRULE \<and> rhs_ok (rule_rhs ! r) (yyRuleInfoLhs ! r) s"

definition shift_target :: "nat \<Rightarrow> nat" where
  "shift_target a = (if YY_MAX_SHIFT < a then a + YY_MIN_REDUCE - YY_MIN_SHIFTREDUCE else a)"

definition entry_ok :: "nat \<Rightarrow> nat \<Rightarrow> nat \<Rightarrow> bool" where
  "entry_ok t a s \<longleftrightarrow>
     (if a \<le> YY_MAX_SHIFTREDUCE then edge s t (shift_target a)
      else YY_MIN_REDUCE \<le> a \<and> reduce_ok s (a - YY_MIN_REDUCE))"

definition column_ok :: "nat \<Rightarrow> nat \<Rightarrow> bool" where
  "column_ok i t \<longleftrightarrow>
     (if t < YYNTOKEN \<and> t \<le> i then list_all (entry_ok t (yy_action ! i)) (offset_states ! (i - t)) else True)"

definition row_ok :: "nat \<Rightarrow> bool" where
  "row_ok i \<longleftrightarrow> column_ok i (yy_lookahead ! i)"

definition default_ok :: "nat \<Rightarrow> nat \<Rightarrow> bool" where
  "default_ok s d \<longleftrightarrow>
     (if d = YY_ERROR_ACTION then True else YY_MIN_REDUCE \<le> d \<and> reduce_ok s (d - YY_MIN_REDUCE))"

definition state_ok :: "nat \<Rightarrow> bool" where
  "state_ok s \<longleftrightarrow> among (offset_states ! (yy_shift_ofst ! s)) s \<and> default_ok s (yy_default ! s)"

definition pending_ok :: "nat \<Rightarrow> bool" where
  "pending_ok r \<longleftrightarrow> (if preds (YY_MIN_REDUCE + r) = None_of then True else reduce_ok (YY_MIN_REDUCE + r) r)"

lemmas node_tables = edge_def is_node_def preds_def accs_def rank_def node_index_def
  yy_consts

lemmas goto_check = node_tables goto_rank_def enters_def
  yy_find_reduce_action_def

text \<open>The transitions for the left-hand sides of rules.\<close>

lemma gotos_1:
  "goto_rank 185 0 = Some 0" "goto_rank 186 0 = Some 2" "goto_rank 187 0 = Some 2"
  "goto_rank 188 0 = Some 0" "goto_rank 189 0 = Some 2" "goto_rank 190 0 = Some (Suc 0)"
  "goto_rank 195 0 = Some 0" "goto_rank 197 0 = Some 2" "goto_rank 204 0 = Some 2"
  "goto_rank 239 0 = Some 5" "goto_rank 240 0 = Some 5" "goto_rank 252 0 = Some 6"
  "goto_rank 266 0 = Some 0" "goto_rank 298 0 = Some 2" "goto_rank 187 (Suc 0) = Some 2"
  "goto_rank 188 (Suc 0) = Some 0" "goto_rank 189 (Suc 0) = Some 2"
  "goto_rank 190 (Suc 0) = Some (Suc 0)" "goto_rank 195 (Suc 0) = Some 0"
  "goto_rank 197 (Suc 0) = Some 2" "goto_rank 204 (Suc 0) = Some 2"
  "goto_rank 239 (Suc 0) = Some 5" "goto_rank 240 (Suc 0) = Some 5"
  "goto_rank 252 (Suc 0) = Some 6" "goto_rank 266 (Suc 0) = Some 0"
  "goto_rank 298 (Suc 0) = Some 2" "goto_rank 188 2 = Some 0" "goto_rank 190 2 = Some (Suc 0)"
  "goto_rank 195 2 = Some 0" "goto_rank 197 2 = Some 2" "goto_rank 204 2 = Some 2"
  "goto_rank 239 2 = Some 5" "goto_rank 240 2 = Some 5" "goto_rank 252 2 = Some 6"
  "goto_rank 266 2 = Some 0" "goto_rank 298 2 = Some 2" "goto_rank 193 3 = Some 0"
  "goto_rank 204 3 = Some 0" "goto_rank 216 3 = Some 6" "goto_rank 217 3 = Some 6"
  "goto_rank 239 3 = Some 5" "goto_rank 240 3 = Some 5" "goto_rank 252 3 = Some 6"
  "goto_rank 253 3 = Some (Suc 0)" "goto_rank 261 3 = Some 0" "goto_rank 193 4 = Some 0"
  "goto_rank 204 4 = Some 0" "goto_rank 216 4 = Some (Suc 0)" "goto_rank 217 4 = Some (Suc 0)"
  "goto_rank 239 4 = Some 5" "goto_rank 240 4 = Some 5" "goto_rank 252 4 = Some 6"
  "goto_rank 253 4 = Some 0" "goto_rank 204 5 = Some 0" "goto_rank 239 5 = Some 5"
  "goto_rank 240 5 = Some 5" "goto_rank 252 5 = Some 6" "goto_rank 256 5 = Some 0"
  "goto_rank 257 5 = Some 0" "goto_rank 193 6 = Some 0" "goto_rank 216 6 = Some 0"
  "goto_rank 217 6 = Some 0" "goto_rank 314 6 = Some 3" "goto_rank 315 6 = Some 2"
  "goto_rank 193 7 = Some 0" "goto_rank 216 7 = Some 0" "goto_rank 217 7 = Some 0"
  "goto_rank 314 7 = Some 3" "goto_rank 316 7 = Some 2" "goto_rank 193 8 = Some 0"
  "goto_rank 216 8 = Some 0" "goto_rank 217 8 = Some 0" "goto_rank 314 8 = Some 3"
  "goto_rank 315 8 = Some 0" "goto_rank 193 9 = Some 0" "goto_rank 216 9 = Some 6"
  "goto_rank 217 9 = Some 6" "goto_rank 253 9 = Some (Suc 0)" "goto_rank 261 9 = Some 0"
  "goto_rank 193 10 = Some 0" "goto_rank 216 10 = Some 6" "goto_rank 217 10 = Some 6"
  "goto_rank 253 10 = Some (Suc 0)" "goto_rank 261 10 = Some 0" "goto_rank 193 11 = Some 0"
  "goto_rank 216 11 = Some 6" "goto_rank 217 11 = Some 6" "goto_rank 253 11 = Some (Suc 0)"
  "goto_rank 261 11 = Some 0" "goto_rank 204 12 = Some 2" "goto_rank 239 12 = Some 5"
  "goto_rank 240 12 = Some 5" "goto_rank 252 12 = Some 6" "goto_rank 269 12 = Some 0"
  "goto_rank 219 13 = Some 3" "goto_rank 274 13 = Some 0" "goto_rank 275 13 = Some 0"
  "goto_rank 276 13 = Some 0" "goto_rank 219 14 = Some 2" "goto_rank 274 14 = Some 0"
  "goto_rank 275 14 = Some 0" "goto_rank 276 14 = Some 0" "goto_rank 274 15 = Some 0"
  "goto_rank 275 15 = Some 0" "goto_rank 276 15 = Some 0" "goto_rank 295 15 = Some 0"
  "goto_rank 213 16 = Some 11" "goto_rank 274 16 = Some 0" "goto_rank 275 16 = Some 0"
  "goto_rank 276 16 = Some 0" "goto_rank 193 17 = Some 0" "goto_rank 216 17 = Some 5"
  "goto_rank 217 17 = Some 5" "goto_rank 231 17 = Some 0" "goto_rank 193 18 = Some 0"
  "goto_rank 216 18 = Some 5" "goto_rank 217 18 = Some 5" "goto_rank 231 18 = Some 0"
  "goto_rank 193 19 = Some 0" "goto_rank 216 19 = Some 5" "goto_rank 217 19 = Some 5"
  "goto_rank 231 19 = Some 0" "goto_rank 193 20 = Some 0" "goto_rank 216 20 = Some 5"
  "goto_rank 217 20 = Some 5" "goto_rank 231 20 = Some 2" "goto_rank 193 21 = Some 0"
  "goto_rank 216 21 = Some 6" "goto_rank 217 21 = Some 6" "goto_rank 253 21 = Some 5"
  "goto_rank 193 22 = Some 0" "goto_rank 216 22 = Some 5" "goto_rank 217 22 = Some 5"
  "goto_rank 231 22 = Some 2" "goto_rank 193 23 = Some 0" "goto_rank 216 23 = Some 5"
  "goto_rank 217 23 = Some 5" "goto_rank 231 23 = Some 2" "goto_rank 193 24 = Some 0"
  "goto_rank 216 24 = Some 6" "goto_rank 217 24 = Some 6" "goto_rank 253 24 = Some 4"
  "goto_rank 193 25 = Some 0" "goto_rank 216 25 = Some 6" "goto_rank 217 25 = Some 6"
  "goto_rank 253 25 = Some 4" "goto_rank 193 26 = Some 0" "goto_rank 216 26 = Some 5"
  "goto_rank 217 26 = Some 5" "goto_rank 231 26 = Some (Suc 0)" "goto_rank 193 27 = Some 0"
  "goto_rank 216 27 = Some (Suc 0)" "goto_rank 217 27 = Some (Suc 0)" "goto_rank 278 27 = Some 0"
  "goto_rank 193 28 = Some 0" "goto_rank 216 28 = Some 6" "goto_rank 217 28 = Some 6"
  "goto_rank 253 28 = Some 0" "goto_rank 193 29 = Some 0" "goto_rank 216 29 = Some 6"
  "goto_rank 217 29 = Some 6" "goto_rank 253 29 = Some 0" "goto_rank 193 30 = Some 0"
  "goto_rank 211 30 = Some 0" "goto_rank 212 30 = Some 0" "goto_rank 284 30 = Some 0"
  "goto_rank 193 31 = Some 0" "goto_rank 211 31 = Some 0" "goto_rank 212 31 = Some 0"
  "goto_rank 284 31 = Some 0" "goto_rank 193 32 = Some 2" "goto_rank 308 32 = Some 0"
  "goto_rank 309 32 = Some (Suc 0)" "goto_rank 313 32 = Some 0" "goto_rank 193 33 = Some 2"
  "goto_rank 308 33 = Some 0" "goto_rank 309 33 = Some (Suc 0)" "goto_rank 313 33 = Some 0"
  "goto_rank 193 34 = Some 6" "goto_rank 206 34 = Some 2" "goto_rank 228 34 = Some 2"
  "goto_rank 230 34 = Some 2" "goto_rank 204 35 = Some 2" "goto_rank 239 35 = Some 5"
  "goto_rank 240 35 = Some 5" "goto_rank 252 35 = Some 6" "goto_rank 204 36 = Some 4"
  "goto_rank 239 36 = Some 5" "goto_rank 240 36 = Some 5" "goto_rank 252 36 = Some 6"
  "goto_rank 204 37 = Some 0" "goto_rank 239 37 = Some 5" "goto_rank 240 37 = Some 5"
  "goto_rank 252 37 = Some 6" "goto_rank 204 38 = Some (Suc 0)" "goto_rank 239 38 = Some 5"
  "goto_rank 240 38 = Some 5" "goto_rank 252 38 = Some 6" "goto_rank 204 39 = Some 0"
  "goto_rank 239 39 = Some 5" "goto_rank 240 39 = Some 5" "goto_rank 252 39 = Some 6"
  "goto_rank 204 40 = Some 0" "goto_rank 239 40 = Some 5" "goto_rank 240 40 = Some 5"
  "goto_rank 252 40 = Some 6" "goto_rank 274 41 = Some 0" "goto_rank 275 41 = Some 0"
  "goto_rank 276 41 = Some 0" "goto_rank 274 42 = Some 0" "goto_rank 275 42 = Some 0"
  "goto_rank 276 42 = Some 0" "goto_rank 274 43 = Some 0" "goto_rank 275 43 = Some 0"
  "goto_rank 276 43 = Some 0" "goto_rank 274 44 = Some 0" "goto_rank 275 44 = Some 0"
  "goto_rank 276 44 = Some 0" "goto_rank 274 45 = Some 0" "goto_rank 275 45 = Some 0"
  "goto_rank 276 45 = Some 0" "goto_rank 274 46 = Some 0" "goto_rank 275 46 = Some 0"
  "goto_rank 276 46 = Some 0" "goto_rank 274 47 = Some 0" "goto_rank 275 47 = Some 0"
  "goto_rank 276 47 = Some 0" "goto_rank 274 48 = Some 0" "goto_rank 275 48 = Some 0"
  "goto_rank 276 48 = Some 0" "goto_rank 274 49 = Some 0" "goto_rank 275 49 = Some 0"
  "goto_rank 276 49 = Some 0" "goto_rank 274 50 = Some 0" "goto_rank 275 50 = Some 0"
  "goto_rank 276 50 = Some 0" "goto_rank 274 51 = Some 0" "goto_rank 275 51 = Some 0"
  "goto_rank 276 51 = Some 0" "goto_rank 274 52 = Some 0" "goto_rank 275 52 = Some 0"
  "goto_rank 276 52 = Some 0" "goto_rank 274 53 = Some 0" "goto_rank 275 53 = Some 0"
  "goto_rank 276 53 = Some 0" "goto_rank 274 54 = Some 0" "goto_rank 275 54 = Some 0"
  "goto_rank 276 54 = Some 0" "goto_rank 274 55 = Some 0" "goto_rank 275 55 = Some 0"
  "goto_rank 276 55 = Some 0" "goto_rank 274 56 = Some 0" "goto_rank 275 56 = Some 0"
  "goto_rank 276 56 = Some 0" "goto_rank 274 57 = Some 0" "goto_rank 275 57 = Some 0"
  "goto_rank 276 57 = Some 0" "goto_rank 274 58 = Some 0" "goto_rank 275 58 = Some 0"
  "goto_rank 276 58 = Some 0" "goto_rank 274 59 = Some 0" "goto_rank 275 59 = Some 0"
  "goto_rank 276 59 = Some 0" "goto_rank 274 60 = Some 0" "goto_rank 275 60 = Some 0"
  "goto_rank 276 60 = Some 0" "goto_rank 274 61 = Some 0" "goto_rank 275 61 = Some 0"
  "goto_rank 276 61 = Some 0" "goto_rank 274 62 = Some 0" "goto_rank 275 62 = Some 0"
  "goto_rank 276 62 = Some 0" "goto_rank 274 63 = Some 0" "goto_rank 275 63 = Some 0"
  "goto_rank 276 63 = Some 0" "goto_rank 274 64 = Some 0" "goto_rank 275 64 = Some 0"
  "goto_rank 276 64 = Some 0" "goto_rank 274 65 = Some 0" "goto_rank 275 65 = Some 0"
  by (simp_all add: goto_check)

lemma gotos_2:
  "goto_rank 276 65 = Some 0" "goto_rank 274 66 = Some 0" "goto_rank 275 66 = Some 0"
  "goto_rank 276 66 = Some 0" "goto_rank 274 67 = Some 0" "goto_rank 275 67 = Some 0"
  "goto_rank 276 67 = Some 0" "goto_rank 274 68 = Some 0" "goto_rank 275 68 = Some 0"
  "goto_rank 276 68 = Some 0" "goto_rank 274 69 = Some 0" "goto_rank 275 69 = Some 0"
  "goto_rank 276 69 = Some 0" "goto_rank 274 70 = Some 0" "goto_rank 275 70 = Some 0"
  "goto_rank 276 70 = Some 0" "goto_rank 274 71 = Some 0" "goto_rank 275 71 = Some 0"
  "goto_rank 276 71 = Some 0" "goto_rank 274 72 = Some 0" "goto_rank 275 72 = Some 0"
  "goto_rank 276 72 = Some 0" "goto_rank 274 73 = Some 0" "goto_rank 275 73 = Some 0"
  "goto_rank 276 73 = Some 0" "goto_rank 274 74 = Some 0" "goto_rank 275 74 = Some 0"
  "goto_rank 276 74 = Some 0" "goto_rank 274 75 = Some 0" "goto_rank 275 75 = Some 0"
  "goto_rank 276 75 = Some 0" "goto_rank 274 76 = Some 0" "goto_rank 275 76 = Some 0"
  "goto_rank 276 76 = Some 0" "goto_rank 274 77 = Some 0" "goto_rank 275 77 = Some 0"
  "goto_rank 276 77 = Some 0" "goto_rank 193 78 = Some 0" "goto_rank 216 78 = Some 13"
  "goto_rank 217 78 = Some 13" "goto_rank 193 79 = Some 0" "goto_rank 216 79 = Some 11"
  "goto_rank 217 79 = Some 11" "goto_rank 193 80 = Some 0" "goto_rank 216 80 = Some 12"
  "goto_rank 217 80 = Some 12" "goto_rank 193 81 = Some 0" "goto_rank 216 81 = Some 0"
  "goto_rank 217 81 = Some 0" "goto_rank 193 82 = Some 0" "goto_rank 216 82 = Some 0"
  "goto_rank 217 82 = Some 0" "goto_rank 193 83 = Some 0" "goto_rank 216 83 = Some 2"
  "goto_rank 217 83 = Some 2" "goto_rank 193 84 = Some 0" "goto_rank 216 84 = Some 0"
  "goto_rank 217 84 = Some 0" "goto_rank 193 85 = Some 0" "goto_rank 216 85 = Some (Suc 0)"
  "goto_rank 217 85 = Some (Suc 0)" "goto_rank 193 86 = Some 0" "goto_rank 216 86 = Some 0"
  "goto_rank 217 86 = Some 0" "goto_rank 193 87 = Some 0" "goto_rank 216 87 = Some 3"
  "goto_rank 217 87 = Some 3" "goto_rank 193 88 = Some 0" "goto_rank 216 88 = Some 5"
  "goto_rank 217 88 = Some 5" "goto_rank 193 89 = Some 0" "goto_rank 216 89 = Some (Suc 0)"
  "goto_rank 217 89 = Some (Suc 0)" "goto_rank 193 90 = Some 0" "goto_rank 216 90 = Some 3"
  "goto_rank 217 90 = Some 3" "goto_rank 193 91 = Some 0" "goto_rank 216 91 = Some 0"
  "goto_rank 217 91 = Some 0" "goto_rank 193 92 = Some 0" "goto_rank 216 92 = Some 0"
  "goto_rank 217 92 = Some 0" "goto_rank 193 93 = Some 0" "goto_rank 216 93 = Some 0"
  "goto_rank 217 93 = Some 0" "goto_rank 193 94 = Some 0" "goto_rank 216 94 = Some 0"
  "goto_rank 217 94 = Some 0" "goto_rank 193 95 = Some 0" "goto_rank 216 95 = Some 0"
  "goto_rank 217 95 = Some 0" "goto_rank 193 96 = Some 0" "goto_rank 216 96 = Some 0"
  "goto_rank 217 96 = Some 0" "goto_rank 193 97 = Some 0" "goto_rank 216 97 = Some 7"
  "goto_rank 217 97 = Some 7" "goto_rank 193 98 = Some 0" "goto_rank 216 98 = Some 8"
  "goto_rank 217 98 = Some 8" "goto_rank 193 99 = Some 0" "goto_rank 216 99 = Some 4"
  "goto_rank 217 99 = Some 4" "goto_rank 193 100 = Some 0" "goto_rank 216 100 = Some 4"
  "goto_rank 217 100 = Some 4" "goto_rank 193 101 = Some 0" "goto_rank 216 101 = Some 0"
  "goto_rank 217 101 = Some 0" "goto_rank 193 102 = Some 0" "goto_rank 216 102 = Some 10"
  "goto_rank 217 102 = Some 10" "goto_rank 193 103 = Some 0" "goto_rank 216 103 = Some 9"
  "goto_rank 217 103 = Some 9" "goto_rank 193 104 = Some 0" "goto_rank 216 104 = Some 0"
  "goto_rank 217 104 = Some 0" "goto_rank 193 105 = Some 0" "goto_rank 216 105 = Some 0"
  "goto_rank 217 105 = Some 0" "goto_rank 193 106 = Some 0" "goto_rank 216 106 = Some 0"
  "goto_rank 217 106 = Some 0" "goto_rank 193 107 = Some 0" "goto_rank 216 107 = Some 0"
  "goto_rank 217 107 = Some 0" "goto_rank 193 108 = Some 0" "goto_rank 216 108 = Some 0"
  "goto_rank 217 108 = Some 0" "goto_rank 193 109 = Some 0" "goto_rank 216 109 = Some 13"
  "goto_rank 217 109 = Some 13" "goto_rank 193 110 = Some 0" "goto_rank 216 110 = Some 13"
  "goto_rank 217 110 = Some 13" "goto_rank 193 111 = Some 0" "goto_rank 216 111 = Some 13"
  "goto_rank 217 111 = Some 13" "goto_rank 193 112 = Some 0" "goto_rank 216 112 = Some 0"
  "goto_rank 217 112 = Some 0" "goto_rank 193 113 = Some 0" "goto_rank 216 113 = Some 4"
  "goto_rank 217 113 = Some 4" "goto_rank 193 114 = Some 0" "goto_rank 216 114 = Some 10"
  "goto_rank 217 114 = Some 10" "goto_rank 193 115 = Some 0" "goto_rank 216 115 = Some 0"
  "goto_rank 217 115 = Some 0" "goto_rank 193 116 = Some 0" "goto_rank 216 116 = Some 12"
  "goto_rank 217 116 = Some 12" "goto_rank 193 117 = Some 0" "goto_rank 216 117 = Some 10"
  "goto_rank 217 117 = Some 10" "goto_rank 193 118 = Some 0" "goto_rank 216 118 = Some 12"
  "goto_rank 217 118 = Some 12" "goto_rank 193 119 = Some 0" "goto_rank 216 119 = Some 12"
  "goto_rank 217 119 = Some 12" "goto_rank 193 120 = Some 0" "goto_rank 216 120 = Some 12"
  "goto_rank 217 120 = Some 12" "goto_rank 193 121 = Some 0" "goto_rank 216 121 = Some 12"
  "goto_rank 217 121 = Some 12" "goto_rank 193 122 = Some 0" "goto_rank 216 122 = Some 12"
  "goto_rank 217 122 = Some 12" "goto_rank 193 123 = Some 0" "goto_rank 216 123 = Some 12"
  "goto_rank 217 123 = Some 12" "goto_rank 193 124 = Some 0" "goto_rank 216 124 = Some 12"
  "goto_rank 217 124 = Some 12" "goto_rank 193 125 = Some 0" "goto_rank 216 125 = Some 12"
  "goto_rank 217 125 = Some 12" "goto_rank 193 126 = Some 0" "goto_rank 216 126 = Some 12"
  "goto_rank 217 126 = Some 12" "goto_rank 193 127 = Some 0" "goto_rank 216 127 = Some 0"
  "goto_rank 217 127 = Some 0" "goto_rank 193 128 = Some 0" "goto_rank 216 128 = Some 0"
  "goto_rank 217 128 = Some 0" "goto_rank 193 129 = Some 0" "goto_rank 216 129 = Some 0"
  "goto_rank 217 129 = Some 0" "goto_rank 193 141 = Some 2" "goto_rank 241 141 = Some 0"
  "goto_rank 304 141 = Some (Suc 0)" "goto_rank 193 142 = Some 2" "goto_rank 241 142 = Some 0"
  "goto_rank 304 142 = Some (Suc 0)" "goto_rank 193 143 = Some (Suc 0)"
  "goto_rank 203 143 = Some 0" "goto_rank 205 143 = Some 0" "goto_rank 193 144 = Some 5"
  "goto_rank 238 144 = Some (Suc 0)" "goto_rank 296 144 = Some 0" "goto_rank 193 145 = Some 2"
  "goto_rank 241 145 = Some 0" "goto_rank 304 145 = Some (Suc 0)" "goto_rank 198 146 = Some 0"
  "goto_rank 281 146 = Some 0" "goto_rank 285 146 = Some 0" "goto_rank 223 147 = Some 0"
  "goto_rank 225 147 = Some 2" "goto_rank 233 147 = Some 0" "goto_rank 193 148 = Some 2"
  "goto_rank 241 148 = Some 0" "goto_rank 304 148 = Some (Suc 0)" "goto_rank 193 149 = Some 0"
  "goto_rank 306 149 = Some 4" "goto_rank 307 149 = Some 5" "goto_rank 211 150 = Some 0"
  "goto_rank 212 150 = Some 0" "goto_rank 211 151 = Some 0" "goto_rank 212 151 = Some 0"
  "goto_rank 193 152 = Some 6" "goto_rank 201 152 = Some 2" "goto_rank 206 152 = Some 4"
  "goto_rank 239 153 = Some 2" "goto_rank 240 153 = Some 2" "goto_rank 252 153 = Some 6"
  "goto_rank 239 154 = Some 3" "goto_rank 240 154 = Some 3" "goto_rank 252 154 = Some 6"
  "goto_rank 239 155 = Some 2" "goto_rank 240 155 = Some 2" "goto_rank 252 155 = Some 6"
  "goto_rank 239 157 = Some 3" "goto_rank 240 157 = Some 3" "goto_rank 252 157 = Some 6"
  "goto_rank 213 158 = Some 0" "goto_rank 286 158 = Some 2" "goto_rank 291 158 = Some 0"
  "goto_rank 273 159 = Some 10" "goto_rank 311 159 = Some 11" "goto_rank 312 159 = Some 11"
  "goto_rank 273 160 = Some 9" "goto_rank 311 160 = Some 11" "goto_rank 312 160 = Some 11"
  "goto_rank 215 165 = Some 2" "goto_rank 223 165 = Some 3" "goto_rank 215 166 = Some 2"
  "goto_rank 223 166 = Some 3" "goto_rank 215 167 = Some 2" "goto_rank 223 167 = Some 3"
  "goto_rank 193 168 = Some 2" "goto_rank 283 168 = Some (Suc 0)" "goto_rank 193 169 = Some 0"
  "goto_rank 268 169 = Some 4" "goto_rank 193 170 = Some 0" "goto_rank 268 170 = Some 4"
  "goto_rank 193 171 = Some 0" "goto_rank 268 171 = Some 4" "goto_rank 193 172 = Some 0"
  "goto_rank 268 172 = Some 6" "goto_rank 235 173 = Some 0" "goto_rank 236 173 = Some 0"
  "goto_rank 235 174 = Some (Suc 0)" "goto_rank 236 174 = Some (Suc 0)"
  "goto_rank 309 175 = Some 0" "goto_rank 313 175 = Some 0" "goto_rank 193 176 = Some (Suc 0)"
  "goto_rank 205 176 = Some 0" "goto_rank 301 177 = Some (Suc 0)" "goto_rank 302 177 = Some 2"
  "goto_rank 301 178 = Some (Suc 0)" "goto_rank 302 178 = Some 2" "goto_rank 193 179 = Some 6"
  "goto_rank 206 179 = Some 2" "goto_rank 193 180 = Some 5" "goto_rank 262 180 = Some 2"
  by (simp_all add: goto_check)

lemma gotos_3:
  "goto_rank 193 181 = Some 5" "goto_rank 262 181 = Some 2" "goto_rank 193 182 = Some 5"
  "goto_rank 262 182 = Some 4" "goto_rank 193 183 = Some 5" "goto_rank 238 183 = Some 0"
  "goto_rank 193 184 = Some 5" "goto_rank 238 184 = Some 0" "goto_rank 193 185 = Some 5"
  "goto_rank 238 185 = Some 0" "goto_rank 193 186 = Some 5" "goto_rank 238 186 = Some 0"
  "goto_rank 193 187 = Some 7" "goto_rank 292 187 = Some 6" "goto_rank 193 188 = Some (Suc 0)"
  "goto_rank 263 188 = Some 0" "goto_rank 193 189 = Some 7" "goto_rank 292 189 = Some 2"
  "goto_rank 193 190 = Some (Suc 0)" "goto_rank 263 190 = Some 0"
  "goto_rank 193 191 = Some (Suc 0)" "goto_rank 263 191 = Some 0" "goto_rank 193 192 = Some 7"
  "goto_rank 292 192 = Some 2" "goto_rank 193 193 = Some (Suc 0)" "goto_rank 263 193 = Some 0"
  "goto_rank 193 194 = Some 5" "goto_rank 238 194 = Some 4" "goto_rank 193 195 = Some 4"
  "goto_rank 232 195 = Some 0" "goto_rank 193 196 = Some 4" "goto_rank 232 196 = Some 0"
  "goto_rank 193 197 = Some 2" "goto_rank 304 197 = Some 0" "goto_rank 193 198 = Some (Suc 0)"
  "goto_rank 263 198 = Some 0" "goto_rank 259 199 = Some 7" "goto_rank 260 199 = Some 8"
  "goto_rank 309 200 = Some 0" "goto_rank 313 200 = Some 0" "goto_rank 309 201 = Some 0"
  "goto_rank 313 201 = Some 0" "goto_rank 193 202 = Some 0" "goto_rank 307 202 = Some 3"
  "goto_rank 213 203 = Some 0" "goto_rank 291 203 = Some 0" "goto_rank 309 204 = Some 0"
  "goto_rank 313 204 = Some 0" "goto_rank 309 205 = Some 0" "goto_rank 313 205 = Some 0"
  "goto_rank 260 206 = Some 0" "goto_rank 264 206 = Some 0" "goto_rank 260 207 = Some 2"
  "goto_rank 264 207 = Some 2" "goto_rank 208 208 = Some 4" "goto_rank 209 208 = Some 5"
  "goto_rank 208 209 = Some 0" "goto_rank 209 209 = Some 5" "goto_rank 249 210 = Some 2"
  "goto_rank 251 210 = Some 4" "goto_rank 240 211 = Some 4" "goto_rank 252 211 = Some 6"
  "goto_rank 299 212 = Some 0" "goto_rank 300 212 = Some (Suc 0)" "goto_rank 244 213 = Some 0"
  "goto_rank 254 213 = Some 2" "goto_rank 244 214 = Some 0" "goto_rank 254 214 = Some 2"
  "goto_rank 244 215 = Some 0" "goto_rank 254 215 = Some 2" "goto_rank 244 216 = Some 2"
  "goto_rank 254 216 = Some 2" "goto_rank 256 217 = Some 10" "goto_rank 257 217 = Some 0"
  "goto_rank 244 218 = Some 12" "goto_rank 254 218 = Some 2" "goto_rank 216 219 = Some (Suc 0)"
  "goto_rank 216 220 = Some 0" "goto_rank 216 221 = Some 0" "goto_rank 193 222 = Some 0"
  "goto_rank 230 223 = Some (Suc 0)" "goto_rank 193 224 = Some 11" "goto_rank 193 225 = Some 12"
  "goto_rank 193 226 = Some 13" "goto_rank 193 227 = Some 0" "goto_rank 193 228 = Some 0"
  "goto_rank 193 229 = Some 14" "goto_rank 193 230 = Some 0" "goto_rank 193 231 = Some 0"
  "goto_rank 193 232 = Some 0" "goto_rank 193 233 = Some 0" "goto_rank 193 234 = Some 2"
  "goto_rank 193 235 = Some 2" "goto_rank 193 236 = Some 2" "goto_rank 193 237 = Some 3"
  "goto_rank 193 238 = Some (Suc 0)" "goto_rank 193 239 = Some 3" "goto_rank 269 240 = Some 0"
  "goto_rank 193 241 = Some 0" "goto_rank 193 242 = Some 2" "goto_rank 193 243 = Some 3"
  "goto_rank 193 244 = Some 5" "goto_rank 193 245 = Some 0" "goto_rank 193 246 = Some 2"
  "goto_rank 193 247 = Some 3" "goto_rank 193 248 = Some 4" "goto_rank 193 249 = Some 4"
  "goto_rank 193 250 = Some 2" "goto_rank 193 251 = Some 6" "goto_rank 193 252 = Some 2"
  "goto_rank 226 253 = Some (Suc 0)" "goto_rank 226 254 = Some (Suc 0)"
  "goto_rank 226 255 = Some (Suc 0)" "goto_rank 193 256 = Some 2" "goto_rank 193 257 = Some 4"
  "goto_rank 193 258 = Some 4" "goto_rank 258 259 = Some 0" "goto_rank 193 260 = Some 7"
  "goto_rank 193 261 = Some 0" "goto_rank 193 262 = Some 9" "goto_rank 255 263 = Some 9"
  "goto_rank 318 264 = Some 0" "goto_rank 193 265 = Some 12" "goto_rank 193 266 = Some 0"
  "goto_rank 236 267 = Some 0" "goto_rank 193 268 = Some 10" "goto_rank 193 269 = Some 12"
  "goto_rank 193 270 = Some 2" "goto_rank 193 271 = Some 0" "goto_rank 193 272 = Some 0"
  "goto_rank 193 273 = Some (Suc 0)" "goto_rank 193 274 = Some 0"
  "goto_rank 193 275 = Some (Suc 0)" "goto_rank 288 276 = Some 0" "goto_rank 287 277 = Some 0"
  "goto_rank 242 278 = Some 0" "goto_rank 255 279 = Some 9" "goto_rank 255 280 = Some 8"
  "goto_rank 255 281 = Some 8" "goto_rank 255 282 = Some 6" "goto_rank 258 283 = Some 0"
  "goto_rank 242 284 = Some 0" "goto_rank 242 285 = Some 0" "goto_rank 243 286 = Some 2"
  "goto_rank 214 287 = Some 0" "goto_rank 191 288 = Some 2" "goto_rank 297 289 = Some 0"
  "goto_rank 271 290 = Some 0" "goto_rank 267 291 = Some 0" "goto_rank 245 292 = Some 2"
  "goto_rank 267 293 = Some 0" "goto_rank 293 294 = Some 4" "goto_rank 246 295 = Some 2"
  "goto_rank 271 296 = Some 0" "goto_rank 271 297 = Some 0" "goto_rank 246 298 = Some 2"
  "goto_rank 271 299 = Some 2" "goto_rank 245 300 = Some 4" "goto_rank 293 301 = Some 0"
  "goto_rank 220 302 = Some 0" "goto_rank 229 303 = Some 0" "goto_rank 225 304 = Some 2"
  "goto_rank 219 305 = Some 4" "goto_rank 219 306 = Some 0" "goto_rank 219 307 = Some 0"
  "goto_rank 259 308 = Some 6" "goto_rank 259 309 = Some 6" "goto_rank 259 310 = Some 4"
  "goto_rank 259 311 = Some 6" "goto_rank 249 312 = Some 2" "goto_rank 249 313 = Some 2"
  "goto_rank 280 314 = Some 0" "goto_rank 245 315 = Some 10" "goto_rank 243 316 = Some 4"
  "goto_rank 196 317 = Some (Suc 0)" "goto_rank 297 318 = Some 0" "goto_rank 297 319 = Some 0"
  "goto_rank 200 320 = Some 0" "goto_rank 200 321 = Some 0" "goto_rank 294 322 = Some 0"
  "goto_rank 294 323 = Some 0" "goto_rank 200 324 = Some 0" "goto_rank 283 325 = Some 0"
  "goto_rank 272 326 = Some 0" "goto_rank 270 327 = Some 0" "goto_rank 234 328 = Some 0"
  "goto_rank 237 329 = Some 0" "goto_rank 237 330 = Some 0" "goto_rank 237 331 = Some 0"
  "goto_rank 237 332 = Some 0" "goto_rank 200 333 = Some 0" "goto_rank 199 334 = Some 0"
  "goto_rank 246 335 = Some 2" "goto_rank 272 336 = Some 0" "goto_rank 272 337 = Some 0"
  "goto_rank 246 338 = Some 0" "goto_rank 270 339 = Some 0" "goto_rank 234 340 = Some 0"
  "goto_rank 246 341 = Some 2" "goto_rank 234 342 = Some 0" "goto_rank 246 343 = Some 0"
  "goto_rank 200 344 = Some 0" "goto_rank 199 345 = Some 0" "goto_rank 290 346 = Some 0"
  "goto_rank 289 347 = Some 2" "goto_rank 200 348 = Some 2" "goto_rank 199 349 = Some 0"
  "goto_rank 221 350 = Some 0" "goto_rank 200 351 = Some 2" "goto_rank 199 352 = Some 0"
  "goto_rank 200 353 = Some 0" "goto_rank 199 354 = Some 0" "goto_rank 221 355 = Some 4"
  "goto_rank 218 356 = Some 0" "goto_rank 218 357 = Some 0" "goto_rank 218 358 = Some 0"
  "goto_rank 227 359 = Some 3" "goto_rank 224 360 = Some 2" "goto_rank 224 361 = Some 0"
  "goto_rank 221 362 = Some 2" "goto_rank 218 363 = Some 2" "goto_rank 220 364 = Some 0"
  "goto_rank 218 365 = Some 2" "goto_rank 227 366 = Some 2" "goto_rank 218 367 = Some (Suc 0)"
  "goto_rank 218 368 = Some 2" "goto_rank 312 369 = Some 10" "goto_rank 305 370 = Some 0"
  "goto_rank 282 371 = Some 2" "goto_rank 282 372 = Some 2" "goto_rank 221 373 = Some 0"
  "goto_rank 200 374 = Some 11" "goto_rank 317 375 = Some 0" "goto_rank 317 376 = Some 0"
  "goto_rank 265 377 = Some (Suc 0)" "goto_rank 265 378 = Some 0" "goto_rank 250 379 = Some 0"
  "goto_rank 249 380 = Some 2" "goto_rank 277 381 = Some 10" "goto_rank 200 382 = Some 12"
  "goto_rank 279 383 = Some 2" "goto_rank 250 384 = Some 0" "goto_rank 248 385 = Some 4"
  "goto_rank 247 386 = Some 6" "goto_rank 246 387 = Some 8" "goto_rank 202 388 = Some 0"
  "goto_rank 194 389 = Some 0" "goto_rank 194 390 = Some 0" "goto_rank 192 391 = Some (Suc 0)"
  "goto_rank 192 392 = Some (Suc 0)" "goto_rank 192 393 = Some 0" "goto_rank 303 394 = Some 0"
  "goto_rank 303 395 = Some 0" "goto_rank 300 396 = Some 0" "goto_rank 207 397 = Some 0"
  "goto_rank 213 398 = Some 0" "goto_rank 213 399 = Some 0" "goto_rank 213 400 = Some 0"
  "goto_rank 213 401 = Some 0" "goto_rank 207 402 = Some 2" "goto_rank 222 403 = Some 2"
  "goto_rank 222 404 = Some 0" "goto_rank 214 405 = Some 0" "goto_rank 214 406 = Some 0"
  "goto_rank 213 407 = Some 0" "goto_rank 207 408 = Some 0"
  by (simp_all add: goto_check)

lemmas gotos = gotos_1 gotos_2 gotos_3

lemmas node_check = row_ok_def column_ok_def state_ok_def default_ok_def pending_ok_def entry_ok_def
  shift_target_def reduce_ok_def rhs_ok_def symbol_at_def fits_position_def unit_pairs_def node_tables
  gotos

lemma rows_checked_1: "list_all row_ok [0..<1049]"
  by (simp add: node_check upt_from_2)

lemma rows_checked_2: "list_all row_ok [1049..<2098]"
  by (simp add: node_check)

lemma states_checked_1: "list_all state_ok [0..<144]"
  by (simp add: node_check upt_from_2)

lemma states_checked_2: "list_all state_ok [144..<288]"
  by (simp add: node_check)

lemma states_checked_3: "list_all state_ok [288..<432]"
  by (simp add: node_check)

lemma states_checked_4: "list_all state_ok [432..<576]"
  by (simp add: node_check)

lemma pending_checked_1: "list_all pending_ok [0..<203]"
  by (simp add: node_check upt_from_2)

lemma pending_checked_2: "list_all pending_ok [203..<405]"
  by (simp add: node_check)

end
