(* ===== verification/Sql_Derivations.thy ===== *)
theory Sql_Derivations
  imports Sql_Automaton Sql_Queries
begin

text \<open>
  What the parser of \<open>Backend/sqlite3.c\<close> does, for every text and not only for the queries of this
  program.  The states on its stack form a path of the checked tables, so a reduction always finds
  the entries of its rule and a state to go on in: the parser neither reads outside its stack nor
  runs for ever, and what it shifts and reduces is a derivation in the grammar.
\<close>

subsection \<open>The checked facts\<close>

lemma table_row:
  assumes "i < 2098"
  shows "row_ok i"
proof -
  from assms consider "0 \<le> i" "i < 1049" | "1049 \<le> i" "i < 2098" by linarith
  then show ?thesis
    by cases (rule upt_check [OF rows_checked_1] upt_check [OF rows_checked_2], assumption, assumption)+
qed

lemma table_state:
  assumes "s \<le> YY_MAX_SHIFT"
  shows "state_ok s"
proof -
  from assms consider "0 \<le> s" "s < 144" | "144 \<le> s" "s < 288" | "288 \<le> s" "s < 432"
    | "432 \<le> s" "s < 576"
    unfolding YY_MAX_SHIFT_def by linarith
  then show ?thesis
    by cases (rule upt_check [OF states_checked_1] upt_check [OF states_checked_2]
        upt_check [OF states_checked_3] upt_check [OF states_checked_4], assumption, assumption)+
qed

lemma table_pending:
  assumes "r < YYNRULE"
  shows "pending_ok r"
proof -
  from assms consider "0 \<le> r" "r < 203" | "203 \<le> r" "r < 405"
    unfolding YYNRULE_def by linarith
  then show ?thesis
    by cases (rule upt_check [OF pending_checked_1] upt_check [OF pending_checked_2],
        assumption, assumption)+
qed

lemma preds_0: "preds 0 = None_of" and accs_0: "accs 0 = []" and accs_accept: "accs YY_ACCEPT_ACTION = [185]"
  by (simp_all add: preds_def accs_def node_index_def yy_consts)

lemma lookahead_inside: "i < 2283 \<Longrightarrow> yy_lookahead ! i < YYNTOKEN \<Longrightarrow> i < 2098"
  using lookahead_padding [of i] by (cases "i < 2098") (simp_all add: yy_consts)

lemma table_entry:
  assumes "s \<le> YY_MAX_SHIFT" "t < YYNTOKEN" "yy_lookahead ! yy_shift_at s t = t"
  shows "entry_ok t (yy_action ! yy_shift_at s t) s"
proof -
  let ?i = "yy_shift_at s t"
  have "?i < 2283" using parser_tables_in_range [OF assms(1,2)] by (simp add: yy_lookahead_lengths)
  then have "row_ok ?i" using assms(2,3) by (intro table_row lookahead_inside) simp_all
  moreover have "?i - t = yy_shift_ofst ! s" "t \<le> ?i" by (simp_all add: yy_shift_at_def)
  ultimately have "list_all (entry_ok t (yy_action ! ?i)) (offset_states ! (yy_shift_ofst ! s))"
    using assms(2,3) by (simp add: row_ok_def column_ok_def)
  then show ?thesis
    using table_state [OF assms(1)] by (simp add: state_ok_def among_iff list_all_iff)
qed

subsection \<open>Actions\<close>

text \<open>Token \<open>x\<close> is read where \<open>a\<close> is expected: the same symbol, its fallback, or the wildcard.\<close>

definition covers :: "nat \<Rightarrow> nat \<Rightarrow> bool" where
  "covers x a \<longleftrightarrow> x = a \<or> x < YYNTOKEN \<and> (yyFallback ! x \<noteq> 0 \<and> a = yyFallback ! x \<or> a = YYWILDCARD \<and> 0 < x)"

definition good_action :: "nat \<Rightarrow> nat \<Rightarrow> nat \<Rightarrow> bool" where
  "good_action s t a \<longleftrightarrow>
     (\<exists>b. covers t b \<and> entry_ok b a s) \<or> a = YY_ERROR_ACTION \<or>
     YY_MIN_REDUCE \<le> a \<and> reduce_ok s (a - YY_MIN_REDUCE)"

lemma default_good:
  assumes "s \<le> YY_MAX_SHIFT" "t < YYNTOKEN"
  shows "good_action s t (yy_default_action t s)"
proof (cases "yy_lookahead ! yy_shift_at s YYWILDCARD = YYWILDCARD \<and> 0 < t")
  case True
  then have "covers t YYWILDCARD" using assms(2) by (simp add: covers_def)
  moreover have "entry_ok YYWILDCARD (yy_action ! yy_shift_at s YYWILDCARD) s"
    using True by (intro table_entry assms(1)) (simp_all add: yy_consts)
  ultimately show ?thesis using True by (auto simp: good_action_def yy_default_action_def Let_def)
next
  case False
  then have "yy_default_action t s = yy_default ! s" by (auto simp: yy_default_action_def Let_def)
  moreover have "default_ok s (yy_default ! s)" using table_state [OF assms(1)] by (simp add: state_ok_def)
  ultimately show ?thesis by (auto simp: good_action_def default_ok_def split: if_splits)
qed

lemma fallback_0: "yyFallback ! 0 = 0"
  by simp

lemma covers_fallback: "covers (yyFallback ! t) b \<Longrightarrow> yyFallback ! t \<noteq> 0 \<Longrightarrow> t < YYNTOKEN \<Longrightarrow> covers t b"
  using fallback_final [of t] fallback_0 by (cases "t = 0") (auto simp: covers_def)

lemma fallback_token: "t < YYNTOKEN \<Longrightarrow> yyFallback ! t < YYNTOKEN"
  using fallbacks by (fastforce simp: list_all_length yyFallback_lengths yy_consts)

lemma action_good:
  assumes "s \<le> YY_MAX_SHIFT" "t < YYNTOKEN"
  shows "good_action s t (yy_find_shift_action t s)"
proof -
  let ?f = "yyFallback ! t"
  have entry: "good_action s t (yy_action ! yy_shift_at s b)"
    if "yy_lookahead ! yy_shift_at s b = b" "covers t b" "b < YYNTOKEN" for b
    using table_entry [OF assms(1) that(3,1)] that(2) by (auto simp: good_action_def)
  have "good_action s t (yy_default_action ?f s)" if "?f \<noteq> 0"
    using default_good [OF assms(1) fallback_token [OF assms(2)]] covers_fallback [OF _ that assms(2)]
    by (auto simp: good_action_def)
  moreover have "covers t ?f" if "?f \<noteq> 0" using that assms(2) by (simp add: covers_def)
  ultimately show ?thesis
    using assms entry [of t] entry [of ?f] default_good [OF assms] fallback_token [OF assms(2)]
    by (auto simp: yy_find_shift_action_def Let_def covers_def [of t t])
qed

subsection \<open>Stacks\<close>

definition linked :: "nat \<Rightarrow> nat \<Rightarrow> nat \<Rightarrow> bool" where
  "linked s x n \<longleftrightarrow> (\<exists>a. covers x a \<and> edge s a n)"

fun path :: "(nat \<times> nat) list \<Rightarrow> bool" where
  "path [] = False"
| "path [(s, x)] = (s = 0)"
| "path ((n, x) # (s, y) # st) = (linked s x n \<and> path ((s, y) # st))"

text \<open>The tokens that were read for the symbols on the stack.\<close>

definition stands :: "nat \<Rightarrow> nat list \<Rightarrow> bool" where
  "stands x us \<longleftrightarrow> (if x < YYNTOKEN then us = [x] else yields x us)"

inductive spells :: "(nat \<times> nat) list \<Rightarrow> nat list \<Rightarrow> bool" where
  spells_start: "spells [e] []"
| spells_push: "spells st ts \<Longrightarrow> stands x us \<Longrightarrow> spells ((n, x) # st) (ts @ us)"

inductive_simps spells_Nil [simp]: "spells [] ts"
inductive_simps spells_single [simp]: "spells [e] ts"

lemma unit_rules: "(b, a) \<in> set unit_pairs \<Longrightarrow> \<exists>r < YYNRULE. yyRuleInfoLhs ! r = b \<and> rule_rhs ! r = [[a]]"
proof -
  let ?rs = "[344, 354, 362, 363, 371, 373, 374, 375, 379, 381, 384, 385 :: nat]"
  assume "(b, a) \<in> set unit_pairs"
  then have "\<exists>r \<in> set ?rs. yyRuleInfoLhs ! r = b \<and> rule_rhs ! r = [[a]]"
    by (auto simp: unit_pairs_def)
  moreover have "\<forall>r \<in> set ?rs. r < YYNRULE" by (simp add: YYNRULE_def)
  ultimately show ?thesis by blast
qed

lemma stands_covered:
  assumes "stands x us" "covers x a" "fits_position X a"
  shows "\<exists>Y \<in> set X. yields Y us"
proof -
  have "yields a us"
    using assms(1,2) by (auto simp: stands_def covers_def intro: yields_yields_all.intros
        split: if_splits)
  moreover have "yields b us" if "(b, a) \<in> set unit_pairs" for b
    using unit_rules [OF that] yields_unit calculation by blast
  ultimately show ?thesis
    using assms(3) by (auto simp: fits_position_def among_iff list_ex_iff split: if_splits)
qed

lemma path_bottom: "path ((0, x) # st) \<Longrightarrow> st = []"
  by (cases st) (auto simp: linked_def edge_def preds_0)

lemma path_link:
  assumes "path ((v, x) # st)" "accs v \<noteq> []"
  obtains s y st' a where "st = (s, y) # st'" "path ((s, y) # st')" "covers x a" "edge s a v"
proof (cases st)
  case Nil
  with assms accs_0 show thesis by simp
next
  case (Cons e st')
  with assms(1) that show thesis by (cases e) (auto simp: linked_def)
qed

text \<open>Walking back over a right-hand side.\<close>

lemma pops_path:
  assumes "pops_ok Xs lhs bound v" "path ((v, x) # st)" "spells ((v, x) # st) ts"
  shows "\<exists>q y below us ws. drop (length Xs) ((v, x) # st) = (q, y) # below \<and> path ((q, y) # below) \<and>
    spells ((q, y) # below) us \<and> ts = us @ ws \<and> yields_all (rev Xs) ws \<and> less_than bound (goto_rank lhs q)"
  using assms
proof (induction Xs arbitrary: v x st ts)
  case Nil
  then have "drop (length []) ((v, x) # st) = (v, x) # st \<and> path ((v, x) # st) \<and> spells ((v, x) # st) ts \<and>
      ts = ts @ [] \<and> yields_all (rev []) [] \<and> less_than bound (goto_rank lhs v)"
    by (simp add: yields_nil)
  then show ?case by blast
next
  case (Cons X Xs)
  then have f: "symbol_at X v" and step: "all_states (pops_ok Xs lhs bound) (preds v)" by simp_all
  then have "accs v \<noteq> []" by (simp add: symbol_at_def)
  from path_link [OF Cons.prems(2) this] obtain s y st' a where
    s: "st = (s, y) # st'" "path ((s, y) # st')" "covers x a" "edge s a v" .
  from Cons.prems(3) s(1) obtain ts' vs where ts: "ts = ts' @ vs" "spells ((s, y) # st') ts'" "stands x vs"
    by (auto elim: spells.cases)
  have "holds_state (preds v) s" "fits_position X a"
    using s(4) f by (auto simp: edge_def symbol_at_def among_iff list_all_iff)
  with all_states_holds [OF step] have "pops_ok Xs lhs bound s" by blast
  from Cons.IH [OF this s(2) ts(2)] obtain q z below us ws where
    q: "drop (length Xs) ((s, y) # st') = (q, z) # below" "path ((q, z) # below)" "spells ((q, z) # below) us"
      "ts' = us @ ws" "yields_all (rev Xs) ws" "less_than bound (goto_rank lhs q)" by blast
  from stands_covered [OF ts(3) s(3) \<open>fits_position X a\<close>] obtain Y where "Y \<in> set X" "yields Y vs" by blast
  from yields_snoc [OF q(5) this] q s(1) ts(1) show ?case by auto
qed

subsection \<open>What the parser has read\<close>

definition read_tokens :: "parse_event list \<Rightarrow> nat list" where
  "read_tokens log = map fst (shifted log)"

text \<open>Every reduction of the log is one of a rule of the grammar, by the tokens right before it.\<close>

definition justified :: "parse_event list \<Rightarrow> bool" where
  "justified log \<longleftrightarrow>
     (\<forall>l1 r l2. log = l1 @ Reduced r # l2 \<longrightarrow>
        r < YYNRULE \<and> (\<exists>us ws. read_tokens l1 = us @ ws \<and> yields_all (rule_rhs ! r) ws))"

text \<open>The stack is a path and spells what was read.\<close>

definition reads :: "yyParser \<Rightarrow> bool" where
  "reads p \<longleftrightarrow> path (yystack p) \<and> justified (yylog p) \<and> spells (yystack p) (read_tokens (yylog p))"

lemma shifted_append: "shifted (xs @ ys) = shifted xs @ shifted ys"
  by (induction xs rule: shifted.induct) auto

lemma read_tokens_append [simp]:
  "read_tokens (log @ [Shifted t z]) = read_tokens log @ [t]"
  "read_tokens (log @ [Reduced r]) = read_tokens log" "read_tokens [] = []"
  by (simp_all add: read_tokens_def shifted_append)

lemma snoc_split: "log @ [e] = l1 @ d # l2 \<Longrightarrow> (l2 = [] \<and> e = d \<and> l1 = log) \<or> (\<exists>l. l2 = l @ [e] \<and> log = l1 @ d # l)"
  by (cases l2 rule: rev_cases) auto

lemma justified_shift: "justified log \<Longrightarrow> justified (log @ [Shifted t z])"
  unfolding justified_def by (auto dest!: snoc_split)

lemma justified_reduce:
  assumes "justified log" "r < YYNRULE" "read_tokens log = us @ ws" "yields_all (rule_rhs ! r) ws"
  shows "justified (log @ [Reduced r])"
  using assms unfolding justified_def by (auto dest!: snoc_split)

lemma lhs_nonterminal:
  assumes "r < YYNRULE"
  shows "YYNTOKEN \<le> yyRuleInfoLhs ! r"
proof -
  have "list_all (\<lambda>x. 185 \<le> x) yyRuleInfoLhs"
    by (simp add: yyRuleInfoLhs_def yyRuleInfoLhs_1_def yyRuleInfoLhs_2_def yyRuleInfoLhs_3_def)
  with assms show ?thesis by (simp add: list_all_length yyRuleInfoLhs_lengths yy_consts)
qed

lemma edge_stands_for_node: "edge s a n \<Longrightarrow> YY_MAX_SHIFT < n \<Longrightarrow> n \<noteq> YY_ACCEPT_ACTION \<Longrightarrow>
  YY_MIN_REDUCE \<le> n \<and> reduce_ok n (n - YY_MIN_REDUCE)"
proof -
  assume e: "edge s a n" "YY_MAX_SHIFT < n" "n \<noteq> YY_ACCEPT_ACTION"
  then have n: "YY_MIN_REDUCE \<le> n" "n - YY_MIN_REDUCE < YYNRULE"
    by (auto simp: edge_def is_node_def yy_consts)
  have "preds n \<noteq> None_of" using e(1) by (auto simp: edge_def)
  with table_pending [OF n(2)] n(1) show ?thesis by (simp add: pending_ok_def)
qed

lemma reduce_step:
  assumes "reads p" "yystack p = (s, x) # st" "reduce_ok s r"
  shows "\<exists>n p' st'. yy_reduce gen r p = Some (n, p') \<and> reads p' \<and> yystack p' = (n, yyRuleInfoLhs ! r) # st' \<and>
    edge (fst (hd st')) (yyRuleInfoLhs ! r) n \<and> shifted (yylog p') = shifted (yylog p) \<and>
    parse_err p' = parse_err p \<and> rank n + length (yystack p') < rank s + length (yystack p)"
proof -
  let ?rhs = "rule_rhs ! r" and ?lhs = "yyRuleInfoLhs ! r"
  from assms(3) have r: "r < YYNRULE"
    and ok: "pops_ok (rev ?rhs) ?lhs (rank s + length ?rhs) s" by (simp_all add: reduce_ok_def rhs_ok_def)
  from assms(1,2) have st: "path ((s, x) # st)" "spells ((s, x) # st) (read_tokens (yylog p))"
    "justified (yylog p)" by (auto simp: reads_def)
  from pops_path [OF ok st(1,2)] obtain q y below us ws where
    q: "drop (length ?rhs) ((s, x) # st) = (q, y) # below" "path ((q, y) # below)"
      "spells ((q, y) # below) us" "read_tokens (yylog p) = us @ ws" "yields_all ?rhs ws"
      "less_than (rank s + length ?rhs) (goto_rank ?lhs q)" by auto
  let ?n = "yy_find_reduce_action q ?lhs"
  from q(6) have e: "edge q ?lhs ?n" "rank ?n + 1 < rank s + length ?rhs"
    by (auto simp: goto_rank_def enters_def split: if_splits)
  have size: "rule_size r = length ?rhs" using all_rules_agree [OF r] by (simp add: rule_agrees_def)
  have len: "length (yystack p) = length ?rhs + length ((q, y) # below)"
    using arg_cong [OF q(1), of length] assms(2) by simp
  let ?log = "yylog p @ [Reduced r]"
  let ?p = "p\<lparr>yystack := (?n, ?lhs) # (q, y) # below, yylog := ?log, parse_rc := gen ?log\<rparr>"
  have red: "yy_reduce gen r p = Some (?n, ?p)"
    using len q(1) assms(2) by (simp add: yy_reduce_def size Let_def)
  have "stands ?lhs ws"
    using yields_rule [OF r q(5)] lhs_nonterminal [OF r] by (simp add: stands_def)
  with spells_push [OF q(3) this] have "spells ((?n, ?lhs) # (q, y) # below) (read_tokens ?log)"
    by (simp add: q(4))
  moreover have "path ((?n, ?lhs) # (q, y) # below)"
    using q(2) e(1) by (auto simp: linked_def covers_def)
  ultimately have "reads ?p" using justified_reduce [OF st(3) r q(4,5)] by (simp add: reads_def)
  with red e len show ?thesis
    by (intro exI [of _ ?n] exI [of _ ?p] exI [of _ "(q, y) # below"]) (simp add: shifted_append)
qed

subsection \<open>The end of the input\<close>

text \<open>Rule 342, \<open>input ::= cmdlist\<close>, is reduced at the end of the input only, and nothing is shifted
  there.\<close>

lemma input_rules: "list_all (\<lambda>r. if yyRuleInfoLhs ! r = 185 then r = 342 else True) [0..<405]"
  by (simp add: upt_from_2)

lemma input_rule: "r < YYNRULE \<Longrightarrow> yyRuleInfoLhs ! r = 185 \<Longrightarrow> r = 342"
  using upt_check [OF input_rules, of r] by (simp add: YYNRULE_def)

lemma one_index:
  assumes "filter P xs = [x]" "i < length xs" "P (xs ! i)" "j < length xs" "P (xs ! j)"
  shows "i = j"
proof -
  have "card {i. i < length xs \<and> P (xs ! i)} = 1"
    using length_filter_conv_card [of P xs] assms(1) by simp
  then obtain k where "{i. i < length xs \<and> P (xs ! i)} = {k}" by (rule card_1_singletonE)
  then have "i \<in> {k}" "j \<in> {k}" using assms(2-5) by blast+
  then show ?thesis by simp
qed

lemma end_lookahead: "filter (\<lambda>l. l = 0) yy_lookahead = [0]"
  by (simp only: yy_lookahead_def filter_append) (simp add: yy_lookahead_1_def yy_lookahead_2_def yy_lookahead_3_def
      yy_lookahead_4_def yy_lookahead_5_def yy_lookahead_6_def yy_lookahead_7_def yy_lookahead_8_def)

lemma end_action: "filter (\<lambda>a. a = 1585) yy_action = [1585]"
  by (simp only: yy_action_def filter_append) (simp add: yy_action_1_def yy_action_2_def yy_action_3_def
      yy_action_4_def yy_action_5_def yy_action_6_def yy_action_7_def)

lemma end_column:
  assumes "i < 2098"
  shows "(yy_lookahead ! i = 0) = (yy_action ! i = 1585)"
proof -
  have "yy_lookahead ! 1477 = 0" "yy_action ! 1477 = 1585" by simp_all
  then show ?thesis
    using one_index [OF end_lookahead, of i 1477] one_index [OF end_action, of i 1477] assms
    by (auto simp: yy_lookahead_lengths yy_action_lengths)
qed

lemma defaults_reduce: "list_all (\<lambda>d. d \<noteq> 1585 \<and> YY_ERROR_ACTION \<le> d) yy_default"
  by (simp add: yy_default_def yy_default_1_def yy_default_2_def YY_ERROR_ACTION_def)

lemma default_reduces: "s \<le> YY_MAX_SHIFT \<Longrightarrow> yy_default ! s \<noteq> 1585 \<and> YY_ERROR_ACTION \<le> yy_default ! s"
  using defaults_reduce by (simp add: list_all_length yy_default_lengths yy_consts)

lemma entry_column:
  assumes "s \<le> YY_MAX_SHIFT" "t < YYNTOKEN" "yy_lookahead ! yy_shift_at s t = t"
  shows "(t = 0) = (yy_action ! yy_shift_at s t = 1585)"
proof -
  let ?i = "yy_shift_at s t"
  have "?i < 2283" using parser_tables_in_range [OF assms(1,2)] by (simp add: yy_lookahead_lengths)
  then have "?i < 2098" using assms(2,3) by (intro lookahead_inside) simp_all
  from end_column [OF this] assms(3) show ?thesis by auto
qed

lemma default_at_end:
  assumes "s \<le> YY_MAX_SHIFT"
  shows "yy_default_action t s \<noteq> 1585" "YY_ERROR_ACTION \<le> yy_default_action 0 s"
  using entry_column [OF assms, of YYWILDCARD] default_reduces [OF assms]
  by (auto simp: yy_default_action_def Let_def yy_consts)

lemma action_at_end:
  assumes "s \<le> YY_MAX_SHIFT" "t < YYNTOKEN"
  shows "yy_find_shift_action t s = 1585 \<Longrightarrow> t = 0" "YY_MAX_SHIFTREDUCE < yy_find_shift_action 0 s"
proof -
  show "yy_find_shift_action t s = 1585 \<Longrightarrow> t = 0"
    using assms default_at_end(1) [OF assms(1)] entry_column [OF assms]
      entry_column [OF assms(1) fallback_token [OF assms(2)]]
    by (auto simp: yy_find_shift_action_def Let_def split: if_splits)
  show "YY_MAX_SHIFTREDUCE < yy_find_shift_action 0 s"
    using assms default_at_end(2) [OF assms(1)] entry_column [OF assms(1), of 0]
    by (auto simp: yy_find_shift_action_def Let_def fallback_0 yy_consts)
qed

subsection \<open>One token\<close>

text \<open>The parser either gives an error, or shifts the token and can go on, or, at the end of the
  input, has found a sentence.\<close>

definition proceeds :: "yyParser \<Rightarrow> bool" where
  "proceeds p \<longleftrightarrow> reads p \<and> parse_err p = None \<and> fst (hd (yystack p)) \<noteq> YY_ACCEPT_ACTION"

definition parser_ends :: "nat \<Rightarrow> string \<Rightarrow> yyParser \<Rightarrow> yyParser \<Rightarrow> bool" where
  "parser_ends t z p p' \<longleftrightarrow> justified (yylog p') \<and>
     (if parse_err p' \<noteq> None then parse_rc p' = PARSE_ERROR \<and> shifted (yylog p') = shifted (yylog p)
      else if t = 0 then shifted (yylog p') = shifted (yylog p) \<and> yields 185 (read_tokens (yylog p))
      else proceeds p' \<and> shifted (yylog p') = shifted (yylog p) @ [(t, z)])"

lemma edge_accept: "edge s a YY_ACCEPT_ACTION \<Longrightarrow> s = 0 \<and> a = 185"
  using accs_accept
  by (simp add: edge_def preds_def node_index_def yy_consts split: if_splits)

lemma accept_ends:
  assumes "reads p" "yystack p = (YY_ACCEPT_ACTION, x) # st" "parse_err p = None"
  shows "parser_ends 0 z p (p\<lparr>yystack := tl (yystack p)\<rparr>)"
proof -
  have path: "path ((YY_ACCEPT_ACTION, x) # st)" and sp: "spells ((YY_ACCEPT_ACTION, x) # st) (read_tokens (yylog p))"
    using assms(1,2) by (simp_all add: reads_def)
  have "accs YY_ACCEPT_ACTION \<noteq> []" by (simp add: accs_accept)
  from path_link [OF path this] obtain s y st' a where s: "st = (s, y) # st'" "path ((s, y) # st')"
    "covers x a" "edge s a YY_ACCEPT_ACTION" .
  from edge_accept [OF s(4)] have "s = 0" "a = 185" by simp_all
  from s(1,2) path_bottom this(1) have "st = [(0, y)]" by auto
  moreover have "x = 185" using s(3) \<open>a = 185\<close> fallback_token [of x] by (auto simp: covers_def yy_consts)
  ultimately have "yields 185 (read_tokens (yylog p))"
    using sp by (auto elim!: spells.cases [of "_ # _"] simp: stands_def yy_consts)
  then show ?thesis using assms(1,3) by (simp add: parser_ends_def reads_def)
qed

lemma syntax_error_ends: "reads p \<Longrightarrow> parser_ends t z p (yy_syntax_error z p)"
  by (simp add: parser_ends_def yy_syntax_error_def parse_ErrorMsg_def reads_def)

lemma overflow_ends: "reads p \<Longrightarrow> parser_ends t z p (yyStackOverflow p)"
  by (simp add: parser_ends_def yyStackOverflow_def parse_ErrorMsg_def reads_def)

lemma reduce_ends:
  assumes "reads p" "yystack p = (s, x) # st" "parse_err p = None" "reduce_ok s r"
    "r \<noteq> 342 \<or> t = 0"
    and next_ends: "\<And>n y st' p'. reads p' \<Longrightarrow> yystack p' = (n, y) # st' \<Longrightarrow> parse_err p' = None \<Longrightarrow>
      rank n + length (yystack p') < rank s + length (yystack p) \<Longrightarrow> n \<noteq> YY_ACCEPT_ACTION \<or> t = 0 \<Longrightarrow>
      \<exists>p''. parser_loop gen t z n p' = Some p'' \<and> parser_ends t z p' p''"
  shows "\<exists>n p' p''. yy_reduce gen r p = Some (n, p') \<and> parser_loop gen t z n p' = Some p'' \<and> parser_ends t z p p''"
proof -
  obtain n p' st' where p': "yy_reduce gen r p = Some (n, p')" "reads p'"
    "yystack p' = (n, yyRuleInfoLhs ! r) # st'" "edge (fst (hd st')) (yyRuleInfoLhs ! r) n"
    "shifted (yylog p') = shifted (yylog p)" "parse_err p' = None"
    "rank n + length (yystack p') < rank s + length (yystack p)"
    using reduce_step [OF assms(1,2,4), of gen] assms(3) by auto
  have "n \<noteq> YY_ACCEPT_ACTION \<or> t = 0"
    using edge_accept p'(4) input_rule [of r] assms(4,5) by (auto simp: reduce_ok_def)
  from next_ends [OF p'(2,3,6,7) this] obtain p'' where
    "parser_loop gen t z n p' = Some p''" "parser_ends t z p' p''" by blast
  moreover have "read_tokens (yylog p') = read_tokens (yylog p)" by (simp add: read_tokens_def p'(5))
  then have "parser_ends t z p p''" using \<open>parser_ends t z p' p''\<close> p'(5,6) assms(3)
    unfolding parser_ends_def by (simp split: if_splits)
  ultimately show ?thesis using p'(1) by blast
qed

lemma shift_ends:
  assumes "proceeds p" "yystack p = (s, x) # st" "covers t b" "edge s b (shift_target a)" "t \<noteq> 0"
    "t < YYNTOKEN"
  shows "parser_ends t z p (yy_shift a t z p)"
proof (cases "YYSTACKDEPTH \<le> length (yystack p)")
  case True
  with assms(1) overflow_ends show ?thesis by (simp add: yy_shift_def proceeds_def)
next
  case False
  let ?n = "shift_target a"
  let ?p = "p\<lparr>yystack := (?n, t) # yystack p, yylog := yylog p @ [Shifted t z]\<rparr>"
  have p: "path ((s, x) # st)" "spells ((s, x) # st) (read_tokens (yylog p))" "justified (yylog p)"
    using assms(1,2) by (simp_all add: proceeds_def reads_def)
  have "path ((?n, t) # yystack p)" using p(1) assms(2-4) by (auto simp: linked_def)
  moreover have "spells ((?n, t) # yystack p) (read_tokens (yylog p) @ [t])"
    using spells_push [OF p(2), of t "[t]"] assms(2,6) by (simp add: stands_def)
  moreover have "?n \<noteq> YY_ACCEPT_ACTION"
    using edge_accept assms(3,4,6) fallback_token [of t] by (fastforce simp: covers_def yy_consts)
  moreover have "yy_shift a t z p = ?p" using False by (simp add: yy_shift_def shift_target_def)
  ultimately show ?thesis
    using assms(1,5) p(3) by (simp add: parser_ends_def proceeds_def reads_def shifted_append justified_shift)
qed

lemma action_cases:
  assumes "path ((s, x) # st)" "t < YYNTOKEN" "s \<noteq> YY_ACCEPT_ACTION \<or> t = 0"
  defines "a \<equiv> yy_find_shift_action t s"
  obtains (reduces) r where "a = YY_MIN_REDUCE + r" "reduce_ok s r" "r \<noteq> 342 \<or> t = 0"
    | (shifts) b where "covers t b" "edge s b (shift_target a)" "a \<le> YY_MAX_SHIFTREDUCE" "t \<noteq> 0"
    | (accepts) "s = YY_ACCEPT_ACTION" "a = YY_ACCEPT_ACTION" "t = 0"
    | (fails) "a = YY_ERROR_ACTION"
proof (cases "s \<le> YY_MAX_SHIFT")
  case True
  have end_of_input: "a = 1585 \<Longrightarrow> t = 0" "t = 0 \<Longrightarrow> YY_MAX_SHIFTREDUCE < a"
    using action_at_end [OF True assms(2)] by (auto simp: a_def)
  have reduction: thesis if "YY_MIN_REDUCE \<le> a" "reduce_ok s (a - YY_MIN_REDUCE)"
    using that end_of_input(1) by (intro reduces [of "a - YY_MIN_REDUCE"]) (auto simp: yy_consts)
  from action_good [OF True assms(2)] consider b where "covers t b" "entry_ok b a s"
    | "a = YY_ERROR_ACTION" | "YY_MIN_REDUCE \<le> a" "reduce_ok s (a - YY_MIN_REDUCE)"
    by (auto simp: good_action_def a_def)
  then show thesis
  proof cases
    case 1
    then show thesis using shifts [of b] reduction end_of_input(2)
      by (cases "a \<le> YY_MAX_SHIFTREDUCE") (auto simp: entry_ok_def)
  next
    case 2
    then show thesis by (rule fails)
  next
    case 3
    then show thesis by (rule reduction)
  qed
next
  case False
  then have a: "a = s" by (simp add: a_def yy_find_shift_action_def)
  show thesis
  proof (cases "s = YY_ACCEPT_ACTION")
    case True
    then show thesis using a assms(3) by (intro accepts) simp_all
  next
    case nacc: False
    obtain b q where e: "edge q b s"
      using assms(1) False by (cases st) (auto simp: linked_def)
    from edge_stands_for_node [OF e _ nacc] False
    have red: "YY_MIN_REDUCE \<le> s" "reduce_ok s (s - YY_MIN_REDUCE)" by simp_all
    have "s \<noteq> 1585"
      using e by (auto simp: edge_def preds_def node_index_def yy_consts)
    then show thesis using red a by (intro reduces [of "s - YY_MIN_REDUCE"]) (auto simp: yy_consts)
  qed
qed

lemma parser_loop_ends:
  assumes "reads p" "yystack p = (s, x) # st" "parse_err p = None" "t < YYNTOKEN"
    "s \<noteq> YY_ACCEPT_ACTION \<or> t = 0"
  shows "\<exists>p'. parser_loop gen t z s p = Some p' \<and> parser_ends t z p p'"
  using assms
proof (induction "rank s + length (yystack p)" arbitrary: s x st p rule: less_induct)
  case less
  have path: "path ((s, x) # st)" using less.prems(1,2) by (simp add: reads_def)
  from path less.prems(4,5) show ?case
  proof (cases rule: action_cases [case_names reduces shifts accepts fails])
    case (reduces r)
    show ?thesis
    proof (cases "rule_size r = 0 \<and> YYSTACKDEPTH \<le> length (yystack p)")
      case True
      then show ?thesis using reduces(1) overflow_ends [OF less.prems(1)]
        by (subst parser_loop.simps) (simp add: Let_def)
    next
      case False
      have "\<exists>n p' p''. yy_reduce gen r p = Some (n, p') \<and> parser_loop gen t z n p' = Some p'' \<and>
          parser_ends t z p p''"
        by (rule reduce_ends [OF less.prems(1-3) reduces(2,3)], rule less.hyps)
          (assumption | rule less.prems(4))+
      then show ?thesis using reduces(1) False
        by (subst parser_loop.simps) (auto simp: Let_def)
    qed
  next
    case (shifts b)
    have "proceeds p" using less.prems(1-3,5) shifts(4) by (simp add: proceeds_def)
    from shift_ends [OF this less.prems(2) shifts(1,2,4) less.prems(4)] shifts(3) show ?thesis
      by (subst parser_loop.simps) (simp add: Let_def yy_consts)
  next
    case accepts
    then show ?thesis using accept_ends [of p x st z] less.prems(1-3)
      by (subst parser_loop.simps) (simp add: yy_consts)
  next
    case fails
    then show ?thesis using syntax_error_ends [OF less.prems(1)]
      by (subst parser_loop.simps) (simp add: yy_consts)
  qed
qed

lemma parser_ends:
  assumes "proceeds p" "t < YYNTOKEN"
  shows "\<exists>p'. sqlite3Parser gen t z p = Some p' \<and> parser_ends t z p p'"
proof -
  have "path (yystack p)" using assms(1) by (simp add: proceeds_def reads_def)
  then obtain s x st where st: "yystack p = (s, x) # st" by (cases "yystack p" rule: path.cases) auto
  then show ?thesis
    using parser_loop_ends [of p s x st t] assms by (auto simp: proceeds_def sqlite3Parser_def)
qed

end
