(* ===== verification/Sql_Texts.thy ===== *)
theory Sql_Texts
  imports Sql_Derivations
begin

text \<open>
  \<open>sqlite3RunParser\<close> and the loop of \<open>sqlite3_exec\<close> on any text: both return, whatever the text is;
  a text that is parsed without an error to its end is a sentence of the grammar; and a statement
  is executed only when its tokens derive the symbol \<open>cmd\<close>.
\<close>

subsection \<open>Tokens\<close>

lemma keyword_chain_positive:
  "i \<le> 147 \<Longrightarrow> keyword_chain fuel z n i = Some t \<Longrightarrow> 0 < t"
proof (induction fuel z n i rule: keyword_chain.induct)
  case (3 fuel z n i)
  have "list_all (\<lambda>j. j \<le> 147) aKWNext" "list_all (\<lambda>c. 0 < c) aKWCode"
    by (simp_all add: aKWNext_def aKWCode_def tk_defs)
  moreover have "length aKWNext = 147" "length aKWCode = 147"
    by (simp_all add: aKWNext_def aKWCode_def)
  ultimately have "aKWNext ! i \<le> 147" "0 < aKWCode ! i" using 3(2) by (simp_all add: list_all_length)
  with 3 show ?case by (auto split: if_splits)
qed simp_all

lemma keywordCode_positive: "keywordCode z n = Some t \<Longrightarrow> 0 < t"
proof -
  have "list_all (\<lambda>j. j \<le> 147) aKWHash" "length aKWHash = 127"
    by (simp_all add: aKWHash_def)
  then have "aKWHash ! keyword_hash z n \<le> 147" by (simp add: list_all_length keyword_hash_def)
  then show "keywordCode z n = Some t \<Longrightarrow> 0 < t"
    using keyword_chain_positive by (auto simp: keywordCode_def split: if_splits)
qed

lemma positive_tokens:
  "0 < fst (tok_id z i)" "0 < fst (tok_space z)" "0 < fst (tok_minus z)" "0 < fst (tok_slash z)"
  "0 < fst (tok_eq z)" "0 < fst (tok_lt z)" "0 < fst (tok_gt z)" "0 < fst (tok_bang z)" "0 < fst (tok_pipe z)"
  "0 < fst (tok_quote z)" "0 < fst (tok_quote2 z)" "0 < fst (tok_varnum z)" "0 < fst (tok_bom z)" "0 < fst (tok_x z)"
  by (simp_all add: tok_id_def tok_space_def tok_minus_def tok_slash_def tok_eq_def tok_lt_def tok_gt_def
      tok_bang_def tok_pipe_def tok_quote_def tok_quote2_def tok_varnum_def tok_bom_def tok_x_def tk_defs
      Let_def split: prod.split)

lemma positive_digit: "0 < fst (tok_digit z)"
  by (simp add: tok_digit_def number_tail_def number_exponent_def number_fraction_def tk_defs split: prod.split)

lemma positive_dot: "0 < fst (tok_dot z)"
  using positive_digit by (simp add: tok_dot_def tk_defs)

lemma variable_loop_positive: "0 < fst (variable_loop cs n i)"
  by (induction cs n i rule: variable_loop.induct) (simp_all add: tk_defs Let_def)

lemma positive_variable: "0 < fst (tok_variable z)"
  using variable_loop_positive [of "drop 1 z" 0 1]
  by (cases "variable_loop (drop 1 z) 0 1") (simp add: tok_variable_def tk_defs)

lemma positive_keyword: "0 < fst (tok_keyword z)"
  using positive_tokens(1) keywordCode_positive
  by (auto simp: tok_keyword_def Let_def tk_defs split: option.split)

lemma token_positive: "0 < fst (sqlite3GetToken z)"
  unfolding sqlite3GetToken_def Let_def
  by (intro if_both [where P = "\<lambda>tok. 0 < fst tok"] positive_tokens positive_digit positive_dot
      positive_variable positive_keyword) (simp_all add: tk_defs)

text \<open>A token and the one the parser gets for it: only a window keyword may become an identifier.\<close>

definition same_token :: "nat \<times> string \<Rightarrow> nat \<times> string \<Rightarrow> bool" where
  "same_token x y \<longleftrightarrow> snd x = snd y \<and>
     (fst x = fst y \<or> fst x = TK_ID \<and> fst y \<in> {TK_WINDOW, TK_OVER, TK_FILTER})"

lemma analyzed:
  "analyzeWindowKeyword z \<in> {TK_ID, TK_WINDOW}" "analyzeOverKeyword z l \<in> {TK_ID, TK_OVER}"
  "analyzeFilterKeyword z l \<in> {TK_ID, TK_FILTER}"
  by (simp_all add: analyzeWindowKeyword_def analyzeOverKeyword_def analyzeFilterKeyword_def Let_def
      del: getToken.simps split: prod.split)

lemma token_nonempty: "zat z 0 \<noteq> CHR 0x00 \<Longrightarrow> sqlite3GetToken z = (t, n) \<Longrightarrow> 0 < n \<and> n \<le> length z \<and> 0 < t"
  using sqlite3GetToken_in_text [of z] token_positive [of z] by (auto simp: in_text_def)

text \<open>The input at the end of the text and before it.\<close>

lemma input_at_end:
  assumes "zat z 0 = CHR 0x00"
  shows "case parser_input interrupted mx prev z of Stop rc e \<Rightarrow> True | Skip n \<Rightarrow> False
    | Ready \<Rightarrow> prev = 0
    | Feed t n \<Rightarrow> n = 0 \<and> (if prev = int TK_SEMI then t = 0 else t = TK_SEMI \<and> prev \<noteq> 0)"
  using assms by (simp add: parser_input_def token_at_end tk_defs)

lemma input_in_text:
  assumes "zat z 0 \<noteq> CHR 0x00"
  shows "case parser_input interrupted mx prev z of Stop rc e \<Rightarrow> True | Ready \<Rightarrow> False
    | Skip n \<Rightarrow> sqlite3GetToken z = (TK_SPACE, n)
    | Feed t n \<Rightarrow> snd (sqlite3GetToken z) = n \<and> fst (sqlite3GetToken z) \<noteq> TK_SPACE \<and>
        same_token (t, take n z) (fst (sqlite3GetToken z), take n z) \<and> 0 < t \<and> t < YYNTOKEN"
proof -
  obtain t n where tok: "sqlite3GetToken z = (t, n)" by fastforce
  from token_nonempty [OF assms this] have "0 < t" by simp
  then show ?thesis
    using assms analyzed(1) [of "drop 6 z"] analyzed(2) [of "drop 4 z" prev] analyzed(3) [of "drop 6 z" prev]
    by (auto simp: parser_input_def tok Let_def same_token_def tk_defs yy_consts split: parser_step.split)
qed

lemmas input = input_at_end input_in_text

subsection \<open>The loop of the parser\<close>

definition words :: "(nat \<times> string) list \<Rightarrow> (nat \<times> string) list" where
  "words ts = filter (\<lambda>(t, s). s \<noteq> []) ts"

definition solid :: "(nat \<times> string) list \<Rightarrow> (nat \<times> string) list" where
  "solid ts = filter (\<lambda>(t, s). t \<noteq> TK_SPACE) ts"

text \<open>Before a round: either the parser can go on, or the token 0 was accepted.\<close>

definition between_tokens :: "int \<Rightarrow> string \<Rightarrow> yyParser \<Rightarrow> bool" where
  "between_tokens prev z p \<longleftrightarrow>
     (if prev = 0 then zat z 0 = CHR 0x00 \<and> justified (yylog p) \<and> parse_err p = None \<and>
        yields 185 (read_tokens (yylog p))
      else proceeds p)"

text \<open>What the loop ends with, from \<open>p\<close> with the rest \<open>z\<close> of the text.\<close>

definition loop_ends :: "string \<Rightarrow> yyParser \<Rightarrow> yyParser \<Rightarrow> string \<Rightarrow> bool" where
  "loop_ends z p p' tail \<longleftrightarrow> justified (yylog p') \<and> length tail \<le> length z \<and>
     (parse_err p' = None \<and> zat z 0 \<noteq> CHR 0x00 \<longrightarrow> length tail < length z) \<and>
     (parse_err p' = None \<and> parse_rc p' = PARSE_OK \<longrightarrow> yields 185 (read_tokens (yylog p')) \<and>
        (\<exists>ts. words (shifted (yylog p')) = words (shifted (yylog p)) @ ts \<and> list_all2 same_token ts (solid (tokens z))))"

definition text_measure :: "int \<Rightarrow> string \<Rightarrow> nat" where
  "text_measure prev z = 3 * length z + (if prev = 0 then 0 else if prev = int TK_SEMI then 1 else 2)"

lemma tokens_end: "zat z 0 = CHR 0x00 \<Longrightarrow> tokens z = []"
  by (subst tokens.simps) simp

lemma tokens_next: "zat z 0 \<noteq> CHR 0x00 \<Longrightarrow> sqlite3GetToken z = (t, n) \<Longrightarrow> tokens z = (t, take n z) # tokens (drop n z)"
  by (subst tokens.simps) simp

lemma between_justified: "between_tokens prev z p \<Longrightarrow> justified (yylog p) \<and> parse_err p = None"
  by (auto simp: between_tokens_def proceeds_def reads_def split: if_splits)

lemma loop_ends_drop:
  assumes "loop_ends (drop n z) p q tail" "zat z 0 \<noteq> CHR 0x00" "sqlite3GetToken z = (t, n)"
    "shifted (yylog p) = shifted (yylog p0) @ us"
    "if t = TK_SPACE then us = [] else \<exists>u. us = [(u, take n z)] \<and> same_token (u, take n z) (t, take n z)"
  shows "loop_ends z p0 q tail"
proof -
  have n: "0 < n" "n \<le> length z" using token_nonempty [OF assms(2,3)] by simp_all
  have "words us = us" using n assms(5) by (auto simp: words_def split: if_splits)
  moreover have "list_all2 same_token (us @ ts) (solid (tokens z))"
    if "list_all2 same_token ts (solid (tokens (drop n z)))" for ts
    using assms(5) that by (auto simp: tokens_next [OF assms(2,3)] solid_def split: if_splits)
  ultimately show ?thesis
    using assms(1,4) n by (auto simp: loop_ends_def words_def)
qed

lemma loop_ends_same:
  "loop_ends z p q tail \<Longrightarrow> words (shifted (yylog p)) = words (shifted (yylog p0)) \<Longrightarrow> loop_ends z p0 q tail"
  by (simp add: loop_ends_def)

lemma loop_ends_stop:
  "justified (yylog q) \<Longrightarrow> parse_rc q \<noteq> PARSE_OK \<or> parse_err q \<noteq> None \<Longrightarrow>
     (zat z 0 \<noteq> CHR 0x00 \<Longrightarrow> parse_err q = None \<Longrightarrow> 0 < n) \<Longrightarrow> loop_ends z p q (drop n z)"
  by (cases z) (auto simp: loop_ends_def zat_def)

lemma parse_loop_feed:
  assumes "proceeds p" "t < YYNTOKEN" "parser_input interrupted mx prev z = Feed t n"
    "zat z 0 \<noteq> CHR 0x00 \<Longrightarrow> 0 < n"
    and next_ends: "\<And>q. between_tokens (int t) (drop n z) q \<Longrightarrow>
      shifted (yylog q) = (if t = 0 then shifted (yylog p) else shifted (yylog p) @ [(t, take n z)]) \<Longrightarrow>
      \<exists>p' tail. parse_loop gen interrupted (mx - int n) (int t) (drop n z) q = Some (p', tail) \<and>
        loop_ends z p p' tail"
    and "t = 0 \<Longrightarrow> zat (drop n z) 0 = CHR 0x00"
  shows "\<exists>p' tail. parse_loop gen interrupted mx prev z p = Some (p', tail) \<and> loop_ends z p p' tail"
proof -
  obtain q where q: "sqlite3Parser gen t (take n z) p = Some q" "parser_ends t (take n z) p q"
    using parser_ends [OF assms(1,2)] by blast
  have j: "justified (yylog q)" using q(2) by (simp add: parser_ends_def)
  show ?thesis
  proof (cases "parse_rc q = PARSE_OK")
    case True
    then have "parse_err q = None" using q(2) by (auto simp: parser_ends_def PARSE_OK_def PARSE_ERROR_def split: if_splits)
    then have "between_tokens (int t) (drop n z) q"
      "shifted (yylog q) = (if t = 0 then shifted (yylog p) else shifted (yylog p) @ [(t, take n z)])"
      using q(2) assms(6) by (auto simp: parser_ends_def between_tokens_def read_tokens_def)
    from next_ends [OF this] q(1) True show ?thesis
      by (subst parse_loop.simps) (simp add: assms(3))
  next
    case False
    then show ?thesis using q(1) loop_ends_stop [OF j, of z n p] assms(4)
      by (subst parse_loop.simps) (auto simp: assms(3))
  qed
qed

lemma parse_loop_ends:
  "between_tokens prev z p \<Longrightarrow>
     \<exists>p' tail. parse_loop gen interrupted mx prev z p = Some (p', tail) \<and> loop_ends z p p' tail"
proof (induction "text_measure prev z" arbitrary: mx prev z p rule: less_induct)
  case less
  show ?case
  proof (cases "parser_input interrupted mx prev z")
    case (Stop rc e)
    then show ?thesis using between_justified [OF less.prems]
      loop_ends_stop [of "p\<lparr>parse_rc := rc, parse_err := Some e\<rparr>" z 0 p]
      by (subst parse_loop.simps) simp
  next
    case Ready
    then have "zat z 0 = CHR 0x00" "prev = 0"
      using input [where interrupted = interrupted and mx = mx and prev = prev and z = z] by fastforce+
    then have "loop_ends z p p z"
      using less.prems by (simp add: loop_ends_def between_tokens_def tokens_end solid_def)
    then show ?thesis by (subst parse_loop.simps) (simp add: Ready)
  next
    case (Skip n)
    then have z: "zat z 0 \<noteq> CHR 0x00" "sqlite3GetToken z = (TK_SPACE, n)"
      using input [where interrupted = interrupted and mx = mx and prev = prev and z = z] by fastforce+
    then have "between_tokens prev (drop n z) p" using less.prems by (auto simp: between_tokens_def)
    moreover have "text_measure prev (drop n z) < text_measure prev z"
      using token_nonempty [OF z] by (auto simp: text_measure_def)
    ultimately obtain p' tail where "parse_loop gen interrupted (mx - int n) prev (drop n z) p = Some (p', tail)"
      "loop_ends (drop n z) p p' tail" using less.hyps by blast
    then show ?thesis using loop_ends_drop [OF _ z, of p p' tail p "[]"]
      by (subst parse_loop.simps) (simp add: Skip)
  next
    case (Feed t n)
    show ?thesis
    proof (cases "zat z 0 = CHR 0x00")
      case True
      then have n: "n = 0" and t: "if prev = int TK_SEMI then t = 0 else t = TK_SEMI \<and> prev \<noteq> 0"
        using input_at_end [OF True, where interrupted = interrupted and mx = mx and prev = prev] by (simp_all add: Feed)
      have small: "text_measure (int t) z < text_measure prev z"
        using t by (auto simp: text_measure_def TK_SEMI_def split: if_splits)
      have p: "proceeds p" using less.prems t by (auto simp: between_tokens_def TK_SEMI_def split: if_splits)
      show ?thesis
      proof (rule parse_loop_feed [OF p _ Feed])
        fix q
        assume q: "between_tokens (int t) (drop n z) q"
          "shifted (yylog q) = (if t = 0 then shifted (yylog p) else shifted (yylog p) @ [(t, take n z)])"
        have "words (shifted (yylog q)) = words (shifted (yylog p))"
          using q(2) n by (simp add: words_def)
        then show "\<exists>p' tail. parse_loop gen interrupted (mx - int n) (int t) (drop n z) q = Some (p', tail) \<and>
            loop_ends z p p' tail"
          using less.hyps [OF small, of q "mx - int n"] q(1) n loop_ends_same by fastforce
      qed (use t n True in \<open>auto simp: TK_SEMI_def yy_consts split: if_splits\<close>)
    next
      case False
      obtain t' where tok: "sqlite3GetToken z = (t', n)" and t: "t' \<noteq> TK_SPACE" "0 < t" "t < YYNTOKEN"
        "same_token (t, take n z) (t', take n z)"
        using input_in_text [OF False, where interrupted = interrupted and mx = mx and prev = prev] by (cases "sqlite3GetToken z") (auto simp: Feed)
      have n: "0 < n" "n \<le> length z" using token_nonempty [OF False tok] by simp_all
      then have small: "text_measure (int t) (drop n z) < text_measure prev z"
        by (auto simp: text_measure_def)
      have p: "proceeds p" using less.prems False by (simp add: between_tokens_def split: if_splits)
      show ?thesis
      proof (rule parse_loop_feed [OF p t(3) Feed])
        fix q
        assume q: "between_tokens (int t) (drop n z) q"
          "shifted (yylog q) = (if t = 0 then shifted (yylog p) else shifted (yylog p) @ [(t, take n z)])"
        then have "shifted (yylog q) = shifted (yylog p) @ [(t, take n z)]" using t(2) by simp
        from less.hyps [OF small q(1), of "mx - int n"] loop_ends_drop [OF _ False tok this] t(1,4)
        show "\<exists>p' tail. parse_loop gen interrupted (mx - int n) (int t) (drop n z) q = Some (p', tail) \<and>
            loop_ends z p p' tail" by auto
      qed (use n t in simp_all)
    qed
  qed
qed

subsection \<open>Parsing and executing\<close>

lemma init_proceeds: "proceeds sqlite3ParserInit"
  by (simp add: proceeds_def reads_def sqlite3ParserInit_def justified_def spells_start yy_consts)

lemma run_parser_ends:
  "\<exists>nErr p tail. sqlite3RunParser gen interrupted mx z = Some (nErr, p, tail) \<and>
     loop_ends z sqlite3ParserInit p tail \<and>
     nErr = (parse_err p \<noteq> None \<or> parse_rc p \<noteq> PARSE_OK \<and> parse_rc p \<noteq> PARSE_DONE)"
proof -
  have "between_tokens (- 1) z sqlite3ParserInit" by (simp add: between_tokens_def init_proceeds)
  from parse_loop_ends [OF this, of gen interrupted mx] show ?thesis
    by (auto simp: sqlite3RunParser_def)
qed

text \<open>C17: The parser returns for every text, whatever the actions of the rules report: it never looks
  for an entry that its stack does not have, and no sequence of reductions runs for ever.\<close>

theorem parser_returns: "\<exists>r. sqlite3RunParser gen interrupted mx z = Some r"
  using run_parser_ends [of gen interrupted mx z] by blast

text \<open>C16: A text that the parser takes to its end without an error is a sentence of the grammar: the
  tokens that it read are, one by one, those of the text without the white space (only a window
  keyword may count as an identifier, and a missing semicolon is added), and the symbol \<open>input\<close>
  derives them.\<close>

theorem parsed_text_is_sentence:
  assumes "sqlite3RunParser gen interrupted mx z = Some (False, p, tail)" "parse_rc p = PARSE_OK"
  shows "yields 185 (read_tokens (yylog p)) \<and> list_all2 same_token (words (shifted (yylog p))) (solid (tokens z))"
  using run_parser_ends [of gen interrupted mx z] assms
  by (auto simp: loop_ends_def sqlite3ParserInit_def words_def)

lemma lex_commit: "sqlite3GetToken ''COMMIT'' = (TK_COMMIT, 6)"
  by (simp add: lex_simps)

lemmas parse_commit = parser_input_def lex_commit token_at_end tk_defs zat_def parse_simps

lemma parsed_text_is_sentence_witness:
  "yields 185 [TK_COMMIT, TK_SEMI] \<and> list_all2 same_token [(TK_COMMIT, ''COMMIT'')] (solid (tokens ''COMMIT''))"
proof -
  have "\<exists>p. sqlite3RunParser (\<lambda>_. PARSE_OK) False 100 ''COMMIT'' = Some (False, p, []) \<and> parse_rc p = PARSE_OK \<and>
      shifted (yylog p) = [(TK_COMMIT, ''COMMIT''), (TK_SEMI, [])]"
    by (simp add: sqlite3RunParser_def, subst parse_loop.simps, simp add: parse_commit,
        subst parse_loop.simps, simp add: parse_commit, subst parse_loop.simps, simp add: parse_commit,
        subst parse_loop.simps, simp add: parse_commit)
  then obtain p where p: "sqlite3RunParser (\<lambda>_. PARSE_OK) False 100 ''COMMIT'' = Some (False, p, [])"
    "parse_rc p = PARSE_OK" "shifted (yylog p) = [(TK_COMMIT, ''COMMIT''), (TK_SEMI, [])]" by blast
  from parsed_text_is_sentence [OF p(1,2)] p(3) show ?thesis by (simp add: read_tokens_def words_def)
qed

text \<open>A log in which a statement was complete: the tokens before the rule \<open>cmdx ::= cmd\<close> end with a
  derivation of \<open>cmd\<close>.\<close>

definition statement_log :: "parse_event list \<Rightarrow> bool" where
  "statement_log log \<longleftrightarrow>
     (\<exists>l1 l2 us ws. log = l1 @ Reduced 2 # l2 \<and> read_tokens l1 = us @ ws \<and> yields 190 ws)"

lemma compiled_statement:
  assumes "justified log" "compiled log"
  shows "statement_log log"
proof -
  from assms(2) obtain l1 l2 where l: "log = l1 @ Reduced 2 # l2"
    unfolding compiled_def by (meson split_list)
  with assms(1) obtain us ws where "read_tokens l1 = us @ ws" "yields_all (rule_rhs ! 2) ws"
    unfolding justified_def by blast
  moreover from this(2) have "yields 190 ws"
    by (auto simp: elim!: yields_all.cases)
  ultimately show ?thesis using l unfolding statement_log_def by blast
qed

lemma drop_while_length: "length (dropWhile P xs) \<le> length xs"
  by (rule length_dropWhile_le)

lemma exec_loop_ends:
  assumes "\<And>log d. statement_log log \<Longrightarrow> run log d = run' log d"
  shows "\<exists>r. exec_loop gen run mx z rows d = Some r \<and> exec_loop gen run' mx z rows d = Some r"
proof (induction "length z" arbitrary: z rows d rule: less_induct)
  case less
  show ?case
  proof (cases "zat z 0 = CHR 0x00")
    case True
    then show ?thesis by (simp add: exec_end)
  next
    case False
    obtain nErr p tail where p: "sqlite3RunParser (gen d) False mx z = Some (nErr, p, tail)"
      "loop_ends z sqlite3ParserInit p tail" "parse_err p \<noteq> None \<Longrightarrow> nErr"
      using run_parser_ends [of "gen d" False mx z] by auto
    show ?thesis
    proof (cases nErr)
      case True
      then show ?thesis using False p(1) by (subst (1 2) exec_loop.simps) simp
    next
      case noerr: False
      then have "length tail < length z" "justified (yylog p)" using p(2,3) False by (auto simp: loop_ends_def)
      moreover have "length (dropWhile sqlite3Isspace tail) < length z"
        using \<open>length tail < length z\<close> drop_while_length [of sqlite3Isspace tail] by linarith
      ultimately show ?thesis
        using False p(1) noerr assms compiled_statement less.hyps
        by (subst (1 2) exec_loop.simps) (auto split: prod.split)
    qed
  qed
qed


text \<open>C18: Only statements of the grammar are executed: what the virtual machine would do with anything
  else makes no difference to what the execution of a text gives.\<close>

theorem only_statements_run:
  assumes "\<And>log d. statement_log log \<Longrightarrow> run log d = run' log d"
  shows "exec_loop gen run mx z rows d = exec_loop gen run' mx z rows d"
proof -
  obtain r where "exec_loop gen run mx z rows d = Some r" "exec_loop gen run' mx z rows d = Some r"
    using exec_loop_ends [of run run' gen mx z rows d] assms by blast
  then show ?thesis by simp
qed

lemma only_statements_run_witness:
  "exec_loop (\<lambda>_. clean_codegen) (\<lambda>log d. (PARSE_OK, [()], Suc d)) 100 '';; COMMIT'' [] 0 =
   exec_loop (\<lambda>_. clean_codegen) (\<lambda>log d. if compiled log then (PARSE_OK, [()], Suc d) else (1, [], d))
     100 '';; COMMIT'' [] 0"
  by (rule only_statements_run) (auto simp: statement_log_def compiled_def)

end
