(* ===== verification/Sql_Numbers.thy ===== *)
theory Sql_Numbers
  imports Sql_Statements
begin

text \<open>
  What a number in a query is: the conversions between decimal texts and machine integers, and the
  literal that a token stands for (\<open>sqlite3Int64ToText\<close>, \<open>sqlite3Atoi64\<close>, \<open>sqlite3GetInt32\<close>,
  \<open>sqlite3DecOrHexToI64\<close>, \<open>codeInteger\<close>).  A pointer into a text with the end of the text is the
  rest of the text.
\<close>

unbundle bit_operations_syntax

definition LARGEST_INT64 :: i64 where
  "LARGEST_INT64 = 0xffffffff OR push_bit 32 0x7fffffff"

definition SMALLEST_INT64 :: i64 where
  "SMALLEST_INT64 = - 1 - LARGEST_INT64"

lemma int64_limits [simp]: "sint LARGEST_INT64 = 2 ^ 63 - 1" "sint SMALLEST_INT64 = - (2 ^ 63)"
  "uint LARGEST_INT64 = 2 ^ 63 - 1"
  by (simp_all add: SMALLEST_INT64_def LARGEST_INT64_def)

subsection \<open>A number as a text\<close>

lemma word_div_10: "unat (x div 10 :: u64) = unat x div 10" "unat (x mod 10 :: u64) = unat x mod 10"
  by (simp_all add: unat_div unat_mod)

lemma word_div_10_less: "x div 10 \<noteq> (0 :: u64) \<Longrightarrow> unat (x div 10) < unat x"
proof -
  assume "x div 10 \<noteq> 0"
  then have "unat (x div 10) \<noteq> 0" by (simp add: unat_eq_0)
  then show ?thesis by (simp add: word_div_10)
qed

text \<open>The digits are put into a buffer from its end.\<close>

function text_loop :: "u64 \<Rightarrow> string \<Rightarrow> string" where
  "text_loop x zTemp =
     (let zTemp = char_of (unat (x mod 10) + 48) # zTemp; x = x div 10
      in if x \<noteq> 0 then text_loop x zTemp else zTemp)"
  by pat_completeness auto

termination
  by (relation "measure (\<lambda>(x, z). unat x)") (simp_all add: word_div_10_less)

declare text_loop.simps [simp del]

definition sqlite3Int64ToText :: "i64 \<Rightarrow> string" where
  "sqlite3Int64ToText v =
     (let x = if v <s 0 then if v = SMALLEST_INT64 then push_bit 63 1 else - v else v;
          zTemp = text_loop x []
      in if v <s 0 then CHR ''-'' # zTemp else zTemp)"

lemma text_loop_digits: "text_loop x acc = dec_digits (unat x) @ acc"
proof (induction x acc rule: text_loop.induct)
  case (1 x acc)
  have "x div 10 = 0 \<longleftrightarrow> unat (x div 10) = 0" by (simp only: unat_eq_0)
  then have zero: "x div 10 = 0 \<longleftrightarrow> unat x < 10" by (simp only: word_div_10) (simp add: div_eq_0_iff)
  have "text_loop x acc = (if unat x < 10 then digit_char (unat x) # acc
      else dec_digits (unat x div 10) @ digit_char (unat x mod 10) # acc)"
    using 1 by (subst text_loop.simps) (auto simp: Let_def zero word_div_10 digit_char_def add.commute)
  then show ?case by (subst dec_digits.simps) simp
qed

lemma unat_minus_negative: "sint (v :: i64) < 0 \<Longrightarrow> unat (- v) = nat (- sint v)"
proof -
  assume "sint v < 0"
  moreover have "- (2 ^ 63) \<le> sint v" using sint_greater_eq [of v] by simp
  ultimately have "(- sint v) mod 2 ^ 64 = - sint v" by (intro mod_pos_pos_trivial) simp_all
  moreover have "- v = word_of_int (- sint v)" by simp
  ultimately have "uint (word_of_int (- sint v) :: i64) = - sint v"
    by (simp only: uint_word_of_int) simp
  with \<open>- v = _\<close> show ?thesis by (simp only: unat_eq_nat_uint)
qed

lemma unat_nonnegative: "\<not> sint (v :: i64) < 0 \<Longrightarrow> unat v = nat (sint v)"
  using sint_lt [of v] uint_sint [of v] by (simp add: take_bit_eq_mod unat_eq_nat_uint)

text \<open>The text is the decimal text of the number, and fits into the buffer of 21 bytes.\<close>

lemma sqlite3Int64ToText_eq: "sqlite3Int64ToText v = int_text (sint v)"
proof (cases "sint v < 0")
  case True
  have "(if v = SMALLEST_INT64 then push_bit 63 1 else - v) = - v"
    by (simp add: SMALLEST_INT64_def LARGEST_INT64_def)
  with True have "sqlite3Int64ToText v = CHR ''-'' # text_loop (- v) []"
    by (simp only: sqlite3Int64ToText_def Let_def word_sless_alt signed_0 if_True)
  then show ?thesis
    by (simp only: text_loop_digits unat_minus_negative [OF True]) (simp add: int_text_def True)
next
  case False
  then have "sqlite3Int64ToText v = text_loop v []"
    by (simp only: sqlite3Int64ToText_def Let_def word_sless_alt signed_0 if_False)
  then show ?thesis
    by (simp only: text_loop_digits unat_nonnegative [OF False]) (simp add: int_text_def False)
qed

subsection \<open>A text as a number\<close>

definition SQLITE_UTF8 :: nat where "SQLITE_UTF8 = 1"
definition SQLITE_UTF16LE :: nat where "SQLITE_UTF16LE = 2"
definition SQLITE_UTF16BE :: nat where "SQLITE_UTF16BE = 3"

text \<open>\<open>compare2pow63\<close>, whose loop ends at the first digit that differs.\<close>

fun pow63_loop :: "nat \<Rightarrow> string \<Rightarrow> nat \<Rightarrow> string \<Rightarrow> int" where
  "pow63_loop incr zNum i [] = int (code (zat zNum (18 * incr))) - int (code (CHR ''8''))"
| "pow63_loop incr zNum i (p # pow63) =
     (let c = (int (code (zat zNum (i * incr))) - int (code p)) * 10
      in if c = 0 then pow63_loop incr zNum (i + 1) pow63 else c)"

definition compare2pow63 :: "string \<Rightarrow> nat \<Rightarrow> int" where
  "compare2pow63 zNum incr = pow63_loop incr zNum 0 ''922337203685477580''"

text \<open>The loops of \<open>sqlite3Atoi64\<close> over the rest of a text, in steps of one character.\<close>

fun skip_while :: "(char \<Rightarrow> bool) \<Rightarrow> nat \<Rightarrow> string \<Rightarrow> string" where
  "skip_while P incr [] = []"
| "skip_while P incr (c # z) = (if P c then skip_while P incr (drop (incr - 1) z) else c # z)"

fun atoi_digits :: "nat \<Rightarrow> string \<Rightarrow> nat \<Rightarrow> u64 \<Rightarrow> nat \<times> u64" where
  "atoi_digits incr [] i u = (i, u)"
| "atoi_digits incr (c # z) i u =
     (if code (CHR ''0'') \<le> code c \<and> code c \<le> code (CHR ''9'')
      then atoi_digits incr (drop (incr - 1) z) (i + incr) (u * 10 + of_nat (code c) - 48)
      else (i, u))"

fun atoi_excess :: "nat \<Rightarrow> string \<Rightarrow> int" where
  "atoi_excess incr [] = 0"
| "atoi_excess incr (c # z) = (if \<not> sqlite3Isspace c then 1 else atoi_excess incr (drop (incr - 1) z))"

text \<open>In UTF-16 the bytes that are 0 in ASCII text are skipped; the first one that is not ends the
  number.\<close>

function utf16_high :: "string \<Rightarrow> nat \<Rightarrow> nat \<Rightarrow> nat" where
  "utf16_high z n i = (if i < n \<and> zat z i = CHR 0x00 then utf16_high z n (i + 2) else i)"
  by pat_completeness auto

termination by (relation "measure (\<lambda>(z, n, i). n - i)") auto

declare utf16_high.simps [simp del]

definition atoi_text :: "string \<Rightarrow> nat \<Rightarrow> nat \<Rightarrow> nat \<times> string \<times> bool" where
  "atoi_text zNum n enc =
     (if enc = SQLITE_UTF8 then (1, take n zNum, False)
      else let n = n - n mod 2;
               i = utf16_high zNum n (3 - enc);
               zEnd = (if even i then i + 1 else i - 1)
           in (2, drop (enc mod 2) (take zEnd zNum), i < n))"

definition sqlite3Atoi64 :: "string \<Rightarrow> nat \<Rightarrow> nat \<Rightarrow> int \<times> i64" where
  "sqlite3Atoi64 zNum n enc =
     (case atoi_text zNum n enc of (incr, zNum, nonNum) \<Rightarrow>
     let zNum = skip_while sqlite3Isspace incr zNum;
         neg = (zNum \<noteq> [] \<and> hd zNum = CHR ''-'');
         zNum = (if zNum \<noteq> [] \<and> (hd zNum = CHR ''-'' \<or> hd zNum = CHR ''+'') then drop incr zNum else zNum);
         zStart = zNum;
         zNum = skip_while (\<lambda>c. c = CHR ''0'') incr zNum
     in case atoi_digits incr zNum 0 0 of (i, u) \<Rightarrow>
     let bound = (if neg then SMALLEST_INT64 else LARGEST_INT64);
         pNum = (if LARGEST_INT64 < u then bound else if neg then - u else u);
         rc = (if i = 0 \<and> length zStart = length zNum then - 1
               else if nonNum then 1
               else if i < length zNum then atoi_excess incr (drop i zNum)
               else 0)
     in if i < 19 * incr then (rc, pNum)
        else let c = (if 19 * incr < i then 1 else compare2pow63 zNum incr)
             in if c < 0 then (rc, pNum)
                else if 0 < c then (2, bound)
                else if neg then (rc, bound) else (3, bound))"

text \<open>\<open>sqlite3HexToInt\<close>, and the loop over hexadecimal digits.\<close>

definition sqlite3HexToInt :: "nat \<Rightarrow> nat" where
  "sqlite3HexToInt h = (h + 9 * (drop_bit 6 h AND 1)) AND 0xf"

fun hex64_digits :: "string \<Rightarrow> u64 \<Rightarrow> nat \<times> u64" where
  "hex64_digits [] u = (0, u)"
| "hex64_digits (c # z) u =
     (if sqlite3Isxdigit c
      then case hex64_digits z (u * 16 + of_nat (sqlite3HexToInt (code c))) of (k, u) \<Rightarrow> (Suc k, u)
      else (0, u))"

definition hex_prefix :: "string \<Rightarrow> bool" where
  "hex_prefix z \<longleftrightarrow> zat z 0 = CHR ''0'' \<and> (zat z 1 = CHR ''x'' \<or> zat z 1 = CHR ''X'')"

definition sqlite3DecOrHexToI64 :: "string \<Rightarrow> int \<times> i64" where
  "sqlite3DecOrHexToI64 z =
     (if hex_prefix z
      then let z = skip_while (\<lambda>c. c = CHR ''0'') 1 (drop 2 z)
           in case hex64_digits z 0 of (n, u) \<Rightarrow> (if zat z n = CHR 0x00 \<and> n \<le> 16 then 0 else 2, u)
      else sqlite3Atoi64 z (length z AND 0x3fffffff) SQLITE_UTF8)"

text \<open>\<open>sqlite3GetInt32\<close>: \<open>None\<close> when it returns 0.  The loops stop at their eighth and their
  eleventh digit.\<close>

fun hex32_digits :: "nat \<Rightarrow> string \<Rightarrow> u32 \<Rightarrow> string \<times> u32" where
  "hex32_digits 0 z u = (z, u)"
| "hex32_digits (Suc n) z u =
     (if z \<noteq> [] \<and> sqlite3Isxdigit (hd z)
      then hex32_digits n (tl z) (u * 16 + of_nat (sqlite3HexToInt (code (hd z))))
      else (z, u))"

fun int32_digits :: "nat \<Rightarrow> string \<Rightarrow> nat \<Rightarrow> i64 \<Rightarrow> nat \<times> i64" where
  "int32_digits 0 z i v = (i, v)"
| "int32_digits (Suc n) z i v =
     (let c = int (code (zat z 0)) - int (code (CHR ''0''))
      in if 0 \<le> c \<and> c \<le> 9 then int32_digits n (drop 1 z) (i + 1) (v * 10 + word_of_int c) else (i, v))"

definition sqlite3GetInt32 :: "string \<Rightarrow> c_int option" where
  "sqlite3GetInt32 zNum =
     (if zat zNum 0 \<noteq> CHR ''-'' \<and> zat zNum 0 \<noteq> CHR ''+'' \<and> hex_prefix zNum \<and> sqlite3Isxdigit (zat zNum 2)
      then case hex32_digits 8 (skip_while (\<lambda>c. c = CHR ''0'') 1 (drop 2 zNum)) 0 of (z, u) \<Rightarrow>
        if u AND 0x80000000 = 0 \<and> \<not> sqlite3Isxdigit (zat z 0) then Some u else None
      else let neg = (zat zNum 0 = CHR ''-'');
               zNum = (if neg \<or> zat zNum 0 = CHR ''+'' then drop 1 zNum else zNum)
           in if \<not> sqlite3Isdigit (zat zNum 0) then None
              else case int32_digits 11 (skip_while (\<lambda>c. c = CHR ''0'') 1 zNum) 0 0 of (i, v) \<Rightarrow>
                if 10 < i then None
                else if 2147483647 <s v - (if neg then 1 else 0) then None
                else Some (ucast (if neg then - v else v)))"

subsection \<open>Values of decimal texts\<close>

lemma foldl_digits:
  "foldl (\<lambda>n c. 10 * n + (code c - 48)) n ds = n * 10 ^ length ds + digits_value ds"
proof (induction ds arbitrary: n)
  case (Cons c ds)
  from Cons.IH [of "10 * n + (code c - 48)"] Cons.IH [of "code c - 48"] show ?case
    by (simp add: digits_value_def algebra_simps)
qed (simp add: digits_value_def)

lemma digits_value_Cons: "digits_value (c # ds) = (code c - 48) * 10 ^ length ds + digits_value ds"
  using foldl_digits [of "code c - 48" ds] by (simp add: digits_value_def)

lemma digits_value_less: "list_all is_digit ds \<Longrightarrow> digits_value ds < 10 ^ length ds"
proof (induction ds)
  case (Cons c ds)
  then have "digits_value ds < 10 ^ length ds" "code c - 48 \<le> 9" by (auto simp: is_digit_def)
  moreover from this(2) have "(code c - 48) * 10 ^ length ds \<le> 9 * 10 ^ length ds" by (rule mult_le_mono1)
  ultimately show ?case unfolding digits_value_Cons length_Cons power_Suc by linarith
qed (simp add: digits_value_def)

lemma digits_value_zeros: "digits_value (dropWhile (\<lambda>c. c = CHR ''0'') ds) = digits_value ds"
  by (induction ds) (auto simp: digits_value_Cons)

lemma digits_value_ge:
  "list_all is_digit (c # ds) \<Longrightarrow> c \<noteq> CHR ''0'' \<Longrightarrow> 10 ^ length ds \<le> digits_value (c # ds)"
proof -
  assume c: "list_all is_digit (c # ds)" "c \<noteq> CHR ''0''"
  have "code c \<noteq> code (CHR ''0'')" using c(2) by (simp only: of_char_eq_iff not_False_eq_True)
  with c(1) have "1 \<le> code c - 48" by (auto simp: is_digit_def)
  then have "1 * 10 ^ length ds \<le> (code c - 48) * 10 ^ length ds" by (rule mult_le_mono1)
  then show ?thesis unfolding digits_value_Cons by linarith
qed

text \<open>The loops on UTF-8.\<close>

lemma skip_while_1 [simp]: "skip_while P (Suc 0) z = dropWhile P z"
  by (induction z) simp_all

lemma atoi_excess_1 [simp]: "atoi_excess (Suc 0) z = (if list_all sqlite3Isspace z then 0 else 1)"
  by (induction z) simp_all

lemma atoi_digits_1:
  "list_all is_digit ds \<Longrightarrow> r = [] \<or> \<not> is_digit (hd r) \<Longrightarrow>
   atoi_digits (Suc 0) (ds @ r) i (of_nat n) =
     (i + length ds, of_nat (foldl (\<lambda>n c. 10 * n + (code c - 48)) n ds))"
proof (induction ds arbitrary: i n)
  case Nil
  then show ?case by (cases r) (auto simp: is_digit_def)
next
  case (Cons c ds)
  then have c: "48 \<le> code c" "code c \<le> 57" by (simp_all add: is_digit_def)
  then have w: "of_nat n * 10 + of_nat (code c) - (48 :: u64) = of_nat (10 * n + (code c - 48))"
    by (simp add: of_nat_diff algebra_simps)
  have "atoi_digits (Suc 0) ((c # ds) @ r) i (of_nat n) =
      atoi_digits (Suc 0) (ds @ r) (Suc i) (of_nat n * 10 + of_nat (code c) - 48)"
    using c by simp
  also have "\<dots> = atoi_digits (Suc 0) (ds @ r) (Suc i) (of_nat (10 * n + (code c - 48)))" by (simp only: w)
  finally have "atoi_digits (Suc 0) ((c # ds) @ r) i (of_nat n) =
      atoi_digits (Suc 0) (ds @ r) (Suc i) (of_nat (10 * n + (code c - 48)))" .
  with Cons.IH [of "Suc i" "10 * n + (code c - 48)"] Cons.prems show ?case
    by (simp del: atoi_digits.simps of_nat_add of_nat_mult)
qed

text \<open>\<open>compare2pow63\<close> compares with 9223372036854775808.\<close>

lemma sgn_digits:
  "int a \<noteq> int b \<Longrightarrow> x < m \<Longrightarrow> y < m \<Longrightarrow>
   sgn ((int a - int b) * 10) = sgn (int (a * m + x) - int (b * m + y))"
proof -
  assume ab: "int a \<noteq> int b" "x < m" "y < m"
  consider "a + 1 \<le> b" | "b + 1 \<le> a" using ab(1) by linarith
  then show ?thesis
  proof cases
    case 1
    then have "(a + 1) * m \<le> b * m" by (rule mult_le_mono1)
    then have "a * m + x < b * m + y" using ab(2) by (simp add: algebra_simps)
    then have "int (a * m + x) - int (b * m + y) < 0" by linarith
    with 1 show ?thesis by (simp add: sgn_if)
  next
    case 2
    then have "(b + 1) * m \<le> a * m" by (rule mult_le_mono1)
    then have "b * m + y < a * m + x" using ab(3) by (simp add: algebra_simps)
    then have "0 < int (a * m + x) - int (b * m + y)" by linarith
    with 2 show ?thesis by (simp add: sgn_if)
  qed
qed

lemma pow63_loop_sgn:
  "length pre = i \<Longrightarrow> i + length ps = 18 \<Longrightarrow> length xs = Suc (length ps) \<Longrightarrow>
   list_all is_digit xs \<Longrightarrow> list_all is_digit ps \<Longrightarrow>
   sgn (pow63_loop (Suc 0) (pre @ xs @ r) i ps) = sgn (int (digits_value xs) - int (digits_value (ps @ ''8'')))"
proof (induction ps arbitrary: i pre xs)
  case Nil
  then obtain x where "xs = [x]" "48 \<le> code x" by (cases xs) (auto simp: is_digit_def)
  with Nil show ?case by (simp add: zat_def nth_append digits_value_def)
next
  case (Cons p ps)
  then obtain x ys where xs: "xs = x # ys" "length ys = Suc (length ps)" by (cases xs) auto
  with Cons.prems have d: "48 \<le> code x" "48 \<le> code p" "list_all is_digit ys" "list_all is_digit ps"
    by (simp_all, simp_all add: is_digit_def)
  have d8: "list_all is_digit (ps @ ''8'')" using d(4) by (simp add: is_digit_def)
  have at: "zat (pre @ xs @ r) i = x" using Cons.prems(1) xs by (simp add: zat_def nth_append)
  show ?case
  proof (cases "code x = code p")
    case True
    then have "digits_value (x # ys) + digits_value (ps @ ''8'') = digits_value (p # ps @ ''8'') + digits_value ys"
      using xs(2) by (simp add: digits_value_Cons)
    then have "int (digits_value (x # ys)) - int (digits_value (p # ps @ ''8'')) =
        int (digits_value ys) - int (digits_value (ps @ ''8''))" by linarith
    moreover have "sgn (pow63_loop (Suc 0) ((pre @ [x]) @ ys @ r) (Suc i) ps) =
        sgn (int (digits_value ys) - int (digits_value (ps @ ''8'')))"
      by (rule Cons.IH) (use Cons.prems xs d in simp_all)
    ultimately show ?thesis using True at xs by (simp add: Let_def)
  next
    case False
    then have "int (code x - 48) \<noteq> int (code p - 48)" using d(1,2) by linarith
    from sgn_digits [OF this digits_value_less [OF d(3)]] digits_value_less [OF d8] xs(2)
    have "sgn ((int (code x - 48) - int (code p - 48)) * 10) =
        sgn (int (digits_value (x # ys)) - int (digits_value (p # ps @ ''8'')))"
      by (simp add: digits_value_Cons)
    moreover have "int (code x - 48) - int (code p - 48) = int (code x) - int (code p)" using d(1,2) by linarith
    ultimately show ?thesis using False at xs(1) by (simp add: Let_def)
  qed
qed

lemma compare2pow63_sgn:
  assumes "length ds = 19" "list_all is_digit ds"
  shows "sgn (compare2pow63 (ds @ r) (Suc 0)) = sgn (int (digits_value ds) - 2 ^ 63)"
proof -
  have p: "list_all is_digit ''922337203685477580''" by (simp add: is_digit_def)
  have v: "int (digits_value (''922337203685477580'' @ ''8'')) = 2 ^ 63" by (simp add: digits_value_def)
  have "sgn (pow63_loop (Suc 0) ([] @ ds @ r) 0 ''922337203685477580'') =
      sgn (int (digits_value ds) - int (digits_value (''922337203685477580'' @ ''8'')))"
    by (rule pow63_loop_sgn [OF _ _ _ assms(2) p]) (simp_all add: assms(1))
  then show ?thesis by (simp only: compare2pow63_def v append_Nil)
qed

text \<open>The digits of the number without its leading zeros, counted and read.\<close>

lemma digits_counted:
  assumes "list_all is_digit ds" "r = [] \<or> \<not> is_digit (hd r)"
  defines "ns \<equiv> dropWhile (\<lambda>c. c = CHR ''0'') ds"
  shows "dropWhile (\<lambda>c. c = CHR ''0'') (ds @ r) = ns @ r"
    "atoi_digits (Suc 0) (ns @ r) 0 0 = (length ns, of_nat (digits_value ds))"
    "length ns < 19 \<Longrightarrow> digits_value ds < 2 ^ 63"
    "length ns = 19 \<Longrightarrow> digits_value ds < 2 ^ 64 \<and> sgn (compare2pow63 (ns @ r) (Suc 0)) = sgn (int (digits_value ds) - 2 ^ 63)"
    "19 < length ns \<Longrightarrow> 2 ^ 63 < digits_value ds"
proof -
  have ns: "list_all is_digit ns" using assms(1) unfolding ns_def by (induction ds) auto
  have v: "digits_value ns = digits_value ds" by (simp add: ns_def digits_value_zeros)
  have "r = [] \<or> hd r \<noteq> CHR ''0''" using assms(2) by (auto simp: is_digit_def)
  then show "dropWhile (\<lambda>c. c = CHR ''0'') (ds @ r) = ns @ r"
    unfolding ns_def by (induction ds) (cases r, auto)
  have "foldl (\<lambda>n c. 10 * n + (code c - 48)) 0 ns = digits_value ds"
    using v by (simp add: digits_value_def)
  then show "atoi_digits (Suc 0) (ns @ r) 0 0 = (length ns, of_nat (digits_value ds))"
    using atoi_digits_1 [OF ns assms(2), of 0 0] by simp
  have less: "digits_value ds < 10 ^ length ns" using digits_value_less [OF ns] v by simp
  show "digits_value ds < 2 ^ 63" if "length ns < 19"
  proof -
    from that have "(10 :: nat) ^ length ns \<le> 10 ^ 18" by (intro power_increasing) simp_all
    with less show ?thesis by simp
  qed
  show "digits_value ds < 2 ^ 64 \<and> sgn (compare2pow63 (ns @ r) (Suc 0)) = sgn (int (digits_value ds) - 2 ^ 63)"
    if "length ns = 19"
  proof
    show "digits_value ds < 2 ^ 64" using less that by simp
    show "sgn (compare2pow63 (ns @ r) (Suc 0)) = sgn (int (digits_value ds) - 2 ^ 63)"
      using compare2pow63_sgn [OF that ns, of r] unfolding v .
  qed
  show "2 ^ 63 < digits_value ds" if "19 < length ns"
  proof -
    from that obtain c cs where c: "ns = c # cs" by (cases ns) auto
    then have "c \<noteq> CHR ''0''"
      using hd_dropWhile [of "\<lambda>c. c = CHR ''0''" ds, folded ns_def] by simp
    with ns c have "10 ^ length cs \<le> digits_value ds" using digits_value_ge [of c cs] v by simp
    moreover have "(10 :: nat) ^ 19 \<le> 10 ^ length cs" using that c by (intro power_increasing) simp_all
    ultimately show ?thesis by simp
  qed
qed

lemma spaces_skipped:
  assumes "list_all sqlite3Isspace ws" "s = [] \<or> \<not> sqlite3Isspace (hd s)"
  shows "dropWhile sqlite3Isspace (ws @ s) = s"
  using assms by (induction ws) (cases s, auto)

lemma digit_plain: "is_digit c \<Longrightarrow> \<not> sqlite3Isspace c \<and> c \<noteq> CHR ''-'' \<and> c \<noteq> CHR ''+''"
  by (auto simp: is_digit_def ctype_iffs)

text \<open>The value of a decimal text with a sign.\<close>

definition signed_value :: "string \<Rightarrow> string \<Rightarrow> int" where
  "signed_value sg ds = (if sg = ''-'' then - int (digits_value ds) else int (digits_value ds))"

lemma decimal_value:
  assumes "list_all sqlite3Isspace ws" "sg \<in> {[], ''-'', ''+''}" "ds \<noteq> []" "list_all is_digit ds"
    and "r = [] \<or> \<not> is_digit (hd r)"
  shows "sqlite3Atoi64 (ws @ sg @ ds @ r) (length (ws @ sg @ ds @ r)) SQLITE_UTF8 =
    (let v = signed_value sg ds; rc = (if list_all sqlite3Isspace r then 0 else 1)
     in if v < - (2 ^ 63) then (2, SMALLEST_INT64)
        else if v < 2 ^ 63 then (rc, word_of_int v)
        else if v = 2 ^ 63 then (3, LARGEST_INT64)
        else (2, LARGEST_INT64))"
proof -
  let ?z = "ws @ sg @ ds @ r" and ?zero = "\<lambda>c. c = CHR ''0''"
  define n where "n = digits_value ds"
  define ns where "ns = dropWhile ?zero ds"
  define neg where "neg \<longleftrightarrow> sg = ''-''"
  define rc :: int where "rc = (if list_all sqlite3Isspace r then 0 else 1)"
  obtain d ds' where d: "ds = d # ds'" "is_digit d" using assms(3,4) by (cases ds) auto
  have ns_r: "dropWhile ?zero (ds @ r) = ns @ r"
    and count: "atoi_digits (Suc 0) (ns @ r) 0 0 = (length ns, of_nat n)"
    and small: "length ns < 19 \<Longrightarrow> n < 2 ^ 63"
    and limit: "length ns = 19 \<Longrightarrow> n < 2 ^ 64 \<and> sgn (compare2pow63 (ns @ r) (Suc 0)) = sgn (int n - 2 ^ 63)"
    and large: "19 < length ns \<Longrightarrow> 2 ^ 63 < n"
    using digits_counted [OF assms(4,5)] unfolding ns_def n_def by blast+
  have signed: "sg @ ds @ r = [] \<or> \<not> sqlite3Isspace (hd (sg @ ds @ r))"
    using assms(2) d digit_plain [of d] by (auto simp: ctype_iffs)
  have start: "sg @ ds @ r \<noteq> [] \<and> hd (sg @ ds @ r) = CHR ''-'' \<longleftrightarrow> neg"
    "(if sg @ ds @ r \<noteq> [] \<and> (hd (sg @ ds @ r) = CHR ''-'' \<or> hd (sg @ ds @ r) = CHR ''+'')
      then drop 1 (sg @ ds @ r) else sg @ ds @ r) = ds @ r"
    using assms(2) d digit_plain [of d] by (auto simp: neg_def)
  have rc: "(if length ns = 0 \<and> length (ds @ r) = length (ns @ r) then - 1
      else if length ns < length (ns @ r) then atoi_excess 1 (drop (length ns) (ns @ r)) else 0) = rc"
    using assms(3) by (auto simp: rc_def)
  define bound where "bound = (if neg then SMALLEST_INT64 else LARGEST_INT64)"
  define pNum :: i64 where "pNum = (if LARGEST_INT64 < of_nat n then bound else if neg then - of_nat n else of_nat n)"
  define c where "c = (if 19 < length ns then 1 else compare2pow63 (ns @ r) 1)"
  have utf8: "atoi_text ?z (length ?z) SQLITE_UTF8 = (1, ?z, False)" by (simp add: atoi_text_def)
  have nineteen: "19 * Suc 0 = 19" by simp
  have run: "sqlite3Atoi64 ?z (length ?z) SQLITE_UTF8 =
      (if length ns < 19 then (rc, pNum)
       else if c < 0 then (rc, pNum)
       else if 0 < c then (2, bound)
       else if neg then (rc, bound) else (3, bound))"
    unfolding sqlite3Atoi64_def utf8
    by (simp only: if_False prod.case Let_def One_nat_def skip_while_1 nineteen
        spaces_skipped [OF assms(1) signed] start [unfolded One_nat_def] ns_r count rc [unfolded One_nat_def]
        bound_def [symmetric] pNum_def [symmetric] c_def [unfolded One_nat_def, symmetric])
  have v: "signed_value sg ds = (if neg then - int n else int n)" by (simp add: signed_value_def neg_def n_def)
  have fits: "pNum = word_of_int (signed_value sg ds)" if "n < 2 ^ 63"
  proof -
    from that have "uint (of_nat n :: u64) = int n" by (simp add: unsigned_of_nat take_bit_nat_eq_self)
    with that have "\<not> LARGEST_INT64 < of_nat n" by (simp add: word_less_def)
    then show ?thesis unfolding pNum_def v by simp
  qed
  consider (fits) "n < 2 ^ 63" | (limit) "n = 2 ^ 63" | (large) "2 ^ 63 < n" by linarith
  then have "sqlite3Atoi64 ?z (length ?z) SQLITE_UTF8 =
    (if n < 2 ^ 63 then (rc, pNum) else if 2 ^ 63 < n then (2, bound) else if neg then (rc, bound) else (3, bound))"
  proof cases
    case fits
    with large have "length ns \<le> 19" by linarith
    moreover from fits limit have "length ns = 19 \<Longrightarrow> c < 0" by (simp add: c_def sgn_if split: if_splits)
    ultimately show ?thesis unfolding run using fits by auto
  next
    case limit
    with small large have l: "length ns = 19" by (metis less_irrefl linorder_neqE_nat)
    with limit \<open>length ns = 19 \<Longrightarrow> _\<close> have "c = 0" by (simp add: c_def sgn_if split: if_splits)
    then show ?thesis unfolding run using limit l by simp
  next
    case large
    with small have "19 \<le> length ns" by linarith
    moreover have "0 < c"
    proof (cases "length ns = 19")
      case True
      with large \<open>length ns = 19 \<Longrightarrow> _\<close> show ?thesis by (simp add: c_def sgn_if split: if_splits)
    qed (use calculation in \<open>simp add: c_def\<close>)
    ultimately show ?thesis unfolding run using large by auto
  qed
  then show ?thesis
    using fits unfolding v rc_def [symmetric] Let_def by (auto simp: bound_def SMALLEST_INT64_def LARGEST_INT64_def)
qed

subsection \<open>Literals\<close>

lemma ucast_word_of_int: "ucast (word_of_int x :: i64) = (word_of_int x :: c_int)"
  by transfer (simp add: take_bit_take_bit)

lemma sint_word_of_int64: "- (2 ^ 63) \<le> x \<Longrightarrow> x < 2 ^ 63 \<Longrightarrow> sint (word_of_int x :: i64) = x"
  by (simp only: signed_of_int) (simp add: signed_take_bit_int_eq_self)

text \<open>\<open>sqlite3GetInt32\<close> on a decimal number.\<close>

lemma int32_digits_of:
  "list_all is_digit ns \<Longrightarrow> r = [] \<or> \<not> is_digit (hd r) \<Longrightarrow>
   int32_digits k (ns @ r) i (of_nat n) =
     (i + min k (length ns), of_nat (foldl (\<lambda>n c. 10 * n + (code c - 48)) n (take k ns)))"
proof (induction k arbitrary: ns i n)
  case (Suc k)
  show ?case
  proof (cases ns)
    case Nil
    with Suc.prems(2) show ?thesis by (cases r) (auto simp: zat_def is_digit_def Let_def)
  next
    case (Cons c cs)
    with Suc.prems(1) have c: "48 \<le> code c" "code c \<le> 57" "list_all is_digit cs"
      by (simp_all, simp_all add: is_digit_def)
    have "word_of_int (int (code c) - 48) = (of_nat (code c - 48) :: i64)" using c(1) by (simp add: of_nat_diff)
    then have "int32_digits (Suc k) (ns @ r) i (of_nat n) =
        int32_digits k (cs @ r) (Suc i) (of_nat (10 * n + (code c - 48)))"
      using c(1,2) Cons by (simp add: zat_def Let_def algebra_simps)
    with Suc.IH [OF c(3) Suc.prems(2), of "Suc i" "10 * n + (code c - 48)"] Cons show ?thesis by simp
  qed
qed simp

lemma GetInt32_decimal:
  assumes "sg \<in> {[], ''-'', ''+''}" "ds \<noteq> []" "list_all is_digit ds" "r = [] \<or> \<not> is_digit (hd r)"
    and "sg = [] \<longrightarrow> \<not> hex_prefix (ds @ r)"
  shows "sqlite3GetInt32 (sg @ ds @ r) =
    (let v = signed_value sg ds in if - (2 ^ 31) \<le> v \<and> v < 2 ^ 31 then Some (word_of_int v) else None)"
proof -
  let ?zero = "\<lambda>c. c = CHR ''0''"
  define n where "n = digits_value ds"
  define ns where "ns = dropWhile ?zero ds"
  define neg where "neg \<longleftrightarrow> sg = ''-''"
  obtain d ds' where d: "ds = d # ds'" "is_digit d" using assms(2,3) by (cases ds) auto
  have ns: "list_all is_digit ns" using assms(3) unfolding ns_def by (induction ds) auto
  have nsv: "digits_value ns = n" by (simp add: n_def ns_def digits_value_zeros)
  have ns_r: "dropWhile ?zero (ds @ r) = ns @ r"
    using digits_counted(1) [OF assms(3,4)] by (simp only: ns_def)
  have plain: "zat (sg @ ds @ r) 0 = CHR ''-'' \<longleftrightarrow> neg"
    "(if neg \<or> zat (sg @ ds @ r) 0 = CHR ''+'' then drop 1 (sg @ ds @ r) else sg @ ds @ r) = ds @ r"
    "sqlite3Isdigit (zat (ds @ r) 0)"
    using assms(1) d digit_plain [of d] by (auto simp: zat_def neg_def ctype_iffs is_digit_def)
  have hex: "\<not> (zat (sg @ ds @ r) 0 \<noteq> CHR ''-'' \<and> zat (sg @ ds @ r) 0 \<noteq> CHR ''+'' \<and> hex_prefix (sg @ ds @ r) \<and>
      sqlite3Isxdigit (zat (sg @ ds @ r) 2))"
    using assms(1,5) by (auto simp: hex_prefix_def zat_def)
  have run: "sqlite3GetInt32 (sg @ ds @ r) =
    (case int32_digits 11 (ns @ r) 0 0 of (i, v) \<Rightarrow>
       if 10 < i then None
       else if 2147483647 <s v - (if neg then 1 else 0) then None
       else Some (ucast (if neg then - v else v)))"
    unfolding sqlite3GetInt32_def if_not_P [OF hex]
    by (simp only: plain Let_def One_nat_def [symmetric] not_True_eq_False if_False skip_while_1 [folded One_nat_def] ns_r)
  have digits: "int32_digits 11 (ns @ r) 0 0 = (min 11 (length ns), of_nat (digits_value (take 11 ns)))"
    using int32_digits_of [OF ns assms(4), of 11 0 0] by (simp add: digits_value_def)
  have v: "signed_value sg ds = (if neg then - int n else int n)" by (simp add: signed_value_def neg_def n_def)
  show ?thesis
  proof (cases "10 < length ns")
    case True
    then obtain c cs where c: "ns = c # cs" by (cases ns) auto
    then have "c \<noteq> CHR ''0''" using hd_dropWhile [of ?zero ds, folded ns_def] by simp
    with ns c have "10 ^ length cs \<le> n" using digits_value_ge [of c cs] nsv by simp
    moreover have "(10 :: nat) ^ 10 \<le> 10 ^ length cs" using True c by (intro power_increasing) simp_all
    ultimately have "10 ^ 10 \<le> n" by linarith
    then show ?thesis using True unfolding run digits v by (simp add: Let_def)
  next
    case False
    then have "(10 :: nat) ^ length ns \<le> 10 ^ 10" by (intro power_increasing) simp_all
    with digits_value_less [OF ns] nsv have n: "n < 10 ^ 10" by linarith
    define b where "b = (if neg then 1 else 0 :: int)"
    have "of_nat n - (if neg then 1 else 0) = (word_of_int (int n - b) :: i64)" by (simp add: b_def)
    moreover have "sint (word_of_int (int n - b) :: i64) = int n - b"
      by (rule sint_word_of_int64) (use n in \<open>simp_all add: b_def\<close>)
    ultimately have test: "2147483647 <s of_nat n - (if neg then 1 else (0 :: i64)) \<longleftrightarrow> 2147483647 < int n - b"
      by (simp add: word_sless_alt)
    have "(if neg then - of_nat n else of_nat n :: i64) = word_of_int (signed_value sg ds)" unfolding v by simp
    then have "ucast (if neg then - of_nat n else of_nat n :: i64) = (word_of_int (signed_value sg ds) :: c_int)"
      by (simp only: ucast_word_of_int)
    with test False show ?thesis unfolding run digits
      by (simp add: nsv Let_def v b_def)
  qed
qed

text \<open>The node of an integer token (\<open>sqlite3ExprAlloc\<close>), which the parser makes with the token and the
  text behind it still there: the value when it fits into 32 bits, otherwise a copy of the token.\<close>

datatype int_expr = IntValue c_int | TokenText string

definition integer_expr :: "string \<Rightarrow> string \<Rightarrow> int_expr" where
  "integer_expr tok r =
     (case sqlite3GetInt32 (tok @ r) of Some iValue \<Rightarrow> IntValue iValue | None \<Rightarrow> TokenText tok)"

text \<open>The instruction \<open>codeInteger\<close> generates: \<open>OP_Integer\<close>, \<open>OP_Int64\<close>, the real number of a text, or
  an error.\<close>

datatype literal = OP_Integer c_int | OP_Int64 i64 | CodeReal string bool | HexTooBig

fun sqlite3_strnicmp :: "string \<Rightarrow> string \<Rightarrow> nat \<Rightarrow> int" where
  "sqlite3_strnicmp a b 0 = 0"
| "sqlite3_strnicmp a b (Suc N) =
     (if zat a 0 \<noteq> CHR 0x00 \<and> charMap (zat a 0) = charMap (zat b 0)
      then sqlite3_strnicmp (drop 1 a) (drop 1 b) N
      else int (charMap (zat a 0)) - int (charMap (zat b 0)))"

definition codeInteger :: "int_expr \<Rightarrow> bool \<Rightarrow> literal" where
  "codeInteger pExpr negFlag =
     (case pExpr of
        IntValue i \<Rightarrow> OP_Integer (if negFlag then - i else i)
      | TokenText z \<Rightarrow>
          (case sqlite3DecOrHexToI64 z of (c, v) \<Rightarrow>
             if c = 3 \<and> \<not> negFlag \<or> c = 2 \<or> negFlag \<and> v = SMALLEST_INT64
             then if sqlite3_strnicmp z ''0x'' 2 = 0 then HexTooBig else CodeReal z negFlag
             else OP_Int64 (if negFlag then if c = 3 then SMALLEST_INT64 else - v else v)))"

definition literal_value :: "literal \<Rightarrow> int option" where
  "literal_value l = (case l of OP_Integer i \<Rightarrow> Some (sint i) | OP_Int64 v \<Rightarrow> Some (sint v) | _ \<Rightarrow> None)"

lemma sint_word_of_int32: "- (2 ^ 31) \<le> x \<Longrightarrow> x < 2 ^ 31 \<Longrightarrow> sint (word_of_int x :: c_int) = x"
  by (simp only: signed_of_int) (simp add: signed_take_bit_int_eq_self)

lemma hex_prefix_digits: "list_all is_digit ds \<Longrightarrow> ds \<noteq> [] \<Longrightarrow> r = [] \<or> \<not> IdChar (hd r) \<Longrightarrow> \<not> hex_prefix (ds @ r)"
  by (cases ds; cases "tl ds"; cases r) (auto simp: hex_prefix_def zat_def is_digit_def ctype_iffs)

lemma decimal_token_int64:
  assumes "ds \<noteq> []" "list_all is_digit ds" "length ds < 2 ^ 30"
  shows "sqlite3DecOrHexToI64 ds =
    (let v = int (digits_value ds)
     in if v < 2 ^ 63 then (0, word_of_int v) else if v = 2 ^ 63 then (3, LARGEST_INT64) else (2, LARGEST_INT64))"
proof -
  have "length ds AND 0x3fffffff = length ds AND mask 30" by (simp add: mask_eq_exp_minus_1)
  also have "\<dots> = length ds" using assms(3) by (simp add: take_bit_nat_eq_self flip: take_bit_eq_mask)
  finally show ?thesis
    using hex_prefix_digits [OF assms(2,1), of "[]"] decimal_value [of "[]" "[]" ds "[]"] assms(1,2)
    by (simp add: sqlite3DecOrHexToI64_def signed_value_def Let_def)
qed

subsection \<open>Properties\<close>

text \<open>C27: A decimal number, with spaces before it, a sign, zeros, and anything behind it, is read as its
  value when that fits into 64 bits; otherwise the result is the nearest limit, and its code says
  so, with a code of its own for 9223372036854775808.\<close>

theorem decimal_text_value:
  assumes "list_all sqlite3Isspace ws" "sg \<in> {[], ''-'', ''+''}" "ds \<noteq> []" "list_all is_digit ds"
    and "r = [] \<or> \<not> is_digit (hd r)"
  shows "sqlite3Atoi64 (ws @ sg @ ds @ r) (length (ws @ sg @ ds @ r)) SQLITE_UTF8 =
    (let v = signed_value sg ds; rc = (if list_all sqlite3Isspace r then 0 else 1)
     in if v < - (2 ^ 63) then (2, SMALLEST_INT64)
        else if v < 2 ^ 63 then (rc, word_of_int v)
        else if v = 2 ^ 63 then (3, LARGEST_INT64)
        else (2, LARGEST_INT64))"
  by (rule decimal_value [OF assms])

lemma decimal_text_value_witness:
  "sqlite3Atoi64 ''  -42 '' (length ''  -42 '') SQLITE_UTF8 = (0, - 42) \<and>
   sqlite3Atoi64 ''9223372036854775808'' (length ''9223372036854775808'') SQLITE_UTF8 = (3, LARGEST_INT64)"
  using decimal_text_value [of "''  ''" "''-''" "''42''" "'' ''"]
    decimal_text_value [of "[]" "[]" "''9223372036854775808''" "[]"]
  by (simp add: is_digit_def ctype_iffs signed_value_def digits_value_def Let_def)

lemma integer_expr_decimal:
  assumes "ds \<noteq> []" "list_all is_digit ds" "r = [] \<or> \<not> IdChar (hd r)"
  shows "integer_expr ds r =
    (if int (digits_value ds) < 2 ^ 31 then IntValue (word_of_int (int (digits_value ds))) else TokenText ds)"
proof -
  have "r = [] \<or> \<not> is_digit (hd r)" using assms(3) by (auto simp: is_digit_def ctype_iffs)
  then show ?thesis
    using GetInt32_decimal [of "[]" ds r] assms(1,2) hex_prefix_digits [OF assms(2,1,3)]
    by (simp add: integer_expr_def signed_value_def Let_def)
qed

text \<open>C26: A decimal literal in a query has its value, with the minus sign before it if there is one,
  whenever that fits into 64 bits, and is a real number otherwise; and the text SQLite gives for
  the value is its decimal text.\<close>

theorem integer_literal_value:
  assumes "ds \<noteq> []" "list_all is_digit ds" "r = [] \<or> \<not> IdChar (hd r)" "length ds < 2 ^ 30"
  shows "let v = (if neg then - int (digits_value ds) else int (digits_value ds));
      l = codeInteger (integer_expr ds r) neg
    in if - (2 ^ 63) \<le> v \<and> v < 2 ^ 63
       then literal_value l = Some v \<and> sqlite3Int64ToText (word_of_int v) = int_text v
       else l = CodeReal ds neg"
proof -
  define n where "n = int (digits_value ds)"
  note expr = integer_expr_decimal [OF assms(1,2,3), folded n_def]
  have n: "0 \<le> n" by (simp add: n_def)
  have cmp: "sqlite3_strnicmp ds ''0x'' 2 \<noteq> 0"
    using assms(1,2)
    by (cases ds; cases "tl ds") (auto simp: numeral_2_eq_2 zat_def charMap_eq lower_code_def is_digit_def)
  have shown: "sqlite3Int64ToText (word_of_int v) = int_text v" if "- (2 ^ 63) \<le> v" "v < 2 ^ 63" for v
    by (simp only: sqlite3Int64ToText_eq sint_word_of_int64 [OF that])
  consider (int32) "n < 2 ^ 31" | (int64) "2 ^ 31 \<le> n" "n < 2 ^ 63" | (limit) "n = 2 ^ 63" | (large) "2 ^ 63 < n"
    by linarith
  then show ?thesis
  proof cases
    case int32
    with n have "sint (word_of_int n :: c_int) = n" by (intro sint_word_of_int32) linarith+
    moreover from int32 n have "sint (word_of_int (- n) :: c_int) = - n" by (intro sint_word_of_int32) linarith+
    ultimately have s: "sint (word_of_int n :: c_int) = n" "sint (- word_of_int n :: c_int) = - n" by simp_all
    with int32 n s show ?thesis
      using shown [of n] shown [of "- n"]
      by (simp add: expr codeInteger_def literal_value_def Let_def flip: n_def)
  next
    case int64
    with n have "sint (word_of_int n :: i64) = n" by (intro sint_word_of_int64) linarith+
    moreover from int64 n have "sint (word_of_int (- n) :: i64) = - n" by (intro sint_word_of_int64) linarith+
    ultimately have s: "sint (word_of_int n :: i64) = n" "sint (- word_of_int n :: i64) = - n" by simp_all
    from int64 have "word_of_int n \<noteq> SMALLEST_INT64" using s(1) n by (auto dest!: arg_cong [where f = sint])
    with int64 s n show ?thesis
      using shown [of n] shown [of "- n"] decimal_token_int64 [OF assms(1,2,4), folded n_def]
      by (simp add: expr codeInteger_def literal_value_def Let_def flip: n_def)
  next
    case limit
    have "LARGEST_INT64 \<noteq> SMALLEST_INT64" by (simp add: SMALLEST_INT64_def LARGEST_INT64_def)
    with limit show ?thesis
      using shown [of "- n"] decimal_token_int64 [OF assms(1,2,4), folded n_def] cmp
      by (simp add: expr codeInteger_def literal_value_def Let_def flip: n_def)
  next
    case large
    with n show ?thesis
      using decimal_token_int64 [OF assms(1,2,4), folded n_def] cmp
      by (simp add: expr codeInteger_def literal_value_def Let_def flip: n_def)
  qed
qed

text \<open>The process numbers in the queries of the backend are their values, and what a query for them
  answers is their text.\<close>

lemma length_dec_digits: "n < 10 ^ Suc k \<Longrightarrow> length (dec_digits n) \<le> Suc k"
proof (induction k arbitrary: n)
  case 0
  then show ?case by (subst dec_digits.simps) simp
next
  case (Suc k)
  then have "n div 10 < 10 ^ Suc k" by (simp add: div_less_iff_less_mult mult.commute)
  with Suc.IH [of "n div 10"] show ?case by (subst dec_digits.simps) simp
qed

lemma integer_literal_value_witness:
  "\<forall>pid :: c_int. literal_value (codeInteger (integer_expr (dec_digits (nat \<bar>sint pid\<bar>)) '', '') (sint pid < 0)) =
      Some (sint pid) \<and> sqlite3Int64ToText (word_of_int (sint pid)) = to_string pid"
proof
  fix pid :: c_int
  have pid: "- (2 ^ 31) \<le> sint pid" "sint pid < 2 ^ 31" using sint_greater_eq [of pid] sint_lt [of pid] by simp_all
  then have "length (dec_digits (nat \<bar>sint pid\<bar>)) \<le> Suc 9" by (intro length_dec_digits) simp
  moreover have "int (nat \<bar>sint pid\<bar>) = (if sint pid < 0 then - sint pid else sint pid)" by simp
  ultimately show "literal_value (codeInteger (integer_expr (dec_digits (nat \<bar>sint pid\<bar>)) '', '') (sint pid < 0)) =
      Some (sint pid) \<and> sqlite3Int64ToText (word_of_int (sint pid)) = to_string pid"
    using integer_literal_value [of "dec_digits (nat \<bar>sint pid\<bar>)" "'', ''" "sint pid < 0"] pid dec_digits_all
    by (simp add: to_string_def ctype_iffs Let_def split: if_splits)
qed

end
