(* ===== verification/Sql_Varint.thy ===== *)
theory Sql_Varint
  imports Sql_Chars
begin

text \<open>
  The variable-length integers of the records and cells in which SQLite keeps the tables
  (\<open>sqlite3PutVarint\<close>, \<open>sqlite3GetVarint\<close>, \<open>sqlite3GetVarint32\<close>, \<open>sqlite3VarintLen\<close>).  What is
  written is a list of bytes; what is read is memory from a pointer on.
\<close>

unbundle bit_operations_syntax

subsection \<open>Writing\<close>

definition varint_group :: "u64 \<Rightarrow> byte" where
  "varint_group v = ucast ((v AND 0x7f) OR 0x80)"

text \<open>The loop that fills \<open>p[7]\<close> down to \<open>p[0]\<close>, and the one that fills \<open>buf\<close>.\<close>

fun put_groups :: "nat \<Rightarrow> u64 \<Rightarrow> byte list \<Rightarrow> byte list" where
  "put_groups 0 v p = p"
| "put_groups (Suc i) v p = put_groups i (drop_bit 7 v) (varint_group v # p)"

lemma drop_7_less: "drop_bit 7 v \<noteq> 0 \<Longrightarrow> unat (drop_bit 7 v) < unat (v :: u64)"
proof -
  assume "drop_bit 7 v \<noteq> 0"
  then have "unat (drop_bit 7 v) \<noteq> 0" by (simp only: unat_eq_0 not_False_eq_True)
  then show ?thesis by (simp add: drop_bit_eq_div unat_div)
qed

function fill_buf :: "u64 \<Rightarrow> byte list" where
  "fill_buf v = varint_group v # (if drop_bit 7 v \<noteq> 0 then fill_buf (drop_bit 7 v) else [])"
  by pat_completeness auto

termination by (relation "measure unat") (simp_all add: drop_7_less)

declare fill_buf.simps [simp del]

definition putVarint64 :: "u64 \<Rightarrow> byte list" where
  "putVarint64 v =
     (if v AND push_bit 32 0xff000000 \<noteq> 0 then put_groups 8 (drop_bit 8 v) [ucast v]
      else let buf = fill_buf v; buf = buf[0 := buf ! 0 AND 0x7f] in rev buf)"

definition sqlite3PutVarint :: "u64 \<Rightarrow> byte list" where
  "sqlite3PutVarint v =
     (if v \<le> 0x7f then [ucast (v AND 0x7f)]
      else if v \<le> 0x3fff then [ucast ((drop_bit 7 v AND 0x7f) OR 0x80), ucast (v AND 0x7f)]
      else putVarint64 v)"

subsection \<open>Reading\<close>

definition SLOT_2_0 :: u32 where "SLOT_2_0 = 0x001fc07f"
definition SLOT_4_2_0 :: u32 where "SLOT_4_2_0 = 0xf01fc07f"

text \<open>\<open>sqlite3GetVarint\<close>, with the number of bytes and the value; the variables \<open>a\<close>, \<open>b\<close> and \<open>s\<close>
  have 32 bits.\<close>

definition sqlite3GetVarint :: "(nat \<Rightarrow> byte) \<Rightarrow> nat \<times> u64" where
  "sqlite3GetVarint p =
     (if 0 \<le>s p 0 then (1, ucast (p 0))
      else if 0 \<le>s p 1 then (2, ucast (push_bit 7 (ucast (p 0 AND 0x7f) :: u32) OR ucast (p 1)))
      else let a = push_bit 14 (ucast (p 0) :: u32); b = ucast (p 1) :: u32; a = a OR ucast (p 2) in
      if a AND 0x80 = 0 then
        (let a = a AND SLOT_2_0; b = b AND 0x7f; b = push_bit 7 b; a = a OR b in (3, ucast a))
      else let a = a AND SLOT_2_0; b = push_bit 14 b; b = b OR ucast (p 3) in
      if b AND 0x80 = 0 then
        (let b = b AND SLOT_2_0; a = push_bit 7 a; a = a OR b in (4, ucast a))
      else let b = b AND SLOT_2_0; s = a; a = push_bit 14 a; a = a OR ucast (p 4) in
      if a AND 0x80 = 0 then
        (let b = push_bit 7 b; a = a OR b; s = drop_bit 18 s in (5, push_bit 32 (ucast s) OR ucast a))
      else let s = push_bit 7 s; s = s OR b; b = push_bit 14 b; b = b OR ucast (p 5) in
      if b AND 0x80 = 0 then
        (let a = a AND SLOT_2_0; a = push_bit 7 a; a = a OR b; s = drop_bit 18 s
         in (6, push_bit 32 (ucast s) OR ucast a))
      else let a = push_bit 14 a; a = a OR ucast (p 6) in
      if a AND 0x80 = 0 then
        (let a = a AND SLOT_4_2_0; b = b AND SLOT_2_0; b = push_bit 7 b; a = a OR b; s = drop_bit 11 s
         in (7, push_bit 32 (ucast s) OR ucast a))
      else let a = a AND SLOT_2_0; b = push_bit 14 b; b = b OR ucast (p 7) in
      if b AND 0x80 = 0 then
        (let b = b AND SLOT_4_2_0; a = push_bit 7 a; a = a OR b; s = drop_bit 4 s
         in (8, push_bit 32 (ucast s) OR ucast a))
      else let a = push_bit 15 a; a = a OR ucast (p 8); b = b AND SLOT_2_0; b = push_bit 8 b; a = a OR b;
               s = push_bit 4 s; b = ucast (p 4); b = b AND 0x7f; b = drop_bit 3 b; s = s OR b
           in (9, push_bit 32 (ucast s) OR ucast a))"

text \<open>Seven bits of every byte with a mark, the first byte without one, or all of the ninth.\<close>

fun varint_spec :: "(nat \<Rightarrow> byte) \<Rightarrow> nat \<Rightarrow> nat \<Rightarrow> u64 \<Rightarrow> nat \<times> u64" where
  "varint_spec p 0 i v = (i + 1, push_bit 8 v OR ucast (p i))"
| "varint_spec p (Suc n) i v =
     (if \<not> bit (p i) 7 then (i + 1, push_bit 7 v OR ucast (p i))
      else varint_spec p n (i + 1) (push_bit 7 v OR ucast (p i AND 0x7f)))"

lemma sless_eq_bit: "0 \<le>s (x :: byte) \<longleftrightarrow> \<not> bit x 7"
  using bit_last_iff [of x] by (simp add: word_sle_eq) linarith

lemma slot_masks:
  "SLOT_2_0 = push_bit 14 (mask 7) OR mask 7" "SLOT_4_2_0 = push_bit 28 (mask 4) OR push_bit 14 (mask 7) OR mask 7"
  by (simp_all add: SLOT_2_0_def SLOT_4_2_0_def mask_eq_exp_minus_1)

lemma mask_7: "(0x7f :: 'a :: len word) = mask 7" by (simp add: mask_eq_exp_minus_1)

lemma mark_test: "(push_bit 14 x OR ucast (y :: byte) :: u32) AND 0x80 = 0 \<longleftrightarrow> \<not> bit y 7"
proof -
  have "(0x80 :: u32) = 2 ^ 7" by simp
  then show ?thesis by (simp only: and_exp_eq_0_iff_not_bit) (simp add: bit_simps)
qed

lemma byte_high: "bit (x :: byte) k \<Longrightarrow> k < 8"
  by (auto dest: bit_imp_le_length)

lemma varint_spec_numeral:
  "varint_spec p (numeral n) i v =
     (if \<not> bit (p i) 7 then (i + 1, push_bit 7 v OR ucast (p i))
      else varint_spec p (pred_numeral n) (i + 1) (push_bit 7 v OR ucast (p i AND 0x7f)))"
  by (simp only: numeral_eq_Suc varint_spec.simps)

lemma varint_spec_1:
  "varint_spec p 1 i v =
     (if \<not> bit (p i) 7 then (i + 1, push_bit 7 v OR ucast (p i))
      else varint_spec p 0 (i + 1) (push_bit 7 v OR ucast (p i AND 0x7f)))"
  by (simp only: One_nat_def varint_spec.simps)

lemma if_pair: "(if b then x else y) = (if b then x' else y')" if "b \<Longrightarrow> x = x'" "\<not> b \<Longrightarrow> y = y'"
  using that by simp

lemma word64_eqI: "list_all (\<lambda>n. bit x n \<longleftrightarrow> bit y n) [0..<64] \<Longrightarrow> x = (y :: u64)"
  by (rule bit_word_eqI) (auto simp: list_all_iff)

lemma byte_end: "8 \<le> k \<Longrightarrow> \<not> bit (x :: byte) k"
  by (auto dest: byte_high)


lemma upt_64:
  "[0..<64] =
    [0,1,2,3,4,5,6,7,8,9,10,11,12,13,14,15,16,17,18,19,20,21,22,23,24,25,26,27,28,29,30,31,32,33,34,
     35,36,37,38,39,40,41,42,43,44,45,46,47,48,49,50,51,52,53,54,55,56,57,58,59,60,61,62,63]"
  by code_simp

lemma pair_eqI: "k = l \<Longrightarrow> list_all (\<lambda>n. bit x n \<longleftrightarrow> bit y n) [0..<64] \<Longrightarrow> (k, x) = (l, y :: u64)"
  by (simp add: word64_eqI)

lemma sqlite3GetVarint_eq: "sqlite3GetVarint p = varint_spec p 8 0 0"
  unfolding sqlite3GetVarint_def Let_def sless_eq_bit mark_test
    varint_spec_numeral varint_spec_1 varint_spec.simps pred_numeral_simps BitM.simps
    numeral_One numeral_plus_one add_num_simps add_0 one_add_one
  by (intro if_pair; rule pair_eqI, simp, simp add: upt_64 slot_masks mask_7 bit_simps byte_end)

subsection \<open>What was written is read\<close>

text \<open>The memory \<open>p\<close> holds the bytes \<open>bs\<close> from \<open>i\<close> on.\<close>

definition bytes_at :: "(nat \<Rightarrow> byte) \<Rightarrow> nat \<Rightarrow> byte list \<Rightarrow> bool" where
  "bytes_at p i bs \<longleftrightarrow> (\<forall>j < length bs. p (i + j) = bs ! j)"

lemma bytes_at_simps [simp]: "bytes_at p i []" "bytes_at p i (b # bs) \<longleftrightarrow> p i = b \<and> bytes_at p (Suc i) bs"
  by (auto simp: bytes_at_def nth_Cons less_Suc_eq_0_disj split: nat.splits)

lemma bytes_at_append [simp]: "bytes_at p i (as @ bs) \<longleftrightarrow> bytes_at p i as \<and> bytes_at p (i + length as) bs"
  by (induction as arbitrary: i) auto

text \<open>The \<open>k\<close> lowest groups of seven bits, the highest first, each with the mark.\<close>

fun marked :: "nat \<Rightarrow> u64 \<Rightarrow> byte list" where
  "marked 0 v = []"
| "marked (Suc k) v = marked k (drop_bit 7 v) @ [varint_group v]"

lemma length_marked [simp]: "length (marked k v) = k"
  by (induction k arbitrary: v) auto

lemma put_groups_marked: "put_groups k v bs = marked k v @ bs"
  by (induction k v bs rule: put_groups.induct) auto

lemma bit_mark: "bit (0x80 :: 'a :: len word) n \<longleftrightarrow> n = 7 \<and> 7 < LENGTH('a)"
proof -
  have "(0x80 :: 'a word) = 2 ^ 7" by simp
  then show ?thesis by (simp only: bit_exp_iff possible_bit_word) auto
qed

lemma bit_varint_group: "bit (varint_group v) n \<longleftrightarrow> n = 7 \<or> n < 7 \<and> bit v n"
  by (auto simp only: varint_group_def mask_7 bit_unsigned_iff bit_or_iff bit_and_iff bit_mark bit_mask_iff
      possible_bit_word) (simp_all add: bit_simps)

lemma group_bits:
  "bit (varint_group v) 7" "\<not> bit (varint_group v AND 0x7f) 7" "ucast (varint_group v AND 0x7f) = take_bit 7 v"
proof -
  show "bit (varint_group v) 7" by (simp add: bit_varint_group)
  show "\<not> bit (varint_group v AND 0x7f) 7" by (simp add: mask_7 bit_simps)
  show "ucast (varint_group v AND 0x7f) = take_bit 7 v"
    by (rule bit_word_eqI) (auto simp: bit_varint_group mask_7 bit_simps)
qed

lemma join_groups: "push_bit 7 (take_bit m (drop_bit 7 v)) OR take_bit 7 v = take_bit (m + 7) (v :: u64)"
  by (rule bit_word_eqI) (auto simp: bit_simps)

lemma read_marked:
  "bytes_at p i (marked k v) \<Longrightarrow>
   varint_spec p (n + k) i 0 = varint_spec p n (i + k) (take_bit (7 * k) v)"
proof (induction k arbitrary: v n)
  case (Suc k)
  then have "varint_spec p (Suc n + k) i 0 = varint_spec p (Suc n) (i + k) (take_bit (7 * k) (drop_bit 7 v))"
    by (intro Suc.IH) simp
  with Suc.prems show ?case by (simp add: group_bits join_groups add.commute)
qed simp

lemma fill_buf_marked:
  "\<exists>k. fill_buf v = rev (marked (Suc k) v) \<and> drop_bit (7 * Suc k) v = 0 \<and> (k = 0 \<or> drop_bit (7 * k) v \<noteq> 0)"
proof (induction v rule: fill_buf.induct)
  case (1 v)
  show ?case
  proof (cases "drop_bit 7 v = 0")
    case True
    then show ?thesis by (intro exI [of _ 0]) (simp add: fill_buf.simps [of v])
  next
    case False
    with 1 obtain k where "fill_buf (drop_bit 7 v) = rev (marked (Suc k) (drop_bit 7 v))"
      "drop_bit (7 * Suc k) (drop_bit 7 v) = 0" "k = 0 \<or> drop_bit (7 * k) (drop_bit 7 v) \<noteq> 0" by blast
    with False show ?thesis by (intro exI [of _ "Suc k"]) (auto simp: fill_buf.simps [of v] add.commute)
  qed
qed

text \<open>The loop of \<open>sqlite3VarintLen\<close>.\<close>

function VarintLen_loop :: "u64 \<Rightarrow> nat \<Rightarrow> nat" where
  "VarintLen_loop v i = (let v = drop_bit 7 v in if v \<noteq> 0 then VarintLen_loop v (i + 1) else i)"
  by pat_completeness auto

termination by (relation "measure (\<lambda>(v, i). unat v)") (simp_all add: drop_7_less)

declare VarintLen_loop.simps [simp del]

definition sqlite3VarintLen :: "u64 \<Rightarrow> nat" where
  "sqlite3VarintLen v = VarintLen_loop v 1"

lemma VarintLen_fill_buf: "Suc (VarintLen_loop v i) = i + length (fill_buf v)"
proof (induction v i rule: VarintLen_loop.induct)
  case (1 v i)
  then show ?case by (subst VarintLen_loop.simps, subst fill_buf.simps) (auto simp: Let_def)
qed

lemma sqlite3VarintLen_eq: "sqlite3VarintLen v = length (fill_buf v)"
  using VarintLen_fill_buf [of v 1] by (simp add: sqlite3VarintLen_def)

lemma fill_buf_written:
  assumes "bytes_at p 0 (rev ((fill_buf v)[0 := fill_buf v ! 0 AND 0x7f]))" "length (fill_buf v) \<le> 8"
  shows "sqlite3GetVarint p = (length (fill_buf v), v)"
proof -
  obtain k where k: "fill_buf v = rev (marked (Suc k) v)" "drop_bit (7 * Suc k) v = 0"
    using fill_buf_marked by blast
  have "rev ((fill_buf v)[0 := fill_buf v ! 0 AND 0x7f]) = marked k (drop_bit 7 v) @ [varint_group v AND 0x7f]"
    by (simp add: k)
  with assms(1) have mem: "bytes_at p 0 (marked k (drop_bit 7 v))" "p k = varint_group v AND 0x7f" by auto
  from assms(2) have "8 = Suc (7 - k) + k" by (simp add: k)
  then have "varint_spec p 8 0 0 = varint_spec p (Suc (7 - k)) k (take_bit (7 * k) (drop_bit 7 v))"
    using read_marked [OF mem(1), of "Suc (7 - k)"] by simp
  also have "\<dots> = (k + 1, take_bit (7 * k + 7) v)"
    by (simp add: mem(2) group_bits join_groups)
  also have "take_bit (7 * k + 7) v = v"
    using bits_ident [of "7 * Suc k" v] k(2) by (simp add: add.commute)
  finally show ?thesis by (simp add: sqlite3GetVarint_eq k)
qed

lemma putVarint64_large:
  assumes "bytes_at p 0 (marked 8 (drop_bit 8 v) @ [ucast v])"
  shows "sqlite3GetVarint p = (9, v)"
proof -
  have "varint_spec p (0 + 8) 0 0 = varint_spec p 0 (0 + 8) (take_bit (7 * 8) (drop_bit 8 v))"
    using assms by (intro read_marked) simp
  moreover from assms have "p 8 = ucast v" by simp
  moreover have "push_bit 8 (take_bit 56 (drop_bit 8 v)) OR ucast (ucast v :: byte) = v"
    by (rule bit_word_eqI) (auto simp: bit_simps)
  ultimately show ?thesis by (simp add: sqlite3GetVarint_eq)
qed

lemma high_byte: "v AND push_bit 32 0xff000000 = 0 \<longleftrightarrow> drop_bit 56 (v :: u64) = 0"
proof -
  have "v AND push_bit 32 0xff000000 = push_bit 56 (drop_bit 56 v)"
    by (rule word64_eqI) (simp add: upt_64 bit_simps)
  moreover have "drop_bit 56 (push_bit 56 (drop_bit 56 v)) = drop_bit 56 v"
    by (rule bit_word_eqI) (auto simp: bit_simps dest: bit_imp_le_length)
  ultimately show ?thesis by (metis push_bit_of_0 drop_bit_of_0)
qed

lemma drop_more: "drop_bit m (v :: u64) = 0 \<Longrightarrow> m \<le> n \<Longrightarrow> drop_bit n v = 0"
  using drop_bit_drop_bit [of "n - m" m v] by simp

lemma length_fill_buf: "length (fill_buf v) \<le> n \<longleftrightarrow> 0 < n \<and> drop_bit (7 * n) v = 0"
proof -
  obtain k where k: "fill_buf v = rev (marked (Suc k) v)" "drop_bit (7 * Suc k) v = 0" "k = 0 \<or> drop_bit (7 * k) v \<noteq> 0"
    using fill_buf_marked by blast
  have "drop_bit (7 * n) v = 0 \<Longrightarrow> 0 < n \<Longrightarrow> Suc k \<le> n"
    using k(3) drop_more [of "7 * n" v "7 * k"] by (cases "Suc k \<le> n") auto
  moreover have "Suc k \<le> n \<Longrightarrow> drop_bit (7 * n) v = 0" using drop_more [OF k(2), of "7 * n"] by simp
  ultimately show ?thesis by (auto simp: k(1))
qed

lemma drop_bit_eq_0: "drop_bit n v = 0 \<longleftrightarrow> unat (v :: u64) < 2 ^ n"
proof -
  have "drop_bit n v = 0 \<longleftrightarrow> unat (drop_bit n v) = 0" by (simp only: unat_eq_0)
  also have "unat (drop_bit n v) = unat v div 2 ^ n" by (simp only: drop_bit_eq_div) (simp only: flip: drop_bit_eq_div, simp only: unat_drop_bit_eq)
  finally show ?thesis by (simp add: div_eq_0_iff)
qed

lemma group_last: "ucast (v AND 0x7f) = varint_group v AND 0x7f"
  by (rule bit_word_eqI) (auto simp: bit_varint_group mask_7 bit_simps)

lemma small_values: "v \<le> 0x7f \<longleftrightarrow> drop_bit 7 (v :: u64) = 0" "v \<le> 0x3fff \<longleftrightarrow> drop_bit 7 (drop_bit 7 v) = 0"
  by (auto simp: drop_bit_eq_0 word_le_nat_alt)

lemma sqlite3PutVarint_small:
  assumes "drop_bit 56 v = 0"
  shows "sqlite3PutVarint v = rev ((fill_buf v)[0 := fill_buf v ! 0 AND 0x7f])"
proof -
  have "fill_buf v = varint_group v # (if drop_bit 7 v = 0 then [] else fill_buf (drop_bit 7 v))"
    "drop_bit 7 (drop_bit 7 v) = 0 \<Longrightarrow> fill_buf (drop_bit 7 v) = [varint_group (drop_bit 7 v)]"
    by (subst fill_buf.simps, simp)+
  then show ?thesis
    using assms
    by (auto simp: sqlite3PutVarint_def putVarint64_def high_byte [simplified] group_last small_values)
      (simp add: varint_group_def)
qed

text \<open>Every value comes back, whatever follows in the memory.\<close>

lemma varint_written_read:
  assumes "bytes_at p 0 (sqlite3PutVarint v)"
  shows "sqlite3GetVarint p = (length (sqlite3PutVarint v), v)
    \<and> length (sqlite3PutVarint v) = min 9 (sqlite3VarintLen v)"
proof (cases "drop_bit 56 v = 0")
  case True
  then have "length (fill_buf v) \<le> 8" by (simp add: length_fill_buf)
  then show ?thesis
    using assms fill_buf_written [of p v]
    by (simp add: sqlite3PutVarint_small [OF True] sqlite3VarintLen_eq)
next
  case False
  have "drop_bit 7 v \<noteq> 0" "drop_bit 14 v \<noteq> 0" using False drop_more [of 7 v 56] drop_more [of 14 v 56] by auto
  then have put: "sqlite3PutVarint v = marked 8 (drop_bit 8 v) @ [ucast v]"
    by (auto simp: sqlite3PutVarint_def putVarint64_def high_byte [simplified] False put_groups_marked small_values)
  have "\<not> length (fill_buf v) \<le> 8" using False by (simp add: length_fill_buf)
  with putVarint64_large [of p v] assms show ?thesis by (simp add: put sqlite3VarintLen_eq)
qed

lemma varint_length: "length (sqlite3PutVarint v) = min 9 (sqlite3VarintLen v)"
  using varint_written_read [of "\<lambda>i. sqlite3PutVarint v ! i" v] by (simp add: bytes_at_def)

text \<open>\<open>sqlite3VarintLen\<close> has no limit of nine.\<close>

lemma sqlite3VarintLen_iff: "sqlite3VarintLen v \<le> n \<longleftrightarrow> 0 < n \<and> unat v < 2 ^ (7 * n)"
  by (simp add: sqlite3VarintLen_eq length_fill_buf drop_bit_eq_0)

lemma sqlite3VarintLen_top:
  assumes "2 ^ 63 \<le> unat v"
  shows "sqlite3VarintLen v = 10" "length (sqlite3PutVarint v) = 9"
proof -
  have "unat v < 2 ^ 64" using unsigned_less [of v] by simp
  then have "sqlite3VarintLen v \<le> 10" "\<not> sqlite3VarintLen v \<le> 9"
    using assms by (simp_all add: sqlite3VarintLen_iff)
  then show "sqlite3VarintLen v = 10" by simp
  then show "length (sqlite3PutVarint v) = 9" by (simp add: varint_length)
qed

subsection \<open>Reading 32 bits\<close>

text \<open>\<open>sqlite3GetVarint32\<close>, which the macro \<open>getVarint32\<close> calls when the first byte has the mark.\<close>

definition SQLITE_MAX_U32 :: u64 where "SQLITE_MAX_U32 = push_bit 32 1 - 1"

definition sqlite3GetVarint32 :: "(nat \<Rightarrow> byte) \<Rightarrow> nat \<times> u32" where
  "sqlite3GetVarint32 p =
     (let a = ucast (p 0) :: u32; b = ucast (p 1) :: u32 in
      if b AND 0x80 = 0 then (let a = a AND 0x7f; a = push_bit 7 a in (2, a OR b))
      else let a = push_bit 14 a; a = a OR ucast (p 2) in
      if a AND 0x80 = 0 then
        (let a = a AND (push_bit 14 0x7f OR 0x7f); b = b AND 0x7f; b = push_bit 7 b in (3, a OR b))
      else let (n, v64) = sqlite3GetVarint p
           in if v64 AND SQLITE_MAX_U32 \<noteq> v64 then (n, 0xffffffff) else (n, ucast v64))"

definition getVarint32 :: "(nat \<Rightarrow> byte) \<Rightarrow> nat \<times> u32" where
  "getVarint32 p = (if p 0 < 0x80 then (1, ucast (p 0)) else sqlite3GetVarint32 p)"

definition putVarint32 :: "u64 \<Rightarrow> byte list" where
  "putVarint32 v = (if (ucast v :: u32) < 0x80 then [ucast v] else sqlite3PutVarint v)"




lemma byte_less_mark: "(x :: byte) < 0x80 \<longleftrightarrow> \<not> bit x 7"
proof -
  have "bit x 7 \<longleftrightarrow> bit (unat x) 7" by (simp add: bit_unsigned_iff)
  also have "\<dots> \<longleftrightarrow> odd (unat x div 128)" by (simp add: bit_iff_odd)
  finally have b: "bit x 7 \<longleftrightarrow> odd (unat x div 128)" .
  have "unat x < 256" using unsigned_less [of x] by simp
  then have "unat x div 128 < 2" by (simp add: less_mult_imp_div_less)
  then show ?thesis unfolding b word_less_nat_alt by (cases "unat x div 128 = 0") (auto simp: div_eq_0_iff)
qed

definition narrow :: "nat \<times> u64 \<Rightarrow> nat \<times> u32" where
  "narrow = (\<lambda>(n, v). (n, if uint v < 2 ^ 32 then ucast v else 0xffffffff))"

lemma narrow_32: "narrow (n, ucast (x :: u32)) = (n, x)"
proof -
  have "uint x < 2 ^ 32" using uint_lt2p [of x] by simp
  moreover from this have "uint (ucast x :: u64) = uint x"
    by (simp add: unsigned_ucast_eq take_bit_int_eq_self_iff)
  moreover have "(ucast (ucast x :: u64) :: u32) = x"
    by (rule bit_word_eqI) (simp add: bit_simps)
  ultimately show ?thesis by (simp add: narrow_def)
qed

lemma max_32: "v AND SQLITE_MAX_U32 = v \<longleftrightarrow> uint v < 2 ^ 32"
proof -
  have "SQLITE_MAX_U32 = mask 32" by (simp add: SQLITE_MAX_U32_def mask_eq_exp_minus_1)
  then have "v AND SQLITE_MAX_U32 = take_bit 32 v" by (simp only: take_bit_eq_mask)
  then have "v AND SQLITE_MAX_U32 = v \<longleftrightarrow> uint (take_bit 32 v) = uint v" by (simp only: word_uint_eq_iff)
  also have "\<dots> \<longleftrightarrow> take_bit 32 (uint v) = uint v" by (simp only: unsigned_take_bit_eq)
  finally show ?thesis by (simp add: take_bit_int_eq_self_iff)
qed

lemma getVarint32_eq: "getVarint32 p = narrow (sqlite3GetVarint p)"
proof -
  have slot: "(push_bit 14 0x7f OR 0x7f :: u32) = SLOT_2_0" by (simp add: SLOT_2_0_def)
  have b2: "(ucast b :: u32) AND 0x80 = 0 \<longleftrightarrow> \<not> bit (b :: byte) 7" for b
    using mark_test [of 0 b] by simp
  have low: "(ucast (b AND 0x7f) :: u32) = ucast (b :: byte) AND 0x7f" for b
    by (rule bit_word_eqI) (auto simp: mask_7 bit_simps)
  have one: "narrow (1, ucast (b :: byte)) = (1, ucast b)" for b
  proof -
    have "(ucast b :: u64) = ucast (ucast b :: u32)" by (rule bit_word_eqI) (auto simp: bit_simps dest: byte_high)
    then show ?thesis by (simp only: narrow_32)
  qed
  show ?thesis
  proof (cases "bit (p 0) 7 \<and> bit (p 1) 7 \<and> bit (p 2) 7")
    case True
    then show ?thesis
      by (simp add: getVarint32_def sqlite3GetVarint32_def byte_less_mark Let_def b2 mark_test max_32
          narrow_def del: One_nat_def split: prod.splits)
  next
    case False
    then consider "\<not> bit (p 0) 7" | "bit (p 0) 7" "\<not> bit (p 1) 7" | "bit (p 0) 7" "bit (p 1) 7" "\<not> bit (p 2) 7"
      by blast
    then show ?thesis
      by cases (simp_all only: getVarint32_def sqlite3GetVarint32_def byte_less_mark Let_def b2 mark_test
          sqlite3GetVarint_def sless_eq_bit not_True_eq_False not_False_eq_True if_True if_False
          slot narrow_32 low one)
  qed
qed

text \<open>C25: The unrolled reader of variable-length integers is the plain one: it takes seven bits of
  every byte up to the first without the mark, or eight of the ninth, and says how many bytes that
  were; \<open>getVarint32\<close> gives the same number, and the largest one of 32 bits for what is larger.\<close>

theorem varint_reader_decodes:
  "sqlite3GetVarint p = varint_spec p 8 0 0 \<and> getVarint32 p = narrow (varint_spec p 8 0 0)"
  by (simp add: sqlite3GetVarint_eq getVarint32_eq)

end
