(* ===== verification/Sql_Records.thy ===== *)
theory Sql_Records
  imports Sql_Varint
begin

text \<open>
  The records in which SQLite keeps the rows of a table: \<open>OP_MakeRecord\<close>, after it has applied the
  affinities, and \<open>sqlite3VdbeRecordUnpack\<close> with \<open>sqlite3VdbeSerialTypeLen\<close> and
  \<open>sqlite3VdbeSerialGet\<close>.  A register is the kind that its flags select, with the fields this kind
  has; a real number is its 64 bits.
\<close>

unbundle bit_operations_syntax

type_synonym memory = "nat \<Rightarrow> byte"

datatype Mem =
    Mem_Null bool
  | Mem_Int i64
  | Mem_IntReal i64
  | Mem_Real u64
  | Mem_Str "byte list"
  | Mem_Blob "byte list"
  | Mem_Zero "byte list" nat

datatype record_error = too_big | no_mem

text \<open>The blob \<open>z\<close> of a register, and what is copied from \<open>u\<close> for a number.\<close>

fun mem_z :: "Mem \<Rightarrow> byte list" where
  "mem_z (Mem_Str z) = z"
| "mem_z (Mem_Blob z) = z"
| "mem_z (Mem_Zero z nZero) = z"
| "mem_z _ = []"

fun mem_u :: "Mem \<Rightarrow> u64" where
  "mem_u (Mem_Int i) = i"
| "mem_u (Mem_IntReal i) = i"
| "mem_u (Mem_Real r) = r"
| "mem_u _ = 0"

definition sqlite3SmallTypeSizes :: "nat list" where
  "sqlite3SmallTypeSizes =
    [0, 1, 2, 3, 4, 6, 8, 8, 0, 0,
     0, 0, 0, 0, 1, 1, 2, 2, 3, 3,
     4, 4, 5, 5, 6, 6, 7, 7, 8, 8,
     9, 9, 10, 10, 11, 11, 12, 12, 13, 13,
     14, 14, 15, 15, 16, 16, 17, 17, 18, 18,
     19, 19, 20, 20, 21, 21, 22, 22, 23, 23,
     24, 24, 25, 25, 26, 26, 27, 27, 28, 28,
     29, 29, 30, 30, 31, 31, 32, 32, 33, 33,
     34, 34, 35, 35, 36, 36, 37, 37, 38, 38,
     39, 39, 40, 40, 41, 41, 42, 42, 43, 43,
     44, 44, 45, 45, 46, 46, 47, 47, 48, 48,
     49, 49, 50, 50, 51, 51, 52, 52, 53, 53,
     54, 54, 55, 55, 56, 56, 57, 57]"

definition sqlite3VdbeSerialTypeLen :: "u32 \<Rightarrow> u32" where
  "sqlite3VdbeSerialTypeLen serial_type =
     (if serial_type \<ge> 128 then (serial_type - 12) div 2
      else of_nat (sqlite3SmallTypeSizes ! unat serial_type))"

subsection \<open>Making a record\<close>

text \<open>The first loop of \<open>OP_MakeRecord\<close>, from the last register to the first: the type of every
  register, the sizes of header and data, and the zeros at the end that are not stored.
  \<open>sqlite3VdbeMemExpandBlob\<close> can run out of memory (\<open>grow\<close>); \<open>to_double\<close> is the conversion of the
  compiler.\<close>

fun int_type :: "bool \<Rightarrow> i64 \<Rightarrow> u32 \<times> nat" where
  "int_type new_format i =
     (let uu = if i <s 0 then NOT i else i in
      if uu \<le> 127 then (if i AND 1 = i \<and> new_format then (8 + ucast uu, 0) else (1, 1))
      else if uu \<le> 32767 then (2, 2)
      else if uu \<le> 8388607 then (3, 3)
      else if uu \<le> 2147483647 then (4, 4)
      else if uu \<le> 140737488355327 then (5, 6)
      else (6, 8))"

definition sqlite3VdbeMemExpandBlob :: "(nat \<Rightarrow> bool) \<Rightarrow> byte list \<Rightarrow> nat \<Rightarrow> record_error + Mem" where
  "sqlite3VdbeMemExpandBlob grow z nZero =
     (let nByte = length z + nZero; nByte = if nByte = 0 then 1 else nByte
      in if grow nByte then Inr (Mem_Blob (z @ replicate nZero 0)) else Inl no_mem)"

record type_sums =
  nHdr :: nat
  nData :: nat
  nZeros :: nat

fun register_type ::
  "bool \<Rightarrow> (i64 \<Rightarrow> u64) \<Rightarrow> (nat \<Rightarrow> bool) \<Rightarrow> Mem \<Rightarrow> type_sums \<Rightarrow> record_error + (Mem \<times> u32) \<times> type_sums"
where
  "register_type new_format to_double grow (Mem_Null zero) s =
     Inr ((Mem_Null zero, if zero then 10 else 0), s\<lparr>nHdr := nHdr s + 1\<rparr>)"
| "register_type new_format to_double grow (Mem_Int i) s =
     (let (t, len) = int_type new_format i
      in Inr ((Mem_Int i, t), s\<lparr>nHdr := nHdr s + 1, nData := nData s + len\<rparr>))"
| "register_type new_format to_double grow (Mem_IntReal i) s =
     (let (t, len) = int_type new_format i
      in Inr (if t = 6 then (Mem_Real (to_double i), 7) else (Mem_IntReal i, t),
              s\<lparr>nHdr := nHdr s + 1, nData := nData s + len\<rparr>))"
| "register_type new_format to_double grow (Mem_Real r) s =
     Inr ((Mem_Real r, 7), s\<lparr>nHdr := nHdr s + 1, nData := nData s + 8\<rparr>)"
| "register_type new_format to_double grow (Mem_Str z) s =
     (let len = of_nat (length z) :: u32; serial_type = len * 2 + 12 + 1
      in Inr ((Mem_Str z, serial_type),
              s\<lparr>nHdr := nHdr s + sqlite3VarintLen (ucast serial_type), nData := nData s + unat len\<rparr>))"
| "register_type new_format to_double grow (Mem_Blob z) s =
     (let len = of_nat (length z) :: u32; serial_type = len * 2 + 12
      in Inr ((Mem_Blob z, serial_type),
              s\<lparr>nHdr := nHdr s + sqlite3VarintLen (ucast serial_type), nData := nData s + unat len\<rparr>))"
| "register_type new_format to_double grow (Mem_Zero z nZero) s =
     (let len = of_nat (length z) :: u32; serial_type = len * 2 + 12;
          serial_type = serial_type + of_nat nZero * 2
      in res_bind
        (if nData s \<noteq> 0
         then res_bind (sqlite3VdbeMemExpandBlob grow z nZero) (\<lambda>m. Inr (m, len + of_nat nZero, nZeros s))
         else Inr (Mem_Zero z nZero, len, nZeros s + nZero))
        (\<lambda>(m, len, zeros).
          Inr ((m, serial_type),
               \<lparr>nHdr = nHdr s + sqlite3VarintLen (ucast serial_type), nData = nData s + unat len,
                nZeros = zeros\<rparr>)))"

fun type_loop ::
  "bool \<Rightarrow> (i64 \<Rightarrow> u64) \<Rightarrow> (nat \<Rightarrow> bool) \<Rightarrow> Mem list \<Rightarrow> record_error + (Mem \<times> u32) list \<times> type_sums"
where
  "type_loop new_format to_double grow [] = Inr ([], \<lparr>nHdr = 0, nData = 0, nZeros = 0\<rparr>)"
| "type_loop new_format to_double grow (m # ms) =
     res_bind (type_loop new_format to_double grow ms) (\<lambda>(fs, s).
     res_bind (register_type new_format to_double grow m s) (\<lambda>(f, s). Inr (f # fs, s)))"

text \<open>The header counts its own length, which can need one more byte for that.\<close>

definition header_size :: "nat \<Rightarrow> nat" where
  "header_size n =
     (if n \<le> 126 then n + 1
      else let nVarint = sqlite3VarintLen (of_nat n); n = n + nVarint
           in if nVarint < sqlite3VarintLen (of_nat n) then n + 1 else n)"

text \<open>The second loop writes types and data at two places of the buffer.\<close>

definition write_at :: "nat \<Rightarrow> byte list \<Rightarrow> memory \<Rightarrow> memory" where
  "write_at i bs p = (\<lambda>j. if i \<le> j \<and> j < i + length bs then bs ! (j - i) else p j)"

fun put_bytes :: "nat \<Rightarrow> u64 \<Rightarrow> byte list \<Rightarrow> byte list" where
  "put_bytes 0 v bs = bs"
| "put_bytes (Suc i) v bs = put_bytes i (drop_bit 8 v) (ucast (v AND 0xFF) # bs)"

fun field_bytes :: "Mem \<times> u32 \<Rightarrow> byte list \<times> byte list" where
  "field_bytes (m, serial_type) =
     (if serial_type \<le> 7 then
        ([ucast serial_type],
         if serial_type = 0 then [] else put_bytes (sqlite3SmallTypeSizes ! unat serial_type) (mem_u m) [])
      else if serial_type < 0x80 then
        ([ucast serial_type], if serial_type \<ge> 14 \<and> 0 < length (mem_z m) then mem_z m else [])
      else (sqlite3PutVarint (ucast serial_type), mem_z m))"

fun write_loop :: "(Mem \<times> u32) list \<Rightarrow> memory \<times> nat \<times> nat \<Rightarrow> memory \<times> nat \<times> nat" where
  "write_loop [] st = st"
| "write_loop (f # fs) (p, zHdr, zPayload) =
     (let (h, d) = field_bytes f
      in write_loop fs (write_at zPayload d (write_at zHdr h p), zHdr + length h, zPayload + length d))"

text \<open>The record is in the output register \<open>pOut\<close> with its \<open>szMalloc\<close> bytes: the memory with the
  bytes in it, their number, and the number of zeros that follow.\<close>

definition OP_MakeRecord ::
  "bool \<Rightarrow> (i64 \<Rightarrow> u64) \<Rightarrow> (nat \<Rightarrow> bool) \<Rightarrow> nat \<Rightarrow> nat \<Rightarrow> memory \<Rightarrow> Mem list \<Rightarrow> record_error + memory \<times> nat \<times> nat"
where
  "OP_MakeRecord new_format to_double grow limit szMalloc z registers =
     res_bind (type_loop new_format to_double grow registers) (\<lambda>(fs, s).
     let hdr = header_size (nHdr s); nByte = hdr + nData s;
         out = (let (zHdr, z) = if hdr < 0x80 then (1, write_at 0 [of_nat hdr] z)
                  else (length (sqlite3PutVarint (of_nat hdr)), write_at 0 (sqlite3PutVarint (of_nat hdr)) z);
                    (z, zHdr, zPayload) = write_loop fs (z, zHdr, hdr)
                in Inr (z, nByte, nZeros s))
     in if nByte + nZeros s \<le> szMalloc then out
        else if nByte + nZeros s > limit then Inl too_big
        else if \<not> grow nByte then Inl no_mem
        else out)"

subsection \<open>Reading a record\<close>

definition mem_at :: "memory \<Rightarrow> nat \<Rightarrow> memory" where
  "mem_at p i = (\<lambda>j. p (i + j))"

definition ONE_BYTE_INT :: "memory \<Rightarrow> c_int" where
  "ONE_BYTE_INT x = scast (x 0)"

definition TWO_BYTE_INT :: "memory \<Rightarrow> c_int" where
  "TWO_BYTE_INT x = 256 * scast (x 0) OR ucast (x 1)"

definition THREE_BYTE_INT :: "memory \<Rightarrow> c_int" where
  "THREE_BYTE_INT x = 65536 * scast (x 0) OR push_bit 8 (ucast (x 1)) OR ucast (x 2)"

definition FOUR_BYTE_UINT :: "memory \<Rightarrow> u32" where
  "FOUR_BYTE_UINT x =
     push_bit 24 (ucast (x 0)) OR push_bit 16 (ucast (x 1)) OR push_bit 8 (ucast (x 2)) OR ucast (x 3)"

definition FOUR_BYTE_INT :: "memory \<Rightarrow> c_int" where
  "FOUR_BYTE_INT x =
     16777216 * scast (x 0) OR push_bit 16 (ucast (x 1)) OR push_bit 8 (ucast (x 2)) OR ucast (x 3)"

definition EXP754 :: u64 where "EXP754 = push_bit 52 0x7ff"
definition MAN754 :: u64 where "MAN754 = push_bit 52 1 - 1"

definition IsNaN :: "u64 \<Rightarrow> bool" where
  "IsNaN x \<longleftrightarrow> x AND EXP754 = EXP754 \<and> x AND MAN754 \<noteq> 0"

definition serialGet :: "memory \<Rightarrow> u32 \<Rightarrow> Mem" where
  "serialGet buf serial_type =
     (let x = ucast (FOUR_BYTE_UINT buf) :: u64; y = FOUR_BYTE_UINT (mem_at buf 4); x = push_bit 32 x + ucast y
      in if serial_type = 6 then Mem_Int x else if IsNaN x then Mem_Null False else Mem_Real x)"

definition sqlite3VdbeSerialGet :: "memory \<Rightarrow> u32 \<Rightarrow> Mem" where
  "sqlite3VdbeSerialGet buf serial_type =
     (if serial_type = 10 then Mem_Null True
      else if serial_type = 11 \<or> serial_type = 0 then Mem_Null False
      else if serial_type = 1 then Mem_Int (scast (ONE_BYTE_INT buf))
      else if serial_type = 2 then Mem_Int (scast (TWO_BYTE_INT buf))
      else if serial_type = 3 then Mem_Int (scast (THREE_BYTE_INT buf))
      else if serial_type = 4 then Mem_Int (scast (FOUR_BYTE_INT buf))
      else if serial_type = 5 then
        Mem_Int (ucast (FOUR_BYTE_UINT (mem_at buf 2)) + push_bit 32 1 * scast (TWO_BYTE_INT buf))
      else if serial_type = 6 \<or> serial_type = 7 then serialGet buf serial_type
      else if serial_type = 8 \<or> serial_type = 9 then Mem_Int (ucast (serial_type - 8))
      else let z = map buf [0..<unat ((serial_type - 12) div 2)]
           in if serial_type AND 1 = 0 then Mem_Blob z else Mem_Str z)"

text \<open>The loop of \<open>sqlite3VdbeRecordUnpack\<close>, with the fields, at least one, that \<open>p\<close> still
  has room for; the offsets have 32 bits.\<close>

fun unpack_loop :: "memory \<Rightarrow> u32 \<Rightarrow> u32 \<Rightarrow> nat \<Rightarrow> u32 \<Rightarrow> u32 \<Rightarrow> Mem list \<times> u32" where
  "unpack_loop aKey szHdr nKey 0 idx d = ([], d)"
| "unpack_loop aKey szHdr nKey (Suc room) idx d =
     (if idx < szHdr \<and> d \<le> nKey then
        let (n, serial_type) = getVarint32 (mem_at aKey (unat idx));
            pMem = sqlite3VdbeSerialGet (mem_at aKey (unat d)) serial_type;
            (pMems, d) = unpack_loop aKey szHdr nKey room (idx + of_nat n) (d + sqlite3VdbeSerialTypeLen serial_type)
        in (pMem # pMems, d)
      else ([], d))"

definition sqlite3VdbeRecordUnpack :: "memory \<Rightarrow> u32 \<Rightarrow> nat \<Rightarrow> Mem list" where
  "sqlite3VdbeRecordUnpack aKey nKey nField =
     (let (idx, szHdr) = getVarint32 aKey;
          (aMem, d) = unpack_loop aKey szHdr nKey nField (of_nat idx) szHdr
      in if d > nKey \<and> aMem \<noteq> [] then butlast aMem @ [Mem_Null False] else aMem)"

subsection \<open>Integers\<close>

lemma sign_bits:
  assumes "(if v <s 0 then NOT v else v) \<le> (b :: i64)" "unat b < 2 ^ m" "m \<le> n" "n < 63"
  shows "bit v n \<longleftrightarrow> bit v 63"
proof -
  let ?u = "if v <s 0 then NOT v else v"
  have neg: "v <s 0 \<longleftrightarrow> bit v 63" using bit_last_iff [of v] by (simp add: word_sless_alt)
  have "unat ?u < 2 ^ m" using assms(1,2) by (simp only: word_le_nat_alt)
  then have "drop_bit m ?u = 0" by (simp only: drop_bit_eq_0)
  then have "\<not> bit (drop_bit m ?u) (n - m)" by simp
  then have "\<not> bit ?u n" using assms(3) by (simp only: bit_drop_bit_eq o_def le_add_diff_inverse not_False_eq_True)
  then show ?thesis using assms(4) neg by (auto simp: bit_not_iff split: if_splits)
qed

lemma shifts: "256 * x = push_bit 8 (x :: c_int)" "65536 * x = push_bit 16 x" "16777216 * x = push_bit 24 x"
  "push_bit 32 1 * (y :: u64) = push_bit 32 y"
  by (simp_all add: push_bit_eq_mult)

lemma disjoint_add: "ucast (y :: u32) + push_bit 32 x = (ucast y OR push_bit 32 x :: u64)"
  "push_bit 32 x + ucast (y :: u32) = (ucast y OR push_bit 32 x :: u64)"
proof -
  have "ucast y AND push_bit 32 x = (0 :: u64)" by (rule bit_word_eqI) (auto simp: bit_simps dest: bit_imp_le_length)
  then show "ucast y + push_bit 32 x = (ucast y OR push_bit 32 x :: u64)"
    "push_bit 32 x + ucast (y :: u32) = (ucast y OR push_bit 32 x :: u64)"
    by (simp_all add: disjunctive_add_eq_or add.commute)
qed

lemma low_byte: "ucast (v AND 0xFF) = (ucast (v :: u64) :: byte)"
proof (rule bit_word_eqI)
  have "(0xFF :: u64) = mask 8" by (simp add: mask_eq_exp_minus_1)
  then have low: "bit (0xFF :: u64) n \<longleftrightarrow> n < 64 \<and> n < 8" for n
    by (simp only: bit_mask_iff possible_bit_word) simp
  show "bit (ucast (v AND 0xFF) :: byte) n \<longleftrightarrow> bit (ucast v :: byte) n" if "n < LENGTH(8)" for n
    using that by (auto simp only: bit_unsigned_iff bit_and_iff low possible_bit_word) simp_all
qed

text \<open>The bytes of a number with its highest bits equal are read back as the number.\<close>

lemmas get_defs = ONE_BYTE_INT_def TWO_BYTE_INT_def THREE_BYTE_INT_def FOUR_BYTE_INT_def FOUR_BYTE_UINT_def
  mem_at_def shifts disjoint_add

lemmas get_bits = upt_64 bit_simps

lemma put_bytes_at:
  "bytes_at buf 0 (put_bytes 1 v []) \<longleftrightarrow>
     buf 0 = ucast v"
  "bytes_at buf 0 (put_bytes 2 v []) \<longleftrightarrow>
     buf 0 = ucast (drop_bit 8 v) \<and> buf 1 = ucast v"
  "bytes_at buf 0 (put_bytes 3 v []) \<longleftrightarrow>
     buf 0 = ucast (drop_bit 16 v) \<and> buf 1 = ucast (drop_bit 8 v) \<and> buf 2 = ucast v"
  "bytes_at buf 0 (put_bytes 4 v []) \<longleftrightarrow>
     buf 0 = ucast (drop_bit 24 v) \<and> buf 1 = ucast (drop_bit 16 v) \<and>
     buf 2 = ucast (drop_bit 8 v) \<and> buf 3 = ucast v"
  "bytes_at buf 0 (put_bytes 6 v []) \<longleftrightarrow>
     buf 0 = ucast (drop_bit 40 v) \<and> buf 1 = ucast (drop_bit 32 v) \<and>
     buf 2 = ucast (drop_bit 24 v) \<and> buf 3 = ucast (drop_bit 16 v) \<and>
     buf 4 = ucast (drop_bit 8 v) \<and> buf 5 = ucast v"
  "bytes_at buf 0 (put_bytes 8 v []) \<longleftrightarrow>
     buf 0 = ucast (drop_bit 56 v) \<and> buf 1 = ucast (drop_bit 48 v) \<and>
     buf 2 = ucast (drop_bit 40 v) \<and> buf 3 = ucast (drop_bit 32 v) \<and>
     buf 4 = ucast (drop_bit 24 v) \<and> buf 5 = ucast (drop_bit 16 v) \<and>
     buf 6 = ucast (drop_bit 8 v) \<and> buf 7 = ucast v"
  by (simp_all add: numeral_eq_Suc low_byte)

lemma get_1_byte:
  assumes "bytes_at buf 0 (put_bytes 1 v [])" "\<And>n. 7 \<le> n \<Longrightarrow> n < 63 \<Longrightarrow> bit v n \<longleftrightarrow> bit v 63"
  shows "scast (ONE_BYTE_INT buf) = v"
  using assms(1) unfolding put_bytes_at get_defs by (intro word64_eqI) (simp add: get_bits assms(2) del: One_nat_def)

lemma get_2_bytes:
  assumes "bytes_at buf 0 (put_bytes 2 v [])" "\<And>n. 15 \<le> n \<Longrightarrow> n < 63 \<Longrightarrow> bit v n \<longleftrightarrow> bit v 63"
  shows "scast (TWO_BYTE_INT buf) = v"
  using assms(1) unfolding put_bytes_at get_defs by (intro word64_eqI) (simp add: get_bits assms(2) del: One_nat_def)

lemma get_3_bytes:
  assumes "bytes_at buf 0 (put_bytes 3 v [])" "\<And>n. 23 \<le> n \<Longrightarrow> n < 63 \<Longrightarrow> bit v n \<longleftrightarrow> bit v 63"
  shows "scast (THREE_BYTE_INT buf) = v"
  using assms(1) unfolding put_bytes_at get_defs by (intro word64_eqI) (simp add: get_bits assms(2) del: One_nat_def)

lemma get_4_bytes:
  assumes "bytes_at buf 0 (put_bytes 4 v [])" "\<And>n. 31 \<le> n \<Longrightarrow> n < 63 \<Longrightarrow> bit v n \<longleftrightarrow> bit v 63"
  shows "scast (FOUR_BYTE_INT buf) = v"
  using assms(1) unfolding put_bytes_at get_defs by (intro word64_eqI) (simp add: get_bits assms(2) del: One_nat_def)

lemma get_6_bytes:
  assumes "bytes_at buf 0 (put_bytes 6 v [])" "\<And>n. 47 \<le> n \<Longrightarrow> n < 63 \<Longrightarrow> bit v n \<longleftrightarrow> bit v 63"
  shows "ucast (FOUR_BYTE_UINT (mem_at buf 2)) + push_bit 32 1 * scast (TWO_BYTE_INT buf) = v"
  using assms(1) unfolding put_bytes_at get_defs by (intro word64_eqI) (simp add: get_bits assms(2) del: One_nat_def)

lemma get_8_bytes:
  assumes "bytes_at buf 0 (put_bytes 8 v [])"
  shows "push_bit 32 (ucast (FOUR_BYTE_UINT buf)) + ucast (FOUR_BYTE_UINT (mem_at buf 4)) = v"
  using assms(1) unfolding put_bytes_at get_defs by (intro word64_eqI) (simp add: get_bits del: One_nat_def)

definition field_reads :: "Mem \<times> u32 \<Rightarrow> nat \<Rightarrow> Mem \<Rightarrow> bool" where
  "field_reads f zeros x \<longleftrightarrow>
     (let (h, d) = field_bytes f in
      h = sqlite3PutVarint (ucast (snd f)) \<and>
      unat (sqlite3VdbeSerialTypeLen (snd f)) = length d + zeros \<and>
      (\<forall>buf. bytes_at buf 0 (d @ replicate zeros 0) \<longrightarrow> sqlite3VdbeSerialGet buf (snd f) = x))"

lemma unat_up [simp]: "unat (ucast (t :: u32) :: u64) = unat t"
proof -
  have "unat t < 2 ^ 32" using unsigned_less [of t] by simp
  then show ?thesis by (simp add: unsigned_ucast_eq take_bit_nat_eq_self)
qed

lemma put_type: "t < 0x80 \<Longrightarrow> sqlite3PutVarint (ucast (t :: u32)) = [ucast t]"
proof -
  assume "t < 0x80"
  then have t: "unat t < 128" by (simp add: word_less_nat_alt)
  then have u: "unat (ucast t :: u64) < 2 ^ 7" by simp
  then have "drop_bit 7 (ucast t :: u64) = 0" by (simp only: drop_bit_eq_0)
  then have "sqlite3PutVarint (ucast t) = [ucast (ucast t AND 0x7f :: u64)]"
    by (simp add: sqlite3PutVarint_def small_values)
  moreover have "ucast t AND 0x7f = (ucast t :: u64)"
    using take_bit_eq_mask [of 7 "ucast t :: u64"] bits_ident [of 7 "ucast t :: u64"] \<open>drop_bit 7 _ = 0\<close>
    by (simp add: mask_7 [symmetric])
  moreover have "(ucast (ucast t :: u64) :: byte) = ucast t" by (rule bit_word_eqI) (simp add: bit_simps)
  ultimately show ?thesis by simp
qed

lemma length_put_bytes [simp]: "length (put_bytes k v bs) = k + length bs"
  by (induction k v bs rule: put_bytes.induct) auto

lemma type_cases:
  assumes "int_type new_format i = (t, len)"
  obtains "t = 8" "len = 0" "i = 0" | "t = 9" "len = 0" "i = 1"
  | "t = 1" "len = 1" "\<And>n. 7 \<le> n \<Longrightarrow> n < 63 \<Longrightarrow> bit i n \<longleftrightarrow> bit i 63"
  | "t = 2" "len = 2" "\<And>n. 15 \<le> n \<Longrightarrow> n < 63 \<Longrightarrow> bit i n \<longleftrightarrow> bit i 63"
  | "t = 3" "len = 3" "\<And>n. 23 \<le> n \<Longrightarrow> n < 63 \<Longrightarrow> bit i n \<longleftrightarrow> bit i 63"
  | "t = 4" "len = 4" "\<And>n. 31 \<le> n \<Longrightarrow> n < 63 \<Longrightarrow> bit i n \<longleftrightarrow> bit i 63"
  | "t = 5" "len = 6" "\<And>n. 47 \<le> n \<Longrightarrow> n < 63 \<Longrightarrow> bit i n \<longleftrightarrow> bit i 63"
  | "t = 6" "len = 8"
proof -
  define uu where "uu = (if i <s 0 then NOT i else i)"
  note sign = sign_bits [of i, folded uu_def]
  have one: "i AND 1 = i \<Longrightarrow> i = 0 \<or> i = 1" by (metis and_one_eq mod2_eq_if)
  have uu: "i = 0 \<Longrightarrow> uu = 0" "i = 1 \<Longrightarrow> uu = 1" by (auto simp: uu_def word_sless_alt)
  have "int_type new_format i = (if uu \<le> 127 then (if i AND 1 = i \<and> new_format then (8 + ucast uu, 0) else (1, 1))
      else if uu \<le> 32767 then (2, 2)
      else if uu \<le> 8388607 then (3, 3)
      else if uu \<le> 2147483647 then (4, 4)
      else if uu \<le> 140737488355327 then (5, 6)
      else (6, 8))" by (simp add: uu_def Let_def)
  with assms consider "uu \<le> 127" "i AND 1 = i" "t = 8 + ucast uu" "len = 0" | "uu \<le> 127" "t = 1" "len = 1"
    | "uu \<le> 32767" "t = 2" "len = 2" | "uu \<le> 8388607" "t = 3" "len = 3"
    | "uu \<le> 2147483647" "t = 4" "len = 4" | "uu \<le> 140737488355327" "t = 5" "len = 6" | "t = 6" "len = 8"
    by (auto split: if_splits)
  then show thesis
  proof cases
    case 1
    with one uu that(1,2) show thesis by auto
  next
    case 2
    then show thesis by (intro that(3)) (simp_all add: sign [of 127 7])
  next
    case 3
    then show thesis by (intro that(4)) (simp_all add: sign [of 32767 15])
  next
    case 4
    then show thesis by (intro that(5)) (simp_all add: sign [of 8388607 23])
  next
    case 5
    then show thesis by (intro that(6)) (simp_all add: sign [of 2147483647 31])
  next
    case 6
    then show thesis by (intro that(7)) (simp_all add: sign [of 140737488355327 47])
  next
    case 7
    then show thesis by (rule that(8))
  qed
qed

lemma int_reads:
  assumes "int_type new_format i = (t, len)" "mem_u m = i"
  shows "field_reads (m, t) 0 (Mem_Int i) \<and> length (snd (field_bytes (m, t))) = len"
  using assms(1)
proof (cases rule: type_cases)
qed (simp_all add: field_reads_def Let_def sqlite3VdbeSerialGet_def sqlite3VdbeSerialTypeLen_def
    sqlite3SmallTypeSizes_def sqlite3PutVarint_def word_le_nat_alt assms(2) get_1_byte get_2_bytes get_3_bytes get_4_bytes
    get_6_bytes [simplified] get_8_bytes serialGet_def)

subsection \<open>Texts and blobs\<close>

lemma bytes_at_map: "bytes_at p 0 bs \<Longrightarrow> map p [0..<length bs] = bs"
  by (rule nth_equalityI) (auto simp: bytes_at_def)

lemma small_sizes: "12 \<le> k \<Longrightarrow> k < 128 \<Longrightarrow> sqlite3SmallTypeSizes ! k = (k - 12) div 2"
proof -
  have "list_all (\<lambda>k. sqlite3SmallTypeSizes ! k = (k - 12) div 2) [12..<128]" by code_simp
  then show "12 \<le> k \<Longrightarrow> k < 128 \<Longrightarrow> sqlite3SmallTypeSizes ! k = (k - 12) div 2" by (simp only: list_all_iff set_upt) simp
qed

lemma unat_minus_12: "12 \<le> unat t \<Longrightarrow> unat ((t - 12) div 2 :: u32) = (unat t - 12) div 2"
  by (simp add: unat_div unat_sub word_le_nat_alt)

lemma SerialTypeLen_bytes: "12 \<le> unat t \<Longrightarrow> unat (sqlite3VdbeSerialTypeLen t) = (unat t - 12) div 2"
  by (auto simp: sqlite3VdbeSerialTypeLen_def unat_minus_12 small_sizes word_le_nat_alt unat_of_nat)

lemma bytes_reads:
  assumes "unat t = 2 * N + 12 + of_bool b" "mem_z m = z" "length z + zeros = N"
  shows "field_reads (m, t) zeros ((if b then Mem_Str else Mem_Blob) (z @ replicate zeros 0)) \<and>
    snd (field_bytes (m, t)) = z"
proof -
  have t: "12 \<le> unat t" "(unat t - 12) div 2 = N" using assms(1) by simp_all
  have "z = []" if "\<not> 14 \<le> unat t" using that assms by (cases z) auto
  then have d: "snd (field_bytes (m, t)) = z" "fst (field_bytes (m, t)) = sqlite3PutVarint (ucast t)"
    using assms by (auto simp: word_le_nat_alt word_less_nat_alt put_type)
  have "bit t 0 \<longleftrightarrow> bit (unat t) 0" by (simp only: bit_unsigned_iff) simp
  then have "odd t \<longleftrightarrow> b" using assms(1) by (simp add: bit_0)
  moreover have "t AND 1 = 0 \<longleftrightarrow> even t" by (simp add: and_one_eq even_iff_mod_2_eq_zero)
  ultimately have "t AND 1 = 0 \<longleftrightarrow> \<not> b" by blast
  moreover have "map buf [0..<N] = z @ replicate zeros 0" if "bytes_at buf 0 (z @ replicate zeros 0)" for buf
    using bytes_at_map [OF that] assms(3) by simp
  moreover have "t \<noteq> of_nat k" if "k < 12" for k using t(1) that by (auto simp: unat_of_nat)
  from this [of 0] this [of 1] this [of 2] this [of 3] this [of 4] this [of 5] this [of 6] this [of 7]
    this [of 8] this [of 9] this [of 10] this [of 11]
  have "sqlite3VdbeSerialGet buf t =
      (let z = map buf [0..<unat ((t - 12) div 2)] in if t AND 1 = 0 then Mem_Blob z else Mem_Str z)" for buf
    by (simp add: sqlite3VdbeSerialGet_def)
  ultimately show ?thesis
    by (simp add: field_reads_def Let_def case_prod_beta d t SerialTypeLen_bytes unat_minus_12 assms(3) del: field_bytes.simps)
qed

subsection \<open>Every register is read back\<close>

definition real_value :: "u64 \<Rightarrow> Mem" where
  "real_value r = (if IsNaN r then Mem_Null False else Mem_Real r)"

text \<open>What a register is after it was stored: no number that is not one, an integer for a real
  with a value of at most six bytes, and the zeros of a blob written out.\<close>

fun stored :: "(i64 \<Rightarrow> u64) \<Rightarrow> Mem \<Rightarrow> Mem" where
  "stored to_double (Mem_IntReal i) =
     (if - (2 ^ 47) \<le> sint i \<and> sint i < 2 ^ 47 then Mem_Int i else real_value (to_double i))"
| "stored to_double (Mem_Real r) = real_value r"
| "stored to_double (Mem_Zero z nZero) = Mem_Blob (z @ replicate nZero 0)"
| "stored to_double m = m"

fun mem_size :: "Mem \<Rightarrow> nat" where
  "mem_size (Mem_Zero z nZero) = length z + nZero"
| "mem_size m = length (mem_z m)"

definition SQLITE_MAX_LENGTH :: nat where "SQLITE_MAX_LENGTH = 1000000000"

lemma real_reads: "field_reads (Mem_Real r, 7) 0 (real_value r)"
  by (simp add: field_reads_def sqlite3VdbeSerialGet_def sqlite3VdbeSerialTypeLen_def sqlite3SmallTypeSizes_def
      sqlite3PutVarint_def word_le_nat_alt get_8_bytes serialGet_def real_value_def)

lemma real_data: "length (snd (field_bytes (Mem_Real r, 7))) = 8"
  by (simp add: sqlite3SmallTypeSizes_def word_le_nat_alt)

lemma null_reads: "field_reads (Mem_Null zero, if zero then 10 else 0) 0 (Mem_Null zero)"
  by (simp add: field_reads_def sqlite3VdbeSerialGet_def sqlite3VdbeSerialTypeLen_def sqlite3SmallTypeSizes_def
      sqlite3PutVarint_def word_le_nat_alt)

lemma six_bytes: "int_type new_format i = (t, len) \<Longrightarrow> t = 6 \<longleftrightarrow> \<not> (- (2 ^ 47) \<le> sint i \<and> sint i < 2 ^ 47)"
proof -
  define uu where "uu = (if i <s 0 then NOT i else i)"
  have neg: "i <s 0 \<longleftrightarrow> sint i < 0" by (simp add: word_sless_alt)
  have "NOT i = - 1 - i" "i \<le> - 1" by (simp_all add: not_eq_complement)
  moreover have "uint (- 1 :: i64) = 2 ^ 64 - 1" by (simp add: unsigned_minus_1_eq_mask mask_eq_exp_minus_1)
  ultimately have "uint (NOT i) = 2 ^ 64 - 1 - uint i" using uint_sub_lem [of i "- 1"] uint_lt2p [of i] by simp
  moreover have "uint i = (if sint i < 0 then sint i + 2 ^ 64 else sint i)"
  proof -
    have "- (2 ^ 63) \<le> sint i" "sint i < 2 ^ 63" using sint_greater_eq [of i] sint_lt [of i] by simp_all
    then have "sint i < 0 \<Longrightarrow> (sint i + 2 ^ 64) mod 2 ^ 64 = sint i + 2 ^ 64"
      and "\<not> sint i < 0 \<Longrightarrow> sint i mod 2 ^ 64 = sint i"
      by - (rule mod_pos_pos_trivial, simp_all)+
    then show ?thesis using uint_sint [of i] by (simp add: take_bit_eq_mod)
  qed
  ultimately have "uint uu = (if sint i < 0 then - 1 - sint i else sint i)" by (simp add: uu_def neg)
  then have range: "uu \<le> 140737488355327 \<longleftrightarrow> - (2 ^ 47) \<le> sint i \<and> sint i < 2 ^ 47"
    by (auto simp: word_le_def)
  assume "int_type new_format i = (t, len)"
  then have t: "t = (if uu \<le> 127 then (if i AND 1 = i \<and> new_format then 8 + ucast uu else 1)
      else if uu \<le> 32767 then 2 else if uu \<le> 8388607 then 3 else if uu \<le> 2147483647 then 4
      else if uu \<le> 140737488355327 then 5 else 6)"
    by (auto simp: uu_def Let_def split: if_splits)
  have "i AND 1 = i \<Longrightarrow> uu = 0 \<or> uu = 1"
    unfolding uu_def using and_one_eq [of i] by (auto simp: word_sless_alt mod2_eq_if split: if_splits)
  then have "i AND 1 = i \<Longrightarrow> 8 + ucast uu \<noteq> (6 :: u32)" by auto
  then have "t = 6 \<longleftrightarrow> \<not> uu \<le> 140737488355327" unfolding t by (auto simp: word_le_nat_alt)
  with range show "t = 6 \<longleftrightarrow> \<not> (- (2 ^ 47) \<le> sint i \<and> sint i < 2 ^ 47)" by simp
qed

lemma varint_len_put: "length (sqlite3PutVarint (ucast (t :: u32))) = sqlite3VarintLen (ucast t)"
proof -
  have "unat t < 2 ^ 32" using unsigned_less [of t] by simp
  then have "sqlite3VarintLen (ucast t) \<le> 9" by (simp add: sqlite3VarintLen_iff)
  then show ?thesis by (simp add: varint_length)
qed

lemma varint_len_1: "t < 0x80 \<Longrightarrow> sqlite3VarintLen (ucast (t :: u32)) = 1"
  by (simp add: put_type flip: varint_len_put)

lemma length_header: "field_reads f zeros x \<Longrightarrow> length (fst (field_bytes f)) = sqlite3VarintLen (ucast (snd f))"
  by (auto simp: field_reads_def Let_def case_prod_beta varint_len_put)

lemma of_nat_32: "n < 2 ^ 32 \<Longrightarrow> unat (of_nat n :: u32) = n"
  by (simp add: unat_of_nat)

lemma type_32: 
  assumes "n + k \<le> SQLITE_MAX_LENGTH" 
  shows "unat (of_nat n :: u32) = n" "unat (of_nat n + of_nat k :: u32) = n + k"
    "unat (of_nat n * 2 + 12 + 1 :: u32) = 2 * n + 12 + of_bool True"
    "unat (of_nat n * 2 + 12 :: u32) = 2 * n + 12 + of_bool False"
    "unat (of_nat n * 2 + 12 + of_nat k * 2 :: u32) = 2 * (n + k) + 12 + of_bool False"
  using assms of_nat_32 [of n] of_nat_32 [of "n + k"] of_nat_32 [of "2 * n + 13"] of_nat_32 [of "2 * n + 12"] of_nat_32 [of "2 * (n + k) + 12"]
  by (simp_all add: SQLITE_MAX_LENGTH_def algebra_simps)

lemma int_type_1: "int_type new_format i = (t, len) \<Longrightarrow> sqlite3VarintLen (ucast t) = 1"
proof -
  assume "int_type new_format i = (t, len)"
  then have "t < 0x80" by (rule type_cases) (simp_all add: word_less_nat_alt)
  then show ?thesis by (rule varint_len_1)
qed

lemma register_reads:
  assumes "register_type new_format to_double grow m s = Inr (f, s')" "mem_size m \<le> SQLITE_MAX_LENGTH"
  obtains zeros where "field_reads f zeros (stored to_double m)"
    "nHdr s' = nHdr s + length (fst (field_bytes f))" "nData s' = nData s + length (snd (field_bytes f))"
    "nZeros s' = nZeros s + zeros" "zeros \<noteq> 0 \<Longrightarrow> nData s = 0"
proof (cases m)
  case (Mem_Null x1)
  then show ?thesis using that [of 0] assms(1) null_reads [of x1] by (auto simp: word_le_nat_alt)
next
  case (Mem_Int i)
  obtain t len where t: "int_type new_format i = (t, len)" by fastforce
  with Mem_Int show ?thesis
    using assms(1) int_reads [OF t, of m] that [of 0] length_header [of "(m, t)" 0] int_type_1 [OF t] 
    by (auto simp del: int_type.simps field_bytes.simps)
next
  case (Mem_IntReal i)
  obtain t len where t: "int_type new_format i = (t, len)" by fastforce
  then have "t = 6 \<Longrightarrow> len = 8" by (rule type_cases) simp_all
  with t Mem_IntReal show ?thesis
    using assms(1) int_reads [OF t, of m] that [of 0] length_header [of "(m, t)" 0] int_type_1 [OF t]
      six_bytes [OF t] real_reads [of "to_double i"] length_header [OF real_reads] varint_len_1 [of 7]
      real_data
    by (cases "t = 6") (auto simp: word_less_nat_alt simp del: int_type.simps field_bytes.simps)
next
  case (Mem_Real r)
  then show ?thesis using that [of 0] assms(1) real_reads [of r] 
    by (auto simp: sqlite3SmallTypeSizes_def)
next
  case (Mem_Str z)
  with assms(2) have "length z + 0 \<le> SQLITE_MAX_LENGTH" by simp
  note len = type_32 [OF this]
  from Mem_Str show ?thesis using assms(1) len(1) that [of 0]
   bytes_reads [of _ "length z" True m z 0, OF len(3)] length_header [of "(m, _)" 0]
   by (auto simp: Let_def simp del: field_bytes.simps)
next
  case (Mem_Blob z)
  with assms(2) have "length z + 0 \<le> SQLITE_MAX_LENGTH" by simp
  note len = type_32 [OF this]
  from Mem_Blob show ?thesis using assms(1) len(1) that [of 0]
   bytes_reads [of _ "length z" False m z 0, OF len(4)] length_header [of "(m, _)" 0]
   by (auto simp: Let_def simp del: field_bytes.simps)
next
  case (Mem_Zero z n)
  with assms(2) have "length z + n \<le> SQLITE_MAX_LENGTH" by simp
  note len = type_32 [OF this]
  show ?thesis
  proof (cases "nData s = 0")
    case True
    with Mem_Zero show ?thesis
      using assms(1) len(1) that [of n] bytes_reads [of _ "length z + n" False m z n, OF len(5)]
        length_header [of "(m, _)" n]
      by (auto simp: Let_def simp del: field_bytes.simps)
  next
    case False
    with Mem_Zero show ?thesis
      using assms(1) len(2) that [of 0] length_header [of "(Mem_Blob (z @ replicate n 0), _)" 0]
        bytes_reads [of _ "length z + n" False "Mem_Blob (z @ replicate n 0)" "z @ replicate n 0" 0, OF len(5)]
      by (auto simp: Let_def sqlite3VdbeMemExpandBlob_def simp del: field_bytes.simps split: if_splits)
  qed
qed

end
