(* ===== verification/Sql_Rows.thy ===== *)
theory Sql_Rows
  imports Sql_Records
begin

text \<open>
  Rows as records: what the two loops of \<open>OP_MakeRecord\<close> leave in the buffer, the length of the
  header that contains its own length, and what the loop of \<open>sqlite3VdbeRecordUnpack\<close> finds there.
\<close>

subsection \<open>The fields of a row\<close>

definition heads :: "(Mem \<times> u32) list \<Rightarrow> byte list" where
  "heads fs = concat (map (fst \<circ> field_bytes) fs)"

definition datas :: "(Mem \<times> u32) list \<Rightarrow> byte list" where
  "datas fs = concat (map (snd \<circ> field_bytes) fs)"

lemma heads_datas [simp]: "heads [] = []" "datas [] = []"
  "heads (f # fs) = fst (field_bytes f) @ heads fs" "datas (f # fs) = snd (field_bytes f) @ datas fs"
  by (simp_all add: heads_def datas_def)

lemma bytes_at_mem_at [simp]: "bytes_at (mem_at p i) j bs \<longleftrightarrow> bytes_at p (i + j) bs"
  by (simp add: bytes_at_def mem_at_def add.assoc)

lemma get_put_32:
  assumes "bytes_at p 0 (sqlite3PutVarint (ucast (t :: u32)))"
  shows "getVarint32 p = (length (sqlite3PutVarint (ucast t)), t)"
  using varint_written_read [OF assms] by (simp add: getVarint32_eq narrow_32)

lemma put_nonempty: "0 < length (sqlite3PutVarint (ucast (t :: u32)))"
proof -
  have "\<not> sqlite3VarintLen (ucast t) \<le> 0" by (simp only: sqlite3VarintLen_iff) simp
  then show ?thesis by (simp add: varint_len_put)
qed

lemma type_loop_sums:
  assumes "type_loop new_format to_double grow ms = Inr (fs, s)" "\<forall>m \<in> set ms. mem_size m \<le> SQLITE_MAX_LENGTH"
  shows "nHdr s = length (heads fs) \<and> nData s = length (datas fs)"
  using assms
proof (induction ms arbitrary: fs s)
  case (Cons m ms)
  then obtain fs' s' f where fs: "type_loop new_format to_double grow ms = Inr (fs', s')"
      "register_type new_format to_double grow m s' = Inr (f, s)" "fs = f # fs'"
    by (auto simp: res_bind_Inr_iff)
  then show ?case using Cons.IH [OF fs(1)] Cons.prems(2) by (auto elim!: register_reads)
qed auto

lemma unat_plus_32: "unat (a :: u32) + n < 2 ^ 32 \<Longrightarrow> unat (a + of_nat n) = unat a + n"
  by (simp add: unat_word_ariths unat_of_nat)

lemma unpack_reads:
  assumes "type_loop new_format to_double grow ms = Inr (fs, s)" "\<forall>m \<in> set ms. mem_size m \<le> SQLITE_MAX_LENGTH"
    "bytes_at p (unat idx) (heads fs)" "unat idx + length (heads fs) = unat szHdr"
    "bytes_at p (unat d) (datas fs @ replicate (nZeros s) 0)"
    "unat d + length (datas fs) + nZeros s = unat nKey" "length ms \<le> room"
  shows "unpack_loop p szHdr nKey room idx d = (map (stored to_double) ms, nKey)"
  using assms
proof (induction ms arbitrary: fs s idx d room)
  case Nil
  then have "idx = szHdr" "d = nKey" by (auto simp: word_unat_eq_iff)
  then show ?case by (cases room) simp_all
next
  case (Cons m ms)
  obtain fs' s' f where fs: "type_loop new_format to_double grow ms = Inr (fs', s')"
      "register_type new_format to_double grow m s' = Inr (f, s)" "fs = f # fs'"
    using Cons.prems(1) by (auto simp: res_bind_Inr_iff)
  obtain zeros where reads: "field_reads f zeros (stored to_double m)"
      "nZeros s = nZeros s' + zeros" "zeros \<noteq> 0 \<Longrightarrow> nData s' = 0"
    using register_reads [OF fs(2)] Cons.prems(2) by auto
  have no_data: "zeros = 0 \<or> datas fs' = []"
    using reads(3) type_loop_sums [OF fs(1)] Cons.prems(2) by auto
  obtain h dm t where f: "field_bytes f = (h, dm)" "snd f = t" by fastforce
  obtain room' where room: "room = Suc room'" "length ms \<le> room'" using Cons.prems(7) by (cases room) auto
  have h: "h = sqlite3PutVarint (ucast t)" and len: "unat (sqlite3VdbeSerialTypeLen t) = length dm + zeros"
    and get: "\<And>buf. bytes_at buf 0 (dm @ replicate zeros 0) \<Longrightarrow> sqlite3VdbeSerialGet buf t = stored to_double m"
    using reads(1) f by (auto simp: field_reads_def)
  have less: "unat szHdr < 2 ^ 32" "unat nKey < 2 ^ 32"
    using unsigned_less [of szHdr] unsigned_less [of nKey] by simp_all
  have mem: "bytes_at p (unat idx) h" "bytes_at p (unat d) (dm @ replicate zeros 0)"
    "bytes_at p (unat d + length dm + zeros) (datas fs' @ replicate (nZeros s') 0)"
    "bytes_at p (unat idx + length h) (heads fs')"
    using Cons.prems(3,5) no_data by (auto simp: fs(3) f reads(2) replicate_add add.commute add.left_commute)
  have var: "getVarint32 (mem_at p (unat idx)) = (length h, t)"
    using get_put_32 [of "mem_at p (unat idx)" t] mem(1) by (simp add: h)
  have idx: "unat (idx + of_nat (length h)) = unat idx + length h"
    using Cons.prems(4) less by (intro unat_plus_32) (simp add: fs(3) f)
  have "sqlite3VdbeSerialTypeLen t = of_nat (length dm + zeros)" by (simp flip: len)
  then have d: "unat (d + sqlite3VdbeSerialTypeLen t) = unat d + length dm + zeros"
    using unat_plus_32 [of d "length dm + zeros"] Cons.prems(6) less no_data
    by (auto simp: fs(3) f reads(2))
  have "unpack_loop p szHdr nKey room' (idx + of_nat (length h)) (d + sqlite3VdbeSerialTypeLen t) =
      (map (stored to_double) ms, nKey)"
    using Cons.prems(2,4,6) mem(3,4) room(2)
    by (intro Cons.IH [OF fs(1)]) (simp_all add: fs(3) f idx d reads(2))
  moreover have "0 < length h" by (simp only: h put_nonempty)
  then have "idx < szHdr" "d \<le> nKey"
    using Cons.prems(4,6) by (simp_all only: word_less_nat_alt word_le_nat_alt fs(3) f heads_datas fst_conv
        length_append)
  ultimately show ?case using get [of "mem_at p (unat d)"] mem(2) by (simp add: room(1) var)
qed

lemma write_at_Nil [simp]: "write_at i [] p = p"
  by (intro ext) (auto simp: write_at_def)

lemma write_loop_eq:
  assumes "zHdr + length (heads fs) \<le> zPayload"
  shows "write_loop fs (p, zHdr, zPayload) =
    (write_at zPayload (datas fs) (write_at zHdr (heads fs) p), zHdr + length (heads fs), zPayload + length (datas fs))"
  using assms
proof (induction fs arbitrary: p zHdr zPayload)
  case Nil
  then show ?case by simp
next
  case (Cons f fs)
  obtain h d where f: "field_bytes f = (h, d)" by fastforce
  have "write_at (zPayload + length d) (datas fs) (write_at (zHdr + length h) (heads fs) (write_at zPayload d (write_at zHdr h p)))
    = write_at zPayload (d @ datas fs) (write_at zHdr (h @ heads fs) p)"
    using Cons.prems by (intro ext) (auto simp: write_at_def nth_append f)
  then show ?case using Cons.IH Cons.prems by (simp add: f add.assoc)
qed

lemma varint_len_nat:
  assumes "k < 2 ^ 33"
  shows "sqlite3VarintLen (of_nat k) \<le> j \<longleftrightarrow> 0 < j \<and> k < 2 ^ (7 * j)"
    "length (sqlite3PutVarint (of_nat k)) = sqlite3VarintLen (of_nat k)"
proof -
  have "unat (of_nat k :: u64) = k" using assms by (simp add: unat_of_nat)
  then show 1: "sqlite3VarintLen (of_nat k) \<le> j \<longleftrightarrow> 0 < j \<and> k < 2 ^ (7 * j)" for j
    by (simp add: sqlite3VarintLen_iff)
  from 1 [of 9] assms show "length (sqlite3PutVarint (of_nat k)) = sqlite3VarintLen (of_nat k)"
    by (simp add: varint_length)
qed

text \<open>The length of the header is the length that it says it has.\<close>

lemma header_size_eq:
  assumes "n < 2 ^ 32"
  shows "length (sqlite3PutVarint (of_nat (header_size n))) + n = header_size n"
proof -
  define V where "V k = sqlite3VarintLen (of_nat k)" for k :: nat
  have V: "V k \<le> j \<longleftrightarrow> 0 < j \<and> k < 2 ^ (7 * j)" "length (sqlite3PutVarint (of_nat k)) = V k" if "k < 2 ^ 33" for k j
    using varint_len_nat [OF that] by (simp_all add: V_def)
  have VI: "V k = j" if "k < 2 ^ 33" "0 < j" "k < 2 ^ (7 * j)" "j = 1 \<or> 2 ^ (7 * (j - 1)) \<le> k" for k j
    using V(1) [OF that(1), of j] V(1) [OF that(1), of "j - 1"] that(2-4) by linarith
  show ?thesis
  proof (cases "n \<le> 126")
    case True
    then show ?thesis using V(2) [of "n + 1"] VI [of "n + 1" 1] by (simp add: header_size_def)
  next
    case False
    have n: "n < 2 ^ 33" "n < 2 ^ (7 * 5)" using assms by simp_all
    define L where "L = V n"
    have L: "0 < L" "n < 2 ^ (7 * L)" "L \<le> 5" "L = 1 \<or> 2 ^ (7 * (L - 1)) \<le> n"
      using V(1) [OF n(1), of L] V(1) [OF n(1), of 5] V(1) [OF n(1), of "L - 1"] n(2) by (auto simp: L_def)
    have big: "n + L + 1 < 2 ^ 33" using assms L(3) by simp
    have size: "header_size n = (if L < V (n + L) then n + L + 1 else n + L)"
      using False by (simp add: header_size_def Let_def L_def V_def)
    show ?thesis
    proof (cases "L < V (n + L)")
      case True
      then have "2 ^ (7 * L) \<le> n + L" using V(1) [of "n + L" L] big L(1) by auto
      moreover have "(2::nat) ^ (7 * (L + 1)) = 128 * 2 ^ (7 * L)" by (simp add: power_add)
      then have "n + L + 1 < 2 ^ (7 * (L + 1))" using L(2,3) by linarith
      ultimately have "V (n + L + 1) = L + 1" using big by (intro VI) simp_all
      then show ?thesis using V(2) [OF big] True by (simp add: size)
    next
      case False
      then have "n + L < 2 ^ (7 * L)" using V(1) [of "n + L" L] big by simp
      with L big have "V (n + L) = L" by (intro VI) auto
      then show ?thesis using V(2) [of "n + L"] big False by (simp add: size)
    qed
  qed
qed

lemma type_loop_fails: "type_loop new_format to_double grow ms = Inl e \<Longrightarrow> e = no_mem \<and> (\<exists>n. \<not> grow n)"
proof (induction ms)
  case (Cons m ms)
  then show ?case
    by (cases m; cases "type_loop new_format to_double grow ms")
      (auto simp: sqlite3VdbeMemExpandBlob_def Let_def split: prod.splits if_splits)
qed simp

lemma int_len: "int_type new_format i = (t, len) \<Longrightarrow> len \<le> 8"
  by (erule type_cases) simp_all

lemma varint_len_5: "sqlite3VarintLen (ucast (t :: u32)) \<le> 5"
proof -
  have "unat t < 2 ^ 32" using unsigned_less [of t] by simp
  then show ?thesis by (simp add: sqlite3VarintLen_iff)
qed

lemma unat_of_nat_le: "unat (of_nat n :: u32) \<le> n" "unat (of_nat n + of_nat k :: u32) \<le> n + k"
proof -
  show 1: "unat (of_nat n :: u32) \<le> n" for n by (simp add: unat_of_nat)
  show "unat (of_nat n + of_nat k :: u32) \<le> n + k" using 1 [of "n + k"] by simp
qed

lemma register_size:
  "register_type new_format to_double grow m s = Inr (f, s') \<Longrightarrow>
   nHdr s' + nData s' + nZeros s' \<le> nHdr s + nData s + nZeros s + 13 + mem_size m"
  using varint_len_5 [of "snd f"] unat_of_nat_le(1) [of "length (mem_z m)"]
    unat_of_nat_le(2) [of "length (mem_z m)" "mem_size m - length (mem_z m)"]
  by (cases m) (auto simp: Let_def sqlite3VdbeMemExpandBlob_def simp del: int_type.simps dest!: int_len split: prod.splits if_splits)


lemma type_loop_size:
  "type_loop new_format to_double grow ms = Inr (fs, s) \<Longrightarrow>
   nHdr s + nData s + nZeros s \<le> (\<Sum>m \<leftarrow> ms. 13 + mem_size m)"
proof (induction ms arbitrary: fs s)
  case (Cons m ms)
  then obtain fs' s' f where "type_loop new_format to_double grow ms = Inr (fs', s')"
      "register_type new_format to_double grow m s' = Inr (f, s)"
    by (auto simp: res_bind_Inr_iff)
  with Cons.IH [of fs' s'] register_size [of new_format to_double grow m s' f s] show ?case by simp
qed auto

lemma header_size_le: "n < 2 ^ 32 \<Longrightarrow> n < header_size n \<and> header_size n \<le> n + 6"
  using varint_len_nat(1) [of n 5] varint_len_nat(1) [of n 0] by (auto simp: header_size_def Let_def)

lemma header_size_ge: "n \<le> header_size n"
  by (simp add: header_size_def Let_def)

lemma nat_32_64: "n < 2 ^ 32 \<Longrightarrow> (ucast (of_nat n :: u32) :: u64) = of_nat n"
  by (rule word_unat_eq_iff [THEN iffD2]) (simp add: unat_of_nat)

lemma put_header:
  assumes "hdr < 0x80"
  shows "sqlite3PutVarint (of_nat hdr) = [of_nat hdr]"
proof -
  have "(of_nat hdr :: u32) < 0x80" using assms by (simp add: word_less_nat_alt unat_of_nat)
  moreover have "(ucast (of_nat hdr :: u32) :: byte) = of_nat hdr"
    by (rule bit_word_eqI) (simp add: bit_simps)
  ultimately show ?thesis using put_type [of "of_nat hdr"] nat_32_64 [of hdr] assms by simp
qed

lemma record_memory:
  assumes "length put + length hs = hdr" "p = write_at hdr ds (write_at (length put) hs (write_at 0 put z))"
  shows "bytes_at (\<lambda>i. if i < hdr + length ds then p i else 0) 0 (put @ hs @ ds @ replicate k 0)"
  unfolding assms(2) assms(1) [symmetric] by (auto simp: bytes_at_def write_at_def nth_append add.assoc)

lemma unpack_record:
  assumes "type_loop new_format to_double grow ms = Inr (fs, s)" "\<forall>m \<in> set ms. mem_size m \<le> SQLITE_MAX_LENGTH"
    "length put + length (heads fs) = hdr" "put = sqlite3PutVarint (of_nat hdr)"
    "hdr + length (datas fs) + nZeros s < 2 ^ 32" "length ms \<le> nField"
    "bytes_at q 0 (put @ heads fs @ datas fs @ replicate (nZeros s) 0)"
  shows "sqlite3VdbeRecordUnpack q (of_nat (hdr + length (datas fs) + nZeros s)) nField = map (stored to_double) ms"
proof -
  have nat: "unat (of_nat hdr :: u32) = hdr" "unat (of_nat (length put) :: u32) = length put"
    "unat (of_nat (hdr + length (datas fs) + nZeros s) :: u32) = hdr + length (datas fs) + nZeros s"
    using assms(3,5) of_nat_32 [of hdr] of_nat_32 [of "length put"]
      of_nat_32 [of "hdr + length (datas fs) + nZeros s"] by (simp_all del: of_nat_add)
  have "getVarint32 q = (length put, of_nat hdr)"
    using get_put_32 [of q "of_nat hdr"] nat_32_64 [of hdr] assms(3,4,5,7) by simp
  moreover have "unpack_loop q (of_nat hdr) (of_nat (hdr + length (datas fs) + nZeros s)) nField
      (of_nat (length put)) (of_nat hdr) = (map (stored to_double) ms, of_nat (hdr + length (datas fs) + nZeros s))"
    using assms(3,6,7) by (intro unpack_reads [OF assms(1,2)]) (simp_all add: nat del: of_nat_add)
  ultimately show ?thesis by (simp add: sqlite3VdbeRecordUnpack_def del: of_nat_add)
qed

text \<open>The record that \<open>OP_MakeRecord\<close> leaves in the buffer \<open>z\<close>.\<close>

definition record_of :: "(Mem \<times> u32) list \<Rightarrow> type_sums \<Rightarrow> memory \<Rightarrow> memory" where
  "record_of fs s z =
     (let hdr = header_size (nHdr s); put = sqlite3PutVarint (of_nat hdr)
      in write_at hdr (datas fs) (write_at (length put) (heads fs) (write_at 0 put z)))"

lemma record_made:
  assumes "type_loop new_format to_double grow ms = Inr (fs, s)" "\<forall>m \<in> set ms. mem_size m \<le> SQLITE_MAX_LENGTH"
    "hdr = header_size (nHdr s)" "nHdr s < 2 ^ 32"
  shows "OP_MakeRecord new_format to_double grow limit szMalloc z ms =
      (if hdr + nData s + nZeros s \<le> szMalloc then Inr (record_of fs s z, hdr + nData s, nZeros s)
       else if limit < hdr + nData s + nZeros s then Inl too_big
       else if \<not> grow (hdr + nData s) then Inl no_mem
       else Inr (record_of fs s z, hdr + nData s, nZeros s))"
proof -
  define put where "put = sqlite3PutVarint (of_nat hdr)"
  have sums: "length (heads fs) = nHdr s" "length (datas fs) = nData s"
    using type_loop_sums [OF assms(1,2)] by simp_all
  have "(if hdr < 0x80 then (1, write_at 0 [of_nat hdr] z)
      else (length (sqlite3PutVarint (of_nat hdr)), write_at 0 (sqlite3PutVarint (of_nat hdr)) z)) =
      (length put, write_at 0 put z)"
    using put_header [of hdr] by (simp add: put_def)
  moreover have "write_loop fs (write_at 0 put z, length put, hdr) = (record_of fs s z, hdr, hdr + nData s)"
    using header_size_eq [OF assms(4)] write_loop_eq [of "length put" fs hdr]
    by (simp add: put_def assms(3) record_of_def sums Let_def)
  ultimately show ?thesis
    by (simp only: OP_MakeRecord_def assms(1) res_bind_simps case_prod_conv Let_def flip: assms(3))
qed

lemma record_read:
  assumes "type_loop new_format to_double grow ms = Inr (fs, s)" "\<forall>m \<in> set ms. mem_size m \<le> SQLITE_MAX_LENGTH"
    "hdr = header_size (nHdr s)" "hdr + nData s + nZeros s < 2 ^ 31" "length ms \<le> nField"
  shows "sqlite3VdbeRecordUnpack (\<lambda>i. if i < hdr + nData s then record_of fs s z i else 0)
    (of_nat (hdr + nData s + nZeros s)) nField = map (stored to_double) ms"
proof -
  define put where "put = sqlite3PutVarint (of_nat hdr)"
  have sums: "length (heads fs) = nHdr s" "length (datas fs) = nData s"
    using type_loop_sums [OF assms(1,2)] by simp_all
  have "nHdr s < 2 ^ 32" using header_size_ge [of "nHdr s"] assms(3,4) by simp
  then have put: "length put + length (heads fs) = hdr"
    using header_size_eq [of "nHdr s"] by (simp add: put_def assms(3) sums)
  show ?thesis
    using assms(4,5) record_memory [OF put, of "record_of fs s z" "datas fs" z "nZeros s"]
      unpack_record [OF assms(1,2) put put_def]
    by (simp add: record_of_def put_def sums Let_def flip: assms(3))
qed

text \<open>C24: A row that was made into a record is read back from it, register by register, whatever the
  values, their number and the sizes of the header: integers of every width, texts, blobs with and
  without zeros that are not stored, reals, NULL.  There is a record unless an allocation fails or
  the row is longer than the limit.\<close>

theorem record_roundtrip:
  assumes "\<forall>m \<in> set ms. mem_size m \<le> SQLITE_MAX_LENGTH" "length ms \<le> nField"
    "limit < 2 ^ 31" "szMalloc < 2 ^ 31"
  shows "case OP_MakeRecord new_format to_double grow limit szMalloc z ms of
      Inr (p, n, nZero) \<Rightarrow>
        sqlite3VdbeRecordUnpack (\<lambda>i. if i < n then p i else 0) (of_nat (n + nZero)) nField =
        map (stored to_double) ms
    | Inl too_big \<Rightarrow> limit < 6 + (\<Sum>m \<leftarrow> ms. 13 + mem_size m)
    | Inl no_mem \<Rightarrow> \<exists>n. \<not> grow n"
proof (cases "type_loop new_format to_double grow ms")
  case (Inl e)
  then show ?thesis using type_loop_fails [OF Inl] by (simp add: OP_MakeRecord_def)
next
  case (Inr r)
  obtain fs s where loop: "type_loop new_format to_double grow ms = Inr (fs, s)" using Inr by (cases r) auto
  define hdr where "hdr = header_size (nHdr s)"
  show ?thesis
  proof (cases "nHdr s < 2 ^ 32")
    case True
    have "limit < hdr + nData s + nZeros s \<Longrightarrow> limit < 6 + (\<Sum>m \<leftarrow> ms. 13 + mem_size m)"
      using header_size_le [OF True] type_loop_size [OF loop] by (simp add: hdr_def)
    then show ?thesis
      using assms record_read [OF loop assms(1) hdr_def _ assms(2)]
      by (auto simp: record_made [OF loop assms(1) hdr_def True])
  next
    case False
    with header_size_ge [of "nHdr s"] have "limit < hdr + nData s + nZeros s" "szMalloc < hdr + nData s + nZeros s"
      using assms(3,4) by (simp_all add: hdr_def)
    then have "OP_MakeRecord new_format to_double grow limit szMalloc z ms = Inl too_big"
      by (simp add: OP_MakeRecord_def loop Let_def flip: hdr_def)
    then show ?thesis using False assms(3) type_loop_size [OF loop] by simp
  qed
qed

lemma record_roundtrip_witness:
  "case OP_MakeRecord True (\<lambda>_. 0) (\<lambda>_. True) 1000 0 (\<lambda>_. 7)
      [Mem_Int 1, Mem_Null False, Mem_Str [97, 98], Mem_Int (- 200), Mem_Zero [99] 1] of
    Inr (p, n, nZero) \<Rightarrow>
      sqlite3VdbeRecordUnpack (\<lambda>i. if i < n then p i else 0) (of_nat (n + nZero)) 5 =
      [Mem_Int 1, Mem_Null False, Mem_Str [97, 98], Mem_Int (- 200), Mem_Blob [99, 0]]
  | Inl e \<Rightarrow> False"
  using record_roundtrip [where new_format = True and to_double = "\<lambda>_. 0" and grow = "\<lambda>_. True" and
      limit = 1000 and szMalloc = 0 and z = "\<lambda>_. 7" and nField = 5 and
      ms = "[Mem_Int 1, Mem_Null False, Mem_Str [97, 98], Mem_Int (- 200), Mem_Zero [99] 1]"]
  by (simp add: SQLITE_MAX_LENGTH_def split: sum.splits record_error.splits prod.splits)

end
